(* ===== verification/Profiler_Prelude.thy ===== *)
theory Profiler_Prelude
  imports Main "HOL-Library.Char_ord" "HOL-Library.List_Lexorder" "HOL-Library.Sublist"
begin

text \<open>
  Shared vocabulary of the development: Python values and errors, validators that stop at the
  first failing check, text helpers (decimal rendering, lower-case hexadecimal, printable ASCII)
  and the lemma collections the component theories add to.

  Text. A Python string is modelled by the list of the bytes of its UTF-8 encoding, one
  \<^typ>\<open>char\<close> per byte. Prefix tests, concatenation, equality, and the comparison of strings
  (UTF-8 keeps the order of code points) read the same on both sides, an ASCII test is a test on
  every byte, and the length of the encoded text, which is what every bound of the runtime
  protocol counts, is the length of the list. Lone surrogates have no encoding and are outside
  the model.

  Dictionaries are association lists in insertion order.
\<close>

named_theorems accept_simps \<open>when a validator accepts\<close>
named_theorems text_simps \<open>lengths and alphabets of rendered text\<close>
named_theorems frame_simps \<open>fields an operation leaves alone\<close>

section \<open>Python values and errors\<close>

datatype pyval =
    PNone
  | PBool bool
  | PInt int
  | PStr string
  | PList "pyval list"
  | PDict "(string \<times> pyval) list"

type_synonym pydict = "(string \<times> pyval) list"

datatype pyerr =
    ProtocolValidationError string
  | ValueError string
  | TypeError string
  | OverflowError string
  | OSError string
  | FileExistsError string
  | KeyError string
  | AttributeError string
  | RuntimeError string
  | RecursionError string
  | AssertionError

type_synonym 'a res = "pyerr + 'a"

text \<open>Python's \<open>dict.get(key)\<close>: a missing key reads as \<open>None\<close>.\<close>

definition dget :: "pydict \<Rightarrow> string \<Rightarrow> pyval" where
  "dget d k = (case map_of d k of None \<Rightarrow> PNone | Some v \<Rightarrow> v)"

text \<open>\<open>set(d) == keys\<close>\<close>

definition keys_are :: "(string \<times> 'a) list \<Rightarrow> string list \<Rightarrow> bool" where
  "keys_are d ks \<longleftrightarrow> set (map fst d) = set ks"

text \<open>
  Python's \<open>==\<close> between a value and an integer constant: a Boolean is an integer, so
  \<open>True == 1\<close> and \<open>False == 0\<close>.
\<close>

fun eq_int :: "pyval \<Rightarrow> int \<Rightarrow> bool" where
  "eq_int (PInt i) n = (i = n)"
| "eq_int (PBool b) n = (of_bool b = n)"
| "eq_int _ n = False"

definition eq_str :: "pyval \<Rightarrow> string \<Rightarrow> bool" where
  "eq_str v s \<longleftrightarrow> v = PStr s"

fun str_in :: "pyval \<Rightarrow> string list \<Rightarrow> bool" where
  "str_in (PStr s) xs = (s \<in> set xs)"
| "str_in _ xs = False"

fun is_bool :: "pyval \<Rightarrow> bool" where
  "is_bool (PBool _) = True"
| "is_bool _ = False"

text \<open>\<open>isinstance(v, int)\<close>, which a Boolean satisfies, and its integer value.\<close>

fun as_int :: "pyval \<Rightarrow> int option" where
  "as_int (PInt i) = Some i"
| "as_int (PBool b) = Some (of_bool b)"
| "as_int _ = None"

text \<open>\<open>type(v) is int\<close>, or \<open>isinstance(v, int) and not isinstance(v, bool)\<close>.\<close>

fun as_strict_int :: "pyval \<Rightarrow> int option" where
  "as_strict_int (PInt i) = Some i"
| "as_strict_int _ = None"

fun nonempty_str :: "pyval \<Rightarrow> bool" where
  "nonempty_str (PStr s) = (s \<noteq> [])"
| "nonempty_str _ = False"

fun opt_str :: "string option \<Rightarrow> pyval" where
  "opt_str None = PNone"
| "opt_str (Some s) = PStr s"

fun opt_int :: "int option \<Rightarrow> pyval" where
  "opt_int None = PNone"
| "opt_int (Some i) = PInt i"

section \<open>Validators\<close>

text \<open>
  A validator of the source raises at its first failing check and returns nothing otherwise. It
  is modelled by the list of its checks in order; each check is \<open>None\<close> when it passes.
\<close>

fun first_error :: "pyerr option list \<Rightarrow> pyerr option" where
  "first_error [] = None"
| "first_error (None # cs) = first_error cs"
| "first_error (Some e # cs) = Some e"

definition fails :: "bool \<Rightarrow> pyerr \<Rightarrow> pyerr option" where
  "fails b e = (if b then Some e else None)"

text \<open>Return a value once the checks have passed.\<close>

definition checked :: "pyerr option \<Rightarrow> 'a \<Rightarrow> 'a res" where
  "checked c x = (case c of None \<Rightarrow> Inr x | Some e \<Rightarrow> Inl e)"

lemma first_error_None [accept_simps]:
  "first_error cs = None \<longleftrightarrow> (\<forall>c \<in> set cs. c = None)"
  by (induction cs rule: first_error.induct) auto

lemma fails_None [accept_simps]: "fails b e = None \<longleftrightarrow> \<not> b"
  by (simp add: fails_def)

lemma checked_Inr [accept_simps]: "checked c x = Inr y \<longleftrightarrow> c = None \<and> y = x"
  by (auto simp: checked_def split: option.splits)

lemma checked_Inl [accept_simps]: "checked c x = Inl e \<longleftrightarrow> c = Some e"
  by (auto simp: checked_def split: option.splits)

lemma first_error_append:
  "first_error (xs @ ys) = (case first_error xs of None \<Rightarrow> first_error ys | Some e \<Rightarrow> Some e)"
  by (induction xs rule: first_error.induct) auto

lemma first_error_Some: "first_error cs = Some e \<Longrightarrow> Some e \<in> set cs"
  by (induction cs rule: first_error.induct) auto

section \<open>Characters and alphabets\<close>

definition code :: "char \<Rightarrow> nat" where
  "code c = of_char c"

definition is_digit :: "char \<Rightarrow> bool" where
  "is_digit c \<longleftrightarrow> 48 \<le> code c \<and> code c \<le> 57"

text \<open>The class \<open>[0-9a-f]\<close>.\<close>

definition is_lhex :: "char \<Rightarrow> bool" where
  "is_lhex c \<longleftrightarrow> is_digit c \<or> 97 \<le> code c \<and> code c \<le> 102"

definition is_lower :: "char \<Rightarrow> bool" where
  "is_lower c \<longleftrightarrow> 97 \<le> code c \<and> code c \<le> 122"

definition is_ascii :: "string \<Rightarrow> bool" where
  "is_ascii s \<longleftrightarrow> list_all (\<lambda>c. code c < 128) s"

definition is_printable_char :: "char \<Rightarrow> bool" where
  "is_printable_char c \<longleftrightarrow> 32 \<le> code c \<and> code c \<le> 126"

text \<open>\<open>value.isascii()\<close> and every character between space and tilde.\<close>

definition printable_ascii :: "string \<Rightarrow> bool" where
  "printable_ascii s \<longleftrightarrow> list_all is_printable_char s"

text \<open>The full match of \<open>[0-9a-f]{n}\<close>.\<close>

definition is_hex :: "nat \<Rightarrow> string \<Rightarrow> bool" where
  "is_hex n s \<longleftrightarrow> length s = n \<and> list_all is_lhex s"

lemma is_lhex_printable: "is_lhex c \<Longrightarrow> is_printable_char c"
  by (auto simp: is_lhex_def is_digit_def is_printable_char_def)

lemma is_digit_printable: "is_digit c \<Longrightarrow> is_printable_char c"
  by (auto simp: is_digit_def is_printable_char_def)

lemma is_hex_printable [text_simps]: "is_hex n s \<Longrightarrow> printable_ascii s"
  by (auto simp: is_hex_def printable_ascii_def list_all_iff intro: is_lhex_printable)

lemma is_hex_length [text_simps]: "is_hex n s \<Longrightarrow> length s = n"
  by (simp add: is_hex_def)

lemma printable_ascii_append [text_simps]:
  "printable_ascii (xs @ ys) \<longleftrightarrow> printable_ascii xs \<and> printable_ascii ys"
  by (simp add: printable_ascii_def)

lemma printable_ascii_Nil [text_simps]: "printable_ascii []"
  by (simp add: printable_ascii_def)

lemma printable_ascii_Cons [text_simps]:
  "printable_ascii (c # cs) \<longleftrightarrow> is_printable_char c \<and> printable_ascii cs"
  by (simp add: printable_ascii_def)

section \<open>Decimal numerals\<close>

definition digit_char :: "nat \<Rightarrow> char" where
  "digit_char d = char_of (48 + d)"

fun dec_nat :: "nat \<Rightarrow> string" where
  "dec_nat n = (if n < 10 then [digit_char n] else dec_nat (n div 10) @ [digit_char (n mod 10)])"

declare dec_nat.simps [simp del]

text \<open>\<open>str(i)\<close>\<close>

definition py_str_int :: "int \<Rightarrow> string" where
  "py_str_int i = (if i < 0 then CHR ''-'' # dec_nat (nat (- i)) else dec_nat (nat i))"

text \<open>\<open>int(s)\<close> for a string of digits.\<close>

definition dec_value :: "string \<Rightarrow> nat" where
  "dec_value s = foldl (\<lambda>a c. 10 * a + (code c - 48)) 0 s"

text \<open>The full match of \<open>(0|[1-9][0-9]{0,19})\<close>.\<close>

definition canon_dec :: "string \<Rightarrow> bool" where
  "canon_dec s \<longleftrightarrow> s \<noteq> [] \<and> length s \<le> 20 \<and> list_all is_digit s \<and>
     (hd s = CHR ''0'' \<longrightarrow> length s = 1)"

lemma code_digit_char [text_simps]: "d < 10 \<Longrightarrow> code (digit_char d) = 48 + d"
  by (simp add: code_def digit_char_def)

lemma is_digit_digit_char [text_simps]: "d < 10 \<Longrightarrow> is_digit (digit_char d)"
  by (simp add: is_digit_def code_digit_char)

lemma dec_value_snoc: "dec_value (s @ [c]) = 10 * dec_value s + (code c - 48)"
  by (simp add: dec_value_def)

lemma dec_value_dec_nat [simp]: "dec_value (dec_nat n) = n"
proof (induction n rule: dec_nat.induct)
  case (1 n)
  show ?case
  proof (cases "n < 10")
    case True
    then show ?thesis by (simp add: dec_nat.simps dec_value_def code_digit_char)
  next
    case False
    then have "dec_value (dec_nat n) = 10 * (n div 10) + n mod 10"
      using "1" by (subst dec_nat.simps) (simp add: dec_value_snoc code_digit_char)
    then show ?thesis by simp
  qed
qed

lemma dec_nat_inject [simp]: "dec_nat m = dec_nat n \<longleftrightarrow> m = n"
  by (metis dec_value_dec_nat)

lemma dec_nat_digits [text_simps]: "list_all is_digit (dec_nat n)"
proof (induction n rule: dec_nat.induct)
  case (1 n)
  then show ?case by (subst dec_nat.simps) (auto simp: is_digit_digit_char)
qed

lemma dec_nat_nonempty [simp]: "dec_nat n \<noteq> []"
  by (subst dec_nat.simps) simp

lemma dec_nat_length: "n < 10 ^ Suc k \<Longrightarrow> length (dec_nat n) \<le> Suc k"
proof (induction k arbitrary: n)
  case 0
  then show ?case by (subst dec_nat.simps) simp
next
  case (Suc k)
  show ?case
  proof (cases "n < 10")
    case True
    then show ?thesis by (subst dec_nat.simps) simp
  next
    case False
    have "n div 10 < 10 ^ Suc k" using Suc.prems by (simp add: less_mult_imp_div_less)
    from Suc.IH [OF this] False show ?thesis by (subst dec_nat.simps) simp
  qed
qed

lemma dec_nat_no_leading_zero: "0 < n \<Longrightarrow> hd (dec_nat n) \<noteq> CHR ''0''"
proof (induction n rule: dec_nat.induct)
  case (1 n)
  have zero: "code (CHR ''0'') = 48" by (simp add: code_def)
  show ?case
  proof (cases "n < 10")
    case True
    then have "code (digit_char n) = 48 + n" by (simp add: code_digit_char)
    with "1.prems" zero have "digit_char n \<noteq> CHR ''0''" by auto
    with True show ?thesis by (simp add: dec_nat.simps)
  next
    case False
    then show ?thesis using "1.IH" by (subst dec_nat.simps) simp
  qed
qed

lemma canon_dec_dec_nat:
  assumes "n < 10 ^ 20"
  shows "canon_dec (dec_nat n)"
proof -
  have "length (dec_nat n) \<le> 20" using dec_nat_length [of n 19] assms by simp
  moreover have "hd (dec_nat n) = CHR ''0'' \<Longrightarrow> length (dec_nat n) = 1"
    using dec_nat_no_leading_zero [of n] by (cases "n = 0") (auto simp: dec_nat.simps)
  ultimately show ?thesis by (simp add: canon_dec_def dec_nat_digits)
qed

lemma py_str_int_nonneg: "0 \<le> i \<Longrightarrow> py_str_int i = dec_nat (nat i)"
  by (simp add: py_str_int_def)

lemma py_str_int_inject:
  "0 \<le> i \<Longrightarrow> 0 \<le> j \<Longrightarrow> py_str_int i = py_str_int j \<longleftrightarrow> i = j"
  by (auto simp: py_str_int_nonneg)

section \<open>Identifiers of the form \<open>prefix:kind:sequence\<close>\<close>

definition id_of :: "string \<Rightarrow> char \<Rightarrow> int \<Rightarrow> string" where
  "id_of owner k n = owner @ CHR '':'' # k # CHR '':'' # py_str_int n"

text \<open>The full match of \<open>[0-9a-f]{32}:k:(0|[1-9][0-9]{0,19})\<close>.\<close>

definition id_pattern :: "char \<Rightarrow> string \<Rightarrow> bool" where
  "id_pattern k s \<longleftrightarrow> is_hex 32 (take 32 s) \<and> take 3 (drop 32 s) = [CHR '':'', k, CHR '':''] \<and>
     canon_dec (drop 35 s)"

text \<open>\<open>s.rsplit(":", 1)[1]\<close>\<close>

definition after_last_colon :: "string \<Rightarrow> string" where
  "after_last_colon s = rev (takeWhile (\<lambda>c. c \<noteq> CHR '':'') (rev s))"

lemma id_of_inject:
  assumes "0 \<le> m" "0 \<le> n" and "id_of p k m = id_of p k n"
  shows "m = n"
  using assms by (simp add: id_of_def py_str_int_inject)

lemma id_pattern_id_of:
  assumes "is_hex 32 p" "0 \<le> n" "n < 10 ^ 20"
  shows "id_pattern k (id_of p k n)"
proof -
  from assms(2,3) have "nat n < 10 ^ 20" by simp
  then show ?thesis
    using assms(1,2) by (simp add: id_pattern_def id_of_def py_str_int_nonneg canon_dec_dec_nat is_hex_def)
qed

lemma id_pattern_length: "id_pattern k s \<Longrightarrow> length s \<le> 55"
  by (auto simp: id_pattern_def canon_dec_def)

lemma id_pattern_prefix:
  assumes "id_pattern k s"
  shows "s = take 32 s @ CHR '':'' # k # CHR '':'' # drop 35 s"
proof -
  have "s = take 32 s @ take 3 (drop 32 s) @ drop 3 (drop 32 s)"
    by (simp only: append_take_drop_id)
  with assms show ?thesis by (simp add: id_pattern_def)
qed

section \<open>Transition systems\<close>

text \<open>
  The states reachable from the initial ones \<open>I\<close> by actions \<open>f a\<close> that may be taken when \<open>A a s\<close>,
  and the rule every invariant of such a system is proved with.
\<close>

inductive reach :: "('s \<Rightarrow> bool) \<Rightarrow> ('a \<Rightarrow> 's \<Rightarrow> bool) \<Rightarrow> ('a \<Rightarrow> 's \<Rightarrow> 's) \<Rightarrow> 's \<Rightarrow> bool"
  for I :: "'s \<Rightarrow> bool" and A :: "'a \<Rightarrow> 's \<Rightarrow> bool" and f :: "'a \<Rightarrow> 's \<Rightarrow> 's" where
  reach_start: "I s \<Longrightarrow> reach I A f s"
| reach_step: "reach I A f s \<Longrightarrow> A a s \<Longrightarrow> reach I A f (f a s)"

locale invariant =
  fixes I :: "'s \<Rightarrow> bool" and A :: "'a \<Rightarrow> 's \<Rightarrow> bool" and f :: "'a \<Rightarrow> 's \<Rightarrow> 's" and P :: "'s \<Rightarrow> bool"
  assumes start: "I s \<Longrightarrow> P s"
    and step: "P s \<Longrightarrow> A a s \<Longrightarrow> P (f a s)"
begin

lemma holds: "reach I A f s \<Longrightarrow> P s"
  by (induction rule: reach.induct) (auto intro: start step)

end

end
