(* ===== verification/Sha256.thy ===== *)
theory Sha256
  imports Profiler_Prelude "HOL-Library.Word"
begin

text \<open>
  \<open>hashlib.sha256(data).hexdigest()\<close>, the standard-library function the profiler uses for clock
  domains, trace identities, logical block identities and shard digests. The definitions are the
  FIPS 180-4 algorithm on 32-bit words, so a digest can be computed; the components only rely on
  its shape, 64 lower-case hexadecimal characters.
\<close>

unbundle bit_operations_syntax

type_synonym w32 = "32 word"

section \<open>Constants and word functions\<close>

definition sha_k :: "w32 list" where
  "sha_k = concat
    [[1116352408, 1899447441, 3049323471, 3921009573],
     [961987163, 1508970993, 2453635748, 2870763221],
     [3624381080, 310598401, 607225278, 1426881987],
     [1925078388, 2162078206, 2614888103, 3248222580],
     [3835390401, 4022224774, 264347078, 604807628],
     [770255983, 1249150122, 1555081692, 1996064986],
     [2554220882, 2821834349, 2952996808, 3210313671],
     [3336571891, 3584528711, 113926993, 338241895],
     [666307205, 773529912, 1294757372, 1396182291],
     [1695183700, 1986661051, 2177026350, 2456956037],
     [2730485921, 2820302411, 3259730800, 3345764771],
     [3516065817, 3600352804, 4094571909, 275423344],
     [430227734, 506948616, 659060556, 883997877],
     [958139571, 1322822218, 1537002063, 1747873779],
     [1955562222, 2024104815, 2227730452, 2361852424],
     [2428436474, 2756734187, 3204031479, 3329325298]]"

definition sha_init :: "w32 list" where
  "sha_init = [1779033703, 3144134277, 1013904242, 2773480762,
               1359893119, 2600822924, 528734635, 1541459225]"

definition rotr32 :: "nat \<Rightarrow> w32 \<Rightarrow> w32" where
  "rotr32 n x = (drop_bit n x OR push_bit (32 - n) x)"

definition big_sigma0 :: "w32 \<Rightarrow> w32" where
  "big_sigma0 x = (rotr32 2 x XOR rotr32 13 x XOR rotr32 22 x)"

definition big_sigma1 :: "w32 \<Rightarrow> w32" where
  "big_sigma1 x = (rotr32 6 x XOR rotr32 11 x XOR rotr32 25 x)"

definition small_sigma0 :: "w32 \<Rightarrow> w32" where
  "small_sigma0 x = (rotr32 7 x XOR rotr32 18 x XOR drop_bit 3 x)"

definition small_sigma1 :: "w32 \<Rightarrow> w32" where
  "small_sigma1 x = (rotr32 17 x XOR rotr32 19 x XOR drop_bit 10 x)"

definition sha_ch :: "w32 \<Rightarrow> w32 \<Rightarrow> w32 \<Rightarrow> w32" where
  "sha_ch e f g = ((e AND f) XOR ((NOT e) AND g))"

definition sha_maj :: "w32 \<Rightarrow> w32 \<Rightarrow> w32 \<Rightarrow> w32" where
  "sha_maj a b c = ((a AND b) XOR (a AND c) XOR (b AND c))"

section \<open>Padding, message schedule and compression\<close>

text \<open>The message length in bits as eight big-endian bytes.\<close>

definition be_bytes :: "64 word \<Rightarrow> nat list" where
  "be_bytes n = map (\<lambda>i. unat (drop_bit i n AND 255)) [56, 48, 40, 32, 24, 16, 8, 0]"

definition sha_pad :: "nat list \<Rightarrow> nat list" where
  "sha_pad bs = bs @ 128 # replicate ((119 - length bs mod 64) mod 64) 0 @ be_bytes (of_nat (8 * length bs))"

fun be_word :: "nat list \<Rightarrow> w32" where
  "be_word bs = foldl (\<lambda>a b. push_bit 8 a OR of_nat b) 0 bs"

text \<open>Cut a list into pieces of a fixed positive size (the last one may be shorter).\<close>

function pieces :: "nat \<Rightarrow> 'a list \<Rightarrow> 'a list list" where
  "pieces n xs = (if xs = [] \<or> n = 0 then [] else take n xs # pieces n (drop n xs))"
  by pat_completeness auto
termination
  by (relation "measure (\<lambda>(n, xs). length xs)") auto

declare pieces.simps [simp del]

text \<open>The schedule is kept newest word first: the word t positions back is at index t - 1.\<close>

fun extend_schedule :: "nat \<Rightarrow> w32 list \<Rightarrow> w32 list" where
  "extend_schedule 0 ws = ws"
| "extend_schedule (Suc n) ws =
     extend_schedule n
       ((small_sigma1 (ws ! 1) + ws ! 6 + small_sigma0 (ws ! 14) + ws ! 15) # ws)"

definition schedule :: "w32 list \<Rightarrow> w32 list" where
  "schedule ws = rev (extend_schedule 48 (rev ws))"

fun sha_round :: "w32 list \<Rightarrow> w32 \<times> w32 \<Rightarrow> w32 list" where
  "sha_round [a, b, c, d, e, f, g, h] (k, w) =
     (let t1 = h + big_sigma1 e + sha_ch e f g + k + w;
          t2 = big_sigma0 a + sha_maj a b c
      in [t1 + t2, a, b, c, d + t1, e, f, g])"
| "sha_round st _ = st"

definition compress :: "w32 list \<Rightarrow> nat list \<Rightarrow> w32 list" where
  "compress st block =
     map2 (+) st (foldl sha_round st (zip sha_k (schedule (map be_word (pieces 4 block)))))"

definition sha_state :: "nat list \<Rightarrow> w32 list" where
  "sha_state bs = foldl compress sha_init (pieces 64 (sha_pad bs))"

section \<open>Hexadecimal rendering\<close>

definition hex_char :: "nat \<Rightarrow> char" where
  "hex_char d = (if d < 10 then char_of (48 + d) else char_of (87 + d))"

definition word_hex :: "w32 \<Rightarrow> string" where
  "word_hex w = map (\<lambda>i. hex_char (unat (drop_bit i w AND 15))) [28, 24, 20, 16, 12, 8, 4, 0]"

definition sha256_hex :: "string \<Rightarrow> string" where
  "sha256_hex s = concat (map word_hex (sha_state (map code s)))"

lemma is_lhex_hex_char: "d < 16 \<Longrightarrow> is_lhex (hex_char d)"
  by (auto simp: hex_char_def is_lhex_def is_digit_def code_def)

lemma nibble_bound: "unat (w AND 15 :: w32) < 16"
proof -
  have "unat (w AND 15) \<le> unat (15 :: w32)"
    by (rule word_and_le1 [THEN word_le_nat_alt [THEN iffD1]])
  then show ?thesis by simp
qed

lemma word_hex_shape: "length (word_hex w) = 8 \<and> list_all is_lhex (word_hex w)"
  by (simp add: word_hex_def is_lhex_hex_char nibble_bound)

lemma sha_round_length: "length st = 8 \<Longrightarrow> length (sha_round st kw) = 8"
  by (cases "(st, kw)" rule: sha_round.cases) (auto simp: Let_def)

lemma foldl_sha_round_length: "length st = 8 \<Longrightarrow> length (foldl sha_round st kws) = 8"
  by (induction kws arbitrary: st) (auto simp: sha_round_length)

lemma compress_length: "length st = 8 \<Longrightarrow> length (compress st block) = 8"
  by (simp add: compress_def foldl_sha_round_length)

lemma foldl_compress_length: "length st = 8 \<Longrightarrow> length (foldl compress st blocks) = 8"
  by (induction blocks arbitrary: st) (auto simp: compress_length)

lemma sha_state_length: "length (sha_state bs) = 8"
  by (simp add: sha_state_def foldl_compress_length sha_init_def)

lemma concat_word_hex_shape:
  "length (concat (map word_hex ws)) = 8 * length ws \<and> list_all is_lhex (concat (map word_hex ws))"
  by (induction ws) (auto simp: word_hex_shape)

text \<open>A digest is 64 lower-case hexadecimal characters, and its first half is a 32-digit identity.\<close>

lemma sha256_hex_is_hex [text_simps]: "is_hex 64 (sha256_hex s)"
  using concat_word_hex_shape [of "sha_state (map code s)"]
  by (simp add: sha256_hex_def is_hex_def sha_state_length)

lemma sha256_hex_half [text_simps]: "is_hex 32 (take 32 (sha256_hex s))"
  using sha256_hex_is_hex [of s] set_take_subset [of 32 "sha256_hex s"]
  by (auto simp: is_hex_def list_all_iff)

end
