(* ===== verification/Canonical_Json.thy ===== *)
theory Canonical_Json
  imports Sha256 "HOL-Library.Multiset"
begin

text \<open>
  The canonical record line of \<open>runtime_protocol.canonical_json_line\<close>: compact JSON with sorted
  keys and without ASCII escaping of non-ASCII text, one line per record, at most 4096 bytes. The
  renderer is what \<open>json.dumps\<close> does with the arguments the source passes
  (\<open>ensure_ascii=False\<close>, \<open>separators=(",", ":")\<close>, \<open>sort_keys=True\<close>); records hold no floats, so
  \<open>allow_nan\<close> has no effect. The lemmas give the framing of a JSON Lines shard: a line holds no
  newline but its last byte, and the bytes of a shard determine its lines.
\<close>

section \<open>Rendering\<close>

definition newline :: char where
  "newline = CHR 0x0A"

fun join :: "'a list \<Rightarrow> 'a list list \<Rightarrow> 'a list" where
  "join sep [] = []"
| "join sep [x] = x"
| "join sep (x # y # xs) = x @ sep @ join sep (y # xs)"

definition json_escape :: "char \<Rightarrow> string" where
  "json_escape c =
     (if c = CHR 0x22 then [CHR 0x5C, CHR 0x22]
      else if c = CHR 0x5C then [CHR 0x5C, CHR 0x5C]
      else if code c = 8 then [CHR 0x5C, CHR ''b'']
      else if code c = 9 then [CHR 0x5C, CHR ''t'']
      else if code c = 10 then [CHR 0x5C, CHR ''n'']
      else if code c = 12 then [CHR 0x5C, CHR ''f'']
      else if code c = 13 then [CHR 0x5C, CHR ''r'']
      else if code c < 32 then
        [CHR 0x5C, CHR ''u'', CHR ''0'', CHR ''0'', hex_char (code c div 16), hex_char (code c mod 16)]
      else [c])"

definition json_str :: "string \<Rightarrow> string" where
  "json_str s = CHR 0x22 # concat (map json_escape s) @ [CHR 0x22]"

text \<open>An object from its members with their values already rendered: the keys are sorted.\<close>

definition json_member :: "string \<times> string \<Rightarrow> string" where
  "json_member kt = json_str (fst kt) @ CHR '':'' # snd kt"

definition json_object :: "(string \<times> string) list \<Rightarrow> string" where
  "json_object kts = CHR ''{'' # join [CHR '',''] (map json_member (sort_key fst kts)) @ [CHR ''}'']"

fun json_dumps :: "pyval \<Rightarrow> string" where
  "json_dumps PNone = ''null''"
| "json_dumps (PBool b) = (if b then ''true'' else ''false'')"
| "json_dumps (PInt i) = py_str_int i"
| "json_dumps (PStr s) = json_str s"
| "json_dumps (PList vs) = CHR ''['' # join [CHR '',''] (map json_dumps vs) @ [CHR '']'']"
| "json_dumps (PDict kvs) = json_object (map (\<lambda>(k, v). (k, json_dumps v)) kvs)"

definition MAX_RECORD_BYTES :: nat where
  "MAX_RECORD_BYTES = 4096"

definition canonical_json_line :: "pydict \<Rightarrow> string res" where
  "canonical_json_line record =
     (let encoded = json_dumps (PDict record) @ [newline]
      in if length encoded > MAX_RECORD_BYTES
         then Inl (ProtocolValidationError ''encoded record exceeds 4096 bytes'')
         else Inr encoded)"

section \<open>Lengths\<close>

lemma length_join:
  "length (join sep xs) = sum_list (map length xs) + length sep * (length xs - 1)"
  by (induction sep xs rule: join.induct) auto

lemma set_join: "set (join sep xs) \<subseteq> set sep \<union> \<Union> (set ` set xs)"
  by (induction sep xs rule: join.induct) auto

lemma sum_list_sort_key: "sum_list (map f (sort_key k xs)) = (sum_list (map f xs) :: nat)"
proof -
  have "sum_mset (image_mset f (mset (sort_key k xs))) = sum_mset (image_mset f (mset xs))"
    by simp
  then show ?thesis by (simp only: mset_map [symmetric] sum_mset_sum_list)
qed

lemma length_json_object:
  "length (json_object kts) = 2 + sum_list (map (length \<circ> json_member) kts) + (length kts - 1)"
  by (simp add: json_object_def length_join sum_list_sort_key comp_def)

lemma length_json_member: "length (json_member (k, t)) = length (json_str k) + 1 + length t"
  by (simp add: json_member_def)

text \<open>Printable text is at most doubled by escaping, and left alone when it needs no escape.\<close>

definition plain_char :: "char \<Rightarrow> bool" where
  "plain_char c \<longleftrightarrow> 32 \<le> code c \<and> c \<noteq> CHR 0x22 \<and> c \<noteq> CHR 0x5C"

lemma json_escape_plain: "plain_char c \<Longrightarrow> json_escape c = [c]"
  by (auto simp: json_escape_def plain_char_def)

lemma length_json_str_plain: "list_all plain_char s \<Longrightarrow> length (json_str s) = length s + 2"
  by (induction s) (auto simp: json_str_def json_escape_plain)

lemma json_escape_nonempty: "json_escape c \<noteq> []"
  by (simp add: json_escape_def)

lemma length_json_escape: "length (json_escape c) \<le> 6"
  by (simp add: json_escape_def)

text \<open>A bound of the rendered size that does not render: six bytes for every character of a string.\<close>

fun json_size :: "pyval \<Rightarrow> nat" where
  "json_size (PInt i) = length (py_str_int i)"
| "json_size (PStr s) = 6 * length s + 2"
| "json_size (PList vs) = 2 + sum_list (map (\<lambda>v. 1 + json_size v) vs)"
| "json_size (PDict kvs) = 2 + sum_list (map (\<lambda>(k, v). 6 * length k + 4 + json_size v) kvs)"
| "json_size v = 5"

lemma length_json_str: "length (json_str s) \<le> 6 * length s + 2"
proof -
  have "length (concat (map json_escape s)) \<le> 6 * length s"
    by (induction s) (use length_json_escape in \<open>auto intro: add_mono order_trans\<close>)
  then show ?thesis unfolding json_str_def by (simp del: length_concat)
qed

lemma length_json_dumps: "length (json_dumps v) \<le> json_size v"
proof (induction v)
  case (PStr s)
  then show ?case using length_json_str [of s] by simp
next
  case (PList vs)
  have "sum_list (map (length \<circ> json_dumps) vs) + (length vs - 1) \<le> sum_list (map (\<lambda>v. 1 + json_size v) vs)"
    using PList by (induction vs) fastforce+
  then show ?case by (simp add: length_join)
next
  case (PDict kvs)
  have "sum_list (map (length \<circ> json_member \<circ> (\<lambda>(k, v). (k, json_dumps v))) kvs) + (length kvs - 1) \<le>
      sum_list (map (\<lambda>(k, v). 6 * length k + 4 + json_size v) kvs)"
    using PDict
  proof (induction kvs)
    case (Cons kv kvs)
    obtain k v where kv: "kv = (k, v)" by (cases kv)
    have "length (json_dumps v) \<le> json_size v" using Cons.prems [of kv v] by (simp add: kv)
    then have "length (json_member (k, json_dumps v)) \<le> 6 * length k + 3 + json_size v"
      using length_json_str [of k] by (simp add: length_json_member)
    moreover have "sum_list (map (length \<circ> json_member \<circ> (\<lambda>(k, v). (k, json_dumps v))) kvs) + (length kvs - 1) \<le>
      sum_list (map (\<lambda>(k, v). 6 * length k + 4 + json_size v) kvs)"
      using Cons.prems by (intro Cons.IH) auto
    ultimately show ?case by (cases kvs) (simp_all add: kv comp_def)
  qed simp
  then show ?case by (simp add: length_json_object comp_def)
qed auto

section \<open>Framing\<close>

lemma code_newline: "code newline = 10"
  by (simp add: code_def newline_def)

lemma newline_not_hex_char: "d < 16 \<Longrightarrow> hex_char d \<noteq> newline"
  using is_lhex_hex_char [of d] code_newline
  by (auto simp: is_lhex_def is_digit_def)

lemma newline_literals:
  "newline \<noteq> CHR 0x22" "newline \<noteq> CHR 0x5C" "newline \<noteq> CHR ''b''" "newline \<noteq> CHR ''t''"
  "newline \<noteq> CHR ''n''" "newline \<noteq> CHR ''f''" "newline \<noteq> CHR ''r''" "newline \<noteq> CHR ''u''"
  "newline \<noteq> CHR ''0''"
  by (simp_all add: newline_def)

lemma newline_not_escape: "newline \<notin> set (json_escape c)"
proof -
  have small: "newline \<noteq> hex_char (code c div 16)" "newline \<noteq> hex_char (code c mod 16)"
    if "code c < 32"
  proof -
    have "code c div 16 < 16" "code c mod 16 < 16" using that by presburger+
    then show "newline \<noteq> hex_char (code c div 16)" "newline \<noteq> hex_char (code c mod 16)"
      using newline_not_hex_char by metis+
  qed
  have "newline \<noteq> c" if "\<not> code c < 32" using that code_newline by auto
  with small show ?thesis by (simp add: json_escape_def newline_literals)
qed

lemma newline_not_json_str: "newline \<notin> set (json_str s)"
  using newline_not_escape by (auto simp: json_str_def newline_def)

lemma newline_not_dec: "newline \<notin> set (dec_nat n)"
  using dec_nat_digits [of n] code_newline by (auto simp: list_all_iff is_digit_def)

lemma newline_not_json_object:
  assumes "\<And>k t. (k, t) \<in> set kts \<Longrightarrow> newline \<notin> set t"
  shows "newline \<notin> set (json_object kts)"
proof -
  have "newline \<notin> set (json_member kt)" if "kt \<in> set kts" for kt
    using assms [of "fst kt" "snd kt"] that newline_not_json_str
    by (auto simp: json_member_def newline_def)
  moreover have "newline \<notin> set [CHR '','']" "newline \<noteq> CHR ''{''" "newline \<noteq> CHR ''}''"
    by (simp_all add: newline_def)
  ultimately show ?thesis
    using set_join [of "[CHR '','']" "map json_member (sort_key fst kts)"]
    by (auto simp: json_object_def)
qed

lemma newline_not_json_dumps: "newline \<notin> set (json_dumps v)"
proof (induction v)
  case (PInt i)
  have "newline \<noteq> CHR ''-''" by (simp add: newline_def)
  then show ?case by (simp add: py_str_int_def newline_not_dec)
next
  case (PStr s)
  then show ?case by (simp add: newline_not_json_str)
next
  case (PList vs)
  have "newline \<noteq> CHR ''[''" "newline \<noteq> CHR '']''" "newline \<noteq> CHR '',''"
    by (simp_all add: newline_def)
  with PList show ?case
    using set_join [of "[CHR '','']" "map json_dumps vs"] by auto
next
  case (PDict kvs)
  show ?case
    unfolding json_dumps.simps
    by (rule newline_not_json_object) (use PDict in \<open>fastforce split: prod.splits\<close>)
qed (auto simp: newline_def)

text \<open>A framed line ends in its only newline.\<close>

definition framed :: "string \<Rightarrow> bool" where
  "framed l \<longleftrightarrow> (\<exists>body. l = body @ [newline] \<and> newline \<notin> set body)"

lemma canonical_line_framed: "canonical_json_line r = Inr l \<Longrightarrow> framed l"
  using newline_not_json_dumps [of "PDict r"]
  by (auto simp: canonical_json_line_def Let_def framed_def split: if_splits)

lemma canonical_line_bounded: "canonical_json_line r = Inr l \<Longrightarrow> length l \<le> MAX_RECORD_BYTES"
  by (auto simp: canonical_json_line_def Let_def split: if_splits)

lemma canonical_line_nonempty: "canonical_json_line r = Inr l \<Longrightarrow> l \<noteq> []"
  using canonical_line_framed by (auto simp: framed_def)

lemma takeWhile_body: "newline \<notin> set b \<Longrightarrow> takeWhile (\<lambda>c. c \<noteq> newline) (b @ newline # xs) = b"
  by (induction b) auto

lemma framed_cancel:
  assumes "framed l" "framed l'" and "l @ xs = l' @ ys"
  shows "l = l' \<and> xs = ys"
proof -
  obtain b b' where l: "l = b @ [newline]" "newline \<notin> set b"
    and l': "l' = b' @ [newline]" "newline \<notin> set b'"
    using assms(1,2) by (auto simp: framed_def)
  have "takeWhile (\<lambda>c. c \<noteq> newline) (l @ xs) = b"
    using l by (simp add: takeWhile_body)
  moreover have "takeWhile (\<lambda>c. c \<noteq> newline) (l' @ ys) = b'"
    using l' by (simp add: takeWhile_body)
  ultimately have "b = b'" using assms(3) by simp
  with l l' assms(3) show ?thesis by simp
qed

lemma framed_nonempty: "framed l \<Longrightarrow> l \<noteq> []"
  by (auto simp: framed_def)

text \<open>The bytes of a shard determine its lines.\<close>

lemma framed_lines_unique:
  assumes "list_all framed ls" "list_all framed ls'" and "concat ls = concat ls'"
  shows "ls = ls'"
  using assms
proof (induction ls arbitrary: ls')
  case Nil
  then show ?case using framed_nonempty by (cases ls') auto
next
  case (Cons l ls)
  then obtain l' rest where ls': "ls' = l' # rest"
    using framed_nonempty by (cases ls') auto
  have "l = l' \<and> concat ls = concat rest"
    using Cons.prems ls' framed_cancel [of l l' "concat ls" "concat rest"] by auto
  with Cons.prems Cons.IH [of rest] ls' show ?case by auto
qed

section \<open>Canonical order\<close>

lemma distinct_singleton_list: "distinct zs \<Longrightarrow> set zs = {k} \<Longrightarrow> zs = [k]"
  by (cases zs; cases "tl zs") auto

lemma sort_key_unique:
  assumes "mset xs = mset ys" and "distinct (map f xs)"
  shows "sort_key f xs = sort_key f ys"
proof (rule properties_for_sort_key)
  show "mset (sort_key f ys) = mset xs" using assms(1) by simp
  show "sorted (map f (sort_key f ys))" by simp
  fix k assume k: "k \<in> set (sort_key f ys)"
  have inj: "inj_on f (set xs)" and dist: "distinct xs"
    using assms(2) by (simp_all add: distinct_map)
  have sets: "set xs = set ys" using assms(1) by (rule mset_eq_setD)
  have dist': "distinct ys" using mset_eq_imp_distinct_iff [OF assms(1)] dist by blast
  have sing: "[x\<leftarrow>zs. f k = f x] = [k]" if "distinct zs" "set zs = set xs" for zs
  proof (rule distinct_singleton_list)
    show "distinct [x\<leftarrow>zs. f k = f x]" using that(1) by simp
    show "set [x\<leftarrow>zs. f k = f x] = {k}" using inj that(2) k sets by (auto dest: inj_onD)
  qed
  show "[x\<leftarrow>sort_key f ys. f k = f x] = [x\<leftarrow>xs. f k = f x]"
    using sing [of "sort_key f ys"] sing [of xs] dist dist' sets by simp
qed

lemma canonical_line_order:
  assumes "distinct (map fst r)" and "mset r = mset r'"
  shows "canonical_json_line r = canonical_json_line r'"
proof -
  let ?g = "\<lambda>(k, v). (k, json_dumps v)"
  have "sort_key fst (map ?g r) = sort_key fst (map ?g r')"
    using assms by (intro sort_key_unique) (auto simp: comp_def case_prod_unfold)
  then show ?thesis by (simp add: canonical_json_line_def json_object_def)
qed

end
