(* ===== verification/Runtime_Protocol.thy ===== *)
theory Runtime_Protocol
  imports Canonical_Json
begin

text \<open>
  The frozen v1alpha1 wire contract of \<open>runtime_protocol.py\<close>: the vocabulary (scopes, components,
  event names and their owners), the event and edge drafts, the validators with every check in the
  order of the source, and the builders of the five base records. A draft's fields have the types
  its dataclass annotates; metadata is an arbitrary dictionary of Python values. A validator is the
  list of its checks (\<^const>\<open>first_error\<close>), so a record is built exactly when every check passes.
\<close>

abbreviation PVE :: "string \<Rightarrow> pyerr" where
  "PVE m \<equiv> ProtocolValidationError m"

section \<open>Vocabulary\<close>

definition SCHEMA_VERSION :: string where
  "SCHEMA_VERSION = ''rlp.trace/v1alpha1''"

definition KV_RECOVERY_COMMUNICATION_MODE :: string where
  "KV_RECOVERY_COMMUNICATION_MODE = ''issue2:kv-recovery-v1alpha1''"

definition KV_RECOVERY_H2D_EVIDENCE :: string where
  "KV_RECOVERY_H2D_EVIDENCE = KV_RECOVERY_COMMUNICATION_MODE @ '':h2d_restore''"

definition PARENT_API_MAJOR :: int where
  "PARENT_API_MAJOR = 1"

definition CLOCK_SOURCE :: string where
  "CLOCK_SOURCE = ''CLOCK_MONOTONIC''"

definition DATA_CAPACITY_RECORDS :: int where "DATA_CAPACITY_RECORDS = 4096"
definition RESERVED_CAPACITY_RECORDS :: int where "RESERVED_CAPACITY_RECORDS = 64"
definition MAX_QUEUED_BYTES :: int where "MAX_QUEUED_BYTES = 17039360"
definition MAX_BATCH_RECORDS :: int where "MAX_BATCH_RECORDS = 128"
definition MAX_BATCH_BYTES :: int where "MAX_BATCH_BYTES = 262144"
definition WRITE_INTERVAL_MS :: int where "WRITE_INTERVAL_MS = 100"
definition CLOSE_TIMEOUT_MS :: int where "CLOSE_TIMEOUT_MS = 2000"
definition MAX_METADATA_BYTES :: nat where "MAX_METADATA_BYTES = 1024"

definition EXPORTER_LIMITS :: pydict where
  "EXPORTER_LIMITS =
     [(''data_capacity_records'', PInt DATA_CAPACITY_RECORDS),
      (''reserved_capacity_records'', PInt RESERVED_CAPACITY_RECORDS),
      (''max_record_bytes'', PInt (int MAX_RECORD_BYTES)),
      (''max_queued_bytes'', PInt MAX_QUEUED_BYTES),
      (''max_batch_records'', PInt MAX_BATCH_RECORDS),
      (''max_batch_bytes'', PInt MAX_BATCH_BYTES),
      (''write_interval_ms'', PInt WRITE_INTERVAL_MS),
      (''close_timeout_ms'', PInt CLOSE_TIMEOUT_MS),
      (''shard_ownership'', PStr ''one_process_one_append_only_shard'')]"

definition UINT32_MAX :: int where "UINT32_MAX = 2 ^ 32 - 1"
definition UINT64_MAX :: int where "UINT64_MAX = 2 ^ 64 - 1"

definition SCOPES :: "string list" where
  "SCOPES = [''root_request'', ''engine_sample'', ''response'']"

definition COMPONENTS :: "string list" where
  "COMPONENTS = [''frontend'', ''tokenizer'', ''engine_client'', ''engine_core'',
     ''output_processor'', ''response'', ''transport'', ''external_evidence'']"

definition EDGE_KINDS :: "string list" where
  "EDGE_KINDS = [''program_order'', ''data_dependency'', ''submission'', ''parent_child'',
     ''transport_handoff'', ''correlated_same_clock_domain'']"

definition EVIDENCE_SOURCES :: "string list" where
  "EVIDENCE_SOURCES = [''instrumented_execution_context'', ''engine_submission'',
     ''lifecycle_creation'', ''engine_output_handoff'', ''engine_abort_handoff'',
     ''transport_send_await'']"

definition LOSS_REASONS :: "string list" where
  "LOSS_REASONS = [''serialization_failure'', ''queue_overflow'', ''writer_failure'', ''close_timeout'']"

definition UNSUPPORTED_REASONS :: "string list" where
  "UNSUPPORTED_REASONS = [''parallel_sampling'', ''beam_search'', ''pooling'', ''streaming_input'',
     ''cross_host'', ''response_boundary_uninstrumented'', ''communication_subtype_unfrozen'',
     ''zero_compute_prefix_hit'', ''kv_connector_enabled'', ''heterogeneous_kv_cache'',
     ''frontend_stop_string'', ''multimodal_input'', ''prompt_embeds'', ''encoder_decoder_model'',
     ''batched_prompts'']"

definition FORBIDDEN_METADATA_KEYS :: "string list" where
  "FORBIDDEN_METADATA_KEYS = [''api_key'', ''authorization'', ''client_ip'', ''generated_text'',
     ''input_text'', ''messages'', ''output_text'', ''prompt'', ''prompt_text'',
     ''raw_model_output'', ''raw_output'', ''request_body'', ''token'', ''token_ids'']"

definition register_events :: "string \<Rightarrow> string \<Rightarrow> string list \<Rightarrow> ((string \<times> string) \<times> string) list" where
  "register_events scope component events = map (\<lambda>event. ((scope, event), component)) events"

definition COMPONENT_BY_SCOPE_EVENT :: "((string \<times> string) \<times> string) list" where
  "COMPONENT_BY_SCOPE_EVENT = concat [
     register_events ''root_request'' ''frontend''
       [''received'', ''render_started'', ''render_done'', ''request_done'', ''cancelled'', ''error'',
        ''unsupported_mode'', ''cleanup_started'', ''cleanup_done''],
     register_events ''root_request'' ''tokenizer'' [''tokenization_started'', ''tokenization_done''],
     register_events ''root_request'' ''engine_client'' [''submitted''],
     register_events ''root_request'' ''output_processor'' [''output_ready''],
     register_events ''engine_sample'' ''engine_core''
       [''requeued'', ''admission_started'', ''scheduled'', ''resumed'', ''prefill_started'',
        ''prefill_done'', ''decode_started'', ''decode_done'', ''preempted'', ''generation_done'',
        ''aborted'', ''cancelled'', ''error'', ''cleanup_started'', ''cleanup_done'',
        ''resource_acquired'', ''resource_transfer_pending'', ''resource_released'',
        ''resource_policy_retained'', ''resource_invalidated''],
     register_events ''engine_sample'' ''engine_client'' [''queued''],
     register_events ''engine_sample'' ''output_processor'' [''first_token'', ''output_batch_ready''],
     register_events ''engine_sample'' ''external_evidence''
       [''communication_started'', ''communication_done'', ''request_finished_observed'',
        ''request_preempted_observed'', ''request_kv_reclaimed_observed''],
     register_events ''response'' ''response''
       [''serialization_started'', ''serialization_done'', ''cancelled'', ''error'',
        ''cleanup_started'', ''cleanup_done''],
     register_events ''response'' ''transport''
       [''delivery_started'', ''delivery_done'', ''stream_done'']]"

definition EVENT_NAMES :: "string list" where
  "EVENT_NAMES = map (snd \<circ> fst) COMPONENT_BY_SCOPE_EVENT"

definition ABNORMAL_TERMINALS :: "string list" where
  "ABNORMAL_TERMINALS = [''aborted'', ''cancelled'', ''error'']"

definition TERMINAL_EVENTS :: "string list" where
  "TERMINAL_EVENTS = [''request_done'', ''generation_done'', ''stream_done''] @ ABNORMAL_TERMINALS"

definition SPAN_START_EVENTS :: "string list" where
  "SPAN_START_EVENTS = [''render_started'', ''tokenization_started'', ''queued'', ''requeued'',
     ''admission_started'', ''prefill_started'', ''decode_started'', ''communication_started'',
     ''serialization_started'', ''delivery_started'', ''cleanup_started'']"

definition SPAN_END_EVENTS :: "string list" where
  "SPAN_END_EVENTS = [''render_done'', ''tokenization_done'', ''admission_started'', ''scheduled'',
     ''resumed'', ''prefill_done'', ''decode_done'', ''communication_done'', ''serialization_done'',
     ''delivery_done'', ''stream_done'', ''cleanup_done'', ''preempted'']"

section \<open>Drafts\<close>

record runtime_provenance =
  pv_profiler_parent_commit :: string
  pv_runtime_core_commit :: string
  pv_device_plugin_commit :: string

definition require_commit :: "string \<Rightarrow> string \<Rightarrow> pyerr option" where
  "require_commit field v =
     fails (\<not> is_hex 40 v) (PVE (field @ '' must be 40 lowercase hexadecimal characters''))"

definition make_provenance :: "string \<Rightarrow> string \<Rightarrow> string \<Rightarrow> runtime_provenance res" where
  "make_provenance parent core device =
     checked
       (first_error
         [require_commit ''profiler_parent_commit'' parent,
          require_commit ''runtime_core_commit'' core,
          require_commit ''device_plugin_commit'' device])
       \<lparr>pv_profiler_parent_commit = parent, pv_runtime_core_commit = core,
        pv_device_plugin_commit = device\<rparr>"

record event_draft =
  ed_trace_id :: string
  ed_lifecycle_id :: string
  ed_parent_lifecycle_id :: "string option"
  ed_scope :: string
  ed_component :: string
  ed_event_name :: string
  ed_timestamp_ns :: "int option"
  ed_preemption_epoch :: "int option"
  ed_start_span_id :: "string option"
  ed_end_span_id :: "string option"
  ed_closing_span_ids :: "string list"
  ed_sample_index :: "int option"
  ed_handoff_index :: "int option"
  ed_chunk_index :: "int option"
  ed_handoff_id :: "string option"
  ed_metadata :: "pydict option"

record edge_draft =
  gd_trace_id :: string
  gd_from_event_id :: string
  gd_to_event_id :: string
  gd_edge_kind :: string
  gd_evidence_source :: string

record record_ref =
  rr_record_id :: string
  rr_record_seq :: int

section \<open>Field validators\<close>

definition require_hex32 :: "string \<Rightarrow> string \<Rightarrow> pyerr option" where
  "require_hex32 field v =
     fails (\<not> is_hex 32 v) (PVE (field @ '' must be 32 lowercase hexadecimal characters''))"

definition require_uint :: "string \<Rightarrow> int \<Rightarrow> int \<Rightarrow> pyerr option" where
  "require_uint field v maximum = fails (v < 0 \<or> v > maximum) (PVE (field @ '' is out of range''))"

definition validate_optional_uint :: "string \<Rightarrow> int option \<Rightarrow> int \<Rightarrow> pyerr option" where
  "validate_optional_uint field v maximum =
     (case v of None \<Rightarrow> None | Some i \<Rightarrow> require_uint field i maximum)"

definition required_metadata_uint :: "pydict \<Rightarrow> string \<Rightarrow> pyerr option" where
  "required_metadata_uint metadata key =
     (case as_strict_int (dget metadata key) of
        None \<Rightarrow> Some (PVE (''metadata requires uint64 '' @ key))
      | Some i \<Rightarrow> require_uint (''metadata.'' @ key) i UINT64_MAX)"

text \<open>The value \<open>_required_metadata_uint\<close> returns once it has not raised.\<close>

definition metadata_uint :: "pydict \<Rightarrow> string \<Rightarrow> int" where
  "metadata_uint metadata key = (case as_strict_int (dget metadata key) of None \<Rightarrow> 0 | Some i \<Rightarrow> i)"

definition validate_decimal_id ::
  "string \<Rightarrow> string option \<Rightarrow> char \<Rightarrow> string \<Rightarrow> nat \<Rightarrow> int \<Rightarrow> pyerr option" where
  "validate_decimal_id field v k kind maximum_bytes maximum_sequence =
     (case v of
        None \<Rightarrow> Some (PVE (field @ '' is not a canonical '' @ kind @ '' ID''))
      | Some s \<Rightarrow> first_error
          [fails (\<not> id_pattern k s) (PVE (field @ '' is not a canonical '' @ kind @ '' ID'')),
           fails (length s > maximum_bytes) (PVE (field @ '' exceeds its byte bound'')),
           require_uint (field @ '' sequence'') (int (dec_value (after_last_colon s))) maximum_sequence])"

section \<open>Metadata\<close>

definition metadata_key :: "string \<Rightarrow> bool" where
  "metadata_key k \<longleftrightarrow> k \<noteq> [] \<and> length k \<le> 48 \<and> is_lower (hd k) \<and>
     list_all (\<lambda>c. is_lower c \<or> is_digit c \<or> c = CHR ''_'') (tl k)"

fun check_metadata_value :: "string \<Rightarrow> pyval \<Rightarrow> pyerr option" where
  "check_metadata_value k PNone = None"
| "check_metadata_value k (PBool b) = None"
| "check_metadata_value k (PInt i) = require_uint (''metadata.'' @ k) i UINT64_MAX"
| "check_metadata_value k (PStr s) = first_error
     [fails (\<not> printable_ascii s) (PVE ''metadata string must be printable ASCII''),
      fails (length s > 128) (PVE ''metadata string exceeds 128 bytes'')]"
| "check_metadata_value k _ = Some (PVE ''metadata value type is not frozen'')"

definition check_metadata_item :: "string \<times> pyval \<Rightarrow> pyerr option" where
  "check_metadata_item kv = first_error
     [fails (\<not> metadata_key (fst kv)) (PVE ''metadata key is not bounded ASCII''),
      fails (fst kv \<in> set FORBIDDEN_METADATA_KEYS) (PVE ''metadata contains forbidden payload data''),
      check_metadata_value (fst kv) (snd kv)]"

definition metadata_of :: "pydict option \<Rightarrow> pydict" where
  "metadata_of m = (case m of None \<Rightarrow> [] | Some d \<Rightarrow> d)"

definition validate_metadata :: "pydict option \<Rightarrow> pyerr option" where
  "validate_metadata m =
     (case m of
        None \<Rightarrow> None
      | Some d \<Rightarrow> first_error (map check_metadata_item d @
          [fails (length (json_dumps (PDict d)) > MAX_METADATA_BYTES)
             (PVE ''metadata exceeds 1024 encoded bytes'')]))"

section \<open>Lifecycle, span and handoff identities\<close>

definition validate_lifecycle_identity :: "event_draft \<Rightarrow> pyerr option" where
  "validate_lifecycle_identity d =
     (let root_id = ed_trace_id d @ '':r'';
          too_long = fails (length (ed_lifecycle_id d) > 96 \<or>
            (case ed_parent_lifecycle_id d of None \<Rightarrow> False | Some p \<Rightarrow> length p > 96))
            (PVE ''lifecycle ID exceeds 96 bytes'')
      in if ed_scope d = ''root_request'' then first_error
           [fails (ed_lifecycle_id d \<noteq> root_id \<or> ed_parent_lifecycle_id d \<noteq> None)
              (PVE ''root lifecycle identity is invalid''), too_long]
         else if ed_scope d = ''engine_sample'' then
           (case ed_sample_index d of
              None \<Rightarrow> Some (PVE ''engine lifecycle requires sample_index'')
            | Some i \<Rightarrow> first_error
                [fails (ed_lifecycle_id d \<noteq> id_of (ed_trace_id d) (CHR ''e'') i \<or>
                        ed_parent_lifecycle_id d \<noteq> Some root_id)
                   (PVE ''engine lifecycle identity is invalid''), too_long])
         else first_error
           [fails (ed_lifecycle_id d \<noteq> ed_trace_id d @ '':s'' \<or>
                   ed_parent_lifecycle_id d \<noteq> Some root_id)
              (PVE ''response lifecycle identity is invalid''), too_long])"

definition check_span_id :: "string option \<Rightarrow> pyerr option" where
  "check_span_id v =
     (case v of
        None \<Rightarrow> None
      | Some s \<Rightarrow> validate_decimal_id ''span_id'' (Some s) (CHR ''s'') ''span'' 55 UINT64_MAX)"

definition validate_span_fields :: "event_draft \<Rightarrow> string \<Rightarrow> pyerr option" where
  "validate_span_fields d process_uuid =
     (let closing = ed_closing_span_ids d;
          start = ed_start_span_id d;
          finish = ed_end_span_id d
      in first_error
        ([fails (length closing > 16 \<or> sort (remdups closing) \<noteq> closing)
            (PVE ''closing_span_ids must be sorted, unique, and bounded'')]
         @ map (\<lambda>s. check_span_id (Some s)) closing
         @ [check_span_id start, check_span_id finish,
            fails (\<exists>s \<in> set_option start. \<not> prefix (process_uuid @ '':s:'') s)
              (PVE ''span creator must match the start emitter'')]
         @ (if ed_event_name d \<in> set ABNORMAL_TERMINALS then
              [fails (start \<noteq> None \<or> finish \<noteq> None)
                 (PVE ''abnormal terminals use closing_span_ids, not singular span fields'')]
            else
              [fails (closing \<noteq> []) (PVE ''non-abnormal events require an empty closing_span_ids array''),
               fails ((start \<noteq> None) \<noteq> (ed_event_name d \<in> set SPAN_START_EVENTS))
                 (PVE ''start_span_id does not match event boundary''),
               fails ((finish \<noteq> None) \<noteq> (ed_event_name d \<in> set SPAN_END_EVENTS))
                 (PVE ''end_span_id does not match event boundary'')])))"

definition CHUNK_EVENTS :: "string list" where
  "CHUNK_EVENTS = [''serialization_started'', ''serialization_done'', ''delivery_started'',
     ''delivery_done'', ''stream_done'']"

definition validate_handoff_and_chunk :: "event_draft \<Rightarrow> pyerr option" where
  "validate_handoff_and_chunk d = first_error
     [if ed_event_name d \<in> set [''output_batch_ready'', ''output_ready''] then
        (case ed_handoff_index d of
           None \<Rightarrow> Some (PVE ''handoff event requires handoff_index'')
         | Some i \<Rightarrow> fails (ed_handoff_id d \<noteq> Some (id_of (ed_trace_id d) (CHR ''h'') i))
             (PVE ''handoff_id is not canonical''))
      else if ed_event_name d = ''serialization_started'' then first_error
        [fails (ed_handoff_index d \<noteq> None) (PVE ''serialization_started requires a null handoff_index''),
         validate_decimal_id ''handoff_id'' (ed_handoff_id d) (CHR ''h'') ''handoff'' 55 UINT32_MAX,
         fails (\<exists>s \<in> set_option (ed_handoff_id d). \<not> prefix (ed_trace_id d @ '':h:'') s)
           (PVE ''handoff_id belongs to a different trace'')]
      else fails (ed_handoff_index d \<noteq> None \<or> ed_handoff_id d \<noteq> None)
        (PVE ''non-handoff event contains handoff fields''),
      if ed_event_name d \<in> set CHUNK_EVENTS then
        fails (ed_scope d \<noteq> ''response'' \<or> ed_chunk_index d = None)
          (PVE ''response chunk event requires chunk_index'')
      else fails (ed_chunk_index d \<noteq> None) (PVE ''non-chunk event contains chunk_index'')]"

section \<open>Event metadata contracts\<close>

definition RESOURCE_TRANSITIONS :: "(string \<times> string) list" where
  "RESOURCE_TRANSITIONS =
     [(''resource_acquired'', ''acquire''), (''resource_transfer_pending'', ''transfer_pending''),
      (''resource_released'', ''release''), (''resource_policy_retained'', ''policy_retain''),
      (''resource_invalidated'', ''invalidate'')]"

definition validate_resource_metadata :: "event_draft \<Rightarrow> pydict \<Rightarrow> pyerr option" where
  "validate_resource_metadata d m =
     (if \<not> prefix ''resource_'' (ed_event_name d) then None
      else first_error
        ([fails (\<not> keys_are m [''runtime_request_id'', ''resource_type'', ''resource_id'',
             ''resource_transition'', ''resource_units'', ''worker_generation''])
            (PVE ''resource metadata keys differ''),
          (case map_of RESOURCE_TRANSITIONS (ed_event_name d) of
             None \<Rightarrow> Some (KeyError (ed_event_name d))
           | Some t \<Rightarrow> fails (\<not> eq_str (dget m ''resource_transition'') t)
               (PVE ''resource transition/event mismatch''))]
         @ map (\<lambda>key. fails (\<not> nonempty_str (dget m key))
                 (PVE (''resource metadata '' @ key @ '' is invalid'')))
             [''runtime_request_id'', ''resource_type'', ''resource_id'', ''worker_generation'']
         @ [fails (case as_int (dget m ''resource_units'') of
                     None \<Rightarrow> True | Some i \<Rightarrow> \<not> (1 \<le> i \<and> i \<le> UINT64_MAX))
              (PVE ''resource metadata resource_units is invalid'')]))"

definition NATIVE_EVENT_KEYS :: "(string \<times> string list) list" where
  "NATIVE_EVENT_KEYS =
     [(''request_finished_observed'',
       [''runtime_request_id'', ''session_present'', ''prompt_tokens'', ''output_tokens'',
        ''sequence_tokens'', ''kv_blocks'', ''kv_reclaim_deferred'', ''finished_reason'']),
      (''request_preempted_observed'',
       [''runtime_request_id'', ''session_present'', ''num_preemptions'', ''kv_blocks'',
        ''kv_reclaim_deferred'']),
      (''request_kv_reclaimed_observed'',
       [''runtime_request_id'', ''session_present'', ''kv_blocks'', ''reclaim_path''])]"

definition native_uint_keys :: "string list \<Rightarrow> string list" where
  "native_uint_keys ks = filter (\<lambda>k. k \<notin> set [''runtime_request_id'', ''session_present'',
     ''kv_reclaim_deferred'', ''finished_reason'', ''reclaim_path'']) ks"

definition validate_native_metadata :: "event_draft \<Rightarrow> pydict \<Rightarrow> pyerr option" where
  "validate_native_metadata d m =
     (case map_of NATIVE_EVENT_KEYS (ed_event_name d) of
        None \<Rightarrow> None
      | Some ks \<Rightarrow> first_error
          ([fails (\<not> keys_are m ks) (PVE ''native lifecycle metadata keys differ''),
            fails (\<not> nonempty_str (dget m ''runtime_request_id''))
              (PVE ''native lifecycle request ID is invalid''),
            fails (\<not> is_bool (dget m ''session_present''))
              (PVE ''native lifecycle session flag is invalid'')]
           @ map (required_metadata_uint m) (native_uint_keys ks)
           @ [fails (''kv_reclaim_deferred'' \<in> set ks \<and> \<not> is_bool (dget m ''kv_reclaim_deferred''))
                (PVE ''native lifecycle deferred flag is invalid'')]
           @ (if ed_event_name d = ''request_finished_observed'' then
                [fails (metadata_uint m ''sequence_tokens'' \<noteq>
                        metadata_uint m ''prompt_tokens'' + metadata_uint m ''output_tokens'')
                   (PVE ''native lifecycle token counts differ''),
                 fails (\<not> nonempty_str (dget m ''finished_reason''))
                   (PVE ''native lifecycle finish reason is invalid'')]
              else [])
           @ [fails (ed_event_name d = ''request_kv_reclaimed_observed'' \<and>
                     \<not> str_in (dget m ''reclaim_path'') [''immediate'', ''deferred''])
                (PVE ''native lifecycle reclaim path is invalid'')]))"

definition validate_received_metadata :: "event_draft \<Rightarrow> pydict \<Rightarrow> pyerr option" where
  "validate_received_metadata d m =
     (if \<not> (ed_scope d = ''root_request'' \<and> ed_event_name d = ''received'') then None
      else first_error
        [fails (\<not> eq_int (dget m ''sampling_n'') 1) (PVE ''received metadata requires sampling_n''),
         fails (\<not> eq_int (dget m ''prompt_count'') 1) (PVE ''received metadata requires prompt_count''),
         fails (\<not> eq_str (dget m ''model_mode'') ''decoder_only'')
           (PVE ''received metadata requires model_mode''),
         fails (\<not> eq_str (dget m ''frontend_stop_mode'') ''none'')
           (PVE ''received metadata requires frontend_stop_mode''),
         fails (\<not> eq_str (dget m ''communication_mode'') ''none'')
           (PVE ''received metadata requires communication_mode''),
         fails (\<not> str_in (dget m ''entry_mode'') [''openai_http'', ''async_llm'', ''llm_engine''])
           (PVE ''received entry_mode is unsupported''),
         fails (\<not> str_in (dget m ''input_mode'') [''text'', ''pretokenized''])
           (PVE ''received input_mode is unsupported''),
         fails (\<not> str_in (dget m ''response_mode'') [''streaming'', ''non_streaming'', ''none''])
           (PVE ''received response_mode is unsupported''),
         fails (eq_str (dget m ''entry_mode'') ''openai_http'' \<and> eq_str (dget m ''response_mode'') ''none'')
           (PVE ''OpenAI entry requires a response mode''),
         fails (\<not> eq_str (dget m ''entry_mode'') ''openai_http'' \<and>
                \<not> eq_str (dget m ''response_mode'') ''none'')
           (PVE ''direct entry requires response_mode=none''),
         fails (\<not> str_in (dget m ''kv_cache_mode'') [''disabled'', ''local_homogeneous''])
           (PVE ''received kv_cache_mode is unsupported''),
         if eq_str (dget m ''kv_cache_mode'') ''local_homogeneous'' then
           fails (case as_strict_int (dget m ''cache_block_size_tokens'') of None \<Rightarrow> True | Some i \<Rightarrow> i < 1)
             (PVE ''local homogeneous KV requires cache_block_size_tokens'')
         else fails (dget m ''cache_block_size_tokens'' \<noteq> PNone)
           (PVE ''disabled KV forbids cache_block_size_tokens'')])"

definition CLEANUP_COMPONENTS :: "(string \<times> string) list" where
  "CLEANUP_COMPONENTS = [(''root_request'', ''frontend_request''),
     (''engine_sample'', ''engine_request''), (''response'', ''response_stream'')]"

definition validate_phase_metadata :: "event_draft \<Rightarrow> pydict \<Rightarrow> pyerr option" where
  "validate_phase_metadata d m = first_error
     ([fails (ed_event_name d = ''unsupported_mode'' \<and>
             \<not> str_in (dget m ''reason_code'') UNSUPPORTED_REASONS)
        (PVE ''unsupported_mode requires frozen reason_code'')]
      @ (if ed_event_name d \<in> set [''cleanup_started'', ''cleanup_done''] then
          [case map_of CLEANUP_COMPONENTS (ed_scope d) of
             None \<Rightarrow> Some (KeyError (ed_scope d))
           | Some c \<Rightarrow> fails (\<not> eq_str (dget m ''cleanup_component'') c)
               (PVE ''cleanup_component does not match scope'')]
         else [])
      @ (if ed_event_name d \<in> set [''scheduled'', ''resumed''] then
          [required_metadata_uint m ''prompt_tokens_total'',
           required_metadata_uint m ''prompt_tokens_cached'',
           required_metadata_uint m ''prompt_tokens_to_compute'',
           fails (metadata_uint m ''prompt_tokens_total'' < 1 \<or>
                  metadata_uint m ''prompt_tokens_cached'' \<ge> metadata_uint m ''prompt_tokens_total'' \<or>
                  metadata_uint m ''prompt_tokens_to_compute'' \<noteq>
                    metadata_uint m ''prompt_tokens_total'' - metadata_uint m ''prompt_tokens_cached'')
             (PVE ''prompt token counters do not reconcile'')]
         else [])
      @ (if ed_event_name d \<in> set [''prefill_done'', ''preempted''] then
          [required_metadata_uint m ''prompt_tokens_computed'',
           required_metadata_uint m ''prefill_chunk_count'',
           fails (metadata_uint m ''prefill_chunk_count'' < 1)
             (PVE ''prefill_chunk_count must be positive'')]
         else [])
      @ (if ed_event_name d = ''generation_done'' then
          [required_metadata_uint m ''generated_tokens_total'',
           fails (metadata_uint m ''generated_tokens_total'' < 1)
             (PVE ''generated_tokens_total must be positive'')]
         else []))"

definition validate_event_metadata :: "event_draft \<Rightarrow> pydict \<Rightarrow> pyerr option" where
  "validate_event_metadata d m = first_error
     [validate_resource_metadata d m, validate_native_metadata d m, validate_received_metadata d m,
      validate_phase_metadata d m]"

definition RECOVERY_COMMON_KEYS :: "string list" where
  "RECOVERY_COMMON_KEYS = [''operation'', ''direction'', ''transfer_id'', ''block_set_id'',
     ''recovery_profile'', ''communication_mapping'', ''rank'']"

definition str_val :: "(string \<Rightarrow> bool) \<Rightarrow> pyval \<Rightarrow> bool" where
  "str_val P v = (case v of PStr s \<Rightarrow> P s | _ \<Rightarrow> False)"

definition validate_kv_recovery_communication_metadata :: "event_draft \<Rightarrow> pydict \<Rightarrow> pyerr option" where
  "validate_kv_recovery_communication_metadata d m =
     (let done_event = ed_event_name d = ''communication_done'' in first_error
        ([fails (\<not> keys_are m (RECOVERY_COMMON_KEYS @ (if done_event then [''bytes_moved''] else [])))
            (PVE ''recovery communication metadata keys differ''),
          fails (\<not> eq_str (dget m ''operation'') ''h2d_restore'')
            (PVE ''recovery operation is not h2d_restore''),
          fails (\<not> eq_str (dget m ''direction'') ''h2d'') (PVE ''recovery direction is not h2d''),
          fails (\<not> str_val (id_pattern (CHR ''t'')) (dget m ''transfer_id''))
            (PVE ''recovery transfer_id is invalid''),
          fails (\<not> str_val (is_hex 64) (dget m ''block_set_id''))
            (PVE ''recovery metadata block_set_id is invalid''),
          fails (\<not> eq_str (dget m ''recovery_profile'') ''rlp.kv-recovery/v1alpha1'')
            (PVE ''recovery profile ID is invalid''),
          fails (\<not> eq_str (dget m ''communication_mapping'') KV_RECOVERY_COMMUNICATION_MODE)
            (PVE ''communication mapping ID is invalid''),
          fails (\<not> eq_int (dget m ''rank'') 0) (PVE ''recovery communication requires rank zero'')]
         @ (if done_event then
              [required_metadata_uint m ''bytes_moved'',
               fails (metadata_uint m ''bytes_moved'' < 1) (PVE ''bytes_moved must be positive'')]
            else [])))"

section \<open>The draft validator\<close>

definition is_communication :: "event_draft \<Rightarrow> bool" where
  "is_communication d \<longleftrightarrow> prefix ''communication_'' (ed_event_name d)"

definition validate_event_draft :: "event_draft \<Rightarrow> string \<Rightarrow> int \<Rightarrow> string \<Rightarrow> pyerr option" where
  "validate_event_draft d process_uuid timestamp_ns communication_mode = first_error
     [require_hex32 ''trace_id'' (ed_trace_id d),
      require_uint ''timestamp_ns'' timestamp_ns UINT64_MAX,
      fails (ed_scope d \<notin> set SCOPES) (PVE ''scope is not frozen''),
      fails (ed_component d \<notin> set COMPONENTS) (PVE ''component is not frozen''),
      fails (ed_event_name d \<notin> set EVENT_NAMES) (PVE ''event_name is not frozen''),
      fails (map_of COMPONENT_BY_SCOPE_EVENT (ed_scope d, ed_event_name d) \<noteq> Some (ed_component d))
        (PVE ''component/event/scope ownership mismatch''),
      fails (is_communication d \<and> communication_mode \<noteq> KV_RECOVERY_COMMUNICATION_MODE)
        (PVE ''communication event mode is not active''),
      fails (\<not> is_communication d \<and> communication_mode \<notin> set [''none'', KV_RECOVERY_COMMUNICATION_MODE])
        (PVE ''communication_mode is not implemented''),
      validate_lifecycle_identity d,
      validate_optional_uint ''preemption_epoch'' (ed_preemption_epoch d) UINT32_MAX,
      validate_optional_uint ''sample_index'' (ed_sample_index d) UINT32_MAX,
      validate_optional_uint ''handoff_index'' (ed_handoff_index d) UINT32_MAX,
      validate_optional_uint ''chunk_index'' (ed_chunk_index d) UINT32_MAX,
      if ed_scope d = ''engine_sample'' then
        fails (ed_preemption_epoch d = None \<or> ed_sample_index d = None)
          (PVE ''engine events require preemption_epoch and sample_index'')
      else fails (ed_preemption_epoch d \<noteq> None \<or> ed_sample_index d \<noteq> None)
        (PVE ''non-engine events forbid preemption_epoch and sample_index''),
      validate_span_fields d process_uuid,
      validate_handoff_and_chunk d,
      validate_metadata (ed_metadata d),
      validate_event_metadata d (metadata_of (ed_metadata d)),
      if is_communication d
      then validate_kv_recovery_communication_metadata d (metadata_of (ed_metadata d)) else None]"

section \<open>Record builders\<close>

definition build_process_start_record ::
  "string \<Rightarrow> int \<Rightarrow> int \<Rightarrow> string \<Rightarrow> runtime_provenance \<Rightarrow> pydict res" where
  "build_process_start_record process_uuid pid started_timestamp_ns clock_domain_id provenance =
     checked
       (first_error
         [require_hex32 ''process_uuid'' process_uuid,
          require_uint ''pid'' pid UINT32_MAX,
          require_uint ''started_timestamp_ns'' started_timestamp_ns UINT64_MAX,
          require_hex32 ''clock_domain_id'' clock_domain_id])
       [(''schema_version'', PStr SCHEMA_VERSION),
        (''record_type'', PStr ''process_start''),
        (''process_uuid'', PStr process_uuid),
        (''pid'', PInt pid),
        (''started_timestamp_ns'', PInt started_timestamp_ns),
        (''clock_source'', PStr CLOCK_SOURCE),
        (''clock_domain_id'', PStr clock_domain_id),
        (''profiler_parent_commit'', PStr (pv_profiler_parent_commit provenance)),
        (''runtime_core_commit'', PStr (pv_runtime_core_commit provenance)),
        (''device_plugin_commit'', PStr (pv_device_plugin_commit provenance)),
        (''parent_api_major'', PInt PARENT_API_MAJOR),
        (''limits'', PDict EXPORTER_LIMITS)]"

definition event_record ::
  "event_draft \<Rightarrow> string \<Rightarrow> string \<Rightarrow> int \<Rightarrow> int \<Rightarrow> pydict" where
  "event_record d process_uuid clock_domain_id record_seq timestamp_ns =
     [(''schema_version'', PStr SCHEMA_VERSION),
      (''record_type'', PStr ''event''),
      (''process_uuid'', PStr process_uuid),
      (''record_seq'', PInt record_seq),
      (''event_id'', PStr (id_of process_uuid (CHR ''e'') record_seq)),
      (''trace_id'', PStr (ed_trace_id d)),
      (''lifecycle_id'', PStr (ed_lifecycle_id d)),
      (''parent_lifecycle_id'', opt_str (ed_parent_lifecycle_id d)),
      (''scope'', PStr (ed_scope d)),
      (''component'', PStr (ed_component d)),
      (''event_name'', PStr (ed_event_name d)),
      (''timestamp_ns'', PInt timestamp_ns),
      (''clock_domain_id'', PStr clock_domain_id),
      (''preemption_epoch'', opt_int (ed_preemption_epoch d)),
      (''start_span_id'', opt_str (ed_start_span_id d)),
      (''end_span_id'', opt_str (ed_end_span_id d)),
      (''closing_span_ids'', PList (map PStr (ed_closing_span_ids d))),
      (''sample_index'', opt_int (ed_sample_index d)),
      (''handoff_index'', opt_int (ed_handoff_index d)),
      (''chunk_index'', opt_int (ed_chunk_index d)),
      (''handoff_id'', opt_str (ed_handoff_id d)),
      (''metadata'', PDict (metadata_of (ed_metadata d)))]"

definition draft_timestamp :: "event_draft \<Rightarrow> int \<Rightarrow> int" where
  "draft_timestamp d default_timestamp_ns =
     (case ed_timestamp_ns d of None \<Rightarrow> default_timestamp_ns | Some t \<Rightarrow> t)"

definition build_event_record ::
  "event_draft \<Rightarrow> string \<Rightarrow> string \<Rightarrow> int \<Rightarrow> int \<Rightarrow> string \<Rightarrow> (pydict \<times> record_ref) res" where
  "build_event_record d process_uuid clock_domain_id record_seq default_timestamp_ns communication_mode =
     (let timestamp_ns = draft_timestamp d default_timestamp_ns in
      checked
        (first_error
          [require_hex32 ''process_uuid'' process_uuid,
           require_hex32 ''clock_domain_id'' clock_domain_id,
           require_uint ''record_seq'' record_seq UINT64_MAX,
           validate_event_draft d process_uuid timestamp_ns communication_mode])
        (event_record d process_uuid clock_domain_id record_seq timestamp_ns,
         \<lparr>rr_record_id = id_of process_uuid (CHR ''e'') record_seq, rr_record_seq = record_seq\<rparr>))"

definition evidence_char :: "char \<Rightarrow> bool" where
  "evidence_char c \<longleftrightarrow> is_lower c \<or> is_digit c \<or> c \<in> set ''_.-''"

text \<open>The full match of \<open>issue2:[a-z0-9_.-]+:[a-z0-9_.-]+\<close>.\<close>

definition issue_2_evidence :: "string \<Rightarrow> bool" where
  "issue_2_evidence s \<longleftrightarrow> prefix ''issue2:'' s \<and>
     (let rest = drop 7 s; left = takeWhile (\<lambda>c. c \<noteq> CHR '':'') rest;
          right = drop (Suc (length left)) rest
      in left \<noteq> [] \<and> length left < length rest \<and> right \<noteq> [] \<and>
         list_all evidence_char left \<and> list_all evidence_char right)"

definition build_edge_record ::
  "edge_draft \<Rightarrow> string \<Rightarrow> int \<Rightarrow> string \<Rightarrow> (pydict \<times> record_ref) res" where
  "build_edge_record d process_uuid record_seq communication_mode =
     (let edge_id = id_of process_uuid (CHR ''g'') record_seq in
      checked
        (first_error
          [fails (communication_mode \<notin> set [''none'', KV_RECOVERY_COMMUNICATION_MODE])
             (PVE ''communication_mode is not implemented''),
           require_hex32 ''process_uuid'' process_uuid,
           require_hex32 ''trace_id'' (gd_trace_id d),
           require_uint ''record_seq'' record_seq UINT64_MAX,
           validate_decimal_id ''from_event_id'' (Some (gd_from_event_id d)) (CHR ''e'') ''event'' 55 UINT64_MAX,
           validate_decimal_id ''to_event_id'' (Some (gd_to_event_id d)) (CHR ''e'') ''event'' 55 UINT64_MAX,
           fails (gd_from_event_id d = gd_to_event_id d) (PVE ''an edge cannot be a self-edge''),
           fails (gd_edge_kind d \<notin> set EDGE_KINDS) (PVE ''edge_kind is not frozen''),
           if gd_evidence_source d \<in> set EVIDENCE_SOURCES then None
           else if issue_2_evidence (gd_evidence_source d) then
             fails (communication_mode \<noteq> KV_RECOVERY_COMMUNICATION_MODE \<or>
                    gd_evidence_source d \<noteq> KV_RECOVERY_H2D_EVIDENCE \<or>
                    gd_edge_kind d \<noteq> ''data_dependency'')
               (PVE ''issue-2 evidence is forbidden outside the frozen recovery mapping'')
           else Some (PVE ''evidence_source is not frozen''),
           fails (length (gd_evidence_source d) > 64) (PVE ''evidence_source exceeds 64 bytes'')])
        ([(''schema_version'', PStr SCHEMA_VERSION),
          (''record_type'', PStr ''edge''),
          (''process_uuid'', PStr process_uuid),
          (''record_seq'', PInt record_seq),
          (''edge_id'', PStr edge_id),
          (''trace_id'', PStr (gd_trace_id d)),
          (''from_event_id'', PStr (gd_from_event_id d)),
          (''to_event_id'', PStr (gd_to_event_id d)),
          (''edge_kind'', PStr (gd_edge_kind d)),
          (''evidence_source'', PStr (gd_evidence_source d))],
         \<lparr>rr_record_id = edge_id, rr_record_seq = record_seq\<rparr>))"

definition build_loss_interval_record ::
  "string \<Rightarrow> int \<Rightarrow> string \<Rightarrow> int \<Rightarrow> int \<Rightarrow> int \<Rightarrow> int \<Rightarrow> int \<Rightarrow> int \<Rightarrow> pydict res" where
  "build_loss_interval_record process_uuid loss_interval_seq reason first_dropped last_dropped
     event_count edge_count first_observed last_observed =
     (let dropped_count = event_count + edge_count in
      checked
        (first_error
          [require_hex32 ''process_uuid'' process_uuid,
           require_uint ''loss_interval_seq'' loss_interval_seq UINT64_MAX,
           fails (reason \<notin> set LOSS_REASONS) (PVE ''loss reason is not frozen''),
           require_uint ''first_dropped_record_seq'' first_dropped UINT64_MAX,
           require_uint ''last_dropped_record_seq'' last_dropped UINT64_MAX,
           require_uint ''event_count'' event_count UINT64_MAX,
           require_uint ''edge_count'' edge_count UINT64_MAX,
           require_uint ''first_observed_timestamp_ns'' first_observed UINT64_MAX,
           require_uint ''last_observed_timestamp_ns'' last_observed UINT64_MAX,
           require_uint ''dropped_count'' dropped_count UINT64_MAX,
           fails (last_dropped < first_dropped) (PVE ''loss interval is inverted''),
           fails (last_observed < first_observed) (PVE ''loss observation timestamps are inverted''),
           fails (dropped_count \<noteq> last_dropped - first_dropped + 1)
             (PVE ''loss interval counts do not reconcile'')])
        [(''schema_version'', PStr SCHEMA_VERSION),
         (''record_type'', PStr ''loss_interval''),
         (''process_uuid'', PStr process_uuid),
         (''loss_interval_seq'', PInt loss_interval_seq),
         (''loss_interval_id'', PStr (id_of process_uuid (CHR ''l'') loss_interval_seq)),
         (''reason'', PStr reason),
         (''first_dropped_record_seq'', PInt first_dropped),
         (''last_dropped_record_seq'', PInt last_dropped),
         (''dropped_count'', PInt dropped_count),
         (''event_count'', PInt event_count),
         (''edge_count'', PInt edge_count),
         (''first_observed_timestamp_ns'', PInt first_observed),
         (''last_observed_timestamp_ns'', PInt last_observed)])"

record summary_counts =
  sc_attempted :: int
  sc_written_event :: int
  sc_written_edge :: int
  sc_written_loss :: int
  sc_dropped_data :: int
  sc_dropped_control :: int
  sc_writer_failure :: int

definition build_process_summary_record ::
  "string \<Rightarrow> int \<Rightarrow> summary_counts \<Rightarrow> string \<Rightarrow> string \<Rightarrow> pydict res" where
  "build_process_summary_record process_uuid ended_timestamp_ns c close_outcome content_sha256 =
     checked
       (first_error
         [require_hex32 ''process_uuid'' process_uuid,
          require_uint ''ended_timestamp_ns'' ended_timestamp_ns UINT64_MAX,
          require_uint ''attempted_data_count'' (sc_attempted c) UINT64_MAX,
          require_uint ''written_event_count'' (sc_written_event c) UINT64_MAX,
          require_uint ''written_edge_count'' (sc_written_edge c) UINT64_MAX,
          require_uint ''written_loss_interval_count'' (sc_written_loss c) UINT64_MAX,
          require_uint ''dropped_data_count'' (sc_dropped_data c) UINT64_MAX,
          require_uint ''dropped_control_count'' (sc_dropped_control c) UINT64_MAX,
          require_uint ''writer_failure_count'' (sc_writer_failure c) UINT64_MAX,
          fails (close_outcome \<notin> set [''drained'', ''timeout'', ''writer_failure''])
            (PVE ''close_outcome is not frozen''),
          fails (\<not> is_hex 64 content_sha256) (PVE ''content_sha256 is not lowercase SHA-256''),
          fails (sc_attempted c \<noteq> sc_written_event c + sc_written_edge c + sc_dropped_data c)
            (PVE ''process summary counts do not reconcile'')])
       [(''schema_version'', PStr SCHEMA_VERSION),
        (''record_type'', PStr ''process_summary''),
        (''process_uuid'', PStr process_uuid),
        (''ended_timestamp_ns'', PInt ended_timestamp_ns),
        (''attempted_data_count'', PInt (sc_attempted c)),
        (''written_event_count'', PInt (sc_written_event c)),
        (''written_edge_count'', PInt (sc_written_edge c)),
        (''written_loss_interval_count'', PInt (sc_written_loss c)),
        (''dropped_data_count'', PInt (sc_dropped_data c)),
        (''dropped_control_count'', PInt (sc_dropped_control c)),
        (''first_data_record_seq'', if sc_attempted c \<noteq> 0 then PInt 0 else PNone),
        (''last_data_record_seq'', if sc_attempted c \<noteq> 0 then PInt (sc_attempted c - 1) else PNone),
        (''writer_failure_count'', PInt (sc_writer_failure c)),
        (''close_outcome'', PStr close_outcome),
        (''content_sha256'', PStr content_sha256)]"

section \<open>Clock domains\<close>

text \<open>The canonical lower-case UUID text \<open>8-4-4-4-12\<close>.\<close>

definition uuid_text :: "string \<Rightarrow> bool" where
  "uuid_text s \<longleftrightarrow> length s = 36 \<and>
     (\<forall>i \<in> {0..<36}. if i \<in> {8, 13, 18, 23} then s ! i = CHR ''-'' else is_lhex (s ! i))"

definition derive_clock_domain_id :: "string \<Rightarrow> string res" where
  "derive_clock_domain_id boot_id_text =
     (let canonical = (if boot_id_text \<noteq> [] \<and> last boot_id_text = newline
                       then butlast boot_id_text else boot_id_text)
      in checked
           (fails (\<not> uuid_text canonical) (PVE ''boot ID is not a canonical lowercase UUID''))
           (take 32 (sha256_hex (canonical @ CHR 0x00 # CLOCK_SOURCE))))"

end
