(* ===== verification/Record_Bounds.thy ===== *)
theory Record_Bounds
  imports Runtime_Protocol
begin

text \<open>
  What the builders of the base records guarantee: the shape of an accepted draft, and the bound
  on the encoded record. The source checks the 4096-byte bound of a line when it encodes a record
  (\<^const>\<open>canonical_json_line\<close>); here the validators are shown to leave no record that exceeds it.
  The argument adds up, key by key, the largest rendering of each validated field.
\<close>


section \<open>Lengths of rendered values\<close>

definition plain :: "string \<Rightarrow> bool" where
  "plain s \<longleftrightarrow> list_all plain_char s"

lemma plain_append [text_simps]: "plain (xs @ ys) \<longleftrightarrow> plain xs \<and> plain ys"
  by (simp add: plain_def)

lemma plain_Cons [text_simps]: "plain (c # cs) \<longleftrightarrow> plain_char c \<and> plain cs"
  by (simp add: plain_def)

lemma plain_Nil [text_simps]: "plain []"
  by (simp add: plain_def)

lemma digit_plain: "is_digit c \<Longrightarrow> plain_char c"
  by (auto simp: is_digit_def plain_char_def code_def)

lemma lhex_plain: "is_lhex c \<Longrightarrow> plain_char c"
  by (auto simp: is_lhex_def is_digit_def plain_char_def code_def)

lemma plain_chars [text_simps]:
  "plain_char CHR '':''" "plain_char CHR ''e''" "plain_char CHR ''g''" "plain_char CHR ''h''"
  "plain_char CHR ''l''" "plain_char CHR ''r''" "plain_char CHR ''s''" "plain_char CHR ''-''"
  by (simp_all add: plain_char_def code_def)

lemma plain_dec_nat [text_simps]: "plain (dec_nat n)"
  using dec_nat_digits [of n] by (auto simp: plain_def list_all_iff intro: digit_plain)

lemma plain_py_str_int [text_simps]: "plain (py_str_int i)"
  by (simp add: py_str_int_def text_simps)

lemma plain_hex [text_simps]: "is_hex n s \<Longrightarrow> plain s"
  by (auto simp: plain_def is_hex_def list_all_iff intro: lhex_plain)

lemma plain_id_of: "is_hex 32 p \<Longrightarrow> plain_char k \<Longrightarrow> plain (id_of p k n)"
  by (simp add: id_of_def text_simps)

lemma plain_id_pattern:
  assumes "id_pattern k s" "plain_char k"
  shows "plain s"
proof -
  have "plain (take 32 s)" "plain (drop 35 s)"
    using assms by (auto simp: id_pattern_def canon_dec_def plain_def list_all_iff is_hex_def
        intro: digit_plain lhex_plain)
  with assms show ?thesis by (subst id_pattern_prefix [OF assms(1)]) (simp add: text_simps)
qed

lemma json_str_plain: "plain s \<Longrightarrow> length (json_str s) = length s + 2"
  by (simp add: length_json_str_plain plain_def)

text \<open>The encoded length of a record, key by key.\<close>

definition member_size :: "string \<times> pyval \<Rightarrow> nat" where
  "member_size kv = length (json_str (fst kv)) + length (json_dumps (snd kv)) + 2"

lemma length_dumps_dict:
  "kvs \<noteq> [] \<Longrightarrow> length (json_dumps (PDict kvs)) = 1 + (\<Sum>kv\<leftarrow>kvs. member_size kv)"
  by (cases kvs)
    (simp_all add: length_json_object length_json_member case_prod_unfold comp_def member_size_def
      sum_list_Suc)

lemma length_dumps_list:
  "vs \<noteq> [] \<Longrightarrow> length (json_dumps (PList vs)) = 1 + (\<Sum>v\<leftarrow>vs. Suc (length (json_dumps v)))"
  by (cases vs) (simp_all add: length_join comp_def sum_list_Suc)

lemma length_py_str_int:
  assumes "0 \<le> i" "i \<le> UINT64_MAX"
  shows "length (py_str_int i) \<le> 20"
proof -
  have "nat i < 10 ^ Suc 19" using assms by (simp add: UINT64_MAX_def)
  from dec_nat_length [OF this] assms(1) show ?thesis by (simp add: py_str_int_nonneg)
qed

lemma length_id_of:
  assumes "is_hex 32 p" "0 \<le> i" "i \<le> UINT64_MAX"
  shows "length (id_of p k i) \<le> 55"
  using length_py_str_int [OF assms(2,3)] assms(1) by (simp add: id_of_def is_hex_def)

text \<open>Bounds of the rendered values of a record.\<close>

definition value_bound :: "pyval \<Rightarrow> nat \<Rightarrow> bool" where
  "value_bound v b \<longleftrightarrow> length (json_dumps v) \<le> b"

lemma bound_uint: "require_uint f i UINT64_MAX = None \<Longrightarrow> value_bound (PInt i) 20"
  by (simp add: value_bound_def require_uint_def accept_simps length_py_str_int)

lemma bound_uint32: "require_uint f i UINT32_MAX = None \<Longrightarrow> value_bound (PInt i) 20"
  by (simp add: value_bound_def require_uint_def accept_simps length_py_str_int UINT32_MAX_def
      UINT64_MAX_def)

lemma bound_opt_uint32: "validate_optional_uint f i UINT32_MAX = None \<Longrightarrow> value_bound (opt_int i) 20"
  by (cases i) (auto simp: validate_optional_uint_def bound_uint32, simp add: value_bound_def)

lemma bound_str: "plain s \<Longrightarrow> length s \<le> b \<Longrightarrow> value_bound (PStr s) (b + 2)"
  by (simp add: value_bound_def json_str_plain)

lemma bound_hex: "is_hex n s \<Longrightarrow> value_bound (PStr s) (n + 2)"
  using bound_str [of s n] by (simp add: plain_hex is_hex_length)

lemma bound_mono: "value_bound v b \<Longrightarrow> b \<le> c \<Longrightarrow> value_bound v c"
  by (simp add: value_bound_def)

lemma bound_opt_str: "(\<And>s. v = Some s \<Longrightarrow> value_bound (PStr s) b) \<Longrightarrow> 4 \<le> b \<Longrightarrow> value_bound (opt_str v) b"
  by (cases v) (auto simp: value_bound_def)

lemma bound_member:
  assumes "plain k" "value_bound v b"
  shows "member_size (k, v) \<le> length k + b + 4"
  using assms by (simp add: member_size_def value_bound_def json_str_plain)

lemma bound_span: "check_span_id v = None \<Longrightarrow> value_bound (opt_str v) 57"
proof (rule bound_opt_str)
  fix s assume "check_span_id v = None" "v = Some s"
  then have p: "id_pattern CHR ''s'' s" by (simp add: check_span_id_def validate_decimal_id_def accept_simps)
  from bound_str [OF plain_id_pattern [OF p] id_pattern_length [OF p]]
  show "value_bound (PStr s) 57" by (simp add: text_simps)
qed simp

lemma bound_spans:
  assumes "\<forall>s \<in> set ss. value_bound (PStr s) 57" "length ss \<le> 16"
  shows "value_bound (PList (map PStr ss)) 929"
proof (cases "ss = []")
  case True
  then show ?thesis by (simp add: value_bound_def)
next
  case False
  have "(\<Sum>v\<leftarrow>map PStr ss. Suc (length (json_dumps v))) \<le> (\<Sum>v\<leftarrow>map PStr ss. 58)"
    by (rule sum_list_mono) (use assms(1) in \<open>auto simp: value_bound_def\<close>)
  also have "\<dots> \<le> 928" using assms(2) by (simp add: comp_def sum_list_triv)
  finally show ?thesis
    using False length_dumps_list [of "map PStr ss"]
    by (simp add: value_bound_def del: json_dumps.simps)
qed

definition known_str :: "nat \<Rightarrow> string \<Rightarrow> bool" where
  "known_str b s \<longleftrightarrow> plain s \<and> length s \<le> b"

lemma known_scopes: "list_all (known_str 13) SCOPES"
  by (simp add: known_str_def SCOPES_def text_simps plain_char_def code_def)
lemma known_components: "list_all (known_str 17) COMPONENTS"
  by (simp add: known_str_def COMPONENTS_def text_simps plain_char_def code_def)
lemma known_events: "list_all (known_str 29) EVENT_NAMES"
  by (simp add: known_str_def EVENT_NAMES_def COMPONENT_BY_SCOPE_EVENT_def register_events_def
      text_simps plain_char_def code_def)

section \<open>Every accepted record fits its line\<close>

definition fits :: "pydict \<Rightarrow> bool" where
  "fits r \<longleftrightarrow> (\<exists>l. canonical_json_line r = Inr l)"

lemma record_length:
  assumes "list_all2 (\<lambda>kv b. plain (fst kv) \<and> value_bound (snd kv) b) kvs bs"
  shows "(\<Sum>kv\<leftarrow>kvs. member_size kv) \<le> (\<Sum>kv\<leftarrow>kvs. length (fst kv)) + sum_list bs + 4 * length kvs"
  using assms
proof (induction rule: list_all2_induct)
  case (Cons kv kvs b bs)
  then have "member_size kv \<le> length (fst kv) + b + 4"
    using bound_member [of "fst kv" "snd kv" b] by simp
  with Cons show ?case by simp
qed simp

lemma fitsI:
  assumes "list_all2 (\<lambda>kv b. plain (fst kv) \<and> value_bound (snd kv) b) kvs bs" "kvs \<noteq> []"
    and "(\<Sum>kv\<leftarrow>kvs. length (fst kv)) + sum_list bs + 4 * length kvs + 2 \<le> 4096"
  shows "fits kvs"
  using record_length [OF assms(1)] length_dumps_dict [OF assms(2)] assms(3)
  by (simp add: fits_def canonical_json_line_def MAX_RECORD_BYTES_def Let_def del: json_dumps.simps)

lemmas key_simps = text_simps plain_char_def code_def

lemma bound_known: "list_all (known_str b) xs \<Longrightarrow> s \<in> set xs \<Longrightarrow> value_bound (PStr s) (b + 2)"
  using bound_str [of s b] by (auto simp: list_all_iff known_str_def)

lemma bound_handoff:
  assumes "validate_handoff_and_chunk d = None" "is_hex 32 (ed_trace_id d)"
    "validate_optional_uint f (ed_handoff_index d) UINT32_MAX = None"
  shows "value_bound (opt_str (ed_handoff_id d)) 57"
proof (rule bound_opt_str)
  fix s assume s: "ed_handoff_id d = Some s"
  have "plain s \<and> length s \<le> 55"
  proof (cases "ed_event_name d = ''serialization_started''")
    case True
    with assms(1) s have "id_pattern CHR ''h'' s"
      by (simp add: validate_handoff_and_chunk_def validate_decimal_id_def accept_simps)
    then show ?thesis using plain_id_pattern id_pattern_length plain_chars by blast
  next
    case False
    with assms(1) s obtain i where i: "ed_handoff_index d = Some i" "s = id_of (ed_trace_id d) CHR ''h'' i"
      by (auto simp: validate_handoff_and_chunk_def accept_simps split: if_splits option.splits)
    with assms(3) have "0 \<le> i" "i \<le> UINT64_MAX"
      by (auto simp: validate_optional_uint_def require_uint_def accept_simps UINT32_MAX_def UINT64_MAX_def)
    with i assms(2) show ?thesis by (simp add: plain_id_of plain_chars length_id_of)
  qed
  then show "value_bound (PStr s) 57" using bound_str [of s 55] by simp
qed simp

lemma lifecycle_ids:
  assumes "validate_lifecycle_identity d = None" "is_hex 32 (ed_trace_id d)"
  shows "value_bound (PStr (ed_lifecycle_id d)) 98 \<and> value_bound (opt_str (ed_parent_lifecycle_id d)) 98"
proof -
  have "plain (ed_lifecycle_id d) \<and> length (ed_lifecycle_id d) \<le> 96 \<and>
    (\<forall>p. ed_parent_lifecycle_id d = Some p \<longrightarrow> plain p \<and> length p \<le> 96)"
    using assms
    by (auto simp: validate_lifecycle_identity_def Let_def accept_simps text_simps plain_id_of
        split: if_splits option.splits)
  then show ?thesis
    using bound_str [of _ 96] by (auto intro!: bound_opt_str simp: numeral_eq_Suc)
qed

lemma bound_metadata: "validate_metadata m = None \<Longrightarrow> value_bound (PDict (metadata_of m)) 1024"
  by (cases m) (simp_all add: metadata_of_def value_bound_def validate_metadata_def accept_simps
      MAX_METADATA_BYTES_def json_object_def)

lemma built_event:
  assumes "build_event_record d u c n t mode = Inr (r, ref)"
  shows "is_hex 32 u" "is_hex 32 c" "0 \<le> n" "n \<le> UINT64_MAX"
    "validate_event_draft d u (draft_timestamp d t) mode = None"
    "r = event_record d u c n (draft_timestamp d t)"
    "ref = \<lparr>rr_record_id = id_of u (CHR ''e'') n, rr_record_seq = n\<rparr>"
  using assms by (simp_all add: build_event_record_def Let_def accept_simps require_hex32_def require_uint_def)

lemma accepted_draft:
  assumes "validate_event_draft d u t mode = None"
  shows "is_hex 32 (ed_trace_id d)" "0 \<le> t" "t \<le> UINT64_MAX" "ed_scope d \<in> set SCOPES"
    "ed_component d \<in> set COMPONENTS" "ed_event_name d \<in> set EVENT_NAMES"
    "map_of COMPONENT_BY_SCOPE_EVENT (ed_scope d, ed_event_name d) = Some (ed_component d)"
    "validate_lifecycle_identity d = None"
    "validate_optional_uint ''preemption_epoch'' (ed_preemption_epoch d) UINT32_MAX = None"
    "validate_optional_uint ''sample_index'' (ed_sample_index d) UINT32_MAX = None"
    "validate_optional_uint ''handoff_index'' (ed_handoff_index d) UINT32_MAX = None"
    "validate_optional_uint ''chunk_index'' (ed_chunk_index d) UINT32_MAX = None"
    "validate_span_fields d u = None" "validate_handoff_and_chunk d = None"
    "validate_metadata (ed_metadata d) = None"
    "validate_event_metadata d (metadata_of (ed_metadata d)) = None"
    "is_communication d \<Longrightarrow> mode = KV_RECOVERY_COMMUNICATION_MODE"
    "is_communication d \<Longrightarrow>
       validate_kv_recovery_communication_metadata d (metadata_of (ed_metadata d)) = None"
  using assms
  by (simp_all add: validate_event_draft_def accept_simps require_hex32_def require_uint_def)

lemma accepted_spans:
  assumes "validate_span_fields d u = None"
  shows "length (ed_closing_span_ids d) \<le> 16" "distinct (ed_closing_span_ids d)"
    "\<forall>s \<in> set (ed_closing_span_ids d). check_span_id (Some s) = None"
    "check_span_id (ed_start_span_id d) = None" "check_span_id (ed_end_span_id d) = None"
    "\<And>s. ed_start_span_id d = Some s \<Longrightarrow> prefix (u @ '':s:'') s"
proof -
  from assms have "sort (remdups (ed_closing_span_ids d)) = ed_closing_span_ids d"
    by (simp add: validate_span_fields_def Let_def accept_simps)
  then show "distinct (ed_closing_span_ids d)" by (metis distinct_remdups distinct_sort)
qed (use assms in \<open>simp_all add: validate_span_fields_def Let_def accept_simps ball_Un\<close>)

lemma event_record_fits:
  assumes d: "validate_event_draft d u t mode = None"
    and u: "is_hex 32 u" and c: "is_hex 32 c" and n: "0 \<le> n" "n \<le> UINT64_MAX"
  shows "fits (event_record d u c n t)"
proof (rule fitsI)
  note a = accepted_draft [OF d]
  note s = accepted_spans [OF a(13)]
  have spans: "value_bound (PList (map PStr (ed_closing_span_ids d))) 929"
    using s(1,3) bound_span [of "Some _"] by (intro bound_spans) auto
  have id: "value_bound (PStr (id_of u CHR ''e'' n)) 57"
    using bound_str [of "id_of u CHR ''e'' n" 55] u n by (simp add: plain_id_of plain_chars length_id_of)
  have ints: "value_bound (PInt n) 20" "value_bound (PInt t) 20"
    using a(2,3) n by (simp_all add: value_bound_def length_py_str_int)
  have schema: "value_bound (PStr SCHEMA_VERSION) 20" "value_bound (PStr ''event'') 7"
    by (simp_all add: value_bound_def SCHEMA_VERSION_def json_str_plain key_simps)
  show "list_all2 (\<lambda>kv b. plain (fst kv) \<and> value_bound (snd kv) b) (event_record d u c n t)
    [20, 7, 34, 20, 57, 34, 98, 98, 15, 19, 31, 20, 34, 20, 57, 57, 929, 20, 20, 20, 57, 1024]"
    unfolding event_record_def list_all2_Cons fst_conv snd_conv
    using spans id ints schema lifecycle_ids [OF a(8,1)] bound_hex [OF u] bound_hex [OF c]
      bound_hex [OF a(1)] bound_known [OF known_scopes a(4)] bound_known [OF known_components a(5)]
      bound_known [OF known_events a(6)] bound_opt_uint32 [OF a(9)] bound_opt_uint32 [OF a(10)]
      bound_opt_uint32 [OF a(11)] bound_opt_uint32 [OF a(12)] bound_span [OF s(4)]
      bound_span [OF s(5)] bound_handoff [OF a(14,1,11)] bound_metadata [OF a(15)]
    by (simp add: key_simps)
qed (simp_all add: event_record_def)

lemma known_edge_kinds: "list_all (known_str 28) EDGE_KINDS"
  by (simp add: known_str_def EDGE_KINDS_def key_simps)

lemma known_loss_reasons: "list_all (known_str 21) LOSS_REASONS"
  by (simp add: known_str_def LOSS_REASONS_def key_simps)

lemma known_evidence: "list_all (known_str 30) EVIDENCE_SOURCES"
  by (simp add: known_str_def EVIDENCE_SOURCES_def key_simps)

lemma known_outcomes: "list_all (known_str 14) [''drained'', ''timeout'', ''writer_failure'']"
  by (simp add: known_str_def key_simps)

lemma known_h2d: "value_bound (PStr KV_RECOVERY_H2D_EVIDENCE) 43"
  by (simp add: value_bound_def KV_RECOVERY_H2D_EVIDENCE_def KV_RECOVERY_COMMUNICATION_MODE_def
      json_str_plain key_simps)

lemma bound_decimal_id:
  "validate_decimal_id f (Some s) k kind b m = None \<Longrightarrow> plain_char k \<Longrightarrow> value_bound (PStr s) 57"
  using bound_str [of s 55]
  by (auto simp: validate_decimal_id_def accept_simps dest: plain_id_pattern id_pattern_length)

lemma bound_id_of:
  assumes "is_hex 32 u" "0 \<le> n" "n \<le> UINT64_MAX" "plain_char k"
  shows "value_bound (PStr (id_of u k n)) 57"
  using bound_str [of "id_of u k n" 55] assms by (simp add: plain_id_of length_id_of)

lemma bound_schema: "value_bound (PStr SCHEMA_VERSION) 20"
  by (simp add: value_bound_def SCHEMA_VERSION_def json_str_plain key_simps)

lemma bound_literal: "plain s \<Longrightarrow> length s + 2 \<le> b \<Longrightarrow> value_bound (PStr s) b"
  by (simp add: value_bound_def json_str_plain)

lemma built_edge:
  assumes "build_edge_record d u n mode = Inr (r, ref)"
  shows "is_hex 32 u" "is_hex 32 (gd_trace_id d)" "0 \<le> n" "n \<le> UINT64_MAX"
    "mode \<in> {''none'', KV_RECOVERY_COMMUNICATION_MODE}"
    "validate_decimal_id ''from_event_id'' (Some (gd_from_event_id d)) CHR ''e'' ''event'' 55 UINT64_MAX = None"
    "validate_decimal_id ''to_event_id'' (Some (gd_to_event_id d)) CHR ''e'' ''event'' 55 UINT64_MAX = None"
    "gd_from_event_id d \<noteq> gd_to_event_id d" "gd_edge_kind d \<in> set EDGE_KINDS"
    "gd_evidence_source d \<in> set EVIDENCE_SOURCES \<or>
       gd_evidence_source d = KV_RECOVERY_H2D_EVIDENCE \<and> mode = KV_RECOVERY_COMMUNICATION_MODE \<and>
       gd_edge_kind d = ''data_dependency''"
    "ref = \<lparr>rr_record_id = id_of u (CHR ''g'') n, rr_record_seq = n\<rparr>"
    "r = [(''schema_version'', PStr SCHEMA_VERSION), (''record_type'', PStr ''edge''),
          (''process_uuid'', PStr u), (''record_seq'', PInt n),
          (''edge_id'', PStr (id_of u (CHR ''g'') n)), (''trace_id'', PStr (gd_trace_id d)),
          (''from_event_id'', PStr (gd_from_event_id d)), (''to_event_id'', PStr (gd_to_event_id d)),
          (''edge_kind'', PStr (gd_edge_kind d)), (''evidence_source'', PStr (gd_evidence_source d))]"
  using assms
  by (auto simp: build_edge_record_def Let_def accept_simps require_hex32_def require_uint_def
      split: if_splits)

lemma edge_record_fits:
  assumes "build_edge_record d u n mode = Inr (r, ref)"
  shows "fits r"
proof -
  note b = built_edge [OF assms]
  have ev: "value_bound (PStr (gd_evidence_source d)) 43"
    using b(10) bound_known [OF known_evidence] known_h2d bound_mono by fastforce
  have seq: "value_bound (PInt n) 20"
    using length_py_str_int [OF b(3,4)] by (simp add: value_bound_def)
  have r: "list_all2 (\<lambda>kv b. plain (fst kv) \<and> value_bound (snd kv) b) r
    [20, 6, 34, 20, 57, 34, 57, 57, 30, 43]"
    unfolding b(12) list_all2_Cons fst_conv snd_conv
    using bound_schema bound_hex [OF b(1)] bound_hex [OF b(2)] ev bound_id_of [OF b(1,3,4)] seq
      bound_decimal_id [OF b(6)] bound_decimal_id [OF b(7)] bound_known [OF known_edge_kinds b(9)]
    by (simp add: key_simps bound_literal)
  show ?thesis by (rule fitsI [OF r]) (simp_all add: b(12))
qed

lemma built_loss:
  assumes "build_loss_interval_record u k reason a z ec gc t0 t1 = Inr r"
  shows "is_hex 32 u" "reason \<in> set LOSS_REASONS" "0 \<le> k" "k \<le> UINT64_MAX"
    "ec + gc = z - a + 1" "0 \<le> a" "a \<le> z" "t0 \<le> t1"
    "\<And>i. i \<in> {k, a, z, ec, gc, t0, t1, ec + gc} \<Longrightarrow> value_bound (PInt i) 20"
  using assms
  by (auto simp: build_loss_interval_record_def Let_def accept_simps require_hex32_def require_uint_def
      intro!: bound_uint [of "[]"])

lemma loss_record_fits:
  assumes "build_loss_interval_record u k reason a z ec gc t0 t1 = Inr r"
  shows "fits r"
proof -
  note b = built_loss [OF assms]
  have r: "list_all2 (\<lambda>kv b. plain (fst kv) \<and> value_bound (snd kv) b) r
    [20, 15, 34, 20, 57, 23, 20, 20, 20, 20, 20, 20, 20]"
    using assms bound_schema bound_hex [OF b(1)] bound_known [OF known_loss_reasons b(2)]
      bound_id_of [OF b(1,3,4)]
    by (simp add: build_loss_interval_record_def Let_def accept_simps)
      (auto simp: key_simps b(9) bound_literal)
  show ?thesis
    using assms
    by (intro fitsI [OF r]) (auto simp: build_loss_interval_record_def Let_def accept_simps)
qed

lemma built_summary:
  assumes "build_process_summary_record u t c outcome digest = Inr r"
  shows "is_hex 32 u" "outcome \<in> set [''drained'', ''timeout'', ''writer_failure'']" "is_hex 64 digest"
    "sc_attempted c = sc_written_event c + sc_written_edge c + sc_dropped_data c"
    "\<And>i. i \<in> {t, sc_attempted c, sc_written_event c, sc_written_edge c, sc_written_loss c,
       sc_dropped_data c, sc_dropped_control c, sc_writer_failure c} \<Longrightarrow> 0 \<le> i \<and> i \<le> UINT64_MAX"
  using assms
  by (auto simp: build_process_summary_record_def accept_simps require_hex32_def require_uint_def)

lemma summary_record_fits:
  assumes "build_process_summary_record u t c outcome digest = Inr r"
  shows "fits r"
proof -
  note b = built_summary [OF assms]
  have ints: "value_bound (PInt i) 20"
    if "i \<in> {t, sc_attempted c, sc_written_event c, sc_written_edge c, sc_written_loss c,
       sc_dropped_data c, sc_dropped_control c, sc_writer_failure c}" for i
    using b(5) [OF that] by (simp add: value_bound_def length_py_str_int)
  have ends: "value_bound (if sc_attempted c \<noteq> 0 then PInt 0 else PNone) 20"
    "value_bound (if sc_attempted c \<noteq> 0 then PInt (sc_attempted c - 1) else PNone) 20"
    using b(5) [of "sc_attempted c"] length_py_str_int [of 0] length_py_str_int [of "sc_attempted c - 1"]
    by (auto simp: value_bound_def UINT64_MAX_def)
  have r: "list_all2 (\<lambda>kv b. plain (fst kv) \<and> value_bound (snd kv) b) r
    [20, 17, 34, 20, 20, 20, 20, 20, 20, 20, 20, 20, 20, 16, 66]"
    using assms bound_schema bound_hex [OF b(1)] bound_known [OF known_outcomes b(2)]
      bound_hex [OF b(3)] ends
    by (simp add: build_process_summary_record_def accept_simps)
      (auto simp: key_simps ints bound_literal)
  show ?thesis
    using assms
    by (intro fitsI [OF r]) (auto simp: build_process_summary_record_def accept_simps)
qed

section \<open>Properties of the record builders\<close>

text \<open>Concrete drafts, on which the properties below are evaluated.\<close>

definition sample_hex :: "char \<Rightarrow> string" where
  "sample_hex c = replicate 32 c"

definition sample_span :: "string option" where
  "sample_span = Some (sample_hex CHR ''b'' @ '':s:7'')"

definition sample_scheduled :: event_draft where
  "sample_scheduled =
     \<lparr>ed_trace_id = sample_hex CHR ''a'', ed_lifecycle_id = sample_hex CHR ''a'' @ '':e:0'',
      ed_parent_lifecycle_id = Some (sample_hex CHR ''a'' @ '':r''),
      ed_scope = ''engine_sample'', ed_component = ''engine_core'', ed_event_name = ''scheduled'',
      ed_timestamp_ns = Some 17, ed_preemption_epoch = Some 0, ed_start_span_id = None,
      ed_end_span_id = sample_span, ed_closing_span_ids = [], ed_sample_index = Some 0,
      ed_handoff_index = None, ed_chunk_index = None, ed_handoff_id = None,
      ed_metadata = Some [(''prompt_tokens_total'', PInt 8), (''prompt_tokens_cached'', PInt 3),
        (''prompt_tokens_to_compute'', PInt 5)]\<rparr>"

definition sample_edge :: edge_draft where
  "sample_edge =
     \<lparr>gd_trace_id = sample_hex CHR ''a'', gd_from_event_id = sample_hex CHR ''b'' @ '':e:0'',
      gd_to_event_id = sample_hex CHR ''b'' @ '':e:1'', gd_edge_kind = ''program_order'',
      gd_evidence_source = ''instrumented_execution_context''\<rparr>"

definition accepted :: "'a res \<Rightarrow> bool" where
  "accepted x \<longleftrightarrow> (case x of Inl _ \<Rightarrow> False | Inr _ \<Rightarrow> True)"

definition build_sample :: "(pydict \<times> record_ref) res" where
  "build_sample = build_event_record sample_scheduled (sample_hex CHR ''b'') (sample_hex CHR ''c'') 5 99 ''none''"

lemma sample_accepted: "accepted build_sample"
  by code_simp

lemma sample_edge_accepted: "accepted (build_edge_record sample_edge (sample_hex CHR ''b'') 6 ''none'')"
  by code_simp

lemma acceptedE: "accepted x \<Longrightarrow> (\<And>y. x = Inr y \<Longrightarrow> P) \<Longrightarrow> P"
  by (auto simp: accepted_def split: sum.splits)

lemma fitsD: "fits r \<Longrightarrow> \<exists>l. canonical_json_line r = Inr l \<and> length l \<le> MAX_RECORD_BYTES \<and> framed l"
  using canonical_line_bounded canonical_line_framed by (auto simp: fits_def)

text \<open>
  C22. An event draft that the validators accept is never lost to the record size bound: its
  canonical line exists, has at most 4096 bytes and contains no newline but its last byte.
\<close>

theorem accepted_event_is_writable:
  assumes "build_event_record d u c n t mode = Inr (r, ref)"
  shows "\<exists>l. canonical_json_line r = Inr l \<and> length l \<le> MAX_RECORD_BYTES \<and> framed l"
  using event_record_fits built_event [OF assms] fitsD by blast

lemma accepted_event_is_writable_witness:
  "\<exists>r ref l. build_sample = Inr (r, ref) \<and> canonical_json_line r = Inr l \<and>
     length l \<le> MAX_RECORD_BYTES \<and> framed l"
proof (rule acceptedE [OF sample_accepted])
  fix y assume y: "build_sample = Inr y"
  then show ?thesis
    using accepted_event_is_writable [of sample_scheduled "sample_hex CHR ''b''" "sample_hex CHR ''c''"
        5 99 "''none''" "fst y" "snd y"]
    by (cases y) (auto simp: build_sample_def)
qed

definition lifecycle_of :: "event_draft \<Rightarrow> string" where
  "lifecycle_of d =
     (if ed_scope d = ''root_request'' then ed_trace_id d @ '':r''
      else if ed_scope d = ''engine_sample''
        then id_of (ed_trace_id d) CHR ''e'' (case ed_sample_index d of None \<Rightarrow> 0 | Some i \<Rightarrow> i)
      else ed_trace_id d @ '':s'')"

text \<open>
  C38. An accepted event belongs to the component the vocabulary assigns to its scope and name, its
  lifecycle is the one its trace, scope and sample determine, its identity is built from the
  process and the record sequence, and a span it opens carries the process's own prefix.
\<close>

theorem accepted_event_identity:
  assumes "build_event_record d u c n t mode = Inr (r, ref)"
  shows "map_of COMPONENT_BY_SCOPE_EVENT (ed_scope d, ed_event_name d) = Some (ed_component d) \<and>
    ed_lifecycle_id d = lifecycle_of d \<and>
    ed_parent_lifecycle_id d =
      (if ed_scope d = ''root_request'' then None else Some (ed_trace_id d @ '':r'')) \<and>
    (ed_sample_index d = None) = (ed_scope d \<noteq> ''engine_sample'') \<and>
    id_pattern CHR ''e'' (rr_record_id ref) \<and> dget r ''event_id'' = PStr (rr_record_id ref) \<and>
    dget r ''record_seq'' = PInt (rr_record_seq ref) \<and>
    (\<forall>s. ed_start_span_id d = Some s \<longrightarrow> prefix (u @ '':s:'') s)"
proof -
  note b = built_event [OF assms]
  note a = accepted_draft [OF b(5)]
  have epochs: "(ed_sample_index d = None) = (ed_scope d \<noteq> ''engine_sample'')"
    using b(5) by (auto simp: validate_event_draft_def accept_simps split: if_splits)
  have "ed_lifecycle_id d = lifecycle_of d \<and> ed_parent_lifecycle_id d =
      (if ed_scope d = ''root_request'' then None else Some (ed_trace_id d @ '':r''))"
    using a(8) by (auto simp: validate_lifecycle_identity_def lifecycle_of_def Let_def accept_simps
        split: if_splits option.splits)
  moreover have "id_pattern CHR ''e'' (rr_record_id ref)"
    using b(1,3,4,7) by (simp add: id_pattern_id_of UINT64_MAX_def)
  moreover have "dget r ''event_id'' = PStr (rr_record_id ref) \<and>
      dget r ''record_seq'' = PInt (rr_record_seq ref)"
    using b(6,7) by (simp add: event_record_def dget_def)
  ultimately show ?thesis using a(7) accepted_spans(6) [OF a(13)] epochs by blast
qed

lemma accepted_event_identity_witness:
  "ed_lifecycle_id sample_scheduled = lifecycle_of sample_scheduled \<and>
     map_of COMPONENT_BY_SCOPE_EVENT (''engine_sample'', ''scheduled'') = Some ''engine_core''"
proof (rule acceptedE [OF sample_accepted])
  fix y assume y: "build_sample = Inr y"
  then show ?thesis
    using accepted_event_identity [of sample_scheduled "sample_hex CHR ''b''" "sample_hex CHR ''c''"
        5 99 "''none''" "fst y" "snd y"]
    by (cases y) (simp add: build_sample_def, simp add: sample_scheduled_def)
qed

text \<open>
  C33. The privacy boundary of the wire format: the metadata of an accepted event holds no
  forbidden key (prompts, generated text, tokens, credentials, client addresses), every key is a
  short lower-case name, every string value is printable ASCII of at most 128 bytes, nothing is
  nested, and the whole object encodes into at most 1024 bytes.
\<close>

theorem accepted_metadata_is_private:
  assumes "build_event_record d u c n t mode = Inr (r, ref)"
  shows "dget r ''metadata'' = PDict (metadata_of (ed_metadata d)) \<and>
    (\<forall>(k, v) \<in> set (metadata_of (ed_metadata d)).
       k \<notin> set FORBIDDEN_METADATA_KEYS \<and> metadata_key k \<and>
       (case v of PStr s \<Rightarrow> printable_ascii s \<and> length s \<le> 128
        | PInt i \<Rightarrow> 0 \<le> i \<and> i \<le> UINT64_MAX | PList _ \<Rightarrow> False | PDict _ \<Rightarrow> False | _ \<Rightarrow> True)) \<and>
    length (json_dumps (PDict (metadata_of (ed_metadata d)))) \<le> MAX_METADATA_BYTES"
proof -
  note b = built_event [OF assms]
  note a = accepted_draft [OF b(5)]
  have r: "dget r ''metadata'' = PDict (metadata_of (ed_metadata d))"
    using b(6) by (simp add: event_record_def dget_def)
  have items: "check_metadata_item kv = None" if "kv \<in> set (metadata_of (ed_metadata d))" for kv
    using a(15) that by (cases "ed_metadata d") (auto simp: validate_metadata_def metadata_of_def accept_simps)
  have "k \<notin> set FORBIDDEN_METADATA_KEYS \<and> metadata_key k \<and>
       (case v of PStr s \<Rightarrow> printable_ascii s \<and> length s \<le> 128
        | PInt i \<Rightarrow> 0 \<le> i \<and> i \<le> UINT64_MAX | PList _ \<Rightarrow> False | PDict _ \<Rightarrow> False | _ \<Rightarrow> True)"
    if "(k, v) \<in> set (metadata_of (ed_metadata d))" for k v
    using items [OF that]
    by (cases v) (simp_all add: check_metadata_item_def accept_simps require_uint_def)
  moreover have "length (json_dumps (PDict (metadata_of (ed_metadata d)))) \<le> MAX_METADATA_BYTES"
    using bound_metadata [OF a(15)] by (simp add: value_bound_def MAX_METADATA_BYTES_def)
  ultimately show ?thesis using r by blast
qed

lemma accepted_metadata_is_private_witness:
  "\<exists>r ref. build_sample = Inr (r, ref) \<and>
     dget r ''metadata'' = PDict (metadata_of (ed_metadata sample_scheduled))"
proof (rule acceptedE [OF sample_accepted])
  fix y assume y: "build_sample = Inr y"
  then show ?thesis
    using accepted_metadata_is_private [of sample_scheduled "sample_hex CHR ''b''" "sample_hex CHR ''c''"
        5 99 "''none''" "fst y" "snd y"]
    by (cases y) (simp add: build_sample_def)
qed

text \<open>
  The prompt accounting of scheduling: an accepted \<open>scheduled\<close> or \<open>resumed\<close> event reports a
  positive prompt, fewer cached tokens than prompt tokens, and as tokens to compute exactly the
  difference, so the three counters cannot contradict each other.
\<close>

theorem scheduled_tokens_reconcile:
  assumes "build_event_record d u c n t mode = Inr (r, ref)"
    and "ed_event_name d \<in> {''scheduled'', ''resumed''}"
  shows "\<exists>total cached. dget (metadata_of (ed_metadata d)) ''prompt_tokens_total'' = PInt total \<and>
    dget (metadata_of (ed_metadata d)) ''prompt_tokens_cached'' = PInt cached \<and>
    dget (metadata_of (ed_metadata d)) ''prompt_tokens_to_compute'' = PInt (total - cached) \<and>
    0 \<le> cached \<and> cached < total \<and> total \<le> UINT64_MAX"
proof -
  let ?m = "metadata_of (ed_metadata d)"
  have phase: "validate_phase_metadata d ?m = None"
    using accepted_draft(16) [OF built_event(5) [OF assms(1)]]
    by (simp add: validate_event_metadata_def accept_simps)
  have uint: "\<exists>i. dget ?m k = PInt i \<and> metadata_uint ?m k = i \<and> 0 \<le> i \<and> i \<le> UINT64_MAX"
    if "required_metadata_uint ?m k = None" for k
    using that by (cases "dget ?m k")
      (auto simp: required_metadata_uint_def metadata_uint_def require_uint_def accept_simps)
  have "required_metadata_uint ?m ''prompt_tokens_total'' = None"
    "required_metadata_uint ?m ''prompt_tokens_cached'' = None"
    "required_metadata_uint ?m ''prompt_tokens_to_compute'' = None"
    and rec: "\<not> (metadata_uint ?m ''prompt_tokens_total'' < 1 \<or>
       metadata_uint ?m ''prompt_tokens_cached'' \<ge> metadata_uint ?m ''prompt_tokens_total'' \<or>
       metadata_uint ?m ''prompt_tokens_to_compute'' \<noteq>
       metadata_uint ?m ''prompt_tokens_total'' - metadata_uint ?m ''prompt_tokens_cached'')"
    using phase assms(2) by (auto simp: validate_phase_metadata_def accept_simps)
  then show ?thesis
    using uint [of "''prompt_tokens_total''"] uint [of "''prompt_tokens_cached''"]
      uint [of "''prompt_tokens_to_compute''"] by auto
qed

lemma scheduled_tokens_reconcile_witness:
  "\<exists>total cached. dget (metadata_of (ed_metadata sample_scheduled)) ''prompt_tokens_total'' = PInt total \<and>
     cached < total"
proof (rule acceptedE [OF sample_accepted])
  fix y assume y: "build_sample = Inr y"
  then show ?thesis
    using scheduled_tokens_reconcile [of sample_scheduled "sample_hex CHR ''b''" "sample_hex CHR ''c''"
        5 99 "''none''" "fst y" "snd y"]
    by (cases y) (auto simp: build_sample_def, auto simp: sample_scheduled_def)
qed

text \<open>
  C34. The span boundaries of an accepted event: an abnormal terminal names the spans it closes and
  opens or ends none of its own; any other event closes none in bulk, opens a span exactly when
  its name is a span start and ends one exactly when its name is a span end; every span it names
  is a well-formed identity.
\<close>

theorem span_boundaries_match:
  assumes "build_event_record d u c n t mode = Inr (r, ref)"
  shows "(ed_event_name d \<in> set ABNORMAL_TERMINALS \<longrightarrow> ed_start_span_id d = None \<and> ed_end_span_id d = None) \<and>
    (ed_event_name d \<notin> set ABNORMAL_TERMINALS \<longrightarrow> ed_closing_span_ids d = [] \<and>
       (ed_start_span_id d \<noteq> None) = (ed_event_name d \<in> set SPAN_START_EVENTS) \<and>
       (ed_end_span_id d \<noteq> None) = (ed_event_name d \<in> set SPAN_END_EVENTS)) \<and>
    sorted (ed_closing_span_ids d) \<and> distinct (ed_closing_span_ids d) \<and>
    (\<forall>s \<in> set (ed_closing_span_ids d) \<union> set_option (ed_start_span_id d) \<union> set_option (ed_end_span_id d).
       id_pattern CHR ''s'' s)"
proof -
  note a = accepted_draft [OF built_event(5) [OF assms]]
  note s = accepted_spans [OF a(13)]
  have pat: "id_pattern CHR ''s'' x" if "check_span_id (Some x) = None" for x
    using that by (simp add: check_span_id_def validate_decimal_id_def accept_simps)
  have "sort (remdups (ed_closing_span_ids d)) = ed_closing_span_ids d"
    using a(13) by (simp add: validate_span_fields_def Let_def accept_simps)
  then have "sorted (ed_closing_span_ids d)" by (metis sorted_sort)
  moreover have "(ed_event_name d \<in> set ABNORMAL_TERMINALS \<longrightarrow> ed_start_span_id d = None \<and> ed_end_span_id d = None) \<and>
    (ed_event_name d \<notin> set ABNORMAL_TERMINALS \<longrightarrow> ed_closing_span_ids d = [] \<and>
       (ed_start_span_id d \<noteq> None) = (ed_event_name d \<in> set SPAN_START_EVENTS) \<and>
       (ed_end_span_id d \<noteq> None) = (ed_event_name d \<in> set SPAN_END_EVENTS))"
    using a(13) by (simp add: validate_span_fields_def Let_def accept_simps split: if_splits)
  ultimately show ?thesis using s(2-5) pat by auto
qed

lemma span_boundaries_match_witness:
  "sorted (ed_closing_span_ids sample_scheduled) \<and> ''scheduled'' \<in> set SPAN_END_EVENTS"
proof (rule acceptedE [OF sample_accepted])
  fix y assume y: "build_sample = Inr y"
  then show ?thesis
    using span_boundaries_match [of sample_scheduled "sample_hex CHR ''b''" "sample_hex CHR ''c''"
        5 99 "''none''" "fst y" "snd y"]
    by (cases y) (simp add: build_sample_def SPAN_END_EVENTS_def)
qed

lemma id_of_kind:
  assumes "is_hex 32 u" "id_of u k m = id_of u k' n" "0 \<le> m" "0 \<le> n"
  shows "k = k' \<and> m = n"
  using assms by (simp add: id_of_def py_str_int_inject)

text \<open>
  Record identities are unique in a process: two accepted data records, each an event or an
  edge, have the same identity only if they are of the same kind and have the same record
  sequence number.
\<close>

theorem data_record_ids_are_unique:
  assumes "build_event_record d u c m t mode = Inr (r1, e1)"
    and "build_event_record d' u c' n t' mode = Inr (r2, e2)"
    and "build_edge_record g u k mode = Inr (r3, e3)"
  shows "(rr_record_id e1 = rr_record_id e2 \<longleftrightarrow> m = n) \<and> rr_record_id e1 \<noteq> rr_record_id e3"
  using built_event(1,3,7) [OF assms(1)] built_event(3,7) [OF assms(2)] built_edge(3,11) [OF assms(3)]
  by (auto dest: id_of_kind)

lemma data_record_ids_are_unique_witness:
  "\<exists>e1 e3. map_sum id snd build_sample = Inr e1 \<and>
     map_sum id snd (build_edge_record sample_edge (sample_hex CHR ''b'') 6 ''none'') = Inr e3 \<and>
     rr_record_id e1 \<noteq> rr_record_id e3"
proof (rule acceptedE [OF sample_accepted], rule acceptedE [OF sample_edge_accepted])
  fix y z
  assume "build_sample = Inr y"
    and "build_edge_record sample_edge (sample_hex CHR ''b'') 6 ''none'' = Inr z"
  then show ?thesis
    using data_record_ids_are_unique [of sample_scheduled "sample_hex CHR ''b''" "sample_hex CHR ''c''"
        5 99 "''none''" "fst y" "snd y" sample_scheduled "sample_hex CHR ''c''" 5 99 "fst y" "snd y"
        sample_edge 6 "fst z" "snd z"]
    by (cases y; cases z) (auto simp: build_sample_def)
qed

text \<open>
  An accepted edge can always be written, joins two different well-formed events, has a frozen
  kind, and rests on a frozen evidence source or on the recovery transfer evidence, the latter
  only in the recovery communication mode and only as a data dependency.
\<close>

theorem accepted_edge:
  assumes "build_edge_record d u n mode = Inr (r, ref)"
  shows "(\<exists>l. canonical_json_line r = Inr l) \<and> gd_from_event_id d \<noteq> gd_to_event_id d \<and>
    id_pattern CHR ''e'' (gd_from_event_id d) \<and> id_pattern CHR ''e'' (gd_to_event_id d) \<and>
    gd_edge_kind d \<in> set EDGE_KINDS \<and>
    (gd_evidence_source d \<in> set EVIDENCE_SOURCES \<or>
     gd_evidence_source d = KV_RECOVERY_H2D_EVIDENCE \<and> mode = KV_RECOVERY_COMMUNICATION_MODE \<and>
     gd_edge_kind d = ''data_dependency'')"
  using built_edge [OF assms] edge_record_fits [OF assms]
  by (auto simp: fits_def validate_decimal_id_def accept_simps)

lemma accepted_edge_witness:
  "gd_from_event_id sample_edge \<noteq> gd_to_event_id sample_edge \<and> ''program_order'' \<in> set EDGE_KINDS"
proof (rule acceptedE [OF sample_edge_accepted])
  fix z assume "build_edge_record sample_edge (sample_hex CHR ''b'') 6 ''none'' = Inr z"
  then show ?thesis
    using accepted_edge [of sample_edge "sample_hex CHR ''b''" 6 "''none''" "fst z" "snd z"]
    by (auto simp: EDGE_KINDS_def)
qed

definition uint64 :: "int \<Rightarrow> bool" where
  "uint64 i \<longleftrightarrow> 0 \<le> i \<and> i \<le> UINT64_MAX"

text \<open>
  A loss interval is recorded exactly when it accounts for every sequence number between its
  ends: the builder accepts if and only if the identity, the reason and the ranges are valid and
  the event and edge counts add up to the length of the interval, and what it accepts can always
  be written.
\<close>

theorem loss_interval_accepted:
  "(\<exists>r l. build_loss_interval_record u k reason a z events edges t0 t1 = Inr r \<and> canonical_json_line r = Inr l)
   \<longleftrightarrow> is_hex 32 u \<and> reason \<in> set LOSS_REASONS \<and> list_all uint64 [k, a, z, events, edges, t0, t1] \<and>
       uint64 (events + edges) \<and> a \<le> z \<and> t0 \<le> t1 \<and> events + edges = z - a + 1"
proof
  assume "is_hex 32 u \<and> reason \<in> set LOSS_REASONS \<and> list_all uint64 [k, a, z, events, edges, t0, t1] \<and>
       uint64 (events + edges) \<and> a \<le> z \<and> t0 \<le> t1 \<and> events + edges = z - a + 1"
  then obtain r where "build_loss_interval_record u k reason a z events edges t0 t1 = Inr r"
    by (auto simp: build_loss_interval_record_def Let_def accept_simps require_hex32_def
        require_uint_def uint64_def)
  then show "\<exists>r l. build_loss_interval_record u k reason a z events edges t0 t1 = Inr r \<and>
      canonical_json_line r = Inr l"
    using loss_record_fits by (auto simp: fits_def)
qed (auto simp: build_loss_interval_record_def Let_def accept_simps require_hex32_def
        require_uint_def uint64_def)

text \<open>
  A process summary is recorded exactly when its counts reconcile: the builder accepts if and
  only if every count is in range, the outcome and the digest are well formed and the attempted
  records are the written events, the written edges and the dropped records together, and what it
  accepts can always be written.
\<close>

theorem process_summary_accepted:
  "(\<exists>r l. build_process_summary_record u t c outcome digest = Inr r \<and> canonical_json_line r = Inr l)
   \<longleftrightarrow> is_hex 32 u \<and> is_hex 64 digest \<and> outcome \<in> {''drained'', ''timeout'', ''writer_failure''} \<and>
       list_all uint64 [t, sc_attempted c, sc_written_event c, sc_written_edge c, sc_written_loss c,
         sc_dropped_data c, sc_dropped_control c, sc_writer_failure c] \<and>
       sc_attempted c = sc_written_event c + sc_written_edge c + sc_dropped_data c"
proof
  assume "is_hex 32 u \<and> is_hex 64 digest \<and> outcome \<in> {''drained'', ''timeout'', ''writer_failure''} \<and>
       list_all uint64 [t, sc_attempted c, sc_written_event c, sc_written_edge c, sc_written_loss c,
         sc_dropped_data c, sc_dropped_control c, sc_writer_failure c] \<and>
       sc_attempted c = sc_written_event c + sc_written_edge c + sc_dropped_data c"
  then obtain r where "build_process_summary_record u t c outcome digest = Inr r"
    by (auto simp: build_process_summary_record_def accept_simps require_hex32_def
        require_uint_def uint64_def)
  then show "\<exists>r l. build_process_summary_record u t c outcome digest = Inr r \<and> canonical_json_line r = Inr l"
    using summary_record_fits by (auto simp: fits_def)
qed (auto simp: build_process_summary_record_def accept_simps require_hex32_def
        require_uint_def uint64_def)

text \<open>
  C39. A shard is a sequence of lines and nothing else: two sequences of encoded records that
  concatenate to the same bytes are the same sequence, so cutting a shard at its newlines gives
  back the records written, in their order.
\<close>

theorem shard_bytes_determine_lines:
  assumes "list_all2 (\<lambda>r l. canonical_json_line r = Inr l) rs ls"
    and "list_all2 (\<lambda>r l. canonical_json_line r = Inr l) rs' ls'"
    and "concat ls = concat ls'"
  shows "ls = ls'"
proof -
  have "list_all framed ls" if "list_all2 (\<lambda>r l. canonical_json_line r = Inr l) rs ls" for rs ls
    using that by (induction rule: list_all2_induct) (auto dest: canonical_line_framed)
  with assms show ?thesis by (blast intro: framed_lines_unique)
qed

lemma shard_bytes_determine_lines_witness:
  "\<exists>l. canonical_json_line [(''a'', PInt 1)] = Inr l \<and> [l] = [l]"
proof -
  obtain l where l: "canonical_json_line [(''a'', PInt 1)] = Inr l"
    using fitsI [of "[(''a'', PInt 1)]" "[20]"] length_py_str_int [of 1]
    by (auto simp: fits_def value_bound_def key_simps UINT64_MAX_def)
  then have "[l] = [l]"
    using shard_bytes_determine_lines [of "[[(''a'', PInt 1)]]" "[l]" "[[(''a'', PInt 1)]]" "[l]"]
    by simp
  with l show ?thesis by blast
qed

text \<open>
  The clock domain identity: a boot identifier is accepted exactly when it is a canonical
  lower-case UUID, optionally followed by one newline, the newline does not change the result, and
  the result is always a 32-digit identity that every record accepts as its clock domain.
\<close>

theorem clock_domain_identity:
  "(\<exists>i. derive_clock_domain_id b = Inr i \<and> is_hex 32 i) \<longleftrightarrow>
     uuid_text b \<or> (\<exists>b'. b = b' @ [newline] \<and> uuid_text b' \<and>
       derive_clock_domain_id b = derive_clock_domain_id b')"
proof -
  have last: "last b \<noteq> newline" if u: "uuid_text b" for b
  proof -
    from u have "length b = 36" and "is_lhex (b ! 35)" by (auto simp: uuid_text_def)
    then have "is_lhex (last b)" using last_conv_nth [of b] by (cases "b = []") auto
    then show ?thesis using code_newline by (auto simp: is_lhex_def is_digit_def)
  qed
  show ?thesis
  proof (cases "b \<noteq> [] \<and> last b = newline")
    case True
    then obtain b' where b': "b = b' @ [newline]" by (metis append_butlast_last_id)
    have "\<not> uuid_text b" using last [of b] True by blast
    then show ?thesis
      using b' last [of b']
      by (auto simp: derive_clock_domain_id_def Let_def accept_simps sha256_hex_half)
  next
    case False
    then have "\<not> (\<exists>b'. b = b' @ [newline])" by auto
    with False show ?thesis
      by (auto simp: derive_clock_domain_id_def Let_def accept_simps sha256_hex_half)
  qed
qed
end
