(* ===== verification/Profile_Protocol.thy ===== *)
theory Profile_Protocol
  imports Record_Bounds
begin

text \<open>
  The wire builders of the optional KV-recovery profile shard
  (\<open>kv_recovery_profile_protocol.py\<close>): the immutable profile configuration, the validators of the
  four data records (block-set chunk, wait-set chunk, transfer event, recovery event) with their
  closed rosters, and the builders of the start, loss-interval and summary records. The builders
  encode each record they return, so the size bound is one of their checks; the lemmas show for
  which records that check can never fail.
\<close>

section \<open>Limits and configuration\<close>

definition PROFILE_ID :: string where "PROFILE_ID = ''rlp.kv-recovery/v1alpha1''"
definition COMMUNICATION_MODE :: string where "COMMUNICATION_MODE = ''issue2:kv-recovery-v1alpha1''"
definition MAX_PROFILE_RECORD_BYTES :: nat where "MAX_PROFILE_RECORD_BYTES = 4096"
definition MAX_LOGICAL_BLOCKS_PER_BLOCK_SET :: int where "MAX_LOGICAL_BLOCKS_PER_BLOCK_SET = 4096"
definition MAX_TRANSFER_IDS_PER_WAIT_SET :: int where "MAX_TRANSFER_IDS_PER_WAIT_SET = 4096"
definition MAX_REQUEUE_OBSERVATIONS_PER_EPISODE :: int where
  "MAX_REQUEUE_OBSERVATIONS_PER_EPISODE = 64"
definition MAX_RUNTIME_REQUEST_ID_BYTES :: nat where "MAX_RUNTIME_REQUEST_ID_BYTES = 128"

definition PROFILE_LIMITS :: pydict where
  "PROFILE_LIMITS =
     [(''data_capacity_records'', PInt DATA_CAPACITY_RECORDS),
      (''reserved_capacity_records'', PInt RESERVED_CAPACITY_RECORDS),
      (''max_record_bytes'', PInt (int MAX_PROFILE_RECORD_BYTES)),
      (''max_queued_bytes'', PInt MAX_QUEUED_BYTES),
      (''max_batch_records'', PInt MAX_BATCH_RECORDS),
      (''max_batch_bytes'', PInt MAX_BATCH_BYTES),
      (''write_interval_ms'', PInt WRITE_INTERVAL_MS),
      (''close_timeout_ms'', PInt CLOSE_TIMEOUT_MS),
      (''max_metadata_bytes'', PInt 1024),
      (''max_logical_blocks_per_block_set'', PInt MAX_LOGICAL_BLOCKS_PER_BLOCK_SET),
      (''max_block_rows_per_chunk'', PInt 64),
      (''max_transfer_records_per_lifecycle'', PInt 4096),
      (''max_transfer_ids_per_wait_set'', PInt MAX_TRANSFER_IDS_PER_WAIT_SET),
      (''max_wait_set_rows_per_chunk'', PInt 64),
      (''max_wait_sets_per_process_shard'', PInt 64),
      (''max_requeue_observations_per_episode'', PInt MAX_REQUEUE_OBSERVATIONS_PER_EPISODE),
      (''max_runtime_request_id_bytes'', PInt (int MAX_RUNTIME_REQUEST_ID_BYTES)),
      (''shard_ownership'', PStr ''one_process_one_append_only_profile_shard'')]"

text \<open>\<open>ProfileRecordType\<close>, and its wire names.\<close>

datatype profile_type = Block_set_chunk | Wait_set_chunk | Transfer_event | Recovery_event

fun profile_type_name :: "profile_type \<Rightarrow> string" where
  "profile_type_name Block_set_chunk = ''block_set_chunk''"
| "profile_type_name Wait_set_chunk = ''wait_set_chunk''"
| "profile_type_name Transfer_event = ''transfer_event''"
| "profile_type_name Recovery_event = ''recovery_event''"

record profile_config =
  kc_run_id :: string
  kc_spec_name :: string
  kc_profile_id :: string
  kc_communication_mode :: string
  kc_implementation_family :: string
  kc_connector_name :: string
  kc_rank :: int
  kc_world_size :: int

record profile_record_ref =
  pr_record_type :: profile_type
  pr_record_seq :: int
  pr_record_id :: string
  pr_timestamp_ns :: int
  pr_record :: pydict

record profile_record =
  po_record_type :: profile_type
  po_record_seq :: int
  po_record_id :: string
  po_timestamp_ns :: int
  po_fields :: pydict

record profile_loss_interval =
  pl_reason :: string
  pl_first_record_seq :: int
  pl_last_record_seq :: int
  pl_counts :: "profile_type \<Rightarrow> int"
  pl_first_timestamp_ns :: int
  pl_last_timestamp_ns :: int

definition dropped_count :: "profile_loss_interval \<Rightarrow> int" where
  "dropped_count l = pl_last_record_seq l - pl_first_record_seq l + 1"

section \<open>Field checks\<close>

text \<open>\<open>type(value) is int and 0 <= value <= maximum\<close>\<close>

definition is_uint :: "pyval \<Rightarrow> int \<Rightarrow> bool" where
  "is_uint v maximum \<longleftrightarrow> (case v of PInt i \<Rightarrow> 0 \<le> i \<and> i \<le> maximum | _ \<Rightarrow> False)"

definition int_val :: "pyval \<Rightarrow> int" where
  "int_val v = (case v of PInt i \<Rightarrow> i | _ \<Rightarrow> 0)"

definition need_uint :: "pyval \<Rightarrow> int \<Rightarrow> string \<Rightarrow> pyerr option" where
  "need_uint v maximum field =
     fails (\<not> is_uint v maximum) (ValueError (field @ '' is outside its unsigned integer domain''))"

definition need_ascii :: "pyval \<Rightarrow> string \<Rightarrow> nat \<Rightarrow> pyerr option" where
  "need_ascii v field maximum =
     fails (\<not> str_val (\<lambda>s. printable_ascii s \<and> 1 \<le> length s \<and> length s \<le> maximum) v)
       (ValueError (field @ '' must be bounded printable ASCII''))"

definition need_hex :: "pyval \<Rightarrow> nat \<Rightarrow> string \<Rightarrow> pyerr option" where
  "need_hex v n field = fails (\<not> str_val (is_hex n) v)
     (ValueError (field @ '' must be '' @ dec_nat n @ '' lowercase hexadecimal chars''))"

definition need_nullable :: "(pyval \<Rightarrow> pyerr option) \<Rightarrow> pyval \<Rightarrow> pyerr option" where
  "need_nullable check v = (if v = PNone then None else check v)"

definition need_event_id :: "string \<Rightarrow> pyval \<Rightarrow> pyerr option" where
  "need_event_id field v = fails (\<not> str_val (id_pattern CHR ''e'') v)
     (ValueError (field @ '' must be a canonical base event ID''))"

definition need_profile_record_id :: "string \<Rightarrow> pyval \<Rightarrow> pyerr option" where
  "need_profile_record_id field v = fails (\<not> str_val (id_pattern CHR ''k'') v)
     (ValueError (field @ '' must be a canonical profile record ID''))"

text \<open>
  Membership in a set literal: a value that cannot be hashed raises \<open>TypeError\<close>, any other value
  outside the roster raises the given error.
\<close>

definition need_member :: "pyval \<Rightarrow> string list \<Rightarrow> pyerr \<Rightarrow> pyerr option" where
  "need_member v roster e =
     (case v of PList _ \<Rightarrow> Some (TypeError ''unhashable type: 'list' '')
      | PDict _ \<Rightarrow> Some (TypeError ''unhashable type: 'dict' '')
      | _ \<Rightarrow> fails (\<not> str_in v roster) e)"

definition need_exact_fields :: "pydict \<Rightarrow> string list \<Rightarrow> string \<Rightarrow> pyerr option" where
  "need_exact_fields flds required record_type = fails (\<not> keys_are flds required)
     (ValueError (record_type @ '' fields differ from the closed roster''))"

definition profile_record_line :: "pydict \<Rightarrow> string res" where
  "profile_record_line record =
     (case canonical_json_line record of
        Inl e \<Rightarrow> Inl e
      | Inr raw \<Rightarrow> if length raw > MAX_PROFILE_RECORD_BYTES
                  then Inl (ValueError ''profile record exceeds max_record_bytes'') else Inr raw)"

text \<open>The error \<open>_bounded_line\<close> raises, when it raises.\<close>

definition bounded_line :: "pydict \<Rightarrow> pyerr option" where
  "bounded_line record = (case profile_record_line record of Inl e \<Rightarrow> Some e | Inr _ \<Rightarrow> None)"

definition validate_profile_config :: "profile_config \<Rightarrow> pyerr option" where
  "validate_profile_config c = first_error
     [need_hex (PStr (kc_run_id c)) 32 ''run_id'',
      fails (kc_profile_id c \<noteq> PROFILE_ID) (ValueError ''profile_id is not supported''),
      fails (kc_communication_mode c \<noteq> COMMUNICATION_MODE)
        (ValueError ''communication_mode is not supported''),
      fails (kc_implementation_family c \<noteq> ''runtime_core_offloading_connector'')
        (ValueError ''implementation_family is outside profile v1alpha1''),
      fails (kc_connector_name c \<noteq> ''OffloadingConnector'')
        (ValueError ''connector_name is outside profile v1alpha1''),
      fails (kc_spec_name c \<noteq> ''TieringOffloadingSpec'') (ValueError ''spec_name is not supported''),
      fails (kc_rank c \<noteq> 0 \<or> kc_world_size c \<noteq> 1)
        (ValueError ''profile v1alpha1 requires rank=0 and world_size=1'')]"

text \<open>\<open>KVRecoveryProfileConfig(run_id=...)\<close>, every other field at its default.\<close>

definition make_profile_config :: "string \<Rightarrow> profile_config res" where
  "make_profile_config run_id =
     (let c = \<lparr>kc_run_id = run_id, kc_spec_name = ''TieringOffloadingSpec'',
                kc_profile_id = PROFILE_ID, kc_communication_mode = COMMUNICATION_MODE,
                kc_implementation_family = ''runtime_core_offloading_connector'',
                kc_connector_name = ''OffloadingConnector'', kc_rank = 0, kc_world_size = 1\<rparr>
      in checked (validate_profile_config c) c)"

section \<open>Start record\<close>

definition build_profile_start_record ::
  "string \<Rightarrow> int \<Rightarrow> int \<Rightarrow> string \<Rightarrow> runtime_provenance \<Rightarrow> profile_config \<Rightarrow> pydict res" where
  "build_profile_start_record process_uuid pid started_timestamp_ns clock_domain_id provenance config =
     (let record =
        [(''schema'', PStr (kc_profile_id config)),
         (''record_type'', PStr ''profile_start''),
         (''process_uuid'', PStr process_uuid),
         (''pid'', PInt pid),
         (''started_timestamp_ns'', PInt started_timestamp_ns),
         (''clock_source'', PStr ''CLOCK_MONOTONIC''),
         (''clock_domain_id'', PStr clock_domain_id),
         (''profile_id'', PStr (kc_profile_id config)),
         (''run_id'', PStr (kc_run_id config)),
         (''profiler_parent_commit'', PStr (pv_profiler_parent_commit provenance)),
         (''runtime_core_commit'', PStr (pv_runtime_core_commit provenance)),
         (''device_plugin_commit'', PStr (pv_device_plugin_commit provenance)),
         (''base_trace_schema'', PStr SCHEMA_VERSION),
         (''rank'', PInt (kc_rank config)),
         (''world_size'', PInt (kc_world_size config)),
         (''implementation_family'', PStr (kc_implementation_family config)),
         (''connector_name'', PStr (kc_connector_name config)),
         (''spec_name'', PStr (kc_spec_name config)),
         (''communication_mode'', PStr (kc_communication_mode config)),
         (''limits'', PDict PROFILE_LIMITS)]
      in checked
           (first_error
             [need_hex (PStr process_uuid) 32 ''process_uuid'',
              need_uint (PInt pid) UINT32_MAX ''pid'',
              need_uint (PInt started_timestamp_ns) UINT64_MAX ''started_timestamp_ns'',
              need_hex (PStr clock_domain_id) 32 ''clock_domain_id'',
              bounded_line record])
           record)"

section \<open>Data records\<close>

definition REQUEST_FIELDS :: "string list" where
  "REQUEST_FIELDS = [''trace_id'', ''engine_lifecycle_id'', ''runtime_request_id'',
     ''request_id_kind'', ''sample_index'', ''recovery_epoch'', ''episode_id'']"

definition BLOCK_FIELDS :: "string list" where
  "BLOCK_FIELDS = [''block_set_id'', ''chunk_index'', ''chunk_count'', ''total_block_count'', ''blocks'']"

definition WAIT_FIELDS :: "string list" where
  "WAIT_FIELDS = [''operation'', ''wait_set_id'', ''chunk_index'', ''chunk_count'',
     ''total_transfer_count'', ''transfer_ids'']"

definition TRANSFER_FIELDS :: "string list" where
  "TRANSFER_FIELDS = [''transfer_id'', ''connector_job_id'', ''rank'', ''world_size'', ''operation'',
     ''direction'', ''src_medium'', ''dst_medium'', ''block_set_id'', ''transfer_phase'',
     ''bytes_moved'', ''device_duration_ns'', ''success'', ''failure_code'']"

definition RECOVERY_FIELDS :: "string list" where
  "RECOVERY_FIELDS = [''stage'', ''occurrence'', ''base_event_id'',
     ''base_admission_started_event_id'', ''from_profile_event_id'', ''transfer_id'',
     ''block_set_id'', ''bytes_moved'', ''requeue_reason'', ''compute_kind'',
     ''child_observation_kind'', ''base_association_kind'', ''base_association_evidence'',
     ''request_status_before'', ''request_status_after'']"

definition str_of :: "pyval \<Rightarrow> string" where
  "str_of v = (case v of PStr s \<Rightarrow> s | _ \<Rightarrow> [])"

definition validate_request_fields :: "pydict \<Rightarrow> pyerr option" where
  "validate_request_fields f = first_error
     ([need_hex (dget f ''trace_id'') 32 ''trace_id'',
       need_uint (dget f ''sample_index'') UINT32_MAX ''sample_index'',
       fails (dget f ''sample_index'' \<noteq> PInt 0)
         (ValueError ''profile v1alpha1 requires sample_index=0''),
       fails (\<not> eq_str (dget f ''engine_lifecycle_id'') (str_of (dget f ''trace_id'') @ '':e:0''))
         (ValueError ''engine_lifecycle_id does not match trace/sample''),
       need_ascii (dget f ''runtime_request_id'') ''runtime_request_id'' MAX_RUNTIME_REQUEST_ID_BYTES,
       fails (\<not> eq_str (dget f ''request_id_kind'') ''engine_internal'')
         (ValueError ''request_id_kind must be engine_internal'')]
      @ (if dget f ''recovery_epoch'' = PNone then
           [fails (dget f ''episode_id'' \<noteq> PNone)
              (ValueError ''episode_id must be null when recovery_epoch is null'')]
         else
           [need_uint (dget f ''recovery_epoch'') UINT32_MAX ''recovery_epoch'',
            fails (int_val (dget f ''recovery_epoch'') < 1) (ValueError ''recovery_epoch must be positive''),
            fails (\<not> eq_str (dget f ''episode_id'')
                     (id_of (str_of (dget f ''engine_lifecycle_id'')) CHR ''k'' (int_val (dget f ''recovery_epoch''))))
              (ValueError ''episode_id does not match lifecycle/epoch'')]))"

definition validate_chunk :: "pyval \<Rightarrow> pyval \<Rightarrow> pyval \<Rightarrow> string \<Rightarrow> pyerr option" where
  "validate_chunk index chunks whole field = first_error
     [need_uint index UINT32_MAX ''chunk_index'',
      need_uint chunks UINT32_MAX ''chunk_count'',
      need_uint whole UINT32_MAX field,
      fails (int_val chunks < 1 \<or> int_val index \<ge> int_val chunks \<or> int_val whole < 1)
        (ValueError ''chunk identity/count is invalid'')]"

text \<open>The rows of a block-set chunk: the previous coordinate and the identities seen so far.\<close>

fun row_fields :: "pyval \<Rightarrow> pydict" where
  "row_fields (PDict row) = row"
| "row_fields _ = []"

definition check_block_row ::
  "(int \<times> int) option \<Rightarrow> string list \<Rightarrow> pyval \<Rightarrow> pyerr option" where
  "check_block_row previous seen block =
     (let row = row_fields block; g = dget row ''group_index''; n = dget row ''logical_ordinal'';
          b = dget row ''logical_block_id''
      in first_error
        [fails (\<not> keys_are row [''group_index'', ''logical_ordinal'', ''logical_block_id''])
           (ValueError ''block row differs from the closed roster''),
         need_uint g UINT32_MAX ''group_index'',
         need_uint n UINT64_MAX ''logical_ordinal'',
         need_hex b 32 ''logical_block_id'',
         fails (\<exists>p \<in> set_option previous.
                  int_val g < fst p \<or> int_val g = fst p \<and> int_val n \<le> snd p)
           (ValueError ''block rows are not strictly canonical''),
         fails (str_of b \<in> set seen) (ValueError ''logical_block_id is duplicated'')])"

definition row_coordinate :: "pyval \<Rightarrow> int \<times> int" where
  "row_coordinate b = (int_val (dget (row_fields b) ''group_index''),
     int_val (dget (row_fields b) ''logical_ordinal''))"

definition row_id :: "pyval \<Rightarrow> string" where
  "row_id b = str_of (dget (row_fields b) ''logical_block_id'')"

fun check_block_rows ::
  "(int \<times> int) option \<Rightarrow> string list \<Rightarrow> pyval list \<Rightarrow> pyerr option" where
  "check_block_rows previous seen [] = None"
| "check_block_rows previous seen (block # blocks) =
     (case check_block_row previous seen block of
        Some e \<Rightarrow> Some e
      | None \<Rightarrow> check_block_rows (Some (row_coordinate block)) (row_id block # seen) blocks)"

fun list_of :: "pyval \<Rightarrow> pyval list" where
  "list_of (PList xs) = xs"
| "list_of _ = []"

definition validate_block_fields :: "pydict \<Rightarrow> pyerr option" where
  "validate_block_fields f = first_error
     [need_hex (dget f ''block_set_id'') 64 ''block_set_id'',
      validate_chunk (dget f ''chunk_index'') (dget f ''chunk_count'') (dget f ''total_block_count'')
        ''total_block_count'',
      fails (int_val (dget f ''total_block_count'') > MAX_LOGICAL_BLOCKS_PER_BLOCK_SET)
        (ValueError ''block set exceeds its frozen bound''),
      fails (\<not> (1 \<le> length (list_of (dget f ''blocks'')) \<and> length (list_of (dget f ''blocks'')) \<le> 64))
        (ValueError ''blocks must be a nonempty bounded array''),
      check_block_rows None [] (list_of (dget f ''blocks''))]"

fun check_wait_members :: "string \<Rightarrow> string option \<Rightarrow> pyval list \<Rightarrow> pyerr option" where
  "check_wait_members u previous [] = None"
| "check_wait_members u previous (v # vs) =
     (case first_error
        [fails (\<not> str_val (id_pattern CHR ''t'') v)
           (ValueError ''wait member is not a canonical transfer_id''),
         fails (\<not> prefix (u @ '':t:'') (str_of v))
           (ValueError ''wait member belongs to another process''),
         fails (\<exists>p \<in> set_option previous. str_of v \<le> p)
           (ValueError ''wait members are not strictly sorted and unique'')] of
        Some e \<Rightarrow> Some e
      | None \<Rightarrow> check_wait_members u (Some (str_of v)) vs)"

definition validate_wait_fields :: "pydict \<Rightarrow> string \<Rightarrow> pyerr option" where
  "validate_wait_fields f process_uuid = first_error
     [fails (\<not> eq_str (dget f ''operation'') ''transfer_wait'')
        (ValueError ''wait operation must be transfer_wait''),
      need_hex (dget f ''wait_set_id'') 64 ''wait_set_id'',
      validate_chunk (dget f ''chunk_index'') (dget f ''chunk_count'') (dget f ''total_transfer_count'')
        ''total_transfer_count'',
      fails (int_val (dget f ''total_transfer_count'') > MAX_TRANSFER_IDS_PER_WAIT_SET)
        (ValueError ''wait set exceeds its frozen bound''),
      fails (\<not> (1 \<le> length (list_of (dget f ''transfer_ids'')) \<and>
                 length (list_of (dget f ''transfer_ids'')) \<le> 64))
        (ValueError ''transfer_ids must be a nonempty bounded array''),
      check_wait_members process_uuid None (list_of (dget f ''transfer_ids''))]"

definition TRANSFER_ROUTES :: "(string \<times> string \<times> string \<times> string) list" where
  "TRANSFER_ROUTES =
     [(''d2h_preserve'', ''d2h'', ''device_hbm'', ''host_cpu''),
      (''h2d_restore'', ''h2d'', ''host_cpu'', ''device_hbm'')]"

definition FAILURE_CODES :: "string list" where
  "FAILURE_CODES = [''submit_rejected'', ''transfer_failed'', ''cancelled'', ''timeout'',
     ''size_unavailable'', ''unclassified'']"

fun as_bool :: "pyval \<Rightarrow> bool" where
  "as_bool (PBool b) = b"
| "as_bool _ = False"

definition validate_transfer_fields :: "pydict \<Rightarrow> string \<Rightarrow> pyerr option" where
  "validate_transfer_fields f process_uuid = first_error
     ([fails (\<not> str_val (id_pattern CHR ''t'') (dget f ''transfer_id''))
         (ValueError ''transfer_id is not canonical''),
       fails (\<not> prefix (process_uuid @ '':t:'') (str_of (dget f ''transfer_id'')))
         (ValueError ''transfer_id belongs to another process''),
       need_uint (dget f ''connector_job_id'') UINT64_MAX ''connector_job_id'',
       fails (\<not> eq_int (dget f ''rank'') 0 \<or> \<not> eq_int (dget f ''world_size'') 1)
         (ValueError ''profile v1alpha1 transfer requires rank 0/world 1''),
       need_member (dget f ''operation'') [''d2h_preserve'', ''h2d_restore'']
         (ValueError ''transfer operation is not in the closed roster''),
       (case map_of TRANSFER_ROUTES (str_of (dget f ''operation'')) of
          None \<Rightarrow> Some (KeyError (str_of (dget f ''operation'')))
        | Some (direction, src, dst) \<Rightarrow>
            fails (\<not> eq_str (dget f ''direction'') direction \<or> \<not> eq_str (dget f ''src_medium'') src \<or>
                   \<not> eq_str (dget f ''dst_medium'') dst)
              (ValueError ''transfer direction/media do not match the operation'')),
       need_hex (dget f ''block_set_id'') 64 ''block_set_id'']
      @ (if eq_str (dget f ''transfer_phase'') ''submit'' then
           [fails (\<exists>n \<in> set [''bytes_moved'', ''device_duration_ns'', ''success'', ''failure_code''].
                     dget f n \<noteq> PNone)
              (ValueError ''submit fields must retain their null wire values'')]
         else if eq_str (dget f ''transfer_phase'') ''done'' then
           [fails (\<not> is_bool (dget f ''success'')) (ValueError ''done success must be Boolean'')]
           @ (if as_bool (dget f ''success'') then
                [need_uint (dget f ''bytes_moved'') UINT64_MAX ''bytes_moved'',
                 fails (int_val (dget f ''bytes_moved'') < 1 \<or> dget f ''failure_code'' \<noteq> PNone)
                   (ValueError ''successful done requires positive bytes and no failure'')]
              else
                [need_member (dget f ''failure_code'') FAILURE_CODES
                   (ValueError ''failed done requires a closed failure_code'')])
           @ [fails (dget f ''device_duration_ns'' \<noteq> PNone \<and>
                     (\<not> is_uint (dget f ''device_duration_ns'') UINT64_MAX \<or>
                      int_val (dget f ''device_duration_ns'') < 1))
                (ValueError ''device_duration_ns must be null or positive uint64'')]
         else [Some (ValueError ''transfer_phase is not submit|done'')]))"

definition RECOVERY_STAGES :: "string list" where
  "RECOVERY_STAGES = [''preempt'', ''restore_start'', ''restore_done'', ''scheduler_wakeup'',
     ''requeue'', ''admission'', ''first_prefill_or_decode'']"

definition BASE_STAGES :: "string list" where
  "BASE_STAGES = [''preempt'', ''restore_start'', ''restore_done'', ''admission'',
     ''first_prefill_or_decode'']"

definition REQUEUE_REASONS :: "string list" where
  "REQUEUE_REASONS = [''lora_capacity'', ''prefill_throttled'', ''token_budget'', ''encoder_budget'',
     ''block_capacity'', ''unclassified'']"

text \<open>The identity and predecessor checks of a recovery record.\<close>

definition recovery_links :: "pydict \<Rightarrow> string \<Rightarrow> pyerr option list" where
  "recovery_links f stage =
     [need_nullable (need_event_id ''base_event_id'') (dget f ''base_event_id''),
      need_nullable (need_event_id ''base_admission_started_event_id'')
        (dget f ''base_admission_started_event_id''),
      need_nullable (need_profile_record_id ''from_profile_event_id'') (dget f ''from_profile_event_id''),
      if stage \<in> set BASE_STAGES then
        fails (dget f ''base_event_id'' = PNone) (ValueError ''stage requires an exact base_event_id'')
      else fails (dget f ''base_event_id'' \<noteq> PNone) (ValueError ''profile-only stage forbids base_event_id''),
      if stage = ''preempt'' then
        fails (dget f ''from_profile_event_id'' \<noteq> PNone)
          (ValueError ''preempt starts the profile predecessor chain'')
      else fails (dget f ''from_profile_event_id'' = PNone)
          (ValueError ''non-preempt stage requires from_profile_event_id''),
      fails ((stage = ''admission'') \<noteq> (dget f ''base_admission_started_event_id'' \<noteq> PNone))
        (ValueError ''base admission ID is required only for admission'')]"

text \<open>The transfer that a recovery record names.\<close>

definition recovery_transfer :: "pydict \<Rightarrow> string \<Rightarrow> pyerr option list" where
  "recovery_transfer f stage =
     (if stage = ''preempt'' then
        [fails (\<exists>n \<in> set [''transfer_id'', ''block_set_id'', ''bytes_moved'']. dget f n \<noteq> PNone)
           (ValueError ''preempt precedes transfer identity'')]
      else
        [fails (\<not> str_val (id_pattern CHR ''t'') (dget f ''transfer_id''))
           (ValueError ''recovery stage requires a canonical transfer_id''),
         need_hex (dget f ''block_set_id'') 64 ''block_set_id'']
        @ (if stage = ''restore_start'' then
             [fails (dget f ''bytes_moved'' \<noteq> PNone)
                (ValueError ''restore_start bytes_moved must be null'')]
           else
             [need_uint (dget f ''bytes_moved'') UINT64_MAX ''bytes_moved'',
              fails (int_val (dget f ''bytes_moved'') < 1)
                (ValueError ''post-restore stage requires positive bytes_moved'')]))"

text \<open>Requeue reason, first-compute association and request statuses.\<close>

definition recovery_details :: "pydict \<Rightarrow> string \<Rightarrow> pyerr option list" where
  "recovery_details f stage =
     [if stage = ''requeue'' then
        need_member (dget f ''requeue_reason'') REQUEUE_REASONS
          (ValueError ''requeue_reason is not in the closed roster'')
      else fails (dget f ''requeue_reason'' \<noteq> PNone)
          (ValueError ''requeue_reason is required only for requeue''),
      if stage = ''first_prefill_or_decode'' then first_error
        [need_member (dget f ''compute_kind'') [''prefill'', ''decode'']
           (ValueError ''first compute child association is incomplete''),
         fails (\<not> eq_str (dget f ''child_observation_kind'') ''worker_model_forward_entry'' \<or>
                \<not> eq_str (dget f ''base_association_kind'') ''phase_child_observation'' \<or>
                \<not> eq_str (dget f ''base_association_evidence'') ''instrumented_execution_context'')
           (ValueError ''first compute child association is incomplete'')]
      else fails (\<exists>n \<in> set [''compute_kind'', ''child_observation_kind'', ''base_association_kind'',
                              ''base_association_evidence'']. dget f n \<noteq> PNone)
        (ValueError ''compute child fields are required only at first compute''),
      need_nullable (\<lambda>v. need_ascii v ''request_status_before'' 64) (dget f ''request_status_before''),
      need_nullable (\<lambda>v. need_ascii v ''request_status_after'' 64) (dget f ''request_status_after'')]"

definition validate_recovery_fields :: "pydict \<Rightarrow> pyerr option" where
  "validate_recovery_fields f =
     (let stage = str_of (dget f ''stage'') in first_error
        ([need_member (dget f ''stage'') RECOVERY_STAGES
            (ValueError ''recovery stage is not in the seven-stage roster''),
          need_uint (dget f ''occurrence'') UINT32_MAX ''occurrence'',
          if stage = ''requeue'' then
            fails (int_val (dget f ''occurrence'') \<ge> MAX_REQUEUE_OBSERVATIONS_PER_EPISODE)
              (ValueError ''requeue occurrence exceeds its frozen bound'')
          else fails (int_val (dget f ''occurrence'') \<noteq> 0)
              (ValueError ''unique recovery stages require occurrence=0'')]
         @ recovery_links f stage @ recovery_transfer f stage @ recovery_details f stage))"

definition profile_fields_of :: "profile_type \<Rightarrow> string list" where
  "profile_fields_of k =
     (case k of Wait_set_chunk \<Rightarrow> WAIT_FIELDS
      | Block_set_chunk \<Rightarrow> REQUEST_FIELDS @ BLOCK_FIELDS
      | Transfer_event \<Rightarrow> REQUEST_FIELDS @ TRANSFER_FIELDS
      | Recovery_event \<Rightarrow> REQUEST_FIELDS @ RECOVERY_FIELDS)"

definition profile_data_record ::
  "profile_type \<Rightarrow> string \<Rightarrow> int \<Rightarrow> int \<Rightarrow> string \<Rightarrow> profile_config \<Rightarrow> pydict \<Rightarrow> pydict" where
  "profile_data_record k process_uuid record_seq timestamp_ns clock_domain_id config flds =
     [(''schema'', PStr (kc_profile_id config)),
      (''record_type'', PStr (profile_type_name k)),
      (''process_uuid'', PStr process_uuid),
      (''record_seq'', PInt record_seq),
      (''record_id'', PStr (id_of process_uuid CHR ''k'' record_seq)),
      (''run_id'', PStr (kc_run_id config)),
      (''timestamp_ns'', PInt timestamp_ns),
      (''clock_domain_id'', PStr clock_domain_id),
      (''profile_id'', PStr (kc_profile_id config))] @ flds"

definition build_profile_data_record ::
  "profile_type \<Rightarrow> string \<Rightarrow> int \<Rightarrow> int \<Rightarrow> string \<Rightarrow> profile_config \<Rightarrow> pydict \<Rightarrow>
   (pydict \<times> profile_record_ref) res" where
  "build_profile_data_record k process_uuid record_seq timestamp_ns clock_domain_id config flds =
     (let record = profile_data_record k process_uuid record_seq timestamp_ns clock_domain_id config flds
      in checked
        (first_error
          [need_hex (PStr process_uuid) 32 ''process_uuid'',
           need_uint (PInt record_seq) UINT64_MAX ''record_seq'',
           need_uint (PInt timestamp_ns) UINT64_MAX ''timestamp_ns'',
           need_exact_fields flds (profile_fields_of k) (profile_type_name k),
           if k = Wait_set_chunk then None else validate_request_fields flds,
           (case k of Block_set_chunk \<Rightarrow> validate_block_fields flds
            | Wait_set_chunk \<Rightarrow> validate_wait_fields flds process_uuid
            | Transfer_event \<Rightarrow> validate_transfer_fields flds process_uuid
            | Recovery_event \<Rightarrow> validate_recovery_fields flds),
           need_hex (PStr clock_domain_id) 32 ''clock_domain_id'',
           bounded_line record])
        (record,
         \<lparr>pr_record_type = k, pr_record_seq = record_seq,
          pr_record_id = id_of process_uuid CHR ''k'' record_seq, pr_timestamp_ns = timestamp_ns,
          pr_record = record\<rparr>))"

section \<open>Loss intervals and the summary\<close>

definition count_checks :: "(profile_type \<Rightarrow> int) \<Rightarrow> string \<Rightarrow> pyerr option list" where
  "count_checks counts prefix_text =
     map (\<lambda>k. need_uint (PInt (counts k)) UINT64_MAX (prefix_text @ profile_type_name k @ ''_count''))
       [Block_set_chunk, Recovery_event, Transfer_event, Wait_set_chunk]"

definition total_count :: "(profile_type \<Rightarrow> int) \<Rightarrow> int" where
  "total_count counts = counts Block_set_chunk + counts Recovery_event + counts Transfer_event +
     counts Wait_set_chunk"

definition build_profile_loss_interval_record ::
  "string \<Rightarrow> profile_config \<Rightarrow> int \<Rightarrow> string \<Rightarrow> int \<Rightarrow> int \<Rightarrow> (profile_type \<Rightarrow> int) \<Rightarrow> int \<Rightarrow> int \<Rightarrow>
   pydict res" where
  "build_profile_loss_interval_record process_uuid config loss_interval_seq reason first_dropped
     last_dropped counts first_observed last_observed =
     (let dropped = last_dropped - first_dropped + 1;
          record =
            [(''schema'', PStr (kc_profile_id config)),
             (''record_type'', PStr ''loss_interval''),
             (''process_uuid'', PStr process_uuid),
             (''profile_id'', PStr (kc_profile_id config)),
             (''loss_interval_seq'', PInt loss_interval_seq),
             (''loss_interval_id'', PStr (id_of process_uuid CHR ''l'' loss_interval_seq)),
             (''reason'', PStr reason),
             (''first_dropped_record_seq'', PInt first_dropped),
             (''last_dropped_record_seq'', PInt last_dropped),
             (''dropped_count'', PInt dropped),
             (''block_set_chunk_count'', PInt (counts Block_set_chunk)),
             (''wait_set_chunk_count'', PInt (counts Wait_set_chunk)),
             (''transfer_event_count'', PInt (counts Transfer_event)),
             (''recovery_event_count'', PInt (counts Recovery_event)),
             (''first_observed_timestamp_ns'', PInt first_observed),
             (''last_observed_timestamp_ns'', PInt last_observed)]
      in checked
        (first_error
          ([fails (reason \<notin> set LOSS_REASONS)
              (ValueError ''profile loss reason is outside the closed roster'')]
           @ count_checks counts []
           @ [need_uint (PInt first_dropped) UINT64_MAX ''first_dropped_record_seq'',
              need_uint (PInt last_dropped) UINT64_MAX ''last_dropped_record_seq'',
              fails (last_dropped < first_dropped \<or> total_count counts \<noteq> dropped)
                (ValueError ''profile loss interval counts do not reconcile''),
              need_hex (PStr process_uuid) 32 ''process_uuid'',
              need_uint (PInt loss_interval_seq) UINT64_MAX ''loss_interval_seq'',
              need_uint (PInt first_observed) UINT64_MAX ''first_observed_timestamp_ns'',
              need_uint (PInt last_observed) UINT64_MAX ''last_observed_timestamp_ns'',
              bounded_line record]))
        record)"

record profile_summary_counts =
  qc_attempted :: int
  qc_written :: "profile_type \<Rightarrow> int"
  qc_written_loss :: int
  qc_dropped_data :: int
  qc_dropped_control :: int
  qc_writer_failure :: int

definition build_profile_summary_record ::
  "string \<Rightarrow> profile_config \<Rightarrow> int \<Rightarrow> profile_summary_counts \<Rightarrow> string \<Rightarrow> string \<Rightarrow> pydict res" where
  "build_profile_summary_record process_uuid config ended_timestamp_ns c close_outcome content_sha256 =
     (let record =
        [(''schema'', PStr (kc_profile_id config)),
         (''record_type'', PStr ''profile_summary''),
         (''process_uuid'', PStr process_uuid),
         (''profile_id'', PStr (kc_profile_id config)),
         (''ended_timestamp_ns'', PInt ended_timestamp_ns),
         (''attempted_data_count'', PInt (qc_attempted c)),
         (''written_block_set_chunk_count'', PInt (qc_written c Block_set_chunk)),
         (''written_wait_set_chunk_count'', PInt (qc_written c Wait_set_chunk)),
         (''written_transfer_event_count'', PInt (qc_written c Transfer_event)),
         (''written_recovery_event_count'', PInt (qc_written c Recovery_event)),
         (''written_loss_interval_count'', PInt (qc_written_loss c)),
         (''dropped_data_count'', PInt (qc_dropped_data c)),
         (''dropped_control_count'', PInt (qc_dropped_control c)),
         (''first_data_record_seq'', if qc_attempted c \<noteq> 0 then PInt 0 else PNone),
         (''last_data_record_seq'', if qc_attempted c \<noteq> 0 then PInt (qc_attempted c - 1) else PNone),
         (''writer_failure_count'', PInt (qc_writer_failure c)),
         (''close_outcome'', PStr close_outcome),
         (''content_sha256'', PStr content_sha256)]
      in checked
        (first_error
          ([need_uint (PInt (qc_attempted c)) UINT64_MAX ''attempted_data_count'',
            need_uint (PInt (qc_dropped_data c)) UINT64_MAX ''dropped_data_count'']
           @ count_checks (qc_written c) ''written_''
           @ [fails (qc_attempted c \<noteq> total_count (qc_written c) + qc_dropped_data c)
                (ValueError ''profile summary ledger does not reconcile''),
              fails (close_outcome \<notin> set [''drained'', ''timeout'', ''writer_failure''])
                (ValueError ''profile close_outcome is outside the closed roster''),
              need_hex (PStr process_uuid) 32 ''process_uuid'',
              need_uint (PInt ended_timestamp_ns) UINT64_MAX ''ended_timestamp_ns'',
              need_uint (PInt (qc_written_loss c)) UINT64_MAX ''written_loss_interval_count'',
              need_uint (PInt (qc_dropped_control c)) UINT64_MAX ''dropped_control_count'',
              need_uint (PInt (qc_writer_failure c)) UINT64_MAX ''writer_failure_count'',
              need_hex (PStr content_sha256) 64 ''content_sha256'',
              bounded_line record]))
        record)"

section \<open>Sizes\<close>

lemma need_uint_bound: "need_uint v m f = None \<Longrightarrow> m \<le> UINT64_MAX \<Longrightarrow> value_bound v 20"
  by (cases v) (auto simp: need_uint_def is_uint_def accept_simps value_bound_def length_py_str_int)

lemma need_hex_bound: "need_hex v n f = None \<Longrightarrow> value_bound v (n + 2)"
  by (cases v) (auto simp: need_hex_def str_val_def accept_simps dest!: bound_hex)

lemma code_literals: "code CHR 0x22 = 34" "code CHR 0x5C = 92"
  by (simp_all add: code_def)

lemma length_json_str_printable:
  assumes "printable_ascii s"
  shows "length (json_str s) \<le> 2 * length s + 2"
proof -
  have "length (json_escape c) \<le> 2" if "is_printable_char c" for c
    using that by (auto simp: json_escape_def is_printable_char_def)
  then have "length (concat (map json_escape s)) \<le> 2 * length s" using assms
    by (induction s) (auto simp: printable_ascii_def, fastforce)
  then show ?thesis by (simp add: json_str_def)
qed

lemma need_ascii_bound: "need_ascii v f m = None \<Longrightarrow> value_bound v (2 * m + 2)"
  using length_json_str_printable
  by (cases v) (fastforce simp: need_ascii_def str_val_def accept_simps value_bound_def)+

lemma id_pattern_bound: "id_pattern k s \<Longrightarrow> plain_char k \<Longrightarrow> value_bound (PStr s) 57"
  using bound_str [of s 55] plain_id_pattern [of k s] id_pattern_length [of k s] by simp

lemma kt_plain [text_simps]: "plain_char CHR ''k''" "plain_char CHR ''t''"
  by (simp_all add: plain_char_def code_def)

lemma id_val_bound: "str_val (id_pattern k) v \<Longrightarrow> plain_char k \<Longrightarrow> value_bound v 57"
  by (cases v) (auto simp: str_val_def intro: id_pattern_bound)

lemma need_event_id_bound: "need_event_id f v = None \<Longrightarrow> value_bound v 57"
  by (auto simp: need_event_id_def accept_simps text_simps intro: id_val_bound)

lemma need_profile_record_id_bound: "need_profile_record_id f v = None \<Longrightarrow> value_bound v 57"
  by (auto simp: need_profile_record_id_def accept_simps text_simps intro: id_val_bound)

lemma need_nullable_bound:
  assumes "need_nullable ch v = None" "\<And>v. ch v = None \<Longrightarrow> value_bound v b" "4 \<le> b"
  shows "value_bound v b"
  using assms by (cases "v = PNone") (auto simp: need_nullable_def value_bound_def)

lemma nullable_event_id_bound: "need_nullable (need_event_id f) v = None \<Longrightarrow> value_bound v 57"
  by (rule need_nullable_bound) (auto intro: need_event_id_bound)

lemma nullable_profile_id_bound:
  "need_nullable (need_profile_record_id f) v = None \<Longrightarrow> value_bound v 57"
  by (rule need_nullable_bound) (auto intro: need_profile_record_id_bound)

lemma nullable_ascii_bound:
  "need_nullable (\<lambda>v. need_ascii v f 64) v = None \<Longrightarrow> value_bound v 130"
  by (rule need_nullable_bound) (auto dest: need_ascii_bound)

lemma null_bound: "value_bound PNone 4"
  by (simp add: value_bound_def)

lemma need_member_bound:
  "need_member v xs e = None \<Longrightarrow> list_all (known_str b) xs \<Longrightarrow> value_bound v (b + 2)"
  using bound_known by (cases v) (auto simp: need_member_def accept_simps)

text \<open>A dictionary with exactly the required keys has the size of its values, key by key.\<close>

lemma exact_fields_sum:
  assumes "keys_are f ks" "distinct (map fst f)" "distinct ks"
  shows "(\<Sum>kv\<leftarrow>f. member_size kv) = (\<Sum>k\<leftarrow>ks. member_size (k, dget f k))"
proof -
  have f: "dget f (fst kv) = snd kv" if "kv \<in> set f" for kv
  proof -
    have "map_of f (fst kv) = Some (snd kv)"
      using that assms(2) by (intro map_of_is_SomeI) simp_all
    then show ?thesis by (simp add: dget_def)
  qed
  have "(\<Sum>kv\<leftarrow>f. member_size kv) = (\<Sum>k\<leftarrow>map fst f. member_size (k, dget f k))"
    using f by (simp add: comp_def case_prod_unfold cong: map_cong)
  also have "\<dots> = (\<Sum>k\<leftarrow>ks. member_size (k, dget f k))"
  proof -
    have "mset (map fst f) = mset ks"
      by (rule iffD1 [OF set_eq_iff_mset_eq_distinct [OF assms(2,3)] assms(1) [unfolded keys_are_def]])
    then have "sum_mset (image_mset (\<lambda>k. member_size (k, dget f k)) (mset (map fst f))) =
        sum_mset (image_mset (\<lambda>k. member_size (k, dget f k)) (mset ks))" by (simp only:)
    then show ?thesis by (simp only: mset_map [symmetric] sum_mset_sum_list)
  qed
  finally show ?thesis .
qed

lemma fits_bounded_line: "fits r \<longleftrightarrow> bounded_line r = None"
  using canonical_line_bounded
  by (fastforce simp: fits_def bounded_line_def profile_record_line_def MAX_PROFILE_RECORD_BYTES_def
      MAX_RECORD_BYTES_def split: sum.splits)

lemma config_bounds:
  assumes "validate_profile_config c = None"
  shows "value_bound (PStr (kc_profile_id c)) 26" "value_bound (PStr (kc_run_id c)) 34"
  using assms bound_hex [of 32 "kc_run_id c"]
  by (auto simp: validate_profile_config_def accept_simps need_hex_def str_val_def PROFILE_ID_def
      value_bound_def json_str_plain key_simps)

lemma profile_id_bound: "is_hex 32 u \<Longrightarrow> need_uint (PInt n) UINT64_MAX f = None \<Longrightarrow> plain_char k \<Longrightarrow>
    value_bound (PStr (id_of u k n)) 57"
  by (rule bound_id_of) (auto simp: need_uint_def is_uint_def accept_simps)

section \<open>Loss intervals and summaries always fit\<close>

definition counts_ok :: "(profile_type \<Rightarrow> int) \<Rightarrow> bool" where
  "counts_ok c \<longleftrightarrow> list_all (\<lambda>k. uint64 (c k)) [Block_set_chunk, Recovery_event, Transfer_event, Wait_set_chunk]"

lemma count_checks_None: "(\<forall>x \<in> set (count_checks c p). x = None) \<longleftrightarrow> counts_ok c"
  by (simp add: count_checks_def counts_ok_def need_uint_def is_uint_def uint64_def accept_simps)

lemma need_uint_int: "need_uint (PInt i) m f = None \<longleftrightarrow> 0 \<le> i \<and> i \<le> m"
  by (simp add: need_uint_def is_uint_def accept_simps)

lemma need_hex_str: "need_hex (PStr s) n f = None \<longleftrightarrow> is_hex n s"
  by (simp add: need_hex_def str_val_def accept_simps)

lemma uint64_bound: "uint64 i \<Longrightarrow> value_bound (PInt i) 20"
  by (simp add: uint64_def value_bound_def length_py_str_int)

text \<open>
  A profile loss interval is recorded exactly when its four category counts are in range and
  add up to the length of the interval of lost sequence numbers (with a frozen reason and valid
  identities): the record size bound, which the builder also checks, never refuses one.
\<close>

theorem profile_loss_interval_accepted:
  assumes "validate_profile_config c = None"
  shows "(\<exists>r. build_profile_loss_interval_record u c n reason a z counts t0 t1 = Inr r) \<longleftrightarrow>
    reason \<in> set LOSS_REASONS \<and> counts_ok counts \<and> list_all uint64 [a, z, n, t0, t1] \<and> a \<le> z \<and>
    total_count counts = z - a + 1 \<and> is_hex 32 u"
proof
  assume ok: "reason \<in> set LOSS_REASONS \<and> counts_ok counts \<and> list_all uint64 [a, z, n, t0, t1] \<and> a \<le> z \<and>
    total_count counts = z - a + 1 \<and> is_hex 32 u"
  let ?r = "[(''schema'', PStr (kc_profile_id c)), (''record_type'', PStr ''loss_interval''),
     (''process_uuid'', PStr u), (''profile_id'', PStr (kc_profile_id c)),
     (''loss_interval_seq'', PInt n), (''loss_interval_id'', PStr (id_of u CHR ''l'' n)),
     (''reason'', PStr reason), (''first_dropped_record_seq'', PInt a),
     (''last_dropped_record_seq'', PInt z), (''dropped_count'', PInt (z - a + 1)),
     (''block_set_chunk_count'', PInt (counts Block_set_chunk)),
     (''wait_set_chunk_count'', PInt (counts Wait_set_chunk)),
     (''transfer_event_count'', PInt (counts Transfer_event)),
     (''recovery_event_count'', PInt (counts Recovery_event)),
     (''first_observed_timestamp_ns'', PInt t0), (''last_observed_timestamp_ns'', PInt t1)]"
  have dropped: "value_bound (PInt (z - a + 1)) 20"
  proof -
    have "nat (z - a + 1) < 10 ^ Suc 19" using ok by (auto simp: uint64_def UINT64_MAX_def)
    from dec_nat_length [OF this] show ?thesis using ok by (simp add: value_bound_def py_str_int_nonneg)
  qed
  have "list_all2 (\<lambda>kv b. plain (fst kv) \<and> value_bound (snd kv) b) ?r
    [26, 15, 34, 26, 20, 57, 23, 20, 20, 20, 20, 20, 20, 20, 20, 20]"
    unfolding list_all2_Cons fst_conv snd_conv
    using ok config_bounds [OF assms] dropped bound_known [OF known_loss_reasons, of reason]
      bound_hex [of 32 u] bound_id_of [of u n "CHR ''l''"]
    by (auto simp: counts_ok_def key_simps bound_literal uint64_bound uint64_def)
  then have "bounded_line ?r = None" by (subst fits_bounded_line [symmetric], rule fitsI) simp_all
  with ok show "\<exists>r. build_profile_loss_interval_record u c n reason a z counts t0 t1 = Inr r"
    by (auto simp: build_profile_loss_interval_record_def Let_def accept_simps ball_Un count_checks_None
        need_uint_int need_hex_str uint64_def)
qed (auto simp: build_profile_loss_interval_record_def Let_def accept_simps ball_Un count_checks_None
        need_uint_int need_hex_str uint64_def)

definition sample_config :: profile_config where
  "sample_config = \<lparr>kc_run_id = sample_hex CHR ''d'', kc_spec_name = ''TieringOffloadingSpec'',
     kc_profile_id = PROFILE_ID, kc_communication_mode = COMMUNICATION_MODE,
     kc_implementation_family = ''runtime_core_offloading_connector'',
     kc_connector_name = ''OffloadingConnector'', kc_rank = 0, kc_world_size = 1\<rparr>"

lemma sample_config_valid: "validate_profile_config sample_config = None"
  by code_simp

lemma profile_loss_interval_accepted_witness:
  "\<exists>r. build_profile_loss_interval_record (sample_hex CHR ''b'') sample_config 0 ''queue_overflow'' 4 6
     ((\<lambda>_. 1)(Wait_set_chunk := 0)) 10 12 = Inr r"
proof -
  have "is_hex 32 (sample_hex CHR ''b'')" "''queue_overflow'' \<in> set LOSS_REASONS"
    by code_simp+
  then show ?thesis
    by (subst profile_loss_interval_accepted [OF sample_config_valid])
      (simp add: counts_ok_def total_count_def uint64_def UINT64_MAX_def)
qed

text \<open>
  A profile summary is recorded exactly when its ledger reconciles: every attempted profile
  record is a written block-set chunk, wait-set chunk, transfer event or recovery event, or a
  dropped record. The size bound never refuses one.
\<close>

theorem profile_summary_accepted:
  assumes "validate_profile_config c = None"
  shows "(\<exists>r. build_profile_summary_record u c t k outcome digest = Inr r) \<longleftrightarrow>
    counts_ok (qc_written k) \<and>
    list_all uint64 [qc_attempted k, qc_dropped_data k, t, qc_written_loss k, qc_dropped_control k,
      qc_writer_failure k] \<and>
    qc_attempted k = total_count (qc_written k) + qc_dropped_data k \<and>
    outcome \<in> {''drained'', ''timeout'', ''writer_failure''} \<and> is_hex 32 u \<and> is_hex 64 digest"
proof
  assume ok: "counts_ok (qc_written k) \<and>
    list_all uint64 [qc_attempted k, qc_dropped_data k, t, qc_written_loss k, qc_dropped_control k,
      qc_writer_failure k] \<and>
    qc_attempted k = total_count (qc_written k) + qc_dropped_data k \<and>
    outcome \<in> {''drained'', ''timeout'', ''writer_failure''} \<and> is_hex 32 u \<and> is_hex 64 digest"
  let ?r = "[(''schema'', PStr (kc_profile_id c)), (''record_type'', PStr ''profile_summary''),
     (''process_uuid'', PStr u), (''profile_id'', PStr (kc_profile_id c)),
     (''ended_timestamp_ns'', PInt t), (''attempted_data_count'', PInt (qc_attempted k)),
     (''written_block_set_chunk_count'', PInt (qc_written k Block_set_chunk)),
     (''written_wait_set_chunk_count'', PInt (qc_written k Wait_set_chunk)),
     (''written_transfer_event_count'', PInt (qc_written k Transfer_event)),
     (''written_recovery_event_count'', PInt (qc_written k Recovery_event)),
     (''written_loss_interval_count'', PInt (qc_written_loss k)),
     (''dropped_data_count'', PInt (qc_dropped_data k)),
     (''dropped_control_count'', PInt (qc_dropped_control k)),
     (''first_data_record_seq'', if qc_attempted k \<noteq> 0 then PInt 0 else PNone),
     (''last_data_record_seq'', if qc_attempted k \<noteq> 0 then PInt (qc_attempted k - 1) else PNone),
     (''writer_failure_count'', PInt (qc_writer_failure k)),
     (''close_outcome'', PStr outcome), (''content_sha256'', PStr digest)]"
  have ends: "value_bound (if qc_attempted k \<noteq> 0 then PInt 0 else PNone) 20"
    "value_bound (if qc_attempted k \<noteq> 0 then PInt (qc_attempted k - 1) else PNone) 20"
    using ok length_py_str_int [of 0] length_py_str_int [of "qc_attempted k - 1"]
    by (auto simp: value_bound_def UINT64_MAX_def uint64_def)
  have parts: "counts_ok (qc_written k)" "list_all uint64 [qc_attempted k, qc_dropped_data k, t,
      qc_written_loss k, qc_dropped_control k, qc_writer_failure k]"
    "outcome \<in> set [''drained'', ''timeout'', ''writer_failure'']" "is_hex 32 u" "is_hex 64 digest"
    using ok by auto
  have "list_all2 (\<lambda>kv b. plain (fst kv) \<and> value_bound (snd kv) b) ?r
    [26, 17, 34, 26, 20, 20, 20, 20, 20, 20, 20, 20, 20, 20, 20, 20, 16, 66]"
    unfolding list_all2_Cons fst_conv snd_conv
    using parts(1,2) config_bounds [OF assms] ends bound_known [OF known_outcomes parts(3)]
      bound_hex [OF parts(4)] bound_hex [OF parts(5)]
    by (simp add: counts_ok_def key_simps bound_literal uint64_bound)
  then have "bounded_line ?r = None" by (subst fits_bounded_line [symmetric], rule fitsI) simp_all
  with ok show "\<exists>r. build_profile_summary_record u c t k outcome digest = Inr r"
    by (auto simp: build_profile_summary_record_def Let_def accept_simps ball_Un count_checks_None
        need_uint_int need_hex_str uint64_def)
qed (auto simp: build_profile_summary_record_def Let_def accept_simps ball_Un count_checks_None
        need_uint_int need_hex_str uint64_def)

lemma profile_summary_accepted_witness:
  "\<exists>r. build_profile_summary_record (sample_hex CHR ''b'') sample_config 99
     \<lparr>qc_attempted = 7, qc_written = (\<lambda>_. 1), qc_written_loss = 1, qc_dropped_data = 3,
      qc_dropped_control = 0, qc_writer_failure = 0\<rparr> ''drained'' (replicate 64 CHR ''0'') = Inr r"
proof -
  have "is_hex 32 (sample_hex CHR ''b'')" "is_hex 64 (replicate 64 CHR ''0'')"
    by code_simp+
  then show ?thesis
    by (subst profile_summary_accepted [OF sample_config_valid])
      (simp add: counts_ok_def total_count_def uint64_def UINT64_MAX_def)
qed

section \<open>Recovery events always fit\<close>

lemma known_stages: "list_all (known_str 23) RECOVERY_STAGES"
  by (simp add: known_str_def RECOVERY_STAGES_def key_simps)

lemma known_reasons: "list_all (known_str 17) REQUEUE_REASONS"
  by (simp add: known_str_def REQUEUE_REASONS_def key_simps)

lemma known_kinds: "list_all (known_str 7) [''prefill'', ''decode'']"
  by (simp add: known_str_def key_simps)

lemma eq_str_bound: "eq_str v s \<Longrightarrow> plain s \<Longrightarrow> length s + 2 \<le> b \<Longrightarrow> value_bound v b"
  by (simp add: eq_str_def bound_literal)

text \<open>The size of a data record from bounds on its fields.\<close>

lemma data_record_fits:
  assumes c: "validate_profile_config c = None" and u: "is_hex 32 u" and d: "is_hex 32 cd"
    and n: "uint64 n" and t: "uint64 t"
    and f: "keys_are f ks" "distinct (map fst f)" "distinct ks"
    and b: "list_all2 (\<lambda>k b. plain k \<and> value_bound (dget f k) b) ks bs"
    and total: "sum_list (map length ks) + sum_list bs + 4 * length ks \<le> 3600"
  shows "bounded_line (profile_data_record k u n t cd c f) = None"
proof -
  let ?h = "[(''schema'', PStr (kc_profile_id c)), (''record_type'', PStr (profile_type_name k)),
      (''process_uuid'', PStr u), (''record_seq'', PInt n), (''record_id'', PStr (id_of u CHR ''k'' n)),
      (''run_id'', PStr (kc_run_id c)), (''timestamp_ns'', PInt t), (''clock_domain_id'', PStr cd),
      (''profile_id'', PStr (kc_profile_id c))]"
  have "value_bound (PStr (profile_type_name k)) 17"
    by (cases k) (simp_all add: bound_literal key_simps)
  then have "list_all2 (\<lambda>kv b. plain (fst kv) \<and> value_bound (snd kv) b) ?h
    [26, 17, 34, 20, 57, 34, 20, 34, 26]"
    unfolding list_all2_Cons fst_conv snd_conv
    using config_bounds [OF c] bound_hex [OF u] bound_hex [OF d] uint64_bound [OF n] uint64_bound [OF t]
      bound_id_of [of u n "CHR ''k''"] u n
    by (simp add: key_simps uint64_def)
  from record_length [OF this] have "(\<Sum>kv\<leftarrow>?h. member_size kv) \<le> 400" by simp
  moreover have "(\<Sum>kv\<leftarrow>f. member_size kv) \<le> 3600"
  proof -
    have "list_all2 (\<lambda>kv b. plain (fst kv) \<and> value_bound (snd kv) b) (map (\<lambda>k. (k, dget f k)) ks) bs"
      using b by (simp add: list_all2_map1)
    from record_length [OF this] have "(\<Sum>k\<leftarrow>ks. member_size (k, dget f k)) \<le> 3600"
      using total by (simp add: comp_def)
    with exact_fields_sum [OF f] show ?thesis by simp
  qed
  moreover have "profile_data_record k u n t cd c f = ?h @ f" by (simp add: profile_data_record_def)
  ultimately have "fits (profile_data_record k u n t cd c f)"
    using length_dumps_dict [of "?h @ f"]
    by (simp add: fits_def canonical_json_line_def MAX_RECORD_BYTES_def Let_def del: json_dumps.simps)
  then show ?thesis by (simp add: fits_bounded_line)
qed

lemma epoch_id_length:
  assumes "str_val (is_hex 32) t" "need_uint e UINT32_MAX f = None"
  shows "value_bound (PStr (id_of (str_of t @ '':e:0'') CHR ''k'' (int_val e))) 60"
proof -
  obtain s i where s: "t = PStr s" "is_hex 32 s" and i: "e = PInt i" "0 \<le> i" "i \<le> UINT32_MAX"
    using assms by (cases t; cases e) (auto simp: str_val_def need_uint_def is_uint_def accept_simps)
  have "nat i < 10 ^ Suc 9" using i by (simp add: UINT32_MAX_def)
  from dec_nat_length [OF this] have "length (py_str_int i) \<le> 10" using i by (simp add: py_str_int_nonneg)
  with s i show ?thesis
    using bound_str [of "id_of (s @ '':e:0'') CHR ''k'' i" 58]
    by (simp add: str_of_def int_val_def id_of_def key_simps plain_hex plain_py_str_int is_hex_length)
qed

lemma request_field_bounds:
  assumes "validate_request_fields f = None"
  shows "list_all2 (\<lambda>k b. plain k \<and> value_bound (dget f k) b) REQUEST_FIELDS [34, 38, 258, 17, 20, 20, 60]"
proof -
  note v = assms [unfolded validate_request_fields_def first_error_None]
  have t: "str_val (is_hex 32) (dget f ''trace_id'')" using v by (simp add: need_hex_def accept_simps)
  have life: "eq_str (dget f ''engine_lifecycle_id'') (str_of (dget f ''trace_id'') @ '':e:0'')"
    using v by (simp add: accept_simps)
  have "value_bound (dget f ''engine_lifecycle_id'') 38"
    using t eq_str_bound [OF life] by (cases "dget f ''trace_id''")
      (auto simp: str_val_def str_of_def text_simps plain_hex is_hex_length key_simps)
  moreover have "value_bound (dget f ''episode_id'') 60 \<and> value_bound (dget f ''recovery_epoch'') 20"
  proof (cases "dget f ''recovery_epoch'' = PNone")
    case True
    then show ?thesis using v by (simp add: value_bound_def accept_simps)
  next
    case False
    then have e: "need_uint (dget f ''recovery_epoch'') UINT32_MAX ''recovery_epoch'' = None"
      and i: "eq_str (dget f ''episode_id'') (id_of (str_of (dget f ''engine_lifecycle_id'')) CHR ''k''
        (int_val (dget f ''recovery_epoch'')))" using v by (simp_all add: accept_simps)
    have "value_bound (dget f ''episode_id'') 60"
      using i life epoch_id_length [OF t e] by (simp add: eq_str_def str_of_def)
    then show ?thesis using need_uint_bound [OF e] by (simp add: UINT32_MAX_def UINT64_MAX_def)
  qed
  moreover have "value_bound (dget f ''trace_id'') 34" "value_bound (dget f ''sample_index'') 20"
    "value_bound (dget f ''runtime_request_id'') 258" "value_bound (dget f ''request_id_kind'') 17"
    using v need_hex_bound [of "dget f ''trace_id''" 32] need_uint_bound [of "dget f ''sample_index''" UINT32_MAX]
      need_ascii_bound [of "dget f ''runtime_request_id''" _ 128]
      eq_str_bound [of "dget f ''request_id_kind''" "''engine_internal''" 17]
    by (auto simp: UINT32_MAX_def UINT64_MAX_def MAX_RUNTIME_REQUEST_ID_BYTES_def accept_simps key_simps)
  ultimately show ?thesis by (simp add: REQUEST_FIELDS_def key_simps)
qed

lemma need_uint32_bound: "need_uint v UINT32_MAX f = None \<Longrightarrow> value_bound v 20"
  by (rule need_uint_bound) (auto simp: UINT32_MAX_def UINT64_MAX_def)

lemma need_uint64_bound: "need_uint v UINT64_MAX f = None \<Longrightarrow> value_bound v 20"
  by (rule need_uint_bound) auto

lemma null_boundI: "v = PNone \<Longrightarrow> 4 \<le> b \<Longrightarrow> value_bound v b"
  by (simp add: value_bound_def)

lemma recovery_kinds:
  assumes "\<forall>c \<in> set (recovery_details f stage). c = None"
  shows "need_member (dget f ''compute_kind'') [''prefill'', ''decode'']
       (ValueError ''first compute child association is incomplete'') = None \<and>
     eq_str (dget f ''child_observation_kind'') ''worker_model_forward_entry'' \<and>
     eq_str (dget f ''base_association_kind'') ''phase_child_observation'' \<and>
     eq_str (dget f ''base_association_evidence'') ''instrumented_execution_context'' \<or>
     dget f ''compute_kind'' = PNone \<and> dget f ''child_observation_kind'' = PNone \<and>
     dget f ''base_association_kind'' = PNone \<and> dget f ''base_association_evidence'' = PNone"
  using assms
  by (cases "stage = ''first_prefill_or_decode''") (simp_all add: recovery_details_def accept_simps)

lemma recovery_kind_bounds:
  assumes "\<forall>c \<in> set (recovery_details f stage). c = None"
  shows "value_bound (dget f ''compute_kind'') 9" "value_bound (dget f ''child_observation_kind'') 28"
    "value_bound (dget f ''base_association_kind'') 25" "value_bound (dget f ''base_association_evidence'') 32"
  using recovery_kinds [OF assms] need_member_bound [OF _ known_kinds, of "dget f ''compute_kind''"]
    eq_str_bound [of "dget f ''child_observation_kind''" "''worker_model_forward_entry''" 28]
    eq_str_bound [of "dget f ''base_association_kind''" "''phase_child_observation''" 25]
    eq_str_bound [of "dget f ''base_association_evidence''" "''instrumented_execution_context''" 32]
    null_boundI [of "dget f ''compute_kind''" 9] null_boundI [of "dget f ''child_observation_kind''" 28]
    null_boundI [of "dget f ''base_association_kind''" 25]
    null_boundI [of "dget f ''base_association_evidence''" 32]
  by (auto simp: key_simps)

lemma recovery_transfer_bounds:
  assumes "\<forall>c \<in> set (recovery_transfer f stage). c = None"
  shows "value_bound (dget f ''transfer_id'') 57" "value_bound (dget f ''block_set_id'') 66"
    "value_bound (dget f ''bytes_moved'') 20"
proof -
  have "dget f ''transfer_id'' = PNone \<and> dget f ''block_set_id'' = PNone \<and> dget f ''bytes_moved'' = PNone \<or>
    str_val (id_pattern CHR ''t'') (dget f ''transfer_id'') \<and>
    need_hex (dget f ''block_set_id'') 64 ''block_set_id'' = None \<and>
    (dget f ''bytes_moved'' = PNone \<or> need_uint (dget f ''bytes_moved'') UINT64_MAX ''bytes_moved'' = None)"
    using assms by (cases "stage = ''preempt''"; cases "stage = ''restore_start''")
      (simp_all add: recovery_transfer_def accept_simps)
  then show "value_bound (dget f ''transfer_id'') 57" "value_bound (dget f ''block_set_id'') 66"
    "value_bound (dget f ''bytes_moved'') 20"
    using need_hex_bound [of "dget f ''block_set_id''" 64] need_uint64_bound [of "dget f ''bytes_moved''"]
      id_val_bound [of "CHR ''t''" "dget f ''transfer_id''"] null_boundI
    by (auto simp: text_simps)
qed

lemma recovery_reason_bound:
  assumes "\<forall>c \<in> set (recovery_details f stage). c = None"
  shows "value_bound (dget f ''requeue_reason'') 19"
proof (cases "stage = ''requeue''")
  case True
  then have "need_member (dget f ''requeue_reason'') REQUEUE_REASONS
      (ValueError ''requeue_reason is not in the closed roster'') = None"
    using assms by (simp add: recovery_details_def)
  from need_member_bound [OF this known_reasons] show ?thesis by simp
next
  case False
  then show ?thesis using assms null_boundI [of "dget f ''requeue_reason''" 19]
    by (simp add: recovery_details_def accept_simps)
qed

lemma recovery_field_bounds:
  assumes "validate_recovery_fields f = None"
  shows "list_all2 (\<lambda>k b. plain k \<and> value_bound (dget f k) b) RECOVERY_FIELDS
    [25, 20, 57, 57, 57, 57, 66, 20, 19, 9, 28, 25, 32, 130, 130]"
proof -
  define stage where "stage = str_of (dget f ''stage'')"
  note v = assms [unfolded validate_recovery_fields_def Let_def first_error_None ball_Un set_append,
      folded stage_def]
  have links: "\<forall>c \<in> set (recovery_links f stage). c = None"
    and transfer: "\<forall>c \<in> set (recovery_transfer f stage). c = None"
    and details: "\<forall>c \<in> set (recovery_details f stage). c = None" using v by blast+
  have stage: "value_bound (dget f ''stage'') 25" "value_bound (dget f ''occurrence'') 20"
    using v need_member_bound [OF _ known_stages, of "dget f ''stage''"]
      need_uint32_bound [of "dget f ''occurrence''"] by auto
  have ids: "value_bound (dget f ''base_event_id'') 57" "value_bound (dget f ''base_admission_started_event_id'') 57"
    "value_bound (dget f ''from_profile_event_id'') 57"
    using links nullable_event_id_bound nullable_profile_id_bound by (auto simp: recovery_links_def)
  have statuses: "value_bound (dget f ''request_status_before'') 130" "value_bound (dget f ''request_status_after'') 130"
    using details nullable_ascii_bound by (auto simp: recovery_details_def)
  show ?thesis
    using stage ids statuses recovery_transfer_bounds [OF transfer] recovery_reason_bound [OF details]
      recovery_kind_bounds [OF details]
    by (simp add: RECOVERY_FIELDS_def key_simps)
qed

text \<open>
  C35. A recovery event whose fields pass validation is never lost to the size bound: the builder
  accepts it exactly when the identities, the closed roster, the request identity and the recovery
  fields are valid, whatever the values of the bounded strings.
\<close>

theorem recovery_event_accepted:
  assumes "validate_profile_config c = None" "distinct (map fst f)"
  shows "(\<exists>r. build_profile_data_record Recovery_event u n t cd c f = Inr r) \<longleftrightarrow>
    is_hex 32 u \<and> is_hex 32 cd \<and> uint64 n \<and> uint64 t \<and> keys_are f (REQUEST_FIELDS @ RECOVERY_FIELDS) \<and>
    validate_request_fields f = None \<and> validate_recovery_fields f = None"
proof
  assume ok: "is_hex 32 u \<and> is_hex 32 cd \<and> uint64 n \<and> uint64 t \<and>
    keys_are f (REQUEST_FIELDS @ RECOVERY_FIELDS) \<and>
    validate_request_fields f = None \<and> validate_recovery_fields f = None"
  have "bounded_line (profile_data_record Recovery_event u n t cd c f) = None"
  proof (rule data_record_fits [OF assms(1) _ _ _ _ _ assms(2)])
    show "list_all2 (\<lambda>k b. plain k \<and> value_bound (dget f k) b) (REQUEST_FIELDS @ RECOVERY_FIELDS)
      ([34, 38, 258, 17, 20, 20, 60] @ [25, 20, 57, 57, 57, 57, 66, 20, 19, 9, 28, 25, 32, 130, 130])"
      using ok by (intro list_all2_appendI request_field_bounds recovery_field_bounds) auto
  qed (use ok in \<open>simp_all add: REQUEST_FIELDS_def RECOVERY_FIELDS_def\<close>)
  with ok show "\<exists>r. build_profile_data_record Recovery_event u n t cd c f = Inr r"
    by (simp add: build_profile_data_record_def Let_def accept_simps need_hex_str need_uint_int
        uint64_def need_exact_fields_def profile_fields_of_def)
qed (auto simp: build_profile_data_record_def Let_def accept_simps need_hex_str need_uint_int
        uint64_def need_exact_fields_def profile_fields_of_def)

definition sample_recovery :: pydict where
  "sample_recovery =
     [(''trace_id'', PStr (sample_hex CHR ''a'')),
      (''engine_lifecycle_id'', PStr (sample_hex CHR ''a'' @ '':e:0'')),
      (''runtime_request_id'', PStr ''req-1''), (''request_id_kind'', PStr ''engine_internal''),
      (''sample_index'', PInt 0), (''recovery_epoch'', PInt 1),
      (''episode_id'', PStr (sample_hex CHR ''a'' @ '':e:0:k:1'')),
      (''stage'', PStr ''preempt''), (''occurrence'', PInt 0),
      (''base_event_id'', PStr (sample_hex CHR ''b'' @ '':e:4'')),
      (''base_admission_started_event_id'', PNone), (''from_profile_event_id'', PNone),
      (''transfer_id'', PNone), (''block_set_id'', PNone), (''bytes_moved'', PNone),
      (''requeue_reason'', PNone), (''compute_kind'', PNone), (''child_observation_kind'', PNone),
      (''base_association_kind'', PNone), (''base_association_evidence'', PNone),
      (''request_status_before'', PStr ''RUNNING''), (''request_status_after'', PNone)]"

lemma sample_recovery_valid:
  "distinct (map fst sample_recovery) \<and> keys_are sample_recovery (REQUEST_FIELDS @ RECOVERY_FIELDS) \<and>
   validate_request_fields sample_recovery = None \<and> validate_recovery_fields sample_recovery = None \<and>
   is_hex 32 (sample_hex CHR ''b'') \<and> is_hex 32 (sample_hex CHR ''c'') \<and> uint64 3 \<and> uint64 17"
  by code_simp

lemma recovery_event_accepted_witness:
  "\<exists>r. build_profile_data_record Recovery_event (sample_hex CHR ''b'') 3 17 (sample_hex CHR ''c'')
     sample_config sample_recovery = Inr r"
  using recovery_event_accepted [OF sample_config_valid, of sample_recovery "sample_hex CHR ''b''" 3 17
      "sample_hex CHR ''c''"] sample_recovery_valid by blast

text \<open>
  C40. The recovery chain on the wire: an accepted recovery event that starts an episode has no
  predecessor, no transfer and no moved bytes; every later stage names its predecessor profile
  record and a transfer, and every stage after the start of the restore moves a positive number of
  bytes. Only an admission names a base admission event, and only a requeue names a reason.
\<close>

theorem recovery_chain_shape:
  assumes "build_profile_data_record Recovery_event u n t cd c f = Inr r"
  shows "str_of (dget f ''stage'') \<in> set RECOVERY_STAGES \<and>
    (dget f ''from_profile_event_id'' = PNone) = eq_str (dget f ''stage'') ''preempt'' \<and>
    (dget f ''transfer_id'' = PNone) = eq_str (dget f ''stage'') ''preempt'' \<and>
    (dget f ''bytes_moved'' = PNone) =
      (eq_str (dget f ''stage'') ''preempt'' \<or> eq_str (dget f ''stage'') ''restore_start'') \<and>
    (dget f ''bytes_moved'' \<noteq> PNone \<longrightarrow> 1 \<le> int_val (dget f ''bytes_moved'')) \<and>
    (dget f ''base_admission_started_event_id'' \<noteq> PNone) = eq_str (dget f ''stage'') ''admission'' \<and>
    (dget f ''requeue_reason'' \<noteq> PNone) = eq_str (dget f ''stage'') ''requeue''"
proof -
  define stage where "stage = str_of (dget f ''stage'')"
  have valid: "validate_recovery_fields f = None"
    using assms by (auto simp: build_profile_data_record_def Let_def accept_simps)
  note v = valid [unfolded validate_recovery_fields_def Let_def first_error_None ball_Un set_append,
      folded stage_def]
  have links: "\<forall>c \<in> set (recovery_links f stage). c = None"
    and transfer: "\<forall>c \<in> set (recovery_transfer f stage). c = None"
    and details: "\<forall>c \<in> set (recovery_details f stage). c = None"
    and member: "need_member (dget f ''stage'') RECOVERY_STAGES
       (ValueError ''recovery stage is not in the seven-stage roster'') = None" using v by auto
  obtain s where s: "dget f ''stage'' = PStr s" "s \<in> set RECOVERY_STAGES" "stage = s"
    using member stage_def by (cases "dget f ''stage''") (auto simp: need_member_def accept_simps str_of_def)
  have "(dget f ''from_profile_event_id'' = PNone) = (s = ''preempt'') \<and>
    (dget f ''base_admission_started_event_id'' \<noteq> PNone) = (s = ''admission'')"
    using links s(3) by (cases "s = ''preempt''"; cases "s = ''admission''")
      (simp_all add: recovery_links_def accept_simps)
  moreover have "(dget f ''transfer_id'' = PNone) = (s = ''preempt'') \<and>
    (dget f ''bytes_moved'' = PNone) = (s = ''preempt'' \<or> s = ''restore_start'') \<and>
    (dget f ''bytes_moved'' \<noteq> PNone \<longrightarrow> 1 \<le> int_val (dget f ''bytes_moved''))"
    using transfer s(3) by (cases "s = ''preempt''"; cases "s = ''restore_start''")
      (auto simp: recovery_transfer_def accept_simps str_val_def need_uint_def is_uint_def)
  moreover have "(dget f ''requeue_reason'' \<noteq> PNone) = (s = ''requeue'')"
    using details s(3) by (cases "s = ''requeue''")
      (auto simp: recovery_details_def accept_simps need_member_def)
  ultimately show ?thesis using s by (simp add: eq_str_def str_of_def)
qed

lemma recovery_chain_shape_witness:
  "dget sample_recovery ''from_profile_event_id'' = PNone \<and>
   eq_str (dget sample_recovery ''stage'') ''preempt''"
proof -
  obtain r where "build_profile_data_record Recovery_event (sample_hex CHR ''b'') 3 17
      (sample_hex CHR ''c'') sample_config sample_recovery = Inr r"
    using recovery_event_accepted [OF sample_config_valid, of sample_recovery "sample_hex CHR ''b''" 3 17
      "sample_hex CHR ''c''"] sample_recovery_valid by blast
  from recovery_chain_shape [OF this] show ?thesis
    by (simp add: sample_recovery_def dget_def eq_str_def)
qed

section \<open>Block rows and wait members\<close>

definition coordinate_less :: "int \<times> int \<Rightarrow> int \<times> int \<Rightarrow> bool" where
  "coordinate_less p q \<longleftrightarrow> fst p < fst q \<or> fst p = fst q \<and> snd p < snd q"

lemma coordinate_less_trans: "coordinate_less p q \<Longrightarrow> coordinate_less q r \<Longrightarrow> coordinate_less p r"
  by (auto simp: coordinate_less_def)

lemma check_block_rows_sorted:
  assumes "check_block_rows previous seen blocks = None"
  shows "sorted_wrt coordinate_less (map row_coordinate blocks) \<and> distinct (map row_id blocks) \<and>
    set (map row_id blocks) \<inter> set seen = {} \<and>
    (\<forall>p. previous = Some p \<longrightarrow> (\<forall>b \<in> set blocks. coordinate_less p (row_coordinate b)))"
  using assms
proof (induction previous seen blocks rule: check_block_rows.induct)
  case (2 previous seen block blocks)
  have row: "check_block_row previous seen block = None"
    using "2.prems" by (simp split: option.splits)
  then have here: "row_id block \<notin> set seen" "\<And>p. previous = Some p \<Longrightarrow> coordinate_less p (row_coordinate block)"
    by (auto simp: check_block_row_def Let_def accept_simps row_id_def row_coordinate_def coordinate_less_def)
  from "2.IH" [OF row] "2.prems" row
  have rest: "sorted_wrt coordinate_less (map row_coordinate blocks)" "distinct (map row_id blocks)"
    "set (map row_id blocks) \<inter> set (row_id block # seen) = {}"
    "\<forall>b \<in> set blocks. coordinate_less (row_coordinate block) (row_coordinate b)"
    by auto
  then show ?case using here coordinate_less_trans by (auto, blast)
qed simp

text \<open>
  An accepted block-set chunk is canonical: it has between 1 and 64 rows, its index is below
  its chunk count, the declared total is within the block-set bound, the rows are strictly
  increasing by group and ordinal, and no logical block appears twice.
\<close>

theorem block_chunk_canonical:
  assumes v: "validate_block_fields f = None"
  shows "(let rows = list_of (dget f ''blocks'') in
      1 \<le> length rows \<and> length rows \<le> 64 \<and> sorted_wrt coordinate_less (map row_coordinate rows) \<and>
      distinct (map row_id rows)) \<and>
    0 \<le> int_val (dget f ''chunk_index'') \<and>
    int_val (dget f ''chunk_index'') < int_val (dget f ''chunk_count'') \<and>
    1 \<le> int_val (dget f ''total_block_count'') \<and> int_val (dget f ''total_block_count'') \<le> 4096"
proof -
  from v have rows: "check_block_rows None [] (list_of (dget f ''blocks'')) = None"
    and chunk: "validate_chunk (dget f ''chunk_index'') (dget f ''chunk_count'') (dget f ''total_block_count'')
        ''total_block_count'' = None"
    by (simp_all add: validate_block_fields_def accept_simps)
  have "0 \<le> int_val (dget f ''chunk_index'')"
    using chunk by (cases "dget f ''chunk_index''")
      (simp_all add: validate_chunk_def accept_simps need_uint_def is_uint_def int_val_def)
  then show ?thesis
    using v chunk check_block_rows_sorted [OF rows]
    by (auto simp: validate_block_fields_def validate_chunk_def accept_simps Let_def
        MAX_LOGICAL_BLOCKS_PER_BLOCK_SET_def not_le not_less Suc_le_eq)
qed

definition sample_row :: "int \<Rightarrow> char \<Rightarrow> pyval" where
  "sample_row i h = PDict [(''group_index'', PInt 0), (''logical_ordinal'', PInt i),
     (''logical_block_id'', PStr (sample_hex h))]"

definition sample_block :: pydict where
  "sample_block = take 7 sample_recovery @
     [(''block_set_id'', PStr (replicate 64 CHR ''0'')), (''chunk_index'', PInt 0),
      (''chunk_count'', PInt 1), (''total_block_count'', PInt 2),
      (''blocks'', PList [sample_row 0 CHR ''1'', sample_row 1 CHR ''2''])]"

lemma sample_block_valid: "validate_block_fields sample_block = None"
  by code_simp

lemma block_chunk_canonical_witness:
  "int_val (dget sample_block ''chunk_index'') < int_val (dget sample_block ''chunk_count'') \<and>
   distinct (map row_id (list_of (dget sample_block ''blocks'')))"
  using block_chunk_canonical [OF sample_block_valid] by (simp only: Let_def)

definition phase_is :: "pydict \<Rightarrow> string \<Rightarrow> bool" where
  "phase_is f p \<longleftrightarrow> eq_str (dget f ''transfer_phase'') p"

definition set_field :: "string \<Rightarrow> pyval \<Rightarrow> pydict \<Rightarrow> pydict" where
  "set_field k v f = map (\<lambda>(k', w). (k', if k' = k then v else w)) f"

lemma dget_set_field: "dget (set_field k v f) k' = (if k' = k \<and> k \<in> fst ` set f then v else dget f k')"
proof (induction f)
  case (Cons kv f)
  then show ?case by (cases kv; cases "k' = k") (simp_all add: set_field_def dget_def)
qed (simp add: set_field_def dget_def)

text \<open>
  C36. The outcome of an accepted transfer event: a submission carries no outcome; a successful
  completion moved a positive number of bytes and has no failure code; a failed completion has a
  code of the closed roster. The bytes of a failed completion are not checked: whatever value the
  caller puts there is accepted and written, which the last part of the statement makes explicit
  (replacing it never makes the validator refuse).
\<close>

theorem transfer_outcome:
  assumes "validate_transfer_fields f u = None"
  shows "(phase_is f ''submit'' \<longrightarrow> dget f ''bytes_moved'' = PNone \<and> dget f ''success'' = PNone \<and>
       dget f ''failure_code'' = PNone) \<and>
    (phase_is f ''done'' \<and> dget f ''success'' = PBool True \<longrightarrow>
       1 \<le> int_val (dget f ''bytes_moved'') \<and> dget f ''failure_code'' = PNone) \<and>
    (phase_is f ''done'' \<and> dget f ''success'' \<noteq> PBool True \<longrightarrow>
       dget f ''success'' = PBool False \<and> str_of (dget f ''failure_code'') \<in> set FAILURE_CODES \<and>
       (\<forall>v. validate_transfer_fields (set_field ''bytes_moved'' v f) u = None)) \<and>
    (phase_is f ''submit'' \<or> phase_is f ''done'')"
proof -
  note v = assms [unfolded validate_transfer_fields_def first_error_None ball_Un set_append]
  have phases: "phase_is f ''submit'' \<or> phase_is f ''done''" "\<not> (phase_is f ''submit'' \<and> phase_is f ''done'')"
    using v by (auto simp: phase_is_def eq_str_def split: if_splits)
  have submit: "phase_is f ''submit'' \<Longrightarrow> dget f ''bytes_moved'' = PNone \<and> dget f ''success'' = PNone \<and>
       dget f ''failure_code'' = PNone"
    using v by (simp add: phase_is_def accept_simps)
  have "dget f ''success'' = PBool True \<or> dget f ''success'' = PBool False" if "phase_is f ''done''"
    using v that phases by (cases "dget f ''success''") (auto simp: phase_is_def accept_simps)
  moreover have "1 \<le> int_val (dget f ''bytes_moved'') \<and> dget f ''failure_code'' = PNone"
    if "phase_is f ''done''" "dget f ''success'' = PBool True"
    using v that phases by (simp add: phase_is_def accept_simps)
  moreover have "str_of (dget f ''failure_code'') \<in> set FAILURE_CODES \<and>
       (\<forall>v. validate_transfer_fields (set_field ''bytes_moved'' v f) u = None)"
    if "phase_is f ''done''" "dget f ''success'' = PBool False"
  proof
    show "str_of (dget f ''failure_code'') \<in> set FAILURE_CODES"
      using v that phases by (cases "dget f ''failure_code''")
        (simp_all add: phase_is_def accept_simps need_member_def str_of_def)
    have "validate_transfer_fields (set_field ''bytes_moved'' w f) u = validate_transfer_fields f u" for w
      using that by (simp add: validate_transfer_fields_def dget_set_field phase_is_def eq_str_def
          cong: option.case_cong)
    then show "\<forall>w. validate_transfer_fields (set_field ''bytes_moved'' w f) u = None"
      using assms by simp
  qed
  ultimately show ?thesis using phases submit by blast
qed

definition sample_failed_transfer :: pydict where
  "sample_failed_transfer =
     [(''transfer_id'', PStr (sample_hex CHR ''b'' @ '':t:9'')), (''connector_job_id'', PInt 4),
      (''rank'', PInt 0), (''world_size'', PInt 1), (''operation'', PStr ''h2d_restore''),
      (''direction'', PStr ''h2d''), (''src_medium'', PStr ''host_cpu''),
      (''dst_medium'', PStr ''device_hbm''), (''block_set_id'', PStr (replicate 64 CHR ''0'')),
      (''transfer_phase'', PStr ''done''), (''bytes_moved'', PNone), (''device_duration_ns'', PNone),
      (''success'', PBool False), (''failure_code'', PStr ''transfer_failed'')]"

lemma sample_failed_transfer_valid:
  "validate_transfer_fields sample_failed_transfer (sample_hex CHR ''b'') = None"
  by code_simp

lemma transfer_outcome_witness:
  "validate_transfer_fields
     (set_field ''bytes_moved'' (PStr ''not a number'') sample_failed_transfer) (sample_hex CHR ''b'') = None"
proof -
  have "phase_is sample_failed_transfer ''done''" "dget sample_failed_transfer ''success'' \<noteq> PBool True"
    by (simp_all add: phase_is_def sample_failed_transfer_def dget_def eq_str_def)
  with transfer_outcome [OF sample_failed_transfer_valid] show ?thesis by blast
qed
end
