(* ===== verification/Exporter_State.thy ===== *)
theory Exporter_State
  imports Profile_Protocol
begin

text \<open>
  The state of the bounded JSONL exporter (\<open>runtime_hooks.JsonlTraceSink\<close>) and the critical
  sections its producers run under the condition lock: sequence allocation, the capacity check, the
  enqueue, the accounting of dropped records and the sealing of loss intervals.

  The source keeps one set of counters for the base shard in the sink and the same set for the
  profile shard in \<open>_ProfileWriterState\<close>. Both are the record \<open>chan\<close> here: \<open>s_base\<close> holds the
  sink's own (\<open>_queued_bytes\<close>, \<open>_ordinary_queued\<close>, \<open>_reserved_queued\<close>, \<open>_next_record_seq\<close>,
  \<open>_next_loss_interval_seq\<close>, \<open>_open_loss\<close>, \<open>_attempted_data_count\<close>, the written counts by record
  type, \<open>_dropped_data_count\<close>, \<open>_dropped_control_count\<close>, \<open>_writer_failure_count\<close>,
  \<open>_summary_written\<close>), \<open>pf_chan\<close> the profile's. The content hash is kept as the lines hashed so
  far. The file fields are the shard on disk: its bytes, what its formal name denotes, whether the
  incomplete name is linked to it, and the two fields of the writer that remember it.
\<close>

section \<open>Queued records and loss intervals\<close>

datatype stream = Base | Prof

datatype rtype = Event | Edge | Loss_interval | Profile_data profile_type

record queued =
  q_raw :: string
  q_type :: rtype
  q_seq :: "int option"
  q_reserved :: bool
  q_observed :: "int option"
  q_stream :: stream

record open_loss =
  ol_reason :: string
  ol_first :: int
  ol_last :: int
  ol_counts :: "rtype \<Rightarrow> int"
  ol_first_ts :: int
  ol_last_ts :: int

text \<open>What the formal shard name denotes: nothing, the empty private reservation, or the shard.\<close>

datatype formal_name = No_entry | Sentinel | Shard

record chan =
  c_bytes :: int
  c_ordinary :: int
  c_reserved :: int
  c_next_seq :: int
  c_next_loss :: int
  c_open :: "open_loss option"
  c_attempted :: int
  c_written :: "rtype \<Rightarrow> int"
  c_dropped :: int
  c_dropped_control :: int
  c_writer_failures :: int
  c_summary_written :: bool
  c_lines :: "string list"
  c_disk :: string
  c_formal :: formal_name
  c_linked :: bool
  c_incomplete :: bool
  c_reservation :: bool

record profile_state =
  pf_config :: profile_config
  pf_chan :: chan
  pf_records :: "profile_record list"
  pf_losses :: "profile_loss_interval list"

record close_result =
  cr_close_outcome :: string
  cr_summary_written :: bool
  cr_attempted :: int
  cr_written_event :: int
  cr_written_edge :: int
  cr_dropped_data :: int
  cr_dropped_control :: int
  cr_profile_summary_written :: bool
  cr_profile_attempted :: int
  cr_profile_dropped_data :: int
  cr_profile_dropped_control :: int

record sink =
  s_uuid :: string
  s_clock_domain :: string
  s_mode :: string
  s_base :: chan
  s_profile :: "profile_state option"
  s_queue :: "queued list"
  s_inflight :: "queued list"
  s_next_span :: int
  s_diag :: "string \<Rightarrow> int"
  s_pending :: "string list"
  s_logged :: "string list"
  s_closing :: bool
  s_closed :: bool
  s_writer_failed :: bool
  s_abandoned :: bool
  s_forked :: bool
  s_claim :: "close_result option"
  s_deadline :: "int option"
  s_outcome :: "string option"

definition chan_of :: "stream \<Rightarrow> sink \<Rightarrow> chan option" where
  "chan_of k s = (case k of Base \<Rightarrow> Some (s_base s) | Prof \<Rightarrow> map_option pf_chan (s_profile s))"

definition upd_chan :: "stream \<Rightarrow> (chan \<Rightarrow> chan) \<Rightarrow> sink \<Rightarrow> sink" where
  "upd_chan k f s = (case k of Base \<Rightarrow> s\<lparr>s_base := f (s_base s)\<rparr>
     | Prof \<Rightarrow> s\<lparr>s_profile := map_option (\<lambda>p. p\<lparr>pf_chan := f (pf_chan p)\<rparr>) (s_profile s)\<rparr>)"

definition upd_both :: "(chan \<Rightarrow> chan) \<Rightarrow> sink \<Rightarrow> sink" where
  "upd_both f s = upd_chan Prof f (upd_chan Base f s)"

section \<open>Diagnostics\<close>

definition DIAGNOSTIC_REASONS :: "string list" where
  "DIAGNOSTIC_REASONS = [''init_failure'', ''schema_incompatible'', ''serialization_failure'',
     ''queue_overflow'', ''writer_failure'', ''close_timeout'', ''clock_domain_unavailable'',
     ''terminal_conflict'', ''invalid_metadata'', ''unsupported_mode'']"

definition count_diagnostic_locked :: "string \<Rightarrow> sink \<Rightarrow> sink" where
  "count_diagnostic_locked reason0 s =
     (let reason = (if reason0 \<in> set DIAGNOSTIC_REASONS then reason0 else ''schema_incompatible'');
          s1 = s\<lparr>s_diag := (s_diag s)(reason := s_diag s reason + 1)\<rparr>
      in if reason \<notin> set (s_logged s) \<and> reason \<notin> set (s_pending s)
         then s1\<lparr>s_pending := s_pending s @ [reason]\<rparr> else s1)"

text \<open>
  The reasons taken, in the frozen order. The writer logs exactly what it takes, so \<open>s_logged\<close> is
  also the sequence of warnings issued.
\<close>

definition take_pending_diagnostics_locked :: "sink \<Rightarrow> string list \<times> sink" where
  "take_pending_diagnostics_locked s =
     (let reasons = filter (\<lambda>r. r \<in> set (s_pending s)) DIAGNOSTIC_REASONS
      in (reasons, s\<lparr>s_pending := filter (\<lambda>r. r \<notin> set reasons) (s_pending s),
                     s_logged := s_logged s @ reasons\<rparr>))"

section \<open>Capacity and the queue\<close>

definition can_enqueue_locked :: "sink \<Rightarrow> string \<Rightarrow> bool \<Rightarrow> stream \<Rightarrow> bool" where
  "can_enqueue_locked s raw reserved k =
     (if s_writer_failed s \<or> s_closing s \<or> s_closed s then False
      else case chan_of k s of
        None \<Rightarrow> False
      | Some c \<Rightarrow>
          if c_bytes c + int (length raw) > MAX_QUEUED_BYTES then False
          else if reserved then c_reserved c < RESERVED_CAPACITY_RECORDS
          else c_ordinary c < DATA_CAPACITY_RECORDS)"

definition charge :: "queued \<Rightarrow> chan \<Rightarrow> chan" where
  "charge q c = (let c1 = c\<lparr>c_bytes := c_bytes c + int (length (q_raw q))\<rparr> in
     if q_reserved q then c1\<lparr>c_reserved := c_reserved c + 1\<rparr>
     else c1\<lparr>c_ordinary := c_ordinary c + 1\<rparr>)"

definition enqueue_locked :: "queued \<Rightarrow> sink \<Rightarrow> bool \<times> sink" where
  "enqueue_locked q s =
     (if \<not> can_enqueue_locked s (q_raw q) (q_reserved q) (q_stream q) then (False, s)
      else (True, upd_chan (q_stream q) (charge q) (s\<lparr>s_queue := s_queue s @ [q]\<rparr>)))"

section \<open>Loss intervals\<close>

text \<open>The encoded loss interval of a stream.\<close>

definition loss_line :: "sink \<Rightarrow> stream \<Rightarrow> open_loss \<Rightarrow> int \<Rightarrow> string res" where
  "loss_line s k l loss_seq =
     (case k of
        Base \<Rightarrow>
          (case build_loss_interval_record (s_uuid s) loss_seq (ol_reason l) (ol_first l) (ol_last l)
                  (ol_counts l Event) (ol_counts l Edge) (ol_first_ts l) (ol_last_ts l) of
             Inl e \<Rightarrow> Inl e | Inr r \<Rightarrow> canonical_json_line r)
      | Prof \<Rightarrow>
          (case s_profile s of
             None \<Rightarrow> Inl AssertionError
           | Some p \<Rightarrow>
               (case build_profile_loss_interval_record (s_uuid s) (pf_config p) loss_seq (ol_reason l)
                       (ol_first l) (ol_last l) (\<lambda>t. ol_counts l (Profile_data t))
                       (ol_first_ts l) (ol_last_ts l) of
                  Inl e \<Rightarrow> Inl e | Inr r \<Rightarrow> profile_record_line r)))"

definition loss_control :: "stream \<Rightarrow> string \<Rightarrow> queued" where
  "loss_control k raw = \<lparr>q_raw = raw, q_type = Loss_interval, q_seq = None, q_reserved = True,
     q_observed = None, q_stream = k\<rparr>"

definition drop_control :: "stream \<Rightarrow> sink \<Rightarrow> sink" where
  "drop_control k = upd_chan k (\<lambda>c. c\<lparr>c_dropped_control := c_dropped_control c + 1\<rparr>)"

definition seal_loss :: "stream \<Rightarrow> sink \<Rightarrow> sink" where
  "seal_loss k s =
     (case chan_of k s of
        None \<Rightarrow> s
      | Some c \<Rightarrow>
          (case c_open c of
             None \<Rightarrow> s
           | Some l \<Rightarrow>
               (let s1 = upd_chan k (\<lambda>c. c\<lparr>c_next_loss := c_next_loss c + 1, c_open := None\<rparr>) s
                in case loss_line s k l (c_next_loss c) of
                     Inl _ \<Rightarrow> drop_control k s1
                   | Inr raw \<Rightarrow>
                       (let (ok, s2) = enqueue_locked (loss_control k raw) s1
                        in if ok then s2 else drop_control k s2))))"

definition seal_loss_locked :: "sink \<Rightarrow> sink" where
  "seal_loss_locked = seal_loss Base"

definition seal_profile_loss_locked :: "sink \<Rightarrow> sink" where
  "seal_profile_loss_locked = seal_loss Prof"

definition extends_loss :: "open_loss option \<Rightarrow> string \<Rightarrow> int \<Rightarrow> bool" where
  "extends_loss current reason record_seq =
     (case current of None \<Rightarrow> False
      | Some l \<Rightarrow> ol_reason l = reason \<and> record_seq = ol_last l + 1)"

definition bump :: "('a \<Rightarrow> int) \<Rightarrow> 'a \<Rightarrow> 'a \<Rightarrow> int" where
  "bump f k = f(k := f k + 1)"

definition new_loss :: "string \<Rightarrow> int \<Rightarrow> rtype \<Rightarrow> int \<Rightarrow> open_loss" where
  "new_loss reason record_seq rt observed_ns =
     \<lparr>ol_reason = reason, ol_first = record_seq, ol_last = record_seq, ol_counts = bump (\<lambda>_. 0) rt,
      ol_first_ts = observed_ns, ol_last_ts = observed_ns\<rparr>"

definition longer_loss :: "open_loss \<Rightarrow> int \<Rightarrow> rtype \<Rightarrow> int \<Rightarrow> open_loss" where
  "longer_loss l record_seq rt observed_ns =
     l\<lparr>ol_last := record_seq, ol_counts := bump (ol_counts l) rt, ol_last_ts := observed_ns\<rparr>"

definition open_of :: "stream \<Rightarrow> sink \<Rightarrow> open_loss option" where
  "open_of k s = (case chan_of k s of None \<Rightarrow> None | Some c \<Rightarrow> c_open c)"

definition note_drop :: "stream \<Rightarrow> int \<Rightarrow> rtype \<Rightarrow> string \<Rightarrow> int \<Rightarrow> sink \<Rightarrow> sink" where
  "note_drop k record_seq rt reason observed_ns s =
     (let s1 = count_diagnostic_locked reason
                 (upd_chan k (\<lambda>c. c\<lparr>c_dropped := c_dropped c + 1\<rparr>) s)
      in if extends_loss (open_of k s) reason record_seq then
           upd_chan k (\<lambda>c. c\<lparr>c_open :=
             map_option (\<lambda>l. longer_loss l record_seq rt observed_ns) (c_open c)\<rparr>) s1
         else upd_chan k (\<lambda>c. c\<lparr>c_open := Some (new_loss reason record_seq rt observed_ns)\<rparr>)
                (seal_loss k s1))"

definition note_drop_locked :: "int \<Rightarrow> rtype \<Rightarrow> string \<Rightarrow> int \<Rightarrow> sink \<Rightarrow> sink" where
  "note_drop_locked = note_drop Base"

text \<open>The profile also keeps the intervals for the ledger: the last one grows with the open loss.\<close>

definition as_interval :: "open_loss \<Rightarrow> profile_loss_interval" where
  "as_interval l = \<lparr>pl_reason = ol_reason l, pl_first_record_seq = ol_first l,
     pl_last_record_seq = ol_last l, pl_counts = (\<lambda>t. ol_counts l (Profile_data t)),
     pl_first_timestamp_ns = ol_first_ts l, pl_last_timestamp_ns = ol_last_ts l\<rparr>"

definition note_profile_drop_locked :: "int \<Rightarrow> profile_type \<Rightarrow> string \<Rightarrow> int \<Rightarrow> sink \<Rightarrow> sink" where
  "note_profile_drop_locked record_seq t reason observed_ns s =
     (let grown = extends_loss (open_of Prof s) reason record_seq;
          s1 = note_drop Prof record_seq (Profile_data t) reason observed_ns s
      in case open_of Prof s1 of
           None \<Rightarrow> s1
         | Some l \<Rightarrow> s1\<lparr>s_profile := map_option (\<lambda>p. p\<lparr>pf_losses :=
             (if grown then butlast (pf_losses p) else pf_losses p) @ [as_interval l]\<rparr>) (s_profile s1)\<rparr>)"

section \<open>Sequence numbers and the producer clock\<close>

definition allocate :: "stream \<Rightarrow> sink \<Rightarrow> sink" where
  "allocate k = upd_chan k (\<lambda>c. c\<lparr>c_next_seq := c_next_seq c + 1, c_attempted := c_attempted c + 1\<rparr>)"

definition next_seq :: "stream \<Rightarrow> sink \<Rightarrow> int" where
  "next_seq k s = (case chan_of k s of None \<Rightarrow> 0 | Some c \<Rightarrow> c_next_seq c)"

text \<open>
  The readings an operation takes: the injected clock, which may raise (\<open>None\<close>) or return anything,
  and \<open>time.monotonic_ns\<close>.
\<close>

record clock =
  ck_clock :: "pyval option"
  ck_monotonic :: int

definition clock_value :: "clock \<Rightarrow> int option" where
  "clock_value ck = (case ck_clock ck of None \<Rightarrow> None
     | Some v \<Rightarrow> if is_uint v UINT64_MAX then Some (int_val v) else None)"

definition profile_fallback_timestamp_locked :: "clock \<Rightarrow> int" where
  "profile_fallback_timestamp_locked ck =
     (case clock_value ck of Some t \<Rightarrow> t | None \<Rightarrow> ck_monotonic ck)"

definition producer_clock_or_drop_locked ::
  "clock \<Rightarrow> int \<Rightarrow> rtype \<Rightarrow> sink \<Rightarrow> int option \<times> sink" where
  "producer_clock_or_drop_locked ck record_seq rt s =
     (case clock_value ck of
        Some t \<Rightarrow> (Some t, s)
      | None \<Rightarrow> (None, note_drop_locked record_seq rt ''serialization_failure'' (ck_monotonic ck)
                        (count_diagnostic_locked ''clock_domain_unavailable'' s)))"

section \<open>Producers\<close>

definition usable :: "sink \<Rightarrow> bool" where
  "usable s \<longleftrightarrow> \<not> s_closed s"

definition new_span_id :: "sink \<Rightarrow> string option \<times> sink" where
  "new_span_id s =
     (if \<not> usable s \<or> s_closing s \<or> s_closed s then (None, s)
      else (Some (id_of (s_uuid s) CHR ''s'' (s_next_span s)), s\<lparr>s_next_span := s_next_span s + 1\<rparr>))"

text \<open>
  The part the three writers share: from an encoded record to the queue, or to a dropped record.
  \<open>account\<close> is the accounting of the stream.
\<close>

definition offer :: "(string \<Rightarrow> sink \<Rightarrow> sink) \<Rightarrow> queued \<Rightarrow> sink \<Rightarrow> bool \<times> sink" where
  "offer account q s =
     (if \<not> can_enqueue_locked s (q_raw q) (q_reserved q) (q_stream q) then (False, account ''queue_overflow'' s)
      else (let (ok, s1) = enqueue_locked q (seal_loss (q_stream q) s)
            in if ok then (True, s1) else (False, account ''queue_overflow'' s1)))"

definition event_line :: "event_draft \<Rightarrow> sink \<Rightarrow> int \<Rightarrow> int \<Rightarrow> (string \<times> record_ref) res" where
  "event_line d s record_seq observed_ns =
     (case build_event_record d (s_uuid s) (s_clock_domain s) record_seq observed_ns (s_mode s) of
        Inl e \<Rightarrow> Inl e
      | Inr (r, ref) \<Rightarrow> (case canonical_json_line r of Inl e \<Rightarrow> Inl e | Inr raw \<Rightarrow> Inr (raw, ref)))"

definition edge_line :: "edge_draft \<Rightarrow> sink \<Rightarrow> int \<Rightarrow> (string \<times> record_ref) res" where
  "edge_line d s record_seq =
     (case build_edge_record d (s_uuid s) record_seq (s_mode s) of
        Inl e \<Rightarrow> Inl e
      | Inr (r, ref) \<Rightarrow> (case canonical_json_line r of Inl e \<Rightarrow> Inl e | Inr raw \<Rightarrow> Inr (raw, ref)))"

definition write_base ::
  "rtype \<Rightarrow> bool \<Rightarrow> (int \<Rightarrow> int \<Rightarrow> (string \<times> record_ref) res) \<Rightarrow> clock \<Rightarrow> sink \<Rightarrow> record_ref option \<times> sink" where
  "write_base rt reserved line ck s =
     (if \<not> usable s then (None, s)
      else if s_closing s \<or> s_closed s then (None, count_diagnostic_locked ''schema_incompatible'' s)
      else
        (let seq = next_seq Base s;
             (observed, s1) = producer_clock_or_drop_locked ck seq rt (allocate Base s)
         in case observed of
              None \<Rightarrow> (None, s1)
            | Some t \<Rightarrow>
                if s_writer_failed s1 then (None, note_drop_locked seq rt ''writer_failure'' t s1)
                else (case line seq t of
                    Inl _ \<Rightarrow> (None, note_drop_locked seq rt ''serialization_failure'' t s1)
                  | Inr (raw, ref) \<Rightarrow>
                      (let (ok, s2) = offer (\<lambda>reason. note_drop_locked seq rt reason t)
                             \<lparr>q_raw = raw, q_type = rt, q_seq = Some seq, q_reserved = reserved,
                              q_observed = Some t, q_stream = Base\<rparr> s1
                       in (if ok then Some ref else None, s2)))))"

definition write_event :: "event_draft \<Rightarrow> clock \<Rightarrow> sink \<Rightarrow> record_ref option \<times> sink" where
  "write_event d ck s = write_base Event (ed_event_name d \<in> set TERMINAL_EVENTS) (event_line d s) ck s"

definition write_edge :: "edge_draft \<Rightarrow> clock \<Rightarrow> sink \<Rightarrow> record_ref option \<times> sink" where
  "write_edge d ck s = write_base Edge False (\<lambda>seq _. edge_line d s seq) ck s"

definition profile_line ::
  "profile_type \<Rightarrow> pydict \<Rightarrow> sink \<Rightarrow> profile_state \<Rightarrow> int \<Rightarrow> int \<Rightarrow> (string \<times> profile_record_ref) res" where
  "profile_line t fs s p record_seq observed_ns =
     (case build_profile_data_record t (s_uuid s) record_seq observed_ns (s_clock_domain s) (pf_config p) fs of
        Inl e \<Rightarrow> Inl e
      | Inr (r, ref) \<Rightarrow> (case profile_record_line r of Inl e \<Rightarrow> Inl e | Inr raw \<Rightarrow> Inr (raw, ref)))"

definition remember_record :: "profile_record_ref \<Rightarrow> pydict \<Rightarrow> sink \<Rightarrow> sink" where
  "remember_record ref fs s = s\<lparr>s_profile := map_option (\<lambda>p. p\<lparr>pf_records := pf_records p @
     [\<lparr>po_record_type = pr_record_type ref, po_record_seq = pr_record_seq ref,
       po_record_id = pr_record_id ref, po_timestamp_ns = pr_timestamp_ns ref, po_fields = fs\<rparr>]\<rparr>)
     (s_profile s)\<rparr>"

text \<open>
  \<open>_allocate_profile_record_seq_locked\<close> raises once the sequence is exhausted; the error leaves the
  operation, which then has no result (\<^const>\<open>Inl\<close>).
\<close>

definition allocate_profile :: "sink \<Rightarrow> (int \<times> sink) res" where
  "allocate_profile s =
     (if next_seq Prof s > UINT64_MAX then Inl (OverflowError ''profile record sequence exhausted'')
      else Inr (next_seq Prof s, allocate Prof s))"

definition write_kv_recovery_profile ::
  "profile_type \<Rightarrow> pyval \<Rightarrow> pydict \<Rightarrow> clock \<Rightarrow> sink \<Rightarrow> profile_record_ref option res \<times> sink" where
  "write_kv_recovery_profile t timestamp_ns fs ck s =
     (if \<not> usable s then (Inr None, s)
      else case s_profile s of
        None \<Rightarrow> (Inr None, count_diagnostic_locked ''schema_incompatible'' s)
      | Some p \<Rightarrow>
          if s_closing s \<or> s_closed s then (Inr None, count_diagnostic_locked ''schema_incompatible'' s)
          else case allocate_profile s of
            Inl e \<Rightarrow> (Inl e, s)
          | Inr (seq, s1) \<Rightarrow>
              if \<not> is_uint timestamp_ns UINT64_MAX then
                (Inr None, note_profile_drop_locked seq t ''serialization_failure''
                             (profile_fallback_timestamp_locked ck) s1)
              else
                (let observed = int_val timestamp_ns in
                 if s_writer_failed s1 then
                   (Inr None, note_profile_drop_locked seq t ''writer_failure'' observed s1)
                 else (case profile_line t fs s p seq observed of
                     Inl _ \<Rightarrow> (Inr None, note_profile_drop_locked seq t ''serialization_failure'' observed s1)
                   | Inr (raw, ref) \<Rightarrow>
                       (let (ok, s2) = offer (\<lambda>reason. note_profile_drop_locked seq t reason observed)
                              \<lparr>q_raw = raw, q_type = Profile_data t, q_seq = Some seq, q_reserved = False,
                               q_observed = Some observed, q_stream = Prof\<rparr> s1
                        in if ok then (Inr (Some ref), remember_record ref fs s2) else (Inr None, s2)))))"

definition drop_kv_recovery_profile ::
  "profile_type \<Rightarrow> pyval \<Rightarrow> string \<Rightarrow> clock \<Rightarrow> sink \<Rightarrow> int option res \<times> sink" where
  "drop_kv_recovery_profile t timestamp_ns reason ck s =
     (if \<not> usable s \<or> s_profile s = None \<or> s_closing s \<or> s_closed s then (Inr None, s)
      else case allocate_profile s of
        Inl e \<Rightarrow> (Inl e, s)
      | Inr (seq, s1) \<Rightarrow>
          (let observed = (if is_uint timestamp_ns UINT64_MAX then int_val timestamp_ns
                           else profile_fallback_timestamp_locked ck)
           in (Inr (Some seq), note_profile_drop_locked seq t reason observed s1)))"

definition defer_diagnostic :: "string \<Rightarrow> sink \<Rightarrow> sink" where
  "defer_diagnostic reason s =
     (if \<not> usable s \<or> s_closing s \<or> s_closed s then s else count_diagnostic_locked reason s)"

definition evidence_complete :: "sink \<Rightarrow> bool" where
  "evidence_complete s = (case chan_of Prof s of None \<Rightarrow> False
     | Some c \<Rightarrow> c_dropped c = 0 \<and> c_dropped_control c = 0 \<and> c_writer_failures c = 0)"

definition profile_attempted :: "sink \<Rightarrow> int" where
  "profile_attempted s = (case chan_of Prof s of None \<Rightarrow> 0 | Some c \<Rightarrow> c_attempted c)"

definition profile_snapshot :: "sink \<Rightarrow> profile_record list \<times> profile_loss_interval list" where
  "profile_snapshot s = (case s_profile s of None \<Rightarrow> ([], []) | Some p \<Rightarrow> (pf_records p, pf_losses p))"

end
