(* ===== verification/Exporter_Writer.thy ===== *)
theory Exporter_Writer
  imports Exporter_State
begin

text \<open>
  The writer thread of \<open>runtime_hooks.JsonlTraceSink\<close> and its \<open>close\<close>. The thread is a program
  counter (\<open>wphase\<close>) over the shared sink; \<open>writer_step\<close> runs it from one point where the lock is
  free, or where it has just touched the file system, to the next, so that producers and the closing
  thread can act in between. What the operating system and the clocks answer in a step is an
  argument (\<open>env\<close>): the monotonic time, the injected clock, the result of every \<open>write\<close> call, of the
  namespace operations of publication, and whether the descriptors closed.
\<close>

section \<open>The environment of a step\<close>

datatype os_write = Wrote int | Write_raised

text \<open>
  Hiding the formal shard before the summary: a hard link to the incomplete name, a private
  reservation file, the atomic replacement of the formal name, and the identity check; and whether
  the clean-up of a failure could unlink the incomplete name again.
\<close>

record hide_faults =
  hf_link_ok :: bool
  hf_reserve_ok :: bool
  hf_replace_ok :: bool
  hf_identity_ok :: bool
  hf_unlink_ok :: bool

datatype retraction = Moved_back | Unlinked | Neither

record env =
  e_now :: int
  e_clock :: "int option"
  e_staged :: bool
  e_writes :: "stream \<Rightarrow> nat \<Rightarrow> os_write"
  e_hide :: "stream \<Rightarrow> hide_faults"
  e_fds_closed :: bool
  e_sources_ok :: "stream \<Rightarrow> bool"
  e_replace :: "stream \<Rightarrow> bool"
  e_retract :: "stream \<Rightarrow> retraction"

section \<open>Writing bytes\<close>

text \<open>
  The loop of \<open>_write_persistent_all\<close>: \<open>w i\<close> is the answer to its \<open>i\<close>-th call. The result is the
  bytes that reached the file and whether the loop returned.
\<close>

function write_loop :: "(nat \<Rightarrow> os_write) \<Rightarrow> nat \<Rightarrow> string \<Rightarrow> string \<times> bool" where
  "write_loop w i view =
     (if view = [] then ([], True)
      else case w i of
        Write_raised \<Rightarrow> ([], False)
      | Wrote n \<Rightarrow>
          if n \<le> 0 \<or> n > int (length view) then ([], False)
          else (let (rest, ok) = write_loop w (Suc i) (drop (nat n) view)
                in (take (nat n) view @ rest, ok)))"
  by pat_completeness auto

termination write_loop
  by (relation "measure (\<lambda>(w, i, view). length view)") auto

declare write_loop.simps [simp del]

definition persist :: "env \<Rightarrow> stream \<Rightarrow> string \<Rightarrow> sink \<Rightarrow> bool \<times> sink" where
  "persist e k raw s =
     (case chan_of k s of
        None \<Rightarrow> (False, s)
      | Some _ \<Rightarrow> (let (bs, ok) = write_loop (e_writes e k) 0 raw
                   in (ok, upd_chan k (\<lambda>c. c\<lparr>c_disk := c_disk c @ bs\<rparr>) s)))"

text \<open>
  \<open>_write_all\<close> and \<open>_write_profile_all\<close>: refuse once abandoned, exercise an injected write function
  on the staging descriptor (\<open>e_staged\<close>: it did not raise), then append to the shard.
\<close>

definition write_all :: "env \<Rightarrow> stream \<Rightarrow> string \<Rightarrow> sink \<Rightarrow> bool \<times> sink" where
  "write_all e k raw s =
     (if s_abandoned s \<or> \<not> e_staged e then (False, s) else persist e k raw s)"

text \<open>
  A reserved control record takes a reserved slot and its bytes for the duration of the write
  (\<open>reserve_control\<close>, the first critical section, which fails when there is no room), and gives both
  back when the write has returned or raised (\<open>release_control\<close>, the last one). It is counted as a
  dropped control when there is no room or the write raises. (The start records are the exception
  that is not counted; they precede all producers, and \<open>start_line\<close> below models them.)
\<close>

definition reserve_control :: "stream \<Rightarrow> string \<Rightarrow> sink \<Rightarrow> sink option" where
  "reserve_control k raw s =
     (case chan_of k s of
        None \<Rightarrow> None
      | Some c \<Rightarrow>
          if c_reserved c \<ge> RESERVED_CAPACITY_RECORDS \<or>
             c_bytes c + int (length raw) > MAX_QUEUED_BYTES
          then None
          else Some (upd_chan k (\<lambda>c. c\<lparr>c_reserved := c_reserved c + 1,
                                        c_bytes := c_bytes c + int (length raw)\<rparr>) s))"

definition release_control :: "stream \<Rightarrow> string \<Rightarrow> sink \<Rightarrow> sink" where
  "release_control k raw =
     upd_chan k (\<lambda>c. c\<lparr>c_reserved := (if c_reserved c > 0 then c_reserved c - 1 else c_reserved c),
                       c_bytes := max 0 (c_bytes c - int (length raw))\<rparr>)"

definition write_reserved_control_via ::
  "stream \<Rightarrow> string \<Rightarrow> (sink \<Rightarrow> bool \<times> sink) \<Rightarrow> sink \<Rightarrow> bool res \<times> sink" where
  "write_reserved_control_via k raw write_raw s =
     (if chan_of k s = None then (Inr False, s)
      else case reserve_control k raw s of
        None \<Rightarrow> (Inr False, drop_control k s)
      | Some s1 \<Rightarrow>
          (let (ok, s2) = write_raw s1
           in if ok then (Inr True, release_control k raw s2)
              else (Inl (OSError ''reserved control write failed''),
                    release_control k raw (drop_control k s2))))"

section \<open>Accounting of records that are not written\<close>

definition drop_data :: "stream \<Rightarrow> sink \<Rightarrow> sink" where
  "drop_data k = upd_chan k (\<lambda>c. c\<lparr>c_dropped := c_dropped c + 1\<rparr>)"

text \<open>The stream a record is charged to: the base when there is no profile.\<close>

definition charged_stream :: "queued \<Rightarrow> sink \<Rightarrow> stream" where
  "charged_stream q s = (if q_stream q = Prof \<and> s_profile s \<noteq> None then Prof else Base)"

definition account_unwritten_queued_locked :: "queued \<Rightarrow> sink \<Rightarrow> sink" where
  "account_unwritten_queued_locked q s =
     (if charged_stream q s = Prof then
        (case q_type q of Profile_data _ \<Rightarrow> drop_data Prof s | _ \<Rightarrow> drop_control Prof s)
      else if q_type q = Event \<or> q_type q = Edge then drop_data Base s
      else drop_control Base s)"

definition zero_counts :: "chan \<Rightarrow> chan" where
  "zero_counts c = c\<lparr>c_bytes := 0, c_ordinary := 0, c_reserved := 0\<rparr>"

text \<open>Account for everything in flight or queued, and empty both.\<close>

definition abandon_pending :: "sink \<Rightarrow> sink" where
  "abandon_pending s =
     upd_both zero_counts
       ((fold account_unwritten_queued_locked (s_inflight s @ s_queue s) s)
          \<lparr>s_inflight := [], s_queue := []\<rparr>)"

definition mark_writer_failure_locked :: "sink \<Rightarrow> sink" where
  "mark_writer_failure_locked s =
     (let s1 = upd_both (\<lambda>c. c\<lparr>c_writer_failures := c_writer_failures c + 1\<rparr>) s
      in abandon_pending (count_diagnostic_locked ''writer_failure'' (s1\<lparr>s_writer_failed := True\<rparr>)))"

definition force_timeout_accounting_locked :: "sink \<Rightarrow> sink" where
  "force_timeout_accounting_locked s =
     (if s_outcome s = Some ''timeout'' then abandon_pending s
      else count_diagnostic_locked ''close_timeout''
             ((abandon_pending s)\<lparr>s_writer_failed := True, s_outcome := Some ''timeout''\<rparr>))"

section \<open>Batches\<close>

text \<open>\<open>_take_batch_locked\<close>: at most 128 records, and after the first at most 262144 bytes.\<close>

fun split_batch :: "nat \<Rightarrow> int \<Rightarrow> queued list \<Rightarrow> queued list \<times> queued list" where
  "split_batch n bytes [] = ([], [])"
| "split_batch n bytes (q # qs) =
     (if int n \<ge> MAX_BATCH_RECORDS \<or> n > 0 \<and> bytes + int (length (q_raw q)) > MAX_BATCH_BYTES
      then ([], q # qs)
      else (let (batch, rest) = split_batch (Suc n) (bytes + int (length (q_raw q))) qs
            in (q # batch, rest)))"

definition take_batch_locked :: "sink \<Rightarrow> queued list \<times> sink" where
  "take_batch_locked s =
     (let (batch, rest) = split_batch 0 0 (s_queue s)
      in (batch, s\<lparr>s_queue := rest, s_inflight := batch\<rparr>))"

definition discharge :: "queued \<Rightarrow> chan \<Rightarrow> chan" where
  "discharge q c = (let c1 = c\<lparr>c_bytes := c_bytes c - int (length (q_raw q))\<rparr> in
     if q_reserved q then c1\<lparr>c_reserved := c_reserved c - 1\<rparr>
     else c1\<lparr>c_ordinary := c_ordinary c - 1\<rparr>)"

definition record_written :: "queued \<Rightarrow> sink \<Rightarrow> sink" where
  "record_written q s =
     (if s_abandoned s then s
      else case s_inflight s of
        [] \<Rightarrow> mark_writer_failure_locked s
      | q' # rest \<Rightarrow>
          if q' \<noteq> q then mark_writer_failure_locked s
          else
            (let s1 = s\<lparr>s_inflight := rest\<rparr> in
             if chan_of (q_stream q) s1 = None then mark_writer_failure_locked s1
             else upd_chan (q_stream q) (\<lambda>c. (discharge q c)
                    \<lparr>c_lines := c_lines c @ [q_raw q], c_written := bump (c_written c) (q_type q)\<rparr>) s1))"

section \<open>Close deadlines and results\<close>

definition close_deadline_reached :: "env \<Rightarrow> sink \<Rightarrow> bool" where
  "close_deadline_reached e s =
     (case s_deadline s of None \<Rightarrow> False | Some d \<Rightarrow> e_now e \<ge> d)"

definition close_cutoff_reached_locked :: "env \<Rightarrow> sink \<Rightarrow> bool" where
  "close_cutoff_reached_locked e s \<longleftrightarrow> s_closing s \<and> close_deadline_reached e s \<and>
     (s_queue s \<noteq> [] \<or> s_inflight s \<noteq> [])"

definition data_written :: "stream \<Rightarrow> chan \<Rightarrow> int" where
  "data_written k c = (case k of Base \<Rightarrow> c_written c Event + c_written c Edge
     | Prof \<Rightarrow> total_count (\<lambda>t. c_written c (Profile_data t)))"

definition reconciles :: "stream \<Rightarrow> chan \<Rightarrow> bool" where
  "reconciles k c \<longleftrightarrow> c_attempted c = data_written k c + c_dropped c"

definition counts_reconcile :: "sink \<Rightarrow> bool" where
  "counts_reconcile s \<longleftrightarrow> reconciles Base (s_base s) \<and>
     (case s_profile s of None \<Rightarrow> True | Some p \<Rightarrow> reconciles Prof (pf_chan p))"

definition result_of :: "string \<Rightarrow> bool \<Rightarrow> sink \<Rightarrow> close_result" where
  "result_of close_outcome summary_written s =
     (let b = s_base s; p = chan_of Prof s in
      \<lparr>cr_close_outcome = close_outcome, cr_summary_written = summary_written,
       cr_attempted = c_attempted b, cr_written_event = c_written b Event,
       cr_written_edge = c_written b Edge, cr_dropped_data = c_dropped b,
       cr_dropped_control = c_dropped_control b,
       cr_profile_summary_written = (case p of None \<Rightarrow> False | Some c \<Rightarrow> c_summary_written c),
       cr_profile_attempted = (case p of None \<Rightarrow> 0 | Some c \<Rightarrow> c_attempted c),
       cr_profile_dropped_data = (case p of None \<Rightarrow> 0 | Some c \<Rightarrow> c_dropped c),
       cr_profile_dropped_control = (case p of None \<Rightarrow> 0 | Some c \<Rightarrow> c_dropped_control c)\<rparr>)"

text \<open>\<open>setdefault\<close> on the claim: the first caller wins, every caller sees the winner.\<close>

definition claim_close_result :: "string \<Rightarrow> bool \<Rightarrow> sink \<Rightarrow> sink" where
  "claim_close_result close_outcome summary_written s =
     (if s_claim s = None then s\<lparr>s_claim := Some (result_of close_outcome summary_written s)\<rparr> else s)"

text \<open>
  \<open>committed_shard_path\<close> and its profile counterpart are a path exactly when these hold; the path
  is then the formal shard name.
\<close>

definition committed :: "sink \<Rightarrow> bool" where
  "committed s = (case s_claim s of None \<Rightarrow> False
     | Some r \<Rightarrow> cr_close_outcome r = ''drained'' \<and> cr_summary_written r)"

definition profile_committed :: "sink \<Rightarrow> bool" where
  "profile_committed s = (s_profile s \<noteq> None \<and>
     (case s_claim s of None \<Rightarrow> False
      | Some r \<Rightarrow> cr_close_outcome r = ''drained'' \<and> cr_summary_written r \<and>
          cr_profile_summary_written r))"

section \<open>Timeout accounting\<close>

text \<open>Runs of consecutive record sequences.\<close>

definition gap :: "queued \<Rightarrow> queued \<Rightarrow> bool" where
  "gap q q' = (case (q_seq q, q_seq q') of (Some m, Some n) \<Rightarrow> n \<noteq> m + 1 | _ \<Rightarrow> False)"

fun runs :: "queued list \<Rightarrow> queued list list" where
  "runs [] = []"
| "runs [q] = [[q]]"
| "runs (q # q' # qs) =
     (if gap q q' then [q] # runs (q' # qs)
      else case runs (q' # qs) of [] \<Rightarrow> [[q]] | r # rs \<Rightarrow> (q # r) # rs)"

definition seq_of :: "queued \<Rightarrow> int" where
  "seq_of q = (case q_seq q of None \<Rightarrow> 0 | Some n \<Rightarrow> n)"

definition timeout_loss :: "queued list \<Rightarrow> int \<Rightarrow> open_loss" where
  "timeout_loss grp now =
     \<lparr>ol_reason = ''close_timeout'', ol_first = seq_of (hd grp), ol_last = seq_of (last grp),
      ol_counts = (\<lambda>rt. int (length (filter (\<lambda>q. q_type q = rt) grp))),
      ol_first_ts = now, ol_last_ts = now\<rparr>"

definition timeout_loss_control ::
  "stream \<Rightarrow> int \<Rightarrow> queued list \<Rightarrow> sink \<Rightarrow> queued option \<times> sink" where
  "timeout_loss_control k now grp s =
     (case chan_of k s of
        None \<Rightarrow> (None, s)
      | Some c \<Rightarrow>
          (let s1 = upd_chan k (\<lambda>c. c\<lparr>c_dropped := c_dropped c + int (length grp),
                                      c_next_loss := c_next_loss c + 1\<rparr>) s
           in case loss_line s k (timeout_loss grp now) (c_next_loss c) of
                Inl _ \<Rightarrow> (None, drop_control k s1)
              | Inr raw \<Rightarrow> (Some (loss_control k raw), s1)))"

definition of_stream :: "stream \<Rightarrow> queued list \<Rightarrow> queued list" where
  "of_stream k = filter (\<lambda>q. q_stream q = k)"

definition raw_bytes :: "queued list \<Rightarrow> int" where
  "raw_bytes qs = sum_list (map (\<lambda>q. int (length (q_raw q))) qs)"

text \<open>The control records admitted so far, under the reserved bounds of their stream.\<close>

definition admit_control :: "queued \<Rightarrow> queued list \<times> sink \<Rightarrow> queued list \<times> sink" where
  "admit_control q cs = (let (controls, s) = cs; mine = of_stream (q_stream q) controls in
     if int (length mine) \<ge> RESERVED_CAPACITY_RECORDS \<or>
        raw_bytes mine + int (length (q_raw q)) > MAX_QUEUED_BYTES
     then (controls, drop_control (charged_stream q s) s)
     else (controls @ [q], s))"

definition admit_run :: "stream \<Rightarrow> int \<Rightarrow> queued list \<Rightarrow> queued list \<times> sink \<Rightarrow> queued list \<times> sink" where
  "admit_run k now grp cs =
     (let (control, s1) = timeout_loss_control k now grp (snd cs)
      in case control of None \<Rightarrow> (fst cs, s1) | Some q \<Rightarrow> admit_control q (fst cs, s1))"

definition is_control :: "queued \<Rightarrow> bool" where
  "is_control q \<longleftrightarrow> q_type q = Loss_interval"

definition stream_data :: "stream \<Rightarrow> queued \<Rightarrow> bool" where
  "stream_data k q \<longleftrightarrow> q_stream q = k \<and>
     (case k of Base \<Rightarrow> q_type q = Event \<or> q_type q = Edge
      | Prof \<Rightarrow> (case q_type q of Profile_data _ \<Rightarrow> True | _ \<Rightarrow> False))"

definition set_control_counts :: "stream \<Rightarrow> queued list \<Rightarrow> sink \<Rightarrow> sink" where
  "set_control_counts k controls = upd_chan k (\<lambda>c. c\<lparr>c_reserved := int (length (of_stream k controls)),
     c_bytes := raw_bytes (of_stream k controls)\<rparr>)"

definition prepare_timeout_controls_locked :: "env \<Rightarrow> sink \<Rightarrow> queued list \<times> sink" where
  "prepare_timeout_controls_locked e s =
     (let pending = s_inflight s @ s_queue s;
          strange = filter (\<lambda>q. \<not> is_control q \<and> \<not> stream_data Base q \<and> \<not> stream_data Prof q) pending;
          s1 = fold (\<lambda>q s. drop_control (charged_stream q s) s) strange s;
          s2 = upd_both zero_counts (s1\<lparr>s_inflight := [], s_queue := []\<rparr>);
          cs1 = fold admit_control (filter is_control pending) ([], s2);
          cs2 = fold (admit_run Base (e_now e)) (runs (filter (stream_data Base) pending)) cs1;
          (controls, s3) = fold (admit_run Prof (e_now e)) (runs (filter (stream_data Prof) pending)) cs2;
          s4 = (count_diagnostic_locked ''close_timeout'' s3)
                 \<lparr>s_outcome := Some ''timeout'', s_inflight := controls\<rparr>
      in (controls, set_control_counts Prof controls (set_control_counts Base controls s4)))"

text \<open>What is left of the controls when the deadline passes while they are written.\<close>

definition drop_timeout_controls :: "sink \<Rightarrow> sink" where
  "drop_timeout_controls s =
     upd_both (\<lambda>c. c\<lparr>c_bytes := 0, c_reserved := 0\<rparr>)
       ((fold (\<lambda>q s. drop_control (charged_stream q s) s) (s_inflight s) s)\<lparr>s_inflight := []\<rparr>)"

section \<open>Summaries and invalidation\<close>

definition shard_digest :: "chan \<Rightarrow> string" where
  "shard_digest c = sha256_hex (concat (c_lines c))"

definition summary_line :: "stream \<Rightarrow> sink \<Rightarrow> int \<Rightarrow> string \<Rightarrow> string res" where
  "summary_line k s ended close_outcome =
     (case k of
        Base \<Rightarrow>
          (let c = s_base s in
           case build_process_summary_record (s_uuid s) ended
                  \<lparr>sc_attempted = c_attempted c, sc_written_event = c_written c Event,
                   sc_written_edge = c_written c Edge, sc_written_loss = c_written c Loss_interval,
                   sc_dropped_data = c_dropped c, sc_dropped_control = c_dropped_control c,
                   sc_writer_failure = c_writer_failures c\<rparr> close_outcome (shard_digest c) of
             Inl err \<Rightarrow> Inl err | Inr r \<Rightarrow> canonical_json_line r)
      | Prof \<Rightarrow>
          (case s_profile s of
             None \<Rightarrow> Inl (OSError ''profile state is unavailable'')
           | Some p \<Rightarrow>
               (let c = pf_chan p in
                case build_profile_summary_record (s_uuid s) (pf_config p) ended
                       \<lparr>qc_attempted = c_attempted c, qc_written = (\<lambda>t. c_written c (Profile_data t)),
                        qc_written_loss = c_written c Loss_interval, qc_dropped_data = c_dropped c,
                        qc_dropped_control = c_dropped_control c,
                        qc_writer_failure = c_writer_failures c\<rparr> close_outcome (shard_digest c) of
                  Inl err \<Rightarrow> Inl err | Inr r \<Rightarrow> profile_record_line r)))"

text \<open>Build and write one summary as a reserved control; \<^const>\<open>Inl\<close> when an exception leaves it.\<close>

definition write_summary_record :: "env \<Rightarrow> stream \<Rightarrow> string \<Rightarrow> sink \<Rightarrow> bool res \<times> sink" where
  "write_summary_record e k close_outcome s =
     (case e_clock e of
        None \<Rightarrow> (Inl (ValueError ''clock''), s)
      | Some ended \<Rightarrow>
          (case summary_line k s ended close_outcome of
             Inl err \<Rightarrow> (Inl err, s)
           | Inr raw \<Rightarrow> write_reserved_control_via k raw (write_all e k raw) s))"

text \<open>A second summary with outcome timeout, which makes the shard structurally invalid.\<close>

definition append_invalidation :: "env \<Rightarrow> stream \<Rightarrow> sink \<Rightarrow> sink" where
  "append_invalidation e k s =
     (case e_clock e of
        None \<Rightarrow> s
      | Some ended \<Rightarrow>
          (case summary_line k s ended ''timeout'' of
             Inl _ \<Rightarrow> s
           | Inr raw \<Rightarrow> snd (write_reserved_control_via k raw (persist e k raw) s)))"

definition append_timeout_invalidation :: "env \<Rightarrow> sink \<Rightarrow> sink" where
  "append_timeout_invalidation e s =
     (let s1 = append_invalidation e Base s in
      if s_profile s = None then s1 else append_invalidation e Prof s1)"

section \<open>The shard namespace\<close>

text \<open>
  \<open>_move_formal_shard_to_incomplete_in_writer\<close> (and its profile twin). The result tells whether it
  returned or raised.
\<close>

definition hide_shard :: "hide_faults \<Rightarrow> chan \<Rightarrow> bool \<times> chan" where
  "hide_shard h c =
     (if c_incomplete c then (True, c)
      else if c_formal c = No_entry then (False, c)
      else if \<not> hf_link_ok h then (False, c)
      else if \<not> hf_reserve_ok h \<or> \<not> hf_replace_ok h
        then (False, c\<lparr>c_linked := \<not> hf_unlink_ok h\<rparr>)
      else if \<not> hf_identity_ok h
        then (False, c\<lparr>c_formal := Sentinel, c_linked := \<not> hf_unlink_ok h\<rparr>)
      else (True, c\<lparr>c_formal := Sentinel, c_linked := True, c_reservation := True,
                    c_incomplete := True\<rparr>))"

definition hide :: "env \<Rightarrow> stream \<Rightarrow> sink \<Rightarrow> bool \<times> sink" where
  "hide e k s =
     (case chan_of k s of
        None \<Rightarrow> (True, s)
      | Some c \<Rightarrow> (let (ok, c') = hide_shard (e_hide e k) c in (ok, upd_chan k (\<lambda>_. c') s)))"

definition publishable :: "env \<Rightarrow> stream \<Rightarrow> chan \<Rightarrow> bool" where
  "publishable e k c \<longleftrightarrow> c_linked c \<and> c_formal c = Sentinel \<and> e_sources_ok e k"

text \<open>\<open>os.replace(source, formal)\<close>\<close>

definition replace_formal :: "stream \<Rightarrow> sink \<Rightarrow> sink" where
  "replace_formal k = upd_chan k (\<lambda>c. c\<lparr>c_formal := Shard, c_linked := False\<rparr>)"

definition retract_published :: "env \<Rightarrow> stream \<Rightarrow> sink \<Rightarrow> sink" where
  "retract_published e k s =
     (case e_retract e k of
        Moved_back \<Rightarrow> upd_chan k (\<lambda>c. c\<lparr>c_reservation := False, c_formal := No_entry,
                                          c_linked := True, c_incomplete := True\<rparr>) s
      | Unlinked \<Rightarrow> upd_chan k (\<lambda>c. c\<lparr>c_reservation := False, c_formal := No_entry,
                                        c_incomplete := False\<rparr>) s
      | Neither \<Rightarrow> append_invalidation e k (upd_chan k (\<lambda>c. c\<lparr>c_reservation := False\<rparr>) s))"

definition retract_all :: "env \<Rightarrow> sink \<Rightarrow> sink" where
  "retract_all e s =
     retract_published e Base (if s_profile s = None then s else retract_published e Prof s)"

definition set_summary_written :: "stream \<Rightarrow> bool \<Rightarrow> sink \<Rightarrow> sink" where
  "set_summary_written k b = upd_chan k (\<lambda>c. c\<lparr>c_summary_written := b\<rparr>)"

definition mark_publication_failure :: "sink \<Rightarrow> sink" where
  "mark_publication_failure s =
     (set_summary_written Base False (mark_writer_failure_locked s))
       \<lparr>s_outcome := Some ''writer_failure''\<rparr>"

definition publish_eligible :: "env \<Rightarrow> sink \<Rightarrow> bool" where
  "publish_eligible e s \<longleftrightarrow> c_summary_written (s_base s) \<and> s_outcome s = Some ''drained'' \<and>
     \<not> s_writer_failed s \<and> \<not> s_abandoned s \<and> \<not> close_deadline_reached e s \<and>
     (case s_profile s of None \<Rightarrow> True | Some p \<Rightarrow> c_summary_written (pf_chan p))"

definition flush_diagnostics :: "sink \<Rightarrow> sink" where
  "flush_diagnostics s = snd (take_pending_diagnostics_locked s)"

section \<open>The writer thread\<close>

datatype wmode = Draining | Timing_out

datatype wphase =
    W_loop
  | W_batch "queued list"
  | W_write wmode queued "queued list"
  | W_record wmode queued "queued list"
  | W_timeout
  | W_controls "queued list"
  | W_drained
  | W_summary string
  | W_hidden string
  | W_base_written string
  | W_profile_written string
  | W_flags string
  | W_finalize
  | W_publish
  | W_claim
  | W_end
  | W_done

definition after_write :: "wmode \<Rightarrow> queued list \<Rightarrow> wphase" where
  "after_write m qs = (case m of Draining \<Rightarrow> W_batch qs | Timing_out \<Rightarrow> W_controls qs)"

definition loop_step :: "env \<Rightarrow> sink \<Rightarrow> sink \<times> wphase" where
  "loop_step e s =
     (if s_abandoned s then (s, W_finalize)
      else if s_queue s = [] \<and> \<not> s_closing s \<and> s_pending s = [] then (s, W_loop)
      else (let (diagnostics, s1) = take_pending_diagnostics_locked s in
        if diagnostics \<noteq> [] then (s1, W_loop)
        else if close_cutoff_reached_locked e s1 then (s1, W_timeout)
        else if s_queue s1 = [] \<and> s_closing s1 then (s1, W_drained)
        else (let (batch, s2) = take_batch_locked s1 in (s2, W_batch batch))))"

definition batch_step :: "env \<Rightarrow> queued list \<Rightarrow> sink \<Rightarrow> sink \<times> wphase" where
  "batch_step e qs s =
     (case qs of
        [] \<Rightarrow> (s, W_loop)
      | q # rest \<Rightarrow>
          if s_abandoned s then (s, W_finalize)
          else if close_cutoff_reached_locked e s then (s, W_timeout)
          else (s, W_write Draining q rest))"

definition write_step :: "env \<Rightarrow> wmode \<Rightarrow> queued \<Rightarrow> queued list \<Rightarrow> sink \<Rightarrow> sink \<times> wphase" where
  "write_step e m q rest s =
     (let (ok, s1) = write_all e (q_stream q) (q_raw q) s
      in if ok then (s1, W_record m q rest) else (mark_writer_failure_locked s1, W_finalize))"

definition controls_step :: "env \<Rightarrow> queued list \<Rightarrow> sink \<Rightarrow> sink \<times> wphase" where
  "controls_step e qs s =
     (case qs of
        [] \<Rightarrow> if close_deadline_reached e s \<or> \<not> counts_reconcile s
              then (s\<lparr>s_outcome := Some ''timeout''\<rparr>, W_finalize) else (s, W_summary ''timeout'')
      | q # rest \<Rightarrow>
          if close_deadline_reached e s
          then ((drop_timeout_controls s)\<lparr>s_outcome := Some ''timeout''\<rparr>, W_finalize)
          else (s, W_write Timing_out q rest))"

definition summary_step :: "env \<Rightarrow> string \<Rightarrow> sink \<Rightarrow> sink \<times> wphase" where
  "summary_step e outcome s =
     (if close_deadline_reached e s then (s\<lparr>s_outcome := Some ''timeout''\<rparr>, W_finalize)
      else (let (ok, s1) = hide e Base s in
        if \<not> ok then (mark_writer_failure_locked s1, W_finalize)
        else (let (ok', s2) = hide e Prof s1 in
          if \<not> ok' then (mark_writer_failure_locked s2, W_finalize) else (s2, W_hidden outcome))))"

definition hidden_step :: "env \<Rightarrow> string \<Rightarrow> sink \<Rightarrow> sink \<times> wphase" where
  "hidden_step e outcome s =
     (if close_deadline_reached e s then (s\<lparr>s_outcome := Some ''timeout''\<rparr>, W_finalize)
      else (case write_summary_record e Base outcome s of
        (Inl _, s1) \<Rightarrow> (mark_writer_failure_locked s1, W_finalize)
      | (Inr False, s1) \<Rightarrow> (s1\<lparr>s_outcome := Some outcome\<rparr>, W_finalize)
      | (Inr True, s1) \<Rightarrow> (s1, W_base_written outcome)))"

definition base_written_step :: "env \<Rightarrow> string \<Rightarrow> sink \<Rightarrow> sink \<times> wphase" where
  "base_written_step e outcome s =
     (if close_deadline_reached e s
      then (append_timeout_invalidation e (s\<lparr>s_outcome := Some ''timeout''\<rparr>), W_finalize)
      else if s_profile s = None then (s, W_flags outcome)
      else (case write_summary_record e Prof outcome s of
        (Inl _, s1) \<Rightarrow> (mark_writer_failure_locked s1, W_finalize)
      | (Inr False, s1) \<Rightarrow> (s1\<lparr>s_outcome := Some outcome\<rparr>, W_finalize)
      | (Inr True, s1) \<Rightarrow> (s1, W_profile_written outcome)))"

definition profile_written_step :: "env \<Rightarrow> string \<Rightarrow> sink \<Rightarrow> sink \<times> wphase" where
  "profile_written_step e outcome s =
     (if close_deadline_reached e s
      then (append_timeout_invalidation e (s\<lparr>s_outcome := Some ''timeout''\<rparr>), W_finalize)
      else (set_summary_written Prof True s, W_flags outcome))"

definition flags_step :: "string \<Rightarrow> sink \<Rightarrow> sink \<times> wphase" where
  "flags_step outcome s =
     ((set_summary_written Base True s)\<lparr>s_outcome := Some outcome\<rparr>, W_finalize)"

definition finalize_step :: "env \<Rightarrow> sink \<Rightarrow> sink \<times> wphase" where
  "finalize_step e s =
     (let s1 = (if s_abandoned s \<and> c_summary_written (s_base s)
                then (set_summary_written Base False (append_timeout_invalidation e s))
                       \<lparr>s_outcome := Some ''timeout''\<rparr>
                else s);
          s2 = (if e_fds_closed e then s1 else mark_publication_failure s1)
      in (flush_diagnostics s2, W_publish))"

definition publish_step :: "env \<Rightarrow> sink \<Rightarrow> sink \<times> wphase" where
  "publish_step e s =
     (if \<not> publish_eligible e s then (flush_diagnostics s, W_end)
      else let
        base = s_base s;
        ready = (c_incomplete base \<and> c_reservation base \<and>
          (case chan_of Prof s of None \<Rightarrow> True | Some c \<Rightarrow> c_incomplete c \<and> c_reservation c));
        present = (publishable e Base base \<and>
          (case chan_of Prof s of None \<Rightarrow> True | Some c \<Rightarrow> publishable e Prof c))
      in if \<not> ready \<or> \<not> present then (flush_diagnostics (mark_publication_failure s), W_end)
         else if \<not> e_replace e Base then (flush_diagnostics (mark_publication_failure s), W_end)
         else if s_profile s \<noteq> None \<and> \<not> e_replace e Prof
           then (flush_diagnostics (mark_publication_failure
                   (retract_published e Base (replace_formal Base s))), W_end)
         else (replace_formal Prof (replace_formal Base s), W_claim))"

definition claim_step :: "env \<Rightarrow> sink \<Rightarrow> sink \<times> wphase" where
  "claim_step e s =
     (if s_abandoned s \<or> close_deadline_reached e s \<or> s_claim s \<noteq> None
      then (flush_diagnostics (count_diagnostic_locked ''close_timeout''
              ((upd_both (\<lambda>c. c\<lparr>c_summary_written := False\<rparr>) (retract_all e s))
                 \<lparr>s_outcome := Some ''timeout''\<rparr>)), W_end)
      else ((upd_both (\<lambda>c. c\<lparr>c_incomplete := False, c_reservation := False\<rparr>)
              (claim_close_result ''drained'' True s))\<lparr>s_closed := True\<rparr>, W_end))"

definition end_step :: "sink \<Rightarrow> sink \<times> wphase" where
  "end_step s =
     (let s1 = s\<lparr>s_closed := True\<rparr> in
      (if s_claim s1 = None \<and> s_closing s1
       then claim_close_result
              (case s_outcome s1 of Some o' \<Rightarrow> o'
               | None \<Rightarrow> if s_writer_failed s1 then ''writer_failure'' else ''drained'')
              (c_summary_written (s_base s1)) s1
       else s1, W_done))"

definition writer_step :: "env \<Rightarrow> sink \<times> wphase \<Rightarrow> sink \<times> wphase" where
  "writer_step e sp = (let (s, ph) = sp in
     case ph of
       W_loop \<Rightarrow> loop_step e s
     | W_batch qs \<Rightarrow> batch_step e qs s
     | W_write m q rest \<Rightarrow> write_step e m q rest s
     | W_record m q rest \<Rightarrow> (record_written q s, after_write m rest)
     | W_timeout \<Rightarrow> (let (controls, s1) = prepare_timeout_controls_locked e s in (s1, W_controls controls))
     | W_controls qs \<Rightarrow> controls_step e qs s
     | W_drained \<Rightarrow> if counts_reconcile s then (s, W_summary ''drained'')
                    else (mark_writer_failure_locked s, W_finalize)
     | W_summary outcome \<Rightarrow> summary_step e outcome s
     | W_hidden outcome \<Rightarrow> hidden_step e outcome s
     | W_base_written outcome \<Rightarrow> base_written_step e outcome s
     | W_profile_written outcome \<Rightarrow> profile_written_step e outcome s
     | W_flags outcome \<Rightarrow> flags_step outcome s
     | W_finalize \<Rightarrow> finalize_step e s
     | W_publish \<Rightarrow> publish_step e s
     | W_claim \<Rightarrow> claim_step e s
     | W_end \<Rightarrow> end_step s
     | W_done \<Rightarrow> (s, W_done))"

section \<open>Close\<close>

text \<open>The critical section at the start of \<open>close\<close>.\<close>

definition begin_close :: "int \<Rightarrow> sink \<Rightarrow> sink" where
  "begin_close deadline s =
     (if s_claim s \<noteq> None then s
      else if s_closed s then claim_close_result ''writer_failure'' False s
      else (seal_profile_loss_locked (seal_loss_locked (s\<lparr>s_deadline := Some deadline\<rparr>)))
             \<lparr>s_closing := True\<rparr>)"

text \<open>The critical section after the bounded join, by whether the writer is still alive.\<close>

definition finish_close :: "bool \<Rightarrow> sink \<Rightarrow> sink" where
  "finish_close writer_alive s =
     (if s_claim s \<noteq> None then s
      else if writer_alive then
        claim_close_result ''timeout'' False
          ((force_timeout_accounting_locked s)\<lparr>s_abandoned := True, s_closed := True\<rparr>)
      else claim_close_result
             (case s_outcome s of Some o' \<Rightarrow> o' | None \<Rightarrow> ''writer_failure'')
             (c_summary_written (s_base s)) s)"

definition bounded_timeout_without_lock :: "sink \<Rightarrow> sink" where
  "bounded_timeout_without_lock s =
     (if s_claim s = None
      then (claim_close_result ''timeout'' False s)
             \<lparr>s_abandoned := True, s_closed := True, s_outcome := Some ''timeout''\<rparr>
      else s)"

definition detach_after_fork_child :: "sink \<Rightarrow> sink" where
  "detach_after_fork_child s =
     (if s_forked s then s
      else (let s1 = upd_both zero_counts (s\<lparr>s_forked := True, s_abandoned := True, s_closed := True,
                      s_queue := [], s_inflight := [], s_pending := [], s_logged := []\<rparr>)
            in s1\<lparr>s_claim := Some (result_of ''writer_failure'' False s1)\<rparr>))"

section \<open>Initialization\<close>

definition fresh_chan :: "string \<Rightarrow> chan" where
  "fresh_chan start_raw =
     \<lparr>c_bytes = 0, c_ordinary = 0, c_reserved = 0, c_next_seq = 0, c_next_loss = 0, c_open = None,
      c_attempted = 0, c_written = (\<lambda>_. 0), c_dropped = 0, c_dropped_control = 0,
      c_writer_failures = 0, c_summary_written = False, c_lines = [start_raw], c_disk = start_raw,
      c_formal = Shard, c_linked = False, c_incomplete = False, c_reservation = False\<rparr>"

definition fresh_sink :: "string \<Rightarrow> string \<Rightarrow> string \<Rightarrow> chan \<Rightarrow> profile_state option \<Rightarrow> sink" where
  "fresh_sink process_uuid clock_domain mode base profile =
     \<lparr>s_uuid = process_uuid, s_clock_domain = clock_domain, s_mode = mode, s_base = base,
      s_profile = profile, s_queue = [], s_inflight = [], s_next_span = 0, s_diag = (\<lambda>_. 0),
      s_pending = [], s_logged = [], s_closing = False, s_closed = False, s_writer_failed = False,
      s_abandoned = False, s_forked = False, s_claim = None, s_deadline = None, s_outcome = None\<rparr>"

definition start_line :: "env \<Rightarrow> stream \<Rightarrow> pydict res \<Rightarrow> (pydict \<Rightarrow> string res) \<Rightarrow> string res" where
  "start_line e k record encode =
     (case record of
        Inl err \<Rightarrow> Inl err
      | Inr r \<Rightarrow>
          (case encode r of
             Inl err \<Rightarrow> Inl err
           | Inr raw \<Rightarrow> if e_staged e \<and> snd (write_loop (e_writes e k) 0 raw) then Inr raw
                        else Inl (OSError ''start record write failed'')))"

text \<open>
  \<open>_initialize_writer\<close> on a freshly opened shard: the start records are written and hashed before
  the sink exists for its producers. An error leaves no shard behind.
\<close>

definition initialize_writer ::
  "env \<Rightarrow> string \<Rightarrow> int \<Rightarrow> string \<Rightarrow> string \<Rightarrow> runtime_provenance \<Rightarrow> profile_config option \<Rightarrow> sink res" where
  "initialize_writer e process_uuid pid clock_domain mode provenance config =
     (case e_clock e of
        None \<Rightarrow> Inl (ValueError ''clock'')
      | Some started \<Rightarrow>
          (case start_line e Base
                  (build_process_start_record process_uuid pid started clock_domain provenance)
                  canonical_json_line of
             Inl err \<Rightarrow> Inl err
           | Inr raw \<Rightarrow>
               (case config of
                  None \<Rightarrow> Inr (fresh_sink process_uuid clock_domain mode (fresh_chan raw) None)
                | Some cfg \<Rightarrow>
                    (case start_line e Prof
                            (build_profile_start_record process_uuid pid started clock_domain provenance cfg)
                            profile_record_line of
                       Inl err \<Rightarrow> Inl err
                     | Inr praw \<Rightarrow> Inr (fresh_sink process_uuid clock_domain mode (fresh_chan raw)
                         (Some \<lparr>pf_config = cfg, pf_chan = fresh_chan praw, pf_records = [],
                                pf_losses = []\<rparr>))))))"

end
