(* ===== verification/Exporter_Accounting.thy ===== *)
theory Exporter_Accounting
  imports Exporter_Writer
begin

text \<open>
  The accounting of the exporter. The \<open>books\<close> of a sink are its counters and the records in
  flight or queued. Two facts are tracked through every operation of producers and writer: the
  queue counters are those of the pending records and stay within the capacities (\<open>queue_ok\<close>), and
  how many attempted records of a stream are not yet written, dropped or pending (\<open>due\<close>).
\<close>

section \<open>Frames\<close>

lemma chan_of_simps [simp]:
  "chan_of Base s = Some (s_base s)"
  "chan_of Prof s = map_option pf_chan (s_profile s)"
  by (simp_all add: chan_of_def)

lemma chan_of_upd [simp]:
  "chan_of k (upd_chan j f s) = (if j = k then map_option f (chan_of k s) else chan_of k s)"
  by (cases k; cases j) (auto simp: upd_chan_def chan_of_def option.map_comp comp_def
      intro: option.map_cong)

lemma upd_chan_fields [simp]:
  "s_uuid (upd_chan k f s) = s_uuid s" "s_clock_domain (upd_chan k f s) = s_clock_domain s"
  "s_mode (upd_chan k f s) = s_mode s" "s_queue (upd_chan k f s) = s_queue s"
  "s_inflight (upd_chan k f s) = s_inflight s" "s_next_span (upd_chan k f s) = s_next_span s"
  "s_diag (upd_chan k f s) = s_diag s" "s_pending (upd_chan k f s) = s_pending s"
  "s_logged (upd_chan k f s) = s_logged s" "s_closing (upd_chan k f s) = s_closing s"
  "s_closed (upd_chan k f s) = s_closed s" "s_writer_failed (upd_chan k f s) = s_writer_failed s"
  "s_abandoned (upd_chan k f s) = s_abandoned s" "s_forked (upd_chan k f s) = s_forked s"
  "s_claim (upd_chan k f s) = s_claim s" "s_deadline (upd_chan k f s) = s_deadline s"
  "s_outcome (upd_chan k f s) = s_outcome s"
  "s_profile (upd_chan k f s) = None \<longleftrightarrow> s_profile s = None"
  by (cases k; simp add: upd_chan_def)+

lemma chan_of_frames:
  "chan_of k (s\<lparr>s_queue := x1\<rparr>) = chan_of k s" "chan_of k (s\<lparr>s_inflight := x1\<rparr>) = chan_of k s"
  "chan_of k (s\<lparr>s_next_span := x2\<rparr>) = chan_of k s" "chan_of k (s\<lparr>s_diag := x3\<rparr>) = chan_of k s"
  "chan_of k (s\<lparr>s_pending := x4\<rparr>) = chan_of k s" "chan_of k (s\<lparr>s_logged := x4\<rparr>) = chan_of k s"
  "chan_of k (s\<lparr>s_closing := b\<rparr>) = chan_of k s" "chan_of k (s\<lparr>s_closed := b\<rparr>) = chan_of k s"
  "chan_of k (s\<lparr>s_writer_failed := b\<rparr>) = chan_of k s" "chan_of k (s\<lparr>s_abandoned := b\<rparr>) = chan_of k s"
  "chan_of k (s\<lparr>s_claim := x5\<rparr>) = chan_of k s" "chan_of k (s\<lparr>s_deadline := x6\<rparr>) = chan_of k s"
  "chan_of k (s\<lparr>s_outcome := x7\<rparr>) = chan_of k s"
  by (cases k; simp)+

declare chan_of_frames [simp] chan_of_simps [simp del]

lemma upd_both_fields [simp]:
  "chan_of k (upd_both f s) = map_option f (chan_of k s)"
  "s_queue (upd_both f s) = s_queue s" "s_inflight (upd_both f s) = s_inflight s"
  "s_closing (upd_both f s) = s_closing s" "s_closed (upd_both f s) = s_closed s"
  "s_writer_failed (upd_both f s) = s_writer_failed s" "s_abandoned (upd_both f s) = s_abandoned s"
  "s_claim (upd_both f s) = s_claim s" "s_deadline (upd_both f s) = s_deadline s"
  "s_outcome (upd_both f s) = s_outcome s" "s_uuid (upd_both f s) = s_uuid s"
  "s_pending (upd_both f s) = s_pending s" "s_logged (upd_both f s) = s_logged s"
  "s_diag (upd_both f s) = s_diag s" "s_next_span (upd_both f s) = s_next_span s"
  "s_profile (upd_both f s) = None \<longleftrightarrow> s_profile s = None"
  by (cases k; simp add: upd_both_def; simp add: chan_of_def)+

lemma s_base_chan: "s_base s = the (chan_of Base s)"
  by (simp add: chan_of_simps)

lemma profile_chan: "s_profile s = None \<longleftrightarrow> chan_of Prof s = None"
  by (simp add: chan_of_simps)

section \<open>The books of a sink\<close>

text \<open>
  The part of the state the accounting is about: the counters of both streams and the records in
  flight or queued.
\<close>

definition book :: "chan \<Rightarrow> int \<times> int \<times> int \<times> int \<times> (rtype \<Rightarrow> int) \<times> int" where
  "book c = (c_bytes c, c_ordinary c, c_reserved c, c_attempted c, c_written c, c_dropped c)"

definition books :: "sink \<Rightarrow>
    (stream \<Rightarrow> (int \<times> int \<times> int \<times> int \<times> (rtype \<Rightarrow> int) \<times> int) option) \<times> queued list \<times> queued list" where
  "books s = (\<lambda>k. map_option book (chan_of k s), s_inflight s, s_queue s)"

definition pending :: "sink \<Rightarrow> queued list" where
  "pending s = s_inflight s @ s_queue s"

definition unreserved :: "queued list \<Rightarrow> int" where
  "unreserved qs = int (length (filter (\<lambda>q. \<not> q_reserved q) qs))"

definition reserved :: "queued list \<Rightarrow> int" where
  "reserved qs = int (length (filter q_reserved qs))"

text \<open>The counters of a stream are those of its pending records, and within the capacities.\<close>

definition tally :: "stream \<Rightarrow> queued list \<Rightarrow> chan \<Rightarrow> bool" where
  "tally k p c \<longleftrightarrow> c_bytes c = raw_bytes (of_stream k p) \<and> c_ordinary c = unreserved (of_stream k p) \<and>
     c_reserved c = reserved (of_stream k p)"

definition within_capacity :: "chan \<Rightarrow> bool" where
  "within_capacity c \<longleftrightarrow> c_bytes c \<le> MAX_QUEUED_BYTES \<and> c_ordinary c \<le> DATA_CAPACITY_RECORDS \<and>
     c_reserved c \<le> RESERVED_CAPACITY_RECORDS"

text \<open>Pending records are loss intervals on a reserved slot, or data of their own stream.\<close>

definition typed :: "queued \<Rightarrow> bool" where
  "typed q \<longleftrightarrow> is_control q \<and> q_reserved q \<or> stream_data (q_stream q) q"

definition queue_ok :: "sink \<Rightarrow> bool" where
  "queue_ok s \<longleftrightarrow> list_all typed (pending s) \<and>
     list_all (\<lambda>q. chan_of (q_stream q) s \<noteq> None) (pending s) \<and>
     (\<forall>k c. chan_of k s = Some c \<longrightarrow> tally k (pending s) c \<and> within_capacity c)"

text \<open>Attempted records of a stream not yet written, dropped or pending.\<close>

definition due :: "stream \<Rightarrow> sink \<Rightarrow> int" where
  "due k s = (case chan_of k s of None \<Rightarrow> 0
     | Some c \<Rightarrow> c_attempted c - data_written k c - c_dropped c -
         int (length (filter (stream_data k) (pending s))))"

lemma books_eqD:
  assumes "books s' = books s"
  shows "pending s' = pending s" "chan_of k s' = None \<longleftrightarrow> chan_of k s = None"
    "\<And>c. chan_of k s = Some c \<Longrightarrow> \<exists>c'. chan_of k s' = Some c' \<and> book c' = book c"
proof -
  have m: "map_option book (chan_of k s') = map_option book (chan_of k s)" for k
    using assms by (simp add: books_def fun_eq_iff)
  show "pending s' = pending s" using assms by (simp add: books_def pending_def)
  show "chan_of k s' = None \<longleftrightarrow> chan_of k s = None" using m [of k] by (cases "chan_of k s") auto
  show "\<exists>c'. chan_of k s' = Some c' \<and> book c' = book c" if "chan_of k s = Some c" for c
    using m [of k] that by auto
qed

lemma book_fields:
  "book c' = book c \<Longrightarrow> tally k p c' = tally k p c \<and> within_capacity c' = within_capacity c \<and>
     data_written k c' = data_written k c \<and> c_attempted c' = c_attempted c \<and> c_dropped c' = c_dropped c"
  by (cases k) (simp_all add: book_def tally_def within_capacity_def data_written_def)

lemma due_books:
  assumes "books s' = books s"
  shows "due k s' = due k s"
proof (cases "chan_of k s")
  case None
  then show ?thesis using books_eqD(2) [OF assms, of k] by (simp add: due_def)
next
  case (Some c)
  then obtain c' where "chan_of k s' = Some c'" "book c' = book c"
    using books_eqD(3) [OF assms] by blast
  with Some show ?thesis
    using books_eqD(1) [OF assms] book_fields [of c' c k] by (simp add: due_def)
qed

lemma queue_ok_books:
  assumes "books s' = books s" "queue_ok s"
  shows "queue_ok s'"
proof -
  have "tally k (pending s') c' \<and> within_capacity c'" if c': "chan_of k s' = Some c'" for k c'
  proof -
    obtain c where "chan_of k s = Some c" "book c = book c'"
      using books_eqD(3) [OF assms(1) [symmetric] c'] by blast
    then show ?thesis
      using assms(2) books_eqD(1) [OF assms(1)] book_fields [of c c' k] unfolding queue_ok_def by metis
  qed
  moreover have "list_all (\<lambda>q. chan_of (q_stream q) s' \<noteq> None) (pending s')"
    using assms(2) books_eqD(1,2) [OF assms(1)] by (simp add: queue_ok_def)
  ultimately show ?thesis
    using assms(2) books_eqD(1) [OF assms(1)] by (simp add: queue_ok_def)
qed

text \<open>Operations that leave the books alone.\<close>

lemma books_upd: "(\<And>c. book (f c) = book c) \<Longrightarrow> books (upd_chan k f s) = books s"
  by (auto simp: books_def fun_eq_iff option.map_comp comp_def)

lemma books_upd_both: "(\<And>c. book (f c) = book c) \<Longrightarrow> books (upd_both f s) = books s"
  by (auto simp: books_def fun_eq_iff option.map_comp comp_def)

lemma books_fields [simp]:
  "books (s\<lparr>s_next_span := x2\<rparr>) = books s" "books (s\<lparr>s_diag := x3\<rparr>) = books s"
  "books (s\<lparr>s_pending := x4\<rparr>) = books s" "books (s\<lparr>s_logged := x4\<rparr>) = books s"
  "books (s\<lparr>s_closing := b\<rparr>) = books s" "books (s\<lparr>s_closed := b\<rparr>) = books s"
  "books (s\<lparr>s_writer_failed := b\<rparr>) = books s" "books (s\<lparr>s_abandoned := b\<rparr>) = books s"
  "books (s\<lparr>s_claim := x5\<rparr>) = books s" "books (s\<lparr>s_deadline := x6\<rparr>) = books s"
  "books (s\<lparr>s_outcome := x7\<rparr>) = books s"
  by (simp_all add: books_def)

lemma books_drop_control [simp]: "books (drop_control k s) = books s"
  by (simp add: drop_control_def books_upd book_def)

lemma books_diagnostic [simp]: "books (count_diagnostic_locked r s) = books s"
  by (simp add: count_diagnostic_locked_def Let_def)

lemma books_take_diagnostics [simp]:
  "books (snd (take_pending_diagnostics_locked s)) = books s" "books (flush_diagnostics s) = books s"
  by (simp_all add: take_pending_diagnostics_locked_def flush_diagnostics_def Let_def)

lemma books_persist [simp]: "books (snd (persist e k raw s)) = books s"
  by (auto simp: persist_def Let_def book_def intro!: books_upd split: option.splits prod.splits)

lemma books_write_all [simp]: "books (snd (write_all e k raw s)) = books s"
  by (simp add: write_all_def)

text \<open>
  A control record that is charged, written and given back leaves the books as they were, provided no
  counter was negative: giving back stops at zero.
\<close>

definition settled :: "sink \<Rightarrow> bool" where
  "settled s \<longleftrightarrow> (\<forall>k c. chan_of k s = Some c \<longrightarrow> 0 \<le> c_bytes c \<and> 0 \<le> c_reserved c)"

lemma settled_books:
  assumes "books s' = books s"
  shows "settled s' \<longleftrightarrow> settled s"
proof -
  have "settled t" if "books t = books u" "settled u" for t u
    using that books_eqD(3) [OF that(1) [symmetric]] by (fastforce simp: settled_def book_def)
  then show ?thesis using assms by metis
qed

lemma queue_ok_settled: "queue_ok s \<Longrightarrow> settled s"
  by (auto simp: queue_ok_def settled_def tally_def raw_bytes_def reserved_def intro!: sum_list_nonneg)

lemma books_release:
  assumes "reserve_control k raw s = Some s1" "books s2 = books s1" "settled s"
  shows "books (release_control k raw s2) = books s"
proof -
  have c: "map_option book (chan_of j s2) = map_option book (chan_of j s1)" for j
    using assms(2) by (simp add: books_def fun_eq_iff)
  have "map_option book (chan_of j (release_control k raw s2)) = map_option book (chan_of j s)" for j
  proof (cases "chan_of j s")
    case None
    then show ?thesis using assms(1) c [of j]
      by (auto simp: reserve_control_def release_control_def split: option.splits if_splits)
  next
    case (Some d)
    then have "0 \<le> c_bytes d" "0 \<le> c_reserved d" using assms(3) by (auto simp: settled_def)
    then show ?thesis using Some assms(1) c [of j]
      by (cases "chan_of j s2")
        (auto simp: reserve_control_def release_control_def book_def split: option.splits if_splits)
  qed
  moreover have "s_inflight s1 = s_inflight s \<and> s_queue s1 = s_queue s"
    using assms(1) by (auto simp: reserve_control_def split: option.splits if_splits)
  ultimately show ?thesis using assms(2) by (simp add: books_def release_control_def)
qed

lemma books_reserved_control:
  assumes "\<And>s. books (snd (w s)) = books s" "settled s"
  shows "books (snd (write_reserved_control_via k raw w s)) = books s"
proof (cases "reserve_control k raw s")
  case None
  then show ?thesis by (simp add: write_reserved_control_via_def)
next
  case (Some s1)
  obtain ok s2 where w: "w s1 = (ok, s2)" by fastforce
  have "books s2 = books s1" using assms(1) [of s1] w by simp
  then show ?thesis using w Some books_release [OF Some _ assms(2)]
    by (simp add: write_reserved_control_via_def)
qed

lemma books_summary_record [simp]: "settled s \<Longrightarrow> books (snd (write_summary_record e k o' s)) = books s"
  by (auto simp: write_summary_record_def books_reserved_control split: option.splits sum.splits)

lemma books_invalidation [simp]:
  assumes "settled s"
  shows "books (append_invalidation e k s) = books s" "books (append_timeout_invalidation e s) = books s"
proof -
  have *: "books (append_invalidation e j t) = books t" if "settled t" for j t
    using that by (auto simp: append_invalidation_def books_reserved_control split: option.splits sum.splits)
  show "books (append_timeout_invalidation e s) = books s"
    using * [OF assms] * settled_books [OF * [OF assms]] assms
    by (simp add: append_timeout_invalidation_def Let_def)
  show "books (append_invalidation e k s) = books s" by (rule * [OF assms])
qed

lemma books_claim [simp]: "books (claim_close_result o' b s) = books s"
  by (simp add: claim_close_result_def)

lemma books_set_summary [simp]: "books (set_summary_written k b s) = books s"
  by (simp add: set_summary_written_def books_upd book_def)

lemma book_hide [simp]: "book (snd (hide_shard h c)) = book c"
  by (simp add: hide_shard_def book_def)

lemma books_hide [simp]: "books (snd (hide e k s)) = books s"
proof (cases "chan_of k s")
  case (Some c)
  have "books (upd_chan k (\<lambda>_. c') s) = books s" if "book c' = book c" for c'
    using Some that by (auto simp: books_def fun_eq_iff)
  then show ?thesis using Some book_hide [of "e_hide e k" c]
    by (simp add: hide_def Let_def case_prod_unfold)
qed (simp add: hide_def)

lemma books_replace [simp]: "books (replace_formal k s) = books s"
  by (simp add: replace_formal_def books_upd book_def)

lemma books_retract [simp]:
  assumes "settled s"
  shows "books (retract_published e k s) = books s" "books (retract_all e s) = books s"
proof -
  have u: "books (upd_chan j (\<lambda>c. c\<lparr>c_reservation := False\<rparr>) t) = books t" for j t
    by (rule books_upd) (simp add: book_def)
  have *: "books (retract_published e j t) = books t" if "settled t" for j t
    using that settled_books [OF u, of j t] u
    by (auto simp: retract_published_def books_upd book_def split: retraction.splits)
  show "books (retract_published e k s) = books s" by (rule * [OF assms])
  show "books (retract_all e s) = books s"
    using * [OF assms] * settled_books [OF * [OF assms]] assms by (simp add: retract_all_def)
qed

section \<open>Operations that change the books\<close>

lemma pending_upd [simp]: "pending (upd_chan k f s) = pending s"
  "pending (upd_both f s) = pending s"
  by (simp_all add: pending_def)

lemma pending_fields [simp]:
  "pending (s\<lparr>s_diag := x3\<rparr>) = pending s" "pending (s\<lparr>s_pending := x4\<rparr>) = pending s"
  "pending (s\<lparr>s_logged := x4\<rparr>) = pending s" "pending (s\<lparr>s_closing := b\<rparr>) = pending s"
  "pending (s\<lparr>s_closed := b\<rparr>) = pending s" "pending (s\<lparr>s_writer_failed := b\<rparr>) = pending s"
  "pending (s\<lparr>s_abandoned := b\<rparr>) = pending s" "pending (s\<lparr>s_claim := x5\<rparr>) = pending s"
  "pending (s\<lparr>s_deadline := x6\<rparr>) = pending s" "pending (s\<lparr>s_outcome := x7\<rparr>) = pending s"
  by (simp_all add: pending_def)

text \<open>The counters that mirror the queue.\<close>

definition load :: "chan \<Rightarrow> int \<times> int \<times> int" where
  "load c = (c_bytes c, c_ordinary c, c_reserved c)"

lemma load_tally: "load c' = load c \<Longrightarrow> tally k p c' = tally k p c \<and> within_capacity c' = within_capacity c"
  by (simp add: load_def tally_def within_capacity_def)

lemma queue_ok_upd:
  assumes "\<And>c. load (f c) = load c" "queue_ok s"
  shows "queue_ok (upd_chan k f s)"
proof -
  have "tally j (pending s) c' \<and> within_capacity c'"
    if c': "chan_of j (upd_chan k f s) = Some c'" for j c'
  proof -
    obtain c where "chan_of j s = Some c" "load c' = load c"
      using c' assms(1) by (auto split: if_splits)
    then show ?thesis using assms(2) load_tally [of c' c j] unfolding queue_ok_def by metis
  qed
  moreover have "list_all (\<lambda>q. chan_of (q_stream q) (upd_chan k f s) \<noteq> None) (pending s)"
    using assms(2) by (simp add: queue_ok_def)
  ultimately show ?thesis using assms(2) by (simp add: queue_ok_def)
qed

lemma due_upd:
  assumes "chan_of k s = Some c"
    and "c_attempted (f c) - data_written k (f c) - c_dropped (f c) =
      c_attempted c - data_written k c - c_dropped c + n"
  shows "due j (upd_chan k f s) = (if j = k then due j s + n else due j s)"
  using assms by (auto simp: due_def split: option.splits)

lemma due_upd_None: "chan_of k s = None \<Longrightarrow> due j (upd_chan k f s) = due j s"
  by (cases "chan_of j s") (auto simp: due_def)

definition has :: "stream \<Rightarrow> sink \<Rightarrow> int" where
  "has k s = (if chan_of k s = None then 0 else 1)"

lemma due_upd_const:
  assumes "\<And>c. c_attempted (f c) - data_written k (f c) - c_dropped (f c) =
      c_attempted c - data_written k c - c_dropped c + n"
  shows "due j (upd_chan k f s) = (if j = k then due j s + n * has k s else due j s)"
  by (cases "chan_of k s") (simp_all add: due_upd_None due_upd [OF _ assms] has_def)

lemma data_written_frames [simp]:
  "data_written k (c\<lparr>c_next_seq := x1\<rparr>) = data_written k c"
  "data_written k (c\<lparr>c_attempted := x1\<rparr>) = data_written k c"
  "data_written k (c\<lparr>c_dropped := x1\<rparr>) = data_written k c"
  "data_written k (c\<lparr>c_next_loss := x1\<rparr>) = data_written k c"
  "data_written k (c\<lparr>c_open := x2\<rparr>) = data_written k c"
  "data_written k (c_open_update h c) = data_written k c"
  "data_written k (c\<lparr>c_bytes := x1\<rparr>) = data_written k c"
  "data_written k (c\<lparr>c_ordinary := x1\<rparr>) = data_written k c"
  "data_written k (c\<lparr>c_reserved := x1\<rparr>) = data_written k c"
  "data_written k (c\<lparr>c_lines := x3\<rparr>) = data_written k c"
  by (cases k; simp add: data_written_def)+

lemma allocate_ok: "queue_ok s \<Longrightarrow> queue_ok (allocate k s)"
  unfolding allocate_def by (rule queue_ok_upd) (simp_all add: load_def)

lemma allocate_due: "due j (allocate k s) = due j s + (if j = k then has k s else 0)"
  unfolding allocate_def by (subst due_upd_const [where n = 1]) auto

lemma drop_data_ok: "queue_ok s \<Longrightarrow> queue_ok (drop_data k s)"
  unfolding drop_data_def by (rule queue_ok_upd) (simp_all add: load_def)

lemma drop_data_due: "due j (drop_data k s) = due j s - (if j = k then has k s else 0)"
  unfolding drop_data_def by (subst due_upd_const [where n = "- 1"]) auto

lemma has_simps [simp]:
  "has j (upd_chan k f s) = has j s" "has j (count_diagnostic_locked r s) = has j s"
  "has j (drop_data k s) = has j s" "has j (drop_control k s) = has j s"
  "has j (allocate k s) = has j s" "has j (s\<lparr>s_queue := x1\<rparr>) = has j s"
  by (simp_all add: has_def count_diagnostic_locked_def drop_data_def drop_control_def allocate_def Let_def)

lemma diagnostic_ok: "queue_ok s \<Longrightarrow> queue_ok (count_diagnostic_locked r s)"
  by (rule queue_ok_books [OF books_diagnostic])

lemma diagnostic_due [simp]: "due j (count_diagnostic_locked r s) = due j s"
  by (rule due_books [OF books_diagnostic])

lemma drop_control_ok: "queue_ok s \<Longrightarrow> queue_ok (drop_control k s)"
  by (rule queue_ok_books [OF books_drop_control])

lemma drop_control_due [simp]: "due j (drop_control k s) = due j s"
  by (rule due_books [OF books_drop_control])

lemma of_stream_append [simp]: "of_stream k (xs @ ys) = of_stream k xs @ of_stream k ys"
  by (simp add: of_stream_def)

lemma of_stream_single: "of_stream k [q] = (if q_stream q = k then [q] else [])"
  by (simp add: of_stream_def)

lemma raw_bytes_append [simp]: "raw_bytes (xs @ ys) = raw_bytes xs + raw_bytes ys"
  by (simp add: raw_bytes_def)

lemma count_append [simp]:
  "unreserved (xs @ ys) = unreserved xs + unreserved ys" "reserved (xs @ ys) = reserved xs + reserved ys"
  by (simp_all add: unreserved_def reserved_def)

lemma count_Nil [simp]: "raw_bytes [] = 0" "unreserved [] = 0" "reserved [] = 0" "of_stream k [] = []"
  by (simp_all add: unreserved_def reserved_def raw_bytes_def of_stream_def)

lemma count_single:
  "raw_bytes [q] = int (length (q_raw q))" "unreserved [q] = (if q_reserved q then 0 else 1)"
  "reserved [q] = (if q_reserved q then 1 else 0)"
  by (simp_all add: unreserved_def reserved_def raw_bytes_def)

lemma charge_fields [simp]:
  "c_bytes (charge q c) = c_bytes c + int (length (q_raw q))"
  "c_ordinary (charge q c) = c_ordinary c + (if q_reserved q then 0 else 1)"
  "c_reserved (charge q c) = c_reserved c + (if q_reserved q then 1 else 0)"
  "c_attempted (charge q c) = c_attempted c" "c_dropped (charge q c) = c_dropped c"
  "data_written k (charge q c) = data_written k c" "c_written (charge q c) = c_written c"
  by (simp_all add: charge_def Let_def)

lemma tally_charge:
  assumes "tally k p c"
  shows "tally k (p @ [q]) (if q_stream q = k then charge q c else c)"
  using assms by (auto simp: tally_def of_stream_single count_single)

lemma enqueue_ok:
  assumes "queue_ok s" "typed q" "enqueue_locked q s = (b, s')"
  shows "queue_ok s'"
proof (cases b)
  case False
  then show ?thesis using assms by (auto simp: enqueue_locked_def split: if_splits)
next
  case True
  then have can: "can_enqueue_locked s (q_raw q) (q_reserved q) (q_stream q)"
    and s': "s' = upd_chan (q_stream q) (charge q) (s\<lparr>s_queue := s_queue s @ [q]\<rparr>)"
    using assms(3) by (auto simp: enqueue_locked_def split: if_splits)
  obtain c0 where c0: "chan_of (q_stream q) s = Some c0" and room: "within_capacity c0 \<Longrightarrow> within_capacity (charge q c0)"
    using can by (auto simp: can_enqueue_locked_def within_capacity_def split: if_splits option.splits)
  have pending: "pending s' = pending s @ [q]" by (simp add: s' pending_def)
  have "tally k (pending s') c' \<and> within_capacity c'" if c': "chan_of k s' = Some c'" for k c'
  proof -
    obtain c where c: "chan_of k s = Some c" "c' = (if q_stream q = k then charge q c else c)"
      using c' by (cases "chan_of k s") (auto simp: s' split: if_splits)
    moreover have "tally k (pending s) c \<and> within_capacity c"
      using assms(1) c(1) by (simp add: queue_ok_def)
    ultimately show ?thesis using tally_charge [of k "pending s" c q] pending room c0
      by (auto split: if_splits)
  qed
  moreover have "list_all (\<lambda>q. chan_of (q_stream q) s' \<noteq> None) (pending s')"
    using assms(1) c0 by (simp add: queue_ok_def s') (simp add: pending_def)
  ultimately show ?thesis using assms(1,2) pending by (simp add: queue_ok_def)
qed

lemma stream_data_stream: "stream_data j q \<Longrightarrow> q_stream q = j"
  by (simp add: stream_data_def)

lemma enqueue_due:
  assumes "enqueue_locked q s = (b, s')"
  shows "due j s' = due j s - (if b \<and> stream_data j q then 1 else 0)"
proof (cases b)
  case False
  then show ?thesis using assms by (auto simp: enqueue_locked_def split: if_splits)
next
  case True
  then have can: "can_enqueue_locked s (q_raw q) (q_reserved q) (q_stream q)"
    and s': "s' = upd_chan (q_stream q) (charge q) (s\<lparr>s_queue := s_queue s @ [q]\<rparr>)"
    using assms by (auto simp: enqueue_locked_def split: if_splits)
  then have "chan_of (q_stream q) s \<noteq> None" by (auto simp: can_enqueue_locked_def split: if_splits option.splits)
  moreover have "due j s' = due j (s\<lparr>s_queue := s_queue s @ [q]\<rparr>)"
    unfolding s' by (subst due_upd_const [where n = 0]) auto
  ultimately show ?thesis using True
    by (cases "chan_of j s") (auto simp: due_def pending_def dest: stream_data_stream)
qed

lemma loss_control_typed [simp]: "typed (loss_control k raw)" "\<not> stream_data j (loss_control k raw)"
  by (simp_all add: typed_def loss_control_def is_control_def stream_data_def split: stream.splits)

lemma seal_loss_ok:
  assumes "queue_ok s"
  shows "queue_ok (seal_loss k s)"
proof -
  have 1: "queue_ok (upd_chan k (\<lambda>c. c\<lparr>c_next_loss := n c, c_open := None\<rparr>) s)" for n
    using assms by (rule queue_ok_upd [rotated]) (simp add: load_def)
  show ?thesis
    using assms 1 enqueue_ok [OF 1 loss_control_typed(1)]
    by (auto simp: seal_loss_def Let_def drop_control_ok split: option.splits sum.splits prod.splits)
qed

lemma seal_loss_due [simp]: "due j (seal_loss k s) = due j s"
proof -
  have 1: "due j (upd_chan k (\<lambda>c. c\<lparr>c_next_loss := n c, c_open := None\<rparr>) s) = due j s" for n
    by (subst due_upd_const [where n = 0]) auto
  have 2: "due j s' = due j s"
    if "enqueue_locked (loss_control k raw) (upd_chan k (\<lambda>c. c\<lparr>c_next_loss := n c, c_open := None\<rparr>) s) = (b, s')"
    for b s' n raw
    using enqueue_due [OF that, of j] 1 by simp
  show ?thesis
    using 1 2 by (auto simp: seal_loss_def Let_def split: option.splits sum.splits prod.splits)
qed

lemma seal_loss_has [simp]: "has j (seal_loss k s) = has j s"
  by (auto simp: seal_loss_def Let_def enqueue_locked_def split: option.splits sum.splits prod.splits)

lemma note_drop_ok: "queue_ok s \<Longrightarrow> queue_ok (note_drop k n rt reason t s)"
  using queue_ok_upd [of _ _ k]
  by (auto simp: note_drop_def Let_def load_def intro!: queue_ok_upd seal_loss_ok diagnostic_ok)

lemma note_drop_due: "due j (note_drop k n rt reason t s) = due j s - (if j = k then has k s else 0)"
proof -
  have a: "due j (upd_chan k (\<lambda>c. c\<lparr>c_open := g c\<rparr>) s) = due j s"
    "due j (upd_chan k (c_open_update h) s) = due j s" for j g h s
    by (subst due_upd_const [where n = 0]; auto)+
  have b: "due j (upd_chan k (\<lambda>c. c\<lparr>c_dropped := c_dropped c + 1\<rparr>) s) = due j s - (if j = k then has k s else 0)"
    using drop_data_due [of j k s] by (simp add: drop_data_def)
  show ?thesis using b by (cases "j = k") (simp_all add: note_drop_def Let_def a)
qed

lemma note_drop_has [simp]: "has j (note_drop k n rt reason t s) = has j s"
  by (simp add: note_drop_def Let_def)

section \<open>Producers\<close>

lemma books_profile_record:
  "books (s\<lparr>s_profile := map_option (\<lambda>p. p\<lparr>pf_losses := h p\<rparr>) (s_profile s)\<rparr>) = books s"
  "books (s\<lparr>s_profile := map_option (\<lambda>p. p\<lparr>pf_records := h' p\<rparr>) (s_profile s)\<rparr>) = books s"
  by (auto simp: books_def fun_eq_iff chan_of_def option.map_comp comp_def split: stream.splits)

lemma books_remember [simp]: "books (remember_record ref fs s) = books s"
  by (simp add: remember_record_def books_profile_record)

lemma books_losses: "\<exists>s1. s1 = note_drop Prof n (Profile_data t) reason obs s \<and>
    books (note_profile_drop_locked n t reason obs s) = books s1"
  by (auto simp: note_profile_drop_locked_def Let_def books_profile_record split: option.splits)

lemma profile_drop_ok: "queue_ok s \<Longrightarrow> queue_ok (note_profile_drop_locked n t reason obs s)"
  using books_losses [of n t reason obs s] queue_ok_books note_drop_ok by blast

lemma profile_drop_due:
  "due j (note_profile_drop_locked n t reason obs s) = due j s - (if j = Prof then has Prof s else 0)"
  using books_losses [of n t reason obs s] due_books note_drop_due by metis

lemma offer_ok:
  assumes "queue_ok s" "typed q" and d: "\<And>r s. queue_ok s \<Longrightarrow> queue_ok (account r s)"
    and o: "offer account q s = (b, s')"
  shows "queue_ok s'"
  using o d assms(1) enqueue_ok [OF seal_loss_ok [OF assms(1)] assms(2)]
  by (auto simp: offer_def Let_def split: if_splits prod.splits)

lemma offer_due:
  assumes d: "\<And>r s. due j (account r s) = due j s - (if j = q_stream q then has j s else 0)"
    and q: "stream_data (q_stream q) q" and h: "has (q_stream q) s = 1"
    and o: "offer account q s = (b, s')"
  shows "due j s' = due j s - (if j = q_stream q then 1 else 0)"
proof -
  have hs: "has (q_stream q) s1 = 1" if "enqueue_locked q (seal_loss (q_stream q) s) = (b1, s1)" for b1 s1
    using that h seal_loss_has [of "q_stream q" "q_stream q" s]
    by (auto simp: enqueue_locked_def split: if_splits)
  have sd: "stream_data j q \<longleftrightarrow> j = q_stream q" using q stream_data_stream by blast
  show ?thesis
    using o d h hs sd enqueue_due [of q "seal_loss (q_stream q) s" _ _ j]
    by (auto simp: offer_def Let_def split: if_splits prod.splits)
qed

lemma has_Base [simp]: "has Base s = 1"
  by (simp add: has_def chan_of_def)

lemma producer_clock:
  assumes "producer_clock_or_drop_locked ck n rt s = (v, s')"
  shows "queue_ok s \<Longrightarrow> queue_ok s'"
    "due j s' = due j s - (if v = None \<and> j = Base then 1 else 0)"
  using assms
  by (auto simp: producer_clock_or_drop_locked_def note_drop_locked_def note_drop_due note_drop_ok
      diagnostic_ok split: option.splits)

lemma base_data_simps:
  "rt = Event \<or> rt = Edge \<Longrightarrow> stream_data Base \<lparr>q_raw = raw, q_type = rt, q_seq = n, q_reserved = b,
     q_observed = t, q_stream = Base\<rparr>"
  by (auto simp: stream_data_def)

lemma write_base_ok:
  assumes "queue_ok s" "rt = Event \<or> rt = Edge" "write_base rt b line ck s = (r, s')"
  shows "queue_ok s'"
proof -
  have t: "typed \<lparr>q_raw = raw, q_type = rt, q_seq = n, q_reserved = b,
     q_observed = t, q_stream = Base\<rparr>" for raw n t
    using base_data_simps [OF assms(2)] by (simp add: typed_def)
  have c: "queue_ok s1" if "producer_clock_or_drop_locked ck n rt (allocate Base s) = (v, s1)" for n v s1
    using producer_clock(1) [OF that] allocate_ok [OF assms(1)] by blast
  have o: "queue_ok s2" if "offer (\<lambda>reason. note_drop Base n rt reason t')
      \<lparr>q_raw = raw, q_type = rt, q_seq = n', q_reserved = b, q_observed = t, q_stream = Base\<rparr> s1 = (b', s2)"
      "queue_ok s1" for s1 s2 n n' t t' raw b'
    by (rule offer_ok [OF that(2) t _ that(1)]) (simp add: note_drop_ok)
  show ?thesis
    using assms(1,3)
    by (auto simp: write_base_def Let_def diagnostic_ok note_drop_locked_def note_drop_ok
        dest: c o split: if_splits option.splits prod.splits sum.splits)
qed

lemma write_base_due:
  assumes "rt = Event \<or> rt = Edge" "write_base rt b line ck s = (r, s')"
  shows "due j s' = due j s"
proof -
  have c: "due j s1 = due j s + (if j = Base then if v = None then 0 else 1 else 0)"
    if "producer_clock_or_drop_locked ck n rt (allocate Base s) = (v, s1)" for n v s1
    using producer_clock(2) [OF that, of j] by (simp add: allocate_due)
  have o: "due j s2 = due j s1 - (if j = Base then 1 else 0)"
    if "offer (\<lambda>reason. note_drop_locked n rt reason t')
      \<lparr>q_raw = raw, q_type = rt, q_seq = n', q_reserved = b, q_observed = t, q_stream = Base\<rparr> s1 = (b', s2)"
    for s1 s2 n n' t t' raw b'
    using offer_due [OF _ _ _ that, of j] base_data_simps [OF assms(1)]
    by (simp add: note_drop_locked_def note_drop_due)
  show ?thesis
    using assms(2) c o
    by (auto simp: write_base_def Let_def note_drop_locked_def note_drop_due
        split: if_splits option.splits prod.splits sum.splits)
qed

lemma profile_data_typed:
  "stream_data Prof \<lparr>q_raw = raw, q_type = Profile_data t, q_seq = n, q_reserved = b,
     q_observed = ob, q_stream = Prof\<rparr>"
  by (simp add: stream_data_def)

lemma has_Prof: "s_profile s \<noteq> None \<Longrightarrow> has Prof s = 1"
  by (simp add: has_def profile_chan)

lemma allocate_profile_Inr: "allocate_profile s = Inr (n, s1) \<Longrightarrow> s1 = allocate Prof s"
  by (simp add: allocate_profile_def split: if_splits)

lemma write_profile_ok:
  assumes "queue_ok s" "write_kv_recovery_profile t ts fs ck s = (r, s')"
  shows "queue_ok s'"
proof -
  have o: "queue_ok s2" if "offer (\<lambda>reason. note_profile_drop_locked n t reason t')
      \<lparr>q_raw = raw, q_type = Profile_data t, q_seq = n', q_reserved = False, q_observed = ob, q_stream = Prof\<rparr>
      (allocate Prof s) = (b', s2)" for s2 n n' t' ob raw b'
    by (rule offer_ok [OF allocate_ok [OF assms(1)] _ _ that])
      (simp_all add: profile_drop_ok typed_def profile_data_typed)
  have rem: "queue_ok (remember_record ref fs s2)" if "queue_ok s2" for ref s2
    using that by (rule queue_ok_books [OF books_remember])
  show ?thesis
    using assms
    by (auto simp: write_kv_recovery_profile_def Let_def diagnostic_ok profile_drop_ok allocate_ok
        dest!: allocate_profile_Inr o intro!: rem split: if_splits option.splits prod.splits sum.splits)
qed

lemma write_profile_due:
  assumes "write_kv_recovery_profile t ts fs ck s = (r, s')"
  shows "due j s' = due j s"
proof (cases "s_profile s")
  case None
  then show ?thesis using assms by (auto simp: write_kv_recovery_profile_def split: if_splits)
next
  case (Some p)
  then have h: "has Prof s = 1" by (simp add: has_Prof)
  have o: "due j s2 = due j s" if "offer (\<lambda>reason. note_profile_drop_locked n t reason t')
      \<lparr>q_raw = raw, q_type = Profile_data t, q_seq = n', q_reserved = False, q_observed = ob, q_stream = Prof\<rparr>
      (allocate Prof s) = (b', s2)" for s2 n n' t' ob raw b'
    using offer_due [OF _ _ _ that, of j] h
    by (simp add: profile_drop_due profile_data_typed allocate_due)
  have d: "due j (note_profile_drop_locked n t reason t' (allocate Prof s)) = due j s" for n reason t'
    using h by (simp add: profile_drop_due allocate_due)
  have rem: "due j (remember_record ref fs s2) = due j s2" for ref s2
    by (rule due_books [OF books_remember])
  show ?thesis
    using assms Some
    by (auto simp: write_kv_recovery_profile_def Let_def d rem
        dest!: allocate_profile_Inr o split: if_splits option.splits prod.splits sum.splits)
qed

lemma drop_profile_ok:
  assumes "queue_ok s" "drop_kv_recovery_profile t ts reason ck s = (r, s')"
  shows "queue_ok s'"
  using assms
  by (auto simp: drop_kv_recovery_profile_def Let_def profile_drop_ok allocate_ok
      dest!: allocate_profile_Inr split: if_splits sum.splits)

lemma drop_profile_due:
  assumes "drop_kv_recovery_profile t ts reason ck s = (r, s')"
  shows "due j s' = due j s"
  using assms has_Prof [of s]
  by (auto simp: drop_kv_recovery_profile_def Let_def profile_drop_due allocate_due
      dest!: allocate_profile_Inr split: if_splits sum.splits)

section \<open>Accounting of unwritten records\<close>

lemma queue_ok_empty:
  assumes "pending s = []" "\<And>k c. chan_of k s = Some c \<Longrightarrow> load c = (0, 0, 0)"
  shows "queue_ok s"
  using assms by (auto simp: queue_ok_def tally_def load_def within_capacity_def MAX_QUEUED_BYTES_def
      DATA_CAPACITY_RECORDS_def RESERVED_CAPACITY_RECORDS_def)

lemma account_frames [simp]:
  "s_inflight (account_unwritten_queued_locked q s) = s_inflight s"
  "s_queue (account_unwritten_queued_locked q s) = s_queue s"
  "has j (account_unwritten_queued_locked q s) = has j s"
  by (simp_all add: account_unwritten_queued_locked_def drop_data_def drop_control_def split: rtype.splits)

lemma account_due:
  assumes "typed q" "has (q_stream q) s = 1"
  shows "due j (account_unwritten_queued_locked q s) = due j s - (if stream_data j q then 1 else 0)"
proof -
  have "charged_stream q s = q_stream q"
    using assms(2) by (cases "q_stream q") (auto simp: charged_stream_def has_def profile_chan split: if_splits)
  then show ?thesis
    using assms by (cases "q_type q"; cases "q_stream q"; cases j)
      (simp_all add: account_unwritten_queued_locked_def drop_data_due stream_data_def typed_def is_control_def)
qed

definition all_have :: "queued list \<Rightarrow> sink \<Rightarrow> bool" where
  "all_have qs s \<longleftrightarrow> (\<forall>q \<in> set qs. typed q \<and> has (q_stream q) s = 1)"

lemma queue_ok_all_have: "queue_ok s \<Longrightarrow> all_have (pending s) s"
  by (auto simp: queue_ok_def all_have_def has_def list_all_iff)

lemma fold_account:
  assumes "all_have qs s"
  shows "due j (fold account_unwritten_queued_locked qs s) = due j s - int (length (filter (stream_data j) qs))"
    and "s_inflight (fold account_unwritten_queued_locked qs s) = s_inflight s"
    and "s_queue (fold account_unwritten_queued_locked qs s) = s_queue s"
    and "has k (fold account_unwritten_queued_locked qs s) = has k s"
  using assms
proof (induction qs arbitrary: s)
  case (Cons q qs)
  { case 1
    then show ?case using Cons.IH(1) [of "account_unwritten_queued_locked q s"] account_due [of q s j]
      by (auto simp: all_have_def)
  next
    case 2 then show ?case using Cons.IH(2) [of "account_unwritten_queued_locked q s"] by (auto simp: all_have_def)
  next
    case 3 then show ?case using Cons.IH(3) [of "account_unwritten_queued_locked q s"] by (auto simp: all_have_def)
  next
    case 4 then show ?case using Cons.IH(4) [of "account_unwritten_queued_locked q s"] by (auto simp: all_have_def) }
qed simp_all

lemma due_unqueue:
  "due j (s\<lparr>s_inflight := [], s_queue := []\<rparr>) =
     due j s + (if chan_of j s = None then 0 else int (length (filter (stream_data j) (pending s))))"
  by (cases "chan_of j s") (simp_all add: due_def pending_def)

lemma upd_both_due:
  assumes "\<And>k c. c_attempted (f c) - data_written k (f c) - c_dropped (f c) =
      c_attempted c - data_written k c - c_dropped c"
  shows "due j (upd_both f s) = due j s"
  using assms [of _ j] by (cases "chan_of j s") (auto simp: due_def algebra_simps)

lemma zero_counts_frames [simp]:
  "c_attempted (zero_counts c) = c_attempted c" "c_dropped (zero_counts c) = c_dropped c"
  "data_written k (zero_counts c) = data_written k c"
  by (simp_all add: zero_counts_def)

lemma has_None: "has j s = 0 \<longleftrightarrow> chan_of j s = None"
  by (simp add: has_def)

lemma abandon_pending_due:
  assumes "queue_ok s"
  shows "due j (abandon_pending s) = due j s"
proof -
  define s1 where "s1 = fold account_unwritten_queued_locked (pending s) s"
  note f = fold_account [OF queue_ok_all_have [OF assms], folded s1_def]
  have p: "pending s1 = pending s" using f(2,3) by (simp add: pending_def)
  have "due j (abandon_pending s) = due j (s1\<lparr>s_inflight := [], s_queue := []\<rparr>)"
    unfolding abandon_pending_def s1_def pending_def by (rule upd_both_due) simp
  also have "\<dots> = due j s"
  proof (cases "chan_of j s1 = None")
    case True
    then have "due j s1 = 0" "due j s = 0" using f(4) [of j] by (auto simp: due_def has_def split: if_splits)
    then show ?thesis using True by (simp add: due_unqueue)
  next
    case False
    then show ?thesis using f(1) [of j] p by (auto simp: due_unqueue)
  qed
  finally show ?thesis .
qed

lemma queues_abandoned [simp]: "s_inflight (abandon_pending s) = []" "s_queue (abandon_pending s) = []"
  by (simp_all add: abandon_pending_def)

lemma pending_abandoned [simp]: "pending (abandon_pending s) = []"
  by (simp add: pending_def)

lemma abandon_pending_ok: "queue_ok (abandon_pending s)"
proof (rule queue_ok_empty)
  fix k c assume "chan_of k (abandon_pending s) = Some c"
  then show "load c = (0, 0, 0)" by (auto simp: abandon_pending_def load_def zero_counts_def)
qed simp

lemma writer_failure_ok: "queue_ok (mark_writer_failure_locked s)"
  by (simp add: mark_writer_failure_locked_def Let_def abandon_pending_ok)

lemma queue_ok_upd_both: "(\<And>c. load (f c) = load c) \<Longrightarrow> queue_ok s \<Longrightarrow> queue_ok (upd_both f s)"
  unfolding upd_both_def by (intro queue_ok_upd) auto

lemma queue_ok_fields [simp]:
  "queue_ok (s\<lparr>s_next_span := x2\<rparr>) = queue_ok s" "queue_ok (s\<lparr>s_diag := x3\<rparr>) = queue_ok s"
  "queue_ok (s\<lparr>s_closing := b\<rparr>) = queue_ok s" "queue_ok (s\<lparr>s_closed := b\<rparr>) = queue_ok s"
  "queue_ok (s\<lparr>s_writer_failed := b\<rparr>) = queue_ok s" "queue_ok (s\<lparr>s_abandoned := b\<rparr>) = queue_ok s"
  "queue_ok (s\<lparr>s_claim := x5\<rparr>) = queue_ok s" "queue_ok (s\<lparr>s_deadline := x6\<rparr>) = queue_ok s"
  "queue_ok (s\<lparr>s_outcome := x7\<rparr>) = queue_ok s"
  by (simp_all add: queue_ok_def pending_def)

lemma due_fields [simp]:
  "due j (s\<lparr>s_next_span := x2\<rparr>) = due j s" "due j (s\<lparr>s_diag := x3\<rparr>) = due j s"
  "due j (s\<lparr>s_closing := b\<rparr>) = due j s" "due j (s\<lparr>s_closed := b\<rparr>) = due j s"
  "due j (s\<lparr>s_writer_failed := b\<rparr>) = due j s" "due j (s\<lparr>s_abandoned := b\<rparr>) = due j s"
  "due j (s\<lparr>s_claim := x5\<rparr>) = due j s" "due j (s\<lparr>s_deadline := x6\<rparr>) = due j s"
  "due j (s\<lparr>s_outcome := x7\<rparr>) = due j s"
  by (rule due_books; simp)+

lemma writer_failure_due:
  assumes "queue_ok s"
  shows "due j (mark_writer_failure_locked s) = due j s"
proof -
  have "queue_ok (count_diagnostic_locked ''writer_failure''
      ((upd_both (\<lambda>c. c\<lparr>c_writer_failures := c_writer_failures c + 1\<rparr>) s)\<lparr>s_writer_failed := True\<rparr>))"
    by (intro diagnostic_ok) (simp add: queue_ok_upd_both load_def assms)
  from abandon_pending_due [OF this, of j] show ?thesis
    by (simp add: mark_writer_failure_locked_def Let_def)
      (rule upd_both_due, simp add: data_written_def split: stream.splits)
qed

lemma mark_publication_ok: "queue_ok (mark_publication_failure s)"
  by (simp add: mark_publication_failure_def queue_ok_books [OF books_set_summary writer_failure_ok])

lemma mark_publication_due: "queue_ok s \<Longrightarrow> due j (mark_publication_failure s) = due j s"
  by (simp add: mark_publication_failure_def due_books [OF books_set_summary] writer_failure_due)

lemma force_timeout_ok: "queue_ok (force_timeout_accounting_locked s)"
  by (simp add: force_timeout_accounting_locked_def abandon_pending_ok diagnostic_ok)

lemma force_timeout_due: "queue_ok s \<Longrightarrow> due j (force_timeout_accounting_locked s) = due j s"
  by (simp add: force_timeout_accounting_locked_def abandon_pending_due)

section \<open>Batches\<close>

lemma split_batch_append: "split_batch n b qs = (batch, rest) \<Longrightarrow> batch @ rest = qs"
proof (induction n b qs arbitrary: batch rest rule: split_batch.induct)
  case (2 n b q qs)
  then show ?case by (auto simp: Let_def split: if_splits prod.splits)
qed simp

lemma take_batch_pending:
  assumes "take_batch_locked s = (batch, s')" "s_inflight s = []"
  shows "pending s' = pending s" "s_inflight s' = batch" "\<And>k. chan_of k s' = chan_of k s"
  using assms split_batch_append [of 0 0 "s_queue s"]
  by (auto simp: take_batch_locked_def pending_def split: prod.splits)

lemma queue_ok_cong:
  assumes "pending s' = pending s" "\<And>k. chan_of k s' = chan_of k s"
  shows "queue_ok s' = queue_ok s" "due j s' = due j s"
  using assms by (simp add: queue_ok_def, cases "chan_of j s", simp_all add: due_def)

lemma bump_data: 
  assumes "typed q" "q_stream q = k"
  shows "data_written k (c\<lparr>c_written := bump (c_written c) (q_type q)\<rparr>) =
     data_written k c + (if stream_data k q then 1 else 0)"
  using assms
  by (cases k; cases "q_type q")
    (auto simp: data_written_def stream_data_def bump_def typed_def is_control_def total_count_def
      split: profile_type.splits, (metis profile_type.exhaust)?)

lemma raw_bytes_Cons [simp]: "raw_bytes (q # qs) = int (length (q_raw q)) + raw_bytes qs"
  by (simp add: raw_bytes_def)

lemma count_Cons [simp]:
  "unreserved (q # qs) = (if q_reserved q then 0 else 1) + unreserved qs"
  "reserved (q # qs) = (if q_reserved q then 1 else 0) + reserved qs"
  by (simp_all add: unreserved_def reserved_def)

lemma of_stream_Cons: "of_stream k (q # qs) = (if q_stream q = k then q # of_stream k qs else of_stream k qs)"
  by (simp add: of_stream_def)

lemma counts_nonneg: "0 \<le> raw_bytes qs" "0 \<le> unreserved qs" "0 \<le> reserved qs"
  by (induction qs) (auto simp: raw_bytes_def unreserved_def reserved_def)

lemma record_written_both:
  assumes "queue_ok s"
  shows "queue_ok (record_written q s) \<and> due j (record_written q s) = due j s"
proof (cases "s_abandoned s \<or> s_inflight s = [] \<or> hd (s_inflight s) \<noteq> q")
  case True
  then show ?thesis using assms
    by (cases "s_inflight s") (auto simp: record_written_def writer_failure_ok writer_failure_due)
next
  case False
  then obtain rest where inf: "s_inflight s = q # rest" and a: "\<not> s_abandoned s"
    by (cases "s_inflight s") auto
  let ?s1 = "s\<lparr>s_inflight := rest\<rparr>"
  let ?f = "\<lambda>c. (discharge q c)\<lparr>c_lines := c_lines c @ [q_raw q], c_written := bump (c_written c) (q_type q)\<rparr>"
  have p: "pending s = q # pending ?s1" using inf by (simp add: pending_def)
  have t: "typed q" and h: "chan_of (q_stream q) s \<noteq> None"
    using assms p by (auto simp: queue_ok_def)
  have eq: "record_written q s = upd_chan (q_stream q) ?f ?s1"
    using inf a h by (auto simp: record_written_def Let_def)
  have "tally k (pending ?s1) c' \<and> within_capacity c'"
    if c': "chan_of k (upd_chan (q_stream q) ?f ?s1) = Some c'" for k c'
  proof -
    obtain c where c: "chan_of k s = Some c" "c' = (if q_stream q = k then ?f c else c)"
      using c' by (cases "chan_of k s") (auto split: if_splits)
    have "tally k (pending s) c" "within_capacity c" using assms c(1) by (auto simp: queue_ok_def)
    then show ?thesis using c(2) p
      by (auto simp: tally_def within_capacity_def of_stream_Cons discharge_def Let_def split: if_splits)
  qed
  then have "queue_ok (upd_chan (q_stream q) ?f ?s1)"
    using assms p by (simp add: queue_ok_def)
  moreover have "due j (upd_chan (q_stream q) ?f ?s1) = due j s"
  proof -
    have d: "data_written k (discharge q c) = data_written k c" "c_written (discharge q c) = c_written c"
      "c_attempted (discharge q c) = c_attempted c" "c_dropped (discharge q c) = c_dropped c" for k c
      by (simp_all add: discharge_def Let_def)
    have "data_written (q_stream q) (?f c) = data_written (q_stream q) c + (if stream_data (q_stream q) q then 1 else 0)" for c
      using bump_data [OF t refl, of "(discharge q c)\<lparr>c_lines := c_lines c @ [q_raw q]\<rparr>"] d by simp
    then show ?thesis using p d stream_data_stream [of j q]
      by (cases "chan_of j s") (auto simp: due_def)
  qed
  ultimately show ?thesis by (simp add: eq)
qed

section \<open>Timeout accounting\<close>

lemma runs_nonempty: "qs \<noteq> [] \<Longrightarrow> runs qs \<noteq> []"
  by (induction qs rule: runs.induct) (auto split: list.splits)

lemma concat_runs: "concat (runs qs) = qs"
proof (induction qs rule: runs.induct)
  case (3 q q' qs)
  then show ?case using runs_nonempty [of "q' # qs"] by (auto split: list.splits)
qed simp_all

text \<open>The sink while the controls are collected: nothing pending, every load zero.\<close>

definition cleared :: "sink \<Rightarrow> bool" where
  "cleared s \<longleftrightarrow> pending s = [] \<and> (\<forall>k c. chan_of k s = Some c \<longrightarrow> load c = (0, 0, 0))"

definition admitted :: "queued list \<times> sink \<Rightarrow> bool" where
  "admitted cs \<longleftrightarrow> cleared (snd cs) \<and>
     (\<forall>q \<in> set (fst cs). typed q \<and> is_control q \<and> chan_of (q_stream q) (snd cs) \<noteq> None) \<and>
     (\<forall>k. int (length (of_stream k (fst cs))) \<le> RESERVED_CAPACITY_RECORDS \<and>
          raw_bytes (of_stream k (fst cs)) \<le> MAX_QUEUED_BYTES)"

lemma cleared_upd:
  assumes "cleared s" "\<And>c. load (f c) = load c"
  shows "cleared (upd_chan k f s)"
  using assms by (auto simp: cleared_def split: if_splits)

lemma chan_None_upd: "chan_of j (upd_chan k f s) = None \<longleftrightarrow> chan_of j s = None"
  by auto

lemma chan_of_drop_control [simp]:
  "chan_of j (drop_control k s) =
     (if k = j then map_option (\<lambda>c. c\<lparr>c_dropped_control := c_dropped_control c + 1\<rparr>) (chan_of j s)
      else chan_of j s)"
  by (simp add: drop_control_def)

lemma cleared_drop_control: "cleared s \<Longrightarrow> cleared (drop_control k s)"
  unfolding drop_control_def by (rule cleared_upd) (auto simp: load_def)

lemma admit_control_admitted:
  assumes "admitted cs" "typed q" "is_control q" "chan_of (q_stream q) (snd cs) \<noteq> None"
  shows "admitted (admit_control q cs)"
    and "due j (snd (admit_control q cs)) = due j (snd cs)"
    and "chan_of k (snd (admit_control q cs)) = None \<longleftrightarrow> chan_of k (snd cs) = None"
  using assms
  by (auto simp: admit_control_def admitted_def Let_def cleared_drop_control of_stream_single count_single
      split: prod.splits)

lemma fold_admit_control:
  assumes "admitted cs" "\<forall>q \<in> set qs. typed q \<and> is_control q \<and> chan_of (q_stream q) (snd cs) \<noteq> None"
  shows "admitted (fold admit_control qs cs) \<and> due j (snd (fold admit_control qs cs)) = due j (snd cs) \<and>
    (\<forall>k. chan_of k (snd (fold admit_control qs cs)) = None \<longleftrightarrow> chan_of k (snd cs) = None)"
  using assms
proof (induction qs arbitrary: cs)
  case (Cons q qs)
  then show ?case using admit_control_admitted [of cs q] Cons.IH [of "admit_control q cs"] by auto
qed simp

lemma timeout_loss_control_facts:
  assumes "timeout_loss_control k now grp s = (r, s')"
  shows "cleared s \<Longrightarrow> cleared s'"
    and "due j s' = due j s - (if j = k then has k s * int (length grp) else 0)"
    and "chan_of i s' = None \<longleftrightarrow> chan_of i s = None"
    and "\<And>q. r = Some q \<Longrightarrow> typed q \<and> is_control q \<and> q_stream q = k \<and> chan_of k s \<noteq> None"
proof -
  let ?f = "\<lambda>c. c\<lparr>c_dropped := c_dropped c + int (length grp), c_next_loss := c_next_loss c + 1\<rparr>"
  have d: "due j (upd_chan k ?f s) = due j s - (if j = k then has k s * int (length grp) else 0)"
    by (subst due_upd_const [where n = "- int (length grp)"]) auto
  have c: "cleared s \<Longrightarrow> cleared (upd_chan k ?f s)"
    by (rule cleared_upd) (auto simp: load_def)
  show "cleared s \<Longrightarrow> cleared s'"
    using assms c by (auto simp: timeout_loss_control_def Let_def cleared_drop_control split: option.splits sum.splits)
  show "due j s' = due j s - (if j = k then has k s * int (length grp) else 0)"
    using assms d by (auto simp: timeout_loss_control_def Let_def has_def split: option.splits sum.splits)
  show "chan_of i s' = None \<longleftrightarrow> chan_of i s = None"
    using assms by (auto simp: timeout_loss_control_def Let_def split: option.splits sum.splits if_splits)
  show "typed q \<and> is_control q \<and> q_stream q = k \<and> chan_of k s \<noteq> None" if "r = Some q" for q
    using assms that loss_control_typed(1)
    by (auto simp: timeout_loss_control_def Let_def loss_control_def is_control_def typed_def
        split: option.splits sum.splits)
qed

lemma admit_run_admitted:
  assumes "admitted cs"
  shows "admitted (admit_run k now grp cs)"
    and "due j (snd (admit_run k now grp cs)) = due j (snd cs) - (if j = k then has k (snd cs) * int (length grp) else 0)"
    and "chan_of i (snd (admit_run k now grp cs)) = None \<longleftrightarrow> chan_of i (snd cs) = None"
proof -
  obtain r s1 where t: "timeout_loss_control k now grp (snd cs) = (r, s1)" by fastforce
  note f = timeout_loss_control_facts [OF t]
  have a: "admitted (fst cs, s1)"
    using assms f(1,3) by (simp add: admitted_def)
  have "admitted (admit_run k now grp cs) \<and>
    due j (snd (admit_run k now grp cs)) = due j (snd cs) - (if j = k then has k (snd cs) * int (length grp) else 0) \<and>
    (chan_of i (snd (admit_run k now grp cs)) = None \<longleftrightarrow> chan_of i (snd cs) = None)"
  proof (cases r)
    case None
    then show ?thesis using t a f by (simp add: admit_run_def)
  next
    case (Some q)
    then have q: "typed q" "is_control q" "chan_of (q_stream q) s1 \<noteq> None" using f(3,4) by auto
    have "admit_run k now grp cs = admit_control q (fst cs, s1)" using t Some by (simp add: admit_run_def)
    then show ?thesis using admit_control_admitted [OF a q(1,2)] q(3) f(2) [of j] f(3) [of i] by simp
  qed
  then show "admitted (admit_run k now grp cs)"
    "due j (snd (admit_run k now grp cs)) = due j (snd cs) - (if j = k then has k (snd cs) * int (length grp) else 0)"
    "chan_of i (snd (admit_run k now grp cs)) = None \<longleftrightarrow> chan_of i (snd cs) = None" by blast+
qed

lemma fold_admit_run:
  assumes "admitted cs"
  shows "admitted (fold (admit_run k now) gs cs) \<and>
    due j (snd (fold (admit_run k now) gs cs)) =
      due j (snd cs) - (if j = k then has k (snd cs) * int (length (concat gs)) else 0) \<and>
    (\<forall>i. chan_of i (snd (fold (admit_run k now) gs cs)) = None \<longleftrightarrow> chan_of i (snd cs) = None)"
  using assms
proof (induction gs arbitrary: cs)
  case (Cons g gs)
  have h: "has k (snd (admit_run k now g cs)) = has k (snd cs)"
    using admit_run_admitted(3) [OF Cons.prems, of k k now g] by (simp add: has_def)
  show ?case
    using Cons.IH [OF admit_run_admitted(1) [OF Cons.prems, of k now g]]
      admit_run_admitted(2) [OF Cons.prems, of j k now g] admit_run_admitted(3) [OF Cons.prems, of _ k now g] h
    by (auto simp: algebra_simps)
qed simp

lemma fold_drop_controls:
  "books (fold (\<lambda>q s. drop_control (charged_stream q s) s) qs s) = books s"
  by (induction qs arbitrary: s) auto

lemma set_control_counts_frames [simp]:
  "pending (set_control_counts k cs s) = pending s"
  "chan_of j (set_control_counts k cs s) = None \<longleftrightarrow> chan_of j s = None"
  "s_inflight (set_control_counts k cs s) = s_inflight s" "s_queue (set_control_counts k cs s) = s_queue s"
  "s_closing (set_control_counts k cs s) = s_closing s"
  by (simp_all add: set_control_counts_def)

lemma set_control_counts_due [simp]: "due j (set_control_counts k cs s) = due j s"
  unfolding set_control_counts_def by (subst due_upd_const [where n = 0]) auto

lemma control_reserved: "typed q \<Longrightarrow> is_control q \<Longrightarrow> q_reserved q"
  by (cases "q_stream q") (auto simp: typed_def is_control_def stream_data_def)

lemma all_control_counts:
  "\<forall>q \<in> set qs. typed q \<and> is_control q \<Longrightarrow>
     unreserved (of_stream k qs) = 0 \<and> reserved (of_stream k qs) = int (length (of_stream k qs))"
  by (induction qs) (auto simp: of_stream_Cons control_reserved)

lemma control_not_data: "is_control q \<Longrightarrow> \<not> stream_data k q"
  by (auto simp: is_control_def stream_data_def split: stream.splits)

lemma prepare_timeout:
  assumes "queue_ok s" "prepare_timeout_controls_locked e s = (controls, s')"
  shows "queue_ok s'" "due j s' = due j s" "s_inflight s' = controls" "s_queue s' = []"
    "\<forall>q \<in> set controls. is_control q"
proof -
  define p where "p = pending s"
  define s1 where "s1 = fold (\<lambda>q s. drop_control (charged_stream q s) s)
    (filter (\<lambda>q. \<not> is_control q \<and> \<not> stream_data Base q \<and> \<not> stream_data Prof q) p) s"
  define s2 where "s2 = upd_both zero_counts (s1\<lparr>s_inflight := [], s_queue := []\<rparr>)"
  define cs1 where "cs1 = fold admit_control (filter is_control p) ([], s2)"
  define cs2 where "cs2 = fold (admit_run Base (e_now e)) (runs (filter (stream_data Base) p)) cs1"
  define cs3 where "cs3 = fold (admit_run Prof (e_now e)) (runs (filter (stream_data Prof) p)) cs2"
  define s4 where "s4 = (count_diagnostic_locked ''close_timeout'' (snd cs3))
     \<lparr>s_outcome := Some ''timeout'', s_inflight := fst cs3\<rparr>"
  have eq: "controls = fst cs3" "s' = set_control_counts Prof controls (set_control_counts Base controls s4)"
    using assms(2)
    by (auto simp: prepare_timeout_controls_locked_def Let_def pending_def p_def s1_def s2_def
        cs1_def cs2_def cs3_def s4_def case_prod_unfold)
  have b1: "books s1 = books s" unfolding s1_def by (rule fold_drop_controls)
  have p1: "pending s1 = p" using books_eqD(1) [OF b1] by (simp add: p_def)
  have c2: "cleared s2" by (auto simp: s2_def cleared_def pending_def load_def zero_counts_def)
  have n2: "chan_of k s2 = None \<longleftrightarrow> chan_of k s = None" for k
    using books_eqD(2) [OF b1, of k] by (simp add: s2_def)
  have d2: "due k s2 = due k s + (if chan_of k s = None then 0 else int (length (filter (stream_data k) p)))" for k
  proof -
    have "due k s2 = due k (s1\<lparr>s_inflight := [], s_queue := []\<rparr>)"
      unfolding s2_def by (rule upd_both_due) simp
    then show ?thesis using due_unqueue [of k s1] due_books [OF b1, of k] books_eqD(2) [OF b1, of k] p1 by auto
  qed
  have q: "\<forall>q \<in> set p. typed q \<and> chan_of (q_stream q) s \<noteq> None"
    using assms(1) by (auto simp: queue_ok_def list_all_iff p_def)
  have a0: "admitted ([], s2)" using c2 by (simp add: admitted_def RESERVED_CAPACITY_RECORDS_def MAX_QUEUED_BYTES_def)
  have a1: "admitted cs1 \<and> due k (snd cs1) = due k s2 \<and> (\<forall>i. chan_of i (snd cs1) = None \<longleftrightarrow> chan_of i s2 = None)" for k
    unfolding cs1_def using fold_admit_control [OF a0, of "filter is_control p" k] q n2 by simp
  have a2: "admitted cs2 \<and> due k (snd cs2) = due k s2 -
      (if k = Base then has Base s2 * int (length (filter (stream_data Base) p)) else 0) \<and>
      (\<forall>i. chan_of i (snd cs2) = None \<longleftrightarrow> chan_of i s2 = None)" for k
    unfolding cs2_def using fold_admit_run [of cs1 Base "e_now e" "runs (filter (stream_data Base) p)" k]
      a1 [of k] by (simp add: concat_runs has_def)
  have a3: "admitted cs3 \<and> due k (snd cs3) = due k s2 -
      has k s2 * int (length (filter (stream_data k) p)) \<and>
      (\<forall>i. chan_of i (snd cs3) = None \<longleftrightarrow> chan_of i s2 = None)" for k
    unfolding cs3_def using fold_admit_run [of cs2 Prof "e_now e" "runs (filter (stream_data Prof) p)" k]
      a2 [of k] by (cases k) (simp_all add: concat_runs has_def)
  have cl: "pending (snd cs3) = []" "\<And>k c. chan_of k (snd cs3) = Some c \<Longrightarrow> load c = (0, 0, 0)"
    using a3 by (auto simp: admitted_def cleared_def)
  have ctl: "\<forall>q \<in> set controls. typed q \<and> is_control q"
    and cap: "\<And>k. int (length (of_stream k controls)) \<le> RESERVED_CAPACITY_RECORDS \<and>
      raw_bytes (of_stream k controls) \<le> MAX_QUEUED_BYTES"
    using a3 by (auto simp: admitted_def eq(1))
  have diag: "s_queue (count_diagnostic_locked r t) = s_queue t" "chan_of k (count_diagnostic_locked r t) = chan_of k t"
    for r t k by (simp_all add: count_diagnostic_locked_def Let_def)
  show "\<forall>q \<in> set controls. is_control q" using ctl by blast
  show inf: "s_inflight s' = controls" "s_queue s' = []"
    using cl(1) by (simp_all add: eq s4_def pending_def diag)
  have pend: "pending s' = controls" using inf by (simp add: pending_def)
  have "tally k controls c \<and> within_capacity c" if c: "chan_of k s' = Some c" for k c
  proof -
    obtain c0 where "chan_of k (snd cs3) = Some c0"
      and "c_bytes c = raw_bytes (of_stream k controls)" "c_ordinary c = c_ordinary c0"
        "c_reserved c = int (length (of_stream k controls))"
      using c by (cases k; cases "chan_of k (snd cs3)")
        (auto simp: eq s4_def set_control_counts_def diag)
    then show ?thesis using cl(2) [of k c0] cap [of k] all_control_counts [OF ctl, of k]
      by (simp add: tally_def within_capacity_def load_def DATA_CAPACITY_RECORDS_def)
  qed
  moreover have "chan_of (q_stream q) s' \<noteq> None" if "q \<in> set controls" for q
  proof -
    have "admitted cs3" using a3 by blast
    then have "chan_of (q_stream q) (snd cs3) \<noteq> None" using that by (simp add: admitted_def eq(1))
    then show ?thesis by (simp add: eq s4_def diag)
  qed
  ultimately show "queue_ok s'" using ctl pend by (simp add: queue_ok_def list_all_iff)
  have "due j s' = due j s4" by (simp add: eq(2))
  also have "due j s4 = due j ((snd cs3)\<lparr>s_inflight := controls\<rparr>)"
    by (rule queue_ok_cong(2)) (simp_all add: s4_def pending_def diag eq(1))
  also have "\<dots> = due j (snd cs3)"
    using cl(1) ctl control_not_data by (cases "chan_of j (snd cs3)") (auto simp: due_def pending_def filter_empty_conv)
  also have "\<dots> = due j s"
    using a3 [of j] d2 [of j] n2 [of j] by (auto simp: has_def)
  finally show "due j s' = due j s" .
qed

lemma drop_timeout_controls_facts:
  assumes "queue_ok s" "\<forall>q \<in> set (s_inflight s). is_control q" "s_queue s = []"
  shows "queue_ok (drop_timeout_controls s)" "due j (drop_timeout_controls s) = due j s"
proof -
  define s1 where "s1 = fold (\<lambda>q s. drop_control (charged_stream q s) s) (s_inflight s) s"
  have b: "books s1 = books s" unfolding s1_def by (rule fold_drop_controls)
  have eq: "drop_timeout_controls s = upd_both (\<lambda>c. c\<lparr>c_bytes := 0, c_reserved := 0\<rparr>) (s1\<lparr>s_inflight := []\<rparr>)"
    by (simp add: drop_timeout_controls_def s1_def)
  have q1: "queue_ok s1" using queue_ok_books [OF b assms(1)] .
  have p: "s_queue s1 = []" "s_inflight s1 = s_inflight s" using b assms(3) by (auto simp: books_def)
  have ctl: "\<forall>q \<in> set (pending s1). typed q \<and> is_control q"
    using q1 p assms(2) by (auto simp: queue_ok_def list_all_iff pending_def)
  have "c_ordinary c = 0" if "chan_of k s1 = Some c" for k c
    using that q1 all_control_counts [OF ctl, of k] by (auto simp: queue_ok_def tally_def)
  then show "queue_ok (drop_timeout_controls s)"
    unfolding eq by (intro queue_ok_empty) (auto simp: pending_def p load_def)
  have "due j (drop_timeout_controls s) = due j (s1\<lparr>s_inflight := []\<rparr>)"
    unfolding eq by (rule upd_both_due) simp
  also have "\<dots> = due j s1"
    using ctl p control_not_data by (cases "chan_of j s1") (auto simp: due_def pending_def filter_empty_conv)
  finally show "due j (drop_timeout_controls s) = due j s" using due_books [OF b] by simp
qed

end
