(* ===== verification/Exporter_System.thy ===== *)
theory Exporter_System
  imports Exporter_Accounting
begin

text \<open>
  The exporter as a transition system: producer calls, the critical sections of \<open>close\<close> and the
  steps of the writer thread, in any order. The invariants proved over its reachable states are the
  conservation of records, the bounds of the queue, the single close claim, and what a shard holds
  when its path is handed out.
\<close>

section \<open>What producers leave alone\<close>

definition kept :: "chan \<Rightarrow> string list \<times> string \<times> formal_name \<times> bool \<times> bool \<times> bool \<times> bool \<times> (rtype \<Rightarrow> int) \<times> int" where
  "kept c = (c_lines c, c_disk c, c_formal c, c_linked c, c_incomplete c, c_reservation c,
     c_summary_written c, c_written c, c_writer_failures c)"

definition frame :: "sink \<Rightarrow> _" where
  "frame s = ((\<lambda>k. map_option kept (chan_of k s)),
     (s_inflight s, s_closing s, s_abandoned s, s_claim s, s_deadline s, s_closed s),
     (s_outcome s, s_writer_failed s, s_uuid s, map_option pf_config (s_profile s)))"

lemma config_upd [simp]: "map_option pf_config (s_profile (upd_chan k f s)) = map_option pf_config (s_profile s)"
  by (cases k) (auto simp: upd_chan_def option.map_comp comp_def)

lemma frame_upd: "(\<And>c. kept (f c) = kept c) \<Longrightarrow> frame (upd_chan k f s) = frame s"
  by (auto simp: frame_def fun_eq_iff option.map_comp comp_def)

lemma frame_fields [simp]:
  "frame (s\<lparr>s_queue := x1\<rparr>) = frame s" "frame (s\<lparr>s_next_span := x2\<rparr>) = frame s"
  "frame (s\<lparr>s_diag := x3\<rparr>) = frame s" "frame (s\<lparr>s_pending := x4\<rparr>) = frame s"
  "frame (s\<lparr>s_logged := x4\<rparr>) = frame s"
  by (simp_all add: frame_def)

lemma frame_diagnostic [simp]: "frame (count_diagnostic_locked r s) = frame s"
  by (simp add: count_diagnostic_locked_def Let_def)

lemma frame_drop_control [simp]: "frame (drop_control k s) = frame s"
  by (simp add: drop_control_def frame_upd kept_def)

lemma frame_allocate [simp]: "frame (allocate k s) = frame s"
  by (simp add: allocate_def frame_upd kept_def)

lemma kept_charge [simp]: "kept (charge q c) = kept c"
  by (simp add: kept_def charge_def Let_def)

lemma frame_enqueue: "enqueue_locked q s = (b, s') \<Longrightarrow> frame s' = frame s"
  by (auto simp: enqueue_locked_def frame_upd split: if_splits)

lemma frame_seal_loss [simp]: "frame (seal_loss k s) = frame s"
proof -
  have 1: "frame (upd_chan k (\<lambda>c. c\<lparr>c_next_loss := n c, c_open := None\<rparr>) s) = frame s" for n
    by (rule frame_upd) (simp add: kept_def)
  show ?thesis
    by (auto simp: seal_loss_def Let_def 1 dest: frame_enqueue split: option.splits sum.splits prod.splits)
qed

lemma frame_note_drop [simp]: "frame (note_drop k n rt reason t s) = frame s"
proof -
  have 1: "frame (upd_chan k (\<lambda>c. c\<lparr>c_open := g c\<rparr>) s) = frame s" for g s
    by (rule frame_upd) (simp add: kept_def)
  have 2: "frame (upd_chan k (\<lambda>c. c\<lparr>c_dropped := c_dropped c + 1\<rparr>) s) = frame s" for s
    by (rule frame_upd) (simp add: kept_def)
  show ?thesis by (simp add: note_drop_def Let_def 1 2)
qed

lemma frame_profile:
  "frame (s\<lparr>s_profile := map_option (\<lambda>p. p\<lparr>pf_losses := h p\<rparr>) (s_profile s)\<rparr>) = frame s"
  "frame (s\<lparr>s_profile := map_option (\<lambda>p. p\<lparr>pf_records := h' p\<rparr>) (s_profile s)\<rparr>) = frame s"
  by (auto simp: frame_def fun_eq_iff chan_of_def option.map_comp comp_def split: stream.splits)

lemma frame_profile_drop [simp]: "frame (note_profile_drop_locked n t reason obs s) = frame s"
  by (simp add: note_profile_drop_locked_def Let_def frame_profile split: option.splits)

lemma frame_remember [simp]: "frame (remember_record ref fs s) = frame s"
  by (simp add: remember_record_def frame_profile)

lemma frame_offer:
  "(\<And>r s. frame (account r s) = frame s) \<Longrightarrow> offer account q s = (b, s') \<Longrightarrow> frame s' = frame s"
  by (auto simp: offer_def Let_def dest!: frame_enqueue split: if_splits prod.splits)

lemma frame_clock: "producer_clock_or_drop_locked ck n rt s = (v, s') \<Longrightarrow> frame s' = frame s"
  by (auto simp: producer_clock_or_drop_locked_def note_drop_locked_def split: option.splits)

lemma frame_write_base:
  assumes "write_base rt b line ck s = (r, s')"
  shows "frame s' = frame s"
proof -
  have o: "frame s2 = frame s1" if "offer (\<lambda>reason. note_drop Base n rt reason t') q s1 = (b', s2)"
    for s1 s2 n t' q b' using that by (rule frame_offer [rotated]) simp
  have c: "frame s1 = frame s" if "producer_clock_or_drop_locked ck n rt (allocate Base s) = (v, s1)" for n v s1
    using frame_clock [OF that] by simp
  show ?thesis
    using assms
    by (auto simp: write_base_def Let_def note_drop_locked_def dest!: c o
        split: if_splits option.splits prod.splits sum.splits)
qed

lemma frame_write_profile:
  assumes "write_kv_recovery_profile t ts fs ck s = (r, s')"
  shows "frame s' = frame s"
proof -
  have o: "frame s2 = frame s1"
    if "offer (\<lambda>reason. note_profile_drop_locked n t reason t') q s1 = (b', s2)"
    for s1 s2 n t' q b' using that by (rule frame_offer [rotated]) simp
  show ?thesis
    using assms
    by (auto simp: write_kv_recovery_profile_def Let_def dest!: allocate_profile_Inr o
        split: if_splits option.splits prod.splits sum.splits)
qed

lemma frame_drop_profile: "drop_kv_recovery_profile t ts reason ck s = (r, s') \<Longrightarrow> frame s' = frame s"
  by (auto simp: drop_kv_recovery_profile_def Let_def dest!: allocate_profile_Inr
      split: if_splits sum.splits)

section \<open>The system\<close>

text \<open>What may happen next: a producer call, a critical section of \<open>close\<close>, or a writer step.\<close>

datatype action =
    Do_event event_draft clock
  | Do_edge edge_draft clock
  | Do_profile profile_type pyval pydict clock
  | Do_drop profile_type pyval string clock
  | Do_span
  | Do_defer string
  | Begin_close int
  | Finish_close
  | Bounded_timeout
  | Writer env

type_synonym system = "sink \<times> wphase"

definition on_sink :: "(sink \<Rightarrow> sink) \<Rightarrow> system \<Rightarrow> system" where
  "on_sink f sp = (f (fst sp), snd sp)"

text \<open>
  A close holds \<open>_close_lock\<close> from its first critical section, which sets \<open>_closing\<close>, to its second,
  which claims; so a first section runs only while no close is in progress, and a second one only
  after a first.
\<close>

fun act :: "action \<Rightarrow> system \<Rightarrow> system" where
  "act (Do_event d ck) sp = on_sink (\<lambda>s. snd (write_event d ck s)) sp"
| "act (Do_edge d ck) sp = on_sink (\<lambda>s. snd (write_edge d ck s)) sp"
| "act (Do_profile t ts fs ck) sp = on_sink (\<lambda>s. snd (write_kv_recovery_profile t ts fs ck s)) sp"
| "act (Do_drop t ts r ck) sp = on_sink (\<lambda>s. snd (drop_kv_recovery_profile t ts r ck s)) sp"
| "act Do_span sp = on_sink (\<lambda>s. snd (new_span_id s)) sp"
| "act (Do_defer r) sp = on_sink (defer_diagnostic r) sp"
| "act (Begin_close d) sp =
     (if s_closing (fst sp) \<and> s_claim (fst sp) = None then sp else on_sink (begin_close d) sp)"
| "act Finish_close sp = (if s_closing (fst sp) then on_sink (finish_close (snd sp \<noteq> W_done)) sp else sp)"
| "act Bounded_timeout sp = on_sink bounded_timeout_without_lock sp"
| "act (Writer e) sp = writer_step e sp"

text \<open>The producers' part of the actions.\<close>

fun producer_action :: "action \<Rightarrow> bool" where
  "producer_action (Begin_close d) = False"
| "producer_action Finish_close = False"
| "producer_action Bounded_timeout = False"
| "producer_action (Writer e) = False"
| "producer_action _ = True"

lemma producer_frame:
  assumes "producer_action a"
  shows "frame (fst (act a sp)) = frame (fst sp) \<and> snd (act a sp) = snd sp"
proof (cases a)
  case (Do_event d ck)
  then show ?thesis using frame_write_base [of Event]
    by (simp add: on_sink_def write_event_def) (metis prod.collapse)
next
  case (Do_edge d ck)
  then show ?thesis using frame_write_base [of Edge]
    by (simp add: on_sink_def write_edge_def) (metis prod.collapse)
next
  case (Do_profile t ts fs ck)
  then show ?thesis using frame_write_profile by (simp add: on_sink_def) (metis prod.collapse)
next
  case (Do_drop t ts r ck)
  then show ?thesis using frame_drop_profile by (simp add: on_sink_def) (metis prod.collapse)
qed (use assms in \<open>auto simp: on_sink_def new_span_id_def defer_diagnostic_def\<close>)

lemma producer_books:
  assumes "producer_action a" "queue_ok (fst sp)"
  shows "queue_ok (fst (act a sp)) \<and> due k (fst (act a sp)) = due k (fst sp)"
proof (cases a)
  case (Do_event d ck)
  obtain r s' where w: "write_base Event (ed_event_name d \<in> set TERMINAL_EVENTS) (event_line d (fst sp)) ck (fst sp) = (r, s')"
    by fastforce
  show ?thesis using write_base_ok [OF assms(2) _ w] write_base_due [OF _ w, of k] w Do_event
    by (simp add: on_sink_def write_event_def)
next
  case (Do_edge d ck)
  obtain r s' where w: "write_base Edge False (\<lambda>seq _. edge_line d (fst sp) seq) ck (fst sp) = (r, s')"
    by fastforce
  show ?thesis using write_base_ok [OF assms(2) _ w] write_base_due [OF _ w, of k] w Do_edge
    by (simp add: on_sink_def write_edge_def)
next
  case (Do_profile t ts fs ck)
  obtain r s' where w: "write_kv_recovery_profile t ts fs ck (fst sp) = (r, s')" by fastforce
  show ?thesis using write_profile_ok [OF assms(2) w] write_profile_due [OF w, of k] w Do_profile
    by (simp add: on_sink_def)
next
  case (Do_drop t ts r ck)
  obtain r' s' where w: "drop_kv_recovery_profile t ts r ck (fst sp) = (r', s')" by fastforce
  show ?thesis using drop_profile_ok [OF assms(2) w] drop_profile_due [OF w, of k] w Do_drop
    by (simp add: on_sink_def)
qed (use assms in \<open>auto simp: on_sink_def new_span_id_def defer_diagnostic_def diagnostic_ok\<close>)

text \<open>Once closing has begun a producer changes nothing but diagnostics.\<close>

lemma producer_closing:
  assumes "producer_action a" "s_closing (fst sp)"
  shows "fst (act a sp) = fst sp \<or> (\<exists>r. fst (act a sp) = count_diagnostic_locked r (fst sp))"
  using assms
  by (cases a) (auto simp: on_sink_def write_event_def write_edge_def write_base_def
      write_kv_recovery_profile_def drop_kv_recovery_profile_def new_span_id_def defer_diagnostic_def
      split: option.splits)

section \<open>Conservation of records\<close>

text \<open>Which records are in flight at which point of the writer.\<close>

definition controls_only :: "sink \<Rightarrow> bool" where
  "controls_only s \<longleftrightarrow> s_closing s \<and> s_queue s = [] \<and> (\<forall>q \<in> set (s_inflight s). is_control q)"

fun inflight_ok :: "sink \<Rightarrow> wphase \<Rightarrow> bool" where
  "inflight_ok s W_loop = (\<not> s_abandoned s \<longrightarrow> s_inflight s = [])"
| "inflight_ok s (W_batch qs) = (\<not> s_abandoned s \<longrightarrow> s_inflight s = qs)"
| "inflight_ok s (W_write m q qs) =
     ((\<not> s_abandoned s \<longrightarrow> s_inflight s = q # qs) \<and> (m = Timing_out \<longrightarrow> controls_only s))"
| "inflight_ok s (W_record m q qs) =
     ((\<not> s_abandoned s \<longrightarrow> s_inflight s = q # qs) \<and> (m = Timing_out \<longrightarrow> controls_only s))"
| "inflight_ok s (W_controls qs) = ((\<not> s_abandoned s \<longrightarrow> s_inflight s = qs) \<and> controls_only s)"
| "inflight_ok s W_timeout = s_closing s"
| "inflight_ok s W_drained = (s_closing s \<and> s_queue s = [] \<and> (\<not> s_abandoned s \<longrightarrow> s_inflight s = []))"
| "inflight_ok s (W_summary o') = (s_closing s \<and> s_queue s = [] \<and> (\<not> s_abandoned s \<longrightarrow> s_inflight s = []))"
| "inflight_ok s (W_hidden o') = (s_closing s \<and> s_queue s = [] \<and> (\<not> s_abandoned s \<longrightarrow> s_inflight s = []))"
| "inflight_ok s (W_base_written o') = (s_closing s \<and> s_queue s = [] \<and> (\<not> s_abandoned s \<longrightarrow> s_inflight s = []))"
| "inflight_ok s (W_profile_written o') = (s_closing s \<and> s_queue s = [] \<and> (\<not> s_abandoned s \<longrightarrow> s_inflight s = []))"
| "inflight_ok s (W_flags o') = (s_closing s \<and> s_queue s = [] \<and> (\<not> s_abandoned s \<longrightarrow> s_inflight s = []))"
| "inflight_ok s _ = True"

definition accounted :: "system \<Rightarrow> bool" where
  "accounted sp \<longleftrightarrow> queue_ok (fst sp) \<and> (\<forall>k. due k (fst sp) = 0) \<and> inflight_ok (fst sp) (snd sp)"

end
