(* ===== verification/Exporter_Invariants.thy ===== *)
theory Exporter_Invariants
  imports Exporter_System
begin

text \<open>
  The invariants of the exporter over its reachable states: every action keeps the accounts
  (\<open>accounted\<close>), and \<open>flags\<close> and \<open>same\<close> say which parts of the state a writer step leaves alone.
\<close>

section \<open>Where the exporter starts\<close>

text \<open>Where the exporter starts: a successful initialization, and the writer at its loop.\<close>

definition initial :: "system \<Rightarrow> bool" where
  "initial sp \<longleftrightarrow> snd sp = W_loop \<and> (\<exists>e u pid cd mode prov cfg.
     initialize_writer e u pid cd mode prov cfg = Inr (fst sp))"

definition any_time :: "action \<Rightarrow> system \<Rightarrow> bool" where
  "any_time a sp = True"

lemma initial_shape:
  assumes "initial sp"
  shows "snd sp = W_loop" "\<exists>u cd mode base prof. fst sp = fresh_sink u cd mode (fresh_chan base)
    (map_option (\<lambda>(cfg, raw). \<lparr>pf_config = cfg, pf_chan = fresh_chan raw, pf_records = [], pf_losses = []\<rparr>) prof)"
proof -
  show "snd sp = W_loop" using assms by (simp add: initial_def)
  obtain e u pid cd mode prov cfg where i: "initialize_writer e u pid cd mode prov cfg = Inr (fst sp)"
    using assms by (auto simp: initial_def)
  then obtain raw where "fst sp = fresh_sink u cd mode (fresh_chan raw) None \<or>
      (\<exists>c praw. fst sp = fresh_sink u cd mode (fresh_chan raw)
         (Some \<lparr>pf_config = c, pf_chan = fresh_chan praw, pf_records = [], pf_losses = []\<rparr>))"
    by (auto simp: initialize_writer_def split: option.splits sum.splits dest!: sym [of _ "fst sp"])
  then show "\<exists>u cd mode base prof. fst sp = fresh_sink u cd mode (fresh_chan base)
    (map_option (\<lambda>(cfg, raw). \<lparr>pf_config = cfg, pf_chan = fresh_chan raw, pf_records = [], pf_losses = []\<rparr>) prof)"
  proof (elim disjE exE)
    assume "fst sp = fresh_sink u cd mode (fresh_chan raw) None"
    then show ?thesis by (intro exI [of _ u] exI [of _ cd] exI [of _ mode] exI [of _ raw] exI [of _ None]) simp
  next
    fix c praw assume "fst sp = fresh_sink u cd mode (fresh_chan raw)
         (Some \<lparr>pf_config = c, pf_chan = fresh_chan praw, pf_records = [], pf_losses = []\<rparr>)"
    then show ?thesis
      by (intro exI [of _ u] exI [of _ cd] exI [of _ mode] exI [of _ raw] exI [of _ "Some (c, praw)"]) simp
  qed
qed

lemma fresh_chan_of: "chan_of k (fresh_sink u cd mode (fresh_chan b)
    (map_option (\<lambda>(cfg, raw). \<lparr>pf_config = cfg, pf_chan = fresh_chan raw, pf_records = [], pf_losses = []\<rparr>) prof)) = Some c
    \<Longrightarrow> \<exists>raw. c = fresh_chan raw"
  by (cases k; cases prof) (auto simp: chan_of_def fresh_sink_def)

lemma initial_chan: "initial sp \<Longrightarrow> chan_of k (fst sp) = Some c \<Longrightarrow> \<exists>raw. c = fresh_chan raw"
  using initial_shape(2) fresh_chan_of by metis

lemma initial_fields:
  assumes "initial sp"
  shows "s_queue (fst sp) = []" "s_inflight (fst sp) = []" "s_closing (fst sp) = False"
    "s_closed (fst sp) = False" "s_abandoned (fst sp) = False" "s_writer_failed (fst sp) = False"
    "s_claim (fst sp) = None" "s_outcome (fst sp) = None" "s_pending (fst sp) = []"
    "s_logged (fst sp) = []" "s_deadline (fst sp) = None" "s_next_span (fst sp) = 0"
  using initial_shape(2) [OF assms] by (auto simp: fresh_sink_def)

lemma initial_accounted: "initial sp \<Longrightarrow> accounted sp"
proof -
  assume i: "initial sp"
  have "queue_ok (fst sp)"
    by (rule queue_ok_empty)
      (use initial_fields [OF i] in \<open>auto simp: pending_def load_def fresh_chan_def dest!: initial_chan [OF i]\<close>)
  moreover have "due k (fst sp) = 0" for k
    using initial_fields [OF i] initial_chan [OF i, of k]
    by (cases "chan_of k (fst sp)"; cases k)
      (auto simp: due_def pending_def fresh_chan_def data_written_def total_count_def)
  ultimately show ?thesis using initial_shape(1) [OF i] initial_fields [OF i] by (simp add: accounted_def)
qed

lemma frameD:
  assumes "frame s' = frame s"
  shows "s_inflight s' = s_inflight s" "s_closing s' = s_closing s" "s_abandoned s' = s_abandoned s"
    "s_claim s' = s_claim s" "s_deadline s' = s_deadline s" "s_closed s' = s_closed s"
    "s_outcome s' = s_outcome s" "s_writer_failed s' = s_writer_failed s" "s_uuid s' = s_uuid s"
    "map_option pf_config (s_profile s') = map_option pf_config (s_profile s)"
    "map_option kept (chan_of k s') = map_option kept (chan_of k s)"
  using assms by (auto simp: frame_def fun_eq_iff)

lemma diagnostic_fields [simp]:
  "s_queue (count_diagnostic_locked r s) = s_queue s" "s_inflight (count_diagnostic_locked r s) = s_inflight s"
  "s_closing (count_diagnostic_locked r s) = s_closing s" "s_closed (count_diagnostic_locked r s) = s_closed s"
  "s_abandoned (count_diagnostic_locked r s) = s_abandoned s"
  "s_writer_failed (count_diagnostic_locked r s) = s_writer_failed s"
  "s_claim (count_diagnostic_locked r s) = s_claim s" "s_outcome (count_diagnostic_locked r s) = s_outcome s"
  "s_deadline (count_diagnostic_locked r s) = s_deadline s" "s_uuid (count_diagnostic_locked r s) = s_uuid s"
  "chan_of k (count_diagnostic_locked r s) = chan_of k s" "s_profile (count_diagnostic_locked r s) = s_profile s"
  "s_base (count_diagnostic_locked r s) = s_base s"
  by (simp_all add: count_diagnostic_locked_def Let_def)

lemma inflight_ok_cong:
  assumes "s_inflight s' = s_inflight s" "s_closing s' = s_closing s" "s_abandoned s' = s_abandoned s"
    and "s_closing s \<Longrightarrow> s_queue s' = s_queue s"
  shows "inflight_ok s' ph = inflight_ok s ph"
  using assms by (cases ph) (auto simp: controls_only_def)

lemma producer_accounted:
  assumes "producer_action a" "accounted sp"
  shows "accounted (act a sp)"
proof -
  note f = producer_frame [OF assms(1), of sp]
  have "s_closing (fst sp) \<Longrightarrow> s_queue (fst (act a sp)) = s_queue (fst sp)"
    using producer_closing [OF assms(1), of sp] by auto
  then have "inflight_ok (fst (act a sp)) (snd sp) = inflight_ok (fst sp) (snd sp)"
    using frameD(1-3) [OF conjunct1 [OF f]] by (intro inflight_ok_cong) auto
  then show ?thesis using assms f producer_books [OF assms(1), of sp] by (simp add: accounted_def)
qed

text \<open>The critical sections of close.\<close>

lemma seal_loss_closing: "s_closing s \<Longrightarrow> s_queue (seal_loss k s) = s_queue s"
  by (auto simp: seal_loss_def Let_def enqueue_locked_def can_enqueue_locked_def drop_control_def
      split: option.splits sum.splits prod.splits)


lemma inflight_ok_fields [simp]:
  "inflight_ok (s\<lparr>s_deadline := x6\<rparr>) ph = inflight_ok s ph"
  "inflight_ok (s\<lparr>s_closed := b\<rparr>) ph = inflight_ok s ph"
  "inflight_ok (s\<lparr>s_claim := x5\<rparr>) ph = inflight_ok s ph"
  by (rule inflight_ok_cong; simp)+

lemma claim_inflight [simp]: "inflight_ok (claim_close_result o' b s) ph = inflight_ok s ph"
  by (simp add: claim_close_result_def)

lemma claim_ok [simp]: "queue_ok (claim_close_result o' b s) = queue_ok s"
  "due k (claim_close_result o' b s) = due k s"
  by (simp_all add: claim_close_result_def)

lemma begin_close_accounted:
  assumes "accounted sp"
  shows "accounted (act (Begin_close d) sp)"
proof -
  let ?s = "fst sp" and ?t = "(fst sp)\<lparr>s_deadline := Some d\<rparr>"
  let ?u = "seal_profile_loss_locked (seal_loss_locked ?t)"
  have fr: "frame ?u = frame ?t" by (simp add: seal_profile_loss_locked_def seal_loss_locked_def)
  have q: "s_closing ?t \<Longrightarrow> s_queue ?u = s_queue ?t"
    using frameD(2) [OF frame_seal_loss, of Base ?t]
    by (simp add: seal_profile_loss_locked_def seal_loss_locked_def seal_loss_closing)
  have ok: "queue_ok ?u" "\<And>k. due k ?u = 0"
    using assms by (simp_all add: accounted_def seal_profile_loss_locked_def seal_loss_locked_def seal_loss_ok)
  have closing: "inflight_ok t ph \<Longrightarrow> inflight_ok (t\<lparr>s_closing := True\<rparr>) ph" for t ph
    by (cases ph) (auto simp: controls_only_def)
  have "inflight_ok ?u (snd sp) = inflight_ok ?t (snd sp)"
    using frameD(1-3) [OF fr] q by (rule inflight_ok_cong)
  then have sealed: "accounted (?u\<lparr>s_closing := True\<rparr>, snd sp)"
    using assms ok closing by (simp add: accounted_def)
  have claim: "accounted (claim_close_result o' b ?s, snd sp)" for o' b
    using assms by (simp add: accounted_def)
  have "act (Begin_close d) sp =
      (if s_closing ?s \<and> s_claim ?s = None then sp else (begin_close d ?s, snd sp))"
    by (simp add: on_sink_def)
  then show ?thesis using sealed claim assms unfolding begin_close_def by (simp split: if_split)
qed

lemma inflight_ok_abandoned:
  assumes "s_closing s' = s_closing s" "s_abandoned s'" "s_queue s' = [] \<or> s_queue s' = s_queue s"
    "s_inflight s' = [] \<or> s_inflight s' = s_inflight s" "inflight_ok s ph"
  shows "inflight_ok s' ph"
  using assms by (cases ph) (auto simp: controls_only_def)

lemma claim_fields [simp]:
  "s_inflight (claim_close_result o' b s) = s_inflight s" "s_queue (claim_close_result o' b s) = s_queue s"
  "s_closing (claim_close_result o' b s) = s_closing s" "s_abandoned (claim_close_result o' b s) = s_abandoned s"
  "s_closed (claim_close_result o' b s) = s_closed s" "s_writer_failed (claim_close_result o' b s) = s_writer_failed s"
  "s_outcome (claim_close_result o' b s) = s_outcome s" "chan_of k (claim_close_result o' b s) = chan_of k s"
  "s_uuid (claim_close_result o' b s) = s_uuid s" "s_profile (claim_close_result o' b s) = s_profile s"
  "s_base (claim_close_result o' b s) = s_base s" "s_deadline (claim_close_result o' b s) = s_deadline s"
  by (simp_all add: claim_close_result_def)

lemma abandon_fields [simp]:
  "s_closing (abandon_pending s) = s_closing s"
proof -
  have "s_closing (fold account_unwritten_queued_locked qs s) = s_closing s" for qs s
    by (induction qs arbitrary: s)
      (auto simp: account_unwritten_queued_locked_def drop_data_def drop_control_def split: rtype.splits)
  then show ?thesis by (simp add: abandon_pending_def)
qed

lemma force_timeout_fields [simp]:
  "s_closing (force_timeout_accounting_locked s) = s_closing s"
  "s_queue (force_timeout_accounting_locked s) = []" "s_inflight (force_timeout_accounting_locked s) = []"
  by (simp_all add: force_timeout_accounting_locked_def)

lemma finish_close_accounted:
  assumes "accounted sp"
  shows "accounted (act Finish_close sp)"
proof -
  let ?s = "fst sp"
  let ?s1 = "(force_timeout_accounting_locked ?s)\<lparr>s_abandoned := True, s_closed := True\<rparr>"
  have ok: "queue_ok ?s" "\<And>k. due k ?s = 0" "inflight_ok ?s (snd sp)" using assms by (auto simp: accounted_def)
  have "inflight_ok ?s1 (snd sp)"
    using ok(3) by (rule inflight_ok_abandoned [rotated -1]) simp_all
  then have 1: "accounted (claim_close_result ''timeout'' False ?s1, snd sp)"
    by (simp add: accounted_def force_timeout_ok force_timeout_due ok)
  have 2: "accounted (claim_close_result o' b ?s, snd sp)" for o' b using ok by (simp add: accounted_def)
  have 3: "accounted (claim_close_result o' b ?s, W_done)" if "snd sp = W_done" for o' b
    using 2 [of o' b] that by simp
  have "act Finish_close sp = (if s_closing ?s then (finish_close (snd sp \<noteq> W_done) ?s, snd sp) else sp)"
    by (simp add: on_sink_def)
  then show ?thesis using 1 2 3 assms unfolding finish_close_def by (simp split: if_split)
qed

lemma bounded_timeout_accounted:
  assumes "accounted sp"
  shows "accounted (act Bounded_timeout sp)"
proof -
  let ?s = "fst sp"
  have "inflight_ok ((claim_close_result ''timeout'' False ?s)
      \<lparr>s_abandoned := True, s_closed := True, s_outcome := Some ''timeout''\<rparr>) (snd sp)"
    by (rule inflight_ok_abandoned [of _ ?s]) (use assms in \<open>simp_all add: accounted_def\<close>)
  then show ?thesis using assms
    by (cases sp) (simp add: accounted_def on_sink_def bounded_timeout_without_lock_def)
qed

section \<open>The writer keeps the accounts\<close>

lemma write_all_fields:
  assumes "write_all e k raw s = (ok, s')"
  shows "s_inflight s' = s_inflight s" "s_queue s' = s_queue s" "s_closing s' = s_closing s"
    "s_abandoned s' = s_abandoned s" "ok \<Longrightarrow> \<not> s_abandoned s" "s_claim s' = s_claim s"
    "s_writer_failed s' = s_writer_failed s" "s_outcome s' = s_outcome s" "s_closed s' = s_closed s"
  using assms
  by (auto simp: write_all_def persist_def Let_def split: if_splits option.splits prod.splits)

lemma failure_fields [simp]:
  "s_closing (mark_writer_failure_locked s) = s_closing s"
  "s_inflight (mark_writer_failure_locked s) = []" "s_queue (mark_writer_failure_locked s) = []"
  by (simp_all add: mark_writer_failure_locked_def Let_def)

lemma accounted_finalize:
  "accounted (s, W_finalize) \<longleftrightarrow> queue_ok s \<and> (\<forall>k. due k s = 0)"
  "accounted (s, W_publish) \<longleftrightarrow> queue_ok s \<and> (\<forall>k. due k s = 0)"
  "accounted (s, W_claim) \<longleftrightarrow> queue_ok s \<and> (\<forall>k. due k s = 0)"
  "accounted (s, W_end) \<longleftrightarrow> queue_ok s \<and> (\<forall>k. due k s = 0)"
  "accounted (s, W_done) \<longleftrightarrow> queue_ok s \<and> (\<forall>k. due k s = 0)"
  by (simp_all add: accounted_def)

lemma books_accounted:
  assumes "books s' = books s" "queue_ok s" "\<forall>k. due k s = 0"
  shows "queue_ok s'" "due k s' = 0"
  using queue_ok_books [OF assms(1,2)] due_books [OF assms(1)] assms(3) by simp_all

lemma take_diagnostics_fields:
  assumes "take_pending_diagnostics_locked s = (ds, s')"
  shows "s_inflight s' = s_inflight s" "s_queue s' = s_queue s" "s_closing s' = s_closing s"
    "s_abandoned s' = s_abandoned s" "books s' = books s" "s_claim s' = s_claim s"
    "s_writer_failed s' = s_writer_failed s" "s_outcome s' = s_outcome s" "s_closed s' = s_closed s"
  using assms by (auto simp: take_pending_diagnostics_locked_def Let_def)

lemma loop_accounted:
  assumes "accounted (s, W_loop)"
  shows "accounted (loop_step e s)"
proof -
  obtain ds s1 where d: "take_pending_diagnostics_locked s = (ds, s1)" by fastforce
  note t = take_diagnostics_fields [OF d]
  have a: "queue_ok s1" "\<And>k. due k s1 = 0"
    using assms books_accounted [OF t(5)] by (auto simp: accounted_def)
  obtain batch s2 where b: "take_batch_locked s1 = (batch, s2)" by fastforce
  show ?thesis
  proof (cases "s_abandoned s")
    case True
    then show ?thesis using assms by (simp add: loop_step_def accounted_def)
  next
    case False
    then have inf: "s_inflight s1 = []" using assms t by (simp add: accounted_def)
    note p = take_batch_pending [OF b inf]
    have "queue_ok s2" "\<And>k. due k s2 = 0" using queue_ok_cong [OF p(1,3)] a by auto
    then show ?thesis
      using False assms d b a t inf p(2)
      by (auto simp: loop_step_def accounted_def close_cutoff_reached_locked_def)
  qed
qed

lemma batch_accounted: "accounted (s, W_batch qs) \<Longrightarrow> accounted (batch_step e qs s)"
  by (cases qs) (auto simp: batch_step_def accounted_def close_cutoff_reached_locked_def)

lemma write_accounted:
  assumes "accounted (s, W_write m q qs)"
  shows "accounted (write_step e m q qs s)"
proof -
  obtain ok s1 where w: "write_all e (q_stream q) (q_raw q) s = (ok, s1)" by fastforce
  have b: "books s1 = books s" using books_write_all [of e "q_stream q" "q_raw q" s] w by simp
  have a: "queue_ok s1" "\<And>k. due k s1 = 0"
    using assms books_accounted [OF b] by (auto simp: accounted_def)
  show ?thesis
    using assms w a write_all_fields [OF w]
    by (auto simp: write_step_def accounted_def writer_failure_ok writer_failure_due controls_only_def)
qed

lemma record_fields:
  assumes "\<not> s_abandoned s" "s_inflight s = q # qs" "chan_of (q_stream q) s \<noteq> None"
  shows "s_inflight (record_written q s) = qs" "s_queue (record_written q s) = s_queue s"
    "s_closing (record_written q s) = s_closing s" "s_abandoned (record_written q s) = s_abandoned s"
  using assms by (auto simp: record_written_def Let_def)

lemma record_accounted:
  assumes "accounted (s, W_record m q qs)"
  shows "accounted (record_written q s, after_write m qs)"
proof (cases "s_abandoned s")
  case True
  then show ?thesis using assms
    by (cases m) (auto simp: accounted_def record_written_def after_write_def controls_only_def)
next
  case False
  then have inf: "s_inflight s = q # qs" using assms by (simp add: accounted_def)
  have "chan_of (q_stream q) s \<noteq> None"
    using assms inf by (auto simp: accounted_def queue_ok_def pending_def)
  note r = record_fields [OF False inf this]
  have "inflight_ok (record_written q s) (after_write m qs)"
    using assms r inf by (cases m) (auto simp: accounted_def after_write_def controls_only_def)
  then show ?thesis using assms record_written_both [of s q] by (simp add: accounted_def)
qed


section \<open>The writer keeps the accounts, continued\<close>

definition flags :: "sink \<Rightarrow> _" where
  "flags s = (s_closing s, s_abandoned s, s_claim s, s_closed s, s_writer_failed s, s_deadline s,
     s_uuid s, s_forked s)"

lemma flags_simps [simp]:
  "flags (upd_chan k f s) = flags s" "flags (upd_both f s) = flags s" "flags (drop_control k s) = flags s"
  "flags (count_diagnostic_locked r s) = flags s" "flags (s\<lparr>s_queue := x1\<rparr>) = flags s"
  "flags (s\<lparr>s_inflight := x1\<rparr>) = flags s" "flags (s\<lparr>s_outcome := x7\<rparr>) = flags s"
  "flags (set_control_counts k cs s) = flags s" "flags (set_summary_written k b s) = flags s"
  by (simp_all add: flags_def upd_both_def drop_control_def count_diagnostic_locked_def
      set_control_counts_def set_summary_written_def Let_def upd_chan_def split: stream.splits)

lemma flags_fold: "(\<And>x s. flags (f x s) = flags s) \<Longrightarrow> flags (fold f xs s) = flags s"
  by (induction xs arbitrary: s) auto

lemma flagsD:
  "flags s' = flags s \<Longrightarrow> s_closing s' = s_closing s" "flags s' = flags s \<Longrightarrow> s_abandoned s' = s_abandoned s"
  "flags s' = flags s \<Longrightarrow> s_claim s' = s_claim s" "flags s' = flags s \<Longrightarrow> s_closed s' = s_closed s"
  "flags s' = flags s \<Longrightarrow> s_writer_failed s' = s_writer_failed s"
  "flags s' = flags s \<Longrightarrow> s_deadline s' = s_deadline s" "flags s' = flags s \<Longrightarrow> s_uuid s' = s_uuid s"
  by (simp_all add: flags_def)

lemma flags_admit: "flags (snd (admit_control q cs)) = flags (snd cs)"
  by (auto simp: admit_control_def Let_def split: prod.splits)

lemma flags_timeout_loss: "flags (snd (timeout_loss_control k now g s)) = flags s"
  by (auto simp: timeout_loss_control_def Let_def split: option.splits sum.splits)

lemma flags_admit_run: "flags (snd (admit_run k now g cs)) = flags (snd cs)"
  using flags_timeout_loss [of k now g "snd cs"]
  by (auto simp: admit_run_def flags_admit split: prod.splits option.splits)

lemma flags_fold_pair:
  "(\<And>x cs. flags (snd (f x cs)) = flags (snd cs)) \<Longrightarrow> flags (snd (fold f xs cs)) = flags (snd (cs :: 'x \<times> sink))"
  by (induction xs arbitrary: cs) auto

lemma flags_prepare:
  assumes "prepare_timeout_controls_locked e s = (controls, s')"
  shows "flags s' = flags s"
proof -
  have "flags (snd (prepare_timeout_controls_locked e s)) = flags s"
    by (simp add: prepare_timeout_controls_locked_def Let_def case_prod_unfold
        flags_fold_pair flags_admit flags_admit_run flags_fold)
  then show ?thesis using assms by simp
qed

lemma flags_drop_timeout [simp]: "flags (drop_timeout_controls s) = flags s"
  by (simp add: drop_timeout_controls_def flags_fold)

lemma flags_persist [simp]: "flags (snd (persist e k raw s)) = flags s" "flags (snd (write_all e k raw s)) = flags s"
  by (auto simp: persist_def write_all_def Let_def split: option.splits prod.splits)

lemma flags_reserve:
  "reserve_control k raw s = Some s1 \<Longrightarrow> flags s1 = flags s" "flags (release_control k raw s) = flags s"
  by (auto simp: reserve_control_def release_control_def split: option.splits if_splits)

lemma flags_reserved_control:
  assumes "\<And>s. flags (snd (w s)) = flags s"
  shows "flags (snd (write_reserved_control_via k raw w s)) = flags s"
proof (cases "reserve_control k raw s")
  case (Some s1)
  then show ?thesis using assms [of s1] flags_reserve(1) [OF Some]
    by (simp add: write_reserved_control_via_def Let_def case_prod_unfold flags_reserve(2))
qed (simp add: write_reserved_control_via_def)

lemma flags_summary_record [simp]: "flags (snd (write_summary_record e k o' s)) = flags s"
  by (auto simp: write_summary_record_def flags_reserved_control split: option.splits sum.splits)

lemma flags_hide [simp]: "flags (snd (hide e k s)) = flags s"
  by (auto simp: hide_def Let_def split: option.splits prod.splits)

lemma flags_diagnostics [simp]: "flags (snd (take_pending_diagnostics_locked s)) = flags s"
  "flags (flush_diagnostics s) = flags s"
  by (simp_all add: take_pending_diagnostics_locked_def flush_diagnostics_def flags_def Let_def)

lemma flags_invalidation [simp]: "flags (append_invalidation e k s) = flags s"
  "flags (append_timeout_invalidation e s) = flags s"
  by (auto simp: append_invalidation_def append_timeout_invalidation_def Let_def flags_reserved_control
      split: option.splits sum.splits)

text \<open>What a step that writes a summary, hides a shard or changes the file fields leaves alone.\<close>

definition same :: "sink \<Rightarrow> sink \<Rightarrow> bool" where
  "same s' s \<longleftrightarrow> books s' = books s \<and> flags s' = flags s"

lemma same_refl [simp]: "same s s" by (simp add: same_def)

lemma same_trans: "same s'' s' \<Longrightarrow> same s' s \<Longrightarrow> same s'' s" by (simp add: same_def)

lemma same_accounted:
  assumes "same s' s" "queue_ok s" "\<forall>k. due k s = 0"
  shows "queue_ok s'" "due k s' = 0" "s_closing s' = s_closing s" "s_abandoned s' = s_abandoned s"
    "s_inflight s' = s_inflight s" "s_queue s' = s_queue s"
  using assms books_accounted [of s' s] by (auto simp: same_def dest: flagsD) (simp_all add: books_def)

lemma accounted_settled: "accounted (s, ph) \<Longrightarrow> settled s"
  by (simp add: accounted_def queue_ok_settled)

lemma same_snd:
  "hide e k s = (ok, s') \<Longrightarrow> same s' s"
  "write_summary_record e k o' s = (r, s') \<Longrightarrow> settled s \<Longrightarrow> same s' s"
  "write_all e k raw s = (ok, s') \<Longrightarrow> same s' s"
  by (metis same_def snd_conv books_hide flags_hide, metis same_def snd_conv books_summary_record flags_summary_record,
      metis same_def snd_conv books_write_all flags_persist(2))


lemma accounted_same:
  assumes "same s' s" "accounted (s, ph)"
    and "inflight_ok s ph \<Longrightarrow> inflight_ok s' ph'"
  shows "accounted (s', ph')"
  using same_accounted(1,2) [OF assms(1)] assms(2,3) by (simp add: accounted_def)

lemma accounted_failure:
  assumes "same s' s" "accounted (s, ph)"
  shows "accounted (mark_writer_failure_locked s', W_finalize)"
  using same_accounted(1,2) [OF assms(1)] assms(2)
  by (simp add: accounted_def writer_failure_ok writer_failure_due)

lemma accounted_finish:
  assumes "same s' s" "accounted (s, ph)"
  shows "accounted (s'\<lparr>s_outcome := x\<rparr>, W_finalize)" "accounted (s', W_finalize)"
  using same_accounted(1,2) [OF assms(1)] assms(2) by (simp_all add: accounted_def)

lemma timeout_accounted:
  assumes "accounted (s, W_timeout)"
  shows "accounted (writer_step e (s, W_timeout))"
proof -
  obtain cs s' where p: "prepare_timeout_controls_locked e s = (cs, s')" by fastforce
  have "queue_ok s" using assms by (simp add: accounted_def)
  note f = prepare_timeout [OF this p]
  show ?thesis using assms f flagsD(1) [OF flags_prepare [OF p]]
    by (simp add: writer_step_def p accounted_def controls_only_def)
qed

lemma controls_accounted:
  assumes "accounted (s, W_controls qs)"
  shows "accounted (controls_step e qs s)"
proof -
  have a: "queue_ok s" "\<And>k. due k s = 0" "controls_only s" "\<not> s_abandoned s \<longrightarrow> s_inflight s = qs"
    using assms by (auto simp: accounted_def)
  then have d: "queue_ok (drop_timeout_controls s)" "\<And>k. due k (drop_timeout_controls s) = 0"
    using drop_timeout_controls_facts [of s] by (auto simp: controls_only_def)
  show ?thesis using a d
    by (cases qs) (auto simp: controls_step_def accounted_def controls_only_def)
qed

lemma drained_accounted:
  assumes "accounted (s, W_drained)"
  shows "accounted (writer_step e (s, W_drained))"
  using assms accounted_failure [OF same_refl assms] by (simp add: writer_step_def accounted_def)

lemma summary_accounted:
  assumes "accounted (s, W_summary o')"
  shows "accounted (summary_step e o' s)"
proof -
  obtain b1 s1 b2 s2 where h: "hide e Base s = (b1, s1)" "hide e Prof s1 = (b2, s2)" by fastforce
  have s: "same s1 s" "same s2 s" using same_snd(1) [OF h(1)] same_snd(1) [OF h(2)] same_trans by blast+
  have inf: "inflight_ok s2 (W_hidden o')"
    using assms same_accounted(3-6) [OF s(2)] by (simp add: accounted_def)
  show ?thesis
    using accounted_finish(1) [OF same_refl assms] accounted_failure [OF s(1) assms]
      accounted_failure [OF s(2) assms] accounted_same [OF s(2) assms, of "W_hidden o'"] inf
    by (simp add: summary_step_def h)
qed

lemma hidden_accounted:
  assumes "accounted (s, W_hidden o')"
  shows "accounted (hidden_step e o' s)"
proof -
  obtain r s1 where w: "write_summary_record e Base o' s = (r, s1)" by fastforce
  note s = same_snd(2) [OF w accounted_settled [OF assms]]
  have inf: "inflight_ok s1 (W_base_written o')"
    using assms same_accounted(3-6) [OF s] by (simp add: accounted_def)
  show ?thesis
    using accounted_finish(1) [OF same_refl assms] accounted_failure [OF s assms]
      accounted_finish(1) [OF s assms] accounted_same [OF s assms, of "W_base_written o'"] inf
    by (cases r) (simp_all add: hidden_step_def w split: bool.split)
qed

lemma settled_outcome [simp]: "settled (s\<lparr>s_outcome := x\<rparr>) = settled s"
  by (rule settled_books) simp

lemma same_invalidation:
  "settled s \<Longrightarrow> same (append_timeout_invalidation e (s\<lparr>s_outcome := x\<rparr>)) (s\<lparr>s_outcome := x\<rparr>)"
  "same (s\<lparr>s_outcome := x\<rparr>) s" "settled s \<Longrightarrow> same (append_timeout_invalidation e s) s"
  "same (set_summary_written k b s) s" "same (flush_diagnostics s) s"
  by (simp_all add: same_def)

lemma base_written_accounted:
  assumes "accounted (s, W_base_written o')"
  shows "accounted (base_written_step e o' s)"
proof -
  obtain r s1 where w: "write_summary_record e Prof o' s = (r, s1)" by fastforce
  note s = same_snd(2) [OF w accounted_settled [OF assms]]
  have i: "same (append_timeout_invalidation e (s\<lparr>s_outcome := Some ''timeout''\<rparr>)) s"
    using same_trans same_invalidation(1,2) accounted_settled [OF assms] by blast
  have inf: "inflight_ok s1 (W_profile_written o')" "inflight_ok s (W_flags o')"
    using assms same_accounted(3-6) [OF s] by (simp_all add: accounted_def)
  show ?thesis
    using accounted_finish(2) [OF i assms] accounted_failure [OF s assms] assms
      accounted_finish(1) [OF s assms] accounted_same [OF s assms, of "W_profile_written o'"] inf
    by (cases r) (simp_all add: base_written_step_def w accounted_def split: bool.split)
qed

lemma profile_written_accounted:
  assumes "accounted (s, W_profile_written o')"
  shows "accounted (profile_written_step e o' s)"
proof -
  have i: "same (append_timeout_invalidation e (s\<lparr>s_outcome := Some ''timeout''\<rparr>)) s"
    using same_trans same_invalidation(1,2) accounted_settled [OF assms] by blast
  note s = same_invalidation(4) [of Prof True s]
  have "inflight_ok (set_summary_written Prof True s) (W_flags o')"
    using assms same_accounted(3-6) [OF s] by (simp add: accounted_def)
  then show ?thesis
    using accounted_finish(2) [OF i assms] accounted_same [OF s assms, of "W_flags o'"]
    by (simp add: profile_written_step_def)
qed

lemma flags_accounted: "accounted (s, W_flags o') \<Longrightarrow> accounted (flags_step o' s)"
  using accounted_finish(1) [OF same_invalidation(4)] by (simp add: flags_step_def)

lemma publication_accounted:
  assumes "queue_ok s" "\<forall>k. due k s = 0"
  shows "queue_ok (mark_publication_failure s)" "due k (mark_publication_failure s) = 0"
    "queue_ok (flush_diagnostics (mark_publication_failure s))" "due k (flush_diagnostics (mark_publication_failure s)) = 0"
    "queue_ok (flush_diagnostics s)" "due k (flush_diagnostics s) = 0"
  using assms mark_publication_ok mark_publication_due same_accounted(1,2) [OF same_invalidation(5)] by auto

lemma finalize_accounted:
  assumes "accounted (s, W_finalize)"
  shows "accounted (finalize_step e s)"
proof -
  let ?i = "append_timeout_invalidation e s"
  let ?u = "(set_summary_written Base False ?i)\<lparr>s_outcome := Some ''timeout''\<rparr>"
  have "same ?u s"
    using accounted_settled [OF assms] by (simp add: same_def)
  from accounted_finish(2) [OF this assms]
  have u: "queue_ok ?u" "\<And>k. due k ?u = 0" unfolding accounted_finalize by blast+
  have s: "queue_ok s" "\<And>k. due k s = 0" using assms by (auto simp: accounted_def)
  have "accounted (flush_diagnostics t, W_publish)" "accounted (flush_diagnostics (mark_publication_failure t), W_publish)"
    if "queue_ok t" "\<forall>k. due k t = 0" for t
    using publication_accounted [OF that] by (simp_all add: accounted_finalize)
  then show ?thesis using u s by (simp only: finalize_step_def Let_def split: if_split) blast
qed

lemma accounted_books:
  assumes "books s' = books s" "accounted (s, ph)"
  shows "accounted (s', W_end)" "accounted (s', W_claim)" "accounted (s', W_done)"
    "accounted (flush_diagnostics s', W_end)" "accounted (flush_diagnostics (mark_publication_failure s'), W_end)"
proof -
  have "queue_ok s" "\<forall>k. due k s = 0" using assms(2) by (simp_all add: accounted_def)
  note a = books_accounted [OF assms(1) this]
  then show "accounted (s', W_end)" "accounted (s', W_claim)" "accounted (s', W_done)"
    "accounted (flush_diagnostics s', W_end)" "accounted (flush_diagnostics (mark_publication_failure s'), W_end)"
    by (simp_all add: accounted_finalize publication_accounted)
qed

lemma publish_accounted:
  assumes "accounted (s, W_publish)"
  shows "accounted (publish_step e s)"
  using assms accounted_settled [OF assms] settled_books [OF books_replace, of Base s]
  by (simp add: publish_step_def Let_def accounted_books [OF _ assms])

lemma claim_accounted:
  assumes "accounted (s, W_claim)"
  shows "accounted (claim_step e s)"
proof -
  have b: "books (upd_both (\<lambda>c. c\<lparr>c_summary_written := x\<rparr>) t) = books t"
    "books (upd_both (\<lambda>c. c\<lparr>c_incomplete := x, c_reservation := y\<rparr>) t) = books t" for t x y
    by (simp_all add: books_upd_both book_def)
  show ?thesis using accounted_settled [OF assms]
    by (simp add: claim_step_def accounted_books [OF _ assms] b)
qed

lemma end_accounted: "accounted (s, W_end) \<Longrightarrow> accounted (end_step s)"
  by (simp add: end_step_def Let_def accounted_finalize split: option.split)

lemma writer_accounted:
  assumes "accounted (s, ph)"
  shows "accounted (writer_step e (s, ph))"
proof (cases ph)
  case W_timeout then show ?thesis using timeout_accounted assms by simp
next
  case W_drained then show ?thesis using drained_accounted assms by simp
qed (use assms in \<open>simp_all add: writer_step_def loop_accounted batch_accounted write_accounted
    record_accounted controls_accounted summary_accounted hidden_accounted base_written_accounted
    profile_written_accounted flags_accounted finalize_accounted publish_accounted claim_accounted end_accounted\<close>)

lemma act_accounted:
  assumes "accounted sp"
  shows "accounted (act a sp)"
proof (cases "producer_action a")
  case True then show ?thesis using producer_accounted assms by blast
next
  case False
  then show ?thesis
    using assms begin_close_accounted finish_close_accounted bounded_timeout_accounted
      writer_accounted [of "fst sp" "snd sp"] by (cases a) (simp_all del: act.simps(7-9))
qed

interpretation conservation: invariant initial any_time act accounted
  by unfold_locales (auto intro: initial_accounted act_accounted)

abbreviation reachable :: "system \<Rightarrow> bool" where
  "reachable \<equiv> reach initial any_time act"

section \<open>What no writer step changes\<close>

text \<open>
  The claim, the request to close, its deadline, abandonment and the identity of the shard. Only the two steps
  that claim touch any of these.
\<close>

definition held :: "sink \<Rightarrow> _" where
  "held s = (s_claim s, s_closing s, s_deadline s, s_uuid s, s_abandoned s)"

lemma flags_held: "flags s' = flags s \<Longrightarrow> held s' = held s"
  by (simp add: flags_def held_def)

lemma held_simps [simp]:
  "held (upd_chan k f s) = held s" "held (upd_both f s) = held s"
  "held (s\<lparr>s_queue := x1\<rparr>) = held s" "held (s\<lparr>s_inflight := x1\<rparr>) = held s"
  "held (s\<lparr>s_outcome := x7\<rparr>) = held s" "held (s\<lparr>s_writer_failed := b\<rparr>) = held s"
  "held (s\<lparr>s_closed := b\<rparr>) = held s"
  by (simp_all add: held_def)

lemma held_flags [simp]:
  "held (count_diagnostic_locked r s) = held s" "held (set_summary_written k b s) = held s"
  "held (flush_diagnostics s) = held s" "held (append_timeout_invalidation e s) = held s"
  "held (append_invalidation e k s) = held s" "held (drop_timeout_controls s) = held s"
  by (rule flags_held; simp)+

lemma held_account [simp]: "held (account_unwritten_queued_locked q s) = held s"
  by (auto simp: account_unwritten_queued_locked_def drop_data_def drop_control_def split: rtype.splits)

lemma held_fold: "(\<And>x s. held (f x s) = held s) \<Longrightarrow> held (fold f xs s) = held s"
  by (induction xs arbitrary: s) auto

lemma held_failure [simp]:
  "held (abandon_pending s) = held s" "held (mark_writer_failure_locked s) = held s"
  "held (mark_publication_failure s) = held s" "held (force_timeout_accounting_locked s) = held s"
  by (simp_all add: abandon_pending_def mark_writer_failure_locked_def mark_publication_failure_def
      force_timeout_accounting_locked_def Let_def held_fold)

lemma held_record [simp]: "held (record_written q s) = held s"
  by (simp add: record_written_def Let_def split: list.split)

lemma held_names [simp]:
  "held (replace_formal k s) = held s" "held (retract_published e k s) = held s"
  "held (retract_all e s) = held s"
  by (simp_all add: replace_formal_def retract_published_def retract_all_def split: retraction.split)

lemma held_snd:
  "hide e k s = (b, s') \<Longrightarrow> held s' = held s" "write_summary_record e k o' s = (r, s') \<Longrightarrow> held s' = held s"
  "write_all e k raw s = (b, s') \<Longrightarrow> held s' = held s"
  by (metis flags_held flags_hide snd_conv, metis flags_held flags_summary_record snd_conv,
      metis flags_held flags_persist(2) snd_conv)

lemma held_prepare: "prepare_timeout_controls_locked e s = (cs, s') \<Longrightarrow> held s' = held s"
  by (drule flags_prepare) (erule flags_held)

lemma held_take_diagnostics: "take_pending_diagnostics_locked s = (ds, s') \<Longrightarrow> held s' = held s"
  by (rule flags_held) (metis flags_diagnostics(1) snd_conv)

lemma held_take_batch: "take_batch_locked s = (qs, s') \<Longrightarrow> held s' = held s"
  by (cases "split_batch 0 0 (s_queue s)") (simp add: take_batch_locked_def, auto)

lemmas held_pairs = held_prepare held_take_diagnostics held_take_batch

lemma writer_held:
  assumes "writer_step e (s, ph) = (s', ph')" "ph \<noteq> W_claim" "ph \<noteq> W_end"
  shows "held s' = held s"
proof (cases ph)
  case W_loop
  then show ?thesis using assms
    by (auto simp: writer_step_def loop_step_def Let_def dest!: held_pairs split: if_splits prod.splits)
next
  case (W_batch qs)
  then show ?thesis using assms
    by (auto simp: writer_step_def batch_step_def split: if_splits list.splits)
next
  case (W_controls qs)
  then show ?thesis using assms
    by (auto simp: writer_step_def controls_step_def split: if_splits list.splits)
next
  case (W_write m q qs)
  then show ?thesis using assms
    by (auto simp: writer_step_def write_step_def Let_def dest: held_snd split: if_splits prod.splits)
next
  case W_timeout
  then show ?thesis using assms
    by (auto simp: writer_step_def dest: held_pairs split: prod.splits)
next
  case (W_summary o')
  then show ?thesis using assms
    by (auto simp: writer_step_def summary_step_def Let_def dest!: held_snd split: if_splits prod.splits)
next
  case (W_hidden o')
  then show ?thesis using assms
    by (auto simp: writer_step_def hidden_step_def dest!: held_snd split: if_splits prod.splits sum.splits bool.splits)
next
  case (W_base_written o')
  then show ?thesis using assms
    by (auto simp: writer_step_def base_written_step_def dest!: held_snd split: if_splits prod.splits sum.splits bool.splits)
qed (use assms in \<open>auto simp: writer_step_def profile_written_step_def flags_step_def finalize_step_def
    publish_step_def Let_def split: if_splits\<close>)

lemma claim_kept: "s_claim s = Some r \<Longrightarrow> s_claim (claim_close_result o' b s) = Some r"
  by (simp add: claim_close_result_def)

lemma claim_step_claim: "s_claim s = Some r \<Longrightarrow> s_claim (fst (claim_step e s)) = Some r"
proof -
  have *: "s_claim t = Some r" if "held t = held s" "s_claim s = Some r" for t
    using that by (simp add: held_def)
  assume "s_claim s = Some r"
  then show ?thesis by (auto simp: claim_step_def intro: *)
qed

lemma writer_claim:
  assumes "s_claim s = Some r" "writer_step e (s, ph) = (s', ph')"
  shows "s_claim s' = Some r"
proof (cases "ph = W_claim \<or> ph = W_end")
  case False
  then show ?thesis using writer_held [OF assms(2)] assms(1) by (simp add: held_def)
next
  case True
  then show ?thesis using assms claim_step_claim [OF assms(1), of e]
    by (auto simp: writer_step_def end_step_def Let_def)
qed

lemma act_claim:
  assumes "s_claim (fst sp) = Some r"
  shows "s_claim (fst (act a sp)) = Some r"
proof (cases "producer_action a")
  case True
  then show ?thesis using producer_frame [OF True, of sp] frameD(4) assms by metis
next
  case False
  obtain s ph where sp: "sp = (s, ph)" by fastforce
  have w: "s_claim (fst (writer_step e (s, ph))) = Some r" for e
    using writer_claim [of s r e ph "fst (writer_step e (s, ph))" "snd (writer_step e (s, ph))"] assms sp by simp
  show ?thesis
    using assms False w
    by (cases a) (auto simp: sp on_sink_def begin_close_def finish_close_def bounded_timeout_without_lock_def)
qed

fun act_all :: "action list \<Rightarrow> system \<Rightarrow> system" where
  "act_all [] sp = sp"
| "act_all (a # as) sp = act_all as (act a sp)"

lemma act_all_reachable: "reachable sp \<Longrightarrow> reachable (act_all as sp)"
proof (induction as arbitrary: sp)
  case (Cons a as)
  have "reachable (act a sp)" by (rule reach_step [OF Cons.prems]) (simp add: any_time_def)
  then show ?case using Cons.IH by simp
qed simp

end
