(* ===== verification/Exporter_Shards.thy ===== *)
theory Exporter_Shards
  imports Exporter_Invariants
begin

text \<open>
  What the shards hold: which bytes are on disk at which point of the writer, and what is true of
  them once \<open>drained\<close> is claimed. The invariant \<open>intact\<close> is interpreted twice, for all runs and for
  the runs in which the writer never meets its deadline.
\<close>

section \<open>The text of a shard\<close>

definition chan_text :: "chan \<Rightarrow> string list \<times> string \<times> bool \<times> formal_name \<times> bool \<times> bool \<times> bool" where
  "chan_text c = (c_lines c, c_disk c, c_summary_written c, c_formal c, c_linked c, c_incomplete c,
     c_reservation c)"

definition shard_text :: "sink \<Rightarrow> stream \<Rightarrow> _ option" where
  "shard_text s k = map_option chan_text (chan_of k s)"

lemma shard_text_upd: "(\<And>c. chan_text (f c) = chan_text c) \<Longrightarrow> shard_text (upd_chan k f s) = shard_text s"
  by (auto simp: shard_text_def fun_eq_iff option.map_comp comp_def)

lemma shard_text_upd_both: "(\<And>c. chan_text (f c) = chan_text c) \<Longrightarrow> shard_text (upd_both f s) = shard_text s"
  by (auto simp: shard_text_def fun_eq_iff option.map_comp comp_def)

lemma shard_text_fields [simp]:
  "shard_text (s\<lparr>s_queue := x1\<rparr>) = shard_text s" "shard_text (s\<lparr>s_inflight := x1\<rparr>) = shard_text s"
  "shard_text (s\<lparr>s_outcome := x7\<rparr>) = shard_text s" "shard_text (s\<lparr>s_writer_failed := b\<rparr>) = shard_text s"
  "shard_text (s\<lparr>s_abandoned := b\<rparr>) = shard_text s" "shard_text (s\<lparr>s_closed := b\<rparr>) = shard_text s"
  "shard_text (s\<lparr>s_closing := b\<rparr>) = shard_text s" "shard_text (s\<lparr>s_deadline := x6\<rparr>) = shard_text s"
  "shard_text (s\<lparr>s_claim := x8\<rparr>) = shard_text s" "shard_text (count_diagnostic_locked r s) = shard_text s"
  by (simp_all add: shard_text_def fun_eq_iff)

lemma shard_text_controls [simp]:
  "shard_text (drop_control k s) = shard_text s" "shard_text (set_control_counts k cs s) = shard_text s"
  "shard_text (account_unwritten_queued_locked q s) = shard_text s"
  by (auto simp: drop_control_def set_control_counts_def account_unwritten_queued_locked_def drop_data_def
      shard_text_upd chan_text_def split: rtype.split)

lemma shard_text_fold: "(\<And>x s. shard_text (f x s) = shard_text s) \<Longrightarrow> shard_text (fold f xs s) = shard_text s"
  by (induction xs arbitrary: s) auto

lemma shard_text_failure [simp]:
  "shard_text (abandon_pending s) = shard_text s" "shard_text (mark_writer_failure_locked s) = shard_text s"
  "shard_text (drop_timeout_controls s) = shard_text s"
  by (simp_all add: abandon_pending_def mark_writer_failure_locked_def drop_timeout_controls_def Let_def
      shard_text_upd_both shard_text_fold chan_text_def zero_counts_def)

lemma shard_text_diagnostics:
  "take_pending_diagnostics_locked s = (ds, s') \<Longrightarrow> shard_text s' = shard_text s"
  "take_batch_locked s = (qs, s') \<Longrightarrow> shard_text s' = shard_text s"
  by (auto simp: take_pending_diagnostics_locked_def take_batch_locked_def Let_def shard_text_def fun_eq_iff
      split: prod.splits)

lemma shard_text_flush [simp]: "shard_text (flush_diagnostics s) = shard_text s"
  by (simp add: flush_diagnostics_def take_pending_diagnostics_locked_def Let_def shard_text_def fun_eq_iff)

lemma shard_text_fold_pair:
  "(\<And>x cs. shard_text (snd (f x cs)) = shard_text (snd cs)) \<Longrightarrow>
     shard_text (snd (fold f xs cs)) = shard_text (snd (cs :: 'x \<times> sink))"
  by (induction xs arbitrary: cs) auto

lemma shard_text_admit: "shard_text (snd (admit_control q cs)) = shard_text (snd cs)"
  by (auto simp: admit_control_def Let_def split: prod.splits)

lemma shard_text_timeout_loss: "shard_text (snd (timeout_loss_control k now g s)) = shard_text s"
  by (auto simp: timeout_loss_control_def Let_def shard_text_upd chan_text_def split: option.splits sum.splits)

lemma shard_text_admit_run: "shard_text (snd (admit_run k now g cs)) = shard_text (snd cs)"
  using shard_text_timeout_loss [of k now g "snd cs"]
  by (auto simp: admit_run_def shard_text_admit split: prod.splits option.splits)

lemma shard_text_prepare:
  assumes "prepare_timeout_controls_locked e s = (controls, s')"
  shows "shard_text s' = shard_text s"
proof -
  have "shard_text (snd (prepare_timeout_controls_locked e s)) = shard_text s"
    by (simp add: prepare_timeout_controls_locked_def Let_def case_prod_unfold shard_text_fold_pair
        shard_text_admit shard_text_admit_run shard_text_fold shard_text_upd_both chan_text_def zero_counts_def)
  then show ?thesis using assms by simp
qed

section \<open>Writing\<close>

text \<open>What one turn of the loop does.\<close>

lemma write_loop_stop:
  "\<not> (\<exists>n. w i = Wrote n \<and> 0 < n \<and> n \<le> int (length view)) \<Longrightarrow> write_loop w i view = ([], view = [])"
  by (subst write_loop.simps, cases "w i") (simp_all, auto)

lemma write_loop_turn:
  assumes "w i = Wrote n" "0 < n" "n \<le> int (length view)"
  shows "write_loop w i view =
    (take (nat n) view @ fst (write_loop w (Suc i) (drop (nat n) view)),
     snd (write_loop w (Suc i) (drop (nat n) view)))"
proof -
  have "view \<noteq> []" using assms by auto
  then show ?thesis using assms by (subst write_loop.simps) (simp add: case_prod_unfold Let_def)
qed

lemma write_loop_prefix:
  "prefix (fst (write_loop w i view)) view \<and> (snd (write_loop w i view) \<longleftrightarrow> fst (write_loop w i view) = view)"
proof (induction w i view rule: write_loop.induct)
  case (1 w i view)
  show ?case
  proof (cases "\<exists>n. w i = Wrote n \<and> 0 < n \<and> n \<le> int (length view)")
    case False
    then show ?thesis by (auto simp: write_loop_stop)
  next
    case True
    then obtain n where n: "w i = Wrote n" "0 < n" "n \<le> int (length view)" by blast
    define d where "d = drop (nat n) view"
    define u where "u = take (nat n) view"
    have v: "view = u @ d" by (simp add: u_def d_def)
    have ne: "view \<noteq> []" using n by auto
    have IH: "prefix (fst (write_loop w (Suc i) d)) d \<and>
        (snd (write_loop w (Suc i) d) \<longleftrightarrow> fst (write_loop w (Suc i) d) = d)"
      using 1 [OF ne n(1)] n by (simp add: d_def)
    have eq: "write_loop w i view = (u @ fst (write_loop w (Suc i) d), snd (write_loop w (Suc i) d))"
      using write_loop_turn [of w i n view] n by (simp add: u_def d_def)
    show ?thesis using IH by (simp add: eq) (simp add: v)
  qed
qed

lemma write_all_ok:
  assumes "write_all e k raw s = (True, s')"
  shows "chan_of k s \<noteq> None" "s' = upd_chan k (\<lambda>c. c\<lparr>c_disk := c_disk c @ raw\<rparr>) s"
  using assms write_loop_prefix [of "e_writes e k" 0 raw]
  by (auto simp: write_all_def persist_def Let_def split: if_splits option.splits prod.splits)

definition sw :: "stream \<Rightarrow> sink \<Rightarrow> bool" where
  "sw k s = (case chan_of k s of None \<Rightarrow> False | Some c \<Rightarrow> c_summary_written c)"

lemma sw_Base: "c_summary_written (s_base s) = sw Base s"
  by (simp add: sw_def chan_of_simps)

lemma sw_text: "sw k s = (case shard_text s k of None \<Rightarrow> False | Some (_, _, b, _) \<Rightarrow> b)"
  by (simp add: sw_def shard_text_def chan_text_def split: option.split)

lemma sw_cong: "shard_text s' = shard_text s \<Longrightarrow> sw k s' = sw k s"
  by (simp add: sw_text)

lemma sw_upd: "(\<And>c. c_summary_written (f c) = c_summary_written c) \<Longrightarrow> sw k (upd_chan j f s) = sw k s"
  by (auto simp: sw_def split: option.split)

lemma sw_write [simp]:
  "sw k (snd (write_all e j raw s)) = sw k s" "sw k (snd (persist e j raw s)) = sw k s"
  by (auto simp: write_all_def persist_def Let_def sw_upd split: option.splits prod.splits)

lemma sw_reserve:
  "reserve_control j raw s = Some s1 \<Longrightarrow> sw k s1 = sw k s" "sw k (release_control j raw s) = sw k s"
  by (auto simp: reserve_control_def release_control_def sw_upd split: option.splits if_splits)

lemma sw_reserved_control:
  assumes "\<And>s. sw k (snd (w s)) = sw k s"
  shows "sw k (snd (write_reserved_control_via j raw w s)) = sw k s"
proof (cases "reserve_control j raw s")
  case None
  have "sw k (drop_control j t) = sw k t" for t by (rule sw_cong) simp
  then show ?thesis using None by (simp add: write_reserved_control_via_def)
next
  case (Some s1)
  have d: "sw k (drop_control j t) = sw k t" for t by (rule sw_cong) simp
  show ?thesis using Some assms [of s1] sw_reserve(1) [OF Some, of k]
    by (simp add: write_reserved_control_via_def Let_def case_prod_unfold sw_reserve(2) d)
qed

lemma sw_summary_record:
  assumes "write_summary_record e j o' s = (r, s')"
  shows "sw k s' = sw k s"
proof -
  have "sw k (snd (write_reserved_control_via j raw (write_all e j raw) s)) = sw k s" for raw
    by (rule sw_reserved_control) simp
  then show ?thesis using assms
    by (auto simp: write_summary_record_def split: option.splits sum.splits) (metis snd_conv)+
qed

lemma summary_record_written:
  assumes "write_summary_record e k o' s = (Inr True, s')"
  shows "\<exists>t line m n. summary_line k s t o' = Inr line \<and>
    s' = upd_chan k (\<lambda>c. c\<lparr>c_disk := c_disk c @ line, c_reserved := m c, c_bytes := n c\<rparr>) s"
proof -
  obtain t line where l: "summary_line k s t o' = Inr line"
    and w: "write_reserved_control_via k line (write_all e k line) s = (Inr True, s')"
    using assms by (auto simp: write_summary_record_def split: option.splits sum.splits)
  obtain s1 s2 where r: "reserve_control k line s = Some s1" "write_all e k line s1 = (True, s2)"
    "s' = release_control k line s2"
    using w by (auto simp: write_reserved_control_via_def Let_def split: option.splits if_splits prod.splits)
  let ?m = "\<lambda>c. if 0 \<le> c_reserved c then c_reserved c else c_reserved c + 1" and ?n = "\<lambda>c. max 0 (c_bytes c)"
  have s1: "s1 = upd_chan k (\<lambda>c. c\<lparr>c_reserved := c_reserved c + 1, c_bytes := c_bytes c + int (length line)\<rparr>) s"
    using r(1) by (auto simp: reserve_control_def split: option.splits if_splits)
  have "upd_chan k f (upd_chan k g u) = upd_chan k (\<lambda>c. f (g c)) u" for f g u
    by (simp add: upd_chan_def option.map_comp comp_def split: stream.split)
  note s' = r(3) [unfolded release_control_def write_all_ok(2) [OF r(2)] s1 this]
  have "s' = upd_chan k (\<lambda>c. c\<lparr>c_disk := c_disk c @ line, c_reserved := ?m c, c_bytes := ?n c\<rparr>) s"
    unfolding s' by (intro arg_cong [where f = "\<lambda>f. upd_chan k f s"] ext) simp
  with l show ?thesis by (intro exI [of _ t] exI [of _ line] exI [of _ ?m] exI [of _ ?n]) simp
qed

section \<open>What is on disk at which point of the writer\<close>

text \<open>What the summary of a stream is computed from.\<close>

definition ledger :: "stream \<Rightarrow> sink \<Rightarrow> _" where
  "ledger k s = (s_uuid s, map_option pf_config (s_profile s),
     map_option (\<lambda>c. (c_lines c, c_attempted c, c_written c, c_dropped c, c_dropped_control c,
       c_writer_failures c)) (chan_of k s))"

lemma summary_line_cong:
  assumes "ledger k s' = ledger k s"
  shows "summary_line k s' = summary_line k s"
proof (cases k)
  case Base
  then show ?thesis using assms
    by (auto simp: summary_line_def ledger_def chan_of_simps shard_digest_def Let_def fun_eq_iff)
next
  case Prof
  then show ?thesis using assms
    by (auto simp: summary_line_def ledger_def chan_of_simps shard_digest_def Let_def fun_eq_iff
        split: option.split)
qed

definition disk_plain :: "stream \<Rightarrow> sink \<Rightarrow> bool" where
  "disk_plain k s \<longleftrightarrow> (\<forall>c. chan_of k s = Some c \<longrightarrow> c_disk c = concat (c_lines c))"

definition disk_summed :: "stream \<Rightarrow> string \<Rightarrow> sink \<Rightarrow> bool" where
  "disk_summed k o' s \<longleftrightarrow> (\<forall>c. chan_of k s = Some c \<longrightarrow>
     (\<exists>t line. summary_line k s t o' = Inr line \<and> c_disk c = concat (c_lines c) @ line))"

definition hidden :: "sink \<Rightarrow> bool" where
  "hidden s \<longleftrightarrow> (\<forall>k c. chan_of k s = Some c \<longrightarrow>
     c_formal c = Sentinel \<and> c_linked c \<and> c_incomplete c \<and> c_reservation c)"

definition published :: "sink \<Rightarrow> bool" where
  "published s \<longleftrightarrow> (\<forall>k c. chan_of k s = Some c \<longrightarrow> c_formal c = Shard)"

definition complete :: "sink \<Rightarrow> bool" where
  "complete s \<longleftrightarrow> (\<forall>k. disk_summed k ''drained'' s) \<and> sw Base s \<and> (s_profile s \<noteq> None \<longrightarrow> sw Prof s) \<and>
     s_closing s \<and> \<not> s_writer_failed s"

definition finished :: "sink \<Rightarrow> bool" where
  "finished s \<longleftrightarrow> s_outcome s = Some ''drained'' \<and> sw Base s"

definition sealed :: "sink \<Rightarrow> bool" where
  "sealed s \<longleftrightarrow> (s_outcome s = None \<longrightarrow> \<not> sw Base s) \<and> (finished s \<longrightarrow> complete s \<and> hidden s)"

definition in_place :: "sink \<Rightarrow> bool" where
  "in_place s \<longleftrightarrow> (\<forall>k c. chan_of k s = Some c \<longrightarrow> \<not> c_incomplete c \<and> c_disk c = concat (c_lines c))"

definition unsummed :: "sink \<Rightarrow> bool" where
  "unsummed s \<longleftrightarrow> \<not> sw Base s \<and> s_outcome s \<noteq> Some ''drained'' \<and> \<not> s_writer_failed s"

fun shards_ok :: "bool \<Rightarrow> sink \<Rightarrow> wphase \<Rightarrow> bool" where
  "shards_ok b s (W_record m q rest) = (unsummed s \<and>
     (\<forall>k c. chan_of k s = Some c \<longrightarrow> \<not> c_incomplete c \<and>
        c_disk c = concat (c_lines c) @ (if q_stream q = k then q_raw q else [])))"
| "shards_ok b s (W_hidden o') = (unsummed s \<and> s_closing s \<and> hidden s \<and> (\<forall>k. disk_plain k s))"
| "shards_ok b s (W_base_written o') = (unsummed s \<and> s_closing s \<and> hidden s \<and>
     disk_summed Base o' s \<and> disk_plain Prof s)"
| "shards_ok b s (W_profile_written o') = (unsummed s \<and> s_closing s \<and> hidden s \<and>
     disk_summed Base o' s \<and> disk_summed Prof o' s)"
| "shards_ok b s (W_flags o') = (unsummed s \<and> s_closing s \<and> hidden s \<and> (s_profile s \<noteq> None \<longrightarrow> sw Prof s) \<and>
     (\<forall>k. disk_summed k o' s))"
| "shards_ok b s W_finalize = sealed s"
| "shards_ok b s W_publish = sealed s"
| "shards_ok b s W_claim = (complete s \<and> published s)"
| "shards_ok b s W_end = (sealed s \<and> (b \<longrightarrow> \<not> finished s))"
| "shards_ok b s W_done = ((s_outcome s = None \<longrightarrow> \<not> sw Base s) \<and> \<not> finished s)"
| "shards_ok b s ph = (unsummed s \<and> in_place s)"

text \<open>
  What holds once \<open>drained\<close> is claimed. In a run that meets no deadline while the writer works the
  formal names denote the shards; otherwise they may still be the reservations.
\<close>

definition delivered :: "bool \<Rightarrow> sink \<Rightarrow> wphase \<Rightarrow> bool" where
  "delivered b s ph \<longleftrightarrow> complete s \<and> (ph = W_end \<or> ph = W_done) \<and>
     (published s \<or> \<not> b \<and> hidden s) \<and>
     (s_profile s \<noteq> None \<longrightarrow> (\<exists>r. s_claim s = Some r \<and> cr_profile_summary_written r))"

definition intact :: "bool \<Rightarrow> system \<Rightarrow> bool" where
  "intact b sp \<longleftrightarrow> accounted sp \<and> (s_claim (fst sp) = None \<longrightarrow>
       \<not> s_abandoned (fst sp) \<and> shards_ok b (fst sp) (snd sp)) \<and>
     (committed (fst sp) \<longrightarrow> delivered b (fst sp) (snd sp))"

subsection \<open>Congruences\<close>

lemma shard_text_chan:
  assumes "shard_text s' = shard_text s" "chan_of k s' = Some c'"
  shows "\<exists>c. chan_of k s = Some c \<and> chan_text c' = chan_text c"
proof -
  have "map_option chan_text (chan_of k s') = map_option chan_text (chan_of k s)"
    using assms(1) by (metis shard_text_def)
  then show ?thesis using assms(2) by (cases "chan_of k s") auto
qed

lemma disk_plain_cong: "shard_text s' = shard_text s \<Longrightarrow> disk_plain k s \<Longrightarrow> disk_plain k s'"
  unfolding disk_plain_def by (auto simp: chan_text_def dest!: shard_text_chan)

lemma in_place_cong: "shard_text s' = shard_text s \<Longrightarrow> in_place s \<Longrightarrow> in_place s'"
  unfolding in_place_def by (fastforce simp: chan_text_def dest!: shard_text_chan)

lemma hidden_cong: "shard_text s' = shard_text s \<Longrightarrow> hidden s \<Longrightarrow> hidden s'"
  unfolding hidden_def by (fastforce simp: chan_text_def dest!: shard_text_chan)

lemma unsummed_cong:
  assumes "shard_text s' = shard_text s" "unsummed s" "s_outcome s' \<noteq> Some ''drained''"
    "s_writer_failed s' = s_writer_failed s"
  shows "unsummed s'"
  using assms sw_cong [OF assms(1)] by (simp add: unsummed_def)

lemma sealed_unsummed: "\<not> sw Base s \<Longrightarrow> sealed s"
  by (simp add: sealed_def finished_def)

lemma claimed_none:
  assumes "s_claim s = None"
  shows "\<not> committed s" using assms by (simp add: committed_def)

subsection \<open>The steps\<close>

lemma unsummed_failure:
  assumes "unsummed s" "\<And>k. sw k s' = sw k s"
  shows "sealed (mark_writer_failure_locked s')" "sealed (s'\<lparr>s_outcome := x\<rparr>)" "sealed s'"
proof -
  have "sw Base (mark_writer_failure_locked s') = sw Base s'" "sw Base (s'\<lparr>s_outcome := x\<rparr>) = sw Base s'"
    by (rule sw_cong; simp)+
  then show "sealed (mark_writer_failure_locked s')" "sealed (s'\<lparr>s_outcome := x\<rparr>)" "sealed s'"
    using assms by (auto intro!: sealed_unsummed simp: unsummed_def)
qed

lemma loop_shards:
  assumes "loop_step e s = (s', ph')" "shards_ok b s W_loop"
  shows "shards_ok b s' ph'"
proof -
  obtain ds s1 where d: "take_pending_diagnostics_locked s = (ds, s1)" by fastforce
  obtain qs s2 where t: "take_batch_locked s1 = (qs, s2)" by fastforce
  have x: "shard_text s1 = shard_text s" "shard_text s2 = shard_text s"
    using shard_text_diagnostics(1) [OF d] shard_text_diagnostics(2) [OF t] by auto
  have o1: "s_outcome s1 = s_outcome s" "s_writer_failed s1 = s_writer_failed s"
    using take_diagnostics_fields [OF d] by auto
  moreover have "s_outcome s2 = s_outcome s1" "s_writer_failed s2 = s_writer_failed s1"
    using t by (auto simp: take_batch_locked_def split: prod.splits)
  ultimately have "unsummed s1 \<and> in_place s1" "unsummed s2 \<and> in_place s2"
    using assms(2) unsummed_cong [OF x(1)] unsummed_cong [OF x(2)] in_place_cong [OF x(1)]
      in_place_cong [OF x(2)] by (auto simp: unsummed_def)
  then show ?thesis using assms unsummed_failure(3) [of s s]
    by (auto simp: loop_step_def d t split: if_splits)
qed

lemma batch_shards:
  assumes "batch_step e qs s = (s', ph')" "shards_ok b s (W_batch qs)"
  shows "shards_ok b s' ph'"
  using assms unsummed_failure(3) [of s s] by (auto simp: batch_step_def split: list.splits if_splits)

lemma write_shards:
  assumes "write_step e m q qs s = (s', ph')" "shards_ok b s (W_write m q qs)"
  shows "shards_ok b s' ph'"
proof -
  obtain ok s1 where w: "write_all e (q_stream q) (q_raw q) s = (ok, s1)" by fastforce
  have k: "sw k s1 = sw k s" for k using sw_write(1) [of k e "q_stream q" "q_raw q" s] w by simp
  show ?thesis
  proof (cases ok)
    case True
    have s1: "s1 = upd_chan (q_stream q) (\<lambda>c. c\<lparr>c_disk := c_disk c @ q_raw q\<rparr>) s"
      using write_all_ok(2) [of e "q_stream q" "q_raw q" s s1] w True by simp
    have "unsummed s1" using assms(2) k write_all_fields [OF w] by (simp add: unsummed_def)
    moreover have "\<not> c_incomplete c \<and> c_disk c = concat (c_lines c) @ (if q_stream q = j then q_raw q else [])"
      if "chan_of j s1 = Some c" for j c
      using that assms(2) by (auto simp: s1 in_place_def split: if_splits)
    ultimately show ?thesis using assms(1) True by (simp add: write_step_def w) auto
  next
    case False
    then show ?thesis using assms unsummed_failure(1) [of s s1] k by (auto simp: write_step_def w)
  qed
qed

lemma record_shards:
  assumes "accounted (s, W_record m q qs)" "\<not> s_abandoned s" "shards_ok b s (W_record m q qs)"
  shows "shards_ok b (record_written q s) (after_write m qs)"
proof -
  have inf: "s_inflight s = q # qs" using assms by (simp add: accounted_def)
  have ch: "chan_of (q_stream q) s \<noteq> None"
    using assms(1) inf by (auto simp: accounted_def queue_ok_def pending_def)
  let ?g = "\<lambda>c. (discharge q c)\<lparr>c_lines := c_lines c @ [q_raw q], c_written := bump (c_written c) (q_type q)\<rparr>"
  have eq: "record_written q s = upd_chan (q_stream q) ?g (s\<lparr>s_inflight := qs\<rparr>)"
    using assms(2) inf ch by (cases "chan_of (q_stream q) s") (simp_all add: record_written_def)
  have g: "c_disk (?g c) = c_disk c" "c_incomplete (?g c) = c_incomplete c" "c_summary_written (?g c) = c_summary_written c" for c
    by (simp_all add: discharge_def Let_def)
  have "sw k (record_written q s) = sw k s" for k
    unfolding eq using g(3) by (subst sw_upd) (simp_all add: sw_def)
  then have "unsummed (record_written q s)" using assms(3) by (simp add: unsummed_def eq)
  moreover have "in_place (record_written q s)"
    using assms(3) by (auto simp: in_place_def eq g split: if_splits)
  ultimately show ?thesis by (cases m) (simp_all add: after_write_def)
qed

lemma timeout_shards:
  assumes "prepare_timeout_controls_locked e s = (controls, s')" "shards_ok b s W_timeout"
  shows "shards_ok b s' (W_controls controls)"
proof -
  note x = shard_text_prepare [OF assms(1)]
  have "s_outcome s' = Some ''timeout''"
    using assms(1) by (auto simp: prepare_timeout_controls_locked_def set_control_counts_def Let_def split: prod.splits)
  then have "unsummed s'"
    using assms(2) unsummed_cong [OF x] flagsD(5) [OF flags_prepare [OF assms(1)]] by simp
  then show ?thesis using assms(2) in_place_cong [OF x] by simp
qed

lemma controls_shards:
  assumes "controls_step e qs s = (s', ph')" "shards_ok b s (W_controls qs)"
  shows "shards_ok b s' ph'"
proof -
  have d: "sw k (drop_timeout_controls s) = sw k s" for k by (rule sw_cong) simp
  show ?thesis using assms unsummed_failure(2) [of s s] unsummed_failure(2) [of s "drop_timeout_controls s"] d
    by (auto simp: controls_step_def split: list.splits if_splits)
qed

lemma drained_shards:
  assumes "writer_step e (s, W_drained) = (s', ph')" "shards_ok b s W_drained"
  shows "shards_ok b s' ph'"
  using assms unsummed_failure(1) [of s s] by (auto simp: writer_step_def split: if_splits)

lemma hide_effect:
  assumes "hide e k s = (ok, s')"
  shows "sw j s' = sw j s" "s_outcome s' = s_outcome s" "s_writer_failed s' = s_writer_failed s"
    "s_closing s' = s_closing s" "s_claim s' = s_claim s" "j \<noteq> k \<Longrightarrow> chan_of j s' = chan_of j s"
  using assms
  by (auto simp: hide_def hide_shard_def sw_def Let_def split: option.splits if_splits prod.splits)

lemma hide_hides:
  assumes "hide e k s = (True, s')" "in_place s" "chan_of k s' = Some c"
  shows "c_formal c = Sentinel \<and> c_linked c \<and> c_incomplete c \<and> c_reservation c"
    "c_disk c = concat (c_lines c)"
  using assms
  by (auto simp: hide_def hide_shard_def in_place_def Let_def split: option.splits if_splits prod.splits)

lemma stream_neq: "k \<noteq> Base \<longleftrightarrow> k = Prof" "k \<noteq> Prof \<longleftrightarrow> k = Base"
  by (cases k; simp)+

lemma summary_shards:
  assumes "summary_step e o' s = (s', ph')" "shards_ok b s (W_summary o')" "s_closing s"
  shows "shards_ok b s' ph'"
proof -
  obtain b1 s1 b2 s2 where h: "hide e Base s = (b1, s1)" "hide e Prof s1 = (b2, s2)" by fastforce
  note e1 = hide_effect [OF h(1)] and e2 = hide_effect [OF h(2)]
  have k: "sw k s1 = sw k s" "sw k s2 = sw k s" for k using e1(1) e2(1) by auto
  have u: "unsummed s2" "s_closing s2" using assms(2,3) k e1 e2 by (auto simp: unsummed_def)
  have hp: "hidden s2 \<and> (\<forall>k. disk_plain k s2)" if "b1" "b2"
  proof -
    have "in_place s" using assms(2) by simp
    have "c_formal c = Sentinel \<and> c_linked c \<and> c_incomplete c \<and> c_reservation c \<and> c_disk c = concat (c_lines c)"
      if c: "chan_of j s2 = Some c" for j c
    proof (cases j)
      case Base
      then have "chan_of Base s1 = Some c" using c e2(6) [of Base] by simp
      then show ?thesis using hide_hides [of e Base s s1 c] h(1) \<open>b1\<close> \<open>in_place s\<close> by simp
    next
      case Prof
      have "hide e Prof s = (True, t) \<and> chan_of Prof t = Some c" if "t = upd_chan Prof (\<lambda>_. c) s" for t
        using h(2) \<open>b2\<close> c Prof e1(6) [of Prof] that
        by (auto simp: hide_def Let_def split: option.splits prod.splits)
      then show ?thesis using hide_hides [of e Prof s _ c] \<open>in_place s\<close> by blast
    qed
    then show ?thesis by (auto simp: hidden_def disk_plain_def)
  qed
  show ?thesis
    using assms(1,2) u hp unsummed_failure(1) [of s s1] unsummed_failure(1) [of s s2]
      unsummed_failure(2) [of s s] k
    by (auto simp: summary_step_def h split: if_splits)
qed

text \<open>A summary is written.\<close>

lemma summed_after:
  assumes "write_summary_record e k o' s = (Inr True, s')" "disk_plain k s"
  shows "disk_summed k o' s'"
proof -
  obtain t line m n where l: "summary_line k s t o' = Inr line"
    and s': "s' = upd_chan k (\<lambda>c. c\<lparr>c_disk := c_disk c @ line, c_reserved := m c, c_bytes := n c\<rparr>) s"
    using summary_record_written [OF assms(1)] by blast
  have "ledger k s' = ledger k s" by (simp add: s' ledger_def option.map_comp comp_def)
  then have "summary_line k s' = summary_line k s" by (rule summary_line_cong)
  then show ?thesis using assms(2) l by (auto simp: disk_summed_def disk_plain_def s')
qed

lemma summary_written_frames:
  assumes "write_summary_record e k o' s = (Inr True, s')" "j \<noteq> k"
  shows "disk_plain j s \<Longrightarrow> disk_plain j s'" "disk_summed j x s \<Longrightarrow> disk_summed j x s'"
    "hidden s \<Longrightarrow> hidden s'" "unsummed s \<Longrightarrow> unsummed s'" "s_closing s' = s_closing s"
    "s_profile s' = None \<longleftrightarrow> s_profile s = None"
proof -
  obtain line m n where s': "s' = upd_chan k (\<lambda>c. c\<lparr>c_disk := c_disk c @ line, c_reserved := m c, c_bytes := n c\<rparr>) s"
    using summary_record_written [OF assms(1)] by blast
  have "ledger j s' = ledger j s" using assms(2) by (simp add: s' ledger_def)
  note l = summary_line_cong [OF this]
  have "sw i s' = sw i s" for i unfolding s' by (rule sw_upd) simp
  then show "unsummed s \<Longrightarrow> unsummed s'" by (simp add: unsummed_def s')
  show "disk_plain j s \<Longrightarrow> disk_plain j s'" "disk_summed j x s \<Longrightarrow> disk_summed j x s'"
    using assms(2) l by (auto simp: disk_plain_def disk_summed_def s')
  show "hidden s \<Longrightarrow> hidden s'" by (auto simp: hidden_def s' split: if_splits)
  show "s_closing s' = s_closing s" "s_profile s' = None \<longleftrightarrow> s_profile s = None" by (simp_all add: s')
qed

lemma hidden_shards:
  assumes "hidden_step e o' s = (s', ph')" "shards_ok b s (W_hidden o')"
  shows "shards_ok b s' ph'"
proof -
  obtain r s1 where w: "write_summary_record e Base o' s = (r, s1)" by fastforce
  note k = sw_summary_record [OF w]
  have "shards_ok b s1 (W_base_written o')" if r: "r = Inr True"
    using summed_after [OF w [unfolded r]] summary_written_frames [OF w [unfolded r], of Prof] assms(2) by simp
  then show ?thesis using assms w unsummed_failure [of s s1] unsummed_failure(2) [of s s] k
    by (auto simp: hidden_step_def split: if_splits sum.splits bool.splits)
qed

lemma sw_invalidation [simp]:
  "sw k (append_invalidation e j s) = sw k s" "sw k (append_timeout_invalidation e s) = sw k s"
  by (auto simp: append_invalidation_def append_timeout_invalidation_def Let_def sw_reserved_control
      split: option.splits sum.splits)

lemma sw_set [simp]: "sw k (set_summary_written j x s) = (if k = j then x \<and> chan_of k s \<noteq> None else sw k s)"
  by (auto simp: sw_def set_summary_written_def split: option.split)

lemma sw_outcome [simp]: "sw k (s\<lparr>s_outcome := x\<rparr>) = sw k s"
  by (rule sw_cong) simp

lemma chan_Base [simp]: "\<exists>c. chan_of Base s = Some c"
  by (simp add: chan_of_simps)

lemma base_written_shards:
  assumes "base_written_step e o' s = (s', ph')" "shards_ok b s (W_base_written o')"
  shows "shards_ok b s' ph'"
proof -
  obtain r s1 where w: "write_summary_record e Prof o' s = (r, s1)" by fastforce
  note k = sw_summary_record [OF w]
  have 1: "shards_ok b s1 (W_profile_written o')" if r: "r = Inr True"
    using summed_after [OF w [unfolded r]] summary_written_frames [OF w [unfolded r], of Base] assms(2) by simp
  have 2: "shards_ok b s (W_flags o')" if "s_profile s = None"
  proof -
    have "disk_summed j o' s" for j
      using assms(2) that by (cases j) (auto simp: disk_summed_def chan_of_simps)
    then show ?thesis using assms(2) that by simp
  qed
  have 3: "sealed (append_timeout_invalidation e (s\<lparr>s_outcome := Some ''timeout''\<rparr>))"
    using assms(2) by (intro sealed_unsummed) (simp add: unsummed_def)
  show ?thesis using assms w unsummed_failure [of s s1] k 1 2 3
    by (auto simp: base_written_step_def split: if_splits sum.splits bool.splits)
qed

lemma set_summary_frames:
  assumes "s' = set_summary_written k x s"
  shows "disk_summed j o' s \<Longrightarrow> disk_summed j o' s'" "hidden s \<Longrightarrow> hidden s'"
    "s_closing s' = s_closing s" "s_profile s' = None \<longleftrightarrow> s_profile s = None"
    "s_writer_failed s' = s_writer_failed s" "s_outcome s' = s_outcome s"
proof -
  have "ledger j s' = ledger j s"
    by (simp add: assms ledger_def set_summary_written_def option.map_comp comp_def)
  note l = summary_line_cong [OF this]
  show "disk_summed j o' s \<Longrightarrow> disk_summed j o' s'"
    using l by (auto simp: disk_summed_def assms set_summary_written_def split: if_splits)
  show "hidden s \<Longrightarrow> hidden s'" by (auto simp: hidden_def assms set_summary_written_def split: if_splits)
qed (simp_all add: assms set_summary_written_def)

lemma profile_written_shards:
  assumes "profile_written_step e o' s = (s', ph')" "shards_ok b s (W_profile_written o')"
  shows "shards_ok b s' ph'"
proof -
  have 3: "sealed (append_timeout_invalidation e (s\<lparr>s_outcome := Some ''timeout''\<rparr>))"
    using assms(2) by (intro sealed_unsummed) (simp add: unsummed_def)
  have "shards_ok b (set_summary_written Prof True s) (W_flags o')"
  proof -
    note f = set_summary_frames [OF refl, where s = s and k = Prof and x = True]
    have "disk_summed j o' s" for j using assms(2) by (cases j) auto
    then show ?thesis using assms(2) f by (auto simp: unsummed_def profile_chan)
  qed
  then show ?thesis using assms(1) 3 by (auto simp: profile_written_step_def split: if_splits)
qed

lemma outcome_frames [simp]:
  "disk_summed k o' (s\<lparr>s_outcome := x\<rparr>) = disk_summed k o' s" "hidden (s\<lparr>s_outcome := x\<rparr>) = hidden s"
proof -
  have "ledger k (s\<lparr>s_outcome := x\<rparr>) = ledger k s" by (simp add: ledger_def)
  note l = summary_line_cong [OF this]
  show "disk_summed k o' (s\<lparr>s_outcome := x\<rparr>) = disk_summed k o' s" by (simp add: disk_summed_def l)
  show "hidden (s\<lparr>s_outcome := x\<rparr>) = hidden s" by (simp add: hidden_def)
qed

lemma flags_shards:
  assumes "flags_step o' s = (s', ph')" "shards_ok b s (W_flags o')"
  shows "shards_ok b s' ph'"
proof -
  let ?t = "set_summary_written Base True s"
  note f = set_summary_frames [OF refl, where s = s and k = Base and x = True]
  have s': "s' = ?t\<lparr>s_outcome := Some o'\<rparr>" "ph' = W_finalize" using assms(1) by (auto simp: flags_step_def)
  have "complete s' \<and> hidden s'" if "o' = ''drained''"
    using assms(2) f that by (auto simp: complete_def s' unsummed_def)
  then show ?thesis by (auto simp: s' sealed_def finished_def)
qed

text \<open>Steps that leave the bytes, the counts and the flags alone.\<close>

lemma complete_cong:
  assumes "\<And>k. ledger k s' = ledger k s" "\<And>k. map_option c_disk (chan_of k s') = map_option c_disk (chan_of k s)"
    and "\<And>k. sw k s' = sw k s" "s_closing s' = s_closing s" "s_writer_failed s' = s_writer_failed s"
    and "complete s"
  shows "complete s'"
proof -
  have "disk_summed k ''drained'' s'" for k
  proof -
    have "\<exists>t line. summary_line k s' t ''drained'' = Inr line \<and> c_disk c' = concat (c_lines c') @ line"
      if c': "chan_of k s' = Some c'" for c'
    proof -
      obtain c where c: "chan_of k s = Some c" "c_disk c' = c_disk c"
        using assms(2) [of k] c' by (cases "chan_of k s") auto
      then have "c_lines c' = c_lines c" using assms(1) [of k] c' by (simp add: ledger_def)
      then show ?thesis using assms(6) c summary_line_cong [OF assms(1)]
        by (auto simp: complete_def disk_summed_def)
    qed
    then show ?thesis by (simp add: disk_summed_def)
  qed
  moreover have "s_profile s' = None \<longleftrightarrow> s_profile s = None"
    using assms(1) [of Base] by (auto simp: ledger_def)
  ultimately show ?thesis using assms by (simp add: complete_def)
qed

lemma flush_ledger: "ledger k (flush_diagnostics s) = ledger k s" "chan_of k (flush_diagnostics s) = chan_of k s"
  by (simp_all add: ledger_def flush_diagnostics_def take_pending_diagnostics_locked_def Let_def)

lemma flush_sw [simp]: "sw k (flush_diagnostics s) = sw k s"
  by (rule sw_cong) simp

lemma flush_sealed:
  assumes "sealed s"
  shows "sealed (flush_diagnostics s)"
proof -
  note t = take_diagnostics_fields [OF surjective_pairing, of s, folded flush_diagnostics_def]
  have f: "finished (flush_diagnostics s) = finished s" by (simp add: finished_def t)
  have "complete s \<Longrightarrow> complete (flush_diagnostics s)"
    by (rule complete_cong) (simp_all add: flush_ledger t)
  moreover have "hidden s \<Longrightarrow> hidden (flush_diagnostics s)" by (simp add: hidden_def flush_ledger)
  ultimately show ?thesis using assms by (auto simp: sealed_def f t)
qed

lemma flush_finished [simp]: "finished (flush_diagnostics s) = finished s"
  using take_diagnostics_fields [OF surjective_pairing, of s, folded flush_diagnostics_def]
  by (simp add: finished_def)

lemma publication_failure_sealed [simp]:
  "sealed (flush_diagnostics (mark_publication_failure s))" "\<not> finished (mark_publication_failure s)"
proof -
  have "\<not> sw Base (mark_publication_failure s)" by (simp add: mark_publication_failure_def)
  then show "sealed (flush_diagnostics (mark_publication_failure s))" "\<not> finished (mark_publication_failure s)"
    by (auto intro!: sealed_unsummed simp: finished_def)
qed

lemma finalize_shards:
  assumes "finalize_step e s = (s', ph')" "shards_ok b s W_finalize" "\<not> s_abandoned s"
  shows "shards_ok b s' ph'"
  using assms flush_sealed by (auto simp: finalize_step_def Let_def split: if_splits)

lemma finished_eligible:
  assumes "finished s" "complete s" "\<not> s_abandoned s" "\<not> close_deadline_reached e s"
  shows "publish_eligible e s"
  using assms
  by (auto simp: publish_eligible_def finished_def complete_def sw_Base sw_def [of Prof] chan_of_simps
      split: option.splits)

lemma replace_frames:
  "ledger k (replace_formal j s) = ledger k s" "sw k (replace_formal j s) = sw k s"
  "map_option c_disk (chan_of k (replace_formal j s)) = map_option c_disk (chan_of k s)"
  "s_closing (replace_formal j s) = s_closing s" "s_writer_failed (replace_formal j s) = s_writer_failed s"
  by (auto simp: replace_formal_def ledger_def option.map_comp comp_def sw_def split: option.split)

lemma replaced_complete: "complete s \<Longrightarrow> complete (replace_formal j s)"
  by (rule complete_cong) (simp_all add: replace_frames)

lemma publish_shards:
  assumes "publish_step e s = (s', ph')" "shards_ok b s W_publish" "\<not> s_abandoned s"
    "b \<longrightarrow> \<not> close_deadline_reached e s"
  shows "shards_ok b s' ph'"
proof (cases "publish_eligible e s")
  case False
  have "b \<Longrightarrow> \<not> finished s"
    using False assms(2-4) finished_eligible [of s e] by (auto simp: sealed_def)
  then show ?thesis using False assms(1,2) flush_sealed [of s] by (auto simp: publish_step_def)
next
  case True
  have "finished s" using True by (simp add: publish_eligible_def finished_def sw_Base)
  then have "complete (replace_formal Prof (replace_formal Base s))"
    using assms(2) by (intro replaced_complete) (simp add: sealed_def)
  moreover have "published (replace_formal Prof (replace_formal Base s))"
    unfolding published_def replace_formal_def
  proof (intro allI impI)
    fix k c assume "chan_of k (upd_chan Prof (\<lambda>c. c\<lparr>c_formal := Shard, c_linked := False\<rparr>)
       (upd_chan Base (\<lambda>c. c\<lparr>c_formal := Shard, c_linked := False\<rparr>) s)) = Some c"
    then show "c_formal c = Shard" by (cases k) (auto split: if_splits)
  qed
  ultimately show ?thesis using True assms(1)
    by (auto simp: publish_step_def Let_def split: if_splits)
qed

lemma claimed_result:
  "s_claim s = None \<Longrightarrow> committed (claim_close_result o' x s) \<longleftrightarrow> o' = ''drained'' \<and> x"
  by (simp add: claim_close_result_def committed_def result_of_def Let_def)

lemma claim_profile:
  "s_claim s = None \<Longrightarrow> s_profile s \<noteq> None \<Longrightarrow> sw Prof s \<Longrightarrow>
    \<exists>r. s_claim (claim_close_result o' x s) = Some r \<and> cr_profile_summary_written r"
  by (auto simp: claim_close_result_def result_of_def Let_def sw_def split: option.splits)

lemma claim_complete:
  assumes "complete s"
  shows "complete (claim_close_result o' x s)"
proof (rule complete_cong [OF _ _ _ _ _ assms])
  show "ledger k (claim_close_result o' x s) = ledger k s" for k by (simp add: ledger_def)
  show "sw k (claim_close_result o' x s) = sw k s" for k by (simp add: sw_def)
qed simp_all

lemma closed_complete: "complete s \<Longrightarrow> complete (s\<lparr>s_closed := x\<rparr>)"
  by (rule complete_cong [of _ s]) (simp_all add: ledger_def sw_def)

lemma hidden_closed [simp]: "hidden (s\<lparr>s_closed := x\<rparr>) = hidden s"
  "published (s\<lparr>s_closed := x\<rparr>) = published s" "hidden (claim_close_result o' y s) = hidden s"
  "published (claim_close_result o' y s) = published s"
  by (simp_all add: hidden_def published_def)

lemma claim_step_intact:
  assumes "claim_step e s = (s', ph')" "shards_ok b s W_claim" "s_claim s = None"
  shows "s_claim s' = None \<Longrightarrow> shards_ok b s' ph'" "committed s' \<Longrightarrow> delivered b s' ph'"
proof -
  let ?t = "flush_diagnostics (count_diagnostic_locked ''close_timeout''
      ((upd_both (\<lambda>c. c\<lparr>c_summary_written := False\<rparr>) (retract_all e s))\<lparr>s_outcome := Some ''timeout''\<rparr>))"
  let ?c = "claim_close_result ''drained'' True s"
  let ?u = "(upd_both (\<lambda>c. c\<lparr>c_incomplete := False, c_reservation := False\<rparr>) ?c)\<lparr>s_closed := True\<rparr>"
  have "held ?t = held s" by simp
  then have t: "s_claim ?t = None" using assms(3) by (simp add: held_def)
  have "sw Base ?t = False"
    using sw_cong [of "?t" "upd_both (\<lambda>c. c\<lparr>c_summary_written := False\<rparr>) (retract_all e s)"]
    by (simp add: sw_def split: option.split)
  then have ts: "sealed ?t" "\<not> finished ?t" by (simp_all add: sealed_unsummed finished_def)
  have cc: "complete ?c" using assms(2) claim_complete by simp
  have "complete ?u"
    by (rule closed_complete, rule complete_cong [OF _ _ _ _ _ cc])
      (auto simp: ledger_def option.map_comp comp_def sw_def upd_both_def split: option.split)
  moreover have "published ?u" using assms(2) by (auto simp: published_def)
  moreover have "s_profile s \<noteq> None \<Longrightarrow> \<exists>r. s_claim ?u = Some r \<and> cr_profile_summary_written r"
    using claim_profile [OF assms(3), of "''drained''" True] assms(2) by (simp add: complete_def)
  ultimately have u: "delivered b ?u W_end" by (auto simp: delivered_def upd_both_def)
  have uc: "s_claim ?u \<noteq> None" using assms(3) by (simp add: claim_close_result_def)
  show "s_claim s' = None \<Longrightarrow> shards_ok b s' ph'"
    using assms(1) ts uc by (auto simp: claim_step_def split: if_splits)
  show "committed s' \<Longrightarrow> delivered b s' ph'"
    using assms(1) u t claimed_none [OF t] by (auto simp: claim_step_def split: if_splits)
qed

lemma end_step_intact:
  assumes "end_step s = (s', ph')" "shards_ok b s W_end" "s_claim s = None"
  shows "s_claim s' = None \<Longrightarrow> shards_ok b s' ph'" "committed s' \<Longrightarrow> delivered b s' ph'"
proof -
  let ?t = "s\<lparr>s_closed := True\<rparr>"
  have x: "sw k ?t = sw k s" "finished ?t = finished s" for k by (simp_all add: sw_def finished_def)
  have ph: "ph' = W_done" using assms(1) by (auto simp: end_step_def Let_def)
  have f: "finished s \<Longrightarrow> s_closing s" using assms(2) by (simp add: sealed_def complete_def)
  show "shards_ok b s' ph'" if n: "s_claim s' = None"
  proof -
    have "\<not> s_closing s" "s' = ?t"
      using assms(1,3) n by (auto simp: end_step_def Let_def claim_close_result_def split: if_splits)
    then show ?thesis using assms(2) f x ph by (auto simp: sealed_def)
  qed
  show "delivered b s' ph'" if c: "committed s'"
  proof -
    have "s_closing s" using claimed_none assms(1,3) c by (auto simp: end_step_def Let_def split: if_splits)
    then obtain o' where s': "s' = claim_close_result o' (sw Base s) ?t"
      and o': "o' = (case s_outcome s of Some o' \<Rightarrow> o' | None \<Rightarrow> if s_writer_failed s then ''writer_failure'' else ''drained'')"
      using assms(1,3) by (auto simp: end_step_def Let_def sw_Base)
    have "o' = ''drained''" "sw Base s"
      using c claimed_result [of ?t o' "sw Base s"] assms(3) by (auto simp: s')
    then have fin: "finished s" using o' assms(2) by (auto simp: finished_def sealed_def split: option.splits)
    then have "complete s" "hidden s" "\<not> b" using assms(2) by (auto simp: sealed_def)
    then have "complete s'" "hidden s'" "\<not> b" unfolding s' by (auto intro!: claim_complete closed_complete)
    moreover have "s_profile s \<noteq> None \<Longrightarrow> \<exists>r. s_claim s' = Some r \<and> cr_profile_summary_written r"
      unfolding s' using claim_profile [of ?t] assms(3) \<open>complete s\<close> x by (simp add: complete_def)
    ultimately show ?thesis using ph by (auto simp: delivered_def s')
  qed
qed

lemma shards_live:
  assumes "writer_step e (s, ph) = (s', ph')" "accounted (s, ph)" "shards_ok b s ph" "s_claim s = None"
    "\<not> s_abandoned s" "b \<longrightarrow> \<not> close_deadline_reached e s" "ph \<noteq> W_claim" "ph \<noteq> W_end"
  shows "shards_ok b s' ph'"
proof (cases ph)
  case (W_record m q qs)
  then show ?thesis using assms record_shards by (auto simp: writer_step_def)
next
  case W_timeout
  then show ?thesis using assms timeout_shards [of e s] by (auto simp: writer_step_def split: prod.splits)
next
  case (W_summary o')
  then show ?thesis using assms summary_shards [of e o' s s' ph' b] by (simp add: writer_step_def accounted_def)
qed (use assms in \<open>auto simp: writer_step_def intro: loop_shards batch_shards write_shards controls_shards
  hidden_shards base_written_shards profile_written_shards flags_shards finalize_shards publish_shards
  drained_shards [unfolded writer_step_def]\<close>)

section \<open>Every action keeps it\<close>

lemma not_abandoned_step:
  assumes "writer_step e (s, ph) = (s', ph')" "\<not> s_abandoned s"
  shows "\<not> s_abandoned s'"
proof (cases "ph = W_claim \<or> ph = W_end")
  case False
  then show ?thesis using writer_held [OF assms(1)] assms(2) by (simp add: held_def)
next
  case True
  let ?t = "flush_diagnostics (count_diagnostic_locked ''close_timeout''
      ((upd_both (\<lambda>c. c\<lparr>c_summary_written := False\<rparr>) (retract_all e s))\<lparr>s_outcome := Some ''timeout''\<rparr>))"
  have "held ?t = held s" by simp
  then have "\<not> s_abandoned ?t" using assms(2) by (simp add: held_def)
  then have "\<not> s_abandoned (fst (claim_step e s))" "\<not> s_abandoned (fst (end_step s))"
    using assms(2) by (auto simp: claim_step_def end_step_def Let_def)
  then show ?thesis using True assms(1) by (auto simp: writer_step_def)
qed

lemma claimed_stays:
  "committed (fst (act a sp)) \<longleftrightarrow> committed (fst sp)" if "s_claim (fst sp) \<noteq> None"
  using that act_claim [of sp] by (auto simp: committed_def)

lemma writer_intact:
  assumes "intact b (s, ph)" "b \<longrightarrow> \<not> close_deadline_reached e s"
  shows "intact b (writer_step e (s, ph))"
proof -
  obtain s' ph' where w: "writer_step e (s, ph) = (s', ph')" by fastforce
  have a: "accounted (s, ph)" using assms(1) by (simp add: intact_def)
  have a': "accounted (s', ph')" using writer_accounted [OF a, of e] w by simp
  show ?thesis
  proof (cases "s_claim s")
    case None
    then have live: "shards_ok b s ph" "\<not> s_abandoned s" using assms(1) by (auto simp: intact_def)
    have na: "\<not> s_abandoned s'" using not_abandoned_step [OF w live(2)] .
    consider "ph = W_claim" | "ph = W_end" | "ph \<noteq> W_claim" "ph \<noteq> W_end" by blast
    then have "(s_claim s' = None \<longrightarrow> shards_ok b s' ph') \<and> (committed s' \<longrightarrow> delivered b s' ph')"
    proof cases
      case 1
      then show ?thesis using claim_step_intact [of e s s' ph' b] live w None by (simp add: writer_step_def)
    next
      case 2
      then show ?thesis using end_step_intact [of s s' ph' b] live w None by (simp add: writer_step_def)
    next
      case 3
      have "s_claim s' = None" using writer_held [OF w 3] None by (simp add: held_def)
      then show ?thesis using shards_live [OF w a live(1) None live(2) assms(2) 3] claimed_none by blast
    qed
    then show ?thesis using a' na by (simp add: w intact_def)
  next
    case (Some r)
    then have c: "s_claim s' = Some r" using writer_claim [OF _ w] by simp
    have "delivered b s' ph'" if k: "committed s'"
    proof -
      have "committed s" using k c Some by (simp add: committed_def)
      then have d: "delivered b s ph" using assms(1) by (simp add: intact_def)
      then have "(s', ph') = (s\<lparr>s_closed := True\<rparr>, W_done) \<or> (s', ph') = (s, W_done)"
        using w Some by (auto simp: delivered_def writer_step_def end_step_def Let_def)
      then show ?thesis using d closed_complete [of s True]
        by (auto simp: delivered_def)
    qed
    then show ?thesis using a' c by (simp add: w intact_def)
  qed
qed

lemma producer_chan:
  assumes "producer_action a"
  shows "map_option kept (chan_of k (fst (act a sp))) = map_option kept (chan_of k (fst sp))"
    "s_outcome (fst (act a sp)) = s_outcome (fst sp)" "s_writer_failed (fst (act a sp)) = s_writer_failed (fst sp)"
    "s_claim (fst (act a sp)) = s_claim (fst sp)" "s_abandoned (fst (act a sp)) = s_abandoned (fst sp)"
    "s_closing (fst (act a sp)) = s_closing (fst sp)" "snd (act a sp) = snd sp"
  using producer_frame [OF assms, of sp] frameD [of "fst (act a sp)" "fst sp"] by auto

lemma kept_text: "kept c' = kept c \<Longrightarrow> chan_text c' = chan_text c"
  by (simp add: kept_def chan_text_def)

lemma frame_text:
  assumes "\<And>k. map_option kept (chan_of k s') = map_option kept (chan_of k s)"
  shows "shard_text s' = shard_text s"
proof
  fix k show "shard_text s' k = shard_text s k"
    using assms [of k] by (cases "chan_of k s"; cases "chan_of k s'") (auto simp: shard_text_def intro: kept_text)
qed

text \<open>Before the request to close, only the text matters.\<close>

lemma shards_open_cong:
  assumes "shard_text s' = shard_text s" "s_outcome s' = s_outcome s" "s_writer_failed s' = s_writer_failed s"
    "\<not> s_closing s" "shards_ok b s ph"
  shows "shards_ok b s' ph"
proof -
  have k: "sw Base s' = sw Base s" by (rule sw_cong [OF assms(1)])
  have u: "unsummed s \<Longrightarrow> unsummed s'"
    using assms(2,3) by (simp only: unsummed_def k simp_thms)
  note p = in_place_cong [OF assms(1)]
  have f2: "finished s' = finished s" by (simp only: finished_def k assms(2))
  have nf: "\<not> finished s" if "sealed s" using that assms(4) by (simp add: sealed_def complete_def)
  have f1: "sealed s' \<and> \<not> finished s'" if "sealed s"
    using that nf [OF that] f2 k assms(2) by (simp add: sealed_def)
  note f = f1 f2
  have before: "unsummed s \<and> in_place s \<Longrightarrow> unsummed s' \<and> in_place s'" using u p by blast
  note a = assms(4,5)
  show ?thesis
  proof (cases ph)
    case (W_record m q qs)
    have "\<not> c_incomplete c \<and> c_disk c = concat (c_lines c) @ (if q_stream q = j then q_raw q else [])"
      if "chan_of j s' = Some c" for j c
      using shard_text_chan [OF assms(1) that] a(2) W_record by (auto simp: chan_text_def)
    then show ?thesis using a(2) u W_record by simp
  next
    case W_done
    then show ?thesis using assms(2) a(2) f(2) k by simp
  next
    case W_end
    then show ?thesis using a(2) f(1) by simp
  next
    case W_finalize
    then show ?thesis using a(2) f(1) by simp
  next
    case W_publish
    then show ?thesis using a(2) f(1) by simp
  next
    case W_claim
    then show ?thesis using a by (simp add: complete_def)
  qed (use a before in \<open>simp_all only: shards_ok.simps simp_thms\<close>)
qed

text \<open>Setting \<open>_closing\<close> changes nothing else.\<close>

lemma shards_closing:
  assumes "shards_ok b s ph" "\<not> s_closing s"
  shows "shards_ok b (s\<lparr>s_closing := True\<rparr>) ph"
proof -
  let ?s = "s\<lparr>s_closing := True\<rparr>"
  have x: "shard_text ?s = shard_text s" by simp
  have k: "sw Base ?s = sw Base s" by (rule sw_cong [OF x])
  have before: "unsummed s \<and> in_place s \<Longrightarrow> unsummed ?s \<and> in_place ?s"
    using in_place_cong [OF x] k by (simp add: unsummed_def)
  have nf: "\<not> finished s" if "sealed s" using that assms(2) by (simp add: sealed_def complete_def)
  have f2: "finished ?s = finished s" by (simp add: finished_def k)
  have f1: "sealed ?s \<and> \<not> finished ?s" if "sealed s"
    using that nf [OF that] f2 k by (simp add: sealed_def)
  show ?thesis
  proof (cases ph)
    case (W_record m q qs)
    then show ?thesis using assms(1) before k by (simp add: unsummed_def)
  next
    case W_done
    then show ?thesis using assms(1) f2 k by simp
  next
    case W_end
    then show ?thesis using assms(1) f1 by simp
  next
    case W_finalize
    then show ?thesis using assms(1) f1 by simp
  next
    case W_publish
    then show ?thesis using assms(1) f1 by simp
  next
    case W_claim
    then show ?thesis using assms by (simp add: complete_def)
  qed (use assms before in \<open>simp_all only: shards_ok.simps simp_thms\<close>)
qed

lemma committed_closing: "intact b sp \<Longrightarrow> committed (fst sp) \<Longrightarrow> s_closing (fst sp)"
  by (simp add: intact_def delivered_def complete_def)

text \<open>A diagnostic changes no part of the invariant.\<close>

lemma diagnostic_intact:
  assumes "intact b (s, ph)" "accounted (count_diagnostic_locked r s, ph)"
  shows "intact b (count_diagnostic_locked r s, ph)"
proof -
  let ?s = "count_diagnostic_locked r s"
  have l: "ledger k ?s = ledger k s" for k by (simp add: ledger_def)
  note sl = summary_line_cong [OF l]
  have eqs: "sw k ?s = sw k s" "disk_plain k ?s = disk_plain k s" "disk_summed k o' ?s = disk_summed k o' s"
    "hidden ?s = hidden s" "published ?s = published s" "in_place ?s = in_place s" for k o'
    by (simp_all add: sw_def disk_plain_def disk_summed_def hidden_def published_def in_place_def sl)
  have eqs': "complete ?s = complete s" "finished ?s = finished s" "sealed ?s = sealed s" "unsummed ?s = unsummed s"
    "committed ?s = committed s"
    by (simp_all add: complete_def finished_def sealed_def unsummed_def committed_def eqs)
  have "shards_ok b ?s ph = shards_ok b s ph" by (cases ph) (simp_all add: eqs eqs')
  moreover have "delivered b ?s ph = delivered b s ph" by (simp add: delivered_def eqs eqs')
  ultimately show ?thesis using assms by (simp add: intact_def eqs')
qed

lemma producer_intact:
  assumes "producer_action a" "intact b sp"
  shows "intact b (act a sp)"
proof (cases "s_closing (fst sp)")
  case True
  have a: "accounted (act a sp)" using producer_accounted assms by (simp add: intact_def)
  have "snd (act a sp) = snd sp" using producer_chan [OF assms(1)] by simp
  then show ?thesis
    using producer_closing [OF assms(1) True] assms(2) a diagnostic_intact [of b "fst sp" "snd sp"]
    by (metis prod.collapse)
next
  case False
  note f = producer_chan [OF assms(1), where sp = sp]
  have x: "shard_text (fst (act a sp)) = shard_text (fst sp)" by (rule frame_text) (rule f)
  have "\<not> committed (fst sp)" using committed_closing assms(2) False by blast
  then have "\<not> committed (fst (act a sp))" using f(4) by (simp add: committed_def)
  moreover have "accounted (act a sp)" using producer_accounted assms by (simp add: intact_def)
  moreover have "shards_ok b (fst (act a sp)) (snd (act a sp))" if "s_claim (fst sp) = None"
    using shards_open_cong [OF x f(2,3) False] that assms(2) f(7) by (simp add: intact_def)
  ultimately show ?thesis using assms(2) f(4,5) by (simp add: intact_def)
qed

text \<open>The critical sections of close.\<close>

lemma claimed_intact:
  assumes "accounted sp" "s_claim (fst sp) \<noteq> None" "\<not> committed (fst sp)"
  shows "intact b sp"
  using assms by (auto simp: intact_def)

lemma not_drained: "s_claim s = None \<Longrightarrow> o' \<noteq> ''drained'' \<or> \<not> x \<Longrightarrow>
    s_claim (claim_close_result o' x s) \<noteq> None \<and> \<not> committed (claim_close_result o' x s)"
  using claimed_result [of s o' x] by (auto simp: claim_close_result_def)

lemma begin_close_intact:
  assumes "intact b sp"
  shows "intact b (act (Begin_close d) sp)"
proof (cases "s_claim (fst sp) \<noteq> None \<or> s_closing (fst sp)")
  case True
  then have "act (Begin_close d) sp = sp"
    by (cases sp) (auto simp: on_sink_def begin_close_def)
  then show ?thesis using assms by simp
next
  case False
  let ?s = "fst sp"
  have a: "accounted (act (Begin_close d) sp)" using begin_close_accounted assms by (simp add: intact_def)
  show ?thesis
  proof (cases "s_closed ?s")
    case True
    then have eq: "act (Begin_close d) sp = (claim_close_result ''writer_failure'' False ?s, snd sp)"
      using False by (simp add: on_sink_def begin_close_def)
    show ?thesis using a not_drained [of ?s "''writer_failure''" False] False
      unfolding eq by (intro claimed_intact) auto
  next
    case unclosed: False
    let ?t = "seal_profile_loss_locked (seal_loss_locked (?s\<lparr>s_deadline := Some d\<rparr>))"
    have eq: "act (Begin_close d) sp = (?t\<lparr>s_closing := True\<rparr>, snd sp)"
      using False unclosed by (simp add: on_sink_def begin_close_def)
    have fr: "frame ?t = frame (?s\<lparr>s_deadline := Some d\<rparr>)"
      by (simp add: seal_profile_loss_locked_def seal_loss_locked_def)
    note f = frameD [OF fr]
    have x: "shard_text (?s\<lparr>s_deadline := Some d\<rparr>) = shard_text ?s" by simp
    have y: "shard_text ?t = shard_text (?s\<lparr>s_deadline := Some d\<rparr>)" by (rule frame_text) (rule f)
    have sh: "shards_ok b ?t (snd sp)"
      using shards_open_cong [of ?t ?s b "snd sp"] x y f assms False by (simp add: intact_def)
    have cl: "\<not> s_closing ?t" using f False by simp
    have "shards_ok b (?t\<lparr>s_closing := True\<rparr>) (snd sp)" by (rule shards_closing [OF sh cl])
    then show ?thesis using a f False assms unfolding eq by (auto simp: intact_def committed_def)
  qed
qed

lemma finish_close_intact:
  assumes "intact b sp"
  shows "intact b (act Finish_close sp)"
proof (cases "s_claim (fst sp) \<noteq> None \<or> \<not> s_closing (fst sp)")
  case True
  then have "act Finish_close sp = sp"
    by (cases sp) (auto simp: on_sink_def finish_close_def)
  then show ?thesis using assms by simp
next
  case False
  let ?s = "fst sp"
  have a: "accounted (act Finish_close sp)" using finish_close_accounted assms by (simp add: intact_def)
  let ?o = "case s_outcome ?s of Some o' \<Rightarrow> o' | None \<Rightarrow> ''writer_failure''"
  let ?f = "(force_timeout_accounting_locked ?s)\<lparr>s_abandoned := True, s_closed := True\<rparr>"
  show ?thesis
  proof (cases "snd sp = W_done")
    case True
    then have "shards_ok b ?s W_done" using assms False by (simp add: intact_def)
    then have nf: "?o \<noteq> ''drained'' \<or> \<not> sw Base ?s" by (auto simp: finished_def split: option.splits)
    have eq: "act Finish_close sp = (claim_close_result ?o (sw Base ?s) ?s, snd sp)"
      using False True by (simp add: on_sink_def finish_close_def sw_Base)
    have "s_claim (claim_close_result ?o (sw Base ?s) ?s) \<noteq> None \<and>
        \<not> committed (claim_close_result ?o (sw Base ?s) ?s)"
      by (rule not_drained) (use False nf in auto)
    then show ?thesis using a unfolding eq by (intro claimed_intact) auto
  next
    case alive: False
    have eq: "act Finish_close sp = (claim_close_result ''timeout'' False ?f, snd sp)"
      using False alive by (simp add: on_sink_def finish_close_def)
    have "held (force_timeout_accounting_locked ?s) = held ?s" by simp
    then have "s_claim ?f = None" using False by (simp add: held_def)
    from not_drained [OF this, of "''timeout''" False] show ?thesis
      using a unfolding eq by (intro claimed_intact) auto
  qed
qed

lemma bounded_timeout_intact:
  assumes "intact b sp"
  shows "intact b (act Bounded_timeout sp)"
proof (cases "s_claim (fst sp)")
  case (Some r)
  then have "act Bounded_timeout sp = sp"
    by (cases sp) (auto simp: on_sink_def bounded_timeout_without_lock_def)
  then show ?thesis using assms by simp
next
  case None
  have a: "accounted (act Bounded_timeout sp)" using bounded_timeout_accounted assms by (simp add: intact_def)
  have eq: "act Bounded_timeout sp = ((claim_close_result ''timeout'' False (fst sp))
      \<lparr>s_abandoned := True, s_closed := True, s_outcome := Some ''timeout''\<rparr>, snd sp)"
    using None by (simp add: on_sink_def bounded_timeout_without_lock_def)
  show ?thesis using a not_drained [OF None, of "''timeout''" False]
    unfolding eq by (intro claimed_intact) (auto simp: committed_def)
qed

text \<open>Runs in which the deadline is never reached while the writer works.\<close>

fun timely :: "action \<Rightarrow> system \<Rightarrow> bool" where
  "timely (Writer e) sp = (\<not> close_deadline_reached e (fst sp))"
| "timely _ sp = True"

lemma act_intact:
  assumes "intact b sp" "b \<longrightarrow> timely a sp"
  shows "intact b (act a sp)"
proof (cases "producer_action a")
  case True then show ?thesis using producer_intact assms by blast
next
  case False
  then show ?thesis
    using assms begin_close_intact finish_close_intact bounded_timeout_intact
      writer_intact [of b "fst sp" "snd sp"] by (cases a) (simp_all del: act.simps(7-9))
qed

lemma initial_intact:
  assumes "initial sp"
  shows "intact b sp"
proof -
  note f = initial_fields [OF assms]
  have "in_place (fst sp)"
    using initial_chan [OF assms] by (fastforce simp: in_place_def fresh_chan_def)
  moreover have "\<not> sw Base (fst sp)"
    using initial_chan [OF assms, of Base] by (auto simp: sw_def fresh_chan_def split: option.split)
  ultimately show ?thesis
    using f initial_shape(1) [OF assms] initial_accounted [OF assms]
    by (simp add: intact_def unsummed_def committed_def)
qed

interpretation shards: invariant initial any_time act "intact False"
  by unfold_locales (auto intro: initial_intact act_intact)

interpretation timely_shards: invariant initial timely act "intact True"
  by unfold_locales (auto intro: initial_intact act_intact)

end
