(* ===== verification/Exporter_Properties.thy ===== *)
theory Exporter_Properties
  imports Exporter_Shards
begin

text \<open>
  The properties of the exporter over its reachable states, with the concrete runs they are
  evaluated on, the bounds of batches and the termination measure of the writer.
\<close>

section \<open>Concrete runs\<close>

text \<open>An environment in which everything works, one byte per write call, at the given time.\<close>

definition calm :: "int \<Rightarrow> env" where
  "calm now = \<lparr>e_now = now, e_clock = Some 5, e_staged = True, e_writes = (\<lambda>_ _. Wrote 1),
     e_hide = (\<lambda>_. \<lparr>hf_link_ok = True, hf_reserve_ok = True, hf_replace_ok = True,
       hf_identity_ok = True, hf_unlink_ok = True\<rparr>),
     e_fds_closed = True, e_sources_ok = (\<lambda>_. True), e_replace = (\<lambda>_. True), e_retract = (\<lambda>_. Moved_back)\<rparr>"

definition sample_provenance :: runtime_provenance where
  "sample_provenance = \<lparr>pv_profiler_parent_commit = replicate 40 CHR ''a'',
     pv_runtime_core_commit = replicate 40 CHR ''b'', pv_device_plugin_commit = replicate 40 CHR ''c''\<rparr>"

lemma calm_writes: "write_loop (\<lambda>_. Wrote 1) i view = (view, True)"
proof (induction view arbitrary: i)
  case Nil
  then show ?case by (simp add: write_loop.simps)
next
  case (Cons a view)
  then show ?case using write_loop_turn [of "\<lambda>_. Wrote 1" i 1 "a # view"] by simp
qed

lemma calm_fields [simp]:
  "e_now (calm t) = t" "e_clock (calm t) = Some 5" "e_staged (calm t)" "e_writes (calm t) k = (\<lambda>_. Wrote 1)"
  "e_fds_closed (calm t)" "e_sources_ok (calm t) k" "e_replace (calm t) k"
  by (simp_all add: calm_def)

lemma start_record_fits:
  assumes "build_process_start_record u pid t cd p = Inr r"
    and "is_hex 40 (pv_profiler_parent_commit p)" "is_hex 40 (pv_runtime_core_commit p)"
    "is_hex 40 (pv_device_plugin_commit p)"
  shows "fits r"
proof -
  have h: "is_hex 32 u" "is_hex 32 cd" "0 \<le> pid" "pid \<le> UINT32_MAX" "0 \<le> t" "t \<le> UINT64_MAX"
    using assms(1) by (auto simp: build_process_start_record_def accept_simps require_hex32_def require_uint_def)
  have i: "value_bound (PInt pid) 20" "value_bound (PInt t) 20" "value_bound (PInt PARENT_API_MAJOR) 20"
    using h by (auto simp: value_bound_def length_py_str_int UINT32_MAX_def UINT64_MAX_def PARENT_API_MAJOR_def)
  have b: "value_bound (PInt n) 20" if "0 \<le> n \<and> n \<le> UINT64_MAX" for n
    using that by (simp add: value_bound_def length_py_str_int)
  have l: "list_all2 (\<lambda>kv b. plain (fst kv) \<and> value_bound (snd kv) b) EXPORTER_LIMITS
      [20, 20, 20, 20, 20, 20, 20, 20, 40]"
    by (simp add: EXPORTER_LIMITS_def)
      (auto simp: key_simps intro!: b bound_literal simp: DATA_CAPACITY_RECORDS_def RESERVED_CAPACITY_RECORDS_def MAX_RECORD_BYTES_def
        MAX_QUEUED_BYTES_def MAX_BATCH_RECORDS_def MAX_BATCH_BYTES_def WRITE_INTERVAL_MS_def
        CLOSE_TIMEOUT_MS_def UINT64_MAX_def)
  have lim: "value_bound (PDict EXPORTER_LIMITS) 600"
    using record_length [OF l] length_dumps_dict [of EXPORTER_LIMITS]
    by (simp add: value_bound_def EXPORTER_LIMITS_def del: json_dumps.simps)
  have r: "list_all2 (\<lambda>kv b. plain (fst kv) \<and> value_bound (snd kv) b) r
    [20, 15, 34, 20, 20, 40, 34, 42, 42, 42, 20, 600]"
    using assms(1) bound_schema bound_hex [OF h(1)] bound_hex [OF h(2)] i lim
      bound_hex [OF assms(2)] bound_hex [OF assms(3)] bound_hex [OF assms(4)]
    by (simp add: build_process_start_record_def accept_simps)
      (auto simp: key_simps bound_literal CLOCK_SOURCE_def)
  show ?thesis
    using assms(1) by (intro fitsI [OF r]) (auto simp: build_process_start_record_def accept_simps)
qed

lemma sample_start:
  "\<exists>raw. initialize_writer (calm t) (sample_hex CHR ''a'') 7 (sample_hex CHR ''b'') ''request''
     sample_provenance None = Inr (fresh_sink (sample_hex CHR ''a'') (sample_hex CHR ''b'') ''request'' (fresh_chan raw) None)"
proof -
  have h: "is_hex 32 (sample_hex CHR ''a'')" "is_hex 32 (sample_hex CHR ''b'')"
    "is_hex 40 (pv_profiler_parent_commit sample_provenance)" "is_hex 40 (pv_runtime_core_commit sample_provenance)"
    "is_hex 40 (pv_device_plugin_commit sample_provenance)" by code_simp+
  obtain r where r: "build_process_start_record (sample_hex CHR ''a'') 7 5 (sample_hex CHR ''b'') sample_provenance = Inr r"
    using h by (auto simp: build_process_start_record_def accept_simps require_hex32_def require_uint_def
        UINT32_MAX_def UINT64_MAX_def)
  then obtain raw where "canonical_json_line r = Inr raw"
    using start_record_fits [OF r h(3-5)] by (auto simp: fits_def)
  then show ?thesis by (auto simp: initialize_writer_def start_line_def r calm_writes)
qed

text \<open>A sink just opened, the close request, and the run of the writer up to its claim.\<close>

definition opened :: "string \<Rightarrow> system" where
  "opened raw = (fresh_sink (sample_hex CHR ''a'') (sample_hex CHR ''b'') ''request'' (fresh_chan raw) None, W_loop)"

lemma opened_reachable: "\<exists>raw. initial (opened raw)"
  using sample_start by (auto simp: initial_def opened_def) metis

text \<open>The run: close is requested with the deadline at 10, then the writer steps at the given times.\<close>

definition closing_run :: "string \<Rightarrow> int list \<Rightarrow> system" where
  "closing_run raw ts = fold (\<lambda>t sp. act (Writer (calm t)) sp) ts (act (Begin_close 10) (opened raw))"

lemma fresh_fields [simp]:
  "s_base (fresh_sink u cd m b p) = b" "s_profile (fresh_sink u cd m b p) = p"
  "s_queue (fresh_sink u cd m b p) = []" "s_inflight (fresh_sink u cd m b p) = []"
  "s_pending (fresh_sink u cd m b p) = []" "s_closing (fresh_sink u cd m b p) = False"
  "s_closed (fresh_sink u cd m b p) = False" "s_claim (fresh_sink u cd m b p) = None"
  "s_abandoned (fresh_sink u cd m b p) = False" "s_uuid (fresh_sink u cd m b p) = u"
  "s_writer_failed (fresh_sink u cd m b p) = False" "s_deadline (fresh_sink u cd m b p) = None"
  "s_outcome (fresh_sink u cd m b p) = None"
  by (simp_all add: fresh_sink_def)

definition drained_sink :: "string \<Rightarrow> sink" where
  "drained_sink raw = (fst (opened raw))\<lparr>s_deadline := Some 10, s_closing := True\<rparr>"

lemma run_begin: "act (Begin_close 10) (opened raw) = (drained_sink raw, W_loop)"
  by (simp add: opened_def on_sink_def begin_close_def seal_loss_locked_def seal_profile_loss_locked_def
      seal_loss_def chan_of_simps fresh_chan_def drained_sink_def)

lemma total_counts_zero: "total_count (\<lambda>_. 0) = 0"
  by (simp add: total_count_def)

lemma run_to_summary:
  assumes "t1 < 10"
  shows "fold (\<lambda>t sp. act (Writer (calm t)) sp) [t1, t2] (drained_sink raw, W_loop) =
    (drained_sink raw, W_summary ''drained'')"
  using assms
  by (simp add: writer_step_def loop_step_def take_pending_diagnostics_locked_def Let_def drained_sink_def opened_def
      close_cutoff_reached_locked_def counts_reconcile_def reconciles_def fresh_chan_def data_written_def
      DIAGNOSTIC_REASONS_def)

definition hidden_chan :: "string \<Rightarrow> chan" where
  "hidden_chan raw = (fresh_chan raw)\<lparr>c_formal := Sentinel, c_linked := True, c_reservation := True,
     c_incomplete := True\<rparr>"

definition with_base :: "chan \<Rightarrow> string \<Rightarrow> sink" where
  "with_base c raw = (drained_sink raw)\<lparr>s_base := c\<rparr>"

lemma with_base_fields [simp]:
  "s_base (with_base c raw) = c" "s_profile (with_base c raw) = None" "s_deadline (with_base c raw) = Some 10"
  "s_abandoned (with_base c raw) = False" "s_closing (with_base c raw) = True"
  "s_claim (with_base c raw) = None" "s_outcome (with_base c raw) = None"
  "s_writer_failed (with_base c raw) = False" "s_uuid (with_base c raw) = sample_hex CHR ''a''"
  "s_pending (with_base c raw) = []" "upd_chan Base f (with_base c raw) = with_base (f c) raw"
  "chan_of Base (with_base c raw) = Some c" "chan_of Prof (with_base c raw) = None"
  by (simp_all add: with_base_def drained_sink_def opened_def upd_chan_def chan_of_simps)

lemma run_hide:
  assumes "t3 < 10"
  shows "act (Writer (calm t3)) (drained_sink raw, W_summary ''drained'') =
    (with_base (hidden_chan raw) raw, W_hidden ''drained'')"
proof -
  have "drained_sink raw = with_base (fresh_chan raw) raw"
    by (simp add: with_base_def drained_sink_def opened_def fresh_sink_def)
  then show ?thesis using assms
    by (simp add: writer_step_def summary_step_def close_deadline_reached_def hide_def hide_shard_def
        calm_def Let_def) (simp add: fresh_chan_def hidden_chan_def)
qed

lemma sample_summary:
  "\<exists>line. summary_line Base (with_base (hidden_chan raw) raw) 5 ''drained'' = Inr line"
proof -
  let ?c = "hidden_chan raw"
  have d: "is_hex 64 (shard_digest ?c)" by (simp add: shard_digest_def sha256_hex_is_hex)
  have u: "is_hex 32 (sample_hex CHR ''a'')" by code_simp
  have z: "c_attempted ?c = 0" "c_written ?c rt = 0" "c_dropped ?c = 0" "c_dropped_control ?c = 0"
    "c_writer_failures ?c = 0" for rt
    by (simp_all add: hidden_chan_def fresh_chan_def)
  obtain r where r: "build_process_summary_record (sample_hex CHR ''a'') 5
     \<lparr>sc_attempted = 0, sc_written_event = 0, sc_written_edge = 0, sc_written_loss = 0, sc_dropped_data = 0,
      sc_dropped_control = 0, sc_writer_failure = 0\<rparr> ''drained'' (shard_digest ?c) = Inr r"
    using d u by (auto simp: build_process_summary_record_def accept_simps require_hex32_def require_uint_def
        UINT64_MAX_def)
  then show ?thesis using summary_record_fits [OF r] by (auto simp: summary_line_def Let_def z fits_def)
qed

definition summed_chan :: "string \<Rightarrow> string \<Rightarrow> chan" where
  "summed_chan raw line = (hidden_chan raw)\<lparr>c_disk := raw @ line\<rparr>"

lemma run_summary:
  assumes "t4 < 10" "t5 < 10" "summary_line Base (with_base (hidden_chan raw) raw) 5 ''drained'' = Inr line"
  shows "fold (\<lambda>t sp. act (Writer (calm t)) sp) [t4, t5, t6] (with_base (hidden_chan raw) raw, W_hidden ''drained'') =
    ((with_base ((summed_chan raw line)\<lparr>c_summary_written := True\<rparr>) raw)\<lparr>s_outcome := Some ''drained''\<rparr>, W_finalize)"
proof -
  have l: "length line \<le> 4096"
  proof -
    obtain r where "canonical_json_line r = Inr line"
      using assms(3) by (auto simp: summary_line_def Let_def split: sum.splits)
    then show ?thesis by (auto simp: canonical_json_line_def Let_def MAX_RECORD_BYTES_def split: if_splits)
  qed
  have w: "write_reserved_control_via Base line (write_all (calm t4) Base line) (with_base (hidden_chan raw) raw) =
      (Inr True, with_base (summed_chan raw line) raw)"
    using l by (simp add: write_reserved_control_via_def reserve_control_def release_control_def write_all_def
        persist_def calm_writes)
      (simp add: hidden_chan_def fresh_chan_def RESERVED_CAPACITY_RECORDS_def MAX_QUEUED_BYTES_def summed_chan_def
        calm_writes)
  have 4: "act (Writer (calm t4)) (with_base (hidden_chan raw) raw, W_hidden ''drained'') =
      (with_base (summed_chan raw line) raw, W_base_written ''drained'')"
    using assms(1,3)
    by (simp add: writer_step_def hidden_step_def close_deadline_reached_def write_summary_record_def w)
  have 5: "act (Writer (calm t5)) (with_base (summed_chan raw line) raw, W_base_written ''drained'') =
      (with_base (summed_chan raw line) raw, W_flags ''drained'')"
    using assms(2) by (simp add: writer_step_def base_written_step_def close_deadline_reached_def)
  show ?thesis by (simp add: 4 5 del: act.simps) (simp add: writer_step_def flags_step_def set_summary_written_def)
qed

lemma run_finish:
  assumes "c_summary_written c" "c_incomplete c" "c_reservation c" "c_linked c" "c_formal c = Sentinel"
    and "sp = ((with_base c raw)\<lparr>s_outcome := Some ''drained''\<rparr>, W_finalize)"
  shows "10 \<le> t8 \<Longrightarrow> fst (fold (\<lambda>t sp. act (Writer (calm t)) sp) [t7, t8, t9] sp) = s' \<Longrightarrow>
      committed s' \<and> s_base s' = c"
    "t8 < 10 \<Longrightarrow> t9 < 10 \<Longrightarrow> fst (fold (\<lambda>t sp. act (Writer (calm t)) sp) [t7, t8, t9] sp) = s' \<Longrightarrow>
      committed s' \<and> c_formal (s_base s') = Shard"
  using assms
  by (auto simp: writer_step_def finalize_step_def publish_step_def publish_eligible_def end_step_def claim_step_def
      close_deadline_reached_def flush_diagnostics_def take_pending_diagnostics_locked_def Let_def
      claim_close_result_def committed_def result_of_def publishable_def replace_formal_def chan_of_simps
      upd_chan_def upd_both_def)

lemma fold_Cons_split: "fold f (xs @ ys) s = fold f ys (fold f xs s)"
  by simp

lemma run_outcome:
  assumes "initial (opened raw)"
  shows "committed (fst (closing_run raw [0, 0, 0, 0, 0, 0, 0, 10, 10]))"
    "c_formal (s_base (fst (closing_run raw [0, 0, 0, 0, 0, 0, 0, 10, 10]))) = Sentinel"
    "committed (fst (closing_run raw [0, 0, 0, 0, 0, 0, 0, 0, 0]))"
proof -
  obtain line where l: "summary_line Base (with_base (hidden_chan raw) raw) 5 ''drained'' = Inr line"
    using sample_summary by blast
  let ?c = "(summed_chan raw line)\<lparr>c_summary_written := True\<rparr>"
  let ?f = "\<lambda>t sp. act (Writer (calm t)) sp"
  have eq: "closing_run raw [0, 0, 0, 0, 0, 0, t7, t8, t9] = fold ?f [t7, t8, t9]
      ((with_base ?c raw)\<lparr>s_outcome := Some ''drained''\<rparr>, W_finalize)" for t7 t8 t9
  proof -
    have "closing_run raw [0, 0, 0, 0, 0, 0, t7, t8, t9] =
        fold ?f [t7, t8, t9] (fold ?f [0, 0, 0] (fold ?f [0] (fold ?f [0, 0] (drained_sink raw, W_loop))))"
      by (simp only: closing_run_def run_begin fold.simps comp_def id_apply)
    then show ?thesis
      using run_to_summary [of 0 0 raw] run_hide [of 0 raw] run_summary [OF _ _ l, of 0 0 0]
      by (simp only: fold.simps comp_def id_apply)
  qed
  have c: "c_summary_written ?c" "c_incomplete ?c" "c_reservation ?c" "c_linked ?c" "c_formal ?c = Sentinel"
    by (simp_all add: summed_chan_def hidden_chan_def)
  show "committed (fst (closing_run raw [0, 0, 0, 0, 0, 0, 0, 10, 10]))"
    "c_formal (s_base (fst (closing_run raw [0, 0, 0, 0, 0, 0, 0, 10, 10]))) = Sentinel"
    using run_finish(1) [OF c refl, of 10 0 10] c(5) by (simp_all only: eq)
  show "committed (fst (closing_run raw [0, 0, 0, 0, 0, 0, 0, 0, 0]))"
    using run_finish(2) [OF c refl, of 0 0 0] by (simp_all only: eq)
qed

lemma run_reachable:
  assumes "reach I any_time act sp"
  shows "reach I any_time act (fold (\<lambda>t sp. act (Writer (calm t)) sp) ts sp)"
  using assms
proof (induction ts arbitrary: sp)
  case (Cons t ts)
  then show ?case using reach_step [OF Cons.prems, of "Writer (calm t)"] by (simp add: any_time_def del: act.simps)
qed simp

lemma closing_run_reachable: "initial (opened raw) \<Longrightarrow> reachable (closing_run raw ts)"
  unfolding closing_run_def by (intro run_reachable reach_step reach_start) (simp_all add: any_time_def)

lemma writer_deadline: "s_deadline (fst (act (Writer e) sp)) = s_deadline (fst sp)"
proof -
  obtain s ph s' ph' where sp: "sp = (s, ph)" and w: "writer_step e (s, ph) = (s', ph')" by fastforce
  show ?thesis
  proof (cases "ph = W_claim \<or> ph = W_end")
    case False
    then have "held s' = held s" using writer_held [OF w] by blast
    then show ?thesis by (simp add: sp w held_def)
  next
    case True
    let ?t = "flush_diagnostics (count_diagnostic_locked ''close_timeout''
      ((upd_both (\<lambda>c. c\<lparr>c_summary_written := False\<rparr>) (retract_all e s))\<lparr>s_outcome := Some ''timeout''\<rparr>))"
    have "held ?t = held s" by simp
    then have "s_deadline ?t = s_deadline s" by (simp add: held_def)
    then have "s_deadline (fst (claim_step e s)) = s_deadline s" "s_deadline (fst (end_step s)) = s_deadline s"
      by (auto simp: claim_step_def end_step_def Let_def)
    then show ?thesis using True w by (auto simp: sp writer_step_def)
  qed
qed

lemma closing_run_timely:
  assumes "initial (opened raw)" "\<forall>t \<in> set ts. t < 10"
  shows "reach initial timely act (closing_run raw ts)"
proof -
  have "reach initial timely act (fold (\<lambda>t sp. act (Writer (calm t)) sp) ts sp)"
    if "reach initial timely act sp" "s_deadline (fst sp) = Some 10" "\<forall>t \<in> set ts. t < 10" for sp ts
    using that
  proof (induction ts arbitrary: sp)
    case (Cons t ts)
    have "timely (Writer (calm t)) sp" using Cons.prems by (simp add: close_deadline_reached_def)
    from reach_step [OF Cons.prems(1) this] show ?case
      using Cons.IH [of "act (Writer (calm t)) sp"] Cons.prems writer_deadline [of "calm t" sp] by (simp del: act.simps)
  qed simp
  moreover have "reach initial timely act (act (Begin_close 10) (opened raw))"
    by (intro reach_step reach_start assms(1)) simp
  moreover have "s_deadline (fst (act (Begin_close 10) (opened raw))) = Some 10"
    by (simp only: run_begin) (simp add: drained_sink_def)
  ultimately show ?thesis using assms(2) by (simp add: closing_run_def)
qed

section \<open>Batches\<close>

lemma split_batch_bounds:
  "split_batch n b qs = (batch, rest) \<Longrightarrow> int n \<le> MAX_BATCH_RECORDS \<Longrightarrow>
     int n + int (length batch) \<le> MAX_BATCH_RECORDS \<and>
     (n > 0 \<and> b \<le> MAX_BATCH_BYTES \<longrightarrow> b + raw_bytes batch \<le> MAX_BATCH_BYTES)"
proof (induction n b qs arbitrary: batch rest rule: split_batch.induct)
  case (2 n b q qs)
  obtain batch' rest' where s: "split_batch (Suc n) (b + int (length (q_raw q))) qs = (batch', rest')" by fastforce
  show ?case
  proof (cases "int n \<ge> MAX_BATCH_RECORDS \<or> n > 0 \<and> b + int (length (q_raw q)) > MAX_BATCH_BYTES")
    case True
    then show ?thesis using 2(2,3) by auto
  next
    case False
    then show ?thesis using 2(1) [OF _ s] 2(2,3) s by auto
  qed
qed auto

lemma split_batch_first:
  assumes "split_batch 0 0 qs = (batch, rest)"
  shows "int (length batch) \<le> MAX_BATCH_RECORDS" "length batch \<le> 1 \<or> raw_bytes batch \<le> MAX_BATCH_BYTES"
    "qs \<noteq> [] \<longrightarrow> batch \<noteq> []"
proof -
  show "int (length batch) \<le> MAX_BATCH_RECORDS"
    using split_batch_bounds [OF assms] by (simp add: MAX_BATCH_RECORDS_def)
  show "qs \<noteq> [] \<longrightarrow> batch \<noteq> []"
    using assms by (cases qs) (auto simp: MAX_BATCH_RECORDS_def split: prod.splits)
  show "length batch \<le> 1 \<or> raw_bytes batch \<le> MAX_BATCH_BYTES"
  proof (cases qs)
    case (Cons q qs')
    obtain batch' where s: "split_batch 1 (int (length (q_raw q))) qs' = (batch', rest)" and b: "batch = q # batch'"
      using assms Cons by (auto simp: MAX_BATCH_RECORDS_def split: prod.splits)
    show ?thesis
    proof (cases "int (length (q_raw q)) \<le> MAX_BATCH_BYTES")
      case True
      then show ?thesis using split_batch_bounds [OF s] by (simp add: b MAX_BATCH_RECORDS_def)
    next
      case False
      then have "batch' = []"
        using s by (cases qs') (auto split: if_splits prod.splits)
      then show ?thesis by (simp add: b)
    qed
  qed (use assms in simp)
qed

section \<open>The writer terminates\<close>

text \<open>
  How many steps the writer thread still has at most, once close was requested: a queued record costs
  up to five (its share of a batch, the write, the accounting), a pending diagnostic one, and the
  timeout path at most 64 control records of each stream.
\<close>

definition backlog :: "sink \<Rightarrow> nat" where
  "backlog s = 500 + 5 * length (s_queue s) + length (s_pending s)"

fun writer_work :: "system \<Rightarrow> nat" where
  "writer_work (s, W_loop) = backlog s"
| "writer_work (s, W_batch qs) = backlog s + 3 * length qs + 1"
| "writer_work (s, W_write Draining q qs) = backlog s + 3 * length qs + 3"
| "writer_work (s, W_record Draining q qs) = backlog s + 3 * length qs + 2"
| "writer_work (s, W_write Timing_out q qs) = 3 * length qs + 12"
| "writer_work (s, W_record Timing_out q qs) = 3 * length qs + 11"
| "writer_work (s, W_timeout) = 499"
| "writer_work (s, W_controls qs) = 3 * length qs + 10"
| "writer_work (s, W_drained) = 10"
| "writer_work (s, W_summary o') = 9"
| "writer_work (s, W_hidden o') = 8"
| "writer_work (s, W_base_written o') = 7"
| "writer_work (s, W_profile_written o') = 6"
| "writer_work (s, W_flags o') = 5"
| "writer_work (s, W_finalize) = 4"
| "writer_work (s, W_publish) = 3"
| "writer_work (s, W_claim) = 2"
| "writer_work (s, W_end) = 1"
| "writer_work (s, W_done) = 0"

lemma stream_partition: "length qs = length (of_stream Base qs) + length (of_stream Prof qs)"
proof (induction qs)
  case (Cons q qs)
  then show ?case by (cases "q_stream q") (simp_all add: of_stream_def)
qed (simp add: of_stream_def)

lemma timeout_controls_few:
  assumes "queue_ok s" "prepare_timeout_controls_locked e s = (controls, s')"
  shows "length controls \<le> 128"
proof -
  note f = prepare_timeout [OF assms]
  have p: "pending s' = controls" using f(3,4) by (simp add: pending_def)
  have t: "\<forall>q \<in> set controls. typed q \<and> is_control q"
    using f(1,5) p by (auto simp: queue_ok_def list_all_iff)
  have "int (length (of_stream k controls)) \<le> 64" for k
  proof (cases "chan_of k s'")
    case (Some c)
    then have "tally k controls c" "within_capacity c" using f(1) p unfolding queue_ok_def by blast+
    then show ?thesis using all_control_counts [OF t, of k]
      by (simp add: tally_def within_capacity_def RESERVED_CAPACITY_RECORDS_def)
  next
    case None
    then have "of_stream k controls = []"
      using f(1) p by (auto simp: queue_ok_def list_all_iff of_stream_def filter_empty_conv)
    then show ?thesis by simp
  qed
  from this [of Base] this [of Prof] show ?thesis using stream_partition [of controls] by linarith
qed

lemma take_diagnostics_length:
  assumes "take_pending_diagnostics_locked s = (ds, s')"
  shows "length (s_pending s') \<le> length (s_pending s)" "ds \<noteq> [] \<Longrightarrow> length (s_pending s') < length (s_pending s)"
proof -
  have eq: "ds = filter (\<lambda>r. r \<in> set (s_pending s)) DIAGNOSTIC_REASONS"
    "s_pending s' = filter (\<lambda>r. r \<notin> set ds) (s_pending s)"
    using assms by (auto simp: take_pending_diagnostics_locked_def Let_def)
  show "length (s_pending s') \<le> length (s_pending s)" by (simp add: eq(2))
  assume "ds \<noteq> []"
  then obtain r where "r \<in> set ds" by (cases ds) auto
  then have "r \<in> set (s_pending s)" by (simp add: eq(1))
  with \<open>r \<in> set ds\<close> show "length (s_pending s') < length (s_pending s)"
    unfolding eq(2) by (intro length_filter_less) auto
qed

lemma loop_work:
  assumes "s_closing s"
  shows "writer_work (loop_step e s) < writer_work (s, W_loop)"
proof -
  obtain ds s1 where d: "take_pending_diagnostics_locked s = (ds, s1)" by fastforce
  obtain batch s2 where b: "take_batch_locked s1 = (batch, s2)" by fastforce
  have q: "s_queue s1 = s_queue s" "s_closing s1" using take_diagnostics_fields [OF d] assms by auto
  have b2: "batch @ s_queue s2 = s_queue s1" "s_pending s2 = s_pending s1"
    using b split_batch_append [of 0 0 "s_queue s1"] by (auto simp: take_batch_locked_def split: prod.splits)
  have ne: "s_queue s1 \<noteq> [] \<longrightarrow> batch \<noteq> []"
    using b split_batch_first(3) [of "s_queue s1"] by (auto simp: take_batch_locked_def split: prod.splits)
  have len: "length (s_queue s) = length batch + length (s_queue s2)"
    using arg_cong [OF b2(1), of length] q(1) by simp
  have nz: "2 \<le> 2 * length batch" if "s_queue s \<noteq> []" using ne that q(1) by (cases batch) auto
  show ?thesis
    using take_diagnostics_length [OF d] assms q b2(2) len nz
    by (auto simp: loop_step_def d b backlog_def)
qed

lemma write_work:
  assumes "write_step e m q qs s = (s', ph')"
  shows "writer_work (s', ph') < writer_work (s, W_write m q qs)"
proof -
  obtain ok s1 where w: "write_all e (q_stream q) (q_raw q) s = (ok, s1)" by fastforce
  have p: "s_pending s1 = s_pending s" "s_queue s1 = s_queue s"
    using w by (auto simp: write_all_def persist_def Let_def split: if_splits option.splits prod.splits)
  show ?thesis using assms p
    by (cases m) (auto simp: write_step_def w backlog_def split: if_splits)
qed

lemma record_work:
  assumes "accounted (s, W_record m q qs)"
  shows "writer_work (record_written q s, after_write m qs) < writer_work (s, W_record m q qs)"
proof (cases "s_abandoned s")
  case True
  then show ?thesis by (cases m) (simp_all add: record_written_def after_write_def backlog_def)
next
  case False
  then have inf: "s_inflight s = q # qs" using assms by (simp add: accounted_def)
  have "chan_of (q_stream q) s \<noteq> None"
    using assms inf by (auto simp: accounted_def queue_ok_def pending_def)
  then have "s_pending (record_written q s) = s_pending s" "s_queue (record_written q s) = s_queue s"
    using False inf by (auto simp: record_written_def Let_def)
  then show ?thesis by (cases m) (simp_all add: after_write_def backlog_def)
qed

lemma writer_progress:
  assumes "accounted (s, ph)" "s_closing s" "ph \<noteq> W_done"
  shows "writer_work (writer_step e (s, ph)) < writer_work (s, ph)"
proof (cases ph)
  case W_loop
  then show ?thesis using loop_work [OF assms(2)] by (simp add: writer_step_def)
next
  case (W_batch qs)
  then show ?thesis by (cases qs) (simp_all add: writer_step_def batch_step_def backlog_def)
next
  case (W_write m q qs)
  then show ?thesis using write_work [of e m q qs s "fst (write_step e m q qs s)" "snd (write_step e m q qs s)"]
    by (simp add: writer_step_def)
next
  case (W_record m q qs)
  then show ?thesis using record_work assms(1) by (simp add: writer_step_def)
next
  case W_timeout
  obtain cs s' where p: "prepare_timeout_controls_locked e s = (cs, s')" by fastforce
  have "length cs \<le> 128" using timeout_controls_few [OF _ p] assms(1) by (simp add: accounted_def)
  then show ?thesis by (simp add: W_timeout writer_step_def p)
next
  case (W_controls qs)
  then show ?thesis by (cases qs) (simp_all add: writer_step_def controls_step_def)
next
  case (W_hidden o')
  then show ?thesis by (auto simp: writer_step_def hidden_step_def split: prod.split sum.split bool.split)
next
  case (W_base_written o')
  then show ?thesis by (auto simp: writer_step_def base_written_step_def split: prod.split sum.split bool.split)
qed (use assms(3) in \<open>simp_all add: writer_step_def summary_step_def profile_written_step_def flags_step_def
    finalize_step_def publish_step_def claim_step_def end_step_def Let_def case_prod_unfold\<close>)

lemma writer_closing: "s_closing s \<Longrightarrow> s_closing (fst (writer_step e (s, ph)))"
proof -
  assume c: "s_closing s"
  have *: "held t = held s \<Longrightarrow> s_closing t" for t using c by (simp add: held_def)
  obtain s' ph' where w: "writer_step e (s, ph) = (s', ph')" by fastforce
  show "s_closing (fst (writer_step e (s, ph)))"
  proof (cases "ph = W_claim \<or> ph = W_end")
    case False
    then show ?thesis using * writer_held [OF w] w by simp
  next
    case True
    let ?t = "flush_diagnostics (count_diagnostic_locked ''close_timeout''
      ((upd_both (\<lambda>c. c\<lparr>c_summary_written := False\<rparr>) (retract_all e s))\<lparr>s_outcome := Some ''timeout''\<rparr>))"
    have "s_closing ?t" by (rule *) simp
    then have "s_closing (fst (claim_step e s))" "s_closing (fst (end_step s))"
      using c by (auto simp: claim_step_def end_step_def Let_def)
    then show ?thesis using True by (auto simp: writer_step_def)
  qed
qed

lemma writer_run_ends:
  assumes "accounted sp" "s_closing (fst sp)" "writer_work sp \<le> length es"
  shows "snd (fold writer_step es sp) = W_done"
  using assms
proof (induction es arbitrary: sp)
  case Nil
  obtain s ph where sp: "sp = (s, ph)" by fastforce
  show ?case
  proof (rule ccontr)
    assume "snd (fold writer_step [] sp) \<noteq> W_done"
    then have "ph \<noteq> W_done" by (simp add: sp)
    then show False using writer_progress [of s ph] Nil sp by fastforce
  qed
next
  case (Cons e es)
  obtain s ph where sp: "sp = (s, ph)" by fastforce
  show ?case
  proof (cases "ph = W_done")
    case True
    then have "writer_step e sp = sp" by (simp add: sp writer_step_def)
    then show ?thesis using Cons.IH [of sp] Cons.prems True by (simp add: sp)
  next
    case False
    have "accounted (writer_step e sp)" "s_closing (fst (writer_step e sp))"
      "writer_work (writer_step e sp) \<le> length es"
      using writer_accounted [of s ph e] writer_closing [of s e ph] writer_progress [of s ph e] False Cons.prems
      by (auto simp: sp)
    then show ?thesis using Cons.IH by simp
  qed
qed

lemma summary_reconciles:
  assumes "summary_line k s t o' = Inr line" "chan_of k s = Some c"
  shows "reconciles k c"
proof (cases k)
  case Base
  then show ?thesis using assms
    by (auto simp: summary_line_def Let_def build_process_summary_record_def reconciles_def data_written_def
        chan_of_simps accept_simps split: sum.splits)
next
  case Prof
  then show ?thesis using assms
    by (auto simp: summary_line_def Let_def build_profile_summary_record_def reconciles_def data_written_def
        chan_of_simps accept_simps counts_ok_def split: sum.splits option.splits)
qed

section \<open>Properties of the exporter\<close>

text \<open>
  C1. Conservation. In every reachable state, whatever the interleaving of producers, close and
  writer, and whatever the operating system answered, every record a producer attempted on a
  stream is accounted for exactly once: it is written, counted as dropped, or still pending.
\<close>

theorem records_are_conserved:
  assumes "reachable sp" "chan_of k (fst sp) = Some c"
  shows "c_attempted c = data_written k c + c_dropped c +
    int (length (filter (stream_data k) (pending (fst sp))))"
  using conservation.holds [OF assms(1)] assms(2) by (auto simp: accounted_def due_def dest: spec [of _ k])

lemma records_are_conserved_witness:
  "\<exists>sp c. reachable sp \<and> chan_of Base (fst sp) = Some c \<and> c_attempted c = data_written Base c + c_dropped c +
    int (length (filter (stream_data Base) (pending (fst sp))))"
proof -
  obtain raw where "initial (opened raw)" using opened_reachable by blast
  then have r: "reachable (closing_run raw [0, 0])" by (rule closing_run_reachable)
  obtain c where c: "chan_of Base (fst (closing_run raw [0, 0])) = Some c" using chan_Base by blast
  show ?thesis using records_are_conserved [OF r c] r c by blast
qed

text \<open>
  C2. A claimed shard is complete. Whenever \<open>drained\<close> has been claimed, each stream's bytes on disk
  are the lines hashed followed by one summary of outcome \<open>drained\<close> computed from the very counters
  and lines of that stream, the counts reconcile, no data record is pending, close had been
  requested, no write had failed, and the formal name denotes the shard or its private reservation
  with the shard under the incomplete name.
\<close>

theorem committed_shard_is_complete:
  assumes "reachable sp" "committed (fst sp)" "chan_of k (fst sp) = Some c"
  shows "(\<exists>t line. summary_line k (fst sp) t ''drained'' = Inr line \<and> c_disk c = concat (c_lines c) @ line) \<and>
    reconciles k c \<and> filter (stream_data k) (pending (fst sp)) = [] \<and> s_closing (fst sp) \<and>
    \<not> s_writer_failed (fst sp) \<and> (c_formal c = Shard \<or> c_formal c = Sentinel \<and> c_linked c) \<and>
    (k = Prof \<longrightarrow> profile_committed (fst sp))"
proof -
  let ?s = "fst sp"
  have i: "intact False sp" using shards.holds [OF assms(1)] .
  then have d: "delivered False ?s (snd sp)" and a: "accounted sp" using assms(2) by (auto simp: intact_def)
  then have c: "complete ?s" by (simp add: delivered_def)
  then obtain t line where l: "summary_line k ?s t ''drained'' = Inr line" "c_disk c = concat (c_lines c) @ line"
    using assms(3) unfolding complete_def disk_summed_def by blast
  have r: "reconciles k c" by (rule summary_reconciles [OF l(1) assms(3)])
  have "due k ?s = 0" using a by (simp add: accounted_def)
  then have "filter (stream_data k) (pending ?s) = []"
    using r assms(3) by (simp add: due_def reconciles_def)
  moreover have "c_formal c = Shard \<or> c_formal c = Sentinel \<and> c_linked c"
    using d assms(3) by (auto simp: delivered_def published_def hidden_def)
  moreover have "profile_committed ?s" if "k = Prof"
    using assms(2,3) that d by (auto simp: profile_committed_def committed_def delivered_def chan_of_simps split: option.splits)
  ultimately show ?thesis using l r c by (auto simp: complete_def)
qed

lemma committed_shard_is_complete_witness:
  "\<exists>sp c. reachable sp \<and> committed (fst sp) \<and> chan_of Base (fst sp) = Some c \<and> reconciles Base c"
proof -
  obtain raw where i: "initial (opened raw)" using opened_reachable by blast
  note r = closing_run_reachable [OF i, of "[0, 0, 0, 0, 0, 0, 0, 0, 0]"]
  obtain c where c: "chan_of Base (fst (closing_run raw [0, 0, 0, 0, 0, 0, 0, 0, 0])) = Some c" using chan_Base by blast
  show ?thesis using committed_shard_is_complete [OF r run_outcome(3) [OF i] c] r run_outcome(3) [OF i] c by blast
qed

text \<open>
  C13. In a run in which the writer never meets the close deadline, a claim of \<open>drained\<close> means that
  the formal names denote the finished shards: the path handed out is the evidence.
\<close>

theorem timely_commit_is_published:
  assumes "reach initial timely act sp" "committed (fst sp)" "chan_of k (fst sp) = Some c"
  shows "c_formal c = Shard \<and>
    (\<exists>t line. summary_line k (fst sp) t ''drained'' = Inr line \<and> c_disk c = concat (c_lines c) @ line)"
proof -
  have "delivered True (fst sp) (snd sp)"
    using timely_shards.holds [OF assms(1)] assms(2) by (simp add: intact_def)
  then show ?thesis using assms(3) by (auto simp: delivered_def published_def complete_def disk_summed_def)
qed

lemma timely_commit_is_published_witness:
  "\<exists>sp c. reach initial timely act sp \<and> committed (fst sp) \<and> chan_of Base (fst sp) = Some c \<and> c_formal c = Shard"
proof -
  obtain raw where i: "initial (opened raw)" using opened_reachable by blast
  have r: "reach initial timely act (closing_run raw [0, 0, 0, 0, 0, 0, 0, 0, 0])"
    by (rule closing_run_timely [OF i]) simp
  obtain c where c: "chan_of Base (fst (closing_run raw [0, 0, 0, 0, 0, 0, 0, 0, 0])) = Some c" using chan_Base by blast
  show ?thesis using timely_commit_is_published [OF r run_outcome(3) [OF i] c] r run_outcome(3) [OF i] c by blast
qed

text \<open>
  C18. Without that restriction it does not: there is a run in which every system call succeeds, the
  deadline passes after the summary is written and before publication, and the exporter then claims
  \<open>drained\<close>, so that the path it hands out denotes the empty reservation.
\<close>

theorem late_commit_hands_out_a_reservation:
  "\<exists>sp. reachable sp \<and> committed (fst sp) \<and> c_formal (s_base (fst sp)) = Sentinel"
proof -
  obtain raw where i: "initial (opened raw)" using opened_reachable by blast
  show ?thesis using closing_run_reachable [OF i] run_outcome(1,2) [OF i] by blast
qed

text \<open>The calls of threads other than the writer.\<close>

fun writer_action :: "action \<Rightarrow> bool" where
  "writer_action (Writer e) = True"
| "writer_action _ = False"

text \<open>A forked child's copy is left as it is by every call: it has no writer thread.\<close>

lemma detached_act:
  assumes "s_claim s = Some r" "s_closed s" "\<not> writer_action a"
  shows "act a (s, ph) = (s, ph)"
  using assms
  by (cases a) (auto simp: on_sink_def write_event_def write_edge_def write_base_def write_kv_recovery_profile_def
      drop_kv_recovery_profile_def new_span_id_def defer_diagnostic_def usable_def begin_close_def finish_close_def
      bounded_timeout_without_lock_def)

lemma detached_acts:
  assumes "s_claim s = Some r" "s_closed s" "list_all (\<lambda>a. \<not> writer_action a) as"
  shows "act_all as (s, ph) = (s, ph)"
  using assms(3) by (induction as) (simp_all add: detached_act [OF assms(1,2)])

lemma detached_claim:
  assumes "\<not> s_forked s"
  shows "\<exists>r. s_claim (detach_after_fork_child s) = Some r \<and> cr_close_outcome r = ''writer_failure'' \<and>
    \<not> cr_summary_written r"
    "s_closed (detach_after_fork_child s)" "s_forked (detach_after_fork_child s)"
  using assms by (simp_all add: detach_after_fork_child_def Let_def result_of_def upd_both_def upd_chan_def)

text \<open>
  C30. Close has one winner. In the process of the sink, once a close result is claimed no later action
  of producers, closers or the writer replaces it, so every caller sees the same result. Only a forked
  child overwrites a claim, in its own copy of the sink and once: the first call there replaces whatever
  was inherited by a \<open>writer_failure\<close> result without a summary; after that no call in the child, which
  has no writer thread, and no further detaching changes its copy at all.
\<close>

theorem close_claim_is_final:
  assumes "s_claim (fst sp) = Some r"
  shows "s_claim (fst (act_all as sp)) = Some r \<and>
    (let child = detach_after_fork_child (fst sp) in
      (s_forked (fst sp) \<longrightarrow> child = fst sp) \<and>
      (\<not> s_forked (fst sp) \<longrightarrow>
        (\<exists>r'. s_claim child = Some r' \<and> cr_close_outcome r' = ''writer_failure'' \<and> \<not> cr_summary_written r') \<and>
        (list_all (\<lambda>a. \<not> writer_action a) bs \<longrightarrow> act_all bs (child, ph) = (child, ph)) \<and>
        detach_after_fork_child child = child))"
proof
  show "s_claim (fst (act_all as sp)) = Some r"
    using assms
  proof (induction as arbitrary: sp)
    case (Cons a as)
    then show ?case using Cons.IH [OF act_claim] by simp
  qed simp
  have same: "detach_after_fork_child t = t" if "s_forked t" for t
    using that by (simp add: detach_after_fork_child_def)
  show "let child = detach_after_fork_child (fst sp) in
      (s_forked (fst sp) \<longrightarrow> child = fst sp) \<and>
      (\<not> s_forked (fst sp) \<longrightarrow>
        (\<exists>r'. s_claim child = Some r' \<and> cr_close_outcome r' = ''writer_failure'' \<and> \<not> cr_summary_written r') \<and>
        (list_all (\<lambda>a. \<not> writer_action a) bs \<longrightarrow> act_all bs (child, ph) = (child, ph)) \<and>
        detach_after_fork_child child = child)"
    unfolding Let_def
    using same detached_claim [of "fst sp"] detached_acts by blast
qed

lemma close_claim_is_final_witness:
  "let s = (fst (opened []))\<lparr>s_claim := Some (result_of ''timeout'' False (fst (opened [])))\<rparr>;
       child = detach_after_fork_child s in
    s_claim (fst (act_all [Finish_close, Bounded_timeout] (s, W_end))) =
      Some (result_of ''timeout'' False (fst (opened []))) \<and>
    map_option cr_close_outcome (s_claim child) = Some ''writer_failure'' \<and>
    act_all [Begin_close 3, Do_span, Finish_close] (child, W_end) = (child, W_end)"
proof -
  let ?s = "(fst (opened []))\<lparr>s_claim := Some (result_of ''timeout'' False (fst (opened [])))\<rparr>"
  have "\<not> s_forked ?s" by (simp add: opened_def fresh_sink_def)
  moreover have "list_all (\<lambda>a. \<not> writer_action a) [Begin_close 3, Do_span, Finish_close]" by simp
  moreover have "s_claim (fst (?s, W_end)) = Some (result_of ''timeout'' False (fst (opened [])))" by simp
  note close_claim_is_final [OF this, of "[Finish_close, Bounded_timeout]" "[Begin_close 3, Do_span, Finish_close]" W_end]
  ultimately show ?thesis unfolding Let_def fst_conv by (metis option.map(2))
qed

text \<open>
  C10. The writer thread terminates: from any reachable state in which close was requested, at most
  \<open>writer_work\<close> further steps of the writer bring it to its end, whatever the clock, the file system
  and the injected functions answer in any of them.
\<close>

theorem writer_terminates:
  assumes "reachable sp" "s_closing (fst sp)" "writer_work sp \<le> length es"
  shows "snd (fold writer_step es sp) = W_done"
  using writer_run_ends [OF conservation.holds [OF assms(1)] assms(2,3)] .

lemma writer_terminates_witness:
  "\<exists>raw. snd (fold writer_step (replicate 500 (calm 0)) (closing_run raw [])) = W_done"
proof -
  obtain raw where i: "initial (opened raw)" using opened_reachable by blast
  have "closing_run raw [] = (drained_sink raw, W_loop)" by (simp only: closing_run_def run_begin) simp
  moreover have "s_closing (drained_sink raw)" "writer_work (drained_sink raw, W_loop) = 500"
    by (simp_all add: drained_sink_def opened_def backlog_def)
  ultimately show ?thesis
    using writer_terminates [OF closing_run_reachable [OF i, of "[]"], of "replicate 500 (calm 0)"]
    by (intro exI [of _ raw]) simp
qed

text \<open>
  Short writes. Whatever counts the write function returns, the loop puts a prefix of the record
  on disk, and it returns normally exactly when that prefix is the whole record.
\<close>

theorem partial_writes_are_prefixes:
  "prefix (fst (write_loop w i view)) view \<and>
    (snd (write_loop w i view) \<longleftrightarrow> fst (write_loop w i view) = view)"
  by (rule write_loop_prefix)

text \<open>
  Batches. What the writer takes is a prefix of the queue and becomes the batch in flight; it has
  at most 128 records, at most 262,144 bytes unless it is a single larger record, and it is empty
  only when the queue was.
\<close>

theorem batches_are_bounded:
  assumes "take_batch_locked s = (batch, s')"
  shows "batch @ s_queue s' = s_queue s \<and> s_inflight s' = batch \<and> length batch \<le> 128 \<and>
    (length batch \<le> 1 \<or> raw_bytes batch \<le> 262144) \<and> (batch = [] \<longleftrightarrow> s_queue s = [])"
proof -
  obtain rest where s: "split_batch 0 0 (s_queue s) = (batch, rest)" and s': "s' = s\<lparr>s_queue := rest, s_inflight := batch\<rparr>"
    using assms by (auto simp: take_batch_locked_def split: prod.splits)
  show ?thesis using split_batch_first [OF s] split_batch_append [OF s]
    by (auto simp: s' MAX_BATCH_RECORDS_def MAX_BATCH_BYTES_def)
qed

lemma batches_are_bounded_witness:
  "let q = loss_control Base ''x''; s = (fst (opened []))\<lparr>s_queue := replicate 200 q\<rparr> in
    length (fst (take_batch_locked s)) \<le> 128"
  using batches_are_bounded [OF surjective_pairing] by (simp add: Let_def)

text \<open>
  A late producer changes nothing. After close was requested every producer call leaves the
  sink as it was, up to one counted diagnostic: no sequence number, no count, no queued record.
\<close>

theorem late_producers_are_refused:
  assumes "producer_action a" "s_closing (fst sp)"
  shows "(\<exists>r. fst (act a sp) = fst sp \<or> fst (act a sp) = count_diagnostic_locked r (fst sp)) \<and>
    snd (act a sp) = snd sp \<and> books (fst (act a sp)) = books (fst sp) \<and>
    next_seq k (fst (act a sp)) = next_seq k (fst sp)"
proof -
  have "next_seq k (count_diagnostic_locked r s) = next_seq k s" for r s by (simp add: next_seq_def)
  then show ?thesis using producer_closing [OF assms] producer_frame [OF assms(1), of sp] by auto
qed

lemma late_producers_are_refused_witness:
  "snd (act Do_span (drained_sink [], W_loop)) = W_loop"
  using late_producers_are_refused [of Do_span "(drained_sink [], W_loop)" Base]
  by (simp add: drained_sink_def del: act.simps)

text \<open>
  A forked child inherits no evidence: the detached sink holds no record, has no committed path,
  refuses every producer, and every close of it yields the same \<open>writer_failure\<close> result.
\<close>

theorem forked_child_is_inert:
  assumes "\<not> s_forked s"
  shows "pending (detach_after_fork_child s) = [] \<and> \<not> usable (detach_after_fork_child s) \<and>
    \<not> committed (detach_after_fork_child s) \<and> \<not> profile_committed (detach_after_fork_child s) \<and>
    (\<exists>r. s_claim (detach_after_fork_child s) = Some r \<and> cr_close_outcome r = ''writer_failure'' \<and>
      s_claim (fst (act_all as (detach_after_fork_child s, ph))) = Some r)"
proof -
  let ?d = "detach_after_fork_child s"
  obtain r where r: "s_claim ?d = Some r" "cr_close_outcome r = ''writer_failure''"
    using assms by (auto simp: detach_after_fork_child_def Let_def result_of_def)
  have "s_claim (fst (act_all as (t, ph))) = Some r" if "s_claim t = Some r" for t as ph
    using that by (induction as arbitrary: t ph) (auto, metis act_claim fst_conv prod.collapse)
  then show ?thesis using assms r
    by (auto simp: committed_def profile_committed_def usable_def pending_def detach_after_fork_child_def Let_def)
qed

lemma forked_child_is_inert_witness:
  "pending (detach_after_fork_child (fst (opened []))) = []"
  using forked_child_is_inert [of "fst (opened [])" "[]" W_done] by (simp add: opened_def fresh_sink_def)

end
