(* ===== verification/Exporter_Capacity.thy ===== *)
theory Exporter_Capacity
  imports Exporter_Properties
begin

text \<open>
  Capacity, also at the points inside a step of the writer where the lock is free. While the writer
  writes a reserved control record, its slot and bytes are charged but it is in no queue; producers
  and closers run meanwhile. To them it is as if one more reserved record were in flight, and none of
  them looks at what is in flight, so the accounts that hold between steps carry over.
\<close>

section \<open>Nothing but the writer looks at what is in flight\<close>

abbreviation carrying :: "queued list \<Rightarrow> sink \<Rightarrow> sink" where
  "carrying x s \<equiv> s\<lparr>s_inflight := x\<rparr>"

lemma carry_upd [simp]: "upd_chan k f (carrying x s) = carrying x (upd_chan k f s)"
  by (cases k) (simp_all add: upd_chan_def)

lemma carry_diagnostic [simp]: "count_diagnostic_locked r (carrying x s) = carrying x (count_diagnostic_locked r s)"
  by (simp add: count_diagnostic_locked_def Let_def)

lemma carry_drop_control [simp]: "drop_control k (carrying x s) = carrying x (drop_control k s)"
  by (simp add: drop_control_def)

lemma carry_allocate [simp]: "allocate k (carrying x s) = carrying x (allocate k s)"
  by (simp add: allocate_def)

lemma carry_reads [simp]:
  "can_enqueue_locked (carrying x s) = can_enqueue_locked s" "loss_line (carrying x s) = loss_line s"
  "next_seq k (carrying x s) = next_seq k s" "open_of k (carrying x s) = open_of k s"
  "usable (carrying x s) = usable s" "event_line d (carrying x s) = event_line d s"
  "edge_line e (carrying x s) = edge_line e s" "profile_line t fs (carrying x s) = profile_line t fs s"
  by (auto simp: fun_eq_iff can_enqueue_locked_def loss_line_def next_seq_def open_of_def usable_def event_line_def
      edge_line_def profile_line_def split: stream.splits option.splits)

lemma carry_enqueue [simp]: "enqueue_locked q (carrying x s) = map_prod id (carrying x) (enqueue_locked q s)"
proof -
  have "(carrying x s)\<lparr>s_queue := y\<rparr> = carrying x (s\<lparr>s_queue := y\<rparr>)" for y by simp
  note carry_upd [of "q_stream q" "charge q" x "s\<lparr>s_queue := s_queue s @ [q]\<rparr>", folded this]
  then show ?thesis by (simp add: enqueue_locked_def)
qed

lemma carry_seal_loss [simp]: "seal_loss k (carrying x s) = carrying x (seal_loss k s)"
  by (auto simp: seal_loss_def Let_def split: option.splits sum.splits prod.splits)

lemma carry_note_drop [simp]: "note_drop k n rt r t (carrying x s) = carrying x (note_drop k n rt r t s)"
  by (simp add: note_drop_def Let_def)

lemma carry_note_drop_locked [simp]: "note_drop_locked n rt r t (carrying x s) = carrying x (note_drop_locked n rt r t s)"
  by (simp add: note_drop_locked_def)

lemma carry_note_profile_drop [simp]:
  "note_profile_drop_locked n t r u (carrying x s) = carrying x (note_profile_drop_locked n t r u s)"
  by (simp add: note_profile_drop_locked_def Let_def split: option.split)

lemma carry_offer:
  assumes "\<And>r s. account r (carrying x s) = carrying x (account r s)"
  shows "offer account q (carrying x s) = map_prod id (carrying x) (offer account q s)"
  using assms by (simp add: offer_def Let_def case_prod_unfold)

lemma carry_clock [simp]:
  "producer_clock_or_drop_locked ck n rt (carrying x s) = map_prod id (carrying x) (producer_clock_or_drop_locked ck n rt s)"
  by (simp add: producer_clock_or_drop_locked_def split: option.split)

lemma carry_write_base [simp]:
  "write_base rt b line ck (carrying x s) = map_prod id (carrying x) (write_base rt b line ck s)"
  by (simp add: write_base_def Let_def case_prod_unfold carry_offer split: option.split sum.split)

lemma carry_allocate_profile [simp]:
  "allocate_profile (carrying x s) = map_sum id (map_prod id (carrying x)) (allocate_profile s)"
  by (simp add: allocate_profile_def)

lemma carry_remember [simp]: "remember_record ref fs (carrying x s) = carrying x (remember_record ref fs s)"
  by (simp add: remember_record_def)

lemma carry_write_profile [simp]:
  "write_kv_recovery_profile t ts fs ck (carrying x s) =
     map_prod id (carrying x) (write_kv_recovery_profile t ts fs ck s)"
  by (auto simp: write_kv_recovery_profile_def Let_def case_prod_unfold carry_offer allocate_profile_def
      split: option.split sum.split)

lemma carry_drop_profile [simp]:
  "drop_kv_recovery_profile t ts r ck (carrying x s) =
     map_prod id (carrying x) (drop_kv_recovery_profile t ts r ck s)"
  by (auto simp: drop_kv_recovery_profile_def Let_def allocate_profile_def split: sum.split)

lemma carry_producer:
  assumes "producer_action a"
  shows "act a (carrying x s, ph) = (carrying x (fst (act a (s, ph))), ph)"
  using assms
  by (cases a) (auto simp: on_sink_def write_event_def write_edge_def new_span_id_def defer_diagnostic_def)

lemma carry_claim [simp]: "claim_close_result o' b (carrying x s) = carrying x (claim_close_result o' b s)"
  by (simp add: claim_close_result_def result_of_def chan_of_simps)

lemma carry_begin_close [simp]: "begin_close d (carrying x s) = carrying x (begin_close d s)"
proof -
  have d: "(carrying x s)\<lparr>s_deadline := y\<rparr> = carrying x (s\<lparr>s_deadline := y\<rparr>)" for y by simp
  have "seal_loss Prof (seal_loss Base ((carrying x s)\<lparr>s_deadline := Some d\<rparr>)) =
      carrying x (seal_loss Prof (seal_loss Base (s\<lparr>s_deadline := Some d\<rparr>)))"
    unfolding d by (simp only: carry_seal_loss)
  then show ?thesis by (simp add: begin_close_def seal_profile_loss_locked_def seal_loss_locked_def)
qed

section \<open>While a reserved control is written\<close>

text \<open>
  What the writer holds: the control as one more reserved record in flight. Either the accounts are
  in order with it, or a closer has abandoned everything.
\<close>

definition holding :: "stream \<Rightarrow> string \<Rightarrow> sink \<Rightarrow> bool" where
  "holding k raw s \<longleftrightarrow> queue_ok (carrying (loss_control k raw # s_inflight s) s) \<or>
     s_closing s \<and> pending s = [] \<and> queue_ok s"

lemma begin_close_ok:
  assumes "queue_ok s"
  shows "queue_ok (begin_close d s)"
proof -
  have "queue_ok (s\<lparr>s_deadline := Some d\<rparr>)" using assms queue_ok_books by fastforce
  then have "queue_ok (seal_loss Prof (seal_loss Base (s\<lparr>s_deadline := Some d\<rparr>)))" by (intro seal_loss_ok)
  then have "queue_ok ((seal_loss Prof (seal_loss Base (s\<lparr>s_deadline := Some d\<rparr>)))\<lparr>s_closing := True\<rparr>)"
    by (rule queue_ok_books [rotated]) simp
  then show ?thesis using assms
    by (simp add: begin_close_def seal_profile_loss_locked_def seal_loss_locked_def)
qed

lemma begin_close_inflight: "s_inflight (begin_close d s) = s_inflight s"
  using frameD(1) [OF frame_seal_loss, of Prof "seal_loss Base (s\<lparr>s_deadline := Some d\<rparr>)"]
    frameD(1) [OF frame_seal_loss, of Base "s\<lparr>s_deadline := Some d\<rparr>"]
  by (simp add: begin_close_def seal_profile_loss_locked_def seal_loss_locked_def)

lemma abandoned_pending: "pending (force_timeout_accounting_locked s) = []"
  by (simp add: pending_def)

text \<open>What does not change the books of a sink that is closing.\<close>

lemma holding_books:
  assumes "books s' = books s" "s_closing s' = s_closing s" "holding k raw s"
  shows "holding k raw s'"
proof -
  have "s_inflight s' = s_inflight s" "s_queue s' = s_queue s" using assms(1) by (simp_all add: books_def)
  moreover have "books (carrying x s') = books (carrying x s)" for x using assms(1) by (simp add: books_def)
  ultimately show ?thesis
    using assms queue_ok_books [of "carrying x s'" "carrying x s" for x] queue_ok_books [OF assms(1)]
    by (auto simp: holding_def pending_def)
qed

lemma holding_act:
  assumes "holding k raw (fst sp)" "\<not> writer_action a"
  shows "holding k raw (fst (act a sp)) \<and> snd (act a sp) = snd sp"
proof -
  obtain s ph where sp: "sp = (s, ph)" by fastforce
  let ?q = "loss_control k raw" and ?t = "\<lambda>s. carrying (loss_control k raw # s_inflight s) s"
  have h: "holding k raw s" using assms(1) sp by simp
  show ?thesis
  proof (cases "producer_action a")
    case True
    note f = producer_frame [OF True, of sp]
    have i: "s_inflight (fst (act a sp)) = s_inflight s" using frameD(1) [OF conjunct1 [OF f]] sp by simp
    from h have "holding k raw (fst (act a sp))"
      unfolding holding_def [of k raw s]
    proof
      assume "queue_ok (?t s)"
      then have "queue_ok (fst (act a (?t s, ph)))" using producer_books [OF True, of "(?t s, ph)"] by simp
      then show ?thesis using carry_producer [OF True, of "?q # s_inflight s" s ph] i sp by (simp add: holding_def)
    next
      assume c: "s_closing s \<and> pending s = [] \<and> queue_ok s"
      then have "books (fst (act a sp)) = books s" "s_closing (fst (act a sp)) = s_closing s"
        using producer_closing [OF True, of sp] frameD(2) [OF conjunct1 [OF f]] sp by auto
      then show ?thesis using holding_books h by blast
    qed
    then show ?thesis using f by simp
  next
    case False
    show ?thesis
    proof (cases a)
      case (Begin_close d)
      have "holding k raw (begin_close d s)" if "\<not> (s_closing s \<and> s_claim s = None)"
        using h unfolding holding_def [of k raw s]
      proof
        assume "queue_ok (?t s)"
        then show ?thesis using begin_close_ok [of "?t s" d] by (simp add: holding_def begin_close_inflight)
      next
        assume "s_closing s \<and> pending s = [] \<and> queue_ok s"
        then show ?thesis using that h by (simp add: begin_close_def)
      qed
      then show ?thesis using h Begin_close sp by (simp add: on_sink_def)
    next
      case Finish_close
      have "holding k raw (finish_close w s)" if "s_closing s" for w
      proof -
        have "holding k raw (claim_close_result ''timeout'' False
            ((force_timeout_accounting_locked s)\<lparr>s_abandoned := True, s_closed := True\<rparr>))"
          using that by (simp add: holding_def force_timeout_ok pending_def)
        moreover have "holding k raw (claim_close_result o' b s)" for o' b
          using h by (rule holding_books [rotated 2]) simp_all
        ultimately show ?thesis using h by (simp add: finish_close_def)
      qed
      then show ?thesis using h Finish_close sp by (simp add: on_sink_def)
    next
      case Bounded_timeout
      have "holding k raw (bounded_timeout_without_lock s)"
        using h by (rule holding_books [rotated 2]) (simp_all add: bounded_timeout_without_lock_def)
      then show ?thesis using Bounded_timeout sp by (simp add: on_sink_def)
    qed (use False assms(2) in simp_all)
  qed
qed

lemma holding_acts:
  assumes "holding k raw (fst sp)" "list_all (\<lambda>a. \<not> writer_action a) as"
  shows "holding k raw (fst (act_all as sp))"
  using assms
proof (induction as arbitrary: sp)
  case (Cons a as)
  then show ?case using holding_act [of k raw sp a] by simp
qed simp

lemma reserve_holds:
  assumes "queue_ok s" "reserve_control k raw s = Some s1"
  shows "holding k raw s1"
proof -
  let ?q = "loss_control k raw"
  obtain c where c: "chan_of k s = Some c" "c_reserved c < RESERVED_CAPACITY_RECORDS"
    "c_bytes c + int (length raw) \<le> MAX_QUEUED_BYTES"
    and s1: "s1 = upd_chan k (\<lambda>c. c\<lparr>c_reserved := c_reserved c + 1, c_bytes := c_bytes c + int (length raw)\<rparr>) s"
    using assms(2) by (auto simp: reserve_control_def split: option.splits if_splits)
  have p: "pending (carrying (?q # s_inflight s) s1) = ?q # pending s" by (simp add: pending_def s1)
  have q: "typed ?q" "q_stream ?q = k" "q_raw ?q = raw" "q_reserved ?q"
    by (simp_all add: loss_control_def typed_def is_control_def)
  have "tally j (?q # pending s) d' \<and> within_capacity d'"
    if d': "chan_of j (carrying (?q # s_inflight s) s1) = Some d'" for j d'
  proof -
    obtain d where d: "chan_of j s = Some d"
      and d': "d' = (if k = j then d\<lparr>c_reserved := c_reserved d + 1, c_bytes := c_bytes d + int (length raw)\<rparr> else d)"
      using d' by (auto simp: s1 split: if_splits)
    then have "tally j (pending s) d" "within_capacity d" using assms(1) unfolding queue_ok_def by blast+
    then show ?thesis using c d d' q
      by (auto simp: tally_def within_capacity_def of_stream_def raw_bytes_def reserved_def unreserved_def)
  qed
  moreover have "list_all typed (?q # pending s)" using assms(1) q(1) by (simp add: queue_ok_def)
  moreover have "list_all (\<lambda>q. chan_of (q_stream q) (carrying (?q # s_inflight s) s1) \<noteq> None) (?q # pending s)"
    using assms(1) c(1) q(2) by (simp add: queue_ok_def s1)
  ultimately have "queue_ok (carrying (?q # s_inflight s) s1)" unfolding queue_ok_def p by blast
  then show ?thesis by (simp add: holding_def s1)
qed

text \<open>What the counters are while the control is held, and after it is given back.\<close>

lemma held_counters:
  assumes "holding j raw s" "chan_of k s = Some c"
  shows "within_capacity c \<and> (tally k (loss_control j raw # pending s) c \<or> pending s = [] \<and> tally k [] c)"
  using assms(1) unfolding holding_def
proof
  assume "queue_ok (carrying (loss_control j raw # s_inflight s) s)"
  then have "tally k (pending (carrying (loss_control j raw # s_inflight s) s)) c \<and> within_capacity c"
    using assms(2) unfolding queue_ok_def by simp
  then show ?thesis by (simp add: pending_def)
next
  assume "s_closing s \<and> pending s = [] \<and> queue_ok s"
  then show ?thesis using assms(2) unfolding queue_ok_def by metis
qed

lemma raw_bytes_nonneg: "0 \<le> raw_bytes qs" "0 \<le> reserved qs"
  by (auto simp: raw_bytes_def reserved_def intro!: sum_list_nonneg)

lemma released_counters:
  assumes "holding j raw s" "chan_of k (release_control j raw s) = Some c"
  shows "tally k (pending s) c"
proof -
  obtain d where d: "chan_of k s = Some d"
    and c: "c = (if j = k then d\<lparr>c_reserved := (if c_reserved d > 0 then c_reserved d - 1 else c_reserved d),
      c_bytes := max 0 (c_bytes d - int (length raw))\<rparr> else d)"
    using assms(2) by (auto simp: release_control_def split: if_splits)
  show ?thesis using held_counters [OF assms(1) d] c raw_bytes_nonneg [of "of_stream k (pending s)"]
    by (auto simp: tally_def of_stream_def raw_bytes_def reserved_def unreserved_def loss_control_def)
qed

text \<open>
  C29. Capacity. Between two steps of the writer, in every reachable state, the counters of each stream
  are those of its pending records, and at most 4,096 ordinary records, 64 reserved ones and 17,039,360
  bytes are pending, so the memory of the exporter is bounded whatever the producers do. Inside a step
  the writer may hold a reserved control record, charged but in no queue: then, whatever producers and
  closers do until it has been written, the counters are those of the pending records and that one
  more, or of nothing when a closer has abandoned everything, and are within the same bounds; and
  giving the record back makes them those of the pending records again.
\<close>

theorem queue_is_bounded:
  assumes "reachable sp" "chan_of k (fst sp) = Some c"
  shows "c_bytes c = raw_bytes (of_stream k (pending (fst sp))) \<and>
    c_ordinary c = unreserved (of_stream k (pending (fst sp))) \<and>
    c_reserved c = reserved (of_stream k (pending (fst sp))) \<and>
    c_bytes c \<le> 17039360 \<and> c_ordinary c \<le> 4096 \<and> c_reserved c \<le> 64 \<and>
    (\<forall>j raw s1 as s2 c2. reserve_control j raw (fst sp) = Some s1 \<longrightarrow>
       list_all (\<lambda>a. \<not> writer_action a) as \<longrightarrow> s2 = fst (act_all as (s1, snd sp)) \<longrightarrow> chan_of k s2 = Some c2 \<longrightarrow>
       (tally k (loss_control j raw # pending s2) c2 \<or> pending s2 = [] \<and> tally k [] c2) \<and>
       c_bytes c2 \<le> 17039360 \<and> c_ordinary c2 \<le> 4096 \<and> c_reserved c2 \<le> 64 \<and>
       (\<forall>c3. chan_of k (release_control j raw s2) = Some c3 \<longrightarrow> tally k (pending s2) c3))"
proof -
  have caps: "c_bytes c \<le> 17039360 \<and> c_ordinary c \<le> 4096 \<and> c_reserved c \<le> 64" if "within_capacity c" for c
    using that by (simp add: within_capacity_def MAX_QUEUED_BYTES_def DATA_CAPACITY_RECORDS_def RESERVED_CAPACITY_RECORDS_def)
  have ok: "queue_ok (fst sp)" using conservation.holds [OF assms(1)] by (simp add: accounted_def)
  have now: "tally k (pending (fst sp)) c" "within_capacity c" using ok assms(2) unfolding queue_ok_def by blast+
  have held: "holding j raw (fst (act_all as (s1, snd sp)))"
    if "reserve_control j raw (fst sp) = Some s1" "list_all (\<lambda>a. \<not> writer_action a) as" for j raw s1 as
    using holding_acts [of j raw "(s1, snd sp)" as] reserve_holds [OF ok that(1)] that(2) by simp
  show ?thesis
  proof (intro conjI)
    show "\<forall>j raw s1 as s2 c2. reserve_control j raw (fst sp) = Some s1 \<longrightarrow>
       list_all (\<lambda>a. \<not> writer_action a) as \<longrightarrow> s2 = fst (act_all as (s1, snd sp)) \<longrightarrow> chan_of k s2 = Some c2 \<longrightarrow>
       (tally k (loss_control j raw # pending s2) c2 \<or> pending s2 = [] \<and> tally k [] c2) \<and>
       c_bytes c2 \<le> 17039360 \<and> c_ordinary c2 \<le> 4096 \<and> c_reserved c2 \<le> 64 \<and>
       (\<forall>c3. chan_of k (release_control j raw s2) = Some c3 \<longrightarrow> tally k (pending s2) c3)"
      using held held_counters caps released_counters by meson
  qed (use now caps [OF now(2)] in \<open>simp_all add: tally_def\<close>)
qed

lemma queue_is_bounded_witness:
  "\<exists>sp c s1 c1. reachable sp \<and> chan_of Base (fst sp) = Some c \<and> c_reserved c \<le> 64 \<and>
     reserve_control Base ''x'' (fst sp) = Some s1 \<and> chan_of Base (fst (act_all [Do_span] (s1, snd sp))) = Some c1 \<and>
     c_reserved c1 \<le> 64"
proof -
  obtain raw where i: "initial (opened raw)" using opened_reachable by blast
  then have r: "reachable (opened raw)" by (rule reach_start)
  obtain c where c: "chan_of Base (fst (opened raw)) = Some c" using chan_Base by blast
  obtain s1 where s1: "reserve_control Base ''x'' (fst (opened raw)) = Some s1"
    by (simp add: reserve_control_def opened_def chan_of_simps fresh_chan_def RESERVED_CAPACITY_RECORDS_def
        MAX_QUEUED_BYTES_def)
  obtain c1 where c1: "chan_of Base (fst (act_all [Do_span] (s1, snd (opened raw)))) = Some c1" using chan_Base by blast
  have "list_all (\<lambda>a. \<not> writer_action a) [Do_span]" by simp
  with queue_is_bounded [OF r c] r c s1 c1 show ?thesis by blast
qed

end
