(* ===== verification/Lifecycle_Hooks.thy ===== *)
theory Lifecycle_Hooks imports Exporter_Properties begin

text \<open>
  The configuration and the facade that runtime call sites use (\<open>runtime_hooks.RuntimeTraceConfig\<close>,
  \<open>NullTraceSink\<close>, \<open>RuntimeLifecycleHooks\<close>): reading the environment, choosing the sink, the
  fail-open emitters, and the state of a forked child.

  The facade holds the sink and the readings its calls will take: the \<open>n\<close>-th producer call made
  through it reads \<open>hk_clocks n\<close>. A call of \<open>os.getpid\<close> that shows another process is the explicit
  operation \<open>after_fork_child\<close>; in the other operations the process is the owner.
\<close>

section \<open>Configuration from the environment\<close>

definition TRACE_EXPORT_ENV :: string where "TRACE_EXPORT_ENV = ''VLLM_RLP_TRACE_EXPORT_PATH''"
definition TRACE_PARENT_COMMIT_ENV :: string where
  "TRACE_PARENT_COMMIT_ENV = ''VLLM_RLP_PROFILER_PARENT_COMMIT''"
definition TRACE_RUNTIME_COMMIT_ENV :: string where
  "TRACE_RUNTIME_COMMIT_ENV = ''VLLM_RLP_RUNTIME_CORE_COMMIT''"
definition TRACE_DEVICE_COMMIT_ENV :: string where
  "TRACE_DEVICE_COMMIT_ENV = ''VLLM_RLP_DEVICE_PLUGIN_COMMIT''"
definition TRACE_COMMUNICATION_MODE_ENV :: string where
  "TRACE_COMMUNICATION_MODE_ENV = ''VLLM_RLP_COMMUNICATION_MODE''"
definition TRACE_KV_RECOVERY_RUN_ID_ENV :: string where
  "TRACE_KV_RECOVERY_RUN_ID_ENV = ''VLLM_RLP_KV_RECOVERY_RUN_ID''"

text \<open>
  \<open>str.strip()\<close>. The characters Python strips are those of \<open>str.isspace\<close>; here each is its UTF-8
  encoding.
\<close>

definition ws_units :: "string list" where
  "ws_units = map (map char_of)
     ([[n]. n \<leftarrow> [9..<14] @ [28..<33]] @ [[194, 133], [194, 160], [225, 154, 128 :: nat]] @
      [[226, 128, n]. n \<leftarrow> [128..<139] @ [168, 169, 175]] @ [[226, 129, 159], [227, 128, 128]])"

fun strip_from :: "nat \<Rightarrow> string list \<Rightarrow> string \<Rightarrow> string" where
  "strip_from 0 units s = s"
| "strip_from (Suc n) units s =
     (case find (\<lambda>u. prefix u s) units of None \<Rightarrow> s
      | Some u \<Rightarrow> strip_from n units (drop (length u) s))"

definition py_strip :: "string \<Rightarrow> string" where
  "py_strip s = (let t = strip_from (length s) ws_units s
                 in rev (strip_from (length t) (map rev ws_units) (rev t)))"

record trace_config =
  tc_export_path :: "string option"
  tc_provenance :: "runtime_provenance option"
  tc_communication_mode :: string
  tc_invalid_reason :: "string option"
  tc_profile_config :: "profile_config option"

definition env_get :: "(string \<Rightarrow> string option) \<Rightarrow> string \<Rightarrow> string \<Rightarrow> string" where
  "env_get source key dflt = py_strip (case source key of None \<Rightarrow> dflt | Some v \<Rightarrow> v)"

definition KNOWN_MODES :: "string list" where
  "KNOWN_MODES = [''none'', KV_RECOVERY_COMMUNICATION_MODE]"

definition config_from_env :: "(string \<Rightarrow> string option) \<Rightarrow> trace_config" where
  "config_from_env source =
     (let raw_path = env_get source TRACE_EXPORT_ENV '''';
          mode = env_get source TRACE_COMMUNICATION_MODE_ENV ''none'' in
      if raw_path = [] then
        \<lparr>tc_export_path = None, tc_provenance = None, tc_communication_mode = ''none'',
         tc_invalid_reason = None, tc_profile_config = None\<rparr>
      else if mode \<notin> set KNOWN_MODES then
        \<lparr>tc_export_path = Some raw_path, tc_provenance = None, tc_communication_mode = mode,
         tc_invalid_reason = Some ''unsupported_mode'', tc_profile_config = None\<rparr>
      else (case make_provenance (env_get source TRACE_PARENT_COMMIT_ENV '''')
                   (env_get source TRACE_RUNTIME_COMMIT_ENV '''') (env_get source TRACE_DEVICE_COMMIT_ENV '''') of
        Inl _ \<Rightarrow>
          \<lparr>tc_export_path = Some raw_path, tc_provenance = None, tc_communication_mode = mode,
           tc_invalid_reason = Some ''schema_incompatible'', tc_profile_config = None\<rparr>
      | Inr provenance \<Rightarrow>
          if mode = KV_RECOVERY_COMMUNICATION_MODE then
            (case make_profile_config (env_get source TRACE_KV_RECOVERY_RUN_ID_ENV '''') of
               Inl _ \<Rightarrow>
                 \<lparr>tc_export_path = Some raw_path, tc_provenance = Some provenance,
                  tc_communication_mode = mode, tc_invalid_reason = Some ''schema_incompatible'',
                  tc_profile_config = None\<rparr>
             | Inr config \<Rightarrow>
                 \<lparr>tc_export_path = Some raw_path, tc_provenance = Some provenance,
                  tc_communication_mode = mode, tc_invalid_reason = None,
                  tc_profile_config = Some config\<rparr>)
          else
            \<lparr>tc_export_path = Some raw_path, tc_provenance = Some provenance,
             tc_communication_mode = mode, tc_invalid_reason = None, tc_profile_config = None\<rparr>))"

definition requested :: "trace_config \<Rightarrow> bool" where
  "requested c \<longleftrightarrow> tc_export_path c \<noteq> None"

definition config_enabled :: "trace_config \<Rightarrow> bool" where
  "config_enabled c \<longleftrightarrow> tc_export_path c \<noteq> None \<and> tc_provenance c \<noteq> None \<and>
     tc_communication_mode c \<in> set KNOWN_MODES \<and>
     (tc_communication_mode c \<noteq> KV_RECOVERY_COMMUNICATION_MODE \<or> tc_profile_config c \<noteq> None) \<and>
     tc_invalid_reason c = None"

section \<open>The facade\<close>

text \<open>The sink in use: an exporter, or the disabled sink with its reason.\<close>

datatype any_sink = Jsonl sink | Null_sink "string option"

record hooks =
  hk_config :: trace_config
  hk_sink :: any_sink
  hk_pending :: "string list"
  hk_logged :: "string list"
  hk_reinit :: bool
  hk_clocks :: "nat \<Rightarrow> clock"
  hk_tick :: nat

definition mark_disabled_once :: "string \<Rightarrow> hooks \<Rightarrow> hooks" where
  "mark_disabled_once reason0 h =
     (let reason = (if reason0 \<in> set DIAGNOSTIC_REASONS then reason0 else ''schema_incompatible'')
      in if reason \<in> set (hk_logged h) \<or> reason \<in> set (hk_pending h) then h
         else h\<lparr>hk_pending := hk_pending h @ [reason]\<rparr>)"

definition flush_disabled_logs :: "hooks \<Rightarrow> hooks" where
  "flush_disabled_logs h =
     (let reasons = filter (\<lambda>r. r \<in> set (hk_pending h)) DIAGNOSTIC_REASONS
      in h\<lparr>hk_pending := filter (\<lambda>r. r \<notin> set reasons) (hk_pending h), hk_logged := hk_logged h @ reasons\<rparr>)"

definition log_disabled_once :: "string \<Rightarrow> hooks \<Rightarrow> hooks" where
  "log_disabled_once reason h = flush_disabled_logs (mark_disabled_once reason h)"

definition hooks_defer_diagnostic :: "string \<Rightarrow> hooks \<Rightarrow> hooks" where
  "hooks_defer_diagnostic reason h =
     (case hk_sink h of Jsonl s \<Rightarrow> h\<lparr>hk_sink := Jsonl (defer_diagnostic reason s)\<rparr>
      | Null_sink _ \<Rightarrow> mark_disabled_once reason h)"

text \<open>
  The constructor. \<open>given\<close> is the sink passed in; \<open>made\<close> is what constructing a \<open>JsonlTraceSink\<close> gives
  (\<^const>\<open>initialize_writer\<close>'s result, or any error before it).
\<close>

definition hooks_init ::
  "trace_config \<Rightarrow> any_sink option \<Rightarrow> sink res \<Rightarrow> (nat \<Rightarrow> clock) \<Rightarrow> hooks" where
  "hooks_init config given made clocks =
     (let h = \<lparr>hk_config = config, hk_sink = Null_sink None, hk_pending = [], hk_logged = [],
               hk_reinit = False, hk_clocks = clocks, hk_tick = 0\<rparr>;
          invalid = (case tc_invalid_reason config of None \<Rightarrow> ''schema_incompatible'' | Some r \<Rightarrow> r)
      in case given of
           Some sink \<Rightarrow> h\<lparr>hk_sink := sink\<rparr>
         | None \<Rightarrow>
             if \<not> requested config then h
             else if \<not> config_enabled config
               then (log_disabled_once invalid h)\<lparr>hk_sink := Null_sink (Some invalid)\<rparr>
             else (case made of
                 Inl _ \<Rightarrow> (log_disabled_once ''init_failure'' h)\<lparr>hk_sink := Null_sink (Some ''init_failure'')\<rparr>
               | Inr s \<Rightarrow> h\<lparr>hk_sink := Jsonl s\<rparr>))"

definition hooks_enabled :: "hooks \<Rightarrow> bool" where
  "hooks_enabled h = (case hk_sink h of Jsonl _ \<Rightarrow> True | Null_sink _ \<Rightarrow> False)"

definition hooks_committed :: "hooks \<Rightarrow> bool" where
  "hooks_committed h = (case hk_sink h of Jsonl s \<Rightarrow> committed s | Null_sink _ \<Rightarrow> False)"

definition hooks_profile_enabled :: "hooks \<Rightarrow> bool" where
  "hooks_profile_enabled h =
     (case hk_sink h of Jsonl s \<Rightarrow> s_profile s \<noteq> None | Null_sink _ \<Rightarrow> False)"

definition hooks_evidence_complete :: "hooks \<Rightarrow> bool" where
  "hooks_evidence_complete h = (case hk_sink h of Jsonl s \<Rightarrow> evidence_complete s | Null_sink _ \<Rightarrow> False)"

definition hooks_profile_attempted :: "hooks \<Rightarrow> int" where
  "hooks_profile_attempted h = (case hk_sink h of Jsonl s \<Rightarrow> profile_attempted s | Null_sink _ \<Rightarrow> 0)"

definition hooks_profile_snapshot :: "hooks \<Rightarrow> profile_record list \<times> profile_loss_interval list" where
  "hooks_profile_snapshot h =
     (case hk_sink h of Jsonl s \<Rightarrow> profile_snapshot s | Null_sink _ \<Rightarrow> ([], []))"

definition hooks_process_uuid :: "hooks \<Rightarrow> string option" where
  "hooks_process_uuid h = (case hk_sink h of Jsonl s \<Rightarrow> Some (s_uuid s) | Null_sink _ \<Rightarrow> None)"

definition hooks_clock_domain_id :: "hooks \<Rightarrow> string option" where
  "hooks_clock_domain_id h = (case hk_sink h of Jsonl s \<Rightarrow> Some (s_clock_domain s) | Null_sink _ \<Rightarrow> None)"

definition hooks_new_span_id :: "hooks \<Rightarrow> string option \<times> hooks" where
  "hooks_new_span_id h =
     (case hk_sink h of Null_sink _ \<Rightarrow> (None, h)
      | Jsonl s \<Rightarrow> (let (i, s') = new_span_id s in (i, h\<lparr>hk_sink := Jsonl s'\<rparr>)))"

text \<open>A producer call through the facade takes the next reading.\<close>

definition with_sink :: "(clock \<Rightarrow> sink \<Rightarrow> 'a option \<times> sink) \<Rightarrow> hooks \<Rightarrow> 'a option \<times> hooks" where
  "with_sink f h =
     (case hk_sink h of Null_sink _ \<Rightarrow> (None, h)
      | Jsonl s \<Rightarrow> (let (r, s') = f (hk_clocks h (hk_tick h)) s
                   in (r, h\<lparr>hk_sink := Jsonl s', hk_tick := Suc (hk_tick h)\<rparr>)))"

definition emit_event :: "event_draft \<Rightarrow> hooks \<Rightarrow> record_ref option \<times> hooks" where
  "emit_event d = with_sink (write_event d)"

definition emit_edge :: "edge_draft \<Rightarrow> hooks \<Rightarrow> record_ref option \<times> hooks" where
  "emit_edge d = with_sink (write_edge d)"

text \<open>An error of the sink becomes a deferred diagnostic.\<close>

definition fail_open :: "'a option res \<times> hooks \<Rightarrow> 'a option \<times> hooks" where
  "fail_open p = (case fst p of Inr r \<Rightarrow> (r, snd p)
     | Inl _ \<Rightarrow> (None, hooks_defer_diagnostic ''serialization_failure'' (snd p)))"

definition emit_kv_recovery_profile ::
  "profile_type \<Rightarrow> pyval \<Rightarrow> pydict \<Rightarrow> hooks \<Rightarrow> profile_record_ref option \<times> hooks" where
  "emit_kv_recovery_profile t timestamp_ns fs h =
     (case hk_sink h of Null_sink _ \<Rightarrow> (None, h)
      | Jsonl s \<Rightarrow> (let (r, s') = write_kv_recovery_profile t timestamp_ns fs (hk_clocks h (hk_tick h)) s
          in fail_open (r, h\<lparr>hk_sink := Jsonl s', hk_tick := Suc (hk_tick h)\<rparr>)))"

definition hooks_drop_profile ::
  "profile_type \<Rightarrow> pyval \<Rightarrow> string \<Rightarrow> hooks \<Rightarrow> int option \<times> hooks" where
  "hooks_drop_profile t timestamp_ns reason h =
     (case hk_sink h of Null_sink _ \<Rightarrow> (None, h)
      | Jsonl s \<Rightarrow> (let (r, s') = drop_kv_recovery_profile t timestamp_ns reason (hk_clocks h (hk_tick h)) s
          in fail_open (r, h\<lparr>hk_sink := Jsonl s', hk_tick := Suc (hk_tick h)\<rparr>)))"

text \<open>\<open>close\<close>, by what closing the sink gave; the disabled sink gives nothing.\<close>

definition hooks_close :: "close_result res \<Rightarrow> hooks \<Rightarrow> close_result option \<times> hooks" where
  "hooks_close closed h =
     (case hk_sink h of Null_sink _ \<Rightarrow> (None, h)
      | Jsonl s \<Rightarrow> (case closed of Inr r \<Rightarrow> (Some r, h)
                   | Inl _ \<Rightarrow> (None, mark_disabled_once ''writer_failure'' h)))"

definition after_fork_child :: "hooks \<Rightarrow> hooks" where
  "after_fork_child h = h\<lparr>hk_sink := Null_sink None, hk_pending := [], hk_logged := [],
     hk_reinit := config_enabled (hk_config h)\<rparr>"

definition reinitialize_after_fork :: "sink res \<Rightarrow> hooks \<Rightarrow> bool \<times> hooks" where
  "reinitialize_after_fork made h =
     (if \<not> hk_reinit h then (hooks_enabled h, h)
      else if \<not> config_enabled (hk_config h) then (False, h\<lparr>hk_reinit := False\<rparr>)
      else (case made of
          Inl _ \<Rightarrow> (False, (log_disabled_once ''init_failure'' (h\<lparr>hk_sink := Null_sink (Some ''init_failure'')\<rparr>))
                           \<lparr>hk_reinit := False\<rparr>)
        | Inr s \<Rightarrow> (True, h\<lparr>hk_sink := Jsonl s, hk_reinit := False\<rparr>)))"

section \<open>Properties\<close>

lemma provenance_made:
  "(\<exists>p. make_provenance a b c = Inr p) \<longleftrightarrow> is_hex 40 a \<and> is_hex 40 b \<and> is_hex 40 c"
  by (auto simp: make_provenance_def accept_simps require_commit_def)

lemma profile_config_made: "(\<exists>k. make_profile_config r = Inr k) \<longleftrightarrow> is_hex 32 r"
  by (auto simp: make_profile_config_def Let_def accept_simps validate_profile_config_def need_hex_def
      str_val_def)

text \<open>
  Tracing is on exactly when the environment names an export path, a known communication mode,
  three commits of forty hexadecimal digits and, in recovery mode, a run id of thirty-two; anything
  less is either not requested at all, or rejected with one fixed reason.
\<close>
theorem config_enabled_exactly:
  "let c = config_from_env source; path = env_get source TRACE_EXPORT_ENV '''';
       mode = env_get source TRACE_COMMUNICATION_MODE_ENV ''none''
   in config_enabled c = (path \<noteq> [] \<and> mode \<in> set KNOWN_MODES \<and>
      is_hex 40 (env_get source TRACE_PARENT_COMMIT_ENV '''') \<and>
      is_hex 40 (env_get source TRACE_RUNTIME_COMMIT_ENV '''') \<and>
      is_hex 40 (env_get source TRACE_DEVICE_COMMIT_ENV '''') \<and>
      (if mode = KV_RECOVERY_COMMUNICATION_MODE
       then is_hex 32 (env_get source TRACE_KV_RECOVERY_RUN_ID_ENV '''') else True)) \<and>
    tc_export_path c = (if path = [] then None else Some path) \<and>
    tc_invalid_reason c =
      (if path = [] then None else if config_enabled c then None
       else Some (if mode \<in> set KNOWN_MODES then ''schema_incompatible'' else ''unsupported_mode''))"
proof -
  let ?a = "env_get source TRACE_PARENT_COMMIT_ENV ''''" and ?b = "env_get source TRACE_RUNTIME_COMMIT_ENV ''''"
  let ?d = "env_get source TRACE_DEVICE_COMMIT_ENV ''''" and ?r = "env_get source TRACE_KV_RECOVERY_RUN_ID_ENV ''''"
  show ?thesis
    using provenance_made [of ?a ?b ?d] profile_config_made [of ?r]
    by (cases "make_provenance ?a ?b ?d"; cases "make_profile_config ?r")
       (auto simp: config_from_env_def config_enabled_def Let_def)
qed

text \<open>
  A forked child starts with nothing of its parent: the facade is disabled, emits, reserves and
  closes nothing, reports no evidence, and becomes active again only by an explicit
  reinitialisation, only when the configuration was enabled, and only if a new sink could be made.
\<close>
theorem forked_facade_is_disabled:
  "let c = after_fork_child h; (active, c') = reinitialize_after_fork made c
   in \<not> hooks_enabled c \<and> \<not> hooks_committed c \<and> \<not> hooks_evidence_complete c \<and>
    emit_event d c = (None, c) \<and> emit_edge g c = (None, c) \<and> hooks_new_span_id c = (None, c) \<and>
    emit_kv_recovery_profile t ts fs c = (None, c) \<and> hooks_close closed c = (None, c) \<and>
    active = (config_enabled (hk_config h) \<and> (\<exists>s. made = Inr s)) \<and> hooks_enabled c' = active \<and>
    reinitialize_after_fork made' c' = (active, c')"
  by (auto simp: after_fork_child_def hooks_enabled_def hooks_committed_def hooks_evidence_complete_def
      emit_event_def emit_edge_def with_sink_def hooks_new_span_id_def emit_kv_recovery_profile_def
      hooks_close_def reinitialize_after_fork_def log_disabled_once_def flush_disabled_logs_def
      mark_disabled_once_def Let_def split: sum.splits prod.splits if_splits)

end
