(* ===== verification/Lifecycle_Bridge.thy ===== *)
theory Lifecycle_Bridge
  imports Lifecycle_Hooks "HOL-Library.AList"
begin

text \<open>
  The base lifecycle bridge (\<open>kv_recovery_runtime.RuntimeBaseLifecycleBridge\<close>): which base events and
  edges it emits at each committed scheduler boundary of a request, and the bounded state it keeps
  to join them. The hooks it emits through are a parameter, the record \<open>recorder\<close> of the three
  operations it calls; \<open>recorder_contract\<close> is what it relies on, and \<open>hooks_recorder\<close>, the facade of
  \<open>Lifecycle_Hooks\<close>, is the provider.

  An operation returns an error (an exception left it), or \<open>None\<close> (the source's \<open>None\<close> or \<open>False\<close>), or a
  value. Python's dictionaries are association lists, in insertion order.
\<close>

section \<open>Identities and references\<close>

definition MAX_PROFILE_DATA_RECORDS :: nat where "MAX_PROFILE_DATA_RECORDS = 4096"

definition is_bounded_printable_ascii :: "string \<Rightarrow> nat \<Rightarrow> bool" where
  "is_bounded_printable_ascii v max_bytes \<longleftrightarrow> printable_ascii v \<and> 1 \<le> length v \<and> length v \<le> max_bytes"

record request_identity =
  ri_trace_id :: string
  ri_engine_lifecycle_id :: string
  ri_runtime_request_id :: string
  ri_sample_index :: int

definition make_identity :: "string \<Rightarrow> string \<Rightarrow> string \<Rightarrow> int \<Rightarrow> request_identity res" where
  "make_identity trace lifecycle rid sample =
     checked
       (first_error
         [fails (\<not> is_hex 32 trace) (ValueError ''trace_id must be 32 lowercase hexadecimal characters''),
          fails (lifecycle \<noteq> id_of trace (CHR ''e'') sample)
            (ValueError ''engine_lifecycle_id does not match trace/sample''),
          fails (\<not> is_bounded_printable_ascii rid MAX_RUNTIME_REQUEST_ID_BYTES)
            (ValueError ''runtime_request_id is not bounded printable ASCII''),
          fails (sample \<noteq> 0) (ValueError ''KV-recovery v1alpha1 requires sample_index=0'')])
       \<lparr>ri_trace_id = trace, ri_engine_lifecycle_id = lifecycle, ri_runtime_request_id = rid,
        ri_sample_index = sample\<rparr>"

record base_ref =
  br_event_id :: string
  br_timestamp_ns :: int

definition make_base_ref :: "string \<Rightarrow> int \<Rightarrow> base_ref res" where
  "make_base_ref event_id timestamp_ns =
     checked
       (first_error
         [fails (\<not> id_pattern (CHR ''e'') event_id) (ValueError ''event_id must be a canonical base event ID''),
          fails (\<not> (0 \<le> timestamp_ns \<and> timestamp_ns \<le> UINT64_MAX)) (ValueError ''timestamp_ns must be a uint64'')])
       \<lparr>br_event_id = event_id, br_timestamp_ns = timestamp_ns\<rparr>"

record episode =
  ep_preempted :: base_ref
  ep_requeued :: base_ref
  ep_queue_span_id :: string
  ep_admission_started :: "base_ref option"
  ep_admission_span_id :: "string option"
  ep_resumed :: "base_ref option"
  ep_first_compute :: "base_ref option"

record request_state =
  rs_identity :: request_identity
  rs_queue_started :: base_ref
  rs_queue_span_id :: string
  rs_active_started :: "base_ref option"
  rs_active_span_id :: "string option"
  rs_active_compute_kind :: "string option"
  rs_preemption_epoch :: int
  rs_prompt_tokens_computed :: int
  rs_prefill_chunk_count :: int

record bridge =
  bg_capacity :: nat
  bg_identities :: "(string \<times> request_identity) list"
  bg_episodes :: "((string \<times> int) \<times> episode) list"
  bg_states :: "(string \<times> request_state) list"

definition make_bridge :: "int \<Rightarrow> bridge res" where
  "make_bridge capacity =
     (if capacity < 1 then Inl (ValueError ''capacity must be a positive integer'')
      else Inr \<lparr>bg_capacity = nat capacity, bg_identities = [], bg_episodes = [], bg_states = []\<rparr>)"

section \<open>Emitting\<close>

text \<open>The operations of the hooks the bridge calls, over a state of their own.\<close>

record 'h recorder =
  rc_span :: "'h \<Rightarrow> string option \<times> 'h"
  rc_event :: "event_draft \<Rightarrow> 'h \<Rightarrow> record_ref option \<times> 'h"
  rc_edge :: "edge_draft \<Rightarrow> 'h \<Rightarrow> record_ref option \<times> 'h"

definition hooks_recorder :: "hooks recorder" where
  "hooks_recorder = \<lparr>rc_span = hooks_new_span_id, rc_event = emit_event, rc_edge = emit_edge\<rparr>"

text \<open>Sequencing with the early return on \<open>None\<close>.\<close>

definition and_then :: "'a option res \<times> 'h \<Rightarrow> ('a \<Rightarrow> 'h \<Rightarrow> 'b option res \<times> 'h) \<Rightarrow> 'b option res \<times> 'h" where
  "and_then p f = (case fst p of Inl e \<Rightarrow> (Inl e, snd p) | Inr None \<Rightarrow> (Inr None, snd p)
     | Inr (Some a) \<Rightarrow> f a (snd p))"

definition called :: "'a option \<times> 'h \<Rightarrow> 'a option res \<times> 'h" where
  "called p = (Inr (fst p), snd p)"

definition built :: "'a res \<Rightarrow> 'h \<Rightarrow> 'a option res \<times> 'h" where
  "built r h = (case r of Inl e \<Rightarrow> Inl e | Inr a \<Rightarrow> Inr (Some a), h)"

text \<open>A change of the bridge's own state, made only when everything before it succeeded.\<close>

definition commit ::
  "'a option res \<times> 'h \<Rightarrow> bridge \<Rightarrow> ('a \<Rightarrow> 'b \<times> bridge) \<Rightarrow> 'b option res \<times> bridge \<times> 'h" where
  "commit p b f = (case fst p of Inl e \<Rightarrow> (Inl e, b, snd p) | Inr None \<Rightarrow> (Inr None, b, snd p)
     | Inr (Some a) \<Rightarrow> (let (r, b') = f a in (Inr (Some r), b', snd p)))"

definition program_order :: "string \<Rightarrow> string \<Rightarrow> string \<Rightarrow> edge_draft" where
  "program_order trace from_id to_id =
     \<lparr>gd_trace_id = trace, gd_from_event_id = from_id, gd_to_event_id = to_id,
      gd_edge_kind = ''program_order'', gd_evidence_source = ''instrumented_execution_context''\<rparr>"

text \<open>The fields every event of the bridge shares.\<close>

definition engine_draft ::
  "request_identity \<Rightarrow> string \<Rightarrow> string \<Rightarrow> int \<Rightarrow> int \<Rightarrow> string option \<Rightarrow> string option \<Rightarrow> pydict option \<Rightarrow> event_draft" where
  "engine_draft i component name timestamp_ns epoch start_span end_span metadata =
     \<lparr>ed_trace_id = ri_trace_id i, ed_lifecycle_id = ri_engine_lifecycle_id i,
      ed_parent_lifecycle_id = Some (ri_trace_id i @ '':r''), ed_scope = ''engine_sample'',
      ed_component = component, ed_event_name = name, ed_timestamp_ns = Some timestamp_ns,
      ed_preemption_epoch = Some epoch, ed_start_span_id = start_span, ed_end_span_id = end_span,
      ed_closing_span_ids = [], ed_sample_index = Some (ri_sample_index i), ed_handoff_index = None,
      ed_chunk_index = None, ed_handoff_id = None, ed_metadata = metadata\<rparr>"

definition tokens_metadata :: "int \<Rightarrow> int \<Rightarrow> pydict" where
  "tokens_metadata computed chunks =
     [(''prompt_tokens_computed'', PInt computed), (''prefill_chunk_count'', PInt chunks)]"

definition prompt_metadata :: "int \<Rightarrow> int \<Rightarrow> int \<Rightarrow> pydict" where
  "prompt_metadata total_tokens cached to_compute =
     [(''prompt_tokens_total'', PInt total_tokens), (''prompt_tokens_cached'', PInt cached),
      (''prompt_tokens_to_compute'', PInt to_compute)]"

section \<open>Registration\<close>

definition register_request :: "request_identity \<Rightarrow> bridge \<Rightarrow> bool \<times> bridge" where
  "register_request i b =
     (case map_of (bg_identities b) (ri_runtime_request_id i) of
        Some current \<Rightarrow> (current = i, b)
      | None \<Rightarrow>
          if length (bg_identities b) \<ge> bg_capacity b then (False, b)
          else (True, b\<lparr>bg_identities := AList.update (ri_runtime_request_id i) i (bg_identities b)\<rparr>))"

definition trace_of :: "string \<Rightarrow> string \<Rightarrow> string" where
  "trace_of run_id rid = take 32 (sha256_hex (run_id @ [CHR 0x00] @ rid))"

definition register_runtime_request ::
  "'h recorder \<Rightarrow> string \<Rightarrow> string \<Rightarrow> int \<Rightarrow> bridge \<Rightarrow> 'h \<Rightarrow> unit option res \<times> bridge \<times> 'h" where
  "register_runtime_request R run_id rid timestamp_ns b h =
     (if \<not> is_bounded_printable_ascii rid MAX_RUNTIME_REQUEST_ID_BYTES then (Inr None, b, h)
      else if \<not> is_ascii run_id then (Inl (ValueError ''ascii codec cannot encode character''), b, h)
      else (case make_identity (trace_of run_id rid) (trace_of run_id rid @ '':e:0'') rid 0 of
        Inl e \<Rightarrow> (Inl e, b, h)
      | Inr i \<Rightarrow>
          (case map_of (bg_states b) rid of
             Some st \<Rightarrow> (Inr (if rs_identity st = i then Some () else None), b, h)
           | None \<Rightarrow>
               if length (bg_identities b) \<ge> bg_capacity b then (Inr None, b, h)
               else commit
                 (and_then (called (rc_span R h)) (\<lambda>span h.
                  and_then (called (rc_event R (engine_draft i ''engine_client'' ''queued'' timestamp_ns 0
                                                 (Some span) None None) h)) (\<lambda>emitted h.
                  and_then (built (make_base_ref (rr_record_id emitted) timestamp_ns) h) (\<lambda>queued h.
                  (Inr (Some (span, queued)), h)))))
                 b
                 (\<lambda>(span, queued). ((), b
                    \<lparr>bg_identities := AList.update rid i (bg_identities b),
                     bg_states := AList.update rid
                       \<lparr>rs_identity = i, rs_queue_started = queued, rs_queue_span_id = span,
                        rs_active_started = None, rs_active_span_id = None, rs_active_compute_kind = None,
                        rs_preemption_epoch = 0, rs_prompt_tokens_computed = 0,
                        rs_prefill_chunk_count = 0\<rparr> (bg_states b)\<rparr>)))))"

section \<open>Scheduling\<close>

definition put_state :: "string \<Rightarrow> request_state \<Rightarrow> bridge \<Rightarrow> bridge" where
  "put_state rid st b = b\<lparr>bg_states := AList.update rid st (bg_states b)\<rparr>"

definition put_episode :: "string \<Rightarrow> int \<Rightarrow> episode \<Rightarrow> bridge \<Rightarrow> bridge" where
  "put_episode rid epoch ep b = b\<lparr>bg_episodes := AList.update (rid, epoch) ep (bg_episodes b)\<rparr>"

definition COMPUTE_KINDS :: "string list" where "COMPUTE_KINDS = [''prefill'', ''decode'']"

text \<open>A further step of a phase: the tokens computed so far, and the chunks of a prefill.\<close>

definition continue_phase :: "string \<Rightarrow> int \<Rightarrow> int \<Rightarrow> request_state \<Rightarrow> request_state" where
  "continue_phase kind scheduled total_tokens st =
     st\<lparr>rs_prompt_tokens_computed := min total_tokens (rs_prompt_tokens_computed st + scheduled),
        rs_prefill_chunk_count := rs_prefill_chunk_count st + (if kind = ''prefill'' then 1 else 0)\<rparr>"

text \<open>From prefill to decode: close the prefill span, open the decode span, join the three events.\<close>

definition prefill_to_decode ::
  "'h recorder \<Rightarrow> request_state \<Rightarrow> base_ref \<Rightarrow> string \<Rightarrow> int \<Rightarrow> 'h \<Rightarrow> (base_ref \<times> string) option res \<times> 'h" where
  "prefill_to_decode R st active span timestamp_ns h =
     (let i = rs_identity st;
          (completed, h1) = rc_event R (engine_draft i ''engine_core'' ''prefill_done'' timestamp_ns
             (rs_preemption_epoch st) None (Some span)
             (Some (tokens_metadata (rs_prompt_tokens_computed st) (max 1 (rs_prefill_chunk_count st))))) h;
          (decode_span, h2) = rc_span R h1
      in and_then (Inr completed, h2) (\<lambda>completed h.
         and_then (Inr decode_span, h) (\<lambda>decode_span h.
         and_then (called (rc_event R (engine_draft i ''engine_core'' ''decode_started'' timestamp_ns
            (rs_preemption_epoch st) (Some decode_span) None None) h)) (\<lambda>started h.
         and_then (called (rc_edge R (program_order (ri_trace_id i) (br_event_id active)
            (rr_record_id completed)) h)) (\<lambda>_ h.
         and_then (called (rc_edge R (program_order (ri_trace_id i) (rr_record_id completed)
            (rr_record_id started)) h)) (\<lambda>_ h.
         and_then (built (make_base_ref (rr_record_id started) timestamp_ns) h) (\<lambda>started h.
         (Inr (Some (started, decode_span)), h))))))))"

text \<open>The first step after queueing: close the queue span, open the active span.\<close>

definition start_phase ::
  "'h recorder \<Rightarrow> request_state \<Rightarrow> string \<Rightarrow> int \<Rightarrow> int \<Rightarrow> int \<Rightarrow> 'h \<Rightarrow> (base_ref \<times> string) option res \<times> 'h" where
  "start_phase R st kind total_tokens cached timestamp_ns h =
     (let i = rs_identity st;
          (scheduled, h1) = rc_event R (engine_draft i ''engine_core'' ''scheduled'' timestamp_ns
             (rs_preemption_epoch st) None (Some (rs_queue_span_id st))
             (Some (prompt_metadata total_tokens cached (total_tokens - cached)))) h;
          (active_span, h2) = rc_span R h1
      in and_then (Inr scheduled, h2) (\<lambda>scheduled h.
         and_then (Inr active_span, h) (\<lambda>active_span h.
         and_then (called (rc_event R (engine_draft i ''engine_core'' (kind @ ''_started'') timestamp_ns
            (rs_preemption_epoch st) (Some active_span) None None) h)) (\<lambda>started h.
         and_then (called (rc_edge R (program_order (ri_trace_id i) (br_event_id (rs_queue_started st))
            (rr_record_id scheduled)) h)) (\<lambda>_ h.
         and_then (called (rc_edge R (program_order (ri_trace_id i) (rr_record_id scheduled)
            (rr_record_id started)) h)) (\<lambda>_ h.
         and_then (built (make_base_ref (rr_record_id started) timestamp_ns) h) (\<lambda>started h.
         (Inr (Some (started, active_span)), h))))))))"

definition emit_runtime_scheduled ::
  "'h recorder \<Rightarrow> string \<Rightarrow> int \<Rightarrow> string \<Rightarrow> int \<Rightarrow> int \<Rightarrow> int \<Rightarrow> bridge \<Rightarrow> 'h \<Rightarrow>
   unit option res \<times> bridge \<times> 'h" where
  "emit_runtime_scheduled R rid timestamp_ns kind scheduled total_tokens cached0 b h =
     (case map_of (bg_states b) rid of
        None \<Rightarrow> (Inr None, b, h)
      | Some st \<Rightarrow>
          if kind \<notin> set COMPUTE_KINDS \<or> scheduled < 1 \<or> total_tokens < 1 then (Inr None, b, h)
          else (let cached = min (max 0 cached0) (total_tokens - 1) in
            case rs_active_started st of
              Some active \<Rightarrow>
                if rs_active_compute_kind st = Some kind then
                  (Inr (Some ()), put_state rid (continue_phase kind scheduled total_tokens st) b, h)
                else (case rs_active_span_id st of
                    None \<Rightarrow> (Inr None, b, h)
                  | Some span \<Rightarrow>
                      if rs_active_compute_kind st \<noteq> Some ''prefill'' \<or> kind \<noteq> ''decode'' then (Inr None, b, h)
                      else commit (prefill_to_decode R st active span timestamp_ns h) b
                        (\<lambda>(started, decode_span). ((), put_state rid (continue_phase kind scheduled total_tokens
                          (st\<lparr>rs_active_started := Some started, rs_active_span_id := Some decode_span,
                              rs_active_compute_kind := Some ''decode''\<rparr>)) b)))
            | None \<Rightarrow>
                commit (start_phase R st kind total_tokens cached timestamp_ns h) b
                  (\<lambda>(started, active_span). ((), put_state rid
                    (st\<lparr>rs_active_started := Some started, rs_active_span_id := Some active_span,
                        rs_active_compute_kind := Some kind,
                        rs_prompt_tokens_computed := min total_tokens (cached + scheduled),
                        rs_prefill_chunk_count := (if kind = ''prefill'' then 1 else 0)\<rparr>) b))))"

section \<open>Preemption and recovery\<close>

definition emit_preempted_and_requeued ::
  "'h recorder \<Rightarrow> string \<Rightarrow> int \<Rightarrow> int \<Rightarrow> string \<Rightarrow> string \<Rightarrow> int \<Rightarrow> int \<Rightarrow> bridge \<Rightarrow> 'h \<Rightarrow>
   base_ref option res \<times> bridge \<times> 'h" where
  "emit_preempted_and_requeued R rid epoch timestamp_ns active_event active_span computed chunks b h =
     (case map_of (bg_identities b) rid of
        None \<Rightarrow> (Inr None, b, h)
      | Some i \<Rightarrow>
          if epoch < 1 \<or> map_of (bg_episodes b) (rid, epoch) \<noteq> None \<or>
             length (bg_episodes b) \<ge> bg_capacity b then (Inr None, b, h)
          else commit
            (and_then (called (rc_span R h)) (\<lambda>queue_span h.
             and_then (called (rc_event R (engine_draft i ''engine_core'' ''preempted'' timestamp_ns (epoch - 1)
                None (Some active_span) (Some (tokens_metadata computed chunks))) h)) (\<lambda>preempted h.
             and_then (called (rc_edge R (program_order (ri_trace_id i) active_event
                (rr_record_id preempted)) h)) (\<lambda>_ h.
             and_then (called (rc_event R (engine_draft i ''engine_core'' ''requeued'' timestamp_ns epoch
                (Some queue_span) None None) h)) (\<lambda>requeued h.
             and_then (called (rc_edge R (program_order (ri_trace_id i) (rr_record_id preempted)
                (rr_record_id requeued)) h)) (\<lambda>_ h.
             and_then (built (make_base_ref (rr_record_id preempted) timestamp_ns) h) (\<lambda>preempted h.
             and_then (built (make_base_ref (rr_record_id requeued) timestamp_ns) h) (\<lambda>requeued h.
             (Inr (Some (queue_span, preempted, requeued)), h)))))))))
            b
            (\<lambda>(queue_span, preempted, requeued). (preempted, put_episode rid epoch
               \<lparr>ep_preempted = preempted, ep_requeued = requeued, ep_queue_span_id = queue_span,
                ep_admission_started = None, ep_admission_span_id = None, ep_resumed = None,
                ep_first_compute = None\<rparr> b)))"

definition emit_runtime_preempted ::
  "'h recorder \<Rightarrow> string \<Rightarrow> int \<Rightarrow> int \<Rightarrow> bridge \<Rightarrow> 'h \<Rightarrow> base_ref option res \<times> bridge \<times> 'h" where
  "emit_runtime_preempted R rid epoch timestamp_ns b h =
     (case map_of (bg_states b) rid of
        None \<Rightarrow> (Inr None, b, h)
      | Some st \<Rightarrow>
          (case (rs_active_started st, rs_active_span_id st) of
             (Some active, Some span) \<Rightarrow>
               (let (r, b1, h1) = emit_preempted_and_requeued R rid epoch timestamp_ns (br_event_id active) span
                      (rs_prompt_tokens_computed st) (max 1 (rs_prefill_chunk_count st)) b h
                in case r of
                     Inr (Some _) \<Rightarrow>
                       (case (map_of (bg_states b1) rid, map_of (bg_episodes b1) (rid, epoch)) of
                          (Some st, Some ep) \<Rightarrow>
                            (r, put_state rid
                              (st\<lparr>rs_queue_started := ep_requeued ep, rs_queue_span_id := ep_queue_span_id ep,
                                  rs_active_started := None, rs_active_span_id := None,
                                  rs_active_compute_kind := None, rs_preemption_epoch := epoch,
                                  rs_prompt_tokens_computed := 0, rs_prefill_chunk_count := 0\<rparr>) b1, h1)
                        | _ \<Rightarrow> (r, b1, h1))
                   | _ \<Rightarrow> (r, b1, h1))
           | _ \<Rightarrow> (Inr None, b, h)))"

definition emit_admission_started ::
  "'h recorder \<Rightarrow> string \<Rightarrow> int \<Rightarrow> int \<Rightarrow> bridge \<Rightarrow> 'h \<Rightarrow> base_ref option res \<times> bridge \<times> 'h" where
  "emit_admission_started R rid epoch timestamp_ns b h =
     (case (map_of (bg_identities b) rid, map_of (bg_episodes b) (rid, epoch)) of
        (Some i, Some ep) \<Rightarrow>
          if ep_admission_started ep \<noteq> None then (Inr None, b, h)
          else commit
            (and_then (called (rc_span R h)) (\<lambda>span h.
             and_then (called (rc_event R (engine_draft i ''engine_core'' ''admission_started'' timestamp_ns epoch
                (Some span) (Some (ep_queue_span_id ep)) None) h)) (\<lambda>emitted h.
             and_then (called (rc_edge R (program_order (ri_trace_id i) (br_event_id (ep_requeued ep))
                (rr_record_id emitted)) h)) (\<lambda>_ h.
             and_then (built (make_base_ref (rr_record_id emitted) timestamp_ns) h) (\<lambda>ref h.
             (Inr (Some (span, ref)), h))))))
            b
            (\<lambda>(span, ref). (ref, put_episode rid epoch
               (ep\<lparr>ep_admission_started := Some ref, ep_admission_span_id := Some span\<rparr>) b))
      | _ \<Rightarrow> (Inr None, b, h))"

definition emit_resumed ::
  "'h recorder \<Rightarrow> string \<Rightarrow> int \<Rightarrow> int \<Rightarrow> int \<Rightarrow> int \<Rightarrow> int \<Rightarrow> bridge \<Rightarrow> 'h \<Rightarrow>
   base_ref option res \<times> bridge \<times> 'h" where
  "emit_resumed R rid epoch timestamp_ns total_tokens cached to_compute b h =
     (case (map_of (bg_identities b) rid, map_of (bg_episodes b) (rid, epoch)) of
        (Some i, Some ep) \<Rightarrow>
          (case (ep_admission_started ep, ep_admission_span_id ep) of
             (Some admission, Some span) \<Rightarrow>
               if ep_resumed ep \<noteq> None then (Inr None, b, h)
               else commit
                 (and_then (called (rc_event R (engine_draft i ''engine_core'' ''resumed'' timestamp_ns epoch
                     None (Some span) (Some (prompt_metadata total_tokens cached to_compute))) h)) (\<lambda>emitted h.
                  and_then (called (rc_edge R (program_order (ri_trace_id i) (br_event_id admission)
                     (rr_record_id emitted)) h)) (\<lambda>_ h.
                  built (make_base_ref (rr_record_id emitted) timestamp_ns) h)))
                 b
                 (\<lambda>ref. (ref, put_episode rid epoch (ep\<lparr>ep_resumed := Some ref\<rparr>) b))
           | _ \<Rightarrow> (Inr None, b, h))
      | _ \<Rightarrow> (Inr None, b, h))"

definition emit_runtime_resumed ::
  "'h recorder \<Rightarrow> string \<Rightarrow> int \<Rightarrow> int \<Rightarrow> int \<Rightarrow> int \<Rightarrow> bridge \<Rightarrow> 'h \<Rightarrow> base_ref option res \<times> bridge \<times> 'h" where
  "emit_runtime_resumed R rid epoch timestamp_ns total_tokens cached0 b h =
     (if total_tokens < 1 then (Inr None, b, h)
      else (let cached = min (max 0 cached0) (total_tokens - 1);
                (r, b1, h1) = emit_resumed R rid epoch timestamp_ns total_tokens cached (total_tokens - cached) b h
            in case (r, map_of (bg_states b1) rid) of
                 (Inr (Some _), Some st) \<Rightarrow> (r, put_state rid (st\<lparr>rs_prompt_tokens_computed := cached\<rparr>) b1, h1)
               | _ \<Rightarrow> (r, b1, h1)))"

definition emit_first_compute ::
  "'h recorder \<Rightarrow> string \<Rightarrow> int \<Rightarrow> int \<Rightarrow> string \<Rightarrow> bridge \<Rightarrow> 'h \<Rightarrow> base_ref option res \<times> bridge \<times> 'h" where
  "emit_first_compute R rid epoch timestamp_ns kind b h =
     (case (map_of (bg_identities b) rid, map_of (bg_episodes b) (rid, epoch)) of
        (Some i, Some ep) \<Rightarrow>
          (case ep_resumed ep of
             None \<Rightarrow> (Inr None, b, h)
           | Some resumed \<Rightarrow>
               if ep_first_compute ep \<noteq> None \<or> kind \<notin> set COMPUTE_KINDS then (Inr None, b, h)
               else commit
                 (and_then (called (rc_span R h)) (\<lambda>span h.
                  and_then (called (rc_event R (engine_draft i ''engine_core'' (kind @ ''_started'') timestamp_ns
                     epoch (Some span) None None) h)) (\<lambda>emitted h.
                  and_then (called (rc_edge R (program_order (ri_trace_id i) (br_event_id resumed)
                     (rr_record_id emitted)) h)) (\<lambda>_ h.
                  and_then (built (make_base_ref (rr_record_id emitted) timestamp_ns) h) (\<lambda>ref h.
                  (Inr (Some (span, ref)), h))))))
                 b
                 (\<lambda>(span, ref). (ref,
                    (let b1 = put_episode rid epoch (ep\<lparr>ep_first_compute := Some ref\<rparr>) b
                     in case map_of (bg_states b1) rid of None \<Rightarrow> b1
                        | Some st \<Rightarrow> put_state rid
                            (st\<lparr>rs_active_started := Some ref, rs_active_span_id := Some span,
                                rs_active_compute_kind := Some kind,
                                rs_prefill_chunk_count := rs_prefill_chunk_count st +
                                  (if kind = ''prefill'' then 1 else 0)\<rparr>) b1))))
      | _ \<Rightarrow> (Inr None, b, h))"

section \<open>Lookups\<close>

definition bridge_identity :: "string \<Rightarrow> bridge \<Rightarrow> request_identity option" where
  "bridge_identity rid b = map_of (bg_identities b) rid"

definition preempted_event :: "string \<Rightarrow> int \<Rightarrow> bridge \<Rightarrow> base_ref option" where
  "preempted_event rid epoch b = map_option ep_preempted (map_of (bg_episodes b) (rid, epoch))"

definition admission_started_event :: "string \<Rightarrow> int \<Rightarrow> bridge \<Rightarrow> base_ref option" where
  "admission_started_event rid epoch b = Option.bind (map_of (bg_episodes b) (rid, epoch)) ep_admission_started"

definition resumed_event :: "string \<Rightarrow> int \<Rightarrow> bridge \<Rightarrow> base_ref option" where
  "resumed_event rid epoch b = Option.bind (map_of (bg_episodes b) (rid, epoch)) ep_resumed"

definition first_compute_event :: "string \<Rightarrow> int \<Rightarrow> bridge \<Rightarrow> base_ref option" where
  "first_compute_event rid epoch b = Option.bind (map_of (bg_episodes b) (rid, epoch)) ep_first_compute"

section \<open>The terminal\<close>

definition request_terminal :: "string \<Rightarrow> bridge \<Rightarrow> bridge" where
  "request_terminal rid b = b
     \<lparr>bg_identities := AList.delete rid (bg_identities b), bg_states := AList.delete rid (bg_states b),
      bg_episodes := filter (\<lambda>kv. fst (fst kv) \<noteq> rid) (bg_episodes b)\<rparr>"

definition TERMINAL_CAUSES :: "(string \<times> string) list" where
  "TERMINAL_CAUSES =
     [(''complete'', ''generation_done''), (''explicit_cancel'', ''aborted''),
      (''client_disconnect'', ''cancelled''), (''client_timeout'', ''cancelled''),
      (''engine_failure'', ''error''), (''error'', ''error'')]"

text \<open>A completed generation: the phase ends, then the generation, joined by two edges.\<close>

definition finish_generation ::
  "'h recorder \<Rightarrow> request_state \<Rightarrow> string \<Rightarrow> int \<Rightarrow> int \<Rightarrow> 'h \<Rightarrow> base_ref option res \<times> 'h" where
  "finish_generation R st cause timestamp_ns generated h =
     (case (rs_active_started st, rs_active_span_id st, rs_active_compute_kind st) of
        (Some active, Some span, Some kind) \<Rightarrow>
          if generated < 1 \<or> kind \<notin> set COMPUTE_KINDS then (Inr None, h)
          else let i = rs_identity st in
            and_then (called (rc_event R (engine_draft i ''engine_core'' (kind @ ''_done'') timestamp_ns
               (rs_preemption_epoch st) None (Some span)
               (Some (if kind = ''prefill''
                      then tokens_metadata (rs_prompt_tokens_computed st) (max 1 (rs_prefill_chunk_count st))
                      else []))) h)) (\<lambda>completed h.
            and_then (called (rc_event R (engine_draft i ''engine_core'' ''generation_done'' timestamp_ns
               (rs_preemption_epoch st) None None
               (Some [(''terminal_cause'', PStr cause), (''generated_tokens_total'', PInt generated)])) h))
               (\<lambda>emitted h.
            (let (first, h1) = rc_edge R (program_order (ri_trace_id i) (br_event_id active)
                    (rr_record_id completed)) h;
                 (second, h2) = rc_edge R (program_order (ri_trace_id i) (rr_record_id completed)
                    (rr_record_id emitted)) h1
             in if first \<noteq> None \<and> second \<noteq> None
                then built (make_base_ref (rr_record_id emitted) timestamp_ns) h2 else (Inr None, h2))))
      | _ \<Rightarrow> (Inr None, h))"

text \<open>Any other terminal closes the open span in one event.\<close>

definition finish_abnormally ::
  "'h recorder \<Rightarrow> request_state \<Rightarrow> string \<Rightarrow> string \<Rightarrow> int \<Rightarrow> 'h \<Rightarrow> base_ref option res \<times> 'h" where
  "finish_abnormally R st event_name cause timestamp_ns h =
     (let i = rs_identity st;
          active = (case rs_active_started st of None \<Rightarrow> rs_queue_started st | Some r \<Rightarrow> r);
          open_span = (case rs_active_span_id st of
            Some (c # cs) \<Rightarrow> c # cs | _ \<Rightarrow> rs_queue_span_id st)
      in and_then (called (rc_event R ((engine_draft i ''engine_core'' event_name timestamp_ns
            (rs_preemption_epoch st) None None (Some [(''terminal_cause'', PStr cause)]))
            \<lparr>ed_closing_span_ids := [open_span]\<rparr>) h)) (\<lambda>emitted h.
         and_then (called (rc_edge R (program_order (ri_trace_id i) (br_event_id active)
            (rr_record_id emitted)) h)) (\<lambda>_ h.
         built (make_base_ref (rr_record_id emitted) timestamp_ns) h)))"

definition emit_runtime_terminal ::
  "'h recorder \<Rightarrow> string \<Rightarrow> string \<Rightarrow> int \<Rightarrow> int \<Rightarrow> bridge \<Rightarrow> 'h \<Rightarrow> base_ref option res \<times> bridge \<times> 'h" where
  "emit_runtime_terminal R rid cause timestamp_ns generated b h =
     (case map_of TERMINAL_CAUSES cause of
        None \<Rightarrow> (Inr None, b, h)
      | Some event_name \<Rightarrow>
          if \<not> (0 \<le> timestamp_ns \<and> timestamp_ns \<le> UINT64_MAX) then (Inr None, b, h)
          else (case map_of (bg_states b) rid of
              None \<Rightarrow> (Inr None, b, h)
            | Some st \<Rightarrow>
                (let (r, h1) = (if event_name = ''generation_done''
                       then finish_generation R st cause timestamp_ns generated h
                       else finish_abnormally R st event_name cause timestamp_ns h)
                 in case r of Inl e \<Rightarrow> (Inl e, b, h1)
                    | Inr _ \<Rightarrow> (r, request_terminal rid b, h1))))"

section \<open>Sequences of calls\<close>

text \<open>The operations the runtime adapters call, and a sequence of them on one bridge.\<close>

datatype bridge_call =
  Register string string int
| Scheduled string int string int int int
| Preempt string int int
| Admission string int int
| Resume string int int int int
| Compute string int int string
| Terminal string string int int

definition void :: "'a option res \<times> bridge \<times> 'h \<Rightarrow> unit option res \<times> bridge \<times> 'h" where
  "void p = (case fst p of Inl e \<Rightarrow> Inl e | Inr r \<Rightarrow> Inr (map_option (\<lambda>_. ()) r), snd p)"

fun run_call :: "'h recorder \<Rightarrow> bridge_call \<Rightarrow> bridge \<Rightarrow> 'h \<Rightarrow> unit option res \<times> bridge \<times> 'h" where
  "run_call R (Register run rid t) b h = register_runtime_request R run rid t b h"
| "run_call R (Scheduled rid t kind n total_tokens cached) b h =
     emit_runtime_scheduled R rid t kind n total_tokens cached b h"
| "run_call R (Preempt rid epoch t) b h = void (emit_runtime_preempted R rid epoch t b h)"
| "run_call R (Admission rid epoch t) b h = void (emit_admission_started R rid epoch t b h)"
| "run_call R (Resume rid epoch t total_tokens cached) b h =
     void (emit_runtime_resumed R rid epoch t total_tokens cached b h)"
| "run_call R (Compute rid epoch t kind) b h = void (emit_first_compute R rid epoch t kind b h)"
| "run_call R (Terminal rid cause t n) b h = void (emit_runtime_terminal R rid cause t n b h)"

fun run_calls :: "'h recorder \<Rightarrow> bridge_call list \<Rightarrow> bridge \<Rightarrow> 'h \<Rightarrow> unit option res list \<times> bridge \<times> 'h" where
  "run_calls R [] b h = ([], b, h)"
| "run_calls R (c # cs) b h =
     (let (r, b1, h1) = run_call R c b h; (rs, b2, h2) = run_calls R cs b1 h1 in (r # rs, b2, h2))"

text \<open>The run id comes from the configuration, which is hexadecimal; it is what makes a call well formed.\<close>

fun ascii_run :: "bridge_call \<Rightarrow> bool" where
  "ascii_run (Register run rid t) = is_ascii run"
| "ascii_run _ = True"

end
