(* ===== verification/Bridge_Contract.thy ===== *)
theory Bridge_Contract
  imports Lifecycle_Bridge
begin

text \<open>
  What the bridge emits: every recording is kept in a log beside the recorder, newest first, and the
  operations are read through their weakest preconditions. The locale \<open>recorder_contract\<close> holds the
  laws of the hooks; inside it every operation is shown to raise nothing, to emit edges only between
  events of one trace that were recorded in that order, and to end only spans that were opened. The
  facade of \<open>Lifecycle_Hooks\<close> is the interpretation.
\<close>

section \<open>The log of a recorder\<close>

datatype entry = Event_entry event_draft string | Edge_entry edge_draft

definition logged :: "'h recorder \<Rightarrow> ('h \<times> entry list) recorder" where
  "logged R =
     \<lparr>rc_span = (\<lambda>(h, l). let (i, h') = rc_span R h in (i, (h', l))),
      rc_event = (\<lambda>d (h, l). let (r, h') = rc_event R d h
        in (r, (h', case r of None \<Rightarrow> l | Some ref \<Rightarrow> Event_entry d (rr_record_id ref) # l))),
      rc_edge = (\<lambda>d (h, l). let (r, h') = rc_edge R d h
        in (r, (h', case r of None \<Rightarrow> l | Some _ \<Rightarrow> Edge_entry d # l)))\<rparr>"

text \<open>The event \<open>i\<close> of a trace is in the log; \<open>j\<close> was recorded after \<open>i\<close>; a span was opened.\<close>

fun seen :: "string \<Rightarrow> string \<Rightarrow> entry list \<Rightarrow> bool" where
  "seen t i [] = False"
| "seen t i (Event_entry d j # l) = (i = j \<and> ed_trace_id d = t \<or> seen t i l)"
| "seen t i (Edge_entry d # l) = seen t i l"

fun in_order :: "string \<Rightarrow> string \<Rightarrow> string \<Rightarrow> entry list \<Rightarrow> bool" where
  "in_order t i j [] = False"
| "in_order t i j (Event_entry d k # l) =
     (j = k \<and> ed_trace_id d = t \<and> seen t i l \<or> in_order t i j l)"
| "in_order t i j (Edge_entry d # l) = in_order t i j l"

fun span_open :: "string \<Rightarrow> string \<Rightarrow> entry list \<Rightarrow> bool" where
  "span_open t s [] = False"
| "span_open t s (Event_entry d i # l) = (ed_trace_id d = t \<and> ed_start_span_id d = Some s \<or> span_open t s l)"
| "span_open t s (Edge_entry d # l) = span_open t s l"

text \<open>
  A log is causal: every edge is a program-order edge whose ends were recorded before it, in order
  and in its trace, and every span an event ends or lists as closing was opened before in its trace.
\<close>

fun causal :: "entry list \<Rightarrow> bool" where
  "causal [] = True"
| "causal (Event_entry d i # l) =
     ((case ed_end_span_id d of None \<Rightarrow> True | Some s \<Rightarrow> span_open (ed_trace_id d) s l) \<and>
      list_all (\<lambda>s. span_open (ed_trace_id d) s l) (ed_closing_span_ids d) \<and> causal l)"
| "causal (Edge_entry d # l) =
     (gd_edge_kind d = ''program_order'' \<and>
      in_order (gd_trace_id d) (gd_from_event_id d) (gd_to_event_id d) l \<and> causal l)"

lemma seen_Cons: "seen t i l \<Longrightarrow> seen t i (x # l)"
  by (cases x) auto

lemma span_open_Cons: "span_open t s l \<Longrightarrow> span_open t s (x # l)"
  by (cases x) auto

lemma seen_append: "seen t i l \<Longrightarrow> seen t i (l' @ l)"
  by (induction l') (auto intro: seen_Cons)

lemma span_open_append: "span_open t s l \<Longrightarrow> span_open t s (l' @ l)"
  by (induction l') (auto intro: span_open_Cons)

section \<open>Weakest preconditions of the emissions\<close>

text \<open>
  \<open>wp p Q N\<close>: the emissions \<open>p\<close> raise nothing, give a value and a state with \<open>Q\<close>, or stop in a
  state with \<open>N\<close>.
\<close>

definition wp :: "'a option res \<times> 'g \<Rightarrow> ('a \<Rightarrow> 'g \<Rightarrow> bool) \<Rightarrow> ('g \<Rightarrow> bool) \<Rightarrow> bool" where
  "wp p Q N = (case fst p of Inl e \<Rightarrow> False | Inr None \<Rightarrow> N (snd p) | Inr (Some a) \<Rightarrow> Q a (snd p))"

lemma wp_and_then [simp]: "wp (and_then p f) Q N = wp p (\<lambda>a g. wp (f a g) Q N) N"
  by (simp add: wp_def and_then_def split: sum.splits option.splits)

lemma wp_value [simp]: "wp (Inr r, g) Q N = (case r of None \<Rightarrow> N g | Some a \<Rightarrow> Q a g)"
  by (simp add: wp_def split: option.splits)

lemma wp_built: "wp (built r g) Q N = (case r of Inl e \<Rightarrow> False | Inr a \<Rightarrow> Q a g)"
  by (simp add: wp_def built_def split: sum.splits)

lemma wp_called: "wp (called p) Q N = (case fst p of None \<Rightarrow> N (snd p) | Some a \<Rightarrow> Q a (snd p))"
  by (simp add: wp_def called_def split: option.splits)

lemma wp_mono: "wp p Q N \<Longrightarrow> (\<And>a g. Q a g \<Longrightarrow> Q' a g) \<Longrightarrow> (\<And>g. N g \<Longrightarrow> N' g) \<Longrightarrow> wp p Q' N'"
  by (auto simp: wp_def split: sum.splits option.splits)

definition ends :: "'a option res \<times> bridge \<times> 'g \<Rightarrow> ('a option \<Rightarrow> bridge \<Rightarrow> 'g \<Rightarrow> bool) \<Rightarrow> bool" where
  "ends p Q = (case p of (r, b, g) \<Rightarrow> (case r of Inl e \<Rightarrow> False | Inr a \<Rightarrow> Q a b g))"

lemma ends_commit [simp]:
  "ends (commit p b f) Q = wp p (\<lambda>a g. Q (Some (fst (f a))) (snd (f a)) g) (\<lambda>g. Q None b g)"
  by (simp add: ends_def commit_def wp_def Let_def split: sum.splits option.splits prod.splits)

lemma ends_value [simp]: "ends (Inr r, b, g) Q = Q r b g"
  by (simp add: ends_def)

lemma wp_if: "(c \<Longrightarrow> wp x Q N) \<Longrightarrow> (\<not> c \<Longrightarrow> wp y Q N) \<Longrightarrow> wp (if c then x else y) Q N"
  by simp

lemma ends_if: "(c \<Longrightarrow> ends x Q) \<Longrightarrow> (\<not> c \<Longrightarrow> ends y Q) \<Longrightarrow> ends (if c then x else y) Q"
  by simp

section \<open>The contract of the hooks\<close>

locale recorder_contract =
  fixes R :: "'h recorder"
  assumes event_recorded:
    "rc_event R d h = (Some ref, h') \<Longrightarrow> ed_timestamp_ns d = Some t \<Longrightarrow>
       id_pattern (CHR ''e'') (rr_record_id ref) \<and> 0 \<le> t \<and> t \<le> UINT64_MAX"
begin

lemma wp_span:
  "(\<And>s h'. Q s (h', l)) \<Longrightarrow> (\<And>h'. N (h', l)) \<Longrightarrow> wp (called (rc_span (logged R) (h, l))) Q N"
  by (simp add: wp_called logged_def Let_def split: prod.splits option.splits)

lemma wp_edge:
  "(\<And>ref h'. Q ref (h', Edge_entry d # l)) \<Longrightarrow> (\<And>h'. N (h', l)) \<Longrightarrow>
   wp (called (rc_edge (logged R) d (h, l))) Q N"
  by (auto simp: wp_called logged_def Let_def split: prod.splits option.splits)

lemma wp_event:
  assumes "ed_timestamp_ns d = Some t"
    and "\<And>ref h'. id_pattern (CHR ''e'') (rr_record_id ref) \<Longrightarrow> 0 \<le> t \<Longrightarrow> t \<le> UINT64_MAX \<Longrightarrow>
           Q ref (h', Event_entry d (rr_record_id ref) # l)"
    and "\<And>h'. N (h', l)"
  shows "wp (called (rc_event (logged R) d (h, l))) Q N"
  using event_recorded [of d h _ _ t] assms
  by (auto simp: wp_called logged_def Let_def split: prod.splits option.splits)

end

lemma make_base_ref_ok [simp]:
  "id_pattern (CHR ''e'') i \<Longrightarrow> 0 \<le> t \<Longrightarrow> t \<le> UINT64_MAX \<Longrightarrow>
     make_base_ref i t = Inr \<lparr>br_event_id = i, br_timestamp_ns = t\<rparr>"
  by (simp add: make_base_ref_def accept_simps)

lemma wp_andI: "wp p (\<lambda>a g. wp (f a g) Q N) N \<Longrightarrow> wp (and_then p f) Q N"
  by simp

lemma wp_someI: "Q a g \<Longrightarrow> wp (Inr (Some a), g) Q N"
  by simp

lemma wp_ref:
  "id_pattern (CHR ''e'') i \<Longrightarrow> 0 \<le> t \<Longrightarrow> t \<le> UINT64_MAX \<Longrightarrow> Q \<lparr>br_event_id = i, br_timestamp_ns = t\<rparr> g \<Longrightarrow>
   wp (built (make_base_ref i t) g) Q N"
  by (simp add: wp_built)

section \<open>The invariant of the bridge and its log\<close>

definition state_ok :: "entry list \<Rightarrow> request_state \<Rightarrow> bool" where
  "state_ok l st \<longleftrightarrow> (let t = ri_trace_id (rs_identity st) in
     seen t (br_event_id (rs_queue_started st)) l \<and> span_open t (rs_queue_span_id st) l \<and>
     (\<forall>r. rs_active_started st = Some r \<longrightarrow> seen t (br_event_id r) l) \<and>
     (\<forall>s. rs_active_span_id st = Some s \<longrightarrow> span_open t s l))"

definition episode_ok :: "string \<Rightarrow> entry list \<Rightarrow> episode \<Rightarrow> bool" where
  "episode_ok t l ep \<longleftrightarrow>
     seen t (br_event_id (ep_requeued ep)) l \<and> span_open t (ep_queue_span_id ep) l \<and>
     (\<forall>r. ep_admission_started ep = Some r \<longrightarrow> seen t (br_event_id r) l) \<and>
     (\<forall>s. ep_admission_span_id ep = Some s \<longrightarrow> span_open t s l) \<and>
     (\<forall>r. ep_resumed ep = Some r \<longrightarrow> seen t (br_event_id r) l)"

definition tracked :: "bridge \<Rightarrow> entry list \<Rightarrow> bool" where
  "tracked b l \<longleftrightarrow>
     (\<forall>rid. (map_of (bg_identities b) rid = None) = (map_of (bg_states b) rid = None)) \<and>
     (\<forall>rid st. map_of (bg_states b) rid = Some st \<longrightarrow>
        map_of (bg_identities b) rid = Some (rs_identity st) \<and> state_ok l st) \<and>
     (\<forall>rid e ep. map_of (bg_episodes b) (rid, e) = Some ep \<longrightarrow>
        (\<exists>i. map_of (bg_identities b) rid = Some i \<and> episode_ok (ri_trace_id i) l ep))"

definition sound :: "bridge \<Rightarrow> entry list \<Rightarrow> bool" where
  "sound b l \<longleftrightarrow> causal l \<and> tracked b l"

lemma state_ok_Cons: "state_ok l st \<Longrightarrow> state_ok (x # l) st"
  by (auto simp: state_ok_def Let_def intro: seen_Cons span_open_Cons)

lemma episode_ok_Cons: "episode_ok t l ep \<Longrightarrow> episode_ok t (x # l) ep"
  by (auto simp: episode_ok_def intro: seen_Cons span_open_Cons)

lemma tracked_Cons [simp]: "tracked b l \<Longrightarrow> tracked b (x # l)"
  unfolding tracked_def by (meson state_ok_Cons episode_ok_Cons)

lemma tracked_state:
  "tracked b l \<Longrightarrow> map_of (bg_states b) rid = Some st \<Longrightarrow>
     map_of (bg_identities b) rid = Some (rs_identity st) \<and> state_ok l st"
  by (simp add: tracked_def)

lemma tracked_episode:
  "tracked b l \<Longrightarrow> map_of (bg_episodes b) (rid, e) = Some ep \<Longrightarrow> map_of (bg_identities b) rid = Some i \<Longrightarrow>
     episode_ok (ri_trace_id i) l ep"
  by (fastforce simp: tracked_def)

lemma tracked_register:
  assumes "tracked b l" "map_of (bg_states b) rid = None" "rs_identity st = i" "state_ok l st"
  shows "tracked (b\<lparr>bg_identities := AList.update rid i (bg_identities b),
     bg_states := AList.update rid st (bg_states b)\<rparr>) l"
proof -
  have "map_of (bg_identities b) rid = None" "map_of (bg_episodes b) (rid, e) = None" for e
    using assms(1,2) by (auto simp: tracked_def) (metis not_Some_eq option.distinct(1))
  then show ?thesis using assms by (auto simp: tracked_def update_conv')
qed

lemma tracked_put_state:
  "tracked b l \<Longrightarrow> map_of (bg_states b) rid = Some st \<Longrightarrow> rs_identity st' = rs_identity st \<Longrightarrow> state_ok l st' \<Longrightarrow>
     tracked (put_state rid st' b) l"
  by (auto simp: tracked_def put_state_def update_conv')

lemma tracked_put_episode:
  "tracked b l \<Longrightarrow> map_of (bg_identities b) rid = Some i \<Longrightarrow> episode_ok (ri_trace_id i) l ep \<Longrightarrow>
     tracked (put_episode rid e ep b) l"
  by (auto simp: tracked_def put_episode_def update_conv')

lemma map_of_other_requests:
  "map_of (filter (\<lambda>kv. fst (fst kv) \<noteq> rid) al) (r, e) = (if r = rid then None else map_of al (r, e))"
  by (induction al) auto

lemma tracked_terminal: "tracked b l \<Longrightarrow> tracked (request_terminal rid b) l"
  by (auto simp: tracked_def request_terminal_def delete_conv' map_of_other_requests)

end
