(* ===== verification/Bridge_Ops.thy ===== *)
theory Bridge_Ops
  imports Bridge_Contract
begin

lemma engine_draft_fields [simp]:
  "ed_trace_id (engine_draft i c n t e s s' m) = ri_trace_id i"
  "ed_timestamp_ns (engine_draft i c n t e s s' m) = Some t"
  "ed_start_span_id (engine_draft i c n t e s s' m) = s"
  "ed_end_span_id (engine_draft i c n t e s s' m) = s'"
  "ed_closing_span_ids (engine_draft i c n t e s s' m) = []"
  by (simp_all add: engine_draft_def)

lemma program_order_fields [simp]:
  "gd_trace_id (program_order t i j) = t" "gd_from_event_id (program_order t i j) = i"
  "gd_to_event_id (program_order t i j) = j" "gd_edge_kind (program_order t i j) = ''program_order''"
  by (simp_all add: program_order_def)

lemma dec_nat_zero: "dec_nat 0 = ''0''"
  by code_simp

lemmas state_facts = state_ok_def episode_ok_def Let_def

lemma ends_elim: "ends p Q \<Longrightarrow> \<exists>r b g. p = (Inr r, b, g) \<and> Q r b g"
  by (auto simp: ends_def split: prod.splits sum.splits)

context recorder_contract begin

lemmas wp_intros = wp_span wp_event wp_edge wp_ref wp_andI wp_someI

lemma make_identity_trace:
  "is_bounded_printable_ascii rid MAX_RUNTIME_REQUEST_ID_BYTES \<Longrightarrow>
   make_identity (trace_of run rid) (trace_of run rid @ '':e:0'') rid 0 =
     Inr \<lparr>ri_trace_id = trace_of run rid, ri_engine_lifecycle_id = trace_of run rid @ '':e:0'',
          ri_runtime_request_id = rid, ri_sample_index = 0\<rparr>"
  by (simp add: make_identity_def accept_simps trace_of_def sha256_hex_half id_of_def py_str_int_def dec_nat_zero)

lemma wp_event_span:
  assumes "ed_timestamp_ns d = Some t"
    and "\<And>ref s h'. id_pattern (CHR ''e'') (rr_record_id ref) \<Longrightarrow> 0 \<le> t \<Longrightarrow> t \<le> UINT64_MAX \<Longrightarrow>
      wp (F ref s (h', Event_entry d (rr_record_id ref) # l)) Q N"
    and "\<And>h'. N (h', l)" "\<And>(ref :: record_ref) h'. N (h', Event_entry d (rr_record_id ref) # l)"
  shows "wp (case rc_event (logged R) d (h, l) of (c, h1) \<Rightarrow> case rc_span (logged R) h1 of (s, h2) \<Rightarrow>
      and_then (Inr c, h2) (\<lambda>c g. and_then (Inr s, g) (F c))) Q N"
  using event_recorded [of d h _ _ t] assms
  by (auto simp: logged_def Let_def split: prod.splits option.splits)

lemma register_sound:
  assumes "sound b l" "is_ascii run"
  shows "ends (register_runtime_request (logged R) run rid t b (h, l)) (\<lambda>_ b' g. sound b' (snd g))"
  using assms
  apply (simp add: register_runtime_request_def make_identity_trace sound_def split: option.splits)
  apply (intro allI conjI impI wp_intros)
  apply (simp_all add: sound_def)
  apply (intro tracked_register tracked_Cons)
  apply (simp_all add: state_facts)
  done

lemma prefill_to_decode_sound:
  assumes "causal l" "tracked b l" "state_ok l st" "rs_active_started st = Some active"
    "rs_active_span_id st = Some span"
  shows "wp (prefill_to_decode (logged R) st active span t (h, l))
    (\<lambda>(started, s) g. causal (snd g) \<and> tracked b (snd g) \<and> state_ok (snd g)
       (st\<lparr>rs_active_started := Some started, rs_active_span_id := Some s\<rparr>))
    (\<lambda>g. causal (snd g) \<and> tracked b (snd g))"
  using assms
  apply (simp only: prefill_to_decode_def Let_def)
  apply (intro allI conjI impI wp_event_span [where t = t] wp_intros)
  apply (simp_all add: state_facts)
  done

lemma start_phase_sound:
  assumes "causal l" "tracked b l" "state_ok l st"
  shows "wp (start_phase (logged R) st kind total_tokens cached t (h, l))
    (\<lambda>(started, s) g. causal (snd g) \<and> tracked b (snd g) \<and> state_ok (snd g)
       (st\<lparr>rs_active_started := Some started, rs_active_span_id := Some s\<rparr>))
    (\<lambda>g. causal (snd g) \<and> tracked b (snd g))"
  using assms
  apply (simp only: start_phase_def Let_def)
  apply (intro allI conjI impI wp_event_span [where t = t] wp_intros)
  apply (simp_all add: state_facts)
  done


lemma put_state_sound:
  "causal l \<Longrightarrow> tracked b l \<Longrightarrow> map_of (bg_states b) rid = Some st \<Longrightarrow> rs_identity st' = rs_identity st \<Longrightarrow>
     state_ok l st' \<Longrightarrow> sound (put_state rid st' b) l"
  by (simp add: sound_def tracked_put_state)

lemma scheduled_sound:
  assumes "sound b l"
  shows "ends (emit_runtime_scheduled (logged R) rid t kind n total_tokens cached b (h, l))
    (\<lambda>_ b' g. sound b' (snd g))"
proof (cases "map_of (bg_states b) rid")
  case None
  then show ?thesis using assms by (simp add: emit_runtime_scheduled_def)
next
  case (Some st)
  have ok: "causal l" "tracked b l" "state_ok l st"
    using assms Some tracked_state [of b l rid st] by (auto simp: sound_def)
  note put = put_state_sound [OF _ _ Some]
  have more: "sound (put_state rid (continue_phase kind n total_tokens st) b) l"
    using ok by (intro put) (simp_all add: continue_phase_def state_facts)
  have prefill: "wp (prefill_to_decode (logged R) st active span t (h, l))
      (\<lambda>a g. sound (put_state rid (continue_phase kind n total_tokens
          (st\<lparr>rs_active_started := Some (fst a), rs_active_span_id := Some (snd a),
              rs_active_compute_kind := Some ''decode''\<rparr>)) b) (snd g)) (\<lambda>g. sound b (snd g))"
    if "rs_active_started st = Some active" "rs_active_span_id st = Some span" for active span
    by (rule wp_mono [OF prefill_to_decode_sound [OF ok that]])
       (auto simp: sound_def [of b] continue_phase_def state_facts intro!: put)
  have start: "wp (start_phase (logged R) st kind total_tokens m t (h, l))
      (\<lambda>a g. sound (put_state rid
          (st\<lparr>rs_active_started := Some (fst a), rs_active_span_id := Some (snd a),
              rs_active_compute_kind := Some kind,
              rs_prompt_tokens_computed := min total_tokens (m + n),
              rs_prefill_chunk_count := (if kind = ''prefill'' then 1 else 0)\<rparr>) b) (snd g))
      (\<lambda>g. sound b (snd g))" for m
    by (rule wp_mono [OF start_phase_sound [OF ok]]) (auto simp: sound_def [of b] state_facts intro!: put)
  show ?thesis
    using assms Some more start prefill
    by (auto simp: emit_runtime_scheduled_def Let_def case_prod_unfold split: option.splits)
qed


lemma put_episode_sound:
  "causal l \<Longrightarrow> tracked b l \<Longrightarrow> map_of (bg_identities b) rid = Some i \<Longrightarrow> episode_ok (ri_trace_id i) l ep \<Longrightarrow>
     sound (put_episode rid e ep b) l"
  by (simp add: sound_def tracked_put_episode)

lemma preempted_and_requeued_sound:
  assumes "sound b l"
    and "\<And>i. map_of (bg_identities b) rid = Some i \<Longrightarrow> seen (ri_trace_id i) active l \<and> span_open (ri_trace_id i) span l"
  shows "ends (emit_preempted_and_requeued (logged R) rid epoch t active span n chunks b (h, l))
    (\<lambda>_ b' g. sound b' (snd g))"
proof (cases "map_of (bg_identities b) rid")
  case None
  then show ?thesis using assms by (simp add: emit_preempted_and_requeued_def)
next
  case (Some i)
  have ok: "causal l" "tracked b l" "seen (ri_trace_id i) active l" "span_open (ri_trace_id i) span l"
    using assms(1) assms(2) [OF Some] by (auto simp: sound_def)
  note put = put_episode_sound [OF _ _ Some]
  show ?thesis
    using assms(1) Some ok
    apply (simp add: emit_preempted_and_requeued_def case_prod_unfold del: wp_and_then)
    apply (intro impI wp_intros)
    apply (simp_all add: sound_def [of b])
    apply (intro put)
    apply (simp_all add: state_facts)
    done
qed

lemma admission_sound:
  assumes "sound b l"
  shows "ends (emit_admission_started (logged R) rid epoch t b (h, l)) (\<lambda>_ b' g. sound b' (snd g))"
proof (cases "map_of (bg_identities b) rid")
  case None
  then show ?thesis using assms by (simp add: emit_admission_started_def)
next
  case (Some i)
  have ok: "causal l" "tracked b l"
    "map_of (bg_episodes b) (rid, epoch) = Some ep \<Longrightarrow> episode_ok (ri_trace_id i) l ep" for ep
    using assms Some tracked_episode [of b l rid epoch ep i] by (auto simp: sound_def)
  note put = put_episode_sound [OF _ _ Some]
  show ?thesis
    using assms Some ok
    apply (simp add: emit_admission_started_def case_prod_unfold del: wp_and_then split: option.splits)
    apply (intro allI impI wp_intros)
    apply (simp_all add: sound_def [of b] episode_ok_def)
    apply (intro put)
    apply (simp_all add: state_facts)
    done
qed


lemma resumed_sound:
  assumes "sound b l"
  shows "ends (emit_resumed (logged R) rid epoch t total_tokens cached m b (h, l)) (\<lambda>_ b' g. sound b' (snd g))"
proof (cases "map_of (bg_identities b) rid")
  case None
  then show ?thesis using assms by (simp add: emit_resumed_def)
next
  case (Some i)
  have ok: "causal l" "tracked b l"
    "map_of (bg_episodes b) (rid, epoch) = Some ep \<Longrightarrow> episode_ok (ri_trace_id i) l ep" for ep
    using assms Some tracked_episode [of b l rid epoch ep i] by (auto simp: sound_def)
  note put = put_episode_sound [OF _ _ Some]
  show ?thesis
    using assms Some ok
    apply (simp add: emit_resumed_def del: wp_and_then split: option.splits)
    apply (intro allI impI wp_intros)
    apply (simp_all add: sound_def [of b] episode_ok_def)
    apply (intro put)
    apply (simp_all add: state_facts)
    done
qed

lemma first_compute_sound:
  assumes "sound b l"
  shows "ends (emit_first_compute (logged R) rid epoch t kind b (h, l)) (\<lambda>_ b' g. sound b' (snd g))"
proof (cases "map_of (bg_identities b) rid")
  case None
  then show ?thesis using assms by (simp add: emit_first_compute_def)
next
  case (Some i)
  have ok: "causal l" "tracked b l"
    "map_of (bg_episodes b) (rid, epoch) = Some ep \<Longrightarrow> episode_ok (ri_trace_id i) l ep"
    "map_of (bg_states b) rid = Some st \<Longrightarrow> rs_identity st = i \<and> state_ok l st" for ep st
    using assms Some tracked_episode [of b l rid epoch ep i] tracked_state [of b l rid st]
    by (auto simp: sound_def)
  have put: "sound (let b1 = put_episode rid epoch ep b in
       case map_of (bg_states b1) rid of None \<Rightarrow> b1 | Some st \<Rightarrow> put_state rid (f st) b1) l'"
    if "causal l'" "tracked b l'" "episode_ok (ri_trace_id i) l' ep"
       "\<And>st. map_of (bg_states b) rid = Some st \<Longrightarrow> rs_identity (f st) = rs_identity st \<and> state_ok l' (f st)"
    for l' ep f
    using that put_episode_sound [OF that(1,2) Some that(3), of epoch]
    by (auto simp: sound_def put_episode_def Let_def intro!: tracked_put_state split: option.splits)
  show ?thesis
    using assms Some ok
    apply (simp add: emit_first_compute_def case_prod_unfold del: wp_and_then split del: if_split
      split: option.splits)
    apply (intro allI impI ends_if)
     apply (simp add: sound_def)
    apply (simp only: ends_commit)
    apply (intro wp_intros)
    apply (simp_all add: sound_def [of b] episode_ok_def split del: if_split)
    apply (intro put)
    apply (auto simp add: state_facts)
    done
qed

lemma wp_two_edges:
  "(\<And>h'. wp (F (h', Edge_entry d' # Edge_entry d # l)) Q N) \<Longrightarrow> (\<And>h'. N (h', l)) \<Longrightarrow>
   (\<And>h'. N (h', Edge_entry d # l)) \<Longrightarrow> (\<And>h'. N (h', Edge_entry d' # l)) \<Longrightarrow>
   wp (case rc_edge (logged R) d (h, l) of (first, h1) \<Rightarrow> case rc_edge (logged R) d' h1 of (second, h2) \<Rightarrow>
      if first \<noteq> None \<and> second \<noteq> None then F h2 else (Inr None, h2)) Q N"
  by (auto simp: logged_def Let_def split: prod.splits option.splits)

lemma finish_generation_sound:
  assumes "causal l" "tracked b l" "state_ok l st"
  shows "wp (finish_generation (logged R) st cause t n (h, l))
    (\<lambda>_ g. causal (snd g) \<and> tracked b (snd g)) (\<lambda>g. causal (snd g) \<and> tracked b (snd g))"
  using assms
  unfolding finish_generation_def Let_def
  apply (simp del: wp_and_then not_None_eq split del: if_split split: option.splits)
  apply (intro allI impI wp_if wp_two_edges wp_intros)
  apply (simp_all add: state_facts)
  done

lemma finish_abnormally_sound:
  assumes "causal l" "tracked b l" "state_ok l st"
  shows "wp (finish_abnormally (logged R) st name cause t (h, l))
    (\<lambda>_ g. causal (snd g) \<and> tracked b (snd g)) (\<lambda>g. causal (snd g) \<and> tracked b (snd g))"
  using assms
  apply (simp only: finish_abnormally_def Let_def)
  apply (intro allI impI wp_intros)
  apply (simp_all add: state_facts split: option.splits list.splits)
  done

lemma preempted_sound:
  assumes "sound b l"
  shows "ends (emit_runtime_preempted (logged R) rid epoch t b (h, l)) (\<lambda>_ b' g. sound b' (snd g))"
proof (cases "map_of (bg_states b) rid")
  case None
  then show ?thesis using assms by (simp add: emit_runtime_preempted_def)
next
  case (Some st)
  show ?thesis
  proof (cases "rs_active_started st = None \<or> rs_active_span_id st = None")
    case True
    then show ?thesis using Some assms by (auto simp: emit_runtime_preempted_def split: option.splits)
  next
    case False
    then obtain active span where a: "rs_active_started st = Some active" "rs_active_span_id st = Some span"
      by auto
    have "seen (ri_trace_id i) (br_event_id active) l \<and> span_open (ri_trace_id i) span l"
      if "map_of (bg_identities b) rid = Some i" for i
      using tracked_state [of b l rid st] assms Some a that by (auto simp: sound_def state_facts)
    from ends_elim [OF preempted_and_requeued_sound [OF assms this]]
    obtain r b1 h1 l1 where p: "emit_preempted_and_requeued (logged R) rid epoch t (br_event_id active) span
        (rs_prompt_tokens_computed st) (max 1 (rs_prefill_chunk_count st)) b (h, l) = (Inr r, b1, h1, l1)"
      and s: "sound b1 l1" by (metis snd_conv surj_pair)
    have "sound (put_state rid (st'\<lparr>rs_queue_started := ep_requeued ep, rs_queue_span_id := ep_queue_span_id ep,
        rs_active_started := None, rs_active_span_id := None, rs_active_compute_kind := None,
        rs_preemption_epoch := epoch, rs_prompt_tokens_computed := 0, rs_prefill_chunk_count := 0\<rparr>) b1) l1"
      if "map_of (bg_states b1) rid = Some st'" "map_of (bg_episodes b1) (rid, epoch) = Some ep" for st' ep
      using s that tracked_state [OF _ that(1), of l1] tracked_episode [OF _ that(2), of l1]
      by (intro put_state_sound [OF _ _ that(1)]) (auto simp: sound_def state_facts)
    then show ?thesis
      using Some a p s by (auto simp: emit_runtime_preempted_def ends_def Let_def split: option.splits)
  qed
qed

lemma runtime_resumed_sound:
  assumes "sound b l"
  shows "ends (emit_runtime_resumed (logged R) rid epoch t total_tokens cached0 b (h, l)) (\<lambda>_ b' g. sound b' (snd g))"
proof -
  let ?c = "min (max 0 cached0) (total_tokens - 1)"
  from ends_elim [OF resumed_sound [OF assms, of rid epoch t total_tokens ?c "total_tokens - ?c" h]]
  obtain r b1 h1 l1 where p: "emit_resumed (logged R) rid epoch t total_tokens ?c (total_tokens - ?c) b (h, l) =
      (Inr r, b1, h1, l1)" and s: "sound b1 l1" by (metis snd_conv surj_pair)
  have "sound (put_state rid (st\<lparr>rs_prompt_tokens_computed := ?c\<rparr>) b1) l1"
    if "map_of (bg_states b1) rid = Some st" for st
    using s tracked_state [OF _ that, of l1]
    by (intro put_state_sound [OF _ _ that]) (auto simp: sound_def state_facts)
  then show ?thesis
    using p s assms by (auto simp: emit_runtime_resumed_def ends_def Let_def split: option.splits)
qed

lemma terminal_sound:
  assumes "sound b l"
  shows "ends (emit_runtime_terminal (logged R) rid cause t n b (h, l)) (\<lambda>_ b' g. sound b' (snd g))"
proof (cases "map_of (bg_states b) rid")
  case None
  then show ?thesis using assms by (auto simp: emit_runtime_terminal_def split: option.splits)
next
  case (Some st)
  have ok: "causal l" "tracked b l" "state_ok l st"
    using assms Some tracked_state [of b l rid st] by (auto simp: sound_def)
  have retire: "ends (case p of (r, h1) \<Rightarrow> case r of Inl e \<Rightarrow> (Inl e, b, h1) | Inr _ \<Rightarrow> (r, request_terminal rid b, h1))
      (\<lambda>_ b' g. sound b' (snd g))"
    if "wp p (\<lambda>_ g. causal (snd g) \<and> tracked b (snd g)) (\<lambda>g. causal (snd g) \<and> tracked b (snd g))" for p
    using that by (auto simp: wp_def sound_def tracked_terminal split: sum.splits option.splits prod.splits)
  show ?thesis
    using assms Some retire [OF finish_generation_sound [OF ok]] retire [OF finish_abnormally_sound [OF ok]]
    by (auto simp: emit_runtime_terminal_def Let_def split: option.splits)
qed

lemma ends_void: "ends p (\<lambda>_ b' g. P b' g) \<Longrightarrow> ends (void p) (\<lambda>_ b' g. P b' g)"
  by (auto simp: ends_def void_def split: sum.splits prod.splits)

lemma run_call_sound:
  assumes "sound b l" "ascii_run c"
  shows "ends (run_call (logged R) c b (h, l)) (\<lambda>_ b' g. sound b' (snd g))"
  using assms
  by (cases c) (auto intro!: ends_void register_sound scheduled_sound preempted_sound admission_sound
      runtime_resumed_sound first_compute_sound terminal_sound)

lemma run_calls_sound:
  assumes "list_all ascii_run cs" "sound b l" "run_calls (logged R) cs b (h, l) = (rs, b', h', l')"
  shows "sound b' l' \<and> list_all (\<lambda>r. \<exists>x. r = Inr x) rs"
  using assms
proof (induction cs arbitrary: b h l rs)
  case (Cons c cs)
  from Cons.prems have "ends (run_call (logged R) c b (h, l)) (\<lambda>_ b' g. sound b' (snd g))"
    by (intro run_call_sound) auto
  from ends_elim [OF this] obtain r b1 h1 l1 where "run_call (logged R) c b (h, l) = (Inr r, b1, h1, l1)"
    "sound b1 l1" by (metis snd_conv surj_pair)
  then show ?case using Cons.prems Cons.IH [of b1 l1 h1] by (auto split: prod.splits)
qed simp

end

end
