(* ===== verification/Bridge_Properties.thy ===== *)
theory Bridge_Properties
  imports Bridge_Ops
begin

text \<open>
  The facade as the recorder of the bridge, and the properties of the bridge: what it emits is
  causal, what it keeps is bounded, and a request leaves nothing behind.
\<close>

section \<open>The facade keeps the contract\<close>

lemma write_base_ref:
  "write_base rt b line ck s = (Some ref, s') \<Longrightarrow> \<exists>t raw seq. line seq t = Inr (raw, ref)"
  by (auto simp: write_base_def Let_def split: if_splits option.splits sum.splits prod.splits)

lemma emitted_event:
  assumes "emit_event d h = (Some ref, h')" "ed_timestamp_ns d = Some t"
  shows "id_pattern (CHR ''e'') (rr_record_id ref) \<and> 0 \<le> t \<and> t \<le> UINT64_MAX"
proof -
  obtain s ck s' where "write_event d ck s = (Some ref, s')"
    using assms(1) by (auto simp: emit_event_def with_sink_def Let_def split: any_sink.splits prod.splits)
  then obtain u raw seq where "event_line d s seq u = Inr (raw, ref)"
    using write_base_ref by (fastforce simp: write_event_def)
  then obtain r where b: "build_event_record d (s_uuid s) (s_clock_domain s) seq u (s_mode s) = Inr (r, ref)"
    by (auto simp: event_line_def split: sum.splits prod.splits)
  note b = built_event [OF b]
  show ?thesis
    using b(1,3,4,7) accepted_draft(2,3) [OF b(5)] assms(2)
    by (simp add: id_pattern_id_of UINT64_MAX_def draft_timestamp_def)
qed

interpretation facade: recorder_contract hooks_recorder
  by unfold_locales (simp add: hooks_recorder_def emitted_event)

section \<open>What the bridge keeps\<close>

definition phases :: "episode \<Rightarrow> bool" where
  "phases ep \<longleftrightarrow> (ep_admission_started ep \<noteq> None) = (ep_admission_span_id ep \<noteq> None) \<and>
     (ep_resumed ep \<noteq> None \<longrightarrow> ep_admission_started ep \<noteq> None) \<and>
     (ep_first_compute ep \<noteq> None \<longrightarrow> ep_resumed ep \<noteq> None)"

text \<open>Distinct keys, within the capacity, each runtime state identified, each episode in phase.\<close>

definition bounded :: "nat \<Rightarrow> bridge \<Rightarrow> bool" where
  "bounded cap b \<longleftrightarrow> bg_capacity b = cap \<and>
     distinct (map fst (bg_identities b)) \<and> distinct (map fst (bg_states b)) \<and>
     distinct (map fst (bg_episodes b)) \<and>
     set (map fst (bg_states b)) \<subseteq> set (map fst (bg_identities b)) \<and>
     length (map fst (bg_identities b)) \<le> bg_capacity b \<and> length (map fst (bg_episodes b)) \<le> bg_capacity b \<and>
     (\<forall>k ep. map_of (bg_episodes b) k = Some ep \<longrightarrow> phases ep)"

lemma map_of_keys: "map_of al k = Some v \<Longrightarrow> k \<in> fst ` set al"
  by (metis domI dom_map_of_conv_image_fst)

lemma map_of_fresh: "map_of al k = None \<Longrightarrow> k \<notin> fst ` set al"
  by (simp add: map_of_eq_None_iff)

lemma length_update: "length (AList.update k v al) = (if k \<in> fst ` set al then length al else Suc (length al))"
  using arg_cong [OF update_keys [of k v al], of length] by (simp split: if_splits)

lemma in_keys: "(k, v) \<in> set al \<Longrightarrow> k \<in> fst ` set al"
  by force

lemmas update_facts = update_keys update_conv' length_update dom_update

lemma bounded_put_state:
  "bounded cap b \<Longrightarrow> map_of (bg_states b) rid = Some st \<Longrightarrow> bounded cap (put_state rid st' b)"
  by (auto simp: bounded_def put_state_def update_facts dest: map_of_keys in_keys)

lemma bounded_put_episode:
  assumes "bounded cap b" "phases ep"
    and "map_of (bg_episodes b) (rid, e) = None \<Longrightarrow> length (bg_episodes b) < bg_capacity b"
  shows "bounded cap (put_episode rid e ep b)"
  using assms
  by (cases "map_of (bg_episodes b) (rid, e)")
     (auto simp: bounded_def put_episode_def update_facts dest: map_of_keys map_of_fresh in_keys)

lemma bounded_register:
  assumes "bounded cap b" "length (bg_identities b) < bg_capacity b"
  shows "bounded cap (b\<lparr>bg_identities := AList.update rid i (bg_identities b),
     bg_states := AList.update rid st (bg_states b)\<rparr>)"
  using assms by (auto simp: bounded_def update_facts)

lemma bounded_terminal:
  assumes "bounded cap b"
  shows "bounded cap (request_terminal rid b)"
proof -
  have "length (AList.delete rid (bg_identities b)) \<le> bg_capacity b"
    using assms length_delete_le [of rid "bg_identities b"] by (auto simp: bounded_def intro: le_trans)
  moreover have "length (filter (\<lambda>kv. fst (fst kv) \<noteq> rid) (bg_episodes b)) \<le> bg_capacity b"
    using assms le_trans [OF length_filter_le] by (auto simp: bounded_def)
  moreover have "distinct (map fst (filter (\<lambda>kv. fst (fst kv) \<noteq> rid) (bg_episodes b)))"
    using assms by (simp add: bounded_def distinct_map_filter)
  ultimately show ?thesis
    using assms
    by (auto simp: bounded_def request_terminal_def delete_keys map_of_other_requests distinct_removeAll
        split: if_splits intro: le_trans [OF length_removeAll_less_eq])
qed

lemma commit_bounded:
  "commit p b f = (r, b', h') \<Longrightarrow> bounded cap b \<Longrightarrow> (\<And>a. bounded cap (snd (f a))) \<Longrightarrow> bounded cap b'"
  by (auto simp: commit_def Let_def split: sum.splits option.splits prod.splits) (metis snd_conv)+

lemma commit_refused: "commit p b f = (Inr None, b', h') \<Longrightarrow> b' = b"
  by (auto simp: commit_def Let_def split: sum.splits option.splits prod.splits)

lemma commit_raised: "commit p b f = (Inl e, b', h') \<Longrightarrow> b' = b"
  by (auto simp: commit_def Let_def split: sum.splits option.splits prod.splits)

lemmas commit_facts = commit_refused commit_raised

lemma episode_phases: "bounded cap b \<Longrightarrow> map_of (bg_episodes b) k = Some ep \<Longrightarrow> phases ep"
  by (cases k) (simp add: bounded_def)

lemma phases_admission:
  "phases ep \<Longrightarrow> phases (ep\<lparr>ep_admission_started := Some r, ep_admission_span_id := Some s\<rparr>)"
  by (auto simp: phases_def)

lemma phases_resumed: "phases ep \<Longrightarrow> ep_admission_started ep \<noteq> None \<Longrightarrow> phases (ep\<lparr>ep_resumed := Some r\<rparr>)"
  by (auto simp: phases_def)

lemma phases_first: "phases ep \<Longrightarrow> ep_resumed ep \<noteq> None \<Longrightarrow> phases (ep\<lparr>ep_first_compute := Some r\<rparr>)"
  by (auto simp: phases_def)

lemma phases_new:
  "phases \<lparr>ep_preempted = p, ep_requeued = q, ep_queue_span_id = s, ep_admission_started = None,
     ep_admission_span_id = None, ep_resumed = None, ep_first_compute = None\<rparr>"
  by (simp add: phases_def)

lemma register_bounded:
  "register_runtime_request R run rid t b h = (r, b', h') \<Longrightarrow> bounded cap b \<Longrightarrow> bounded cap b'"
  by (auto simp: register_runtime_request_def case_prod_unfold intro!: bounded_register elim!: commit_bounded
      split: if_splits sum.splits option.splits)

lemma scheduled_bounded:
  "emit_runtime_scheduled R rid t kind n total_tokens cached b h = (r, b', h') \<Longrightarrow> bounded cap b \<Longrightarrow> bounded cap b'"
  by (auto simp: emit_runtime_scheduled_def Let_def case_prod_unfold intro!: bounded_put_state
      elim!: commit_bounded split: if_splits option.splits)

lemma preempted_and_requeued_bounded:
  "emit_preempted_and_requeued R rid e t a s n c b h = (r, b', h') \<Longrightarrow> bounded cap b \<Longrightarrow> bounded cap b'"
  by (auto simp: emit_preempted_and_requeued_def case_prod_unfold intro!: bounded_put_episode phases_new
      elim!: commit_bounded split: if_splits option.splits)

lemma preempted_bounded:
  "emit_runtime_preempted R rid e t b h = (r, b', h') \<Longrightarrow> bounded cap b \<Longrightarrow> bounded cap b'"
  by (auto simp: emit_runtime_preempted_def intro!: bounded_put_state
      dest: preempted_and_requeued_bounded split: option.splits sum.splits prod.splits)

lemma admission_bounded:
  "emit_admission_started R rid e t b h = (r, b', h') \<Longrightarrow> bounded cap b \<Longrightarrow> bounded cap b'"
  by (auto simp: emit_admission_started_def case_prod_unfold intro!: bounded_put_episode phases_admission
      intro: episode_phases elim!: commit_bounded split: if_splits option.splits)

lemma resumed_bounded:
  "emit_resumed R rid e t total_tokens cached m b h = (r, b', h') \<Longrightarrow> bounded cap b \<Longrightarrow> bounded cap b'"
  by (auto simp: emit_resumed_def intro!: bounded_put_episode phases_resumed
      intro: episode_phases elim!: commit_bounded split: if_splits option.splits)

lemma runtime_resumed_bounded:
  "emit_runtime_resumed R rid e t total_tokens cached b h = (r, b', h') \<Longrightarrow> bounded cap b \<Longrightarrow> bounded cap b'"
  by (auto simp: emit_runtime_resumed_def Let_def intro!: bounded_put_state
      dest: resumed_bounded split: option.splits sum.splits prod.splits if_splits)

lemma bounded_first_compute:
  assumes "bounded cap b" "map_of (bg_episodes b) (rid, e) = Some ep" "ep_resumed ep \<noteq> None"
  shows "bounded cap (let b1 = put_episode rid e (ep\<lparr>ep_first_compute := Some r\<rparr>) b
    in case map_of (bg_states b1) rid of None \<Rightarrow> b1 | Some st \<Rightarrow> put_state rid (f st) b1)"
proof -
  have "bounded cap (put_episode rid e (ep\<lparr>ep_first_compute := Some r\<rparr>) b)"
    using assms by (intro bounded_put_episode phases_first) (auto dest: episode_phases)
  then show ?thesis by (auto simp: Let_def split: option.splits intro: bounded_put_state)
qed

lemma first_compute_bounded:
  "emit_first_compute R rid e t kind b h = (r, b', h') \<Longrightarrow> bounded cap b \<Longrightarrow> bounded cap b'"
  by (auto simp: emit_first_compute_def case_prod_unfold intro!: bounded_first_compute
      elim!: commit_bounded split del: if_split split: if_splits(2) option.splits)

lemma terminal_bounded:
  "emit_runtime_terminal R rid cause t n b h = (r, b', h') \<Longrightarrow> bounded cap b \<Longrightarrow> bounded cap b'"
  by (auto simp: emit_runtime_terminal_def Let_def bounded_terminal
      split: option.splits sum.splits prod.splits if_splits)

lemma void_elim: "void p = (r, b, h) \<Longrightarrow> \<exists>r'. p = (r', b, h) \<and> (\<forall>x. r' = Inr (Some x) \<longrightarrow> r = Inr (Some ()))"
  by (cases p) (auto simp: void_def split: sum.splits)

lemma run_call_bounded:
  "run_call R c b h = (r, b', h') \<Longrightarrow> bounded cap b \<Longrightarrow> bounded cap b'"
  by (cases c) (auto elim: register_bounded scheduled_bounded preempted_bounded
      admission_bounded runtime_resumed_bounded first_compute_bounded terminal_bounded
      dest!: void_elim)

lemma run_calls_bounded:
  "run_calls R cs b h = (rs, b', h') \<Longrightarrow> bounded cap b \<Longrightarrow> bounded cap b'"
  by (induction cs arbitrary: b h rs) (auto split: prod.splits dest: run_call_bounded)

lemma make_bridge_bounded: "make_bridge n = Inr b \<Longrightarrow> bounded (nat n) b \<and> 1 \<le> n \<and> sound b []"
  by (auto simp: make_bridge_def bounded_def sound_def tracked_def split: if_splits)

lemma length_states:
  assumes "bounded cap b"
  shows "length (bg_states b) \<le> length (bg_identities b)"
proof -
  have "card (set (map fst (bg_states b))) \<le> card (set (map fst (bg_identities b)))"
    using assms by (intro card_mono) (auto simp: bounded_def)
  then show ?thesis
    using assms distinct_card [of "map fst (bg_states b)"] distinct_card [of "map fst (bg_identities b)"]
    by (simp add: bounded_def)
qed

section \<open>Sample calls\<close>

definition sample_identity :: request_identity where
  "sample_identity = \<lparr>ri_trace_id = sample_hex CHR ''d'', ri_engine_lifecycle_id = sample_hex CHR ''d'' @ '':e:0'',
     ri_runtime_request_id = ''r1'', ri_sample_index = 0\<rparr>"

definition sample_ref :: "int \<Rightarrow> base_ref" where
  "sample_ref n = \<lparr>br_event_id = id_of (sample_hex CHR ''a'') CHR ''e'' n, br_timestamp_ns = 5\<rparr>"

text \<open>A preempted request, waiting to be admitted again.\<close>

definition sample_bridge :: bridge where
  "sample_bridge = \<lparr>bg_capacity = 2, bg_identities = [(''r1'', sample_identity)],
     bg_episodes = [((''r1'', 1), \<lparr>ep_preempted = sample_ref 3, ep_requeued = sample_ref 4,
        ep_queue_span_id = ''span'', ep_admission_started = None, ep_admission_span_id = None,
        ep_resumed = None, ep_first_compute = None\<rparr>)],
     bg_states = [(''r1'', \<lparr>rs_identity = sample_identity, rs_queue_started = sample_ref 4,
        rs_queue_span_id = ''span'', rs_active_started = None, rs_active_span_id = None,
        rs_active_compute_kind = None, rs_preemption_epoch = 1, rs_prompt_tokens_computed = 0,
        rs_prefill_chunk_count = 0\<rparr>)]\<rparr>"

text \<open>The facade over an exporter that has just started.\<close>

definition sample_hooks :: hooks where
  "sample_hooks = \<lparr>hk_config = config_from_env (\<lambda>_. None), hk_sink = Jsonl (fst (opened [])), hk_pending = [],
     hk_logged = [], hk_reinit = False, hk_clocks = (\<lambda>_. \<lparr>ck_clock = Some (PInt 5), ck_monotonic = 5\<rparr>), hk_tick = 0\<rparr>"

text \<open>A recorder that takes everything and numbers its records.\<close>

definition counting :: "int recorder" where
  "counting = \<lparr>rc_span = (\<lambda>n. (Some (id_of (sample_hex CHR ''a'') CHR ''s'' n), n + 1)),
     rc_event = (\<lambda>_ n. (Some \<lparr>rr_record_id = id_of (sample_hex CHR ''a'') CHR ''e'' n, rr_record_seq = n\<rparr>, n + 1)),
     rc_edge = (\<lambda>_ n. (Some \<lparr>rr_record_id = id_of (sample_hex CHR ''a'') CHR ''g'' n, rr_record_seq = n\<rparr>, n + 1))\<rparr>"

text \<open>A recorder that takes nothing.\<close>

definition refusing :: "unit recorder" where
  "refusing = \<lparr>rc_span = (\<lambda>h. (None, h)), rc_event = (\<lambda>_ h. (None, h)), rc_edge = (\<lambda>_ h. (None, h))\<rparr>"

section \<open>Refused calls\<close>

definition refused :: "'a option res \<Rightarrow> bool" where
  "refused r \<longleftrightarrow> (\<forall>x. r \<noteq> Inr (Some x))"

lemma refused_simps [simp]: "refused (Inl e)" "refused (Inr None)" "\<not> refused (Inr (Some x))"
  by (auto simp: refused_def)

lemma commit_failed: "commit p b f = (r, b', h') \<Longrightarrow> refused r \<Longrightarrow> b' = b"
  by (auto simp: commit_def Let_def split: sum.splits option.splits prod.splits)

lemma refused_register:
  "register_runtime_request R run rid t b h = (r, b', h') \<Longrightarrow> refused r \<Longrightarrow> b' = b"
  by (auto simp: register_runtime_request_def elim: commit_failed split: if_splits sum.splits option.splits)

lemma refused_scheduled:
  "emit_runtime_scheduled R rid t kind n total_tokens cached b h = (r, b', h') \<Longrightarrow>
     refused r \<Longrightarrow> b' = b"
  by (auto simp: emit_runtime_scheduled_def Let_def elim: commit_failed split: if_splits option.splits)

lemma refused_preempted_and_requeued:
  "emit_preempted_and_requeued R rid e t a s n k b h = (r, b', h') \<Longrightarrow>
     refused r \<Longrightarrow> b' = b"
  by (auto simp: emit_preempted_and_requeued_def elim: commit_failed split: if_splits option.splits)

lemma refused_preempted:
  "emit_runtime_preempted R rid e t b h = (r, b', h') \<Longrightarrow> refused r \<Longrightarrow> b' = b"
  by (auto simp: emit_runtime_preempted_def dest: refused_preempted_and_requeued
      split: option.splits sum.splits prod.splits)

lemma refused_admission:
  "emit_admission_started R rid e t b h = (r, b', h') \<Longrightarrow> refused r \<Longrightarrow> b' = b"
  by (auto simp: emit_admission_started_def elim: commit_failed split: if_splits option.splits)

lemma refused_emit_resumed:
  "emit_resumed R rid e t total_tokens cached m b h = (r, b', h') \<Longrightarrow> refused r \<Longrightarrow> b' = b"
  by (auto simp: emit_resumed_def elim: commit_failed split: if_splits option.splits)

lemma refused_resumed:
  "emit_runtime_resumed R rid e t total_tokens cached b h = (r, b', h') \<Longrightarrow>
     refused r \<Longrightarrow> b' = b"
  by (auto simp: emit_runtime_resumed_def Let_def dest: refused_emit_resumed
      split: option.splits sum.splits prod.splits if_splits)

lemma refused_compute:
  "emit_first_compute R rid e t kind b h = (r, b', h') \<Longrightarrow> refused r \<Longrightarrow> b' = b"
  by (auto simp: emit_first_compute_def elim: commit_failed split: if_splits option.splits)

lemma refused_terminal:
  assumes "emit_runtime_terminal R rid cause t n b h = (r, b', h')"
  shows "b' = (if (\<exists>x. r = Inr x) \<and> cause \<in> fst ` set TERMINAL_CAUSES \<and> 0 \<le> t \<and> t \<le> UINT64_MAX \<and>
    map_of (bg_states b) rid \<noteq> None then request_terminal rid b else b)"
proof (cases "map_of TERMINAL_CAUSES cause")
  case None
  then have "cause \<notin> fst ` set TERMINAL_CAUSES" by (rule map_of_fresh)
  with None show ?thesis using assms by (simp add: emit_runtime_terminal_def)
next
  case (Some name)
  then have "cause \<in> fst ` set TERMINAL_CAUSES" by (rule map_of_keys)
  with Some assms show ?thesis
    by (auto simp: emit_runtime_terminal_def Let_def split: prod.splits sum.splits option.splits if_splits)
qed

section \<open>The properties\<close>

text \<open>
  C4. What the bridge emits is causal. From an empty bridge, whatever sequence of calls the
  adapters make on the facade, and whichever of its emissions the facade refuses on the way, no call
  raises, every edge in the log is a program-order edge between two events of its trace that were
  recorded before it and in that order, and every span an event ends or closes was opened before, in
  its trace.
\<close>
theorem bridge_emissions_are_causal:
  assumes "make_bridge n = Inr b" "list_all ascii_run cs"
    and "run_calls (logged hooks_recorder) cs b (h, []) = (rs, b', h', l)"
  shows "causal l \<and> list_all (\<lambda>r. \<exists>x. r = Inr x) rs"
  using facade.run_calls_sound [OF assms(2) _ assms(3)] make_bridge_bounded [OF assms(1)]
  by (simp add: sound_def)

text \<open>
  C21. What the bridge keeps is bounded. After any calls on any recorder, its tables have distinct
  keys and at most the capacity of the constructor, a request with a runtime state has an identity,
  and an episode has a first compute only if it resumed, and resumed only if it was admitted.
\<close>
theorem bridge_state_is_bounded:
  assumes "make_bridge n = Inr b" "run_calls R cs b h = (rs, b', h')"
  shows "distinct (map fst (bg_identities b')) \<and> int (length (bg_identities b')) \<le> n \<and>
    distinct (map fst (bg_states b')) \<and> length (bg_states b') \<le> length (bg_identities b') \<and>
    distinct (map fst (bg_episodes b')) \<and> int (length (bg_episodes b')) \<le> n \<and>
    (first_compute_event rid e b' \<noteq> None \<longrightarrow> resumed_event rid e b' \<noteq> None) \<and>
    (resumed_event rid e b' \<noteq> None \<longrightarrow> admission_started_event rid e b' \<noteq> None) \<and>
    (admission_started_event rid e b' \<noteq> None \<longrightarrow> preempted_event rid e b' \<noteq> None)"
proof -
  have b: "bounded (nat n) b'" "1 \<le> n"
    using make_bridge_bounded [OF assms(1)] run_calls_bounded [OF assms(2)] by auto
  have "(first_compute_event rid e b' \<noteq> None \<longrightarrow> resumed_event rid e b' \<noteq> None) \<and>
    (resumed_event rid e b' \<noteq> None \<longrightarrow> admission_started_event rid e b' \<noteq> None) \<and>
    (admission_started_event rid e b' \<noteq> None \<longrightarrow> preempted_event rid e b' \<noteq> None)"
  proof (cases "map_of (bg_episodes b') (rid, e)")
    case None
    then show ?thesis
      by (simp add: first_compute_event_def resumed_event_def admission_started_event_def)
  next
    case (Some ep)
    then show ?thesis
      using episode_phases [OF b(1) Some]
      by (auto simp: phases_def first_compute_event_def resumed_event_def admission_started_event_def
          preempted_event_def)
  qed
  moreover have "int (length (bg_identities b')) \<le> n" "int (length (bg_episodes b')) \<le> n"
    using b by (auto simp: bounded_def le_nat_iff)
  ultimately show ?thesis using b(1) length_states [OF b(1)] by (simp add: bounded_def)
qed

text \<open>
  C32. A call that does not succeed changes nothing, except that a terminal retires its request. When
  the bridge refuses a call, when the hooks refuse one of its emissions or when an error leaves it, the
  state of the bridge is the one before the call. The one exception is a terminal with a known cause, a
  valid timestamp and a request it knows: unless an error leaves it, it retires the request although
  the hooks did not take its events.
\<close>
theorem refused_call_keeps_the_bridge:
  assumes "run_call R c b h = (r, b', h')" "r \<noteq> Inr (Some ())"
  shows "b' = (case c of
    Terminal rid cause t n \<Rightarrow>
      if r = Inr None \<and> cause \<in> fst ` set TERMINAL_CAUSES \<and> 0 \<le> t \<and> t \<le> UINT64_MAX \<and>
         map_of (bg_states b) rid \<noteq> None then request_terminal rid b else b
    | _ \<Rightarrow> b)"
proof -
  have r: "refused r" using assms(2) by (auto simp: refused_def)
  have v: "\<exists>r'. p = (r', b', h') \<and> refused r'" if "void p = (r, b', h')" for p :: "'c option res \<times> bridge \<times> 'a"
    using that r by (cases p) (auto simp: void_def refused_def split: sum.splits option.splits)
  show ?thesis
  proof (cases c)
    case (Register run rid t)
    then show ?thesis using assms(1) r by (auto dest: refused_register)
  next
    case (Scheduled rid t kind n total_tokens cached)
    then show ?thesis using assms(1) r by (auto dest: refused_scheduled)
  next
    case (Terminal rid cause t n)
    then obtain r' where e: "emit_runtime_terminal R rid cause t n b h = (r', b', h')"
      and r': "r = (case r' of Inl e \<Rightarrow> Inl e | Inr x \<Rightarrow> Inr (map_option (\<lambda>_. ()) x))"
      using assms(1) by (cases "emit_runtime_terminal R rid cause t n b h") (auto simp: void_def)
    then show ?thesis using refused_terminal [OF e] assms(2) Terminal
      by (auto split: sum.splits)
  qed (use assms(1) in \<open>auto dest!: v dest: refused_preempted refused_admission refused_resumed refused_compute\<close>)
qed

lemma refused_call_keeps_the_bridge_witness:
  "snd (run_call counting (Compute ''r1'' 1 7 ''prefill'') sample_bridge 0) = (sample_bridge, 0) \<and>
   run_call refusing (Terminal ''r1'' ''error'' 7 0) sample_bridge () = (Inr None, request_terminal ''r1'' sample_bridge, ())"
proof
  show "snd (run_call counting (Compute ''r1'' 1 7 ''prefill'') sample_bridge 0) = (sample_bridge, 0)"
    using refused_call_keeps_the_bridge [of counting "Compute ''r1'' 1 7 ''prefill''" sample_bridge 0
        "Inr None" "fst (snd (run_call counting (Compute ''r1'' 1 7 ''prefill'') sample_bridge 0))" 0]
    by (simp add: emit_first_compute_def sample_bridge_def void_def)
  have "fst (run_call refusing (Terminal ''r1'' ''error'' 7 0) sample_bridge ()) = Inr None" by code_simp
  then obtain b where e: "run_call refusing (Terminal ''r1'' ''error'' 7 0) sample_bridge () = (Inr None, b, ())"
    by (cases "run_call refusing (Terminal ''r1'' ''error'' 7 0) sample_bridge ()") auto
  have "b = request_terminal ''r1'' sample_bridge"
    using refused_call_keeps_the_bridge [OF e]
    by (simp add: TERMINAL_CAUSES_def UINT64_MAX_def sample_bridge_def)
  with e show "run_call refusing (Terminal ''r1'' ''error'' 7 0) sample_bridge () =
      (Inr None, request_terminal ''r1'' sample_bridge, ())" by simp
qed

lemma bridge_state_is_bounded_witness:
  "\<exists>b rs b' h'. make_bridge 1 = Inr b \<and>
     run_calls counting [Register (sample_hex CHR ''c'') ''r1'' 5, Register (sample_hex CHR ''c'') ''r2'' 5] b 0 =
       (rs, b', h') \<and> length (bg_identities b') \<le> 1"
proof -
  obtain b where b: "make_bridge 1 = Inr b" by (simp add: make_bridge_def)
  obtain rs b' h' where r: "run_calls counting [Register (sample_hex CHR ''c'') ''r1'' 5,
      Register (sample_hex CHR ''c'') ''r2'' 5] b 0 = (rs, b', h')" by (metis surj_pair)
  show ?thesis using b r bridge_state_is_bounded [OF b r] by auto
qed

lemma bridge_emissions_are_causal_witness:
  "\<exists>b rs b' h' l. make_bridge 8 = Inr b \<and>
     run_calls (logged hooks_recorder) [Register (sample_hex CHR ''c'') ''r1'' 5, Scheduled ''r1'' 6 ''prefill'' 4 10 0,
       Preempt ''r1'' 1 7, Admission ''r1'' 1 8, Resume ''r1'' 1 9 10 0, Compute ''r1'' 1 10 ''prefill'',
       Terminal ''r1'' ''complete'' 11 1] b (sample_hooks, []) = (rs, b', h', l) \<and> causal l"
proof -
  obtain b where b: "make_bridge 8 = Inr b" by (simp add: make_bridge_def)
  let ?cs = "[Register (sample_hex CHR ''c'') ''r1'' 5, Scheduled ''r1'' 6 ''prefill'' 4 10 0,
       Preempt ''r1'' 1 7, Admission ''r1'' 1 8, Resume ''r1'' 1 9 10 0, Compute ''r1'' 1 10 ''prefill'',
       Terminal ''r1'' ''complete'' 11 1]"
  obtain rs b' h' l where r: "run_calls (logged hooks_recorder) ?cs b (sample_hooks, []) = (rs, b', h', l)"
    by (metis surj_pair)
  have "list_all ascii_run ?cs" by code_simp
  from bridge_emissions_are_causal [OF b this r] b r show ?thesis by blast
qed

lemma terminal_outcome:
  assumes "emit_runtime_terminal R rid cause t n b h = (Inr r, b', h')" "map_of (bg_states b) rid = Some st"
    and "cause \<in> fst ` set TERMINAL_CAUSES" "0 \<le> t" "t \<le> UINT64_MAX"
  shows "b' = request_terminal rid b"
proof -
  obtain name where "map_of TERMINAL_CAUSES cause = Some name"
    using assms(3) by (metis map_of_eq_None_iff not_None_eq)
  then show ?thesis
    using assms(1,2,4,5)
    by (auto simp: emit_runtime_terminal_def Let_def split: prod.splits sum.splits if_splits)
qed

text \<open>
  C31. A terminal retires its request: unless an error left it, the call with a known cause and a
  valid timestamp leaves no identity, no runtime state and no episode of the request, whether or not
  its events were recorded, and everything of the other requests as it was; a second terminal of the
  request is refused without an emission.
\<close>
theorem terminal_retires_the_request:
  assumes "emit_runtime_terminal R rid cause t n b h = (Inr r, b', h')" "map_of (bg_states b) rid = Some st"
    and "cause \<in> fst ` set TERMINAL_CAUSES" "0 \<le> t" "t \<le> UINT64_MAX"
  shows "bridge_identity rid b' = None \<and> map_of (bg_states b') rid = None \<and>
    preempted_event rid e b' = None \<and>
    (other \<noteq> rid \<longrightarrow> bridge_identity other b' = bridge_identity other b \<and>
       map_of (bg_states b') other = map_of (bg_states b) other \<and>
       map_of (bg_episodes b') (other, e) = map_of (bg_episodes b) (other, e)) \<and>
    emit_runtime_terminal R' rid cause' t' n' b' h'' = (Inr None, b', h'')"
  unfolding terminal_outcome [OF assms]
  by (auto simp: request_terminal_def bridge_identity_def preempted_event_def delete_conv'
      map_of_other_requests emit_runtime_terminal_def split: option.splits)

lemma sample_terminal:
  "emit_runtime_terminal counting ''r1'' ''client_timeout'' 9 0 sample_bridge 0 =
     (Inr (Some (sample_ref 0\<lparr>br_timestamp_ns := 9\<rparr>)), request_terminal ''r1'' sample_bridge, 2)"
  by code_simp

lemma terminal_retires_the_request_witness:
  "bridge_identity ''r1'' (request_terminal ''r1'' sample_bridge) = None \<and>
   bridge_identity ''r1'' sample_bridge \<noteq> None"
proof -
  obtain st where "map_of (bg_states sample_bridge) ''r1'' = Some st" by (simp add: sample_bridge_def)
  from terminal_retires_the_request [OF sample_terminal this, of 1 _ counting "''error''" 1 0 0]
  show ?thesis by (simp add: TERMINAL_CAUSES_def UINT64_MAX_def bridge_identity_def sample_bridge_def)
qed

lemma and_then_some:
  "and_then p f = (Inr (Some x), g) \<Longrightarrow> \<exists>a g1. p = (Inr (Some a), g1) \<and> f a g1 = (Inr (Some x), g)"
  by (cases p) (auto simp: and_then_def split: sum.splits option.splits)

lemma commit_some:
  "commit p b f = (Inr (Some x), b', g) \<Longrightarrow> \<exists>a. p = (Inr (Some a), g) \<and> f a = (x, b')"
  by (cases p) (auto simp: commit_def Let_def split: sum.splits option.splits prod.splits)

lemma logged_span: "called (rc_span (logged R) (h, l)) = (r, h', l') \<Longrightarrow> l' = l"
  by (auto simp: called_def logged_def split: prod.splits)

lemma logged_event:
  "called (rc_event (logged R) d (h, l)) = (Inr (Some ref), h', l') \<Longrightarrow> l' = Event_entry d (rr_record_id ref) # l"
  by (auto simp: called_def logged_def split: prod.splits)

lemma logged_edge:
  "called (rc_edge (logged R) d (h, l)) = (Inr (Some ref), h', l') \<Longrightarrow> l' = Edge_entry d # l"
  by (auto simp: called_def logged_def split: prod.splits)

lemma built_some:
  "built (make_base_ref i t) g = (Inr (Some ref), g') \<Longrightarrow> br_event_id ref = i \<and> g' = g"
  by (auto simp: built_def make_base_ref_def accept_simps split: sum.splits)

lemmas success = and_then_some commit_some logged_span logged_event logged_edge built_some

end
