(* ===== verification/Profile_Ledger.thy ===== *)
theory Profile_Ledger
  imports Bridge_Properties
begin

text \<open>
  The producer ledger of profile records (\<open>kv_recovery_runtime.BoundedKVRecoveryProfileLedger\<close>): it
  numbers every attempted record, keeps those that fit, and keeps the others as maximal loss
  intervals. Given hooks, it passes every attempt on to them instead. The specification is a journal
  that says of every attempt what became of it.
\<close>

section \<open>The ledger\<close>

record ledger =
  lg_process_uuid :: string
  lg_capacity :: int
  lg_hooked :: bool
  lg_next_record_seq :: int
  lg_records :: "profile_record list"
  lg_losses :: "profile_loss_interval list"

definition make_ledger :: "string \<Rightarrow> int \<Rightarrow> bool \<Rightarrow> ledger res" where
  "make_ledger process_uuid capacity hooked =
     checked
       (first_error
         [fails (\<not> is_hex 32 process_uuid)
            (ValueError ''process_uuid must be 32 lowercase hexadecimal characters''),
          fails (capacity < 1) (ValueError ''capacity must be a positive integer'')])
       \<lparr>lg_process_uuid = process_uuid, lg_capacity = capacity, lg_hooked = hooked, lg_next_record_seq = 0,
        lg_records = [], lg_losses = []\<rparr>"

definition allocate_locked :: "ledger \<Rightarrow> (int \<times> ledger) res" where
  "allocate_locked lg =
     (if lg_next_record_seq lg > UINT64_MAX then Inl (OverflowError ''profile record sequence exhausted'')
      else Inr (lg_next_record_seq lg, lg\<lparr>lg_next_record_seq := lg_next_record_seq lg + 1\<rparr>))"

definition single_loss :: "profile_type \<Rightarrow> int \<Rightarrow> int \<Rightarrow> string \<Rightarrow> profile_loss_interval" where
  "single_loss t seq timestamp_ns reason =
     \<lparr>pl_reason = reason, pl_first_record_seq = seq, pl_last_record_seq = seq,
      pl_counts = bump (\<lambda>_. 0) t, pl_first_timestamp_ns = timestamp_ns, pl_last_timestamp_ns = timestamp_ns\<rparr>"

definition merge_loss :: "profile_loss_interval \<Rightarrow> profile_type \<Rightarrow> int \<Rightarrow> int \<Rightarrow> profile_loss_interval" where
  "merge_loss previous t seq timestamp_ns =
     previous\<lparr>pl_last_record_seq := seq, pl_counts := bump (pl_counts previous) t,
              pl_last_timestamp_ns := timestamp_ns\<rparr>"

definition drop_locked :: "profile_type \<Rightarrow> int \<Rightarrow> int \<Rightarrow> string \<Rightarrow> ledger \<Rightarrow> ledger" where
  "drop_locked t seq timestamp_ns reason lg =
     (if lg_losses lg \<noteq> [] \<and> pl_reason (last (lg_losses lg)) = reason \<and>
         pl_last_record_seq (last (lg_losses lg)) + 1 = seq
      then lg\<lparr>lg_losses := butlast (lg_losses lg) @ [merge_loss (last (lg_losses lg)) t seq timestamp_ns]\<rparr>
      else lg\<lparr>lg_losses := lg_losses lg @ [single_loss t seq timestamp_ns reason]\<rparr>)"

definition own_write :: "profile_type \<Rightarrow> pyval \<Rightarrow> pydict \<Rightarrow> ledger \<Rightarrow> string option res \<times> ledger" where
  "own_write t timestamp_ns fs lg =
     (case allocate_locked lg of
        Inl e \<Rightarrow> (Inl e, lg)
      | Inr (seq, lg1) \<Rightarrow>
          if \<not> is_uint timestamp_ns UINT64_MAX then (Inr None, drop_locked t seq 0 ''serialization_failure'' lg1)
          else if int (length (lg_records lg1)) \<ge> lg_capacity lg1
            then (Inr None, drop_locked t seq (int_val timestamp_ns) ''queue_overflow'' lg1)
          else (let i = id_of (lg_process_uuid lg1) CHR ''k'' seq
                in (Inr (Some i), lg1\<lparr>lg_records := lg_records lg1 @
                     [\<lparr>po_record_type = t, po_record_seq = seq, po_record_id = i,
                       po_timestamp_ns = int_val timestamp_ns, po_fields = fs\<rparr>]\<rparr>)))"

definition own_drop :: "profile_type \<Rightarrow> pyval \<Rightarrow> string \<Rightarrow> ledger \<Rightarrow> int res \<times> ledger" where
  "own_drop t timestamp_ns reason lg =
     (case allocate_locked lg of
        Inl e \<Rightarrow> (Inl e, lg)
      | Inr (seq, lg1) \<Rightarrow>
          (Inr seq, drop_locked t seq (if is_uint timestamp_ns UINT64_MAX then int_val timestamp_ns else 0)
                      reason lg1))"

text \<open>The public operations, over the ledger and the hooks it may have been given.\<close>

definition ledger_write ::
  "profile_type \<Rightarrow> pyval \<Rightarrow> pydict \<Rightarrow> ledger \<times> hooks \<Rightarrow> string option res \<times> ledger \<times> hooks" where
  "ledger_write t timestamp_ns fs = (\<lambda>(lg, h).
     if lg_hooked lg then
       (let (r, h1) = emit_kv_recovery_profile t timestamp_ns fs h
        in (Inr (map_option pr_record_id r), lg, h1))
     else (let (r, lg1) = own_write t timestamp_ns fs lg in (r, lg1, h)))"

definition ledger_drop ::
  "profile_type \<Rightarrow> pyval \<Rightarrow> string \<Rightarrow> ledger \<times> hooks \<Rightarrow> int res \<times> ledger \<times> hooks" where
  "ledger_drop t timestamp_ns reason = (\<lambda>(lg, h).
     if lg_hooked lg then
       (let (r, h1) = hooks_drop_profile t timestamp_ns reason h
        in (Inr (case r of None \<Rightarrow> -1 | Some seq \<Rightarrow> seq), lg, h1))
     else (let (r, lg1) = own_drop t timestamp_ns reason lg in (r, lg1, h)))"

definition ledger_evidence_complete :: "ledger \<times> hooks \<Rightarrow> bool" where
  "ledger_evidence_complete = (\<lambda>(lg, h).
     if lg_hooked lg then hooks_evidence_complete h else lg_losses lg = [])"

definition ledger_attempted :: "ledger \<times> hooks \<Rightarrow> int" where
  "ledger_attempted = (\<lambda>(lg, h). if lg_hooked lg then hooks_profile_attempted h else lg_next_record_seq lg)"

definition ledger_snapshot :: "ledger \<times> hooks \<Rightarrow> profile_record list \<times> profile_loss_interval list" where
  "ledger_snapshot = (\<lambda>(lg, h).
     if lg_hooked lg then hooks_profile_snapshot h else (lg_records lg, lg_losses lg))"

section \<open>The specification: a journal of outcomes\<close>

datatype attempted = Attempt_write profile_type pyval pydict | Attempt_drop profile_type pyval string

datatype outcome = Kept profile_record | Lost profile_type string int

definition own_attempt :: "attempted \<Rightarrow> ledger \<Rightarrow> ledger" where
  "own_attempt a lg = (case a of Attempt_write t ts fs \<Rightarrow> snd (own_write t ts fs lg)
     | Attempt_drop t ts reason \<Rightarrow> snd (own_drop t ts reason lg))"

definition kept :: "outcome list \<Rightarrow> profile_record list" where
  "kept js = concat (map (\<lambda>j. case j of Kept r \<Rightarrow> [r] | Lost t reason ts \<Rightarrow> []) js)"

text \<open>What becomes of the next attempt: the position in the journal is the sequence number.\<close>

definition outcome :: "string \<Rightarrow> int \<Rightarrow> outcome list \<Rightarrow> attempted \<Rightarrow> outcome" where
  "outcome uuid capacity js a = (case a of
     Attempt_drop t ts reason \<Rightarrow> Lost t reason (if is_uint ts UINT64_MAX then int_val ts else 0)
   | Attempt_write t ts fs \<Rightarrow>
       if \<not> is_uint ts UINT64_MAX then Lost t ''serialization_failure'' 0
       else if int (length (kept js)) \<ge> capacity then Lost t ''queue_overflow'' (int_val ts)
       else Kept \<lparr>po_record_type = t, po_record_seq = int (length js),
                  po_record_id = id_of uuid CHR ''k'' (int (length js)), po_timestamp_ns = int_val ts,
                  po_fields = fs\<rparr>)"

definition journal :: "string \<Rightarrow> int \<Rightarrow> attempted list \<Rightarrow> outcome list" where
  "journal uuid capacity as = foldl (\<lambda>js a. js @ [outcome uuid capacity js a]) [] as"

fun lost_for :: "string \<Rightarrow> outcome \<Rightarrow> bool" where
  "lost_for reason (Kept r) = False"
| "lost_for reason (Lost t reason' ts) = (reason' = reason)"

fun lost_type :: "outcome \<Rightarrow> profile_type option" where
  "lost_type (Kept r) = None"
| "lost_type (Lost t reason ts) = Some t"

fun lost_time :: "outcome \<Rightarrow> int" where
  "lost_time (Kept r) = 0"
| "lost_time (Lost t reason ts) = ts"

text \<open>The interval of a run of losses that starts at \<open>k\<close>, and the maximal runs of a journal.\<close>

definition run_interval :: "int \<Rightarrow> string \<Rightarrow> outcome list \<Rightarrow> profile_loss_interval" where
  "run_interval k reason run =
     \<lparr>pl_reason = reason, pl_first_record_seq = k, pl_last_record_seq = k + int (length run) - 1,
      pl_counts = (\<lambda>t. int (length (filter (\<lambda>j. lost_type j = Some t) run))),
      pl_first_timestamp_ns = lost_time (hd run), pl_last_timestamp_ns = lost_time (last run)\<rparr>"

function loss_runs :: "int \<Rightarrow> outcome list \<Rightarrow> profile_loss_interval list" where
  "loss_runs k [] = []"
| "loss_runs k (Kept r # js) = loss_runs (k + 1) js"
| "loss_runs k (Lost t reason ts # js) =
     (let run = Lost t reason ts # takeWhile (lost_for reason) js
      in run_interval k reason run #
         loss_runs (k + int (length run)) (dropWhile (lost_for reason) js))"
  by pat_completeness auto
termination
  by (relation "measure (\<lambda>(k, js). length js)") (auto simp: le_imp_less_Suc length_dropWhile_le)

section \<open>Refinement\<close>

text \<open>How one more outcome changes the runs.\<close>

definition extend_runs :: "profile_loss_interval list \<Rightarrow> int \<Rightarrow> outcome \<Rightarrow> profile_loss_interval list" where
  "extend_runs ls n j = (case j of Kept r \<Rightarrow> ls
     | Lost t reason ts \<Rightarrow>
         if ls \<noteq> [] \<and> pl_reason (last ls) = reason \<and> pl_last_record_seq (last ls) + 1 = n
         then butlast ls @ [merge_loss (last ls) t n ts] else ls @ [single_loss t n ts reason])"

lemma run_interval_snoc:
  "run \<noteq> [] \<Longrightarrow> run_interval k reason (run @ [Lost t reason ts]) =
     merge_loss (run_interval k reason run) t (k + int (length run)) ts"
  by (auto simp: run_interval_def merge_loss_def bump_def)

lemma extend_runs_Cons:
  "pl_last_record_seq i + 1 \<noteq> n \<or> ls \<noteq> [] \<Longrightarrow> extend_runs (i # ls) n j = i # extend_runs ls n j"
  by (cases j) (auto simp: extend_runs_def)

lemma loss_runs_snoc: "loss_runs k (js @ [j]) = extend_runs (loss_runs k js) (k + int (length js)) j"
proof (induction k js rule: loss_runs.induct)
  case (1 k)
  then show ?case
    by (cases j) (auto simp: extend_runs_def run_interval_def single_loss_def bump_def)
next
  case (2 k r js)
  then show ?case by (simp add: algebra_simps)
next
  case (3 k t reason ts js)
  let ?R = "takeWhile (lost_for reason) js" and ?D = "dropWhile (lost_for reason) js"
  let ?i = "run_interval k reason (Lost t reason ts # ?R)"
  have l: "length js = length ?R + length ?D"
    by (metis length_append takeWhile_dropWhile_id)
  have end_of: "pl_last_record_seq ?i + 1 = k + 1 + int (length ?R)" "pl_reason ?i = reason"
    by (simp_all add: run_interval_def)
  show ?case
  proof (cases "?D = []")
    case False
    then have d: "takeWhile (lost_for reason) (js @ [j]) = ?R" "dropWhile (lost_for reason) (js @ [j]) = ?D @ [j]"
      by (auto simp: takeWhile_tail takeWhile_append dropWhile_append dropWhile_eq_Nil_conv)
    have "pl_last_record_seq ?i + 1 \<noteq> k + int (length (Lost t reason ts # js))"
      using False l end_of by simp
    then show ?thesis
      using 3 d l by (simp add: extend_runs_Cons algebra_simps)
  next
    case True
    then have all: "\<forall>x\<in>set js. lost_for reason x" and r: "?R = js" and d: "?D = []"
      by (auto simp: takeWhile_eq_all_conv)
    show ?thesis
    proof (cases "lost_for reason j")
      case True
      then obtain t' ts' where j: "j = Lost t' reason ts'" by (cases j) auto
      then show ?thesis
        using all end_of [unfolded r] run_interval_snoc [of "Lost t reason ts # js" k reason t' ts']
        by (simp add: r d extend_runs_def takeWhile_append2 dropWhile_append2 algebra_simps)
    next
      case False
      then show ?thesis
        using all end_of [unfolded r]
        by (cases j) (auto simp: r d extend_runs_def takeWhile_append2 dropWhile_append2 run_interval_def
            single_loss_def bump_def)
    qed
  qed
qed

lemma kept_append: "kept (js @ js') = kept js @ kept js'"
  by (simp add: kept_def)

lemma journal_length: "length (journal uuid capacity as) = length as"
  by (induction as rule: rev_induct) (simp_all add: journal_def)

text \<open>The ledger and the journal agree.\<close>

definition agrees :: "outcome list \<Rightarrow> ledger \<Rightarrow> bool" where
  "agrees js lg \<longleftrightarrow> lg_next_record_seq lg = int (length js) \<and> lg_records lg = kept js \<and>
     lg_losses lg = loss_runs 0 js"

lemma drop_locked_losses:
  "lg_losses (drop_locked t seq ts reason lg) = extend_runs (lg_losses lg) seq (Lost t reason ts)"
  "lg_records (drop_locked t seq ts reason lg) = lg_records lg"
  "lg_next_record_seq (drop_locked t seq ts reason lg) = lg_next_record_seq lg"
  "lg_process_uuid (drop_locked t seq ts reason lg) = lg_process_uuid lg"
  "lg_capacity (drop_locked t seq ts reason lg) = lg_capacity lg"
  by (simp_all add: drop_locked_def extend_runs_def)

lemma own_attempt_agrees:
  assumes "agrees js lg" "int (length js) \<le> UINT64_MAX"
  shows "agrees (js @ [outcome (lg_process_uuid lg) (lg_capacity lg) js a]) (own_attempt a lg) \<and>
    lg_process_uuid (own_attempt a lg) = lg_process_uuid lg \<and> lg_capacity (own_attempt a lg) = lg_capacity lg"
  using assms
  by (cases a)
     (auto simp: agrees_def own_attempt_def own_write_def own_drop_def allocate_locked_def outcome_def Let_def
      kept_append loss_runs_snoc drop_locked_losses kept_def extend_runs_def)

lemma own_attempts_agree:
  assumes "make_ledger uuid capacity hooked = Inr lg" "int (length as) \<le> UINT64_MAX + 1"
  shows "agrees (journal uuid capacity as) (fold own_attempt as lg) \<and>
    lg_process_uuid (fold own_attempt as lg) = uuid \<and> lg_capacity (fold own_attempt as lg) = capacity"
  using assms(2)
proof (induction as rule: rev_induct)
  case Nil
  show ?case using assms(1) by (auto simp: make_ledger_def accept_simps agrees_def journal_def kept_def)
next
  case (snoc a as)
  then have "agrees (journal uuid capacity as) (fold own_attempt as lg)"
    "lg_process_uuid (fold own_attempt as lg) = uuid" "lg_capacity (fold own_attempt as lg) = capacity"
    "int (length (journal uuid capacity as)) \<le> UINT64_MAX" by (auto simp: journal_length)
  from own_attempt_agrees [OF this(1,4), of a] this(2,3) show ?case by (simp add: journal_def)
qed

lemma kept_all: "loss_runs k js = [] \<longleftrightarrow> length (kept js) = length js"
proof (induction k js rule: loss_runs.induct)
  case (3 k t reason ts js)
  have "length (kept js) \<le> length js" for js
    by (induction js) (auto simp: kept_def split: outcome.splits)
  from this [of js] show ?case by (simp add: Let_def) (simp add: kept_def)
qed (simp_all add: kept_def)

lemma kept_within: "0 \<le> capacity \<Longrightarrow> int (length (kept (journal uuid capacity as))) \<le> capacity"
  by (induction as rule: rev_induct)
     (auto simp: journal_def kept_append outcome_def kept_def split: attempted.splits)

text \<open>
  C9. The ledger refines its journal. Whatever is attempted, in whatever order, the attempts are
  numbered without a gap from 0, the records kept are the kept outcomes in order, each under its own
  number, and the losses are exactly the maximal runs of outcomes lost for one reason, with their
  first and last number and time and their counts by record type; the evidence is complete exactly
  when nothing was lost.
\<close>
theorem ledger_refines_journal:
  assumes "make_ledger uuid capacity False = Inr lg" "int (length as) \<le> UINT64_MAX + 1"
  shows "let lg' = fold own_attempt as lg; js = journal uuid capacity as
    in ledger_attempted (lg', h) = int (length as) \<and>
       ledger_snapshot (lg', h) = (kept js, loss_runs 0 js) \<and>
       ledger_evidence_complete (lg', h) = (length (kept js) = length as) \<and>
       int (length (kept js)) \<le> capacity"
proof -
  have "\<not> lg_hooked lg" "1 \<le> capacity" using assms(1) by (auto simp: make_ledger_def accept_simps)
  moreover have "lg_hooked (own_attempt a lg) = lg_hooked lg" for a lg
    by (cases a) (auto simp: own_attempt_def own_write_def own_drop_def drop_locked_def allocate_locked_def Let_def)
  then have "lg_hooked (fold own_attempt as lg) = lg_hooked lg"
    by (induction as rule: rev_induct) auto
  ultimately show ?thesis
    using own_attempts_agree [OF assms] kept_within [of capacity uuid as]
    by (simp add: Let_def agrees_def ledger_attempted_def ledger_snapshot_def ledger_evidence_complete_def
        kept_all journal_length)
qed

lemma ledger_refines_journal_witness:
  "\<exists>lg. make_ledger (sample_hex CHR ''a'') 1 False = Inr lg \<and>
    (let lg' = fold own_attempt [Attempt_write Transfer_event (PInt 5) [], Attempt_write Transfer_event (PInt 6) [],
         Attempt_write Recovery_event (PInt 7) [], Attempt_drop Recovery_event PNone ''writer_failure''] lg
     in map (\<lambda>l. (pl_first_record_seq l, pl_last_record_seq l, pl_counts l Transfer_event, pl_counts l Recovery_event))
          (snd (ledger_snapshot (lg', sample_hooks))) = [(1, 2, 1, 1), (3, 3, 0, 1)])"
proof -
  have "is_hex 32 (sample_hex CHR ''a'')" by code_simp
  then obtain lg where lg: "make_ledger (sample_hex CHR ''a'') 1 False = Inr lg"
    by (simp add: make_ledger_def accept_simps)
  show ?thesis
    using lg ledger_refines_journal [OF lg, of "[Attempt_write Transfer_event (PInt 5) [], Attempt_write Transfer_event (PInt 6) [],
         Attempt_write Recovery_event (PInt 7) [], Attempt_drop Recovery_event PNone ''writer_failure'']" sample_hooks]
    by (simp add: Let_def journal_def outcome_def kept_def is_uint_def int_val_def UINT64_MAX_def run_interval_def)
qed

end
