(* ===== verification/Worker_Adapter.thy ===== *)
theory Worker_Adapter
  imports Profile_Ledger
begin

text \<open>
  The worker side of the recovery evidence (\<open>kv_recovery_runtime.KVRecoveryWorkerEvidenceAdapter\<close>):
  for each transfer of the runtime it emits the communication span and the profile rows, and gives a
  receipt for a restore whose whole chain was recorded. The objects of the runtime ABI are records
  of the attributes the adapter reads; constructing the runtime's receipt is the parameter
  \<open>mk_receipt\<close>, \<open>None\<close> when its constructor raises.

  The hooks and the ledger are a record \<open>services\<close> of the operations the adapter calls;
  \<open>paired_services\<close> is the ledger over the facade.
\<close>

section \<open>Objects of the runtime ABI\<close>

record recovery_identity =
  ci_run_id :: string
  ci_trace_id :: string
  ci_engine_lifecycle_id :: string
  ci_runtime_request_id :: string
  ci_recovery_epoch :: "int option"
  ci_episode_id :: "string option"
  ci_preempt_profile_record_id :: "string option"
  ci_base_preempted_event_id :: "string option"

record logical_block =
  lb_group_index :: int
  lb_logical_ordinal :: int
  lb_logical_block_id :: string

record transfer_context =
  tx_identity :: recovery_identity
  tx_operation :: string
  tx_block_set_id :: string
  tx_logical_blocks :: "logical_block list"

record attempt =
  at_transfer_id :: string
  at_connector_job_id :: int
  at_context :: transfer_context

record wait_attempt =
  wa_entry_timestamp_ns :: int
  wa_transfer_ids :: "string list"

record compute_context =
  cc_identity :: recovery_identity
  cc_compute_kind :: string
  cc_base_phase_start_event_id :: string
  cc_admission_profile_record_id :: string
  cc_transfer_id :: string
  cc_block_set_id :: string
  cc_bytes_moved :: int

text \<open>The arguments of the runtime's receipt.\<close>

record receipt =
  rp_connector_job_id :: int
  rp_transfer_id :: string
  rp_identity :: recovery_identity
  rp_block_set_id :: string
  rp_process_uuid :: string
  rp_clock_domain_id :: string
  rp_communication_done_event_id :: string
  rp_restore_done_profile_record_id :: string
  rp_timestamp_ns :: int
  rp_bytes_moved :: int

section \<open>Services\<close>

record 'h services =
  sv_recorder :: "'h recorder"
  sv_write :: "profile_type \<Rightarrow> pyval \<Rightarrow> pydict \<Rightarrow> 'h \<Rightarrow> string option res \<times> 'h"
  sv_drop :: "profile_type \<Rightarrow> pyval \<Rightarrow> string \<Rightarrow> 'h \<Rightarrow> int res \<times> 'h"
  sv_complete :: "'h \<Rightarrow> bool"
  sv_process_uuid :: "'h \<Rightarrow> string option"
  sv_clock_domain_id :: "'h \<Rightarrow> string option"
  sv_close :: "'h \<Rightarrow> 'h"

definition over_hooks :: "(hooks \<Rightarrow> 'a \<times> hooks) \<Rightarrow> ledger \<times> hooks \<Rightarrow> 'a \<times> ledger \<times> hooks" where
  "over_hooks f = (\<lambda>(lg, h). let (r, h1) = f h in (r, lg, h1))"

text \<open>What closing the facade does to it is the argument \<open>closing\<close>: the exporter's close, its own component.\<close>

definition paired_services :: "(hooks \<Rightarrow> hooks) \<Rightarrow> (ledger \<times> hooks) services" where
  "paired_services closing =
     \<lparr>sv_recorder = \<lparr>rc_span = over_hooks hooks_new_span_id, rc_event = (\<lambda>d. over_hooks (emit_event d)),
                     rc_edge = (\<lambda>d. over_hooks (emit_edge d))\<rparr>,
      sv_write = ledger_write, sv_drop = ledger_drop, sv_complete = ledger_evidence_complete,
      sv_process_uuid = (\<lambda>(lg, h). hooks_process_uuid h),
      sv_clock_domain_id = (\<lambda>(lg, h). hooks_clock_domain_id h),
      sv_close = (\<lambda>(lg, h). (lg, closing h))\<rparr>"

text \<open>Drop one record and return \<open>None\<close>.\<close>

definition give_up :: "'h services \<Rightarrow> profile_type \<Rightarrow> pyval \<Rightarrow> 'h \<Rightarrow> 'a option res \<times> 'h" where
  "give_up S t timestamp_ns h =
     (let (r, h1) = sv_drop S t timestamp_ns ''serialization_failure'' h
      in (case r of Inl e \<Rightarrow> Inl e | Inr _ \<Rightarrow> Inr None, h1))"

text \<open>Continue when \<open>p\<close> gave a value, give up on a recovery event when it gave none.\<close>

definition or_give_up ::
  "'h services \<Rightarrow> int \<Rightarrow> 'a option \<times> 'h \<Rightarrow> ('a \<Rightarrow> 'h \<Rightarrow> 'b option res \<times> 'h) \<Rightarrow> 'b option res \<times> 'h" where
  "or_give_up S timestamp_ns p f = (case fst p of None \<Rightarrow> give_up S Recovery_event (PInt timestamp_ns) (snd p)
     | Some a \<Rightarrow> f a (snd p))"

section \<open>Rows\<close>

definition opt_pint :: "int option \<Rightarrow> pyval" where
  "opt_pint v = (case v of None \<Rightarrow> PNone | Some i \<Rightarrow> PInt i)"

definition opt_pstr :: "string option \<Rightarrow> pyval" where
  "opt_pstr v = (case v of None \<Rightarrow> PNone | Some s \<Rightarrow> PStr s)"

definition worker_request_fields :: "recovery_identity \<Rightarrow> pydict" where
  "worker_request_fields i =
     [(''trace_id'', PStr (ci_trace_id i)), (''engine_lifecycle_id'', PStr (ci_engine_lifecycle_id i)),
      (''runtime_request_id'', PStr (ci_runtime_request_id i)), (''request_id_kind'', PStr ''engine_internal''),
      (''sample_index'', PInt 0), (''recovery_epoch'', opt_pint (ci_recovery_epoch i)),
      (''episode_id'', opt_pstr (ci_episode_id i))]"

definition communication_metadata :: "attempt \<Rightarrow> pydict" where
  "communication_metadata a =
     [(''operation'', PStr ''h2d_restore''), (''direction'', PStr ''h2d''),
      (''transfer_id'', PStr (at_transfer_id a)), (''block_set_id'', PStr (tx_block_set_id (at_context a))),
      (''recovery_profile'', PStr PROFILE_ID),
      (''communication_mapping'', PStr KV_RECOVERY_COMMUNICATION_MODE), (''rank'', PInt 0)]"

definition is_restore :: "attempt \<Rightarrow> bool" where
  "is_restore a \<longleftrightarrow> tx_operation (at_context a) = ''h2d_restore''"

definition transfer_fields ::
  "attempt \<Rightarrow> string \<Rightarrow> int option \<Rightarrow> int option \<Rightarrow> bool option \<Rightarrow> string option \<Rightarrow> pydict" where
  "transfer_fields a phase bytes_moved duration success failure =
     worker_request_fields (tx_identity (at_context a)) @
     [(''transfer_id'', PStr (at_transfer_id a)), (''connector_job_id'', PInt (at_connector_job_id a)),
      (''rank'', PInt 0), (''world_size'', PInt 1), (''operation'', PStr (tx_operation (at_context a))),
      (''direction'', PStr (if is_restore a then ''h2d'' else ''d2h'')),
      (''src_medium'', PStr (if is_restore a then ''host_cpu'' else ''device_hbm'')),
      (''dst_medium'', PStr (if is_restore a then ''device_hbm'' else ''host_cpu'')),
      (''block_set_id'', PStr (tx_block_set_id (at_context a))), (''transfer_phase'', PStr phase),
      (''bytes_moved'', opt_pint bytes_moved), (''device_duration_ns'', opt_pint duration),
      (''success'', case success of None \<Rightarrow> PNone | Some b \<Rightarrow> PBool b), (''failure_code'', opt_pstr failure)]"

definition restore_fields ::
  "attempt \<Rightarrow> string \<Rightarrow> string option \<Rightarrow> string \<Rightarrow> int option \<Rightarrow> pydict" where
  "restore_fields a stage base_event_id from_id bytes_moved =
     worker_request_fields (tx_identity (at_context a)) @
     [(''stage'', PStr stage), (''occurrence'', PInt 0), (''base_event_id'', opt_pstr base_event_id),
      (''base_admission_started_event_id'', PNone), (''from_profile_event_id'', PStr from_id),
      (''transfer_id'', PStr (at_transfer_id a)), (''block_set_id'', PStr (tx_block_set_id (at_context a))),
      (''bytes_moved'', opt_pint bytes_moved), (''requeue_reason'', PNone), (''compute_kind'', PNone),
      (''child_observation_kind'', PNone), (''base_association_kind'', PNone),
      (''base_association_evidence'', PNone), (''request_status_before'', PNone),
      (''request_status_after'', PNone)]"

definition communication_draft ::
  "attempt \<Rightarrow> string \<Rightarrow> int \<Rightarrow> string option \<Rightarrow> string option \<Rightarrow> pydict \<Rightarrow> event_draft" where
  "communication_draft a name timestamp_ns start_span end_span metadata =
     (let i = tx_identity (at_context a) in
      \<lparr>ed_trace_id = ci_trace_id i, ed_lifecycle_id = ci_engine_lifecycle_id i,
       ed_parent_lifecycle_id = Some (ci_trace_id i @ '':r''), ed_scope = ''engine_sample'',
       ed_component = ''external_evidence'', ed_event_name = name, ed_timestamp_ns = Some timestamp_ns,
       ed_preemption_epoch = Some (case ci_recovery_epoch i of None \<Rightarrow> 0 | Some e \<Rightarrow> e),
       ed_start_span_id = start_span, ed_end_span_id = end_span, ed_closing_span_ids = [],
       ed_sample_index = Some 0, ed_handoff_index = None, ed_chunk_index = None, ed_handoff_id = None,
       ed_metadata = Some metadata\<rparr>)"

section \<open>The adapter\<close>

record pending_transfer =
  wp_attempt :: attempt
  wp_submit_timestamp_ns :: int
  wp_start_event_id :: "string option"
  wp_span_id :: "string option"
  wp_restore_start :: "string option"

record worker =
  wk_run_id :: string
  wk_pending :: "(string \<times> pending_transfer) list"
  wk_closed :: bool

definition make_worker :: "string \<Rightarrow> worker res" where
  "make_worker run_id =
     checked (fails (\<not> is_hex 32 run_id) (ValueError ''run_id must be 32 lowercase hexadecimal characters''))
       \<lparr>wk_run_id = run_id, wk_pending = [], wk_closed = False\<rparr>"

text \<open>The span of a restore, with its edge from the preemption when the transfer belongs to an episode.\<close>

definition open_communication ::
  "'h services \<Rightarrow> attempt \<Rightarrow> int \<Rightarrow> 'h \<Rightarrow> (string \<times> string) option res \<times> 'h" where
  "open_communication S a timestamp_ns h =
     (let i = tx_identity (at_context a);
          (span, h1) = rc_span (sv_recorder S) h;
          started = (case span of None \<Rightarrow> (None, h1)
            | Some s \<Rightarrow> rc_event (sv_recorder S) (communication_draft a ''communication_started'' timestamp_ns
                          (Some s) None (communication_metadata a)) h1)
      in or_give_up S timestamp_ns (map_option rr_record_id (fst started), snd started) (\<lambda>start h.
         case ci_base_preempted_event_id i of
           None \<Rightarrow> (Inr (Some (start, the span)), h)
         | Some preempted \<Rightarrow>
             or_give_up S timestamp_ns
               (rc_edge (sv_recorder S)
                  \<lparr>gd_trace_id = ci_trace_id i, gd_from_event_id = preempted, gd_to_event_id = start,
                   gd_edge_kind = ''data_dependency'', gd_evidence_source = KV_RECOVERY_H2D_EVIDENCE\<rparr> h)
               (\<lambda>_ h. (Inr (Some (start, the span)), h))))"

definition submit_evidence ::
  "'h services \<Rightarrow> attempt \<Rightarrow> int \<Rightarrow> 'h \<Rightarrow> pending_transfer option res \<times> 'h" where
  "submit_evidence S a timestamp_ns h =
     and_then
       (if is_restore a
        then and_then (open_communication S a timestamp_ns h) (\<lambda>(start, span) h. (Inr (Some (Some start, Some span)), h))
        else (Inr (Some (None, None)), h))
       (\<lambda>(start, span) h.
        and_then (sv_write S Transfer_event (PInt timestamp_ns) (transfer_fields a ''submit'' None None None None) h)
       (\<lambda>_ h.
        and_then
          (case (is_restore a, ci_preempt_profile_record_id (tx_identity (at_context a))) of
             (True, Some from_id) \<Rightarrow>
               and_then (sv_write S Recovery_event (PInt timestamp_ns)
                           (restore_fields a ''restore_start'' start from_id None) h)
                 (\<lambda>i h. (Inr (Some (Some i)), h))
           | _ \<Rightarrow> (Inr (Some None), h))
       (\<lambda>restore_start h.
        (Inr (Some \<lparr>wp_attempt = a, wp_submit_timestamp_ns = timestamp_ns, wp_start_event_id = start,
                    wp_span_id = span, wp_restore_start = restore_start\<rparr>), h))))"

definition transfer_submitted ::
  "'h services \<Rightarrow> attempt \<Rightarrow> int \<Rightarrow> worker \<Rightarrow> 'h \<Rightarrow> unit res \<times> worker \<times> 'h" where
  "transfer_submitted S a timestamp_ns w h =
     (if wk_closed w then (Inr (), w, h)
      else (let (r, h1) = submit_evidence S a timestamp_ns h in
        (case r of Inl e \<Rightarrow> Inl e | Inr _ \<Rightarrow> Inr (),
         (case r of Inr (Some p) \<Rightarrow> w\<lparr>wk_pending := AList.update (at_transfer_id a) p (wk_pending w)\<rparr> | _ \<Rightarrow> w),
         h1)))"

text \<open>The completion of a restore: the end of its span, joined to its start.\<close>

definition close_communication ::
  "'h services \<Rightarrow> attempt \<Rightarrow> pending_transfer \<Rightarrow> int \<Rightarrow> int \<Rightarrow> 'h \<Rightarrow> string option res \<times> 'h" where
  "close_communication S a p timestamp_ns bytes_moved h =
     (case (wp_span_id p, wp_start_event_id p) of
        (Some span, Some start) \<Rightarrow>
          or_give_up S timestamp_ns
            (rc_event (sv_recorder S) (communication_draft a ''communication_done'' timestamp_ns None (Some span)
               (communication_metadata a @ [(''bytes_moved'', PInt bytes_moved)])) h)
            (\<lambda>done_ref h.
             or_give_up S timestamp_ns
               (rc_edge (sv_recorder S) (program_order (ci_trace_id (tx_identity (at_context a))) start
                  (rr_record_id done_ref)) h)
               (\<lambda>_ h. (Inr (Some (rr_record_id done_ref)), h)))
      | _ \<Rightarrow> give_up S Recovery_event (PInt timestamp_ns) h)"

text \<open>The receipt, once everything it names was recorded.\<close>

definition hand_out_receipt ::
  "'h services \<Rightarrow> (receipt \<Rightarrow> 'r option) \<Rightarrow> attempt \<Rightarrow> string option \<Rightarrow> string option \<Rightarrow> int \<Rightarrow> int \<Rightarrow> 'h \<Rightarrow>
   'r option res \<times> 'h" where
  "hand_out_receipt S mk_receipt a done_event restore_done timestamp_ns bytes_moved h =
     (case (restore_done, done_event, sv_process_uuid S h, sv_clock_domain_id S h) of
        (Some record_id, Some event_id, Some uuid, Some domain) \<Rightarrow>
          (case mk_receipt
              \<lparr>rp_connector_job_id = at_connector_job_id a, rp_transfer_id = at_transfer_id a,
               rp_identity = tx_identity (at_context a), rp_block_set_id = tx_block_set_id (at_context a),
               rp_process_uuid = uuid, rp_clock_domain_id = domain, rp_communication_done_event_id = event_id,
               rp_restore_done_profile_record_id = record_id, rp_timestamp_ns = timestamp_ns,
               rp_bytes_moved = bytes_moved\<rparr> of
             None \<Rightarrow> give_up S Recovery_event (PInt timestamp_ns) h
           | Some r \<Rightarrow> (Inr (Some r), h))
      | _ \<Rightarrow> (Inr None, h))"

definition completion_evidence ::
  "'h services \<Rightarrow> (receipt \<Rightarrow> 'r option) \<Rightarrow> attempt \<Rightarrow> pending_transfer \<Rightarrow> int \<Rightarrow> int \<Rightarrow> int option \<Rightarrow> 'h \<Rightarrow>
   'r option res \<times> 'h" where
  "completion_evidence S mk_receipt a p timestamp_ns bytes_moved duration h =
     and_then
       (if is_restore a
        then and_then (close_communication S a p timestamp_ns bytes_moved h) (\<lambda>i h. (Inr (Some (Some i)), h))
        else (Inr (Some None), h))
       (\<lambda>done_event h.
        and_then (sv_write S Transfer_event (PInt timestamp_ns)
                    (transfer_fields a ''done'' (Some bytes_moved) duration (Some True) None) h)
       (\<lambda>_ h.
        if tx_operation (at_context a) = ''d2h_preserve'' then (Inr None, h)
        else (case wp_restore_start p of
            None \<Rightarrow> (Inr None, h)
          | Some from_id \<Rightarrow>
              (let (restore_done, h1) = sv_write S Recovery_event (PInt timestamp_ns)
                     (restore_fields a ''restore_done'' done_event from_id (Some bytes_moved)) h
               in (case restore_done of Inl e \<Rightarrow> (Inl e, h1)
                   | Inr record_id \<Rightarrow>
                       hand_out_receipt S mk_receipt a done_event record_id timestamp_ns bytes_moved h1)))))"

definition transfer_completed ::
  "'h services \<Rightarrow> (receipt \<Rightarrow> 'r option) \<Rightarrow> attempt \<Rightarrow> int \<Rightarrow> int \<Rightarrow> bool \<Rightarrow> int option \<Rightarrow> int option \<Rightarrow> worker \<Rightarrow> 'h \<Rightarrow>
   'r option res \<times> worker \<times> 'h" where
  "transfer_completed S mk_receipt a submit_ns timestamp_ns success bytes_moved duration w h =
     (if wk_closed w then (Inr None, w, h)
      else (let w1 = w\<lparr>wk_pending := AList.delete (at_transfer_id a) (wk_pending w)\<rparr> in
        case (map_of (wk_pending w) (at_transfer_id a), bytes_moved) of
          (Some p, Some bytes) \<Rightarrow>
            if wp_attempt p \<noteq> a \<or> wp_submit_timestamp_ns p \<noteq> submit_ns \<or> \<not> success \<or> bytes \<le> 0 \<or>
               timestamp_ns \<le> submit_ns
            then (let (r, h1) = give_up S Transfer_event (PInt timestamp_ns) h in (r, w1, h1))
            else (let (r, h1) = completion_evidence S mk_receipt a p timestamp_ns bytes duration h in (r, w1, h1))
        | _ \<Rightarrow> (let (r, h1) = give_up S Transfer_event (PInt timestamp_ns) h in (r, w1, h1))))"

text \<open>A rejected attempt was never submitted: \<open>transfer_not_submitted\<close> does nothing.\<close>

definition transfer_not_submitted :: "attempt \<Rightarrow> worker \<Rightarrow> 'h \<Rightarrow> unit res \<times> worker \<times> 'h" where
  "transfer_not_submitted a w h = (Inr (), w, h)"

definition dropped :: "'h services \<Rightarrow> profile_type \<Rightarrow> pyval \<Rightarrow> string \<Rightarrow> worker \<Rightarrow> 'h \<Rightarrow> unit res \<times> worker \<times> 'h" where
  "dropped S t timestamp_ns reason w h =
     (let (r, h1) = sv_drop S t timestamp_ns reason h in (map_sum id (\<lambda>_. ()) r, w, h1))"

definition transfer_capacity_exhausted ::
  "'h services \<Rightarrow> int option \<Rightarrow> string \<Rightarrow> worker \<Rightarrow> 'h \<Rightarrow> unit res \<times> worker \<times> 'h" where
  "transfer_capacity_exhausted S timestamp_ns loss_reason = dropped S Transfer_event (opt_pint timestamp_ns) loss_reason"

definition evidence_failure :: "'h services \<Rightarrow> int option \<Rightarrow> worker \<Rightarrow> 'h \<Rightarrow> unit res \<times> worker \<times> 'h" where
  "evidence_failure S timestamp_ns = dropped S Transfer_event (opt_pint timestamp_ns) ''serialization_failure''"

definition h2d_receipt_capacity_exhausted ::
  "'h services \<Rightarrow> int \<Rightarrow> string \<Rightarrow> worker \<Rightarrow> 'h \<Rightarrow> unit res \<times> worker \<times> 'h" where
  "h2d_receipt_capacity_exhausted S timestamp_ns loss_reason = dropped S Recovery_event (PInt timestamp_ns) loss_reason"

definition transfer_invalidated :: "'h services \<Rightarrow> attempt \<Rightarrow> int \<Rightarrow> worker \<Rightarrow> 'h \<Rightarrow> unit res \<times> worker \<times> 'h" where
  "transfer_invalidated S a timestamp_ns w h =
     (if wk_closed w then (Inr (), w, h)
      else (let w1 = w\<lparr>wk_pending := AList.delete (at_transfer_id a) (wk_pending w)\<rparr>;
                (r, h1) = sv_write S Transfer_event (PInt timestamp_ns)
                  (transfer_fields a ''done'' None None (Some False) (Some ''cancelled'')) h
            in (map_sum id (\<lambda>_. ()) r, w1, h1)))"

section \<open>Waits\<close>

definition wait_set_id_of :: "string \<Rightarrow> string \<Rightarrow> string list \<Rightarrow> string" where
  "wait_set_id_of run_id process_uuid transfer_ids =
     sha256_hex (PROFILE_ID @ [CHR 0x00] @ run_id @ [CHR 0x00] @ process_uuid @ [CHR 0x00] @
       concat (map (\<lambda>i. i @ [CHR 0x0A]) transfer_ids))"

text \<open>\<open>xs[k * width : (k + 1) * width]\<close>, and the number of chunks.\<close>

definition chunk_of :: "nat \<Rightarrow> nat \<Rightarrow> 'a list \<Rightarrow> 'a list" where
  "chunk_of width k xs = take width (drop (k * width) xs)"

definition chunk_count :: "nat \<Rightarrow> 'a list \<Rightarrow> nat" where
  "chunk_count width xs = (length xs + width - 1) div width"

definition wait_fields :: "string \<Rightarrow> string list \<Rightarrow> nat \<Rightarrow> pydict" where
  "wait_fields wait_set_id transfer_ids k =
     [(''operation'', PStr ''transfer_wait''), (''wait_set_id'', PStr wait_set_id),
      (''chunk_index'', PInt (int k)), (''chunk_count'', PInt (int (chunk_count 64 transfer_ids))),
      (''total_transfer_count'', PInt (int (length transfer_ids))),
      (''transfer_ids'', PList (map PStr (chunk_of 64 k transfer_ids)))]"

text \<open>The loop over the rows, which stops at the first one that is not kept.\<close>

fun write_rows ::
  "'h services \<Rightarrow> profile_type \<Rightarrow> int \<Rightarrow> pydict list \<Rightarrow> 'h \<Rightarrow> string list option res \<times> 'h" where
  "write_rows S t timestamp_ns [] h = (Inr (Some []), h)"
| "write_rows S t timestamp_ns (fs # rows) h =
     and_then (sv_write S t (PInt timestamp_ns) fs h) (\<lambda>i h.
     and_then (write_rows S t timestamp_ns rows h) (\<lambda>ids h. (Inr (Some (i # ids)), h)))"

definition wait_rows :: "string \<Rightarrow> string \<Rightarrow> string list \<Rightarrow> pydict list" where
  "wait_rows run_id process_uuid transfer_ids =
     map (wait_fields (wait_set_id_of run_id process_uuid transfer_ids) transfer_ids)
       [0..<chunk_count 64 transfer_ids]"

definition wait_completed :: "'h services \<Rightarrow> wait_attempt \<Rightarrow> worker \<Rightarrow> 'h \<Rightarrow> unit res \<times> worker \<times> 'h" where
  "wait_completed S a w h =
     (if wk_closed w then (Inr (), w, h)
      else (case sv_process_uuid S h of
        None \<Rightarrow> dropped S Wait_set_chunk (PInt (wa_entry_timestamp_ns a)) ''serialization_failure'' w h
      | Some uuid \<Rightarrow>
          if \<not> is_ascii (concat (wa_transfer_ids a)) then
            (Inl (ValueError ''ascii codec cannot encode character''), w, h)
          else (let (r, h1) = write_rows S Wait_set_chunk (wa_entry_timestamp_ns a)
                     (wait_rows (wk_run_id w) uuid (wa_transfer_ids a)) h
                in (map_sum id (\<lambda>_. ()) r, w, h1))))"

section \<open>First compute and close\<close>

definition first_compute_fields :: "compute_context \<Rightarrow> pydict" where
  "first_compute_fields c =
     worker_request_fields (cc_identity c) @
     [(''stage'', PStr ''first_prefill_or_decode''), (''occurrence'', PInt 0),
      (''base_event_id'', PStr (cc_base_phase_start_event_id c)),
      (''base_admission_started_event_id'', PNone),
      (''from_profile_event_id'', PStr (cc_admission_profile_record_id c)),
      (''transfer_id'', PStr (cc_transfer_id c)), (''block_set_id'', PStr (cc_block_set_id c)),
      (''bytes_moved'', PInt (cc_bytes_moved c)), (''requeue_reason'', PNone),
      (''compute_kind'', PStr (cc_compute_kind c)),
      (''child_observation_kind'', PStr ''worker_model_forward_entry''),
      (''base_association_kind'', PStr ''phase_child_observation''),
      (''base_association_evidence'', PStr ''instrumented_execution_context''),
      (''request_status_before'', PStr ''RUNNING''), (''request_status_after'', PStr ''RUNNING'')]"

text \<open>Whatever the row raises becomes one dropped record.\<close>

definition worker_first_compute ::
  "'h services \<Rightarrow> compute_context \<Rightarrow> pyval \<Rightarrow> worker \<Rightarrow> 'h \<Rightarrow> unit res \<times> worker \<times> 'h" where
  "worker_first_compute S c timestamp_ns w h =
     (let drop_it = (\<lambda>h. dropped S Recovery_event (if is_uint timestamp_ns UINT64_MAX then timestamp_ns else PNone)
                          ''serialization_failure'' w h)
      in if ci_recovery_epoch (cc_identity c) = None \<or> cc_compute_kind c \<notin> set COMPUTE_KINDS \<or>
            \<not> id_pattern (CHR ''e'') (cc_base_phase_start_event_id c) then drop_it h
         else (let (r, h1) = sv_write S Recovery_event timestamp_ns (first_compute_fields c) h
               in case r of Inl e \<Rightarrow> drop_it h1 | Inr _ \<Rightarrow> (Inr (), w, h1)))"

fun drop_all :: "'h services \<Rightarrow> attempt list \<Rightarrow> 'h \<Rightarrow> unit res \<times> 'h" where
  "drop_all S [] h = (Inr (), h)"
| "drop_all S (a # as) h =
     (let (r, h1) = sv_drop S Transfer_event PNone ''serialization_failure'' h
      in case r of Inl e \<Rightarrow> (Inl e, h1) | Inr _ \<Rightarrow> drop_all S as h1)"

definition worker_close :: "'h services \<Rightarrow> attempt list \<Rightarrow> bool \<Rightarrow> worker \<Rightarrow> 'h \<Rightarrow> unit res \<times> worker \<times> 'h" where
  "worker_close S open_attempts evidence_disabled w h =
     (if wk_closed w then (Inr (), w, h)
      else (let w1 = w\<lparr>wk_closed := True\<rparr>; (r, h1) = drop_all S open_attempts h in
        case r of Inl e \<Rightarrow> (Inl e, w1, h1)
        | Inr _ \<Rightarrow>
            (let (r2, h2) = (if evidence_disabled \<and> sv_complete S h1
                   then sv_drop S Recovery_event PNone ''serialization_failure'' h1 else (Inr 0, h1))
             in case r2 of Inl e \<Rightarrow> (Inl e, w1, h2) | Inr _ \<Rightarrow> (Inr (), w1\<lparr>wk_pending := []\<rparr>, h2))))"

definition close_for_worker_failure :: "'h services \<Rightarrow> bool \<Rightarrow> worker \<Rightarrow> 'h \<Rightarrow> unit res \<times> worker \<times> 'h" where
  "close_for_worker_failure S evidence_disabled w h =
     (let (r, w1, h1) = worker_close S [] evidence_disabled w h
      in case r of Inl e \<Rightarrow> (Inl e, w1, h1) | Inr _ \<Rightarrow> (Inr (), w1, sv_close S h1))"

end
