(* ===== verification/Scheduler_Adapter.thy ===== *)
theory Scheduler_Adapter
  imports Worker_Adapter
begin

text \<open>
  The scheduler side of the recovery evidence (\<open>kv_recovery_runtime.KVRecoverySchedulerAdapter\<close>): it
  follows each preempted request from its preemption through the restore to its admission, and writes
  the recovery chain of the profile.

  An operation works on the scheduler's own state, the bridge, and the state of the services the
  bridge and the ledger share. A reading of the clock is an argument, \<open>None\<close> when the clock raises.
  The constructors of the runtime ABI are the parameter \<open>abi\<close>: whether they accept their arguments,
  and the block-set identity; an object they make carries the attributes it was given.
\<close>

section \<open>State\<close>

record abi =
  ab_identity :: "recovery_identity \<Rightarrow> bool"
  ab_block :: "logical_block \<Rightarrow> bool"
  ab_block_set_id :: "recovery_identity \<Rightarrow> logical_block list \<Rightarrow> string option"
  ab_transfer_context :: "transfer_context \<Rightarrow> bool"
  ab_compute_context :: "compute_context \<Rightarrow> bool"

record sched_episode =
  se_identity :: request_identity
  se_recovery_epoch :: int
  se_preempted_event :: base_ref
  se_preempt_record :: "string option"
  se_context :: "transfer_context option"
  se_receipt :: "receipt option"
  se_admission_started :: "base_ref option"
  se_wakeup_record :: "string option"
  se_predecessor :: "string option"
  se_requeue_occurrence :: int
  se_admission_record :: "string option"

record scheduler =
  sc_run_id :: string
  sc_episodes :: "((string \<times> int) \<times> sched_episode) list"
  sc_logical_ids :: "((string \<times> int \<times> int) \<times> string) list"
  sc_closed :: bool

definition make_scheduler :: "string \<Rightarrow> scheduler res" where
  "make_scheduler run_id =
     checked (fails (\<not> is_hex 32 run_id) (ValueError ''run_id must be 32 lowercase hexadecimal characters''))
       \<lparr>sc_run_id = run_id, sc_episodes = [], sc_logical_ids = [], sc_closed = False\<rparr>"

definition put_sched :: "string \<Rightarrow> int \<Rightarrow> sched_episode \<Rightarrow> scheduler \<Rightarrow> scheduler" where
  "put_sched rid epoch ep s = s\<lparr>sc_episodes := AList.update (rid, epoch) ep (sc_episodes s)\<rparr>"

definition pop_sched :: "string \<Rightarrow> int \<Rightarrow> scheduler \<Rightarrow> scheduler" where
  "pop_sched rid epoch s = s\<lparr>sc_episodes := AList.delete (rid, epoch) (sc_episodes s)\<rparr>"

definition sched_of :: "string \<Rightarrow> int \<Rightarrow> scheduler \<Rightarrow> sched_episode option" where
  "sched_of rid epoch s = map_of (sc_episodes s) (rid, epoch)"

type_synonym 'g sched_state = "scheduler \<times> bridge \<times> 'g"

text \<open>Drop one record and go on; drop one and return \<open>None\<close>.\<close>

definition drop_row :: "'g services \<Rightarrow> profile_type \<Rightarrow> pyval \<Rightarrow> 'g \<Rightarrow> unit res \<times> 'g" where
  "drop_row S t timestamp_ns g =
     (let (r, g1) = sv_drop S t timestamp_ns ''serialization_failure'' g in (map_sum id (\<lambda>_. ()) r, g1))"

definition refuse ::
  "'g services \<Rightarrow> profile_type \<Rightarrow> pyval \<Rightarrow> 'g sched_state \<Rightarrow> 'r option res \<times> 'g sched_state" where
  "refuse S t timestamp_ns = (\<lambda>(s, b, g).
     let (r, g1) = drop_row S t timestamp_ns g
     in (case r of Inl e \<Rightarrow> Inl e | Inr _ \<Rightarrow> Inr None, s, b, g1))"

text \<open>Drop one record, then forget the episode, and return \<open>None\<close>.\<close>

definition refuse_retiring ::
  "'g services \<Rightarrow> string \<Rightarrow> int \<Rightarrow> 'g sched_state \<Rightarrow> 'r option res \<times> 'g sched_state" where
  "refuse_retiring S rid epoch st =
     (let (r, s, b, g) = refuse S Recovery_event PNone st
      in (r, (case r of Inl e \<Rightarrow> s | Inr _ \<Rightarrow> pop_sched rid epoch s), b, g))"

text \<open>
  \<open>try: ... except Exception: drop\<close>, around a call of the bridge that is dropped at its time when it
  gives nothing: the body of \<open>request_started\<close> and \<open>request_scheduled\<close>.
\<close>

definition observed ::
  "'g services \<Rightarrow> int option \<Rightarrow> (int \<Rightarrow> bridge \<Rightarrow> 'g \<Rightarrow> unit option res \<times> bridge \<times> 'g) \<Rightarrow> 'g sched_state \<Rightarrow>
   unit option res \<times> 'g sched_state" where
  "observed S now call = (\<lambda>(s, b, g).
     if sc_closed s then (Inr None, s, b, g)
     else (case now of
         None \<Rightarrow> refuse S Recovery_event PNone (s, b, g)
       | Some t \<Rightarrow>
           (let (r, b1, g1) = call t b g in
            case r of
              Inl e \<Rightarrow> refuse S Recovery_event PNone (s, b1, g1)
            | Inr (Some _) \<Rightarrow> (Inr None, s, b1, g1)
            | Inr None \<Rightarrow>
                (let (d, g2) = drop_row S Recovery_event (PInt t) g1 in
                 case d of Inl e \<Rightarrow> refuse S Recovery_event PNone (s, b1, g2)
                 | Inr _ \<Rightarrow> (Inr None, s, b1, g2)))))"

definition request_started ::
  "'g services \<Rightarrow> int option \<Rightarrow> string \<Rightarrow> 'g sched_state \<Rightarrow> unit option res \<times> 'g sched_state" where
  "request_started S now rid st = observed S now
     (\<lambda>t b g. register_runtime_request (sv_recorder S) (sc_run_id (fst st)) rid t b g) st"

definition request_scheduled ::
  "'g services \<Rightarrow> int option \<Rightarrow> string \<Rightarrow> string \<Rightarrow> int \<Rightarrow> int \<Rightarrow> int \<Rightarrow> 'g sched_state \<Rightarrow>
   unit option res \<times> 'g sched_state" where
  "request_scheduled S now rid kind n total_tokens cached = observed S now
     (\<lambda>t b g. emit_runtime_scheduled (sv_recorder S) rid t kind n total_tokens cached b g)"

text \<open>
  A boundary of the bridge: the event already there, or the one the bridge emits now; an error of the
  clock or of the bridge counts as none.
\<close>

definition boundary ::
  "base_ref option \<Rightarrow> int option \<Rightarrow> (int \<Rightarrow> base_ref option res \<times> bridge \<times> 'g) \<Rightarrow> bridge \<Rightarrow> 'g \<Rightarrow>
   base_ref option \<times> bridge \<times> 'g" where
  "boundary known now emit b g = (case known of Some e \<Rightarrow> (Some e, b, g)
     | None \<Rightarrow> (case now of None \<Rightarrow> (None, b, g)
         | Some t \<Rightarrow> (let (r, b1, g1) = emit t in (case r of Inl e \<Rightarrow> None | Inr x \<Rightarrow> x, b1, g1))))"

definition request_preempted ::
  "'g services \<Rightarrow> int option \<Rightarrow> string \<Rightarrow> int \<Rightarrow> 'g sched_state \<Rightarrow> string option res \<times> 'g sched_state" where
  "request_preempted S now rid epoch = (\<lambda>(s, b, g).
     if sc_closed s \<or> epoch < 1 then (Inr None, s, b, g)
     else (case bridge_identity rid b of
         None \<Rightarrow> refuse_retiring S rid epoch (s, b, g)
       | Some i \<Rightarrow>
           (let (event, b1, g1) = boundary (preempted_event rid epoch b) now
                  (\<lambda>t. emit_runtime_preempted (sv_recorder S) rid epoch t b g) b g
            in case event of
                 None \<Rightarrow> refuse_retiring S rid epoch (s, b1, g1)
               | Some e \<Rightarrow>
                   if sched_of rid epoch s \<noteq> None
                   then refuse_retiring S rid epoch (s, b1, g1)
                   else (Inr (Some (br_event_id e)),
                     put_sched rid epoch
                       \<lparr>se_identity = i, se_recovery_epoch = epoch, se_preempted_event = e,
                        se_preempt_record = None, se_context = None, se_receipt = None,
                        se_admission_started = None, se_wakeup_record = None, se_predecessor = None,
                        se_requeue_occurrence = 0, se_admission_record = None\<rparr>
                       (s\<lparr>sc_episodes := filter (\<lambda>kv. \<not> (fst (fst kv) = rid \<and> se_preempt_record (snd kv) = None))
                            (sc_episodes s)\<rparr>), b1, g1))))"

section \<open>Rows of the recovery chain\<close>

definition base_request_fields :: "request_identity \<Rightarrow> int option \<Rightarrow> string option \<Rightarrow> pydict" where
  "base_request_fields i epoch episode_id =
     [(''trace_id'', PStr (ri_trace_id i)), (''engine_lifecycle_id'', PStr (ri_engine_lifecycle_id i)),
      (''runtime_request_id'', PStr (ri_runtime_request_id i)), (''request_id_kind'', PStr ''engine_internal''),
      (''sample_index'', PInt 0), (''recovery_epoch'', opt_pint epoch), (''episode_id'', opt_pstr episode_id)]"

definition episode_id_of :: "request_identity \<Rightarrow> int \<Rightarrow> string" where
  "episode_id_of i epoch = id_of (ri_engine_lifecycle_id i) CHR ''k'' epoch"

definition stage_fields ::
  "string \<Rightarrow> int \<Rightarrow> string option \<Rightarrow> string option \<Rightarrow> string option \<Rightarrow> receipt option \<Rightarrow> string option \<Rightarrow>
   string \<Rightarrow> string \<Rightarrow> pydict" where
  "stage_fields stage occurrence base_event base_admission predecessor rc reason before after =
     [(''stage'', PStr stage), (''occurrence'', PInt occurrence), (''base_event_id'', opt_pstr base_event),
      (''base_admission_started_event_id'', opt_pstr base_admission),
      (''from_profile_event_id'', opt_pstr predecessor),
      (''transfer_id'', opt_pstr (map_option rp_transfer_id rc)),
      (''block_set_id'', opt_pstr (map_option rp_block_set_id rc)),
      (''bytes_moved'', opt_pint (map_option rp_bytes_moved rc)), (''requeue_reason'', opt_pstr reason),
      (''compute_kind'', PNone), (''child_observation_kind'', PNone), (''base_association_kind'', PNone),
      (''base_association_evidence'', PNone), (''request_status_before'', PStr before),
      (''request_status_after'', PStr after)]"

text \<open>The rows after the preemption carry the identity of the episode.\<close>

definition chain_request :: "sched_episode \<Rightarrow> pydict" where
  "chain_request ep = base_request_fields (se_identity ep) (Some (se_recovery_epoch ep))
     (Some (episode_id_of (se_identity ep) (se_recovery_epoch ep)))"

section \<open>Transfer contexts\<close>

definition MAX_BLOCK_ROWS_PER_CHUNK_BYTE_BUDGET :: nat where "MAX_BLOCK_ROWS_PER_CHUNK_BYTE_BUDGET = 32"

text \<open>The identity of a logical block, as computed, and as remembered.\<close>

definition logical_block_digest :: "string \<Rightarrow> request_identity \<Rightarrow> int \<Rightarrow> int \<Rightarrow> string" where
  "logical_block_digest run_id i group_index ordinal =
     take 32 (sha256_hex (run_id @ [CHR 0x00] @ ri_engine_lifecycle_id i @ [CHR 0x00] @
       py_str_int group_index @ CHR '':'' # py_str_int ordinal))"

definition logical_block_id :: "request_identity \<Rightarrow> int \<Rightarrow> int \<Rightarrow> scheduler \<Rightarrow> string \<times> scheduler" where
  "logical_block_id i group_index ordinal s =
     (let k = (ri_engine_lifecycle_id i, group_index, ordinal) in
      case map_of (sc_logical_ids s) k of
        Some v \<Rightarrow> (v, s)
      | None \<Rightarrow> (let v = logical_block_digest (sc_run_id s) i group_index ordinal
                 in (v, s\<lparr>sc_logical_ids := AList.update k v (sc_logical_ids s)\<rparr>)))"

fun logical_blocks :: "abi \<Rightarrow> request_identity \<Rightarrow> (int \<times> int) list \<Rightarrow> scheduler \<Rightarrow> logical_block list option \<times> scheduler" where
  "logical_blocks A i [] s = (Some [], s)"
| "logical_blocks A i ((group_index, ordinal) # coordinates) s =
     (let (v, s1) = logical_block_id i group_index ordinal s;
          block = \<lparr>lb_group_index = group_index, lb_logical_ordinal = ordinal, lb_logical_block_id = v\<rparr>
      in if \<not> ab_block A block then (None, s1)
         else (let (bs, s2) = logical_blocks A i coordinates s1 in (map_option (Cons block) bs, s2)))"

definition block_row :: "logical_block \<Rightarrow> pyval" where
  "block_row b = PDict [(''group_index'', PInt (lb_group_index b)), (''logical_ordinal'', PInt (lb_logical_ordinal b)),
     (''logical_block_id'', PStr (lb_logical_block_id b))]"

definition block_fields ::
  "request_identity \<Rightarrow> int option \<Rightarrow> string option \<Rightarrow> string \<Rightarrow> logical_block list \<Rightarrow> nat \<Rightarrow> pydict" where
  "block_fields i epoch episode_id block_set_id blocks k =
     base_request_fields i epoch episode_id @
     [(''block_set_id'', PStr block_set_id), (''chunk_index'', PInt (int k)),
      (''chunk_count'', PInt (int (chunk_count MAX_BLOCK_ROWS_PER_CHUNK_BYTE_BUDGET blocks))),
      (''total_block_count'', PInt (int (length blocks))),
      (''blocks'', PList (map block_row (chunk_of MAX_BLOCK_ROWS_PER_CHUNK_BYTE_BUDGET k blocks)))]"

definition block_rows ::
  "request_identity \<Rightarrow> int option \<Rightarrow> string option \<Rightarrow> string \<Rightarrow> logical_block list \<Rightarrow> pydict list" where
  "block_rows i epoch episode_id block_set_id blocks =
     map (block_fields i epoch episode_id block_set_id blocks)
       [0..<chunk_count MAX_BLOCK_ROWS_PER_CHUNK_BYTE_BUDGET blocks]"

text \<open>The latest episode of a request.\<close>

definition latest_episode :: "string \<Rightarrow> scheduler \<Rightarrow> sched_episode option" where
  "latest_episode rid s =
     (let eps = map snd (filter (\<lambda>kv. fst (fst kv) = rid) (sc_episodes s))
      in if eps = [] then None
         else find (\<lambda>ep. se_recovery_epoch ep = Max (set (map se_recovery_epoch eps))) eps)"

text \<open>
  The profile side of a transfer: for a restore of an episode the \<open>preempt\<close> row, written now because
  a restore exists; the association of the transfer is the epoch, the episode, the preemption and the
  row. \<open>None\<close> stops the preparation.
\<close>

record association =
  as_epoch :: "int option"
  as_episode_id :: "string option"
  as_preempted_event :: "string option"
  as_preempt_record :: "string option"

definition unassociated :: association where
  "unassociated = \<lparr>as_epoch = None, as_episode_id = None, as_preempted_event = None, as_preempt_record = None\<rparr>"

definition associate ::
  "'g services \<Rightarrow> string \<Rightarrow> string \<Rightarrow> request_identity \<Rightarrow> 'g sched_state \<Rightarrow> association option res \<times> 'g sched_state" where
  "associate S rid operation i = (\<lambda>(s, b, g).
     if operation = ''d2h_preserve'' then (Inr (Some unassociated), s, b, g)
     else if operation \<noteq> ''h2d_restore'' then refuse S Block_set_chunk PNone (s, b, g)
     else (case latest_episode rid s of
         None \<Rightarrow> (Inr (Some unassociated), s, b, g)
       | Some ep \<Rightarrow>
           if se_context ep \<noteq> None then refuse S Recovery_event PNone (s, b, g)
           else (let epoch = se_recovery_epoch ep;
                     (r, g1) = sv_write S Recovery_event (PInt (br_timestamp_ns (se_preempted_event ep)))
                       (base_request_fields (se_identity ep) (Some epoch) (Some (episode_id_of i epoch)) @
                        stage_fields ''preempt'' 0 (Some (br_event_id (se_preempted_event ep)))
                          None None None None ''RUNNING'' ''PREEMPTED'') g
                 in case r of
                      Inl e \<Rightarrow> (Inl e, s, b, g1)
                    | Inr None \<Rightarrow> (Inr None, pop_sched rid epoch s, b, g1)
                    | Inr (Some record_id) \<Rightarrow>
                        (Inr (Some \<lparr>as_epoch = Some epoch, as_episode_id = Some (episode_id_of i epoch),
                                   as_preempted_event = Some (br_event_id (se_preempted_event ep)),
                                   as_preempt_record = Some record_id\<rparr>),
                         put_sched rid epoch (ep\<lparr>se_preempt_record := Some record_id\<rparr>) s, b, g1))))"

text \<open>The context, when every constructor accepts.\<close>

definition build_context ::
  "abi \<Rightarrow> string \<Rightarrow> string \<Rightarrow> request_identity \<Rightarrow> (int \<times> int) list \<Rightarrow> association \<Rightarrow> scheduler \<Rightarrow>
   transfer_context option \<times> scheduler" where
  "build_context A rid operation i coordinates link s =
     (let identity = \<lparr>ci_run_id = sc_run_id s, ci_trace_id = ri_trace_id i,
            ci_engine_lifecycle_id = ri_engine_lifecycle_id i, ci_runtime_request_id = rid,
            ci_recovery_epoch = as_epoch link, ci_episode_id = as_episode_id link,
            ci_preempt_profile_record_id = as_preempt_record link,
            ci_base_preempted_event_id = as_preempted_event link\<rparr>
      in if \<not> ab_identity A identity then (None, s)
         else (let (blocks, s1) = logical_blocks A i coordinates s in
           case blocks of None \<Rightarrow> (None, s1)
           | Some bs \<Rightarrow>
               (case ab_block_set_id A identity bs of None \<Rightarrow> (None, s1)
                | Some block_set_id \<Rightarrow>
                    (let c = \<lparr>tx_identity = identity, tx_operation = operation, tx_block_set_id = block_set_id,
                               tx_logical_blocks = bs\<rparr>
                     in (if ab_transfer_context A c then Some c else None, s1)))))"

definition prepare_transfer_context ::
  "abi \<Rightarrow> 'g services \<Rightarrow> int option \<Rightarrow> string \<Rightarrow> string \<Rightarrow> (int \<times> int) list \<Rightarrow> 'g sched_state \<Rightarrow>
   transfer_context option res \<times> 'g sched_state" where
  "prepare_transfer_context A S now rid operation coordinates = (\<lambda>(s, b, g).
     if sc_closed s \<or> coordinates = [] then (Inr None, s, b, g)
     else (case bridge_identity rid b of
         None \<Rightarrow> refuse S Block_set_chunk PNone (s, b, g)
       | Some i \<Rightarrow>
           and_then (associate S rid operation i (s, b, g)) (\<lambda>link (s, b, g).
             let (context, s1) = build_context A rid operation i coordinates link s in
             case (context, now) of
               (Some c, Some t) \<Rightarrow>
                 (let (r, g1) = write_rows S Block_set_chunk t
                        (block_rows i (as_epoch link) (as_episode_id link) (tx_block_set_id c) (tx_logical_blocks c)) g
                  in case r of
                       Inl e \<Rightarrow> (Inl e, s1, b, g1)
                     | Inr None \<Rightarrow> (Inr None, s1, b, g1)
                     | Inr (Some _) \<Rightarrow>
                         (Inr (Some c),
                          (case as_epoch link of None \<Rightarrow> s1
                           | Some epoch \<Rightarrow>
                               (case sched_of rid epoch s1 of None \<Rightarrow> s1
                                | Some ep \<Rightarrow> put_sched rid epoch (ep\<lparr>se_context := Some c\<rparr>) s1)), b, g1))
             | _ \<Rightarrow> refuse S Block_set_chunk PNone (s1, b, g))))"

section \<open>Receipts\<close>

definition receipt_fits :: "receipt \<Rightarrow> int \<Rightarrow> sched_episode option \<Rightarrow> bool" where
  "receipt_fits r epoch episode = (case episode of None \<Rightarrow> False
     | Some ep \<Rightarrow> se_receipt ep = None \<and> epoch = se_recovery_epoch ep \<and>
         (case se_context ep of None \<Rightarrow> False
          | Some c \<Rightarrow> rp_identity r = tx_identity c \<and> rp_block_set_id r = tx_block_set_id c))"

fun take_receipts :: "'g services \<Rightarrow> receipt list \<Rightarrow> scheduler \<Rightarrow> 'g \<Rightarrow> unit res \<times> scheduler \<times> 'g" where
  "take_receipts S [] s g = (Inr (), s, g)"
| "take_receipts S (r # rs) s g =
     (case ci_recovery_epoch (rp_identity r) of
        None \<Rightarrow> take_receipts S rs s g
      | Some epoch \<Rightarrow>
          (let rid = ci_runtime_request_id (rp_identity r); episode = sched_of rid epoch s in
           if receipt_fits r epoch episode
           then take_receipts S rs (put_sched rid epoch ((the episode)\<lparr>se_receipt := Some r\<rparr>) s) g
           else (let (d, g1) = drop_row S Recovery_event (PInt (rp_timestamp_ns r)) g in
             case d of Inl e \<Rightarrow> (Inl e, s, g1) | Inr _ \<Rightarrow> take_receipts S rs s g1)))"

definition consume_h2d_receipts ::
  "'g services \<Rightarrow> receipt list \<Rightarrow> bool \<Rightarrow> 'g sched_state \<Rightarrow> unit res \<times> 'g sched_state" where
  "consume_h2d_receipts S receipts exhausted = (\<lambda>(s, b, g).
     if sc_closed s then (Inr (), s, b, g)
     else (let (d, g1) = (if exhausted then drop_row S Recovery_event PNone g else (Inr (), g)) in
       case d of Inl e \<Rightarrow> (Inl e, s, b, g1)
       | Inr _ \<Rightarrow> (let (r, s1, g2) = take_receipts S receipts s g1 in (r, s1, b, g2))))"

section \<open>Wake-up, requeue and admission\<close>

text \<open>The clock is read outside every guard here: its error leaves the operation.\<close>

definition request_admission_started ::
  "'g services \<Rightarrow> int option \<Rightarrow> string \<Rightarrow> int \<Rightarrow> 'g sched_state \<Rightarrow> unit option res \<times> 'g sched_state" where
  "request_admission_started S now rid epoch = (\<lambda>(s, b, g).
     case sched_of rid epoch s of
       None \<Rightarrow> (Inr None, s, b, g)
     | Some ep \<Rightarrow>
         (case se_receipt ep of
            None \<Rightarrow> (Inr None, s, b, g)
          | Some rc \<Rightarrow>
              if sc_closed s \<or> epoch \<noteq> se_recovery_epoch ep \<or> se_admission_started ep \<noteq> None
              then (Inr None, s, b, g)
              else (case now of
                  None \<Rightarrow> (Inl (OSError ''clock''), s, b, g)
                | Some wakeup \<Rightarrow>
                    (let (event, b1, g1) = boundary (admission_started_event rid epoch b) now
                           (\<lambda>t. emit_admission_started (sv_recorder S) rid epoch t b g) b g
                     in case event of
                          None \<Rightarrow> refuse S Recovery_event (PInt (rp_timestamp_ns rc)) (s, b1, g1)
                        | Some e \<Rightarrow>
                            if \<not> (0 \<le> wakeup \<and> wakeup \<le> UINT64_MAX) \<or> wakeup > br_timestamp_ns e
                            then refuse S Recovery_event (PInt (rp_timestamp_ns rc)) (s, b1, g1)
                            else (let (r, g2) = sv_write S Recovery_event (PInt wakeup)
                                    (chain_request ep @ stage_fields ''scheduler_wakeup'' 0 None None
                                       (Some (rp_restore_done_profile_record_id rc)) (Some rc) None
                                       ''WAITING_FOR_REMOTE_KVS'' ''PREEMPTED'') g1
                                  in case r of
                                       Inl x \<Rightarrow> (Inl x, s, b1, g2)
                                     | Inr None \<Rightarrow> (Inr None, s, b1, g2)
                                     | Inr (Some i) \<Rightarrow> (Inr (Some ()), put_sched rid epoch
                                         (ep\<lparr>se_admission_started := Some e, se_wakeup_record := Some i,
                                             se_predecessor := Some i\<rparr>) s, b1, g2))))))"

definition request_requeued ::
  "'g services \<Rightarrow> int option \<Rightarrow> string \<Rightarrow> int \<Rightarrow> string \<Rightarrow> 'g sched_state \<Rightarrow> unit option res \<times> 'g sched_state" where
  "request_requeued S now rid epoch reason = (\<lambda>(s, b, g).
     case sched_of rid epoch s of
       None \<Rightarrow> (Inr None, s, b, g)
     | Some ep \<Rightarrow>
         (case (se_receipt ep, se_wakeup_record ep, se_predecessor ep) of
            (Some rc, Some _, Some predecessor) \<Rightarrow>
              if sc_closed s \<or> epoch \<noteq> se_recovery_epoch ep \<or> se_admission_record ep \<noteq> None
              then (Inr None, s, b, g)
              else (case now of
                  None \<Rightarrow> refuse S Recovery_event PNone (s, b, g)
                | Some t \<Rightarrow>
                    (let (r, g1) = sv_write S Recovery_event (PInt t)
                       (chain_request ep @ stage_fields ''requeue'' (se_requeue_occurrence ep) None None
                          (Some predecessor) (Some rc) (Some reason) ''PREEMPTED'' ''PREEMPTED'') g
                     in case r of
                          Inl x \<Rightarrow> (Inl x, s, b, g1)
                        | Inr None \<Rightarrow> (Inr None, s, b, g1)
                        | Inr (Some i) \<Rightarrow> (Inr (Some ()), put_sched rid epoch
                            (ep\<lparr>se_predecessor := Some i, se_requeue_occurrence := se_requeue_occurrence ep + 1\<rparr>) s,
                            b, g1)))
          | _ \<Rightarrow> (Inr None, s, b, g)))"

text \<open>
  The last part of an admission: the base phase start and the context the worker will report with.
  An error, or no phase start, drops one record at the time of the resumption.
\<close>

definition hand_over_compute ::
  "abi \<Rightarrow> 'g services \<Rightarrow> int option \<Rightarrow> string \<Rightarrow> int \<Rightarrow> string \<Rightarrow> receipt \<Rightarrow> base_ref \<Rightarrow> string \<Rightarrow>
   'g sched_state \<Rightarrow> compute_context option res \<times> 'g sched_state" where
  "hand_over_compute A S now rid epoch kind rc resumed record_id = (\<lambda>(s, b, g).
     let (event, b1, g1) = (case now of None \<Rightarrow> (None, b, g)
           | Some t \<Rightarrow> (let (r, b1, g1) = emit_first_compute (sv_recorder S) rid epoch
                          (max (br_timestamp_ns resumed) t) kind b g
                       in (case r of Inl e \<Rightarrow> None | Inr x \<Rightarrow> x, b1, g1)))
     in case event of
          None \<Rightarrow> refuse S Recovery_event (PInt (br_timestamp_ns resumed)) (s, b1, g1)
        | Some e \<Rightarrow>
            (let c = \<lparr>cc_identity = rp_identity rc, cc_compute_kind = kind,
                      cc_base_phase_start_event_id = br_event_id e, cc_admission_profile_record_id = record_id,
                      cc_transfer_id = rp_transfer_id rc, cc_block_set_id = rp_block_set_id rc,
                      cc_bytes_moved = rp_bytes_moved rc\<rparr>
             in if \<not> ab_compute_context A c
                then refuse S Recovery_event (PInt (br_timestamp_ns resumed)) (s, b1, g1)
                else (Inr (Some c), pop_sched rid epoch s, b1, g1)))"

definition request_admitted ::
  "abi \<Rightarrow> 'g services \<Rightarrow> int option \<Rightarrow> int option \<Rightarrow> string \<Rightarrow> int \<Rightarrow> string \<Rightarrow> int \<Rightarrow> int \<Rightarrow> 'g sched_state \<Rightarrow>
   compute_context option res \<times> 'g sched_state" where
  "request_admitted A S now now2 rid epoch kind total_tokens cached = (\<lambda>(s, b, g).
     case sched_of rid epoch s of
       None \<Rightarrow> (Inr None, s, b, g)
     | Some ep \<Rightarrow>
         (case (se_receipt ep, se_admission_started ep, se_wakeup_record ep, se_predecessor ep) of
            (Some rc, Some admission, Some _, Some predecessor) \<Rightarrow>
              if sc_closed s \<or> epoch \<noteq> se_recovery_epoch ep \<or> se_admission_record ep \<noteq> None \<or>
                 kind \<notin> set COMPUTE_KINDS
              then (Inr None, s, b, g)
              else (let (resumed, b1, g1) = boundary (resumed_event rid epoch b) now
                      (\<lambda>t. emit_runtime_resumed (sv_recorder S) rid epoch t total_tokens cached b g) b g
                in case resumed of
                     None \<Rightarrow> refuse S Recovery_event (PInt (rp_timestamp_ns rc)) (s, b1, g1)
                   | Some e \<Rightarrow>
                       if br_timestamp_ns e < br_timestamp_ns admission
                       then refuse S Recovery_event (PInt (rp_timestamp_ns rc)) (s, b1, g1)
                       else (let (edge, g2) = rc_edge (sv_recorder S)
                              \<lparr>gd_trace_id = ri_trace_id (se_identity ep),
                               gd_from_event_id = rp_communication_done_event_id rc,
                               gd_to_event_id = br_event_id admission, gd_edge_kind = ''data_dependency'',
                               gd_evidence_source = KV_RECOVERY_H2D_EVIDENCE\<rparr> g1
                         in case edge of
                              None \<Rightarrow> refuse S Recovery_event (PInt (rp_timestamp_ns rc)) (s, b1, g2)
                            | Some _ \<Rightarrow>
                                (let (r, g3) = sv_write S Recovery_event (PInt (br_timestamp_ns e))
                                   (chain_request ep @ stage_fields ''admission'' 0 (Some (br_event_id e))
                                      (Some (br_event_id admission)) (Some predecessor) (Some rc) None
                                      ''PREEMPTED'' ''RUNNING'') g2
                                 in case r of
                                      Inl x \<Rightarrow> (Inl x, s, b1, g3)
                                    | Inr None \<Rightarrow> (Inr None, s, b1, g3)
                                    | Inr (Some record_id) \<Rightarrow>
                                        hand_over_compute A S now2 rid epoch kind rc e record_id
                                          (put_sched rid epoch (ep\<lparr>se_admission_record := Some record_id\<rparr>) s, b1, g3))))
          | _ \<Rightarrow> (Inr None, s, b, g)))"

section \<open>Terminal, reset and close\<close>

text \<open>Retiring episodes: one dropped record for each that had written its preempt row.\<close>

fun retire ::
  "'g services \<Rightarrow> ((string \<times> int) \<times> sched_episode) list \<Rightarrow> bool \<Rightarrow> scheduler \<Rightarrow> 'g \<Rightarrow> unit res \<times> scheduler \<times> 'g" where
  "retire S [] pop s g = (Inr (), s, g)"
| "retire S (((rid, epoch), ep) # eps) pop s g =
     (let s1 = (if pop then pop_sched rid epoch s else s);
          (d, g1) = (if se_preempt_record ep \<noteq> None then drop_row S Recovery_event PNone g else (Inr (), g))
      in case d of Inl e \<Rightarrow> (Inl e, s1, g1) | Inr _ \<Rightarrow> retire S eps pop s1 g1)"

definition sched_request_terminal ::
  "'g services \<Rightarrow> int option \<Rightarrow> string \<Rightarrow> string \<Rightarrow> int \<Rightarrow> 'g sched_state \<Rightarrow> unit option res \<times> 'g sched_state" where
  "sched_request_terminal S now rid cause n = (\<lambda>(s, b, g).
     let (r, s1, g1) = retire S (filter (\<lambda>kv. fst (fst kv) = rid) (sc_episodes s)) True s g in
     case r of
       Inl e \<Rightarrow> (Inl e, s1, b, g1)
     | Inr _ \<Rightarrow>
         (let (event, b1, g2) = boundary None now
                (\<lambda>t. emit_runtime_terminal (sv_recorder S) rid cause t n b g1) b g1
          in case event of None \<Rightarrow> refuse S Recovery_event PNone (s1, b1, g2)
             | Some _ \<Rightarrow> (Inr (Some ()), s1, b1, g2)))"

definition sched_reset :: "'g services \<Rightarrow> 'g sched_state \<Rightarrow> unit res \<times> 'g sched_state" where
  "sched_reset S = (\<lambda>(s, b, g).
     let (r, s1, g1) = retire S (sc_episodes s) False s g
     in case r of Inl e \<Rightarrow> (Inl e, s1, b, g1) | Inr _ \<Rightarrow> (Inr (), s1\<lparr>sc_episodes := []\<rparr>, b, g1))"

definition sched_close :: "'g services \<Rightarrow> 'g sched_state \<Rightarrow> unit res \<times> 'g sched_state" where
  "sched_close S = (\<lambda>(s, b, g).
     if sc_closed s then (Inr (), s, b, g)
     else (let (r, s1, b1, g1) = sched_reset S (s, b, g)
       in (r, (case r of Inl e \<Rightarrow> s1 | Inr _ \<Rightarrow> s1\<lparr>sc_closed := True, sc_logical_ids := []\<rparr>), b1, sv_close S g1)))"

end
