(* ===== verification/Worker_Properties.thy ===== *)
theory Worker_Properties
  imports Worker_Adapter
begin

text \<open>
  What the worker adapter records: the rows it writes pass the wire validators, a wait is cut into
  rows that cover it, and a receipt stands for a chain that was recorded in full.
\<close>

section \<open>A trace of the services\<close>

datatype trace_entry =
  T_event event_draft string
| T_edge edge_draft
| T_row profile_type pyval pydict string
| T_drop profile_type

definition traced_recorder :: "'h recorder \<Rightarrow> ('h \<times> trace_entry list) recorder" where
  "traced_recorder R =
     \<lparr>rc_span = (\<lambda>(h, l). let (i, h') = rc_span R h in (i, (h', l))),
      rc_event = (\<lambda>d (h, l). let (r, h') = rc_event R d h
        in (r, (h', case r of None \<Rightarrow> l | Some ref \<Rightarrow> T_event d (rr_record_id ref) # l))),
      rc_edge = (\<lambda>d (h, l). let (r, h') = rc_edge R d h
        in (r, (h', case r of None \<Rightarrow> l | Some _ \<Rightarrow> T_edge d # l)))\<rparr>"

definition traced :: "'h services \<Rightarrow> ('h \<times> trace_entry list) services" where
  "traced S =
     \<lparr>sv_recorder = traced_recorder (sv_recorder S),
      sv_write = (\<lambda>t ts fs (h, l). let (r, h') = sv_write S t ts fs h
        in (r, (h', case r of Inr (Some i) \<Rightarrow> T_row t ts fs i # l | _ \<Rightarrow> l))),
      sv_drop = (\<lambda>t ts reason (h, l). let (r, h') = sv_drop S t ts reason h
        in (r, (h', T_drop t # l))),
      sv_complete = (\<lambda>(h, l). sv_complete S h),
      sv_process_uuid = (\<lambda>(h, l). sv_process_uuid S h),
      sv_clock_domain_id = (\<lambda>(h, l). sv_clock_domain_id S h),
      sv_close = (\<lambda>(h, l). (sv_close S h, l))\<rparr>"

lemma traced_event:
  "rc_event (sv_recorder (traced S)) d (h, l) = (Some ref, g) \<Longrightarrow> \<exists>h'. g = (h', T_event d (rr_record_id ref) # l)"
  by (auto simp: traced_def traced_recorder_def split: prod.splits)

lemma traced_edge:
  "rc_edge (sv_recorder (traced S)) d (h, l) = (Some ref, g) \<Longrightarrow> \<exists>h'. g = (h', T_edge d # l)"
  by (auto simp: traced_def traced_recorder_def split: prod.splits)

lemma traced_row:
  "sv_write (traced S) t ts fs (h, l) = (Inr (Some i), g) \<Longrightarrow> \<exists>h'. g = (h', T_row t ts fs i # l)"
  by (auto simp: traced_def split: prod.splits)

lemma or_give_up_some:
  "or_give_up S ts p f = (Inr (Some x), g) \<Longrightarrow> \<exists>a g1. p = (Some a, g1) \<and> f a g1 = (Inr (Some x), g)"
  by (cases p) (auto simp: or_give_up_def give_up_def Let_def split: option.splits prod.splits sum.splits)

lemma give_up_none: "give_up S t ts h \<noteq> (Inr (Some x), g)"
  by (auto simp: give_up_def Let_def split: prod.splits sum.splits)

lemma closed_communication:
  assumes "close_communication (traced S) a p ts bytes (h, l) = (Inr (Some done_id), g)"
  shows "\<exists>span start h'. wp_span_id p = Some span \<and> wp_start_event_id p = Some start \<and>
    g = (h', T_edge (program_order (ci_trace_id (tx_identity (at_context a))) start done_id) #
      T_event (communication_draft a ''communication_done'' ts None (Some span)
        (communication_metadata a @ [(''bytes_moved'', PInt bytes)])) done_id # l)"
  using assms
  by (auto simp: close_communication_def give_up_none split: option.splits
      dest!: or_give_up_some traced_event traced_edge)

lemma receipt_handed_out:
  assumes "hand_out_receipt S mk a done_event restore_done ts bytes h = (Inr (Some r), g)"
  shows "\<exists>event_id record_id uuid domain. done_event = Some event_id \<and> restore_done = Some record_id \<and>
    sv_process_uuid S h = Some uuid \<and> sv_clock_domain_id S h = Some domain \<and> g = h \<and>
    mk \<lparr>rp_connector_job_id = at_connector_job_id a, rp_transfer_id = at_transfer_id a,
        rp_identity = tx_identity (at_context a), rp_block_set_id = tx_block_set_id (at_context a),
        rp_process_uuid = uuid, rp_clock_domain_id = domain, rp_communication_done_event_id = event_id,
        rp_restore_done_profile_record_id = record_id, rp_timestamp_ns = ts, rp_bytes_moved = bytes\<rparr> = Some r"
  using assms by (auto simp: hand_out_receipt_def give_up_none split: option.splits)

lemma completed_chain:
  assumes "completion_evidence (traced S) mk a p ts bytes duration (h, l) = (Inr (Some r), g)"
  shows "\<exists>span start from_id done_id done_row restore_id h' uuid domain.
    wp_span_id p = Some span \<and> wp_start_event_id p = Some start \<and> wp_restore_start p = Some from_id \<and>
    is_restore a \<and>
    g = (h', T_row Recovery_event (PInt ts) (restore_fields a ''restore_done'' (Some done_id) from_id (Some bytes)) restore_id #
      T_row Transfer_event (PInt ts) (transfer_fields a ''done'' (Some bytes) duration (Some True) None) done_row #
      T_edge (program_order (ci_trace_id (tx_identity (at_context a))) start done_id) #
      T_event (communication_draft a ''communication_done'' ts None (Some span)
        (communication_metadata a @ [(''bytes_moved'', PInt bytes)])) done_id # l) \<and>
    mk \<lparr>rp_connector_job_id = at_connector_job_id a, rp_transfer_id = at_transfer_id a,
        rp_identity = tx_identity (at_context a), rp_block_set_id = tx_block_set_id (at_context a),
        rp_process_uuid = uuid, rp_clock_domain_id = domain, rp_communication_done_event_id = done_id,
        rp_restore_done_profile_record_id = restore_id, rp_timestamp_ns = ts, rp_bytes_moved = bytes\<rparr> = Some r"
proof -
  from assms obtain done_event g1 row g2 where
    c: "(if is_restore a
        then and_then (close_communication (traced S) a p ts bytes (h, l)) (\<lambda>i h. (Inr (Some (Some i)), h))
        else (Inr (Some None), h, l)) = (Inr (Some done_event), g1)"
    and t: "sv_write (traced S) Transfer_event (PInt ts)
        (transfer_fields a ''done'' (Some bytes) duration (Some True) None) g1 = (Inr (Some row), g2)"
    and r: "(if tx_operation (at_context a) = ''d2h_preserve'' then (Inr None, g2)
        else (case wp_restore_start p of
            None \<Rightarrow> (Inr None, g2)
          | Some from_id \<Rightarrow>
              (let (restore_done, h1) = sv_write (traced S) Recovery_event (PInt ts)
                     (restore_fields a ''restore_done'' done_event from_id (Some bytes)) g2
               in (case restore_done of Inl e \<Rightarrow> (Inl e, h1)
                   | Inr record_id \<Rightarrow>
                       hand_out_receipt (traced S) mk a done_event record_id ts bytes h1)))) = (Inr (Some r), g)"
    unfolding completion_evidence_def by (auto dest!: and_then_some)
  from r obtain from_id restore g3 where f: "wp_restore_start p = Some from_id"
    and w: "sv_write (traced S) Recovery_event (PInt ts)
      (restore_fields a ''restore_done'' done_event from_id (Some bytes)) g2 = (Inr restore, g3)"
    and o: "hand_out_receipt (traced S) mk a done_event restore ts bytes g3 = (Inr (Some r), g)"
    by (auto simp: Let_def split: if_splits option.splits prod.splits sum.splits)
  from receipt_handed_out [OF o] obtain done_id restore_id uuid domain where
    d: "done_event = Some done_id" "restore = Some restore_id" "g = g3"
    and m: "mk \<lparr>rp_connector_job_id = at_connector_job_id a, rp_transfer_id = at_transfer_id a,
        rp_identity = tx_identity (at_context a), rp_block_set_id = tx_block_set_id (at_context a),
        rp_process_uuid = uuid, rp_clock_domain_id = domain, rp_communication_done_event_id = done_id,
        rp_restore_done_profile_record_id = restore_id, rp_timestamp_ns = ts, rp_bytes_moved = bytes\<rparr> = Some r"
    by blast
  from c d(1) have restoring: "is_restore a"
    and c': "close_communication (traced S) a p ts bytes (h, l) = (Inr (Some done_id), g1)"
    by (auto split: if_splits dest!: and_then_some)
  from closed_communication [OF c'] obtain span start h1 where
    p: "wp_span_id p = Some span" "wp_start_event_id p = Some start"
    and g1: "g1 = (h1, T_edge (program_order (ci_trace_id (tx_identity (at_context a))) start done_id) #
      T_event (communication_draft a ''communication_done'' ts None (Some span)
        (communication_metadata a @ [(''bytes_moved'', PInt bytes)])) done_id # l)" by blast
  from traced_row [OF t [unfolded g1]] obtain h2 where
    g2: "g2 = (h2, T_row Transfer_event (PInt ts) (transfer_fields a ''done'' (Some bytes) duration (Some True) None) row #
      T_edge (program_order (ci_trace_id (tx_identity (at_context a))) start done_id) #
      T_event (communication_draft a ''communication_done'' ts None (Some span)
        (communication_metadata a @ [(''bytes_moved'', PInt bytes)])) done_id # l)" by blast
  from traced_row [OF w [unfolded d(1,2) g2]] p f restoring m d(3) show ?thesis by blast
qed

text \<open>
  C8. A receipt stands for a recorded chain. The worker hands out a receipt only for a restore it
  had pending under the same attempt and submission time, that succeeded with a positive number of
  bytes and ended after it was submitted; and then it has just recorded, in this order, the end of
  the restore's span, the edge from its start, the completed transfer row and the restore_done row
  that follows the restore_start row. The receipt names exactly these records. The transfer is no
  longer pending, so no second receipt can follow for it.
\<close>
theorem receipt_is_backed:
  assumes "transfer_completed (traced S) Some a submit_ns ts success moved duration w (h, l) =
    (Inr (Some r), w', h', l')"
  shows "\<exists>p bytes span start from_id done_id row restore_id.
    map_of (wk_pending w) (at_transfer_id a) = Some p \<and> wp_attempt p = a \<and> wp_submit_timestamp_ns p = submit_ns \<and>
    success \<and> moved = Some bytes \<and> 0 < bytes \<and> submit_ns < ts \<and> is_restore a \<and>
    wp_span_id p = Some span \<and> wp_start_event_id p = Some start \<and> wp_restore_start p = Some from_id \<and>
    l' = T_row Recovery_event (PInt ts) (restore_fields a ''restore_done'' (Some done_id) from_id (Some bytes)) restore_id #
      T_row Transfer_event (PInt ts) (transfer_fields a ''done'' (Some bytes) duration (Some True) None) row #
      T_edge (program_order (ci_trace_id (tx_identity (at_context a))) start done_id) #
      T_event (communication_draft a ''communication_done'' ts None (Some span)
        (communication_metadata a @ [(''bytes_moved'', PInt bytes)])) done_id # l \<and>
    rp_transfer_id r = at_transfer_id a \<and> rp_communication_done_event_id r = done_id \<and>
    rp_restore_done_profile_record_id r = restore_id \<and> rp_bytes_moved r = bytes \<and> rp_timestamp_ns r = ts \<and>
    map_of (wk_pending w') (at_transfer_id a) = None"
proof -
  have unclosed: "\<not> wk_closed w" using assms by (auto simp: transfer_completed_def)
  then obtain p bytes where p: "map_of (wk_pending w) (at_transfer_id a) = Some p" and m: "moved = Some bytes"
    using assms by (auto simp: transfer_completed_def Let_def give_up_none split: option.splits prod.splits)
  have g: "wp_attempt p = a \<and> wp_submit_timestamp_ns p = submit_ns \<and> success \<and> 0 < bytes \<and> submit_ns < ts"
    using assms unclosed p m
    by (auto simp: transfer_completed_def Let_def give_up_none split: if_splits prod.splits)
  have c: "completion_evidence (traced S) Some a p ts bytes duration (h, l) = (Inr (Some r), h', l')"
    and w: "w' = w\<lparr>wk_pending := AList.delete (at_transfer_id a) (wk_pending w)\<rparr>"
    using assms unclosed p m g by (auto simp: transfer_completed_def Let_def split: prod.splits)
  from completed_chain [OF c] p m g w show ?thesis by (force simp: delete_conv')
qed

section \<open>Samples\<close>

text \<open>Services that take everything and number it.\<close>

definition counting_services :: "int services" where
  "counting_services = \<lparr>sv_recorder = counting,
     sv_write = (\<lambda>t ts fs n. (Inr (Some (id_of (sample_hex CHR ''a'') CHR ''k'' n)), n + 1)),
     sv_drop = (\<lambda>t ts reason n. (Inr n, n + 1)), sv_complete = (\<lambda>n. True),
     sv_process_uuid = (\<lambda>n. Some (sample_hex CHR ''a'')), sv_clock_domain_id = (\<lambda>n. Some (sample_hex CHR ''b'')),
     sv_close = (\<lambda>n. n)\<rparr>"

definition sample_recovery_identity :: recovery_identity where
  "sample_recovery_identity = \<lparr>ci_run_id = sample_hex CHR ''c'', ci_trace_id = sample_hex CHR ''d'', ci_engine_lifecycle_id = sample_hex CHR ''d'' @ '':e:0'',
     ci_runtime_request_id = ''r1'', ci_recovery_epoch = Some 1,
     ci_episode_id = Some (sample_hex CHR ''d'' @ '':e:0:k:1''),
     ci_preempt_profile_record_id = Some (sample_hex CHR ''a'' @ '':k:0''),
     ci_base_preempted_event_id = Some (sample_hex CHR ''a'' @ '':e:3'')\<rparr>"

definition sample_attempt :: attempt where
  "sample_attempt = \<lparr>at_transfer_id = sample_hex CHR ''a'' @ '':t:1'', at_connector_job_id = 4,
     at_context = \<lparr>tx_identity = sample_recovery_identity, tx_operation = ''h2d_restore'',
       tx_block_set_id = sample_hex CHR ''1'' @ sample_hex CHR ''2'', tx_logical_blocks = []\<rparr>\<rparr>"

definition sample_worker :: worker where
  "sample_worker = \<lparr>wk_run_id = sample_hex CHR ''c'', wk_pending = [], wk_closed = False\<rparr>"

definition handed :: "'r option res \<Rightarrow> bool" where
  "handed r = (case r of Inr (Some x) \<Rightarrow> True | _ \<Rightarrow> False)"

lemma sample_receipt:
  "case transfer_submitted (traced counting_services) sample_attempt 5 sample_worker (0, []) of
     (r, w, g) \<Rightarrow> r = Inr () \<and>
       handed (fst (transfer_completed (traced counting_services) Some sample_attempt 5 9 True (Some 64) None w g))"
  by code_simp

lemma receipt_is_backed_witness:
  "\<exists>w g r w' h' l'. transfer_submitted (traced counting_services) sample_attempt 5 sample_worker (0, []) = (Inr (), w, g) \<and>
     transfer_completed (traced counting_services) Some sample_attempt 5 9 True (Some 64) None w g = (Inr (Some r), w', h', l') \<and>
     map_of (wk_pending w') (at_transfer_id sample_attempt) = None"
proof -
  obtain s w g where s: "transfer_submitted (traced counting_services) sample_attempt 5 sample_worker (0, []) = (s, w, g)"
    by (metis surj_pair)
  obtain c w' h' l' where
    c: "transfer_completed (traced counting_services) Some sample_attempt 5 9 True (Some 64) None w g = (c, w', h', l')"
    by (metis surj_pair)
  from sample_receipt s c obtain r where r: "s = Inr ()" "c = Inr (Some r)"
    by (auto simp: handed_def split: sum.splits option.splits)
  have "map_of (wk_pending w') (at_transfer_id sample_attempt) = None"
    using receipt_is_backed [of counting_services sample_attempt 5 9 True "Some 64" None w "fst g" "snd g" r w' h' l'] c r
    by auto
  with s c r show ?thesis by blast
qed

section \<open>The rows pass the wire validators\<close>

lemma chunk_bounds:
  assumes "k < chunk_count width xs" "0 < width"
  shows "1 \<le> length (chunk_of width k xs) \<and> length (chunk_of width k xs) \<le> width"
proof -
  have "Suc k * width \<le> (length xs + width - 1) div width * width"
    using assms(1) by (intro mult_le_mono1) (simp add: chunk_count_def Suc_le_eq)
  also have "\<dots> \<le> length xs + width - 1" by (rule div_times_less_eq_dividend)
  finally show ?thesis using assms(2) by (simp add: chunk_of_def)
qed

lemma chunks_prefix: "concat (map (\<lambda>k. chunk_of width k xs) [0..<n]) = take (n * width) xs"
proof (induction n)
  case (Suc n)
  have "Suc n * width = n * width + width" by simp
  then show ?case using Suc by (simp only: take_add) (simp add: chunk_of_def)
qed simp

lemma chunks_cover:
  assumes "0 < width"
  shows "concat (map (\<lambda>k. chunk_of width k xs) [0..<chunk_count width xs]) = xs"
proof -
  have "length xs + width - 1 < chunk_count width xs * width + width"
    using assms dividend_less_div_times [of width "length xs + width - 1"] by (simp add: chunk_count_def)
  then have "length xs \<le> chunk_count width xs * width" using assms by linarith
  then show ?thesis by (simp add: chunks_prefix)
qed

lemma wait_members_valid:
  assumes "sorted_wrt (<) ids" "list_all (\<lambda>i. id_pattern CHR ''t'' i \<and> prefix (u @ '':t:'') i) ids"
    and "\<forall>p. previous = Some p \<longrightarrow> (\<forall>i \<in> set ids. p < i)"
  shows "check_wait_members u previous (map PStr ids) = None"
  using assms
proof (induction ids arbitrary: previous)
  case (Cons i ids)
  then have "check_wait_members u (Some i) (map PStr ids) = None" by auto
  moreover have "str_val (id_pattern CHR ''t'') (PStr i)" "prefix (u @ '':t:'') (str_of (PStr i))"
    "\<not> (\<exists>p \<in> set_option previous. str_of (PStr i) \<le> p)"
    using Cons.prems by (auto simp: str_val_def str_of_def not_le)
  ultimately show ?case by (simp add: fails_def first_error_None str_of_def)
qed simp

text \<open>
  A wait is recorded whole. The rows the worker writes for a wait on transfers of its process
  cut the transfer list into consecutive chunks of at most 64 whose concatenation is the list, they
  agree on the identity, the count and the total, and each of them passes the wire validator.
\<close>
theorem wait_rows_cover_the_wait:
  assumes "sorted_wrt (<) ids" "list_all (\<lambda>i. id_pattern CHR ''t'' i \<and> prefix (u @ '':t:'') i) ids"
    and "int (length ids) \<le> MAX_TRANSFER_IDS_PER_WAIT_SET"
  shows "list_all (\<lambda>f. validate_wait_fields f u = None) (wait_rows run u ids) \<and>
    concat (map (\<lambda>f. map str_of (list_of (dget f ''transfer_ids''))) (wait_rows run u ids)) = ids \<and>
    map (\<lambda>f. dget f ''chunk_index'') (wait_rows run u ids) = map (PInt \<circ> int) [0..<length (wait_rows run u ids)] \<and>
    list_all (\<lambda>f. dget f ''wait_set_id'' = PStr (wait_set_id_of run u ids)) (wait_rows run u ids)"
proof -
  let ?rows = "wait_rows run u ids"
  have n: "length ?rows = chunk_count 64 ids" by (simp add: wait_rows_def)
  have d: "dget (wait_fields w ids k) ''operation'' = PStr ''transfer_wait''"
    "dget (wait_fields w ids k) ''wait_set_id'' = PStr w" "dget (wait_fields w ids k) ''chunk_index'' = PInt (int k)"
    "dget (wait_fields w ids k) ''chunk_count'' = PInt (int (chunk_count 64 ids))"
    "dget (wait_fields w ids k) ''total_transfer_count'' = PInt (int (length ids))"
    "dget (wait_fields w ids k) ''transfer_ids'' = PList (map PStr (chunk_of 64 k ids))" for w k
    by (simp_all add: wait_fields_def dget_def)
  have m: "check_wait_members u None (map PStr (chunk_of 64 k ids)) = None" for k
    using assms(1,2) by (intro wait_members_valid)
      (auto simp: chunk_of_def list_all_iff sorted_wrt_take sorted_wrt_drop dest: in_set_takeD in_set_dropD)
  have "chunk_count 64 ids \<le> length ids" "length ids \<le> 4096"
    using assms(3) by (auto simp: chunk_count_def MAX_TRANSFER_IDS_PER_WAIT_SET_def)
  then have "validate_wait_fields (wait_fields (wait_set_id_of run u ids) ids k) u = None" if "k < chunk_count 64 ids" for k
    using that assms(3) chunk_bounds [OF that] m [of k]
    by (auto simp: validate_wait_fields_def d accept_simps validate_chunk_def need_uint_def is_uint_def int_val_def
        need_hex_def str_val_def wait_set_id_of_def sha256_hex_is_hex eq_str_def UINT32_MAX_def)
  then have "list_all (\<lambda>f. validate_wait_fields f u = None) ?rows"
    by (auto simp: wait_rows_def list_all_iff)
  moreover have "concat (map (\<lambda>f. map str_of (list_of (dget f ''transfer_ids''))) ?rows) = ids"
    using chunks_cover [of 64 ids] by (simp add: wait_rows_def d comp_def str_of_def)
  ultimately show ?thesis by (auto simp: wait_rows_def d list_all_iff comp_def)
qed

lemma wait_rows_cover_the_wait_witness:
  "list_all (\<lambda>f. validate_wait_fields f (sample_hex CHR ''a'') = None)
     (wait_rows (sample_hex CHR ''c'') (sample_hex CHR ''a'') [sample_hex CHR ''a'' @ '':t:1'', sample_hex CHR ''a'' @ '':t:2''])"
proof -
  let ?ids = "[sample_hex CHR ''a'' @ '':t:1'', sample_hex CHR ''a'' @ '':t:2'']"
  have "sorted_wrt (<) ?ids" "list_all (\<lambda>i. id_pattern CHR ''t'' i \<and> prefix (sample_hex CHR ''a'' @ '':t:'') i) ?ids"
    by code_simp+
  from wait_rows_cover_the_wait [OF this, of "sample_hex CHR ''c''"] show ?thesis
    by (simp add: MAX_TRANSFER_IDS_PER_WAIT_SET_def)
qed

text \<open>The identity a transfer carries, as the runtime builds it.\<close>

definition identity_ok :: "recovery_identity \<Rightarrow> bool" where
  "identity_ok i \<longleftrightarrow> is_hex 32 (ci_trace_id i) \<and> ci_engine_lifecycle_id i = ci_trace_id i @ '':e:0'' \<and>
     is_bounded_printable_ascii (ci_runtime_request_id i) MAX_RUNTIME_REQUEST_ID_BYTES \<and>
     (case ci_recovery_epoch i of None \<Rightarrow> ci_episode_id i = None
      | Some e \<Rightarrow> 1 \<le> e \<and> e \<le> UINT32_MAX \<and> ci_episode_id i = Some (id_of (ci_engine_lifecycle_id i) CHR ''k'' e))"

definition attempt_ok :: "string \<Rightarrow> attempt \<Rightarrow> bool" where
  "attempt_ok u a \<longleftrightarrow> identity_ok (tx_identity (at_context a)) \<and> id_pattern CHR ''t'' (at_transfer_id a) \<and>
     prefix (u @ '':t:'') (at_transfer_id a) \<and> 0 \<le> at_connector_job_id a \<and> at_connector_job_id a \<le> UINT64_MAX \<and>
     tx_operation (at_context a) \<in> set [''d2h_preserve'', ''h2d_restore''] \<and> is_hex 64 (tx_block_set_id (at_context a))"

lemma request_part_valid:
  assumes "identity_ok i"
  shows "validate_request_fields (worker_request_fields i @ rest) = None"
proof -
  let ?f = "worker_request_fields i @ rest"
  have d: "dget ?f ''trace_id'' = PStr (ci_trace_id i)" "dget ?f ''sample_index'' = PInt 0"
    "dget ?f ''engine_lifecycle_id'' = PStr (ci_engine_lifecycle_id i)"
    "dget ?f ''runtime_request_id'' = PStr (ci_runtime_request_id i)"
    "dget ?f ''request_id_kind'' = PStr ''engine_internal''"
    "dget ?f ''recovery_epoch'' = opt_pint (ci_recovery_epoch i)"
    "dget ?f ''episode_id'' = opt_pstr (ci_episode_id i)"
    by (simp_all add: worker_request_fields_def dget_def)
  show ?thesis
    using assms
    by (auto simp: validate_request_fields_def d accept_simps identity_ok_def need_hex_def need_uint_def
        is_uint_def str_val_def eq_str_def str_of_def need_ascii_def is_bounded_printable_ascii_def
        opt_pint_def opt_pstr_def int_val_def UINT32_MAX_def split: option.splits)
qed

lemma transfer_part:
  "dget (transfer_fields a ph by du su fa) ''transfer_id'' = PStr (at_transfer_id a)"
  "dget (transfer_fields a ph by du su fa) ''connector_job_id'' = PInt (at_connector_job_id a)"
  "dget (transfer_fields a ph by du su fa) ''rank'' = PInt 0"
  "dget (transfer_fields a ph by du su fa) ''world_size'' = PInt 1"
  "dget (transfer_fields a ph by du su fa) ''operation'' = PStr (tx_operation (at_context a))"
  "dget (transfer_fields a ph by du su fa) ''direction'' = PStr (if is_restore a then ''h2d'' else ''d2h'')"
  "dget (transfer_fields a ph by du su fa) ''src_medium'' = PStr (if is_restore a then ''host_cpu'' else ''device_hbm'')"
  "dget (transfer_fields a ph by du su fa) ''dst_medium'' = PStr (if is_restore a then ''device_hbm'' else ''host_cpu'')"
  "dget (transfer_fields a ph by du su fa) ''block_set_id'' = PStr (tx_block_set_id (at_context a))"
  "dget (transfer_fields a ph by du su fa) ''transfer_phase'' = PStr ph"
  "dget (transfer_fields a ph by du su fa) ''bytes_moved'' = opt_pint by"
  "dget (transfer_fields a ph by du su fa) ''device_duration_ns'' = opt_pint du"
  "dget (transfer_fields a ph by du su fa) ''success'' = (case su of None \<Rightarrow> PNone | Some b \<Rightarrow> PBool b)"
  "dget (transfer_fields a ph by du su fa) ''failure_code'' = opt_pstr fa"
  by (simp_all add: transfer_fields_def worker_request_fields_def dget_def)

lemma transfer_request:
  "identity_ok (tx_identity (at_context a)) \<Longrightarrow> validate_request_fields (transfer_fields a ph by du su fa) = None"
  by (simp add: transfer_fields_def request_part_valid)

lemma transfer_roster: "keys_are (transfer_fields a ph by du su fa) (profile_fields_of Transfer_event)"
  by (auto simp: keys_are_def transfer_fields_def worker_request_fields_def profile_fields_of_def
      REQUEST_FIELDS_def TRANSFER_FIELDS_def)

lemma transfer_head:
  assumes "attempt_ok u a"
  defines "f \<equiv> \<lambda>ph by du su fa. transfer_fields a ph by du su fa"
  shows "str_val (id_pattern CHR ''t'') (dget (f ph by du su fa) ''transfer_id'')"
    "prefix (u @ '':t:'') (str_of (dget (f ph by du su fa) ''transfer_id''))"
    "need_uint (dget (f ph by du su fa) ''connector_job_id'') UINT64_MAX ''connector_job_id'' = None"
    "need_member (dget (f ph by du su fa) ''operation'') [''d2h_preserve'', ''h2d_restore''] e = None"
    "map_of TRANSFER_ROUTES (str_of (dget (f ph by du su fa) ''operation'')) =
       Some (if is_restore a then ''h2d'' else ''d2h'', if is_restore a then ''host_cpu'' else ''device_hbm'',
             if is_restore a then ''device_hbm'' else ''host_cpu'')"
    "need_hex (dget (f ph by du su fa) ''block_set_id'') 64 ''block_set_id'' = None"
  using assms(1)
  by (auto simp: f_def transfer_part attempt_ok_def str_val_def str_of_def need_uint_def is_uint_def fails_def
      need_hex_def need_member_def TRANSFER_ROUTES_def is_restore_def)

lemmas outcome_simps = transfer_part accept_simps eq_str_def opt_pint_def opt_pstr_def need_uint_def
  is_uint_def int_val_def need_member_def

text \<open>
  The transfer rows of the worker are well formed: for an attempt of its process with a
  well-formed identity, the submission, the successful completion with a positive number of bytes
  and the cancellation all have exactly the fields of the transfer roster and pass the request and
  transfer validators, for both directions.
\<close>
theorem transfer_rows_are_valid:
  assumes "attempt_ok u a" "0 < bytes" "bytes \<le> UINT64_MAX" "\<forall>n. duration = Some n \<longrightarrow> 0 < n \<and> n \<le> UINT64_MAX"
    and "fs \<in> {transfer_fields a ''submit'' None None None None,
      transfer_fields a ''done'' (Some bytes) duration (Some True) None,
      transfer_fields a ''done'' None None (Some False) (Some ''cancelled'')}"
  shows "keys_are fs (profile_fields_of Transfer_event) \<and> validate_request_fields fs = None \<and>
    validate_transfer_fields fs u = None"
proof -
  have r: "validate_request_fields fs = None" and k: "keys_are fs (profile_fields_of Transfer_event)"
    using assms(1,5) by (auto simp: attempt_ok_def transfer_request transfer_roster)
  consider "fs = transfer_fields a ''submit'' None None None None"
    | "fs = transfer_fields a ''done'' (Some bytes) duration (Some True) None"
    | "fs = transfer_fields a ''done'' None None (Some False) (Some ''cancelled'')"
    using assms(5) by blast
  then have "validate_transfer_fields fs u = None"
  proof cases
    case 1
    with transfer_head [OF assms(1)] show ?thesis
      unfolding validate_transfer_fields_def by (simp add: outcome_simps)
  next
    case 2
    with transfer_head [OF assms(1)] assms(2-4) show ?thesis
      unfolding validate_transfer_fields_def by (cases duration) (simp_all add: outcome_simps)
  next
    case 3
    with transfer_head [OF assms(1)] show ?thesis
      unfolding validate_transfer_fields_def by (simp add: outcome_simps FAILURE_CODES_def)
  qed
  with r k show ?thesis by blast
qed

lemma transfer_rows_are_valid_witness:
  "validate_transfer_fields (transfer_fields sample_attempt ''done'' (Some 64) (Some 7) (Some True) None) (sample_hex CHR ''a'') = None"
proof -
  have "attempt_ok (sample_hex CHR ''a'') sample_attempt" by code_simp
  from transfer_rows_are_valid [OF this, of 64 "Some 7"] show ?thesis by (simp add: UINT64_MAX_def)
qed

end
