(* ===== verification/Bridge_Frame.thy ===== *)
theory Bridge_Frame
  imports Scheduler_Adapter Worker_Properties
begin

text \<open>
  What the bridge cannot touch. The bridge reaches the hooks only through its recorder, so whatever
  the three operations of the recorder preserve, every operation of the bridge preserves. The locale
  \<open>recorder_frame\<close> states this for a preorder on the states of the hooks; it is interpreted on the
  ledger, which the bridge leaves alone, on the trace of the services, to which the bridge adds no
  profile row, and on the log of the recordings, which only grows. The last serves the property of a
  request that ends between its admission and its first compute.
\<close>

locale recorder_frame =
  fixes R :: "'h recorder" and ext :: "'h \<Rightarrow> 'h \<Rightarrow> bool"
  assumes ext_refl: "ext h h"
    and ext_trans: "ext h1 h2 \<Longrightarrow> ext h2 h3 \<Longrightarrow> ext h1 h3"
    and ext_span: "ext h (snd (rc_span R h))"
    and ext_event: "ext h (snd (rc_event R d h))"
    and ext_edge: "ext h (snd (rc_edge R e h))"
begin

lemma called_ext:
  "ext h g \<Longrightarrow> ext h (snd (called (rc_span R g)))"
  "ext h g \<Longrightarrow> ext h (snd (called (rc_event R d g)))"
  "ext h g \<Longrightarrow> ext h (snd (called (rc_edge R e g)))"
  by (auto simp: called_def intro: ext_trans ext_span ext_event ext_edge)

lemma direct_ext:
  "ext h g \<Longrightarrow> ext h (snd (rc_span R g))"
  "ext h g \<Longrightarrow> ext h (snd (rc_event R d g))"
  "ext h g \<Longrightarrow> ext h (snd (rc_edge R e g))"
  by (auto intro: ext_trans ext_span ext_event ext_edge)

lemma built_ext: "ext h g \<Longrightarrow> ext h (snd (built r g))"
  by (simp add: built_def)

lemma value_ext: "ext h g \<Longrightarrow> ext h (snd (x, g))"
  by simp

lemma and_then_ext:
  "ext h (snd p) \<Longrightarrow> (\<And>a g. ext h g \<Longrightarrow> ext h (snd (f a g))) \<Longrightarrow> ext h (snd (and_then p f))"
  by (simp add: and_then_def split: sum.splits option.splits)

lemma commit_ext: "ext h (snd p) \<Longrightarrow> ext h (snd (snd (commit p b f)))"
  by (auto simp: commit_def Let_def split: sum.splits option.splits prod.splits)

lemma if_ext: "ext h (snd x) \<Longrightarrow> ext h (snd y) \<Longrightarrow> ext h (snd (if c then x else y))"
  by simp

lemmas ext_intros = ext_refl called_ext direct_ext built_ext and_then_ext commit_ext

lemma register_ext: "ext h (snd (snd (register_runtime_request R run_id rid t b h)))"
  by (auto simp: register_runtime_request_def split: sum.splits option.splits prod.splits intro!: ext_intros)

lemma prefill_to_decode_ext: "ext h (snd (prefill_to_decode R st active span t h))"
  unfolding prefill_to_decode_def Let_def
  by (auto split: prod.splits intro!: ext_intros) (metis direct_ext ext_refl snd_conv)

lemma start_phase_ext: "ext h (snd (start_phase R st kind n c t h))"
  unfolding start_phase_def Let_def
  by (auto split: prod.splits intro!: ext_intros) (metis direct_ext ext_refl snd_conv)

lemma scheduled_ext: "ext h (snd (snd (emit_runtime_scheduled R rid t kind n m c b h)))"
  unfolding emit_runtime_scheduled_def Let_def
  by (auto split: option.splits intro!: commit_ext prefill_to_decode_ext start_phase_ext ext_refl)

lemma preempted_and_requeued_ext: "ext h (snd (snd (emit_preempted_and_requeued R rid epoch t a s n m b h)))"
  unfolding emit_preempted_and_requeued_def
  by (auto split: option.splits prod.splits intro!: ext_intros)

lemma preempted_ext: "ext h (snd (snd (emit_runtime_preempted R rid epoch t b h)))"
  unfolding emit_runtime_preempted_def Let_def
  by (auto split: option.splits prod.splits sum.splits intro!: ext_refl)
     (metis preempted_and_requeued_ext snd_conv)+

lemma admission_ext: "ext h (snd (snd (emit_admission_started R rid epoch t b h)))"
  unfolding emit_admission_started_def
  by (auto split: option.splits prod.splits intro!: ext_intros)

lemma emit_resumed_ext: "ext h (snd (snd (emit_resumed R rid epoch t n c m b h)))"
  unfolding emit_resumed_def
  by (auto split: option.splits prod.splits intro!: ext_intros)

lemma resumed_ext: "ext h (snd (snd (emit_runtime_resumed R rid epoch t n c b h)))"
  unfolding emit_runtime_resumed_def Let_def
  by (auto split: option.splits prod.splits sum.splits intro!: ext_refl) (metis emit_resumed_ext snd_conv)+

lemma first_compute_ext: "ext h (snd (snd (emit_first_compute R rid epoch t kind b h)))"
  unfolding emit_first_compute_def
  by (auto split: option.splits prod.splits intro!: ext_intros)

lemma finish_abnormally_ext: "ext h (snd (finish_abnormally R st e cause t h))"
  unfolding finish_abnormally_def Let_def
  by (auto intro!: ext_intros)

lemma edge_ext: "rc_edge R e g = (x, g1) \<Longrightarrow> ext h g \<Longrightarrow> ext h g1"
  by (metis direct_ext(3) snd_conv)

lemma finish_generation_ext: "ext h (snd (finish_generation R st cause t n h))"
  unfolding finish_generation_def Let_def
  by (auto split: option.splits prod.splits intro!: ext_intros) (blast intro: edge_ext)+

lemma terminal_ext: "ext h (snd (snd (emit_runtime_terminal R rid cause t n b h)))"
  unfolding emit_runtime_terminal_def Let_def
  by (auto split: option.splits prod.splits sum.splits intro!: ext_refl)
     (metis finish_generation_ext finish_abnormally_ext snd_conv)+

lemmas bridge_ext = register_ext scheduled_ext preempted_ext admission_ext resumed_ext first_compute_ext terminal_ext

end

section \<open>The ledger\<close>

interpretation ledger_frame: recorder_frame "sv_recorder (paired_services closing)" "\<lambda>g g'. fst g' = fst g"
  by unfold_locales (auto simp: paired_services_def over_hooks_def Let_def split: prod.splits)

section \<open>The trace of the services\<close>

fun recovery_row :: "trace_entry \<Rightarrow> bool" where
  "recovery_row (T_row t ts fs i) = (t = Recovery_event)"
| "recovery_row _ = False"

text \<open>\<open>quietly g g'\<close>: only entries that are no recovery row were added to the trace.\<close>

definition quietly :: "'h \<times> trace_entry list \<Rightarrow> 'h \<times> trace_entry list \<Rightarrow> bool" where
  "quietly g g' \<longleftrightarrow> (\<exists>xs. snd g' = xs @ snd g \<and> list_all (\<lambda>x. \<not> recovery_row x) xs)"

interpretation traced_frame: recorder_frame "sv_recorder (traced S)" quietly
proof unfold_locales
  fix h1 h2 h3 :: "'a \<times> trace_entry list"
  assume "quietly h1 h2" "quietly h2 h3"
  then obtain xs ys where "snd h2 = xs @ snd h1" "list_all (\<lambda>x. \<not> recovery_row x) xs"
    "snd h3 = ys @ snd h2" "list_all (\<lambda>x. \<not> recovery_row x) ys" unfolding quietly_def by blast
  then show "quietly h1 h3" unfolding quietly_def by (intro exI [of _ "ys @ xs"]) simp
next
  fix h :: "'a \<times> trace_entry list" and d :: event_draft
  show "quietly h (snd (rc_event (sv_recorder (traced S)) d h))"
    by (cases h) (auto simp: quietly_def traced_def traced_recorder_def split: prod.splits option.splits)
qed (auto simp: quietly_def traced_def traced_recorder_def split: prod.splits option.splits)

section \<open>The log\<close>

text \<open>\<open>longer g g'\<close>: entries were added to the log, and none removed.\<close>

definition longer :: "'h \<times> entry list \<Rightarrow> 'h \<times> entry list \<Rightarrow> bool" where
  "longer g g' \<longleftrightarrow> suffix (snd g) (snd g')"

interpretation log_frame: recorder_frame "logged R" longer for R :: "'h recorder"
proof unfold_locales
  fix h1 h2 h3 :: "'h \<times> entry list"
  show "longer h1 h2 \<Longrightarrow> longer h2 h3 \<Longrightarrow> longer h1 h3" by (auto simp: longer_def)
qed (auto simp: longer_def logged_def suffix_def split: prod.splits option.splits)

lemma call_longer: "longer g (snd (snd (run_call (logged R) c b g)))"
  by (cases c) (simp_all add: void_def log_frame.bridge_ext)

lemma calls_longer: "run_calls (logged R) cs b g = (rs, b', g') \<Longrightarrow> longer g g'"
proof (induction cs arbitrary: b g rs)
  case (Cons c cs)
  obtain r b1 g1 where c: "run_call (logged R) c b g = (r, b1, g1)" by (metis prod_cases3)
  with Cons.prems obtain rs1 where "run_calls (logged R) cs b1 g1 = (rs1, b', g')" by (auto split: prod.splits)
  then have "longer g1 g'" by (rule Cons.IH)
  moreover have "longer g g1" using call_longer [of g R c b] c by simp
  ultimately show ?case by (auto simp: longer_def)
qed (simp add: longer_def)

section \<open>An admitted request that computes nothing yet\<close>

definition awaiting :: "string \<Rightarrow> int \<Rightarrow> string \<Rightarrow> string \<Rightarrow> bool \<Rightarrow> bridge \<Rightarrow> bool" where
  "awaiting rid epoch q s resumed b \<longleftrightarrow>
     (\<exists>st. map_of (bg_states b) rid = Some st \<and> rs_active_started st = None \<and> rs_active_span_id st = None \<and>
       rs_queue_span_id st = q) \<and>
     (\<exists>ep. map_of (bg_episodes b) (rid, epoch) = Some ep \<and> ep_admission_started ep \<noteq> None \<and>
       ep_admission_span_id ep = Some s \<and> (ep_resumed ep \<noteq> None \<longrightarrow> resumed))"

fun starts_or_ends :: "string \<Rightarrow> bridge_call \<Rightarrow> bool" where
  "starts_or_ends rid (Scheduled r t kind n total_tokens cached) = (r = rid)"
| "starts_or_ends rid (Compute r epoch t kind) = (r = rid)"
| "starts_or_ends rid (Terminal r cause t n) = (r = rid)"
| "starts_or_ends rid _ = False"

fun resumes :: "string \<Rightarrow> bridge_call \<Rightarrow> bool" where
  "resumes rid (Resume r epoch t total_tokens cached) = (r = rid)"
| "resumes rid _ = False"

lemma committed_change:
  "commit p b f = (r, b', h') \<Longrightarrow> b' = b \<or> (\<exists>a. b' = snd (f a))"
  by (auto simp: commit_def Let_def split: sum.splits option.splits prod.splits) (metis snd_conv)+

lemma awaiting_put:
  "awaiting rid e q s x b \<Longrightarrow> r \<noteq> rid \<Longrightarrow> awaiting rid e q s x (put_state r st b)"
  "awaiting rid e q s x b \<Longrightarrow> (r, e') \<noteq> (rid, e) \<Longrightarrow> awaiting rid e q s x (put_episode r e' ep b)"
  "awaiting rid e q s x b \<Longrightarrow> r \<noteq> rid \<Longrightarrow> awaiting rid e q s x (put_episode r e' ep b)"
  by (auto simp: awaiting_def put_state_def put_episode_def update_conv')

lemma awaiting_register:
  assumes "register_runtime_request R run r t b h = (res, b', h')" "awaiting rid e q s x b"
  shows "awaiting rid e q s x b'"
  using assms
  by (auto simp: register_runtime_request_def awaiting_def update_conv' dest!: committed_change
      split: if_splits sum.splits option.splits)

lemma awaiting_scheduled:
  assumes "emit_runtime_scheduled R r t kind n total_tokens cached b h = (res, b', h')"
    "awaiting rid e q s x b" "r \<noteq> rid"
  shows "awaiting rid e q s x b'"
  using assms
  by (auto simp: emit_runtime_scheduled_def Let_def intro: awaiting_put dest!: committed_change
      split: if_splits option.splits)

lemma awaiting_preempted:
  assumes "emit_runtime_preempted R r e' t b h = (res, b', h')" "awaiting rid e q s x b"
  shows "awaiting rid e q s x b'"
proof (cases "r = rid")
  case True
  then show ?thesis using assms by (auto simp: emit_runtime_preempted_def awaiting_def)
next
  case False
  have "awaiting rid e q s x b1" if "emit_preempted_and_requeued R r e' t a sp n k b h = (r1, b1, h1)" for a sp n k r1 b1 h1
    using that assms(2) False
    by (auto simp: emit_preempted_and_requeued_def intro: awaiting_put dest!: committed_change
        split: if_splits option.splits)
  then show ?thesis using assms False
    by (auto simp: emit_runtime_preempted_def Let_def intro: awaiting_put split: option.splits sum.splits prod.splits)
qed

lemma awaiting_admission:
  assumes "emit_admission_started R r e' t b h = (res, b', h')" "awaiting rid e q s x b"
  shows "awaiting rid e q s x b'"
proof (cases "(r, e') = (rid, e)")
  case True
  then show ?thesis using assms by (auto simp: emit_admission_started_def awaiting_def split: option.splits)
next
  case False
  then show ?thesis using assms
    by (auto simp: emit_admission_started_def intro: awaiting_put dest!: committed_change
        split: if_splits option.splits)
qed

lemma awaiting_resumed:
  assumes "emit_runtime_resumed R r e' t total_tokens cached b h = (res, b', h')" "awaiting rid e q s x b"
    "r = rid \<Longrightarrow> x"
  shows "awaiting rid e q s x b'"
proof -
  have 1: "awaiting rid e q s x (put_episode r e' (ep\<lparr>ep_resumed := y\<rparr>) b)"
    if "map_of (bg_episodes b) (r, e') = Some ep" for ep y
    using that assms(2,3) by (auto simp: awaiting_def put_episode_def update_conv')
  have 2: "awaiting rid e q s x b1" if "emit_resumed R r e' t n m k b h = (r1, b1, h1)" for n m k r1 b1 h1
    using that assms(2) 1
    by (auto simp: emit_resumed_def dest!: committed_change split: if_splits option.splits)
  have 3: "awaiting rid e q s x (put_state r (st\<lparr>rs_prompt_tokens_computed := n\<rparr>) b1)"
    if "awaiting rid e q s x b1" "map_of (bg_states b1) r = Some st" for b1 st n
    using that by (auto simp: awaiting_def put_state_def update_conv')
  show ?thesis using assms(1,2)
    by (auto simp: emit_runtime_resumed_def Let_def intro: 3 dest: 2 split: if_splits option.splits sum.splits prod.splits)
qed

lemma awaiting_compute:
  assumes "emit_first_compute R r e' t kind b h = (res, b', h')" "awaiting rid e q s x b" "r \<noteq> rid"
  shows "awaiting rid e q s x b'"
  using assms
  by (auto simp: emit_first_compute_def Let_def intro!: awaiting_put(1,3) dest!: committed_change
      split: if_splits option.splits)

lemma awaiting_terminal:
  assumes "emit_runtime_terminal R r cause t n b h = (res, b', h')" "awaiting rid e q s x b" "r \<noteq> rid"
  shows "awaiting rid e q s x b'"
proof -
  have "awaiting rid e q s x (request_terminal r b)"
    using assms(2,3) by (simp add: awaiting_def request_terminal_def delete_conv' map_of_other_requests)
  then show ?thesis using assms
    by (auto simp: emit_runtime_terminal_def Let_def split: if_splits option.splits sum.splits prod.splits)
qed

lemma awaiting_call:
  assumes "run_call R c b h = (r, b', h')" "awaiting rid e q s x b" "\<not> starts_or_ends rid c" "resumes rid c \<Longrightarrow> x"
  shows "awaiting rid e q s x b'"
proof -
  have v: "\<exists>r'. p = (r', b', h')" if "void p = (r, b', h')" for p :: "'c option res \<times> bridge \<times> 'a"
    using that by (cases p) (auto simp: void_def)
  show ?thesis using assms
    by (cases c) (auto dest!: v intro: awaiting_register awaiting_scheduled awaiting_preempted awaiting_admission
        awaiting_resumed awaiting_compute awaiting_terminal)
qed

lemma awaiting_calls:
  assumes "run_calls R cs b h = (rs, b', h')" "awaiting rid e q s x b" "list_all (\<lambda>c. \<not> starts_or_ends rid c) cs"
    "list_ex (resumes rid) cs \<Longrightarrow> x"
  shows "awaiting rid e q s x b'"
  using assms
proof (induction cs arbitrary: b h rs)
  case (Cons c cs)
  obtain r b1 h1 where c: "run_call R c b h = (r, b1, h1)" by (metis prod_cases3)
  with Cons.prems obtain rs1 where "run_calls R cs b1 h1 = (rs1, b', h')" by (auto split: prod.splits)
  moreover have "awaiting rid e q s x b1" using awaiting_call [OF c] Cons.prems by simp
  ultimately show ?case using Cons.IH Cons.prems by simp
qed simp

lemma logged_new_span:
  "called (rc_span (logged R) (h, l)) = (Inr (Some s), h', l') \<Longrightarrow> l' = l \<and> fst (rc_span R h) = Some s"
  by (auto simp: called_def logged_def split: prod.splits)

lemma admission_awaits:
  assumes "emit_admission_started (logged R) rid epoch t b (h, l) = (Inr (Some adm), b1, h1, l1)"
    and "map_of (bg_states b) rid = Some st" "rs_active_started st = None" "rs_active_span_id st = None"
    and "map_of (bg_episodes b) (rid, epoch) = Some ep" "ep_queue_span_id ep = rs_queue_span_id st"
    and "ep_resumed ep \<noteq> None \<Longrightarrow> x"
  shows "\<exists>da s. fst (rc_span R h) = Some s \<and> Event_entry da (br_event_id adm) \<in> set l1 \<and>
    ed_end_span_id da = Some (rs_queue_span_id st) \<and> ed_start_span_id da = Some s \<and>
    awaiting rid epoch (rs_queue_span_id st) s x b1"
  using assms
  by (auto simp: emit_admission_started_def awaiting_def put_episode_def update_conv'
      dest!: and_then_some commit_some logged_new_span logged_event logged_edge built_some
      split: option.splits if_splits) (rule exI, rule conjI, rule disjI1, rule refl, simp)

text \<open>
  C23. A request that ends abnormally between its admission and its first compute reports the wrong
  span. Take a request that waits for admission, and hooks that do not hand out its queue span's id
  once more. The admission event ends the queue span and starts another, the admission span. Whatever
  calls follow, of this request or of others, short of one that starts its compute or ends it, an
  abnormal terminal then lists exactly the queue span, already ended, as the one it closes, and
  leaves out the admission span, which the bridge itself still holds open unless the request was
  resumed in between. (The runtime contract asks for every open span of the lifecycle and no other.)
\<close>
theorem terminal_after_admission_closes_an_ended_span:
  assumes "map_of (bg_states b) rid = Some st" "rs_active_started st = None" "rs_active_span_id st = None"
    and "map_of (bg_episodes b) (rid, epoch) = Some ep" "ep_queue_span_id ep = rs_queue_span_id st" "ep_resumed ep = None"
    and "fst (rc_span R h) \<noteq> Some (rs_queue_span_id st)"
    and "emit_admission_started (logged R) rid epoch t b (h, l) = (Inr (Some adm), b1, h1, l1)"
    and "run_calls (logged R) cs b1 (h1, l1) = (rs, b2, h2, l2)" "list_all (\<lambda>c. \<not> starts_or_ends rid c) cs"
    and "map_of TERMINAL_CAUSES cause = Some name" "name \<noteq> ''generation_done''"
    and "emit_runtime_terminal (logged R) rid cause t' n b2 (h2, l2) = (Inr (Some ended), b3, h3, l3)"
  shows "\<exists>da d g admission_span.
    Event_entry da (br_event_id adm) \<in> set l2 \<and>
    ed_end_span_id da = Some (rs_queue_span_id st) \<and> ed_start_span_id da = Some admission_span \<and>
    admission_span \<noteq> rs_queue_span_id st \<and>
    map_option ep_admission_span_id (map_of (bg_episodes b2) (rid, epoch)) = Some (Some admission_span) \<and>
    (\<not> list_ex (resumes rid) cs \<longrightarrow> resumed_event rid epoch b2 = None) \<and>
    l3 = Edge_entry g # Event_entry d (br_event_id ended) # l2 \<and>
    ed_closing_span_ids d = [rs_queue_span_id st] \<and> admission_span \<notin> set (ed_closing_span_ids d)"
proof -
  let ?q = "rs_queue_span_id st" and ?x = "list_ex (resumes rid) cs"
  obtain da s where da: "fst (rc_span R h) = Some s" "Event_entry da (br_event_id adm) \<in> set l1"
    "ed_end_span_id da = Some ?q" "ed_start_span_id da = Some s" and a: "awaiting rid epoch ?q s ?x b1"
    using admission_awaits [OF assms(8,1-5)] assms(6) by blast
  have a2: "awaiting rid epoch ?q s ?x b2" by (rule awaiting_calls [OF assms(9) a assms(10)])
  then obtain st2 where st2: "map_of (bg_states b2) rid = Some st2" "rs_active_span_id st2 = None"
    "rs_queue_span_id st2 = ?q" by (auto simp: awaiting_def)
  have "finish_abnormally (logged R) st2 name cause t' (h2, l2) = (Inr (Some ended), h3, l3)"
    using assms(11-13) st2 by (auto simp: emit_runtime_terminal_def Let_def split: if_splits sum.splits prod.splits)
  then have "\<exists>g d. l3 = Edge_entry g # Event_entry d (br_event_id ended) # l2 \<and> ed_closing_span_ids d = [?q]"
    using st2(2,3) by (auto simp: finish_abnormally_def Let_def dest!: success)
  moreover have "Event_entry da (br_event_id adm) \<in> set l2"
    using calls_longer [OF assms(9)] da(2) by (auto simp: longer_def suffix_def)
  moreover have "map_option ep_admission_span_id (map_of (bg_episodes b2) (rid, epoch)) = Some (Some s)"
    "\<not> ?x \<longrightarrow> resumed_event rid epoch b2 = None"
    using a2 by (auto simp: awaiting_def resumed_event_def)
  moreover have "s \<noteq> ?q" using da(1) assms(7) by auto
  ultimately show ?thesis using da(3,4) by fastforce
qed

lemma sample_misreport:
  "let (r1, b1, g1) = emit_admission_started (logged counting) ''r1'' 1 8 sample_bridge (0, []);
       (rs, b2, g2) = run_calls (logged counting) [Preempt ''r1'' 2 8, Admission ''r1'' 1 8] b1 g1;
       (r3, b3, g3) = emit_runtime_terminal (logged counting) ''r1'' ''client_timeout'' 9 0 b2 g2
   in r1 = Inr (Some (sample_ref 1\<lparr>br_timestamp_ns := 8\<rparr>)) \<and> rs = [Inr None, Inr None] \<and>
      r3 = Inr (Some (sample_ref 3\<lparr>br_timestamp_ns := 9\<rparr>))"
  by code_simp

lemma terminal_after_admission_closes_an_ended_span_witness:
  "\<exists>b1 g1 rs b2 g2 b3 g3 g d k. emit_admission_started (logged counting) ''r1'' 1 8 sample_bridge (0, []) =
     (Inr (Some (sample_ref 1\<lparr>br_timestamp_ns := 8\<rparr>)), b1, g1) \<and>
   run_calls (logged counting) [Preempt ''r1'' 2 8, Admission ''r1'' 1 8] b1 g1 = (rs, b2, g2) \<and>
   emit_runtime_terminal (logged counting) ''r1'' ''client_timeout'' 9 0 b2 g2 =
     (Inr (Some (sample_ref 3\<lparr>br_timestamp_ns := 9\<rparr>)), b3, g3) \<and>
   snd g3 = Edge_entry g # Event_entry d k # snd g2 \<and> ed_closing_span_ids d = [''span''] \<and>
   resumed_event ''r1'' 1 b2 = None"
proof -
  let ?cs = "[Preempt ''r1'' 2 8, Admission ''r1'' 1 8]"
  obtain b1 h1 l1 rs b2 h2 l2 b3 h3 l3 where
    r: "emit_admission_started (logged counting) ''r1'' 1 8 sample_bridge (0, []) =
         (Inr (Some (sample_ref 1\<lparr>br_timestamp_ns := 8\<rparr>)), b1, h1, l1)"
       "run_calls (logged counting) ?cs b1 (h1, l1) = (rs, b2, h2, l2)"
       "emit_runtime_terminal (logged counting) ''r1'' ''client_timeout'' 9 0 b2 (h2, l2) =
         (Inr (Some (sample_ref 3\<lparr>br_timestamp_ns := 9\<rparr>)), b3, h3, l3)"
    using sample_misreport by (auto simp: Let_def split: prod.splits)
  obtain st ep where s: "map_of (bg_states sample_bridge) ''r1'' = Some st" "rs_active_started st = None"
    "rs_active_span_id st = None" "rs_queue_span_id st = ''span''"
    "map_of (bg_episodes sample_bridge) (''r1'', 1) = Some ep"
    "ep_queue_span_id ep = ''span''" "ep_resumed ep = None" by (simp add: sample_bridge_def)
  have c: "map_of TERMINAL_CAUSES ''client_timeout'' = Some ''cancelled''" "''cancelled'' \<noteq> ''generation_done''"
    by code_simp+
  have "fst (rc_span counting 0) \<noteq> Some ''span''" by code_simp
  then have n: "fst (rc_span counting 0) \<noteq> Some (rs_queue_span_id st)" using s(4) by simp
  have "list_all (\<lambda>c. \<not> starts_or_ends ''r1'' c) ?cs" "\<not> list_ex (resumes ''r1'') ?cs" by simp_all
  with terminal_after_admission_closes_an_ended_span [OF s(1,2,3,5) _ s(7) n r(1,2) _ c r(3)] s(4,6)
  obtain g d where "l3 = Edge_entry g # Event_entry d (br_event_id (sample_ref 3\<lparr>br_timestamp_ns := 9\<rparr>)) # l2"
    "ed_closing_span_ids d = [''span'']" "resumed_event ''r1'' 1 b2 = None" by auto
  with r show ?thesis by (metis snd_conv)
qed

end
