(* ===== verification/Scheduler_Properties.thy ===== *)
theory Scheduler_Properties
  imports Bridge_Frame
begin

text \<open>
  The rows the scheduler adapter writes form recovery chains. The callbacks are the steps of a
  transition relation on the adapter, the bridge and the services; whatever their order and however
  the clock, the runtime ABI and the services answer, each row follows rows that were recorded
  before it.
\<close>

section \<open>Steps\<close>

inductive sched_step :: "abi \<Rightarrow> 'g services \<Rightarrow> 'g sched_state \<Rightarrow> 'g sched_state \<Rightarrow> bool" for A S where
  started: "sched_step A S st (snd (request_started S now rid st))"
| scheduled: "sched_step A S st (snd (request_scheduled S now rid kind n m cached st))"
| preempted: "sched_step A S st (snd (request_preempted S now rid epoch st))"
| prepared: "sched_step A S st (snd (prepare_transfer_context A S now rid operation coordinates st))"
| consumed: "sched_step A S st (snd (consume_h2d_receipts S receipts exhausted st))"
| admission: "sched_step A S st (snd (request_admission_started S now rid epoch st))"
| requeued: "sched_step A S st (snd (request_requeued S now rid epoch reason st))"
| admitted: "sched_step A S st (snd (request_admitted A S now now2 rid epoch kind m cached st))"
| terminal: "sched_step A S st (snd (sched_request_terminal S now rid cause n st))"
| resets: "sched_step A S st (snd (sched_reset S st))"
| closes: "sched_step A S st (snd (sched_close S st))"

inductive sched_run :: "abi \<Rightarrow> 'g services \<Rightarrow> 'g sched_state \<Rightarrow> 'g sched_state \<Rightarrow> bool" for A S where
  start: "sched_run A S st st"
| more: "sched_run A S st st1 \<Longrightarrow> sched_step A S st1 st2 \<Longrightarrow> sched_run A S st st2"

section \<open>Chains\<close>

definition same_request :: "pydict \<Rightarrow> pydict \<Rightarrow> bool" where
  "same_request f g \<longleftrightarrow> list_all (\<lambda>k. dget f k = dget g k)
     [''trace_id'', ''engine_lifecycle_id'', ''runtime_request_id'', ''recovery_epoch'']"

definition same_transfer :: "pydict \<Rightarrow> pydict \<Rightarrow> bool" where
  "same_transfer f g \<longleftrightarrow> list_all (\<lambda>k. dget f k = dget g k) [''transfer_id'', ''block_set_id'', ''bytes_moved'']"

definition at_stage :: "string \<Rightarrow> pydict \<Rightarrow> bool" where
  "at_stage stage f \<longleftrightarrow> dget f ''stage'' = PStr stage"

text \<open>A recovery row with id \<open>i\<close> and fields with \<open>P\<close> is in the trace.\<close>

definition recorded :: "string \<Rightarrow> (pydict \<Rightarrow> bool) \<Rightarrow> trace_entry list \<Rightarrow> bool" where
  "recorded i P l \<longleftrightarrow> (\<exists>ts f. T_row Recovery_event ts f i \<in> set l \<and> P f)"

text \<open>The row before a requeue: the wake-up for the first, the requeue numbered one less for the others.\<close>

definition before_requeue :: "int \<Rightarrow> pydict \<Rightarrow> bool" where
  "before_requeue n g \<longleftrightarrow> (n = 0 \<and> at_stage ''scheduler_wakeup'' g) \<or>
     (1 \<le> n \<and> at_stage ''requeue'' g \<and> dget g ''occurrence'' = PInt (n - 1))"

definition chain_ok :: "pydict \<Rightarrow> trace_entry list \<Rightarrow> bool" where
  "chain_ok f l \<longleftrightarrow>
     (at_stage ''preempt'' f \<and> dget f ''from_profile_event_id'' = PNone) \<or>
     (at_stage ''scheduler_wakeup'' f \<and> (\<exists>p. recorded p (\<lambda>g. at_stage ''preempt'' g \<and> same_request f g) l)) \<or>
     (at_stage ''requeue'' f \<and> (\<exists>p n. dget f ''from_profile_event_id'' = PStr p \<and> dget f ''occurrence'' = PInt n \<and>
        recorded p (\<lambda>g. same_request f g \<and> same_transfer f g \<and> before_requeue n g) l)) \<or>
     (at_stage ''admission'' f \<and> (\<exists>p n. dget f ''from_profile_event_id'' = PStr p \<and>
        recorded p (\<lambda>g. same_request f g \<and> same_transfer f g \<and> before_requeue n g) l) \<and>
      (\<exists>d. T_edge d \<in> set l \<and> dget f ''base_admission_started_event_id'' = PStr (gd_to_event_id d) \<and>
        gd_edge_kind d = ''data_dependency'' \<and> gd_evidence_source d = KV_RECOVERY_H2D_EVIDENCE))"

fun chained :: "trace_entry list \<Rightarrow> bool" where
  "chained [] = True"
| "chained (T_row t ts f i # l) = ((t = Recovery_event \<longrightarrow> chain_ok f l) \<and> chained l)"
| "chained (x # l) = chained l"

section \<open>The invariant\<close>

definition preempt_recorded :: "trace_entry list \<Rightarrow> sched_episode \<Rightarrow> bool" where
  "preempt_recorded l ep \<longleftrightarrow> (\<exists>p. recorded p (\<lambda>g. at_stage ''preempt'' g \<and> same_request (chain_request ep) g) l)"

definition ep_ok :: "trace_entry list \<Rightarrow> int \<Rightarrow> sched_episode \<Rightarrow> bool" where
  "ep_ok l epoch ep \<longleftrightarrow> se_recovery_epoch ep = epoch \<and>
     (se_context ep \<noteq> None \<longrightarrow> preempt_recorded l ep) \<and>
     (se_receipt ep \<noteq> None \<longrightarrow> se_context ep \<noteq> None) \<and>
     (case se_predecessor ep of
        None \<Rightarrow> se_requeue_occurrence ep = 0
      | Some p \<Rightarrow> 0 \<le> se_requeue_occurrence ep \<and> se_admission_started ep \<noteq> None \<and>
          (\<exists>rc. se_receipt ep = Some rc \<and>
             recorded p (\<lambda>g. same_request (chain_request ep) g \<and>
               same_transfer (stage_fields '''' 0 None None None (Some rc) None '''' '''') g \<and>
               before_requeue (se_requeue_occurrence ep) g) l))"

definition linked :: "('h \<times> trace_entry list) sched_state \<Rightarrow> bool" where
  "linked = (\<lambda>(s, b, h, l). chained l \<and> (\<forall>rid epoch ep. ((rid, epoch), ep) \<in> set (sc_episodes s) \<longrightarrow> ep_ok l epoch ep))"

lemma recorded_append: "recorded i P l \<Longrightarrow> recorded i P (xs @ l)"
  by (auto simp: recorded_def)

lemma recorded_Cons: "recorded i P l \<Longrightarrow> recorded i P (x # l)"
  by (auto simp: recorded_def)

lemma preempt_recorded_append: "preempt_recorded l ep \<Longrightarrow> preempt_recorded (xs @ l) ep"
  by (auto simp: preempt_recorded_def intro: recorded_append)

lemma ep_ok_append: "ep_ok l epoch ep \<Longrightarrow> ep_ok (xs @ l) epoch ep"
  by (fastforce simp: ep_ok_def split: option.splits intro: recorded_append preempt_recorded_append)

lemma ep_ok_Cons: "ep_ok l epoch ep \<Longrightarrow> ep_ok (x # l) epoch ep"
  using ep_ok_append [of l epoch ep "[x]"] by simp

lemma chained_quiet: "list_all (\<lambda>x. \<not> recovery_row x) xs \<Longrightarrow> chained l \<Longrightarrow> chained (xs @ l)"
proof (induction xs)
  case (Cons x xs)
  then show ?case by (cases x) auto
qed simp

lemma linked_quiet:
  "linked (s, b, g) \<Longrightarrow> quietly g g' \<Longrightarrow> set (sc_episodes s') \<subseteq> set (sc_episodes s) \<Longrightarrow> linked (s', b', g')"
  by (cases g; cases g') (auto simp: linked_def quietly_def intro!: ep_ok_append chained_quiet)

lemma set_update: "x \<in> set (AList.update k v al) \<Longrightarrow> x = (k, v) \<or> x \<in> set al"
  by (induction al) (auto split: if_splits)

lemma linked_put:
  "linked (s, b, h, l) \<Longrightarrow> ep_ok l epoch ep \<Longrightarrow> linked (put_sched rid epoch ep s, b', h', l)"
  by (auto simp: linked_def put_sched_def dest!: set_update)

lemma linked_episode: "linked (s, b, h, l) \<Longrightarrow> sched_of rid epoch s = Some ep \<Longrightarrow> ep_ok l epoch ep"
  by (auto simp: linked_def sched_of_def dest: map_of_SomeD)

lemma linked_row:
  "linked (s, b, h, l) \<Longrightarrow> chain_ok f l \<Longrightarrow> linked (s, b', h', T_row Recovery_event ts f i # l)"
  by (auto simp: linked_def intro: ep_ok_Cons)

section \<open>Quiet calls of the services\<close>

lemma quietly_refl: "quietly g g"
  by (simp add: traced_frame.ext_refl)

lemma drop_quiet: "drop_row (traced S) t ts g = (r, g1) \<Longrightarrow> quietly g g1"
  by (cases g) (auto simp: drop_row_def traced_def quietly_def Let_def split: prod.splits)

lemma write_quiet:
  "sv_write (traced S) t ts f g = (r, g1) \<Longrightarrow> t \<noteq> Recovery_event \<or> (\<forall>i. r \<noteq> Inr (Some i)) \<Longrightarrow> quietly g g1"
  by (cases g) (auto simp: traced_def quietly_def Let_def split: prod.splits sum.splits option.splits)

lemma close_quiet: "quietly g (sv_close (traced S) g)"
  by (cases g) (simp add: traced_def quietly_def)

lemma boundary_quiet:
  "boundary known now emit b g = (r, b1, g1) \<Longrightarrow> (\<And>t. quietly g (snd (snd (emit t)))) \<Longrightarrow> quietly g g1"
  by (auto simp: boundary_def quietly_refl split: option.splits prod.splits sum.splits) (metis snd_conv)+

lemma refuse_linked: "linked st \<Longrightarrow> linked (snd (refuse (traced S) t ts st))"
  by (cases st) (auto simp: refuse_def Let_def split: prod.splits dest!: drop_quiet intro: linked_quiet)

lemma refuse_retiring_linked: "linked st \<Longrightarrow> linked (snd (refuse_retiring (traced S) rid epoch st))"
  by (cases st)
     (auto simp: refuse_retiring_def refuse_def pop_sched_def AList.delete_eq Let_def split: prod.splits sum.splits
       dest!: drop_quiet intro: linked_quiet)

section \<open>Every callback keeps the chains\<close>

lemma observed_linked:
  assumes "linked (s, b, g)" "\<And>t. quietly g (snd (snd (call t b g)))"
  shows "linked (snd (observed (traced S) now call (s, b, g)))"
proof (cases now)
  case (Some t)
  obtain r b1 g1 where c: "call t b g = (r, b1, g1)" by (metis surj_pair)
  then have q: "linked (s, b1, g1)" using assms(2) [of t] by (auto intro: linked_quiet [OF assms(1)])
  obtain d g2 where d: "drop_row (traced S) Recovery_event (PInt t) g1 = (d, g2)" by (metis surj_pair)
  then have "linked (s, b1, g2)" by (auto intro: linked_quiet [OF q] dest: drop_quiet)
  with Some c d q assms(1) show ?thesis
    by (auto simp: observed_def Let_def split: sum.splits option.splits intro: refuse_linked)
qed (use assms in \<open>auto simp: observed_def intro: refuse_linked\<close>)

lemma request_started_linked: "linked st \<Longrightarrow> linked (snd (request_started (traced S) now rid st))"
  by (cases st) (auto simp: request_started_def intro!: observed_linked traced_frame.register_ext)

lemma request_scheduled_linked: "linked st \<Longrightarrow> linked (snd (request_scheduled (traced S) now rid kind n m c st))"
  by (cases st) (auto simp: request_scheduled_def intro!: observed_linked traced_frame.scheduled_ext)

lemma request_preempted_linked: "linked st \<Longrightarrow> linked (snd (request_preempted (traced S) now rid epoch st))"
proof (cases st)
  case (fields s b h l)
  assume l: "linked st"
  obtain r b1 g1 where e: "boundary (preempted_event rid epoch b) now
      (\<lambda>t. emit_runtime_preempted (sv_recorder (traced S)) rid epoch t b (h, l)) b (h, l) = (r, b1, g1)"
    by (metis surj_pair)
  from boundary_quiet [OF this traced_frame.preempted_ext] have q: "quietly (h, l) g1" .
  have k: "linked (s\<lparr>sc_episodes := filter P (sc_episodes s)\<rparr>, b1, g1)" for P
    using l fields by (auto intro: linked_quiet [OF _ q])
  from k [of "\<lambda>_. True"] have k1: "linked (s, b1, g1)" by simp
  obtain h1 l1 where g1: "g1 = (h1, l1)" by (cases g1)
  have "ep_ok l1 epoch \<lparr>se_identity = i, se_recovery_epoch = epoch, se_preempted_event = e,
      se_preempt_record = None, se_context = None, se_receipt = None, se_admission_started = None,
      se_wakeup_record = None, se_predecessor = None, se_requeue_occurrence = 0, se_admission_record = None\<rparr>" for i e
    by (simp add: ep_ok_def)
  with l fields e k k1 g1 show ?thesis
    by (auto simp: request_preempted_def Let_def split: option.splits
        intro!: refuse_linked refuse_retiring_linked linked_put)
qed

lemma write_rows_quiet:
  "write_rows (traced S) t ts rows g = (r, g1) \<Longrightarrow> t \<noteq> Recovery_event \<Longrightarrow> quietly g g1"
proof (induction rows arbitrary: g r g1)
  case Nil
  then show ?case by (simp add: quietly_refl)
next
  case (Cons f rows)
  obtain w g2 where w: "sv_write (traced S) t (PInt ts) f g = (w, g2)" by (metis surj_pair)
  obtain r' g3 where r: "write_rows (traced S) t ts rows g2 = (r', g3)" by (metis surj_pair)
  from write_quiet [OF w] Cons.prems(2) have a: "quietly g g2" by blast
  from Cons.IH [OF r Cons.prems(2)] have "quietly g g3" using a by (blast intro: traced_frame.ext_trans)
  with a w r Cons.prems(1) show ?case by (auto simp: and_then_def split: sum.splits option.splits)
qed

lemma logical_blocks_episodes: "sc_episodes (snd (logical_blocks A i cs s)) = sc_episodes s"
  by (induction A i cs s rule: logical_blocks.induct)
     (auto simp: logical_block_id_def Let_def split: option.splits prod.splits)

lemma build_context_episodes: "build_context A rid op i cs link s = (c, s1) \<Longrightarrow> sc_episodes s1 = sc_episodes s"
  using logical_blocks_episodes [of A i cs s]
  by (auto simp: build_context_def Let_def split: if_splits option.splits prod.splits)

lemma ep_ok_preempt_record [simp]: "ep_ok l e (ep\<lparr>se_preempt_record := r\<rparr>) = ep_ok l e ep"
  by (cases "se_predecessor ep") (simp_all add: ep_ok_def chain_request_def preempt_recorded_def)

lemma stage_parts:
  "dget (base_request_fields i e k @ stage_fields st n be ba pr rc re b a) ''stage'' = PStr st"
  "dget (base_request_fields i e k @ stage_fields st n be ba pr rc re b a) ''occurrence'' = PInt n"
  "dget (base_request_fields i e k @ stage_fields st n be ba pr rc re b a) ''from_profile_event_id'' = opt_pstr pr"
  "dget (base_request_fields i e k @ stage_fields st n be ba pr rc re b a) ''base_admission_started_event_id'' = opt_pstr ba"
  by (simp_all add: base_request_fields_def stage_fields_def dget_def)

lemma same_request_parts [simp]:
  "same_request (base_request_fields i e k @ x) (base_request_fields i e k' @ y)"
  "same_request (base_request_fields i e k @ x) (base_request_fields i e k')"
  "same_request (base_request_fields i e k) (base_request_fields i e k' @ y)"
  by (simp_all add: same_request_def base_request_fields_def dget_def)

lemma find_member: "find P xs = Some x \<Longrightarrow> x \<in> set xs"
  by (induction xs) (auto split: if_splits)

lemma latest_episode_ok:
  assumes "linked (s, b, h, l)" "latest_episode rid s = Some ep"
  shows "ep_ok l (se_recovery_epoch ep) ep"
proof -
  from assms(2) have "ep \<in> set (map snd (filter (\<lambda>kv. fst (fst kv) = rid) (sc_episodes s)))"
    unfolding latest_episode_def Let_def by (auto dest!: find_member split: if_splits)
  then obtain epoch where "((rid, epoch), ep) \<in> set (sc_episodes s)" by auto
  with assms(1) have "ep_ok l epoch ep" by (auto simp: linked_def)
  then show ?thesis by (simp add: ep_ok_def)
qed

text \<open>An association with an epoch comes with a recorded preempt row of the episode.\<close>

lemma associate_linked:
  assumes "linked (s, b, h, l)" "associate (traced S) rid operation i (s, b, h, l) = (r, s', b', h', l')"
  shows "linked (s', b', h', l') \<and> (\<forall>link epoch ep. r = Inr (Some link) \<longrightarrow> as_epoch link = Some epoch \<longrightarrow>
    sched_of rid epoch s' = Some ep \<longrightarrow> preempt_recorded l' ep)"
proof (cases "operation = ''h2d_restore'' \<and> (\<exists>ep. latest_episode rid s = Some ep \<and> se_context ep = None)")
  case False
  then have "(\<exists>t ts. refuse (traced S) t ts (s, b, h, l) = (r, s', b', h', l')) \<or>
    r = Inr (Some unassociated) \<and> (s', b', h', l') = (s, b, h, l)"
    using assms(2) unfolding associate_def by (auto split: if_splits option.splits)
  moreover have "refuse (traced S) t ts (s, b, h, l) = (r, s', b', h', l') \<Longrightarrow> linked (s', b', h', l') \<and> (\<forall>x. r \<noteq> Inr (Some x))" for t ts
    using refuse_linked [OF assms(1), of S t ts]
    by (auto simp: refuse_def Let_def split: prod.splits sum.splits)
  ultimately show ?thesis using assms(1) by (auto simp: unassociated_def)
next
  case True
  then obtain ep where ep: "operation = ''h2d_restore''" "latest_episode rid s = Some ep" "se_context ep = None" by blast
  let ?f = "base_request_fields (se_identity ep) (Some (se_recovery_epoch ep)) (Some (episode_id_of i (se_recovery_epoch ep))) @
    stage_fields ''preempt'' 0 (Some (br_event_id (se_preempted_event ep))) None None None None ''RUNNING'' ''PREEMPTED''"
  let ?ts = "PInt (br_timestamp_ns (se_preempted_event ep))"
  obtain w g1 where w: "sv_write (traced S) Recovery_event ?ts ?f (h, l) = (w, g1)" by (metis surj_pair)
  show ?thesis
  proof (cases "\<exists>k. w = Inr (Some k)")
    case False
    from linked_quiet [OF assms(1) write_quiet [OF w]] False have "linked (s, b, g1)" by auto
    then have "linked (pop_sched rid (se_recovery_epoch ep) s, b, g1)"
      by (rule linked_quiet) (auto simp: quietly_refl pop_sched_def AList.delete_eq)
    with \<open>linked (s, b, g1)\<close> assms(2) ep w False show ?thesis
      by (auto simp: associate_def Let_def split: sum.splits option.splits)
  next
    case True
    then obtain k where k: "w = Inr (Some k)" ..
    from traced_row [OF w [unfolded k]] obtain h1 where g1: "g1 = (h1, T_row Recovery_event ?ts ?f k # l)" ..
    have "chain_ok ?f l" by (simp add: chain_ok_def at_stage_def stage_parts opt_pstr_def)
    from linked_row [OF assms(1) this] have l1: "linked (s, b, g1)" unfolding g1 .
    have e: "ep_ok (snd g1) (se_recovery_epoch ep) (ep\<lparr>se_preempt_record := Some k\<rparr>)"
      using latest_episode_ok [OF assms(1) ep(2)] by (simp add: g1 ep_ok_Cons)
    have "preempt_recorded (snd g1) (ep\<lparr>se_preempt_record := Some k\<rparr>)"
      unfolding preempt_recorded_def recorded_def g1
      by (intro exI [of _ k] exI conjI) (auto simp: at_stage_def stage_parts chain_request_def)
    moreover have "linked (put_sched rid (se_recovery_epoch ep) (ep\<lparr>se_preempt_record := Some k\<rparr>) s, b, g1)"
      using linked_put [OF l1 [unfolded g1], of "se_recovery_epoch ep" "ep\<lparr>se_preempt_record := Some k\<rparr>"] e g1 by simp
    moreover have "(\<exists>link. r = Inr (Some link) \<and> as_epoch link = Some (se_recovery_epoch ep)) \<and> b' = b \<and> (h', l') = g1 \<and>
        s' = put_sched rid (se_recovery_epoch ep) (ep\<lparr>se_preempt_record := Some k\<rparr>) s"
      using assms(2) ep w k by (auto simp: associate_def Let_def)
    ultimately show ?thesis by (auto simp: sched_of_def put_sched_def update_conv')
  qed
qed

lemma ep_ok_context:
  "ep_ok l e ep \<Longrightarrow> preempt_recorded l ep \<Longrightarrow> ep_ok l e (ep\<lparr>se_context := Some c\<rparr>)"
  by (cases "se_predecessor ep") (auto simp: ep_ok_def chain_request_def preempt_recorded_def)

lemma prepare_linked:
  assumes "linked st"
  shows "linked (snd (prepare_transfer_context A (traced S) now rid operation cs st))"
proof -
  obtain s b h l where st: "st = (s, b, h, l)" by (cases st)
  show ?thesis
  proof (cases "sc_closed s \<or> cs = [] \<or> bridge_identity rid b = None")
    case True
    then show ?thesis using assms st by (auto simp: prepare_transfer_context_def intro: refuse_linked)
  next
    case False
    then obtain i where i: "\<not> sc_closed s" "cs \<noteq> []" "bridge_identity rid b = Some i" by auto
    obtain r s1 b1 h1 l1 where a: "associate (traced S) rid operation i (s, b, h, l) = (r, s1, b1, h1, l1)"
      by (metis surj_pair)
    note L = associate_linked [OF assms [unfolded st] a]
    show ?thesis
    proof (cases "\<exists>link c t s2. r = Inr (Some link) \<and> now = Some t \<and> build_context A rid operation i cs link s1 = (Some c, s2)")
      case False
      have bc: "linked (snd (refuse (traced S) Block_set_chunk PNone (s2, b1, h1, l1)))"
        if "build_context A rid operation i cs link s1 = (c, s2)" for link c s2
        using build_context_episodes [OF that] L by (intro refuse_linked) (simp add: linked_def)
      with a i L st False show ?thesis
        by (auto simp: prepare_transfer_context_def and_then_def Let_def split: sum.splits option.splits prod.splits)
    next
      case True
      then obtain link c t s2 where t: "r = Inr (Some link)" "now = Some t"
        and bc: "build_context A rid operation i cs link s1 = (Some c, s2)" by blast
      from build_context_episodes [OF bc] have e: "sc_episodes s2 = sc_episodes s1" .
      let ?rows = "block_rows i (as_epoch link) (as_episode_id link) (tx_block_set_id c) (tx_logical_blocks c)"
      obtain w h2 l2 where w: "write_rows (traced S) Block_set_chunk t ?rows (h1, l1) = (w, h2, l2)"
        by (metis surj_pair)
      have q: "quietly (h1, l1) (h2, l2)" using write_rows_quiet [OF w] by simp
      have l2: "linked (s2, b1, h2, l2)" using L by (auto simp: e intro: linked_quiet [OF _ q])
      have "linked (put_sched rid epoch (ep\<lparr>se_context := Some c\<rparr>) s2, b1, h2, l2)"
        if "as_epoch link = Some epoch" "sched_of rid epoch s2 = Some ep" for epoch ep
      proof -
        have "preempt_recorded l1 ep" using L that t(1) e by (simp add: sched_of_def)
        then have "preempt_recorded l2 ep" using q by (auto simp: quietly_def intro: preempt_recorded_append)
        with linked_episode [OF l2 that(2)] show ?thesis by (intro linked_put [OF l2]) (rule ep_ok_context)
      qed
      with a i L st t bc w l2 show ?thesis
        by (auto simp: prepare_transfer_context_def and_then_def Let_def split: sum.splits option.splits)
    qed
  qed
qed

lemma ep_ok_receipt:
  "ep_ok l e ep \<Longrightarrow> receipt_fits rc e (Some ep) \<Longrightarrow> ep_ok l e (ep\<lparr>se_receipt := Some rc\<rparr>)"
  by (cases "se_predecessor ep")
     (auto simp: ep_ok_def receipt_fits_def chain_request_def preempt_recorded_def split: option.splits)

lemma take_receipts_linked:
  "linked (s, b, h, l) \<Longrightarrow> take_receipts (traced S) rs s (h, l) = (r, s', h', l') \<Longrightarrow> linked (s', b, h', l')"
proof (induction rs arbitrary: s h l)
  case (Cons rc rs)
  show ?case
  proof (cases "ci_recovery_epoch (rp_identity rc)")
    case None
    with Cons show ?thesis by simp
  next
    case (Some epoch)
    let ?rid = "ci_runtime_request_id (rp_identity rc)"
    show ?thesis
    proof (cases "receipt_fits rc epoch (sched_of ?rid epoch s)")
      case True
      then obtain ep where ep: "sched_of ?rid epoch s = Some ep" by (auto simp: receipt_fits_def split: option.splits)
      from linked_put [OF Cons.prems(1) ep_ok_receipt [OF linked_episode [OF Cons.prems(1) ep]]] True ep
      have "linked (put_sched ?rid epoch (ep\<lparr>se_receipt := Some rc\<rparr>) s, b, h, l)" by simp
      from Cons.IH [OF this] Cons.prems(2) True ep Some show ?thesis by simp
    next
      case False
      obtain d h1 l1 where d: "drop_row (traced S) Recovery_event (PInt (rp_timestamp_ns rc)) (h, l) = (d, h1, l1)"
        by (metis surj_pair)
      from linked_quiet [OF Cons.prems(1) drop_quiet [OF this]] have "linked (s, b, h1, l1)" by simp
      with Cons.IH [OF this] Cons.prems(2) False d Some show ?thesis by (auto split: sum.splits)
    qed
  qed
qed simp

lemma consume_linked: "linked st \<Longrightarrow> linked (snd (consume_h2d_receipts (traced S) rs exhausted st))"
proof (cases st)
  case (fields s b h l)
  assume l: "linked st"
  obtain d h1 l1 where d: "(if exhausted then drop_row (traced S) Recovery_event PNone (h, l) else (Inr (), h, l)) = (d, h1, l1)"
    by (metis surj_pair)
  then have "quietly (h, l) (h1, l1)" by (auto simp: quietly_refl split: if_splits dest: drop_quiet)
  from linked_quiet [OF l [unfolded fields] this] have "linked (s, b, h1, l1)" by simp
  with l fields d take_receipts_linked [OF this, of S rs] show ?thesis
    unfolding consume_h2d_receipts_def by (auto simp: Let_def split: sum.splits prod.splits)
qed

lemma ep_ok_receipted:
  "ep_ok l e ep \<Longrightarrow> se_receipt ep = Some rc \<Longrightarrow>
   se_recovery_epoch ep = e \<and> se_context ep \<noteq> None \<and> preempt_recorded l ep"
  by (auto simp: ep_ok_def)

lemma same_transfer_parts [simp]:
  "same_transfer (stage_fields '''' 0 None None None (Some rc) None '''' '''')
     (base_request_fields i e k @ stage_fields st n be ba pr (Some rc) re b a)"
  by (simp add: same_transfer_def base_request_fields_def stage_fields_def dget_def)

lemma chain_parts:
  "same_request (chain_request ep @ x) g = same_request (chain_request ep) g"
  "same_transfer (chain_request ep @ stage_fields st n be ba pr (Some rc) re b a) g =
     same_transfer (stage_fields '''' 0 None None None (Some rc) None '''' '''') g"
  "at_stage st' (chain_request ep @ stage_fields st n be ba pr rc' re b a) = (st = st')"
  "dget (chain_request ep @ stage_fields st n be ba pr rc' re b a) ''occurrence'' = PInt n"
  "dget (chain_request ep @ stage_fields st n be ba pr rc' re b a) ''from_profile_event_id'' = opt_pstr pr"
  "dget (chain_request ep @ stage_fields st n be ba pr rc' re b a) ''base_admission_started_event_id'' = opt_pstr ba"
  by (simp_all add: same_request_def same_transfer_def at_stage_def chain_request_def base_request_fields_def
      stage_fields_def dget_def)

text \<open>The predecessor of an episode, as its next row must name it.\<close>

definition precedes :: "sched_episode \<Rightarrow> receipt \<Rightarrow> int \<Rightarrow> string \<Rightarrow> trace_entry list \<Rightarrow> bool" where
  "precedes ep rc n p l \<longleftrightarrow> recorded p (\<lambda>g. same_request (chain_request ep) g \<and>
     same_transfer (stage_fields '''' 0 None None None (Some rc) None '''' '''') g \<and> before_requeue n g) l"

lemma ep_ok_predecessor:
  assumes "se_recovery_epoch ep = e" "se_context ep \<noteq> None" "preempt_recorded l ep" "se_receipt ep = Some rc"
    and "0 \<le> n" "a \<noteq> None"
    and "precedes ep rc n p l"
  shows "ep_ok l e (ep\<lparr>se_admission_started := a, se_wakeup_record := w, se_predecessor := Some p,
    se_requeue_occurrence := n\<rparr>)"
  using assms by (auto simp: ep_ok_def precedes_def chain_request_def preempt_recorded_def)

lemma chain_wakeup:
  "preempt_recorded l ep \<Longrightarrow> chain_ok (chain_request ep @ stage_fields ''scheduler_wakeup'' 0 be ba pr rc re b a) l"
  unfolding chain_ok_def chain_parts preempt_recorded_def by simp

lemma chain_requeue:
  "precedes ep rc n p l \<Longrightarrow>
   chain_ok (chain_request ep @ stage_fields ''requeue'' n be ba (Some p) (Some rc) re b a) l"
  unfolding chain_ok_def chain_parts precedes_def by (simp add: opt_pstr_def)

lemma chain_admission:
  "precedes ep rc n p l \<Longrightarrow> T_edge d \<in> set l \<Longrightarrow> gd_to_event_id d = e \<Longrightarrow> gd_edge_kind d = ''data_dependency'' \<Longrightarrow>
   gd_evidence_source d = KV_RECOVERY_H2D_EVIDENCE \<Longrightarrow>
   chain_ok (chain_request ep @ stage_fields ''admission'' 0 be (Some e) (Some p) (Some rc) re b a) l"
  unfolding chain_ok_def chain_parts precedes_def by (auto simp: opt_pstr_def)

text \<open>A row just written precedes the next one.\<close>

lemma precedes_written:
  "before_requeue n (chain_request ep @ stage_fields st k be ba pr (Some rc) re b a) \<Longrightarrow>
   precedes ep rc n i (T_row Recovery_event ts (chain_request ep @ stage_fields st k be ba pr (Some rc) re b a) i # l)"
  unfolding precedes_def recorded_def
  by (intro exI conjI, rule list.set_intros) (simp_all add: chain_parts chain_request_def)

lemma before_first: "before_requeue 0 (chain_request ep @ stage_fields ''scheduler_wakeup'' k be ba pr rc re b a)"
  by (simp add: before_requeue_def chain_parts)

lemma before_next: "0 \<le> n \<Longrightarrow> before_requeue (n + 1) (chain_request ep @ stage_fields ''requeue'' n be ba pr rc re b a)"
  by (simp add: before_requeue_def chain_parts)

lemma admission_started_linked:
  assumes "linked st"
  shows "linked (snd (request_admission_started (traced S) now rid epoch st))"
proof (cases st)
  case (fields s b h l)
  note L = assms [unfolded fields]
  show ?thesis
  proof (cases "\<exists>ep rc t. sched_of rid epoch s = Some ep \<and> se_receipt ep = Some rc \<and> now = Some t \<and>
      \<not> (sc_closed s \<or> epoch \<noteq> se_recovery_epoch ep \<or> se_admission_started ep \<noteq> None)")
    case False
    then show ?thesis using assms fields
      by (auto simp: request_admission_started_def split: option.splits)
  next
    case True
    then obtain ep rc t where ep: "sched_of rid epoch s = Some ep" "se_receipt ep = Some rc" "now = Some t"
      "\<not> sc_closed s" "epoch = se_recovery_epoch ep" "se_admission_started ep = None" by auto
    obtain r b1 h1 l1 where e: "boundary (admission_started_event rid epoch b) now
        (\<lambda>t. emit_admission_started (sv_recorder (traced S)) rid epoch t b (h, l)) b (h, l) = (r, b1, h1, l1)"
      by (metis surj_pair)
    have L1: "linked (s, b1, h1, l1)"
      using boundary_quiet [OF e traced_frame.admission_ext] by (auto intro: linked_quiet [OF L])
    note ok = linked_episode [OF L1 ep(1)]
    note parts = ep_ok_receipted [OF ok ep(2)]
    have zero: "se_requeue_occurrence ep = 0" using ok ep(6) by (auto simp: ep_ok_def split: option.splits)
    let ?f = "chain_request ep @ stage_fields ''scheduler_wakeup'' 0 None None
      (Some (rp_restore_done_profile_record_id rc)) (Some rc) None ''WAITING_FOR_REMOTE_KVS'' ''PREEMPTED''"
    obtain w h2 l2 where w: "sv_write (traced S) Recovery_event (PInt t) ?f (h1, l1) = (w, h2, l2)"
      by (metis surj_pair)
    have written: "linked (put_sched rid epoch (ep\<lparr>se_admission_started := Some x, se_wakeup_record := Some k,
        se_predecessor := Some k\<rparr>) s, b1, h2, l2)" if k: "w = Inr (Some k)" for x k
    proof -
      from traced_row [OF w [unfolded k]] have l2: "l2 = T_row Recovery_event (PInt t) ?f k # l1" by auto
      have "linked (s, b1, h2, l2)"
        unfolding l2 by (rule linked_row [OF L1 chain_wakeup]) (use parts in blast)
      moreover have "ep_ok l2 epoch (ep\<lparr>se_admission_started := Some x, se_wakeup_record := Some k,
          se_predecessor := Some k, se_requeue_occurrence := 0\<rparr>)"
        using parts ep(2) preempt_recorded_append [of l1 ep "[_]"]
        by (intro ep_ok_predecessor) (auto simp: l2 intro!: precedes_written before_first)
      moreover have "ep\<lparr>se_admission_started := Some x, se_wakeup_record := Some k, se_predecessor := Some k,
          se_requeue_occurrence := 0\<rparr> = ep\<lparr>se_admission_started := Some x, se_wakeup_record := Some k, se_predecessor := Some k\<rparr>"
        using zero by (cases ep) simp
      ultimately show ?thesis by (simp add: linked_put)
    qed
    have lost: "linked (s, b1, h2, l2)" if "\<forall>k. w \<noteq> Inr (Some k)"
      using that write_quiet [OF w] by (intro linked_quiet [OF L1]) auto
    from fields ep e w L1 written lost show ?thesis
      by (auto simp: request_admission_started_def Let_def refuse_linked split: option.splits sum.splits)
  qed
qed

lemma ep_ok_chained:
  assumes "ep_ok l e ep" "se_predecessor ep = Some p" "se_receipt ep = Some rc"
  shows "precedes ep rc (se_requeue_occurrence ep) p l \<and> 0 \<le> se_requeue_occurrence ep \<and> se_admission_started ep \<noteq> None"
  using assms by (auto simp: ep_ok_def precedes_def)

lemma requeued_linked:
  assumes "linked st"
  shows "linked (snd (request_requeued (traced S) now rid epoch reason st))"
proof (cases st)
  case (fields s b h l)
  note L = assms [unfolded fields]
  show ?thesis
  proof (cases "\<exists>ep rc v p t. sched_of rid epoch s = Some ep \<and> se_receipt ep = Some rc \<and>
      se_wakeup_record ep = Some v \<and> se_predecessor ep = Some p \<and> now = Some t \<and>
      \<not> (sc_closed s \<or> epoch \<noteq> se_recovery_epoch ep \<or> se_admission_record ep \<noteq> None)")
    case False
    then show ?thesis using assms fields refuse_linked [OF L]
      by (auto simp: request_requeued_def split: option.splits)
  next
    case True
    then obtain ep rc v p t where ep: "sched_of rid epoch s = Some ep" "se_receipt ep = Some rc"
      "se_wakeup_record ep = Some v" "se_predecessor ep = Some p" "now = Some t"
      "\<not> sc_closed s" "epoch = se_recovery_epoch ep" "se_admission_record ep = None" by auto
    note ok = linked_episode [OF L ep(1)]
    note parts = ep_ok_receipted [OF ok ep(2)] ep_ok_chained [OF ok ep(4,2)]
    let ?n = "se_requeue_occurrence ep"
    let ?f = "chain_request ep @ stage_fields ''requeue'' ?n None None (Some p) (Some rc) (Some reason)
      ''PREEMPTED'' ''PREEMPTED''"
    obtain w h2 l2 where w: "sv_write (traced S) Recovery_event (PInt t) ?f (h, l) = (w, h2, l2)"
      by (metis surj_pair)
    have written: "linked (put_sched rid epoch (ep\<lparr>se_predecessor := Some k, se_requeue_occurrence := ?n + 1\<rparr>) s, b, h2, l2)"
      if k: "w = Inr (Some k)" for k
    proof -
      from traced_row [OF w [unfolded k]] have l2: "l2 = T_row Recovery_event (PInt t) ?f k # l" by auto
      have "linked (s, b, h2, l2)"
        unfolding l2 by (rule linked_row [OF L chain_requeue]) (use parts in blast)
      moreover have "ep_ok l2 epoch (ep\<lparr>se_admission_started := se_admission_started ep,
          se_wakeup_record := se_wakeup_record ep, se_predecessor := Some k, se_requeue_occurrence := ?n + 1\<rparr>)"
        using parts ep(2) preempt_recorded_append [of l ep "[_]"]
        by (intro ep_ok_predecessor) (auto simp: l2 intro!: precedes_written before_next)
      moreover have "ep\<lparr>se_admission_started := se_admission_started ep,
          se_wakeup_record := se_wakeup_record ep, se_predecessor := Some k, se_requeue_occurrence := ?n + 1\<rparr> =
          ep\<lparr>se_predecessor := Some k, se_requeue_occurrence := ?n + 1\<rparr>" by (cases ep) simp
      ultimately show ?thesis by (simp add: linked_put)
    qed
    have lost: "linked (s, b, h2, l2)" if "\<forall>k. w \<noteq> Inr (Some k)"
      using that write_quiet [OF w] by (intro linked_quiet [OF L]) auto
    from fields ep w L written lost show ?thesis
      by (auto simp: request_requeued_def Let_def split: option.splits sum.splits)
  qed
qed

lemma pop_episodes: "set (sc_episodes (pop_sched rid epoch s)) \<subseteq> set (sc_episodes s)"
  by (auto simp: pop_sched_def AList.delete_eq)

lemma hand_over_linked:
  assumes "linked st"
  shows "linked (snd (hand_over_compute A (traced S) now rid epoch kind rc resumed k st))"
proof (cases st)
  case (fields s b h l)
  note L = assms [unfolded fields]
  let ?e = "case now of None \<Rightarrow> (None, b, h, l)
    | Some t \<Rightarrow> (let (r, b1, g1) = emit_first_compute (sv_recorder (traced S)) rid epoch
                   (max (br_timestamp_ns resumed) t) kind b (h, l)
                 in (case r of Inl e \<Rightarrow> None | Inr x \<Rightarrow> x, b1, g1))"
  obtain r b1 g1 where e: "?e = (r, b1, g1)" by (metis surj_pair)
  have "quietly (h, l) g1"
  proof (cases now)
    case (Some t)
    with e traced_frame.first_compute_ext [of "(h, l)" S rid epoch "max (br_timestamp_ns resumed) t" kind b]
    show ?thesis by (auto simp: Let_def split: prod.splits)
  qed (use e in \<open>auto simp: quietly_refl\<close>)
  then have L1: "linked (s, b1, g1)" by (auto intro: linked_quiet [OF L])
  have "linked (pop_sched rid epoch s, b1, g1)"
    by (rule linked_quiet [OF L1 quietly_refl pop_episodes])
  with fields e L1 show ?thesis
    unfolding hand_over_compute_def by (auto simp: Let_def refuse_linked split: option.splits)
qed

lemma ep_ok_admission_record [simp]: "ep_ok l e (ep\<lparr>se_admission_record := r\<rparr>) = ep_ok l e ep"
  by (cases "se_predecessor ep") (auto simp add: ep_ok_def chain_request_def preempt_recorded_def)

text \<open>The edge of an admission and its row, written one after the other.\<close>

lemma admission_row_linked:
  assumes "linked (s, b, h, l)" "precedes ep rc n p l"
    and "rc_edge (sv_recorder (traced S)) d (h, l) = (Some x, g2)"
    and "d = \<lparr>gd_trace_id = tr, gd_from_event_id = fr, gd_to_event_id = e, gd_edge_kind = ''data_dependency'',
               gd_evidence_source = KV_RECOVERY_H2D_EVIDENCE\<rparr>"
    and "sv_write (traced S) Recovery_event ts (chain_request ep @
        stage_fields ''admission'' 0 be (Some e) (Some p) (Some rc) re bs af) g2 = (w, g3)"
  shows "linked (s, b, g3)"
proof -
  from traced_edge [OF assms(3)] obtain h2 where g2: "g2 = (h2, T_edge d # l)" ..
  have "linked (s, b, g2)"
    unfolding g2 by (rule linked_quiet [OF assms(1)]) (auto simp: quietly_def)
  note L2 = this [unfolded g2]
  show ?thesis
  proof (cases "\<exists>k. w = Inr (Some k)")
    case True
    then obtain k where "w = Inr (Some k)" ..
    from traced_row [OF assms(5) [unfolded g2 this]] obtain h3 where g3: "g3 = (h3, T_row Recovery_event ts
      (chain_request ep @ stage_fields ''admission'' 0 be (Some e) (Some p) (Some rc) re bs af) k # T_edge d # l)" ..
    have "precedes ep rc n p (T_edge d # l)"
      using assms(2) by (auto simp: precedes_def intro: recorded_Cons)
    then show ?thesis
      unfolding g3 by (intro linked_row [OF L2] chain_admission [of _ _ _ _ _ d]) (auto simp: assms(4))
  next
    case False
    from linked_quiet [OF L2 write_quiet [OF assms(5) [unfolded g2]]] False show ?thesis by auto
  qed
qed

lemma linked_put_record:
  assumes "linked (s, b, g)" "sched_of rid epoch s = Some ep"
  shows "linked (put_sched rid epoch (ep\<lparr>se_admission_record := r\<rparr>) s, b, g)"
proof (cases g)
  case (Pair h l)
  with linked_episode [of s b h l rid epoch ep] linked_put [of s b h l epoch "ep\<lparr>se_admission_record := r\<rparr>" rid b h] assms
  show ?thesis by simp
qed

lemma admitted_linked:
  assumes "linked st"
  shows "linked (snd (request_admitted A (traced S) now now2 rid epoch kind m cached st))"
proof (cases st)
  case (fields s b h l)
  note L = assms [unfolded fields]
  show ?thesis
  proof (cases "\<exists>ep rc a v p. sched_of rid epoch s = Some ep \<and> se_receipt ep = Some rc \<and>
      se_admission_started ep = Some a \<and> se_wakeup_record ep = Some v \<and> se_predecessor ep = Some p \<and>
      \<not> (sc_closed s \<or> epoch \<noteq> se_recovery_epoch ep \<or> se_admission_record ep \<noteq> None \<or> kind \<notin> set COMPUTE_KINDS)")
    case False
    then show ?thesis using L fields by (auto simp: request_admitted_def split: option.splits)
  next
    case True
    then obtain ep rc a v p where ep: "sched_of rid epoch s = Some ep" "se_receipt ep = Some rc"
      "se_admission_started ep = Some a" "se_wakeup_record ep = Some v" "se_predecessor ep = Some p"
      and go: "\<not> (sc_closed s \<or> epoch \<noteq> se_recovery_epoch ep \<or> se_admission_record ep \<noteq> None \<or> kind \<notin> set COMPUTE_KINDS)"
      by auto
    obtain r b1 h1 l1 where e: "boundary (resumed_event rid epoch b) now
        (\<lambda>t. emit_runtime_resumed (sv_recorder (traced S)) rid epoch t m cached b (h, l)) b (h, l) = (r, b1, h1, l1)"
      by (metis surj_pair)
    have L1: "linked (s, b1, h1, l1)"
      using boundary_quiet [OF e traced_frame.resumed_ext] by (auto intro: linked_quiet [OF L])
    have pre: "precedes ep rc (se_requeue_occurrence ep) p l1"
      using ep_ok_chained [OF linked_episode [OF L1 ep(1)] ep(5,2)] by blast
    let ?d = "\<lparr>gd_trace_id = ri_trace_id (se_identity ep), gd_from_event_id = rp_communication_done_event_id rc,
      gd_to_event_id = br_event_id a, gd_edge_kind = ''data_dependency'', gd_evidence_source = KV_RECOVERY_H2D_EVIDENCE\<rparr>"
    obtain x g2 where d: "rc_edge (sv_recorder (traced S)) ?d (h1, l1) = (x, g2)" by (metis surj_pair)
    have L2: "linked (s, b1, g2)"
      using traced_frame.ext_edge [of "(h1, l1)" S ?d] d by (auto intro: linked_quiet [OF L1])
    let ?w = "\<lambda>r. sv_write (traced S) Recovery_event (PInt (br_timestamp_ns r)) (chain_request ep @
      stage_fields ''admission'' 0 (Some (br_event_id r)) (Some (br_event_id a)) (Some p) (Some rc) None
        ''PREEMPTED'' ''RUNNING'') g2"
    have L3: "linked (s, b1, g3)" "linked (put_sched rid (se_recovery_epoch ep) (ep\<lparr>se_admission_record := k\<rparr>) s, b1, g3)"
      if "x = Some y" "?w r = (w, g3)" for y r w g3 k
      using admission_row_linked [OF L1 pre d [unfolded that(1)] refl that(2)] ep(1) go by (simp_all add: linked_put_record)
    from fields ep go e d L1 L2 show ?thesis
      unfolding request_admitted_def
      by (auto simp: Let_def refuse_linked split: option.splits sum.splits prod.splits
          intro: L3 intro!: hand_over_linked)
  qed
qed

lemma retire_linked:
  "linked (s, b, g) \<Longrightarrow> retire (traced S) eps pop s g = (r, s', g') \<Longrightarrow> linked (s', b, g')"
proof (induction eps arbitrary: s g)
  case (Cons kv eps)
  obtain rid epoch ep where kv: "kv = ((rid, epoch), ep)" by (metis surj_pair)
  obtain d g1 where d: "(if se_preempt_record ep \<noteq> None then drop_row (traced S) Recovery_event PNone g else (Inr (), g)) = (d, g1)"
    by (metis surj_pair)
  then have q: "quietly g g1" by (auto simp: quietly_refl split: if_splits dest: drop_quiet)
  let ?s = "if pop then pop_sched rid epoch s else s"
  have l: "linked (?s, b, g1)"
    by (rule linked_quiet [OF Cons.prems(1) q]) (use pop_episodes in auto)
  have step: "retire (traced S) (kv # eps) pop s g =
      (case d of Inl e \<Rightarrow> (Inl e, ?s, g1) | Inr _ \<Rightarrow> retire (traced S) eps pop ?s g1)"
    unfolding kv retire.simps Let_def d by simp
  show ?case
    using Cons.IH [OF l] Cons.prems(2) l unfolding step by (cases d) simp_all
qed simp

lemma terminal_linked: "linked st \<Longrightarrow> linked (snd (sched_request_terminal (traced S) now rid cause n st))"
proof (cases st)
  case (fields s b h l)
  assume "linked st"
  obtain r s1 g1 where r: "retire (traced S) (filter (\<lambda>kv. fst (fst kv) = rid) (sc_episodes s)) True s (h, l) = (r, s1, g1)"
    by (metis surj_pair)
  from retire_linked [OF _ this] \<open>linked st\<close> fields have L1: "linked (s1, b, g1)" by blast
  obtain e b2 g2 where e: "boundary None now
      (\<lambda>t. emit_runtime_terminal (sv_recorder (traced S)) rid cause t n b g1) b g1 = (e, b2, g2)" by (metis surj_pair)
  from boundary_quiet [OF this traced_frame.terminal_ext] have "linked (s1, b2, g2)"
    by (auto intro: linked_quiet [OF L1])
  with L1 fields r e show ?thesis
    by (auto simp: sched_request_terminal_def Let_def refuse_linked split: sum.splits option.splits)
qed

lemma linked_cleared: "linked (s, b, g) \<Longrightarrow> linked (s\<lparr>sc_episodes := []\<rparr>, b, g)"
  by (rule linked_quiet [OF _ quietly_refl]) simp_all

lemma reset_linked: "linked st \<Longrightarrow> linked (snd (sched_reset (traced S) st))"
proof (cases st)
  case (fields s b h l)
  assume "linked st"
  obtain r s1 g1 where r: "retire (traced S) (sc_episodes s) False s (h, l) = (r, s1, g1)" by (metis surj_pair)
  from retire_linked [OF _ this] \<open>linked st\<close> fields have "linked (s1, b, g1)" by blast
  with fields r linked_cleared [OF this] show ?thesis
    by (auto simp: sched_reset_def Let_def split: sum.splits)
qed

lemma close_linked: "linked st \<Longrightarrow> linked (snd (sched_close (traced S) st))"
proof (cases st)
  case (fields s b h l)
  assume "linked st"
  obtain r s1 b1 g1 where r: "sched_reset (traced S) (s, b, h, l) = (r, s1, b1, g1)" by (metis surj_pair)
  from reset_linked [OF \<open>linked st\<close>, of S] fields r have L1: "linked (s1, b1, g1)" by simp
  have "linked (s2, b1, sv_close (traced S) g1)" if "sc_episodes s2 = sc_episodes s1" for s2
    by (rule linked_quiet [OF L1 close_quiet]) (simp add: that)
  with \<open>linked st\<close> fields r show ?thesis by (auto simp: sched_close_def split: sum.splits)
qed

lemmas callbacks_linked = request_started_linked request_scheduled_linked request_preempted_linked prepare_linked
  consume_linked admission_started_linked requeued_linked admitted_linked terminal_linked reset_linked close_linked

lemma step_linked: "sched_step A S st st' \<Longrightarrow> S = traced S' \<Longrightarrow> linked st \<Longrightarrow> linked st'"
  by (induction rule: sched_step.induct) (simp_all add: callbacks_linked)

lemma run_linked: "sched_run A S st st' \<Longrightarrow> S = traced S' \<Longrightarrow> linked st \<Longrightarrow> linked st'"
  by (induction rule: sched_run.induct) (auto intro: step_linked)

section \<open>Samples\<close>

text \<open>A runtime ABI that accepts everything, and a run through preemption, restore, wake-up and requeue.\<close>

definition open_abi :: abi where
  "open_abi = \<lparr>ab_identity = (\<lambda>i. True), ab_block = (\<lambda>b. True),
     ab_block_set_id = (\<lambda>i bs. Some (sample_hex CHR ''1'' @ sample_hex CHR ''2'')),
     ab_transfer_context = (\<lambda>c. True), ab_compute_context = (\<lambda>c. True)\<rparr>"

definition sample_scheduler :: scheduler where
  "sample_scheduler = \<lparr>sc_run_id = sample_hex CHR ''c'', sc_episodes = [], sc_logical_ids = [], sc_closed = False\<rparr>"

definition sample_receipt_for :: "transfer_context \<Rightarrow> receipt" where
  "sample_receipt_for c = \<lparr>rp_connector_job_id = 4, rp_transfer_id = ''t'', rp_identity = tx_identity c,
     rp_block_set_id = tx_block_set_id c, rp_process_uuid = ''p'', rp_clock_domain_id = ''d'',
     rp_communication_done_event_id = ''e'', rp_restore_done_profile_record_id = ''k'', rp_timestamp_ns = 7,
     rp_bytes_moved = 64\<rparr>"

type_synonym sample_state = "(int \<times> trace_entry list) sched_state"

definition sample_start :: sample_state where "sample_start = (sample_scheduler, sample_bridge, 0, [])"

definition sample_preempted :: sample_state where
  "sample_preempted = snd (request_preempted (traced counting_services) (Some 5) ''r1'' 1 sample_start)"

definition sample_prepared :: "transfer_context option res \<times> sample_state" where
  "sample_prepared = prepare_transfer_context open_abi (traced counting_services) (Some 6) ''r1'' ''h2d_restore''
     [(0, 0)] sample_preempted"

definition sample_restored :: sample_state where
  "sample_restored = snd (consume_h2d_receipts (traced counting_services)
     [sample_receipt_for (the (projr (fst sample_prepared)))] False (snd sample_prepared))"

definition sample_awake :: sample_state where
  "sample_awake = snd (request_admission_started (traced counting_services) (Some 5) ''r1'' 1 sample_restored)"

definition sample_requeued :: sample_state where
  "sample_requeued = snd (request_requeued (traced counting_services) (Some 9) ''r1'' 1 ''capacity'' sample_awake)"

definition stages :: "trace_entry list \<Rightarrow> pyval list" where
  "stages l = concat (map (\<lambda>e. case e of T_row t ts f i \<Rightarrow> if t = Recovery_event then [dget f ''stage''] else [] | _ \<Rightarrow> []) l)"

lemmas scheduler_run = open_abi_def sample_scheduler_def sample_bridge_def counting_services_def counting_def
  traced_def traced_recorder_def request_preempted_def prepare_transfer_context_def associate_def build_context_def
  logical_block_id_def block_rows_def chunk_count_def and_then_def boundary_def preempted_event_def
  bridge_identity_def sched_of_def put_sched_def latest_episode_def consume_h2d_receipts_def receipt_fits_def
  sample_receipt_for_def admission_started_event_def emit_admission_started_def called_def commit_def built_def
  request_admission_started_def request_requeued_def sample_identity_def sample_ref_def
  MAX_BLOCK_ROWS_PER_CHUNK_BYTE_BUDGET_def Let_def UINT64_MAX_def

lemmas sample_run = sample_start_def sample_preempted_def sample_prepared_def sample_restored_def sample_awake_def
  sample_requeued_def

lemma sample_event_id: "id_pattern CHR ''e'' (id_of (sample_hex CHR ''a'') CHR ''e'' 3)"
  by code_simp

lemma chain_stage: "dget (chain_request ep @ stage_fields st n be ba pr rc re b a) ''stage'' = PStr st"
  by (simp add: chain_request_def stage_parts)

lemma sample_stages:
  "stages (snd (snd (snd sample_requeued))) = [PStr ''requeue'', PStr ''scheduler_wakeup'', PStr ''preempt'']"
  by (simp add: sample_run scheduler_run sample_event_id stages_def chain_stage stage_parts)

lemma sample_reached: "sched_run open_abi (traced counting_services) sample_start sample_requeued"
  unfolding sample_requeued_def sample_awake_def sample_restored_def sample_preempted_def sample_prepared_def
  by (intro sched_run.more [OF _ requeued] sched_run.more [OF _ admission] sched_run.more [OF _ consumed]
      sched_run.more [OF _ prepared] sched_run.more [OF _ preempted] start)

section \<open>The chains\<close>

text \<open>
  C5. The recovery rows of the scheduler are chained. From a new adapter, whatever callbacks are
  made in whatever order, and whatever the clock, the runtime ABI, the bridge and the ledger answer:
  every scheduler_wakeup row comes after the preempt row of its request and epoch; every requeue row
  names an earlier row of the same request, epoch and transfer, the wake-up if it is the first and
  the requeue numbered one less if it is not; and every admission row names an earlier
  wake-up or requeue row in the same way and comes after the data-dependency edge to the admission
  start it names.
\<close>
theorem recovery_rows_are_chained:
  assumes "make_scheduler run_id = Inr s" "sched_run A (traced S) (s, b, h, []) (s', b', h', l)"
  shows "chained l"
proof -
  have "linked (s, b, h, [])" using assms(1) by (auto simp: make_scheduler_def accept_simps linked_def)
  from run_linked [OF assms(2) refl this] show ?thesis by (simp add: linked_def)
qed

lemma recovery_rows_are_chained_witness:
  "\<exists>l. l = snd (snd (snd sample_requeued)) \<and> chained l \<and>
     stages l = [PStr ''requeue'', PStr ''scheduler_wakeup'', PStr ''preempt'']"
proof -
  have "is_hex 32 (sample_hex CHR ''c'')" by code_simp
  then have "make_scheduler (sample_hex CHR ''c'') = Inr sample_scheduler"
    by (simp add: make_scheduler_def accept_simps sample_scheduler_def)
  moreover obtain s b h l where r: "sample_requeued = (s, b, h, l)" by (cases sample_requeued)
  moreover have "sched_run open_abi (traced counting_services) (sample_scheduler, sample_bridge, 0, []) (s, b, h, l)"
    using sample_reached by (simp add: sample_start_def r)
  ultimately have "chained l" by (intro recovery_rows_are_chained)
  with sample_stages show ?thesis unfolding r by simp
qed

end
