(* ===== verification/Scheduler_Failsafe.thy ===== *)
theory Scheduler_Failsafe
  imports Scheduler_Properties
begin

text \<open>
  Serving goes on whatever the evidence does. The locale \<open>failsafe_services\<close> holds the laws of a
  ledger that never raises; it is interpreted on the ledger over the facade. Under them every
  callback of the scheduler adapter returns, except the one that reads the clock outside its guard.
\<close>

section \<open>Services that never raise\<close>

text \<open>A callback that returned, with the services still in \<open>I\<close>.\<close>

definition safe :: "('g \<Rightarrow> bool) \<Rightarrow> 'r res \<times> 'g sched_state \<Rightarrow> bool" where
  "safe I p \<longleftrightarrow> \<not> isl (fst p) \<and> I (snd (snd (snd p)))"

text \<open>The wake-up raises exactly when it gets to read a clock that raises.\<close>

definition reads_clock :: "string \<Rightarrow> int \<Rightarrow> scheduler \<Rightarrow> bool" where
  "reads_clock rid epoch s = (case sched_of rid epoch s of None \<Rightarrow> False
     | Some ep \<Rightarrow> \<not> sc_closed s \<and> se_receipt ep \<noteq> None \<and> epoch = se_recovery_epoch ep \<and> se_admission_started ep = None)"

locale failsafe_services = recorder_frame "sv_recorder S" "\<lambda>g g'. I g \<longrightarrow> I g'"
  for S :: "'g services" and I :: "'g \<Rightarrow> bool" +
  assumes write_safe: "sv_write S t ts f g = (r, g1) \<Longrightarrow> I g \<Longrightarrow> \<not> isl r \<and> I g1"
    and drop_safe: "sv_drop S t ts reason g = (d, g1) \<Longrightarrow> I g \<Longrightarrow> \<not> isl d \<and> I g1"
    and close_safe: "I g \<Longrightarrow> I (sv_close S g)"
begin

lemma row_safe: "drop_row S t ts g = (r, g1) \<Longrightarrow> I g \<Longrightarrow> \<not> isl r \<and> I g1"
  using drop_safe by (fastforce simp: drop_row_def Let_def isl_map_sum split: prod.splits)

lemma refuse_safe: "I g \<Longrightarrow> safe I (refuse S t ts (s, b, g))"
  by (auto simp: refuse_def safe_def Let_def split: prod.splits sum.splits dest!: row_safe)

lemma refuse_retiring_safe: "I g \<Longrightarrow> safe I (refuse_retiring S rid epoch (s, b, g))"
  by (auto simp: refuse_retiring_def refuse_def safe_def Let_def split: prod.splits sum.splits dest!: row_safe)

lemma boundary_safe:
  "boundary known now emit b g = (r, b1, g1) \<Longrightarrow> I g \<Longrightarrow> (\<And>t. I g \<longrightarrow> I (snd (snd (emit t)))) \<Longrightarrow> I g1"
  by (auto simp: boundary_def split: option.splits prod.splits sum.splits) (metis snd_conv)+

lemma value_safe: "I g \<Longrightarrow> safe I (Inr r, s, b, g)"
  by (simp add: safe_def)

lemma observed_safe:
  assumes "I g" "\<And>t. I g \<longrightarrow> I (snd (snd (call t b g)))"
  shows "safe I (observed S now call (s, b, g))"
proof (cases now)
  case (Some t)
  obtain r b1 g1 where c: "call t b g = (r, b1, g1)" by (metis surj_pair)
  then have i: "I g1" using assms by (metis snd_conv)
  obtain d g2 where d: "drop_row S Recovery_event (PInt t) g1 = (d, g2)" by (metis surj_pair)
  from row_safe [OF d i] Some c d i assms(1) show ?thesis
    by (auto simp: observed_def Let_def refuse_safe value_safe split: sum.splits option.splits)
qed (use assms in \<open>auto simp: observed_def refuse_safe value_safe\<close>)

lemma started_safe: "I g \<Longrightarrow> safe I (request_started S now rid (s, b, g))"
  unfolding request_started_def by (rule observed_safe) (auto intro: register_ext [rule_format])

lemma scheduled_safe: "I g \<Longrightarrow> safe I (request_scheduled S now rid kind n m c (s, b, g))"
  unfolding request_scheduled_def by (rule observed_safe) (auto intro: scheduled_ext [rule_format])

lemma preempted_safe: "I g \<Longrightarrow> safe I (request_preempted S now rid epoch (s, b, g))"
proof -
  assume i: "I g"
  obtain r b1 g1 where e: "boundary (preempted_event rid epoch b) now
      (\<lambda>t. emit_runtime_preempted (sv_recorder S) rid epoch t b g) b g = (r, b1, g1)" by (metis surj_pair)
  from boundary_safe [OF e i preempted_ext] have "I g1" .
  with i e show ?thesis
    by (auto simp: request_preempted_def Let_def refuse_retiring_safe refuse_safe value_safe split: option.splits)
qed

lemma write_rows_safe: "write_rows S t ts rows g = (r, g1) \<Longrightarrow> I g \<Longrightarrow> \<not> isl r \<and> I g1"
proof (induction rows arbitrary: g r g1)
  case (Cons f rows)
  obtain w g2 where w: "sv_write S t (PInt ts) f g = (w, g2)" by (metis surj_pair)
  obtain v g3 where v: "write_rows S t ts rows g2 = (v, g3)" by (metis surj_pair)
  from write_safe [OF w Cons.prems(2)] have i: "\<not> isl w \<and> I g2" .
  with Cons.IH [OF v] w v Cons.prems(1) show ?case
    by (auto simp: and_then_def split: sum.splits option.splits)
qed auto


lemma associate_safe: "I g \<Longrightarrow> safe I (associate S rid operation i (s, b, g))"
proof -
  assume i: "I g"
  have w: "sv_write S t ts f g = (r, g1) \<Longrightarrow> \<not> isl r \<and> I g1" for t ts f r g1
    by (rule write_safe [OF _ i])
  show ?thesis
    unfolding associate_def
    by (auto simp: Let_def refuse_safe value_safe i split: option.splits sum.splits prod.splits dest!: w)
qed

lemma context_safe:
  "I g \<Longrightarrow> safe I (case context of None \<Rightarrow> refuse S Block_set_chunk PNone (s1, b, g)
   | Some c \<Rightarrow> (case now of None \<Rightarrow> refuse S Block_set_chunk PNone (s1, b, g)
     | Some t \<Rightarrow>
       (case write_rows S Block_set_chunk t (rows c) g of
          (r, g1) \<Rightarrow> (case r of Inl e \<Rightarrow> (Inl e, s1, b, g1) | Inr None \<Rightarrow> (Inr None, s1, b, g1)
             | Inr (Some _) \<Rightarrow> (Inr (Some c), s2 c, b, g1)))))"
  by (auto simp: refuse_safe value_safe split: option.splits sum.splits prod.splits dest!: write_rows_safe)

lemma prepared_safe: "I g \<Longrightarrow> safe I (prepare_transfer_context A S now rid operation cs (s, b, g))"
proof -
  assume i: "I g"
  show ?thesis
  proof (cases "sc_closed s \<or> cs = [] \<or> bridge_identity rid b = None")
    case True
    then show ?thesis using i by (auto simp: prepare_transfer_context_def refuse_safe value_safe)
  next
    case False
    then obtain w where w: "\<not> sc_closed s" "cs \<noteq> []" "bridge_identity rid b = Some w" by auto
    obtain r s1 b1 g1 where a: "associate S rid operation w (s, b, g) = (r, s1, b1, g1)" by (metis surj_pair)
    from associate_safe [OF i, of rid operation w s b] a obtain link where r: "r = Inr link" "I g1"
      by (cases r) (auto simp: safe_def)
    show ?thesis
      unfolding prepare_transfer_context_def and_then_def Let_def
      using w a r by (cases link) (auto simp: value_safe split: prod.split intro!: context_safe)
  qed
qed

lemma take_receipts_safe: "take_receipts S rs s g = (r, s1, g1) \<Longrightarrow> I g \<Longrightarrow> \<not> isl r \<and> I g1"
proof (induction rs arbitrary: s g)
  case (Cons rc rs)
  obtain d g2 where d: "drop_row S Recovery_event (PInt (rp_timestamp_ns rc)) g = (d, g2)" by (metis surj_pair)
  from row_safe [OF d Cons.prems(2)] obtain x where x: "d = Inr x" "I g2" by (cases d) auto
  from Cons.prems(1) d x(1) obtain s2 g3 where "take_receipts S rs s2 g3 = (r, s1, g1)" "g3 \<in> {g, g2}"
    by (auto simp: Let_def split: option.splits if_splits)
  with Cons.IH Cons.prems(2) x(2) show ?case by blast
qed auto

lemma consumed_safe: "I g \<Longrightarrow> safe I (consume_h2d_receipts S rs exhausted (s, b, g))"
  by (auto simp: consume_h2d_receipts_def Let_def value_safe safe_def split: prod.splits sum.splits if_splits
      dest!: take_receipts_safe row_safe)

lemma requeued_safe: "I g \<Longrightarrow> safe I (request_requeued S now rid epoch reason (s, b, g))"
  by (auto simp: request_requeued_def Let_def refuse_safe value_safe split: option.splits prod.splits sum.splits
      dest!: write_safe)

lemma admission_safe:
  assumes "I g" "now \<noteq> None \<or> \<not> reads_clock rid epoch s"
  shows "safe I (request_admission_started S now rid epoch (s, b, g))"
proof -
  obtain r b1 g1 where e: "boundary (admission_started_event rid epoch b) now
      (\<lambda>t. emit_admission_started (sv_recorder S) rid epoch t b g) b g = (r, b1, g1)" by (metis surj_pair)
  from boundary_safe [OF e assms(1) admission_ext] have i: "I g1" .
  have w: "sv_write S t ts f g1 = (r, g2) \<Longrightarrow> \<not> isl r \<and> I g2" for t ts f r g2
    by (rule write_safe [OF _ i])
  show ?thesis
    using assms e i
    by (auto simp: request_admission_started_def reads_clock_def Let_def refuse_safe value_safe
        split: option.splits prod.splits sum.splits dest!: w)
qed

lemma clock_raises: "reads_clock rid epoch s \<Longrightarrow> isl (fst (request_admission_started S None rid epoch (s, b, g)))"
  by (auto simp: request_admission_started_def reads_clock_def split: option.splits)

lemma hand_over_safe: "I g \<Longrightarrow> safe I (hand_over_compute A S now rid epoch kind rc resumed k (s, b, g))"
proof -
  assume i: "I g"
  have "I g \<longrightarrow> I (snd (snd (emit_first_compute (sv_recorder S) rid epoch t kind b g)))" for t
    by (rule first_compute_ext)
  then have e: "emit_first_compute (sv_recorder S) rid epoch t kind b g = (r, b1, g1) \<Longrightarrow> I g1" for t r b1 g1
    using i by (metis snd_conv)
  show ?thesis
    unfolding hand_over_compute_def
    by (auto simp: Let_def refuse_safe value_safe i split: option.splits prod.splits sum.splits dest: e)
qed

lemma admitted_safe: "I g \<Longrightarrow> safe I (request_admitted A S now now2 rid epoch kind m cached (s, b, g))"
proof -
  assume i: "I g"
  obtain r b1 g1 where e: "boundary (resumed_event rid epoch b) now
      (\<lambda>t. emit_runtime_resumed (sv_recorder S) rid epoch t m cached b g) b g = (r, b1, g1)" by (metis surj_pair)
  from boundary_safe [OF e i resumed_ext] have i1: "I g1" .
  have d: "rc_edge (sv_recorder S) d g1 = (x, g2) \<Longrightarrow> I g2" for d x g2
    using ext_edge [of g1 d] i1 by simp
  have w: "sv_write S t ts f g2 = (r, g3) \<Longrightarrow> I g2 \<Longrightarrow> \<not> isl r \<and> I g3" for t ts f g2 r g3
    by (rule write_safe)
  show ?thesis
    unfolding request_admitted_def
    using i e i1
    by (auto simp: Let_def refuse_safe value_safe split: option.splits prod.splits sum.splits
        dest: d dest!: w intro!: hand_over_safe refuse_safe)
qed

lemma retire_safe: "retire S eps pop s g = (r, s1, g1) \<Longrightarrow> I g \<Longrightarrow> \<not> isl r \<and> I g1"
proof (induction eps arbitrary: s g)
  case (Cons kv eps)
  obtain rid epoch ep where kv: "kv = ((rid, epoch), ep)" by (metis surj_pair)
  obtain d g2 where d: "(if se_preempt_record ep \<noteq> None then drop_row S Recovery_event PNone g else (Inr (), g)) = (d, g2)"
    by (metis surj_pair)
  then obtain x where x: "d = Inr x" "I g2"
    using Cons.prems(2) by (cases d) (auto split: if_splits dest: row_safe)
  from Cons.prems(1) have "retire S eps pop (if pop then pop_sched rid epoch s else s) g2 = (r, s1, g1)"
    unfolding kv retire.simps Let_def d x(1) by simp
  with Cons.IH x(2) show ?case by blast
qed auto

lemma terminal_safe: "I g \<Longrightarrow> safe I (sched_request_terminal S now rid cause n (s, b, g))"
proof -
  assume i: "I g"
  obtain r s1 g1 where r: "retire S (filter (\<lambda>kv. fst (fst kv) = rid) (sc_episodes s)) True s g = (r, s1, g1)"
    by (metis surj_pair)
  from retire_safe [OF r i] obtain x where x: "r = Inr x" "I g1" by (cases r) auto
  obtain e b2 g2 where e: "boundary None now
      (\<lambda>t. emit_runtime_terminal (sv_recorder S) rid cause t n b g1) b g1 = (e, b2, g2)" by (metis surj_pair)
  from boundary_safe [OF e x(2) terminal_ext] have "I g2" .
  with r x e show ?thesis
    by (auto simp: sched_request_terminal_def Let_def refuse_safe value_safe split: option.splits)
qed

lemma reset_safe: "I g \<Longrightarrow> safe I (sched_reset S (s, b, g))"
  by (auto simp: sched_reset_def Let_def value_safe safe_def split: prod.splits sum.splits dest!: retire_safe)

lemma sched_close_safe: "I g \<Longrightarrow> safe I (sched_close S (s, b, g))"
  using reset_safe [of g s b]
  by (auto simp: sched_close_def safe_def split: prod.splits intro: close_safe)

lemmas callbacks_safe = started_safe scheduled_safe preempted_safe prepared_safe consumed_safe requeued_safe
  admitted_safe terminal_safe reset_safe sched_close_safe

end

section \<open>The ledger over the facade\<close>

definition hooked :: "ledger \<times> hooks \<Rightarrow> bool" where
  "hooked g \<longleftrightarrow> lg_hooked (fst g)"

interpretation paired: failsafe_services "paired_services closing" hooked
proof unfold_locales
  fix h h' :: "ledger \<times> hooks" and t ts f r
  assume "sv_write (paired_services closing) t ts f h = (r, h')" "hooked h"
  then show "\<not> isl r \<and> hooked h'"
    by (cases h) (auto simp: paired_services_def ledger_write_def hooked_def Let_def split: prod.splits)
next
  fix h h' :: "ledger \<times> hooks" and t ts reason d
  assume "sv_drop (paired_services closing) t ts reason h = (d, h')" "hooked h"
  then show "\<not> isl d \<and> hooked h'"
    by (cases h) (auto simp: paired_services_def ledger_drop_def hooked_def Let_def split: prod.splits)
qed (auto simp: paired_services_def hooked_def over_hooks_def Let_def split: prod.splits)

text \<open>
  C12. Serving goes on. With the ledger over the facade, whatever the clock, the runtime ABI, the bridge
  and the exporter do, every callback of the scheduler adapter returns (its evidence is lost
  instead), with one exception: the wake-up callback, which reads the clock outside every guard and
  raises exactly when it gets there and the clock raises.
\<close>
theorem callbacks_fail_open:
  fixes closing :: "hooks \<Rightarrow> hooks"
  defines "S \<equiv> paired_services closing"
  assumes "lg_hooked lg"
  shows "\<not> isl (fst (request_started S now rid (s, b, lg, h))) \<and>
    \<not> isl (fst (request_scheduled S now rid kind n m cached (s, b, lg, h))) \<and>
    \<not> isl (fst (request_preempted S now rid epoch (s, b, lg, h))) \<and>
    \<not> isl (fst (prepare_transfer_context A S now rid operation coordinates (s, b, lg, h))) \<and>
    \<not> isl (fst (consume_h2d_receipts S receipts exhausted (s, b, lg, h))) \<and>
    (isl (fst (request_admission_started S now rid epoch (s, b, lg, h))) \<longleftrightarrow> now = None \<and> reads_clock rid epoch s) \<and>
    \<not> isl (fst (request_requeued S now rid epoch reason (s, b, lg, h))) \<and>
    \<not> isl (fst (request_admitted A S now now2 rid epoch kind m cached (s, b, lg, h))) \<and>
    \<not> isl (fst (sched_request_terminal S now rid cause n (s, b, lg, h))) \<and>
    \<not> isl (fst (sched_reset S (s, b, lg, h))) \<and> \<not> isl (fst (sched_close S (s, b, lg, h)))"
proof -
  have i: "hooked (lg, h)" using assms by (simp add: hooked_def)
  have "now \<noteq> None \<or> \<not> reads_clock rid epoch s \<Longrightarrow> \<not> isl (fst (request_admission_started S now rid epoch (s, b, lg, h)))"
    using paired.admission_safe [OF i] by (simp add: S_def safe_def)
  moreover have "reads_clock rid epoch s \<Longrightarrow> isl (fst (request_admission_started S None rid epoch (s, b, lg, h)))"
    unfolding S_def by (rule paired.clock_raises)
  ultimately show ?thesis
    unfolding S_def using paired.callbacks_safe [OF i, unfolded safe_def] by (metis i)
qed

text \<open>An episode whose restore is done, and a ledger over the facade.\<close>

definition restored_scheduler :: scheduler where
  "restored_scheduler = sample_scheduler\<lparr>sc_episodes := [((''r1'', 1),
     \<lparr>se_identity = sample_identity, se_recovery_epoch = 1, se_preempted_event = sample_ref 3,
      se_preempt_record = Some ''k'', se_context = Some (at_context sample_attempt),
      se_receipt = Some (sample_receipt_for (at_context sample_attempt)), se_admission_started = None,
      se_wakeup_record = None, se_predecessor = None, se_requeue_occurrence = 0, se_admission_record = None\<rparr>)]\<rparr>"

definition hooked_ledger :: ledger where
  "hooked_ledger = \<lparr>lg_process_uuid = sample_hex CHR ''a'', lg_capacity = 1, lg_hooked = True,
     lg_next_record_seq = 0, lg_records = [], lg_losses = []\<rparr>"

lemma callbacks_fail_open_witness:
  "isl (fst (request_admission_started (paired_services id) None ''r1'' 1
     (restored_scheduler, sample_bridge, hooked_ledger, sample_hooks))) \<and>
   \<not> isl (fst (request_admission_started (paired_services id) (Some 8) ''r1'' 1
     (restored_scheduler, sample_bridge, hooked_ledger, sample_hooks)))"
proof -
  have "lg_hooked hooked_ledger" by (simp add: hooked_ledger_def)
  from callbacks_fail_open [OF this, where rid = "''r1''" and epoch = 1 and s = restored_scheduler and closing = id]
  have "isl (fst (request_admission_started (paired_services id) now ''r1'' 1
      (restored_scheduler, sample_bridge, hooked_ledger, sample_hooks))) \<longleftrightarrow>
    now = None \<and> reads_clock ''r1'' 1 restored_scheduler" for now
    by blast
  moreover have "reads_clock ''r1'' 1 restored_scheduler"
    by (simp add: reads_clock_def sched_of_def restored_scheduler_def sample_scheduler_def)
  ultimately show ?thesis by simp
qed

end
