(* ===== verification/Observer_Factory.thy ===== *)
theory Observer_Factory
  imports Scheduler_Failsafe
begin

text \<open>
  The factory of the runtime's observers (\<open>kv_recovery_runtime.KVRecoveryObserverFactoryAdapter\<close>): it
  makes the observers of a process, once the configuration asks for them, with one profile ledger for
  each process, and closes all of them when the engine dies. \<open>mk\<close> stands for the runtime's worker
  observer type, \<open>None\<close> when its constructor raises; \<open>closing\<close> for what closing does to the hooks.
\<close>

section \<open>The factory\<close>

text \<open>A scheduler observer is kept with its ledger; the ledgers are kept by process.\<close>

record factory =
  fa_run_id :: string
  fa_profiles :: "(string \<times> ledger) list"
  fa_schedulers :: "(scheduler \<times> ledger) list"

definition make_factory :: "string \<Rightarrow> factory res" where
  "make_factory run_id =
     checked (fails (\<not> is_hex 32 run_id) (ValueError ''run_id must be 32 lowercase hexadecimal characters''))
       \<lparr>fa_run_id = run_id, fa_profiles = [], fa_schedulers = []\<rparr>"

definition runtime_config_enabled :: "string \<Rightarrow> hooks \<Rightarrow> bool res" where
  "runtime_config_enabled run_id h =
     (if hooks_enabled h \<and> tc_communication_mode (hk_config h) = KV_RECOVERY_COMMUNICATION_MODE \<and> hooks_profile_enabled h
      then map_sum id (\<lambda>c. tc_profile_config (hk_config h) = Some c) (make_profile_config run_id)
      else Inr False)"

definition profile_for_current_process :: "hooks \<Rightarrow> factory \<Rightarrow> ledger option res \<times> factory" where
  "profile_for_current_process h fa =
     (case hooks_process_uuid h of
        None \<Rightarrow> (Inr None, fa)
      | Some process_uuid \<Rightarrow>
          (case map_of (fa_profiles fa) process_uuid of
             Some profile \<Rightarrow> (Inr (Some profile), fa)
           | None \<Rightarrow>
               (case make_ledger process_uuid (int MAX_PROFILE_DATA_RECORDS) True of
                  Inl e \<Rightarrow> (Inl e, fa)
                | Inr profile \<Rightarrow>
                    (Inr (Some profile), fa\<lparr>fa_profiles := AList.update process_uuid profile (fa_profiles fa)\<rparr>))))"

definition create_scheduler_observer :: "hooks \<Rightarrow> factory \<Rightarrow> scheduler option res \<times> factory" where
  "create_scheduler_observer h fa =
     (case runtime_config_enabled (fa_run_id fa) h of
        Inl e \<Rightarrow> (Inl e, fa)
      | Inr False \<Rightarrow> (Inr None, fa)
      | Inr True \<Rightarrow>
          (case profile_for_current_process h fa of
             (Inl e, fa1) \<Rightarrow> (Inl e, fa1)
           | (Inr None, fa1) \<Rightarrow> (Inr None, fa1)
           | (Inr (Some profile), fa1) \<Rightarrow>
               (case make_scheduler (fa_run_id fa1) of
                  Inl e \<Rightarrow> (Inl e, fa1)
                | Inr s \<Rightarrow> (Inr (Some s), fa1\<lparr>fa_schedulers := fa_schedulers fa1 @ [(s, profile)]\<rparr>))))"

text \<open>A worker observer gets the process, the run, the clock domain and its evidence sink.\<close>

definition create_worker_observer ::
  "(string \<Rightarrow> string \<Rightarrow> string \<Rightarrow> worker \<Rightarrow> 'o option) \<Rightarrow> factory \<times> hooks \<Rightarrow> 'o option res \<times> factory \<times> hooks" where
  "create_worker_observer mk = (\<lambda>(fa, h).
     case runtime_config_enabled (fa_run_id fa) h of
       Inl e \<Rightarrow> (Inl e, fa, h)
     | Inr False \<Rightarrow> (Inr None, fa, h)
     | Inr True \<Rightarrow>
         (case profile_for_current_process h fa of
            (Inl e, fa1) \<Rightarrow> (Inl e, fa1, h)
          | (Inr profile, fa1) \<Rightarrow>
              (case (hooks_process_uuid h, hooks_clock_domain_id h, profile) of
                 (Some process_uuid, Some clock_domain_id, Some lg) \<Rightarrow>
                   (case make_worker (fa_run_id fa1) of
                      Inl e \<Rightarrow> (Inl e, fa1, h)
                    | Inr w \<Rightarrow>
                        (case mk process_uuid (fa_run_id fa1) clock_domain_id w of
                           Some observer \<Rightarrow> (Inr (Some observer), fa1, h)
                         | None \<Rightarrow>
                             (let (d, lg1, h1) = ledger_drop Recovery_event PNone ''serialization_failure'' (lg, h)
                              in (map_sum id (\<lambda>_. None) d, fa1\<lparr>fa_profiles := AList.update process_uuid lg1 (fa_profiles fa1)\<rparr>, h1))))
               | _ \<Rightarrow> (Inr None, fa1, h))))"

text \<open>The hooks' reinitialisation, by what making a new sink gave.\<close>

definition factory_reinitialize :: "sink res \<Rightarrow> hooks \<Rightarrow> unit res \<times> hooks" where
  "factory_reinitialize made h =
     (let (active, h1) = reinitialize_after_fork made h
      in (if active then Inr () else Inl (RuntimeError ''trace exporter could not reinitialize after fork''), h1))"

text \<open>Whatever closing an observer raises is logged; the hooks are closed once more at the end.\<close>

fun close_observers ::
  "(hooks \<Rightarrow> hooks) \<Rightarrow> (scheduler \<times> ledger) list \<Rightarrow> bridge \<times> hooks \<Rightarrow> (scheduler \<times> ledger) list \<times> bridge \<times> hooks" where
  "close_observers closing [] st = ([], st)"
| "close_observers closing ((s, lg) # observers) (b, h) =
     (let (r, s1, b1, lg1, h1) = sched_close (paired_services closing) (s, b, lg, h);
          (rest, st) = close_observers closing observers (b1, h1)
      in ((s1, lg1) # rest, st))"

definition close_for_engine_failure ::
  "(hooks \<Rightarrow> hooks) \<Rightarrow> factory \<times> bridge \<times> hooks \<Rightarrow> factory \<times> bridge \<times> hooks" where
  "close_for_engine_failure closing = (\<lambda>(fa, st).
     let (observers, b1, h1) = close_observers closing (fa_schedulers fa) st
     in (fa\<lparr>fa_schedulers := observers\<rparr>, b1, closing h1))"

section \<open>What a factory made\<close>

definition factory_ok :: "factory \<Rightarrow> bool" where
  "factory_ok fa \<longleftrightarrow> is_hex 32 (fa_run_id fa) \<and> distinct (map fst (fa_profiles fa)) \<and>
     (\<forall>(uuid, lg) \<in> set (fa_profiles fa). make_ledger uuid (int MAX_PROFILE_DATA_RECORDS) True = Inr lg) \<and>
     (\<forall>(s, lg) \<in> set (fa_schedulers fa). sc_run_id s = fa_run_id fa \<and> lg \<in> snd ` set (fa_profiles fa))"

lemma made_factory_ok: "make_factory run_id = Inr fa \<Longrightarrow> factory_ok fa"
  by (auto simp: make_factory_def accept_simps factory_ok_def)

lemma made_profile_config:
  "is_hex 32 run_id \<Longrightarrow> \<exists>c. make_profile_config run_id = Inr c \<and> kc_run_id c = run_id"
  using profile_config_made [of run_id] by (auto simp: make_profile_config_def Let_def accept_simps)

lemma profile_config_run: "make_profile_config r = Inr c \<Longrightarrow> kc_run_id c = r"
  by (auto simp: make_profile_config_def Let_def accept_simps)

lemma set_update_new: "map_of m k = None \<Longrightarrow> set (AList.update k v m) = insert (k, v) (set m)"
  by (induction m) (auto split: if_splits)

text \<open>The ledger of a process is made once; asking again gives the same one.\<close>

lemma profile_for_current_process_ok:
  assumes "factory_ok fa" "pred_option (is_hex 32) (hooks_process_uuid h)"
  shows "\<exists>p fa'. profile_for_current_process h fa = (Inr p, fa') \<and> factory_ok fa' \<and> fa_run_id fa' = fa_run_id fa \<and>
    fa_schedulers fa' = fa_schedulers fa \<and> (p = None \<longleftrightarrow> hooks_process_uuid h = None) \<and>
    (\<forall>lg. p = Some lg \<longrightarrow> (the (hooks_process_uuid h), lg) \<in> set (fa_profiles fa')) \<and>
    profile_for_current_process h fa' = (Inr p, fa')"
proof (cases "hooks_process_uuid h")
  case (Some uuid)
  then have hex: "is_hex 32 uuid" using assms(2) by simp
  show ?thesis
  proof (cases "map_of (fa_profiles fa) uuid")
    case None
    obtain lg where lg: "make_ledger uuid (int MAX_PROFILE_DATA_RECORDS) True = Inr lg"
      using hex by (auto simp: make_ledger_def accept_simps MAX_PROFILE_DATA_RECORDS_def)
    let ?fa = "fa\<lparr>fa_profiles := AList.update uuid lg (fa_profiles fa)\<rparr>"
    have "set (AList.update uuid lg (fa_profiles fa)) = insert (uuid, lg) (set (fa_profiles fa))"
      using None by (rule set_update_new)
    then have "factory_ok ?fa" using assms(1) lg by (auto simp: factory_ok_def distinct_update)
    with Some None lg show ?thesis
      by (auto simp: profile_for_current_process_def update_conv' map_of_SomeD)
  next
    case (Some lg)
    with \<open>hooks_process_uuid h = Some uuid\<close> assms(1) show ?thesis
      by (auto simp: profile_for_current_process_def dest: map_of_SomeD)
  qed
qed (use assms in \<open>simp add: profile_for_current_process_def\<close>)

section \<open>Whom the factory serves\<close>

definition recovery_run :: "(string \<Rightarrow> string option) \<Rightarrow> string \<Rightarrow> bool" where
  "recovery_run source run_id \<longleftrightarrow> env_get source TRACE_EXPORT_ENV '''' \<noteq> [] \<and>
     env_get source TRACE_COMMUNICATION_MODE_ENV ''none'' = KV_RECOVERY_COMMUNICATION_MODE \<and>
     is_hex 40 (env_get source TRACE_PARENT_COMMIT_ENV '''') \<and>
     is_hex 40 (env_get source TRACE_RUNTIME_COMMIT_ENV '''') \<and>
     is_hex 40 (env_get source TRACE_DEVICE_COMMIT_ENV '''') \<and>
     env_get source TRACE_KV_RECOVERY_RUN_ID_ENV '''' = run_id"

lemma configured_run:
  assumes "hk_config h = config_from_env source" "is_hex 32 run_id"
  shows "runtime_config_enabled run_id h = Inr (hooks_profile_enabled h \<and> recovery_run source run_id)"
proof -
  obtain c where c: "make_profile_config run_id = Inr c" using made_profile_config [OF assms(2)] by blast
  have enabled: "hooks_enabled h" if "hooks_profile_enabled h"
    using that by (simp add: hooks_enabled_def hooks_profile_enabled_def split: any_sink.splits)
  have known: "KV_RECOVERY_COMMUNICATION_MODE \<in> set KNOWN_MODES" by code_simp
  let ?r = "env_get source TRACE_KV_RECOVERY_RUN_ID_ENV ''''"
  have same: "make_profile_config ?r = Inr c \<longleftrightarrow> ?r = run_id" using c by (metis profile_config_run)
  have "tc_communication_mode (hk_config h) = KV_RECOVERY_COMMUNICATION_MODE \<and> tc_profile_config (hk_config h) = Some c \<longleftrightarrow>
      recovery_run source run_id"
    using provenance_made [of "env_get source TRACE_PARENT_COMMIT_ENV ''''" "env_get source TRACE_RUNTIME_COMMIT_ENV ''''"
        "env_get source TRACE_DEVICE_COMMIT_ENV ''''"] known same
    by (auto simp: assms(1) config_from_env_def recovery_run_def Let_def split: sum.splits)
  with enabled show ?thesis by (auto simp: runtime_config_enabled_def c)
qed

text \<open>
  C20. Observers exist for the configured run only. With hooks configured from the environment, a
  factory makes a scheduler observer exactly when the profile writer is on and the environment names
  an export path, the recovery mode, three commits and the factory's own run id; it never raises, and
  the observer it makes belongs to that run and shares the one ledger of the process, which passes
  every record on to the hooks. Asked for a worker observer under the same conditions, it gives
  what the runtime's constructor gave; when that raised, one recovery event is reported lost.
\<close>
theorem observers_for_the_configured_run:
  assumes "factory_ok fa" "hk_config h = config_from_env source"
    "pred_option (is_hex 32) (hooks_process_uuid h)"
  shows "\<exists>observer fa'. create_scheduler_observer h fa = (Inr observer, fa') \<and> factory_ok fa' \<and>
    (observer \<noteq> None \<longleftrightarrow> hooks_profile_enabled h \<and> recovery_run source (fa_run_id fa)) \<and>
    (\<forall>s. observer = Some s \<longrightarrow> sc_run_id s = fa_run_id fa \<and> (\<exists>lg. lg_hooked lg \<and>
       map_of (fa_profiles fa') (the (hooks_process_uuid h)) = Some lg \<and> fa_schedulers fa' = fa_schedulers fa @ [(s, lg)])) \<and>
    (\<exists>fa2 h2. create_worker_observer mk (fa, h) =
       (Inr (if hooks_profile_enabled h \<and> recovery_run source (fa_run_id fa)
             then mk (the (hooks_process_uuid h)) (fa_run_id fa) (the (hooks_clock_domain_id h))
                     \<lparr>wk_run_id = fa_run_id fa, wk_pending = [], wk_closed = False\<rparr>
             else None), fa2, h2) \<and> factory_ok fa2 \<and>
       h2 = (if hooks_profile_enabled h \<and> recovery_run source (fa_run_id fa) \<and>
               mk (the (hooks_process_uuid h)) (fa_run_id fa) (the (hooks_clock_domain_id h))
                     \<lparr>wk_run_id = fa_run_id fa, wk_pending = [], wk_closed = False\<rparr> = None
             then snd (hooks_drop_profile Recovery_event PNone ''serialization_failure'' h) else h))"
proof -
  have run: "is_hex 32 (fa_run_id fa)" using assms(1) by (simp add: factory_ok_def)
  note on = configured_run [OF assms(2) run]
  obtain p fa1 where p: "profile_for_current_process h fa = (Inr p, fa1)" "factory_ok fa1" "fa_run_id fa1 = fa_run_id fa"
    "fa_schedulers fa1 = fa_schedulers fa" "p = None \<longleftrightarrow> hooks_process_uuid h = None"
    "\<forall>lg. p = Some lg \<longrightarrow> (the (hooks_process_uuid h), lg) \<in> set (fa_profiles fa1)"
    using profile_for_current_process_ok [OF assms(1,3)] by (elim exE conjE) (rule that; assumption)
  show ?thesis
  proof (cases "hooks_profile_enabled h \<and> recovery_run source (fa_run_id fa)")
    case False
    then show ?thesis using assms(1) on by (auto simp: create_scheduler_observer_def create_worker_observer_def)
  next
    case True
    then obtain uuid clock where ids: "hooks_process_uuid h = Some uuid" "hooks_clock_domain_id h = Some clock"
      by (auto simp: hooks_profile_enabled_def hooks_process_uuid_def hooks_clock_domain_id_def split: any_sink.splits)
    with p(5,6) obtain lg where lg: "p = Some lg" "(uuid, lg) \<in> set (fa_profiles fa1)" by auto
    then have hooked: "lg_hooked lg" "map_of (fa_profiles fa1) uuid = Some lg"
      using p(2) by (auto simp: factory_ok_def make_ledger_def accept_simps)
    define s where "s = \<lparr>sc_run_id = fa_run_id fa, sc_episodes = [], sc_logical_ids = [], sc_closed = False\<rparr>"
    have made: "make_scheduler (fa_run_id fa) = Inr s" "sc_run_id s = fa_run_id fa"
      "make_worker (fa_run_id fa) = Inr \<lparr>wk_run_id = fa_run_id fa, wk_pending = [], wk_closed = False\<rparr>"
      using run by (simp_all add: make_scheduler_def make_worker_def accept_simps s_def)
    have "factory_ok (fa1\<lparr>fa_schedulers := fa_schedulers fa1 @ [(s, lg)]\<rparr>)"
      using p(2,3) lg made(2) by (force simp: factory_ok_def)
    moreover have "factory_ok (fa1\<lparr>fa_profiles := AList.update uuid lg (fa_profiles fa1)\<rparr>)"
      using p(2) update_triv [OF hooked(2)] by simp
    ultimately show ?thesis
      using True on p(1-4) ids lg hooked made
      by (cases "mk uuid (fa_run_id fa) clock \<lparr>wk_run_id = fa_run_id fa, wk_pending = [], wk_closed = False\<rparr>")
        (simp_all add: create_scheduler_observer_def create_worker_observer_def ledger_drop_def split_beta)
  qed
qed

section \<open>When the engine dies\<close>

lemma retire_hooked:
  assumes "lg_hooked lg"
  shows "\<exists>s' h'. retire (paired_services closing) eps False s (lg, h) = (Inr (), s', lg, h')"
proof (induction eps arbitrary: s h)
  case (Cons e eps)
  obtain rid epoch ep where e: "e = ((rid, epoch), ep)" by (metis prod.exhaust)
  have "\<exists>h1. drop_row (paired_services closing) Recovery_event PNone (lg, h) = (Inr (), lg, h1)"
    using assms by (simp add: drop_row_def paired_services_def ledger_drop_def split_beta)
  then show ?case using Cons.IH by (auto simp: e Let_def)
qed simp

lemma close_hooked:
  assumes "lg_hooked lg"
  shows "\<exists>s' h'. sched_close (paired_services closing) (s, b, lg, h) = (Inr (), s', b, lg, h') \<and> sc_closed s' \<and>
    (\<not> sc_closed s \<longrightarrow> sc_episodes s' = [] \<and> sc_logical_ids s' = [])"
proof (cases "sc_closed s")
  case False
  obtain s' h' where "retire (paired_services closing) (sc_episodes s) False s (lg, h) = (Inr (), s', lg, h')"
    using retire_hooked [OF assms] by blast
  with False show ?thesis by (simp add: sched_close_def sched_reset_def paired_services_def)
qed (simp add: sched_close_def)

text \<open>
  C28. The death of the engine closes everything. Whatever the observers of a factory hold, closing it
  for an engine failure leaves each of them closed with its ledger unchanged; those that were
  still open hold no episode and no block id; the bridge is untouched; and the hooks were closed last.
\<close>
theorem engine_failure_closes_every_observer:
  assumes "factory_ok fa" "close_for_engine_failure closing (fa, b, h) = (fa', b', h')"
  shows "b' = b \<and> (\<exists>h1. h' = closing h1) \<and> map snd (fa_schedulers fa') = map snd (fa_schedulers fa) \<and>
    list_all2 (\<lambda>(s, lg) (s', lg'). sc_closed s' \<and> (\<not> sc_closed s \<longrightarrow> sc_episodes s' = [] \<and> sc_logical_ids s' = []))
      (fa_schedulers fa) (fa_schedulers fa')"
proof -
  have *: "\<exists>ss h1. close_observers closing observers (b, h) = (ss, b, h1) \<and> map snd ss = map snd observers \<and>
      list_all2 (\<lambda>(s, lg) (s', lg'). sc_closed s' \<and> (\<not> sc_closed s \<longrightarrow> sc_episodes s' = [] \<and> sc_logical_ids s' = [])) observers ss"
    if "\<forall>(s, lg) \<in> set observers. lg_hooked lg" for observers b h
    using that
  proof (induction observers arbitrary: h)
    case (Cons x observers)
    obtain s lg where x: "x = (s, lg)" by (cases x)
    with Cons.prems obtain s' h1 where "sched_close (paired_services closing) (s, b, lg, h) = (Inr (), s', b, lg, h1)" "sc_closed s'"
      "\<not> sc_closed s \<longrightarrow> sc_episodes s' = [] \<and> sc_logical_ids s' = []"
      using close_hooked [of lg closing s b h] by auto
    moreover obtain ss h2 where "close_observers closing observers (b, h1) = (ss, b, h2)" "map snd ss = map snd observers"
      "list_all2 (\<lambda>(s, lg) (s', lg'). sc_closed s' \<and> (\<not> sc_closed s \<longrightarrow> sc_episodes s' = [] \<and> sc_logical_ids s' = [])) observers ss"
      using Cons by fastforce
    ultimately show ?case by (simp add: x)
  qed simp
  have "\<forall>(s, lg) \<in> set (fa_schedulers fa). lg_hooked lg"
    using assms(1) by (fastforce simp: factory_ok_def make_ledger_def accept_simps)
  from * [OF this, of b h] assms(2) show ?thesis by (auto simp: close_for_engine_failure_def)
qed

section \<open>A recovery run\<close>

text \<open>An environment that asks for a recovery run, hooks configured from it, and a factory of that run.\<close>

definition recovery_env :: "string \<Rightarrow> string option" where
  "recovery_env = map_of [(TRACE_EXPORT_ENV, ''/x''), (TRACE_COMMUNICATION_MODE_ENV, KV_RECOVERY_COMMUNICATION_MODE),
     (TRACE_PARENT_COMMIT_ENV, replicate 40 CHR ''a''), (TRACE_RUNTIME_COMMIT_ENV, replicate 40 CHR ''b''),
     (TRACE_DEVICE_COMMIT_ENV, replicate 40 CHR ''c''), (TRACE_KV_RECOVERY_RUN_ID_ENV, sample_hex CHR ''d'')]"

definition recovery_config :: profile_config where
  "recovery_config = (case make_profile_config (sample_hex CHR ''d'') of Inr c \<Rightarrow> c)"

definition recovery_hooks :: hooks where
  "recovery_hooks = sample_hooks\<lparr>hk_config := config_from_env recovery_env,
     hk_sink := Jsonl (fresh_sink (sample_hex CHR ''a'') (sample_hex CHR ''b'') KV_RECOVERY_COMMUNICATION_MODE (fresh_chan [])
       (Some \<lparr>pf_config = recovery_config, pf_chan = fresh_chan [], pf_records = [], pf_losses = []\<rparr>))\<rparr>"

definition recovery_factory :: factory where
  "recovery_factory = \<lparr>fa_run_id = sample_hex CHR ''d'', fa_profiles = [], fa_schedulers = []\<rparr>"

text \<open>Texts that begin and end with a graphic character are not stripped.\<close>

lemma strip_from_id:
  assumes "list_all (\<lambda>u. u \<noteq> [] \<and> hd u \<noteq> hd s) units"
  shows "strip_from n units s = s"
proof -
  have "\<not> prefix u s" if "u \<in> set units" for u
    using assms that by (cases u; cases s) (auto simp: list_all_iff)
  then have "find (\<lambda>u. prefix u s) units = None" by (simp add: find_None_iff)
  then show ?thesis by (cases n) simp_all
qed

definition graphic :: "char \<Rightarrow> bool" where
  "graphic c \<longleftrightarrow> list_all (\<lambda>u. u \<noteq> [] \<and> hd u \<noteq> c \<and> last u \<noteq> c) ws_units"

lemma graphicI:
  assumes "32 < (of_char c :: nat)" "(of_char c :: nat) < 127"
  shows "graphic c"
proof -
  let ?q = "\<lambda>bs. bs \<noteq> [] \<and> (\<forall>n \<in> {hd bs, last bs}. n < 256 \<and> (n \<le> 32 \<or> 127 \<le> n))"
  have q: "list_all ?q (([[n]. n \<leftarrow> [9..<14] @ [28..<33]] @ [[194, 133], [194, 160], [225, 154, 128 :: nat]] @
      [[226, 128, n]. n \<leftarrow> [128..<139] @ [168, 169, 175]] @ [[226, 129, 159], [227, 128, 128]]))" by code_simp
  have bytes: "char_of n \<noteq> c" if "n < 256" "n \<le> 32 \<or> 127 \<le> n" for n :: nat
    using assms that by (auto simp: of_char_of)
  have "?q bs \<Longrightarrow> map char_of bs \<noteq> [] \<and> hd (map char_of bs) \<noteq> c \<and> last (map char_of bs) \<noteq> c" for bs :: "nat list"
    by (simp add: hd_map last_map bytes)
  with q show ?thesis
    unfolding graphic_def ws_units_def list_all_iff set_map by blast
qed

lemma py_strip_graphic:
  assumes "graphic (hd s)" "graphic (last s)"
  shows "py_strip s = s"
proof (cases "s = []")
  case False
  have "strip_from n ws_units s = s" for n
    using assms by (intro strip_from_id) (auto simp: graphic_def list_all_iff)
  moreover have "strip_from n (map rev ws_units) (rev s) = rev s" for n
    using assms False by (intro strip_from_id) (auto simp: graphic_def list_all_iff hd_rev)
  ultimately show ?thesis by (simp add: py_strip_def)
qed (simp add: py_strip_def)

lemma recovery_env_run: "recovery_run recovery_env (fa_run_id recovery_factory)"
proof -
  have g: "graphic CHR ''a''" "graphic CHR ''b''" "graphic CHR ''c''" "graphic CHR ''d''" "graphic CHR ''/''" "graphic CHR ''x''"
    "graphic (hd KV_RECOVERY_COMMUNICATION_MODE)" "graphic (last KV_RECOVERY_COMMUNICATION_MODE)"
    by (rule graphicI; simp add: KV_RECOVERY_COMMUNICATION_MODE_def)+
  have "is_lhex CHR ''a''" "is_lhex CHR ''b''" "is_lhex CHR ''c''" by code_simp+
  then have "is_hex 40 (replicate 40 c)" if "c \<in> set ''abc''" for c
    using that by (auto simp: is_hex_def list_all_iff)
  moreover have "py_strip (replicate (Suc n) c) = replicate (Suc n) c" if "graphic c" for n c
    using that by (intro py_strip_graphic) (simp_all del: replicate.simps)
  then have "py_strip (replicate 40 c) = replicate 40 c" "py_strip (sample_hex c) = sample_hex c" if "graphic c" for c
    using that by (metis numeral_eq_Suc, metis numeral_eq_Suc sample_hex_def)
  moreover have "py_strip KV_RECOVERY_COMMUNICATION_MODE = KV_RECOVERY_COMMUNICATION_MODE"
    by (rule py_strip_graphic [OF g(7,8)])
  moreover have "py_strip ''/x'' = ''/x''" by (rule py_strip_graphic) (simp_all add: g)
  ultimately show ?thesis
    using g by (simp add: recovery_run_def recovery_factory_def env_get_def recovery_env_def TRACE_EXPORT_ENV_def
        TRACE_COMMUNICATION_MODE_ENV_def TRACE_PARENT_COMMIT_ENV_def TRACE_RUNTIME_COMMIT_ENV_def TRACE_DEVICE_COMMIT_ENV_def
        TRACE_KV_RECOVERY_RUN_ID_ENV_def)
qed

lemma recovery_factory_ok: "factory_ok recovery_factory"
  by (simp add: factory_ok_def recovery_factory_def) code_simp

lemma observers_for_the_configured_run_witness:
  "\<exists>s fa'. create_scheduler_observer recovery_hooks recovery_factory = (Inr (Some s), fa') \<and>
     sc_run_id s = sample_hex CHR ''d'' \<and> length (fa_schedulers fa') = 1"
proof -
  have config: "hk_config recovery_hooks = config_from_env recovery_env" by (simp add: recovery_hooks_def)
  have hex: "is_hex 32 (sample_hex CHR ''a'')" by code_simp
  have uuid: "pred_option (is_hex 32) (hooks_process_uuid recovery_hooks)"
    using hex by (simp add: recovery_hooks_def hooks_process_uuid_def fresh_sink_def)
  have run: "recovery_run recovery_env (fa_run_id recovery_factory)" by (rule recovery_env_run)
  have on: "hooks_profile_enabled recovery_hooks" by (simp add: recovery_hooks_def hooks_profile_enabled_def fresh_sink_def)
  have id: "fa_run_id recovery_factory = sample_hex CHR ''d''" "fa_schedulers recovery_factory = []"
    by (simp_all add: recovery_factory_def)
  obtain observer fa' where made: "create_scheduler_observer recovery_hooks recovery_factory = (Inr observer, fa')"
      "observer \<noteq> None \<longleftrightarrow> hooks_profile_enabled recovery_hooks \<and> recovery_run recovery_env (fa_run_id recovery_factory)"
      "\<forall>s. observer = Some s \<longrightarrow> sc_run_id s = fa_run_id recovery_factory \<and> (\<exists>lg. lg_hooked lg \<and>
         map_of (fa_profiles fa') (the (hooks_process_uuid recovery_hooks)) = Some lg \<and>
         fa_schedulers fa' = fa_schedulers recovery_factory @ [(s, lg)])"
    using observers_for_the_configured_run [OF recovery_factory_ok config uuid, where mk = "\<lambda>_ _ _ _. None :: unit option"]
    by (elim exE conjE) (rule that; assumption)
  from made(2) on run obtain s where "observer = Some s" by blast
  with made(1,3) id show ?thesis by force
qed

definition serving_ledger :: ledger where
  "serving_ledger = \<lparr>lg_process_uuid = sample_hex CHR ''a'', lg_capacity = int MAX_PROFILE_DATA_RECORDS, lg_hooked = True,
     lg_next_record_seq = 0, lg_records = [], lg_losses = []\<rparr>"

definition serving_factory :: factory where
  "serving_factory = recovery_factory\<lparr>fa_profiles := [(sample_hex CHR ''a'', serving_ledger)],
     fa_schedulers := [(\<lparr>sc_run_id = sample_hex CHR ''d'', sc_episodes = [], sc_logical_ids = [], sc_closed = False\<rparr>, serving_ledger)]\<rparr>"

lemma serving_factory_ok: "factory_ok serving_factory"
proof -
  have "is_hex 32 (sample_hex CHR ''a'')" "is_hex 32 (sample_hex CHR ''d'')" by code_simp+
  then have "make_ledger (sample_hex CHR ''a'') (int MAX_PROFILE_DATA_RECORDS) True = Inr serving_ledger"
    by (simp add: make_ledger_def accept_simps serving_ledger_def MAX_PROFILE_DATA_RECORDS_def)
  with \<open>is_hex 32 (sample_hex CHR ''d'')\<close> show ?thesis
    by (simp add: factory_ok_def serving_factory_def recovery_factory_def)
qed

lemma engine_failure_closes_every_observer_witness:
  "\<exists>fa' h'. close_for_engine_failure id (serving_factory, sample_bridge, recovery_hooks) = (fa', sample_bridge, h') \<and>
     (\<exists>s lg. fa_schedulers fa' = [(s, lg)] \<and> sc_closed s)"
proof -
  obtain fa' b' h' where closed: "close_for_engine_failure id (serving_factory, sample_bridge, recovery_hooks) = (fa', b', h')"
    by (metis prod_cases3)
  have "\<exists>x. fa_schedulers serving_factory = [x]" by (simp add: serving_factory_def)
  with engine_failure_closes_every_observer [OF serving_factory_ok closed] closed show ?thesis
    by (auto simp: list_all2_Cons1)
qed

end
