(* ===== verification/Recovery_Normalizer.thy ===== *)
theory Recovery_Normalizer
  imports Scheduler_Properties
begin

text \<open>
  The offline normalizers of \<open>kv_recovery_runtime.py\<close>: \<open>normalize_h2d_recovery\<close> checks the base
  evidence of one restore, \<open>normalize_kv_recovery_episode\<close> the paired evidence of a whole recovery
  episode. Records are the objects parsed from the shards. Each check is a guard in the order of the
  source; the first that fails gives the error.

  Sorting by a key raises in Python when two keys cannot be compared; here it raises when there are
  two or more keys that are neither all integers nor all strings. A row of a dictionary or a set
  that needs a hash raises for a list or an object.
\<close>

section \<open>Guards and lookups\<close>

definition need :: "bool \<Rightarrow> pyerr \<Rightarrow> 'a res \<Rightarrow> 'a res" where
  "need c e r = (if c then r else Inl e)"

definition bind :: "'a res \<Rightarrow> ('a \<Rightarrow> 'b res) \<Rightarrow> 'b res" where
  "bind r f = (case r of Inl e \<Rightarrow> Inl e | Inr a \<Rightarrow> f a)"

definition unhashable :: "pyval \<Rightarrow> bool" where
  "unhashable v = (case v of PList _ \<Rightarrow> True | PDict _ \<Rightarrow> True | _ \<Rightarrow> False)"

definition hash_error :: pyerr where "hash_error = TypeError ''unhashable type''"

text \<open>\<open>==\<close> between hashable values, and in general: Booleans are integers, the order of keys does not matter.\<close>

fun canonical_value :: "pyval \<Rightarrow> pyval" where
  "canonical_value (PBool b) = PInt (of_bool b)"
| "canonical_value (PList xs) = PList (map canonical_value xs)"
| "canonical_value (PDict kvs) = PDict (sort_key fst (map (\<lambda>kv. (fst kv, canonical_value (snd kv))) kvs))"
| "canonical_value v = v"

definition py_eq :: "pyval \<Rightarrow> pyval \<Rightarrow> bool" where
  "py_eq a b \<longleftrightarrow> canonical_value a = canonical_value b"

definition record_type_is :: "string \<Rightarrow> pydict \<Rightarrow> bool" where
  "record_type_is t row = eq_str (dget row ''record_type'') t"

definition metadata_is :: "string \<Rightarrow> string \<Rightarrow> pydict \<Rightarrow> bool" where
  "metadata_is k s row = (case dget row ''metadata'' of PDict m \<Rightarrow> eq_str (dget m k) s | _ \<Rightarrow> False)"

definition is_string :: "pyval \<Rightarrow> bool" where
  "is_string v = (case v of PStr _ \<Rightarrow> True | _ \<Rightarrow> False)"

text \<open>The row of an event; the ids are unique when this is asked.\<close>

definition event_row :: "pydict list \<Rightarrow> string \<Rightarrow> pydict option" where
  "event_row evs i = find (\<lambda>row. eq_str (dget row ''event_id'') i) evs"

section \<open>One restore\<close>

record expected_h2d =
  xh_trace_id :: string
  xh_engine_lifecycle_id :: string
  xh_recovery_epoch :: int
  xh_transfer_id :: string
  xh_block_set_id :: string
  xh_preempted_event_id :: string
  xh_admission_started_event_id :: string

record normalized_h2d =
  nh_start_event_id :: string
  nh_done_event_id :: string
  nh_duration_ns :: int
  nh_bytes_moved :: int
  nh_edge_ids :: "string list"

text \<open>The events, whose ids must be strings and unique.\<close>

definition base_events :: "pydict list \<Rightarrow> pydict list res" where
  "base_events rows =
     (let evs = filter (record_type_is ''event'') rows
      in need (list_all (\<lambda>row. is_string (dget row ''event_id'')) evs \<and> distinct (map (\<lambda>row. dget row ''event_id'') evs))
           (ValueError ''base event IDs are missing or duplicated'') (Inr evs))"

definition endpoint_drifted :: "expected_h2d \<Rightarrow> pydict \<Rightarrow> pydict \<Rightarrow> bool" where
  "endpoint_drifted x preempted admission \<longleftrightarrow>
     \<not> eq_str (dget preempted ''trace_id'') (xh_trace_id x) \<or> \<not> eq_str (dget admission ''trace_id'') (xh_trace_id x) \<or>
     \<not> eq_str (dget preempted ''lifecycle_id'') (xh_engine_lifecycle_id x) \<or>
     \<not> eq_str (dget admission ''lifecycle_id'') (xh_engine_lifecycle_id x) \<or>
     \<not> eq_int (dget preempted ''preemption_epoch'') (xh_recovery_epoch x - 1) \<or>
     \<not> eq_int (dget admission ''preemption_epoch'') (xh_recovery_epoch x)"

text \<open>The two recovery endpoints.\<close>

definition endpoints :: "expected_h2d \<Rightarrow> pydict list \<Rightarrow> (pydict \<times> pydict) res" where
  "endpoints x evs =
     (case event_row evs (xh_preempted_event_id x) of
        None \<Rightarrow> Inl (ValueError ''exact preempted endpoint is missing'')
      | Some preempted \<Rightarrow>
          need (eq_str (dget preempted ''event_name'') ''preempted'') (ValueError ''exact preempted endpoint is missing'')
          (case event_row evs (xh_admission_started_event_id x) of
             None \<Rightarrow> Inl (ValueError ''exact admission_started endpoint is missing'')
           | Some admission \<Rightarrow>
               need (eq_str (dget admission ''event_name'') ''admission_started'')
                 (ValueError ''exact admission_started endpoint is missing'')
               (need (\<not> endpoint_drifted x preempted admission)
                 (ValueError ''base recovery endpoint identity drifted'') (Inr (preempted, admission)))))"

definition communication_row :: "expected_h2d \<Rightarrow> pydict \<Rightarrow> bool" where
  "communication_row x row \<longleftrightarrow> eq_str (dget row ''trace_id'') (xh_trace_id x) \<and>
     str_in (dget row ''event_name'') [''communication_started'', ''communication_done'']"

definition communication_drifted :: "expected_h2d \<Rightarrow> pydict \<Rightarrow> bool" where
  "communication_drifted x row \<longleftrightarrow>
     \<not> eq_str (dget row ''trace_id'') (xh_trace_id x) \<or>
     \<not> eq_str (dget row ''lifecycle_id'') (xh_engine_lifecycle_id x) \<or>
     \<not> eq_int (dget row ''preemption_epoch'') (xh_recovery_epoch x) \<or>
     \<not> metadata_is ''block_set_id'' (xh_block_set_id x) row \<or> \<not> metadata_is ''operation'' ''h2d_restore'' row \<or>
     \<not> metadata_is ''communication_mapping'' KV_RECOVERY_COMMUNICATION_MODE row"

text \<open>The start and the end of the communication: the only ones of the trace.\<close>

definition communication_pair :: "expected_h2d \<Rightarrow> pydict list \<Rightarrow> (pydict \<times> pydict) res" where
  "communication_pair x evs =
     need (\<not> list_ex (\<lambda>row. eq_str (dget row ''trace_id'') (xh_trace_id x) \<and> unhashable (dget row ''event_name'')) evs)
       hash_error
     (need (list_all (\<lambda>row. metadata_is ''operation'' ''h2d_restore'' row \<and> metadata_is ''transfer_id'' (xh_transfer_id x) row)
              (filter (communication_row x) evs))
       (ValueError ''closed H2D base roster contains another operation'')
     (let candidates = filter (metadata_is ''transfer_id'' (xh_transfer_id x)) evs in
      case (filter (\<lambda>row. eq_str (dget row ''event_name'') ''communication_started'') candidates,
            filter (\<lambda>row. eq_str (dget row ''event_name'') ''communication_done'') candidates) of
        ([start], [finish]) \<Rightarrow>
          need (\<not> communication_drifted x start \<and> \<not> communication_drifted x finish)
            (ValueError ''H2D communication identity drifted'')
          (need (py_eq (dget start ''start_span_id'') (dget finish ''end_span_id''))
            (ValueError ''communication span endpoints differ'') (Inr (start, finish)))
      | _ \<Rightarrow> Inl (ValueError ''H2D communication pair is missing or duplicated'')))"

text \<open>The times, in order, and the bytes.\<close>

definition timed :: "pydict \<Rightarrow> bool" where
  "timed row = is_uint (dget row ''timestamp_ns'') UINT64_MAX"

definition time_of :: "pydict \<Rightarrow> int" where
  "time_of row = int_val (dget row ''timestamp_ns'')"

definition metadata_field :: "string \<Rightarrow> pydict \<Rightarrow> pyval" where
  "metadata_field k row = (case dget row ''metadata'' of PDict m \<Rightarrow> dget m k | _ \<Rightarrow> PNone)"

definition causal_bytes :: "pydict \<Rightarrow> pydict \<Rightarrow> pydict \<Rightarrow> pydict \<Rightarrow> int res" where
  "causal_bytes preempted start finish admission =
     need (timed start \<and> timed finish \<and> time_of start < time_of finish)
       (ValueError ''communication duration is not strictly positive'')
     (need (timed preempted \<and> timed admission \<and> time_of preempted \<le> time_of start \<and> time_of finish \<le> time_of admission)
       (ValueError ''H2D endpoints are not causally ordered'')
     (let moved = metadata_field ''bytes_moved'' finish in
      need (is_uint moved UINT64_MAX \<and> 1 \<le> int_val moved) (ValueError ''communication bytes are not positive'')
        (Inr (int_val moved))))"

section \<open>Edges\<close>

definition edge_is :: "string \<Rightarrow> string \<Rightarrow> string \<Rightarrow> string \<Rightarrow> string \<Rightarrow> pydict \<Rightarrow> bool" where
  "edge_is trace from_id to_id kind source edge \<longleftrightarrow>
     eq_str (dget edge ''trace_id'') trace \<and> eq_str (dget edge ''from_event_id'') from_id \<and>
     eq_str (dget edge ''to_event_id'') to_id \<and> eq_str (dget edge ''edge_kind'') kind \<and>
     eq_str (dget edge ''evidence_source'') source"

text \<open>The three edges of a restore, as predicates on edge records.\<close>

definition required_edges :: "expected_h2d \<Rightarrow> string \<Rightarrow> string \<Rightarrow> (pydict \<Rightarrow> bool) list" where
  "required_edges x start_id done_id =
     [edge_is (xh_trace_id x) (xh_preempted_event_id x) start_id ''data_dependency'' KV_RECOVERY_H2D_EVIDENCE,
      edge_is (xh_trace_id x) start_id done_id ''program_order'' ''instrumented_execution_context'',
      edge_is (xh_trace_id x) done_id (xh_admission_started_event_id x) ''data_dependency'' KV_RECOVERY_H2D_EVIDENCE]"

fun edge_ids_of :: "(pydict \<Rightarrow> bool) list \<Rightarrow> pydict list \<Rightarrow> string list res" where
  "edge_ids_of [] edges = Inr []"
| "edge_ids_of (P # Ps) edges =
     (case filter P edges of
        [edge] \<Rightarrow> need (is_string (dget edge ''edge_id'')) (ValueError ''required H2D edge is missing or duplicated'')
          (bind (edge_ids_of Ps edges) (\<lambda>ids. Inr (str_of (dget edge ''edge_id'') # ids)))
      | _ \<Rightarrow> Inl (ValueError ''required H2D edge is missing or duplicated''))"

definition relevant_edge :: "string list \<Rightarrow> string \<Rightarrow> string \<Rightarrow> pydict \<Rightarrow> bool" where
  "relevant_edge ids start_id done_id edge \<longleftrightarrow>
     str_in (dget edge ''from_event_id'') ids \<and> str_in (dget edge ''to_event_id'') ids \<and>
     (eq_str (dget edge ''evidence_source'') KV_RECOVERY_H2D_EVIDENCE \<or>
      eq_str (dget edge ''from_event_id'') start_id \<and> eq_str (dget edge ''to_event_id'') done_id)"

definition edge_unhashable :: "string list \<Rightarrow> pydict \<Rightarrow> bool" where
  "edge_unhashable ids edge \<longleftrightarrow> unhashable (dget edge ''from_event_id'') \<or>
     str_in (dget edge ''from_event_id'') ids \<and> unhashable (dget edge ''to_event_id'')"

definition edge_roster :: "expected_h2d \<Rightarrow> string \<Rightarrow> string \<Rightarrow> pydict list \<Rightarrow> string list res" where
  "edge_roster x start_id done_id edges =
     bind (edge_ids_of (required_edges x start_id done_id) edges) (\<lambda>edge_ids.
     let ids = [xh_preempted_event_id x, start_id, done_id, xh_admission_started_event_id x] in
     need (\<not> list_ex (edge_unhashable ids) edges) hash_error
     (need (length (filter (relevant_edge ids start_id done_id) edges) = 3)
       (ValueError ''H2D edge roster contains an extra or duplicate edge'')
     (need (length (filter (\<lambda>edge. eq_str (dget edge ''trace_id'') (xh_trace_id x) \<and>
              eq_str (dget edge ''evidence_source'') KV_RECOVERY_H2D_EVIDENCE) edges) = 2)
       (ValueError ''H2D specialty edge roster is not exact'') (Inr edge_ids))))"

definition normalize_h2d_recovery :: "pydict list \<Rightarrow> expected_h2d \<Rightarrow> bool \<Rightarrow> normalized_h2d res" where
  "normalize_h2d_recovery rows x profile_evidence_complete =
     need profile_evidence_complete (ValueError ''profile evidence contains loss'')
     (need (\<not> list_ex (record_type_is ''loss_interval'') rows) (ValueError ''base evidence contains loss'')
     (bind (base_events rows) (\<lambda>evs.
      bind (endpoints x evs) (\<lambda>(preempted, admission).
      bind (communication_pair x evs) (\<lambda>(start, finish).
      let start_id = str_of (dget start ''event_id''); done_id = str_of (dget finish ''event_id'') in
      bind (causal_bytes preempted start finish admission) (\<lambda>bytes_moved.
      bind (edge_roster x start_id done_id (filter (record_type_is ''edge'') rows)) (\<lambda>edge_ids.
      Inr \<lparr>nh_start_event_id = start_id, nh_done_event_id = done_id,
           nh_duration_ns = time_of finish - time_of start, nh_bytes_moved = bytes_moved,
           nh_edge_ids = edge_ids\<rparr>)))))))"

section \<open>One episode\<close>

record expected_episode =
  xe_h2d :: expected_h2d
  xe_run_id :: string
  xe_runtime_request_id :: string
  xe_resumed_event_id :: string
  xe_first_compute_base_event_id :: string
  xe_compute_kind :: string
  xe_requeue_reasons :: "string list"
  xe_process_uuids :: "string list"

record normalized_episode =
  ne_h2d :: normalized_h2d
  ne_profile_event_ids :: "string list"
  ne_requeue_count :: nat

definition make_expected_episode :: "expected_episode \<Rightarrow> expected_episode res" where
  "make_expected_episode x = checked
     (first_error
        ([fails (\<not> is_hex 32 (xe_run_id x)) (ValueError ''run_id must be 32 lowercase hexadecimal characters''),
          fails (\<not> id_pattern (CHR ''e'') (xe_resumed_event_id x))
            (ValueError ''resumed_event_id must be a canonical base event ID''),
          fails (\<not> id_pattern (CHR ''e'') (xe_first_compute_base_event_id x))
            (ValueError ''first_compute_base_event_id must be a canonical base event ID''),
          fails (xe_compute_kind x \<notin> set COMPUTE_KINDS) (ValueError ''compute_kind must be prefill or decode''),
          fails (xe_process_uuids x = [] \<or> \<not> distinct (xe_process_uuids x))
            (ValueError ''process_uuids must be a nonempty unique roster'')] @
         map (\<lambda>u. fails (\<not> is_hex 32 u) (ValueError ''process_uuid must be 32 lowercase hexadecimal characters''))
           (xe_process_uuids x))) x"

text \<open>The roster of one record type: one record for each expected process.\<close>

definition roster_ok :: "pydict list \<Rightarrow> string \<Rightarrow> string list \<Rightarrow> unit res" where
  "roster_ok rows t processes =
     (let observed = map (\<lambda>row. dget row ''process_uuid'') (filter (record_type_is t) rows) in
      need (length observed = length processes) (ValueError (t @ '' process roster differs''))
      (need (\<not> list_ex unhashable observed) hash_error
      (need (set observed = PStr ` set processes) (ValueError (t @ '' process roster differs'')) (Inr ()))))"

text \<open>The bytes of the records that are not the summary, in order.\<close>

fun content_of :: "(pydict \<Rightarrow> string res) \<Rightarrow> string \<Rightarrow> pydict list \<Rightarrow> string res" where
  "content_of encoder t [] = Inr []"
| "content_of encoder t (row # rows) =
     (if record_type_is t row then content_of encoder t rows
      else bind (encoder row) (\<lambda>line. bind (content_of encoder t rows) (\<lambda>rest. Inr (line @ rest))))"

definition shard_digest_ok :: "pydict list \<Rightarrow> string \<Rightarrow> (pydict \<Rightarrow> string res) \<Rightarrow> string \<Rightarrow> unit res" where
  "shard_digest_ok rows t encoder process =
     (let process_rows = filter (\<lambda>row. eq_str (dget row ''process_uuid'') process) rows in
      case filter (record_type_is t) process_rows of
        [summary] \<Rightarrow> bind (content_of encoder t process_rows) (\<lambda>content.
          need (eq_str (dget summary ''content_sha256'') (sha256_hex content))
            (ValueError (t @ '' content digest differs'')) (Inr ()))
      | _ \<Rightarrow> Inl (ValueError (t @ '' process roster differs'')))"

fun for_each :: "('a \<Rightarrow> unit res) \<Rightarrow> 'a list \<Rightarrow> unit res" where
  "for_each f [] = Inr ()"
| "for_each f (x # xs) = bind (f x) (\<lambda>_. for_each f xs)"

text \<open>\<open>sorted(rows, key=...)\<close>.\<close>

definition sort_rows :: "string \<Rightarrow> pydict list \<Rightarrow> pydict list res" where
  "sort_rows k rows =
     (if length rows \<le> 1 then Inr rows
      else if list_all (\<lambda>row. as_int (dget row k) \<noteq> None) rows
        then Inr (sort_key (\<lambda>row. the (as_int (dget row k))) rows)
      else if list_all (\<lambda>row. is_string (dget row k)) rows
        then Inr (sort_key (\<lambda>row. str_of (dget row k)) rows)
      else Inl (TypeError ''values cannot be ordered''))"

definition numbered :: "string \<Rightarrow> pydict list \<Rightarrow> bool" where
  "numbered k rows \<longleftrightarrow> list_all2 (\<lambda>row n. eq_int (dget row k) (int n)) rows [0..<length rows]"

definition CATEGORIES :: "string list" where
  "CATEGORIES = [''block_set_chunk'', ''wait_set_chunk'', ''transfer_event'', ''recovery_event'']"

definition profile_ledger_ok :: "pydict list \<Rightarrow> string \<Rightarrow> unit res" where
  "profile_ledger_ok rows process =
     (let mine = filter (\<lambda>row. eq_str (dget row ''process_uuid'') process) rows;
          data = filter (\<lambda>row. str_in (dget row ''record_type'') CATEGORIES) mine in
      case filter (record_type_is ''profile_summary'') mine of
        [summary] \<Rightarrow>
          need (eq_str (dget summary ''close_outcome'') ''drained'' \<and> eq_int (dget summary ''dropped_data_count'') 0 \<and>
                eq_int (dget summary ''dropped_control_count'') 0 \<and> eq_int (dget summary ''writer_failure_count'') 0 \<and>
                eq_int (dget summary ''attempted_data_count'') (int (length data)))
            (ValueError ''profile process ledger is incomplete'')
          (bind (sort_rows ''record_seq'' data) (\<lambda>sorted_data.
           need (numbered ''record_seq'' sorted_data) (ValueError ''profile process ledger is incomplete'')
           (need (list_all (\<lambda>t. eq_int (dget summary (''written_'' @ t @ ''_count''))
                    (int (length (filter (record_type_is t) data)))) CATEGORIES)
             (ValueError ''profile summary category count differs'') (Inr ()))))
      | _ \<Rightarrow> Inl AssertionError)"

section \<open>The recovery chain\<close>

text \<open>The data records, with string ids, all different.\<close>

definition profile_data :: "pydict list \<Rightarrow> pydict list res" where
  "profile_data rows =
     need (\<not> list_ex (\<lambda>row. unhashable (dget row ''record_type'')) rows) hash_error
     (let data = filter (\<lambda>row. str_in (dget row ''record_type'') CATEGORIES) rows in
      need (list_all (\<lambda>row. is_string (dget row ''record_id'')) data \<and> distinct (map (\<lambda>row. dget row ''record_id'') data))
        (ValueError ''profile record IDs are missing or duplicated'') (Inr data))"

definition expected_episode_id :: "expected_h2d \<Rightarrow> string" where
  "expected_episode_id x = xh_engine_lifecycle_id x @ '':k:'' @ py_str_int (xh_recovery_epoch x)"

definition is_milestone :: "expected_episode \<Rightarrow> pydict \<Rightarrow> bool" where
  "is_milestone x row \<longleftrightarrow>
     record_type_is ''recovery_event'' row \<and> eq_str (dget row ''run_id'') (xe_run_id x) \<and>
     eq_str (dget row ''trace_id'') (xh_trace_id (xe_h2d x)) \<and>
     eq_str (dget row ''engine_lifecycle_id'') (xh_engine_lifecycle_id (xe_h2d x)) \<and>
     eq_str (dget row ''runtime_request_id'') (xe_runtime_request_id x) \<and>
     eq_int (dget row ''recovery_epoch'') (xh_recovery_epoch (xe_h2d x)) \<and>
     eq_str (dget row ''episode_id'') (expected_episode_id (xe_h2d x))"

definition UNIQUE_STAGES :: "string list" where
  "UNIQUE_STAGES = [''preempt'', ''restore_start'', ''restore_done'', ''scheduler_wakeup'', ''admission'',
     ''first_prefill_or_decode'']"

definition stage_rows :: "string \<Rightarrow> pydict list \<Rightarrow> pydict list" where
  "stage_rows stage rows = filter (\<lambda>row. eq_str (dget row ''stage'') stage) rows"

text \<open>The chain: the unique stages in their order, with the requeues before the admission.\<close>

definition recovery_chain :: "expected_episode \<Rightarrow> pydict list \<Rightarrow> (pydict list \<times> pydict list) res" where
  "recovery_chain x milestones =
     need (list_all (\<lambda>row. is_string (dget row ''stage'')) milestones) (TypeError ''recovery event stage is missing'')
     (need (list_all (\<lambda>stage. length (stage_rows stage milestones) = 1) UNIQUE_STAGES)
       (ValueError ''unique recovery stage is missing or duplicated'')
     (need (list_all (\<lambda>row. str_in (dget row ''stage'') (UNIQUE_STAGES @ [''requeue''])) milestones)
       (ValueError ''recovery episode contains an unknown stage'')
     (bind (sort_rows ''occurrence'' (stage_rows ''requeue'' milestones)) (\<lambda>requeues.
      need (numbered ''occurrence'' requeues) (ValueError ''requeue occurrence sequence is not contiguous'')
     (need (map (\<lambda>row. dget row ''requeue_reason'') requeues = map PStr (xe_requeue_reasons x))
       (ValueError ''requeue reasons differ from the exact expectation'')
     (Inr (concat (map (\<lambda>stage. stage_rows stage milestones) (take 4 UNIQUE_STAGES)) @ requeues @
           concat (map (\<lambda>stage. stage_rows stage milestones) (drop 4 UNIQUE_STAGES)), requeues)))))))"

fun chain_linked :: "pyval \<Rightarrow> int \<Rightarrow> pydict list \<Rightarrow> unit res" where
  "chain_linked previous_id previous_timestamp [] = Inr ()"
| "chain_linked previous_id previous_timestamp (row # rows) =
     need (dget row ''from_profile_event_id'' = previous_id) (ValueError ''profile predecessor chain is broken'')
     (need (timed row \<and> previous_timestamp \<le> time_of row) (ValueError ''profile stage timestamps are inverted'')
     (chain_linked (dget row ''record_id'') (time_of row) rows))"

text \<open>The base events the stages name.\<close>

definition associations_ok :: "expected_episode \<Rightarrow> normalized_h2d \<Rightarrow> pydict list \<Rightarrow> pydict list \<Rightarrow> unit res" where
  "associations_ok x h chain requeues =
     (let base = (\<lambda>i. dget (chain ! i) ''base_event_id''); n = length chain;
          admission = chain ! (n - 2); first_compute = chain ! (n - 1) in
      need (eq_str (base 0) (xh_preempted_event_id (xe_h2d x))) (ValueError ''profile preempt base association differs'')
      (need (eq_str (base 1) (nh_start_event_id h)) (ValueError ''restore_start base association differs'')
      (need (eq_str (base 2) (nh_done_event_id h)) (ValueError ''restore_done base association differs'')
      (need (base 3 = PNone \<and> list_all (\<lambda>row. dget row ''base_event_id'' = PNone) requeues)
        (ValueError ''profile-only stage contains a base association'')
      (need (eq_str (dget admission ''base_event_id'') (xe_resumed_event_id x) \<and>
             eq_str (dget admission ''base_admission_started_event_id'') (xh_admission_started_event_id (xe_h2d x)))
        (ValueError ''admission base associations differ'')
      (need (eq_str (dget first_compute ''base_event_id'') (xe_first_compute_base_event_id x) \<and>
             eq_str (dget first_compute ''compute_kind'') (xe_compute_kind x) \<and>
             eq_str (dget first_compute ''child_observation_kind'') ''worker_model_forward_entry'' \<and>
             eq_str (dget first_compute ''base_association_kind'') ''phase_child_observation'' \<and>
             eq_str (dget first_compute ''base_association_evidence'') ''instrumented_execution_context'')
        (ValueError ''first compute child association differs'') (Inr ())))))))"

definition later_phase_ok :: "expected_episode \<Rightarrow> pydict list \<Rightarrow> string \<times> string \<Rightarrow> unit res" where
  "later_phase_ok x evs = (\<lambda>(event_id, event_name).
     need (case event_row evs event_id of None \<Rightarrow> False
       | Some event \<Rightarrow> eq_str (dget event ''event_name'') event_name \<and>
           eq_str (dget event ''trace_id'') (xh_trace_id (xe_h2d x)) \<and>
           eq_str (dget event ''lifecycle_id'') (xh_engine_lifecycle_id (xe_h2d x)) \<and>
           eq_int (dget event ''preemption_epoch'') (xh_recovery_epoch (xe_h2d x)))
       (ValueError ''later base phase association is missing or drifted'') (Inr ()))"

text \<open>The transfer rows agree with the restore stages, and every later stage with the transfer.\<close>

definition transfer_ok :: "expected_episode \<Rightarrow> normalized_h2d \<Rightarrow> pydict list \<Rightarrow> pydict list \<Rightarrow> unit res" where
  "transfer_ok x h data chain =
     (let rows = filter (\<lambda>row. record_type_is ''transfer_event'' row \<and>
            eq_str (dget row ''transfer_id'') (xh_transfer_id (xe_h2d x))) data in
      need (map (\<lambda>row. dget row ''transfer_phase'') rows = [PStr ''submit'', PStr ''done''])
        (ValueError ''profile transfer pair is missing, reordered, or duplicated'')
      (need (eq_int (dget (rows ! 0) ''timestamp_ns'') (time_of (chain ! 1)) \<and>
             eq_int (dget (rows ! 1) ''timestamp_ns'') (time_of (chain ! 2)) \<and>
             eq_int (dget (rows ! 1) ''bytes_moved'') (nh_bytes_moved h))
        (ValueError ''restore milestones differ from transfer evidence'')
      (need (list_all (\<lambda>row. eq_str (dget row ''transfer_id'') (xh_transfer_id (xe_h2d x)) \<and>
             eq_str (dget row ''block_set_id'') (xh_block_set_id (xe_h2d x)) \<and>
             (eq_str (dget row ''stage'') ''restore_start'' \<or> eq_int (dget row ''bytes_moved'') (nh_bytes_moved h))) (tl chain))
        (ValueError ''recovery stage transfer identity drifted'')
      (need (dget (chain ! 1) ''bytes_moved'' = PNone) (ValueError ''restore_start must not report bytes'')
        (Inr ())))))"

section \<open>Blocks\<close>

text \<open>Iterating over \<open>row.get("blocks", ())\<close>.\<close>

definition blocks_of :: "pydict \<Rightarrow> pyval list res" where
  "blocks_of row = (case map_of row ''blocks'' of None \<Rightarrow> Inr []
     | Some (PList bs) \<Rightarrow> Inr bs | Some (PStr s) \<Rightarrow> Inr (map (\<lambda>c. PStr [c]) s)
     | Some (PDict kvs) \<Rightarrow> Inr (map (PStr \<circ> fst) kvs) | Some _ \<Rightarrow> Inl (TypeError ''object is not iterable''))"

fun all_blocks :: "pydict list \<Rightarrow> pyval list res" where
  "all_blocks [] = Inr []"
| "all_blocks (row # rows) = bind (blocks_of row) (\<lambda>bs. bind (all_blocks rows) (\<lambda>rest. Inr (bs @ rest)))"

definition block_field :: "string \<Rightarrow> pyval \<Rightarrow> pyval" where
  "block_field k block = (case block of PDict d \<Rightarrow> dget d k | _ \<Rightarrow> PNone)"

definition is_object :: "pyval \<Rightarrow> bool" where
  "is_object v = (case v of PDict _ \<Rightarrow> True | _ \<Rightarrow> False)"

definition coordinate :: "pyval \<Rightarrow> pyval \<times> pyval" where
  "coordinate b = (canonical_value (block_field ''group_index'' b), canonical_value (block_field ''logical_ordinal'' b))"

definition distinct_by :: "(pyval \<Rightarrow> 'k) \<Rightarrow> (pyval \<Rightarrow> bool) \<Rightarrow> pyval list \<Rightarrow> unit res" where
  "distinct_by k hashes blocks =
     need (list_all is_object blocks) (AttributeError ''object has no attribute get'')
     (need (list_all hashes blocks) hash_error
     (need (distinct (map k blocks)) (ValueError ''logical recovery block rows are incomplete or duplicated'') (Inr ())))"

definition blocks_ok :: "expected_episode \<Rightarrow> pydict list \<Rightarrow> unit res" where
  "blocks_ok x data =
     (let chunks = filter (\<lambda>row. record_type_is ''block_set_chunk'' row \<and>
            eq_str (dget row ''block_set_id'') (xh_block_set_id (xe_h2d x)) \<and>
            eq_str (dget row ''episode_id'') (expected_episode_id (xe_h2d x))) data;
          incomplete = ValueError ''logical recovery block rows are incomplete or duplicated'' in
      need (chunks \<noteq> []) (ValueError ''logical recovery block set is missing'')
      (bind (sort_rows ''chunk_index'' chunks) (\<lambda>chunks.
       need (numbered ''chunk_index'' chunks) (ValueError ''block chunks are not contiguous'')
      (need (list_all (\<lambda>row. eq_int (dget row ''chunk_count'') (int (length chunks))) chunks)
        (ValueError ''block chunk count differs'')
      (bind (all_blocks chunks) (\<lambda>blocks.
       need (blocks \<noteq> [] \<and> list_all (\<lambda>row. eq_int (dget row ''total_block_count'') (int (length blocks))) chunks) incomplete
      (bind (distinct_by coordinate (\<lambda>b. \<not> unhashable (block_field ''group_index'' b) \<and>
              \<not> unhashable (block_field ''logical_ordinal'' b)) blocks) (\<lambda>_.
       distinct_by (\<lambda>b. canonical_value (block_field ''logical_block_id'' b))
         (\<lambda>b. \<not> unhashable (block_field ''logical_block_id'' b)) blocks))))))))"

section \<open>The whole normalizer\<close>

definition normalize_kv_recovery_episode ::
  "pydict list \<Rightarrow> pydict list \<Rightarrow> expected_episode \<Rightarrow> bool \<Rightarrow> normalized_episode res" where
  "normalize_kv_recovery_episode base_rows profile_rows x profile_evidence_complete =
     bind (normalize_h2d_recovery base_rows (xe_h2d x) profile_evidence_complete) (\<lambda>h.
     bind (roster_ok base_rows ''process_start'' (xe_process_uuids x)) (\<lambda>_.
     bind (roster_ok base_rows ''process_summary'' (xe_process_uuids x)) (\<lambda>_.
     bind (roster_ok profile_rows ''profile_start'' (xe_process_uuids x)) (\<lambda>_.
     bind (roster_ok profile_rows ''profile_summary'' (xe_process_uuids x)) (\<lambda>_.
     bind (for_each (shard_digest_ok base_rows ''process_summary'' canonical_json_line) (xe_process_uuids x)) (\<lambda>_.
     bind (for_each (shard_digest_ok profile_rows ''profile_summary'' profile_record_line) (xe_process_uuids x)) (\<lambda>_.
     need (\<not> list_ex (record_type_is ''loss_interval'') profile_rows) (ValueError ''profile evidence contains loss'')
     (bind (for_each (profile_ledger_ok profile_rows) (xe_process_uuids x)) (\<lambda>_.
     bind (profile_data profile_rows) (\<lambda>data.
     bind (recovery_chain x (filter (is_milestone x) data)) (\<lambda>(chain, requeues).
     bind (chain_linked PNone 0 chain) (\<lambda>_.
     bind (associations_ok x h chain requeues) (\<lambda>_.
     bind (for_each (later_phase_ok x (filter (record_type_is ''event'') base_rows))
             [(xe_resumed_event_id x, ''resumed''),
              (xe_first_compute_base_event_id x, xe_compute_kind x @ ''_started'')]) (\<lambda>_.
     bind (transfer_ok x h data chain) (\<lambda>_.
     bind (blocks_ok x data) (\<lambda>_.
     Inr \<lparr>ne_h2d = h, ne_profile_event_ids = map (\<lambda>row. str_of (dget row ''record_id'')) chain,
          ne_requeue_count = length requeues\<rparr>))))))))))))))))"

end
