(* ===== verification/Recovery_Samples.thy ===== *)
theory Recovery_Samples
  imports Recovery_Normalizer
begin

text \<open>
  A complete recovery of one request in one process, as base rows and profile rows, that the
  normalizers accept. The digests of the two shards are kept symbolic; every other check computes.
\<close>

section \<open>The base shard\<close>

definition ev :: "int \<Rightarrow> string" where
  "ev n = id_of (sample_hex CHR ''a'') (CHR ''e'') n"

definition row_of :: "string \<Rightarrow> pydict \<Rightarrow> pydict" where
  "row_of t more_fields = [(''process_uuid'', PStr (sample_hex CHR ''a'')), (''record_type'', PStr t)] @ more_fields"

definition sample_event_row :: "string \<Rightarrow> string \<Rightarrow> int \<Rightarrow> int \<Rightarrow> pydict \<Rightarrow> pydict" where
  "sample_event_row i name epoch t more_fields = row_of ''event''
     ([(''event_id'', PStr i), (''event_name'', PStr name), (''trace_id'', PStr ''tr''), (''lifecycle_id'', PStr ''lc''),
       (''preemption_epoch'', PInt epoch), (''timestamp_ns'', PInt t)] @ more_fields)"

definition sample_edge_row :: "string \<Rightarrow> string \<Rightarrow> string \<Rightarrow> string \<Rightarrow> string \<Rightarrow> pydict" where
  "sample_edge_row i a b k e = row_of ''edge''
     [(''edge_id'', PStr i), (''trace_id'', PStr ''tr''), (''from_event_id'', PStr a), (''to_event_id'', PStr b),
      (''edge_kind'', PStr k), (''evidence_source'', PStr e)]"

definition sample_restore_metadata :: pydict where
  "sample_restore_metadata = [(''operation'', PStr ''h2d_restore''), (''transfer_id'', PStr ''tf''), (''block_set_id'', PStr ''bs''),
     (''communication_mapping'', PStr KV_RECOVERY_COMMUNICATION_MODE)]"

definition sample_base_data :: "pydict list" where
  "sample_base_data =
     [row_of ''process_start'' [],
      sample_event_row (ev 1) ''preempted'' 0 10 [],
      sample_event_row (ev 2) ''communication_started'' 1 20
        [(''start_span_id'', PStr ''s''), (''metadata'', PDict sample_restore_metadata)],
      sample_edge_row ''g1'' (ev 1) (ev 2) ''data_dependency'' KV_RECOVERY_H2D_EVIDENCE,
      sample_event_row (ev 3) ''communication_done'' 1 50
        [(''end_span_id'', PStr ''s''), (''metadata'', PDict (sample_restore_metadata @ [(''bytes_moved'', PInt 64)]))],
      sample_edge_row ''g2'' (ev 2) (ev 3) ''program_order'' ''instrumented_execution_context'',
      sample_event_row (ev 4) ''admission_started'' 1 60 [],
      sample_event_row (ev 5) ''resumed'' 1 70 [],
      sample_edge_row ''g3'' (ev 3) (ev 4) ''data_dependency'' KV_RECOVERY_H2D_EVIDENCE,
      sample_event_row (ev 6) ''prefill_started'' 1 80 []]"

definition sample_base_rows :: "string \<Rightarrow> pydict list" where
  "sample_base_rows d = sample_base_data @ [row_of ''process_summary'' [(''content_sha256'', PStr d)]]"

definition sample_expected_h2d :: expected_h2d where
  "sample_expected_h2d = \<lparr>xh_trace_id = ''tr'', xh_engine_lifecycle_id = ''lc'', xh_recovery_epoch = 1, xh_transfer_id = ''tf'',
     xh_block_set_id = ''bs'', xh_preempted_event_id = (ev 1), xh_admission_started_event_id = (ev 4)\<rparr>"

definition sample_normalized_h2d :: normalized_h2d where
  "sample_normalized_h2d = \<lparr>nh_start_event_id = (ev 2), nh_done_event_id = (ev 3), nh_duration_ns = 30, nh_bytes_moved = 64,
     nh_edge_ids = [''g1'', ''g2'', ''g3'']\<rparr>"

lemma sample_restore_normalized:
  "normalize_h2d_recovery (sample_base_rows d) sample_expected_h2d True = Inr sample_normalized_h2d"
  by code_simp

section \<open>The profile shard\<close>

definition stage_row :: "string \<Rightarrow> string \<Rightarrow> pyval \<Rightarrow> int \<Rightarrow> pyval \<Rightarrow> pydict \<Rightarrow> pydict" where
  "stage_row i stage prev t base more_fields = row_of ''recovery_event''
     ([(''record_id'', PStr i), (''run_id'', PStr (sample_hex CHR ''c'')), (''trace_id'', PStr ''tr''), (''engine_lifecycle_id'', PStr ''lc''),
       (''runtime_request_id'', PStr ''r1''), (''recovery_epoch'', PInt 1), (''episode_id'', PStr ''lc:k:1''),
       (''stage'', PStr stage), (''occurrence'', PInt 0), (''from_profile_event_id'', prev), (''timestamp_ns'', PInt t),
       (''base_event_id'', base), (''transfer_id'', PStr ''tf''), (''block_set_id'', PStr ''bs'')] @ more_fields)"

definition numbered_rows :: "pydict list \<Rightarrow> pydict list" where
  "numbered_rows rows = map (\<lambda>(i, row). row @ [(''record_seq'', PInt (int i))]) (List.enumerate 0 rows)"

definition sample_profile_data :: "pydict list" where
  "sample_profile_data = numbered_rows
     [row_of ''block_set_chunk'' [(''record_id'', PStr ''b1''), (''block_set_id'', PStr ''bs''), (''episode_id'', PStr ''lc:k:1''),
        (''chunk_index'', PInt 0), (''chunk_count'', PInt 1), (''total_block_count'', PInt 1),
        (''blocks'', PList [PDict [(''group_index'', PInt 0), (''logical_ordinal'', PInt 0), (''logical_block_id'', PStr ''lb'')]])],
      stage_row ''k1'' ''preempt'' PNone 10 (PStr (ev 1)) [],
      row_of ''transfer_event'' [(''record_id'', PStr ''t1''), (''transfer_id'', PStr ''tf''), (''transfer_phase'', PStr ''submit''),
        (''timestamp_ns'', PInt 20)],
      stage_row ''k2'' ''restore_start'' (PStr ''k1'') 20 (PStr (ev 2)) [],
      row_of ''transfer_event'' [(''record_id'', PStr ''t2''), (''transfer_id'', PStr ''tf''), (''transfer_phase'', PStr ''done''),
        (''timestamp_ns'', PInt 50), (''bytes_moved'', PInt 64)],
      stage_row ''k3'' ''restore_done'' (PStr ''k2'') 50 (PStr (ev 3)) [(''bytes_moved'', PInt 64)],
      stage_row ''k4'' ''scheduler_wakeup'' (PStr ''k3'') 55 PNone [(''bytes_moved'', PInt 64)],
      stage_row ''k5'' ''requeue'' (PStr ''k4'') 58 PNone [(''bytes_moved'', PInt 64), (''requeue_reason'', PStr ''capacity'')],
      stage_row ''k6'' ''admission'' (PStr ''k5'') 70 (PStr (ev 5))
        [(''bytes_moved'', PInt 64), (''base_admission_started_event_id'', PStr (ev 4))],
      stage_row ''k7'' ''first_prefill_or_decode'' (PStr ''k6'') 90 (PStr (ev 6))
        [(''bytes_moved'', PInt 64), (''compute_kind'', PStr ''prefill''),
         (''child_observation_kind'', PStr ''worker_model_forward_entry''),
         (''base_association_kind'', PStr ''phase_child_observation''),
         (''base_association_evidence'', PStr ''instrumented_execution_context'')]]"

definition sample_profile_content :: "pydict list" where
  "sample_profile_content = row_of ''profile_start'' [] # sample_profile_data"

definition sample_profile_rows :: "string \<Rightarrow> pydict list" where
  "sample_profile_rows d = sample_profile_content @ [row_of ''profile_summary'' [(''content_sha256'', PStr d),
     (''close_outcome'', PStr ''drained''), (''dropped_data_count'', PInt 0), (''dropped_control_count'', PInt 0),
     (''writer_failure_count'', PInt 0), (''attempted_data_count'', PInt 10), (''written_block_set_chunk_count'', PInt 1),
     (''written_wait_set_chunk_count'', PInt 0), (''written_transfer_event_count'', PInt 2),
     (''written_recovery_event_count'', PInt 7)]]"

definition sample_expected_episode :: expected_episode where
  "sample_expected_episode = \<lparr>xe_h2d = sample_expected_h2d, xe_run_id = (sample_hex CHR ''c''), xe_runtime_request_id = ''r1'',
     xe_resumed_event_id = (ev 5), xe_first_compute_base_event_id = (ev 6), xe_compute_kind = ''prefill'',
     xe_requeue_reasons = [''capacity''], xe_process_uuids = [sample_hex CHR ''a'']\<rparr>"

lemma sample_expectation: "make_expected_episode sample_expected_episode = Inr sample_expected_episode"
  by code_simp

definition row_digest :: "(pydict \<Rightarrow> string res) \<Rightarrow> string \<Rightarrow> pydict list \<Rightarrow> string" where
  "row_digest encoder t rows = (case content_of encoder t rows of Inr c \<Rightarrow> sha256_hex c | Inl _ \<Rightarrow> [])"

section \<open>The checks\<close>

lemma sample_rosters:
  "roster_ok (sample_base_rows d) ''process_start'' (xe_process_uuids sample_expected_episode) = Inr ()"
  "roster_ok (sample_base_rows d) ''process_summary'' (xe_process_uuids sample_expected_episode) = Inr ()"
  "roster_ok (sample_profile_rows d) ''profile_start'' (xe_process_uuids sample_expected_episode) = Inr ()"
  "roster_ok (sample_profile_rows d) ''profile_summary'' (xe_process_uuids sample_expected_episode) = Inr ()"
  by code_simp+

lemma sample_no_loss: "\<not> list_ex (record_type_is ''loss_interval'') (sample_profile_rows d)"
  by code_simp

lemma sample_ledger: "for_each (profile_ledger_ok (sample_profile_rows d)) (xe_process_uuids sample_expected_episode) = Inr ()"
  by code_simp

lemma sample_data: "profile_data (sample_profile_rows d) = Inr sample_profile_data"
  by code_simp

definition sample_chain :: "pydict list" where
  "sample_chain = map (nth sample_profile_data) [1, 3, 5, 6, 7, 8, 9]"

lemma sample_chain_found:
  "recovery_chain sample_expected_episode (filter (is_milestone sample_expected_episode) sample_profile_data) =
     Inr (sample_chain, [sample_profile_data ! 7])"
  by code_simp

lemma sample_chain_checks:
  "chain_linked PNone 0 sample_chain = Inr ()"
  "associations_ok sample_expected_episode sample_normalized_h2d sample_chain [sample_profile_data ! 7] = Inr ()"
  "transfer_ok sample_expected_episode sample_normalized_h2d sample_profile_data sample_chain = Inr ()"
  "blocks_ok sample_expected_episode sample_profile_data = Inr ()"
  by code_simp+

lemma sample_later_phases:
  "for_each (later_phase_ok sample_expected_episode (filter (record_type_is ''event'') (sample_base_rows d)))
     [(xe_resumed_event_id sample_expected_episode, ''resumed''),
      (xe_first_compute_base_event_id sample_expected_episode, xe_compute_kind sample_expected_episode @ ''_started'')] = Inr ()"
  by code_simp

text \<open>A shard whose summary holds the digest of the rows before it passes the digest check.\<close>

lemma sealed_shard:
  assumes "content_of encoder t rows = Inr c" "list_all (\<lambda>row. eq_str (dget row ''process_uuid'') u \<and> \<not> record_type_is t row) rows"
    and "eq_str (dget summary ''process_uuid'') u" "record_type_is t summary"
    and "dget summary ''content_sha256'' = PStr (row_digest encoder t rows)"
  shows "shard_digest_ok (rows @ [summary]) t encoder u = Inr ()"
proof -
  have content: "content_of encoder t (xs @ [summary]) = content_of encoder t xs" for xs
    using assms(4) by (induction xs) (auto simp: bind_def split: sum.splits)
  have mine: "filter (\<lambda>row. eq_str (dget row ''process_uuid'') u) (rows @ [summary]) = rows @ [summary]"
    using assms(2,3) by (simp add: list_all_iff)
  have one: "filter (record_type_is t) (rows @ [summary]) = [summary]"
    using assms(2,4) by (simp add: list_all_iff)
  show ?thesis
    unfolding shard_digest_ok_def Let_def mine one
    using assms(1,5) by (simp add: content bind_def need_def eq_str_def row_digest_def)
qed

lemma content_of_small:
  assumes "list_all (\<lambda>row. json_size (PDict row) < MAX_RECORD_BYTES) rows" "MAX_RECORD_BYTES \<le> MAX_PROFILE_RECORD_BYTES"
  shows "accepted (content_of canonical_json_line t rows)" "accepted (content_of profile_record_line t rows)"
proof -
  have "\<exists>l. canonical_json_line row = Inr l \<and> profile_record_line row = Inr l" if "row \<in> set rows" for row
  proof -
    from assms that have "json_size (PDict row) < MAX_RECORD_BYTES" by (simp add: list_all_iff)
    then have "length (json_dumps (PDict row)) < MAX_RECORD_BYTES" using length_json_dumps [of "PDict row"] by simp
    then have "canonical_json_line row = Inr (json_dumps (PDict row) @ [newline])"
      by (simp add: canonical_json_line_def Let_def del: json_dumps.simps)
    with canonical_line_bounded [OF this] assms(2) show ?thesis by (simp add: profile_record_line_def del: json_dumps.simps)
  qed
  then show "accepted (content_of canonical_json_line t rows)" "accepted (content_of profile_record_line t rows)"
    by (induction rows) (force simp: accepted_def bind_def split: sum.splits)+
qed

lemma sample_content:
  "accepted (content_of canonical_json_line ''process_summary'' sample_base_data)"
  "accepted (content_of profile_record_line ''profile_summary'' sample_profile_content)"
proof -
  have "list_all (\<lambda>row. json_size (PDict row) < MAX_RECORD_BYTES) sample_base_data"
    "list_all (\<lambda>row. json_size (PDict row) < MAX_RECORD_BYTES) sample_profile_content" by code_simp+
  moreover have "MAX_RECORD_BYTES \<le> MAX_PROFILE_RECORD_BYTES" by code_simp
  ultimately show "accepted (content_of canonical_json_line ''process_summary'' sample_base_data)"
    "accepted (content_of profile_record_line ''profile_summary'' sample_profile_content)"
    by (auto intro: content_of_small)
qed

lemma sample_shards:
  "list_all (\<lambda>row. eq_str (dget row ''process_uuid'') (sample_hex CHR ''a'') \<and> \<not> record_type_is ''process_summary'' row) sample_base_data"
  "list_all (\<lambda>row. eq_str (dget row ''process_uuid'') (sample_hex CHR ''a'') \<and> \<not> record_type_is ''profile_summary'' row) sample_profile_content"
  by code_simp+

lemma sample_digests:
  "\<exists>d. for_each (shard_digest_ok (sample_base_rows d) ''process_summary'' canonical_json_line)
     (xe_process_uuids sample_expected_episode) = Inr ()"
  "\<exists>d. for_each (shard_digest_ok (sample_profile_rows d) ''profile_summary'' profile_record_line)
     (xe_process_uuids sample_expected_episode) = Inr ()"
proof -
  obtain b p where c: "content_of canonical_json_line ''process_summary'' sample_base_data = Inr b"
    "content_of profile_record_line ''profile_summary'' sample_profile_content = Inr p"
    using sample_content by (elim acceptedE)
  have u: "xe_process_uuids sample_expected_episode = [sample_hex CHR ''a'']" by (simp add: sample_expected_episode_def)
  have s: "eq_str (dget (row_of t fs) ''process_uuid'') (sample_hex CHR ''a'')" "record_type_is t (row_of t fs)"
    "dget (row_of t ((''content_sha256'', PStr v) # fs)) ''content_sha256'' = PStr v" for t fs v
    by (simp_all add: row_of_def dget_def eq_str_def record_type_is_def)
  note b = sealed_shard [OF c(1) sample_shards(1) s] and p = sealed_shard [OF c(2) sample_shards(2) s]
  show "\<exists>d. for_each (shard_digest_ok (sample_base_rows d) ''process_summary'' canonical_json_line)
     (xe_process_uuids sample_expected_episode) = Inr ()"
    unfolding sample_base_rows_def u for_each.simps by (rule exI, subst b) (simp add: bind_def)
  show "\<exists>d. for_each (shard_digest_ok (sample_profile_rows d) ''profile_summary'' profile_record_line)
     (xe_process_uuids sample_expected_episode) = Inr ()"
    unfolding sample_profile_rows_def u for_each.simps by (rule exI, subst p) (simp add: bind_def)
qed

lemma sample_episode_normalized:
  "\<exists>b p. normalize_kv_recovery_episode (sample_base_rows b) (sample_profile_rows p) sample_expected_episode True =
     Inr \<lparr>ne_h2d = sample_normalized_h2d,
       ne_profile_event_ids = [''k1'', ''k2'', ''k3'', ''k4'', ''k5'', ''k6'', ''k7''], ne_requeue_count = 1\<rparr>"
proof -
  obtain b p where d: "for_each (shard_digest_ok (sample_base_rows b) ''process_summary'' canonical_json_line)
      (xe_process_uuids sample_expected_episode) = Inr ()"
    "for_each (shard_digest_ok (sample_profile_rows p) ''profile_summary'' profile_record_line)
      (xe_process_uuids sample_expected_episode) = Inr ()"
    using sample_digests by blast
  have h: "normalize_h2d_recovery (sample_base_rows b) (xe_h2d sample_expected_episode) True = Inr sample_normalized_h2d"
    using sample_restore_normalized by (simp add: sample_expected_episode_def)
  have i: "map (\<lambda>row. str_of (dget row ''record_id'')) sample_chain = [''k1'', ''k2'', ''k3'', ''k4'', ''k5'', ''k6'', ''k7'']"
    by code_simp
  show ?thesis
    by (intro exI [of _ b] exI [of _ p])
      (simp only: normalize_kv_recovery_episode_def h d sample_rosters sample_no_loss sample_ledger sample_data sample_chain_found
        sample_chain_checks sample_later_phases bind_def need_def sum.case prod.case if_True not_False_eq_True i
        list.size plus_nat.add_0 One_nat_def add_0)
qed


end
