(* ===== verification/Normalizer_Properties.thy ===== *)
theory Normalizer_Properties
  imports Recovery_Samples
begin

text \<open>
  What a normalized recovery rests on: the normalizers accept only evidence that is exact, and the
  evidence the adapters emit for a restore is accepted.
\<close>

lemma need_Inr [accept_simps]: "need c e r = Inr x \<longleftrightarrow> c \<and> r = Inr x"
  by (simp add: need_def)

lemma bind_Inr [accept_simps]: "bind r f = Inr x \<longleftrightarrow> (\<exists>a. r = Inr a \<and> f a = Inr x)"
  by (simp add: bind_def split: sum.splits)

section \<open>One restore\<close>

lemma event_row_some:
  "event_row evs i = Some row \<Longrightarrow> row \<in> set evs \<and> dget row ''event_id'' = PStr i"
  by (auto simp: event_row_def eq_str_def find_Some_iff)

lemma edge_ids_of_some:
  "edge_ids_of Ps edges = Inr ids \<Longrightarrow>
   \<exists>es. list_all2 (\<lambda>P e. filter P edges = [e]) Ps es \<and> map PStr ids = map (\<lambda>e. dget e ''edge_id'') es"
proof (induction Ps arbitrary: ids)
  case (Cons P Ps)
  then obtain e ids' where e: "filter P edges = [e]" "is_string (dget e ''edge_id'')"
    and r: "edge_ids_of Ps edges = Inr ids'" "ids = str_of (dget e ''edge_id'') # ids'"
    by (auto simp: accept_simps split: list.splits)
  from Cons.IH [OF r(1)] obtain es where "list_all2 (\<lambda>P e. filter P edges = [e]) Ps es"
    "map PStr ids' = map (\<lambda>e. dget e ''edge_id'') es" by blast
  with e r(2) show ?case
    by (intro exI [of _ "e # es"]) (auto simp: is_string_def str_of_def split: pyval.splits)
qed simp

lemma two_members: "length xs = 2 \<Longrightarrow> a \<in> set xs \<Longrightarrow> b \<in> set xs \<Longrightarrow> a \<noteq> b \<Longrightarrow> set xs = {a, b}"
  by (cases xs; cases "tl xs") auto

text \<open>An event of the trace with its name, time and epoch.\<close>

definition event_at :: "expected_h2d \<Rightarrow> pydict list \<Rightarrow> string \<Rightarrow> string \<Rightarrow> int \<Rightarrow> int \<Rightarrow> pydict \<Rightarrow> bool" where
  "event_at x rows i name epoch t row \<longleftrightarrow> row \<in> set rows \<and> record_type_is ''event'' row \<and>
     dget row ''event_id'' = PStr i \<and> eq_str (dget row ''event_name'') name \<and>
     eq_str (dget row ''trace_id'') (xh_trace_id x) \<and> eq_str (dget row ''lifecycle_id'') (xh_engine_lifecycle_id x) \<and>
     eq_int (dget row ''preemption_epoch'') epoch \<and> dget row ''timestamp_ns'' = PInt t"

text \<open>
  The evidence of a restore, exactly: the four events at their times, the communication events the
  only ones of the trace and of the expected transfer, and the three edges the only ones of their kind.
\<close>

definition exact_restore :: "pydict list \<Rightarrow> expected_h2d \<Rightarrow> normalized_h2d \<Rightarrow> bool" where
  "exact_restore rows x n \<longleftrightarrow>
     (\<exists>preempted start finish admission tp ts td ta e1 e2 e3.
        event_at x rows (xh_preempted_event_id x) ''preempted'' (xh_recovery_epoch x - 1) tp preempted \<and>
        event_at x rows (nh_start_event_id n) ''communication_started'' (xh_recovery_epoch x) ts start \<and>
        event_at x rows (nh_done_event_id n) ''communication_done'' (xh_recovery_epoch x) td finish \<and>
        event_at x rows (xh_admission_started_event_id x) ''admission_started'' (xh_recovery_epoch x) ta admission \<and>
        0 \<le> tp \<and> tp \<le> ts \<and> ts < td \<and> td \<le> ta \<and> ta \<le> UINT64_MAX \<and>
        nh_duration_ns n = td - ts \<and> 1 \<le> nh_bytes_moved n \<and>
        metadata_field ''bytes_moved'' finish = PInt (nh_bytes_moved n) \<and>
        {row \<in> set rows. record_type_is ''event'' row \<and> communication_row x row} = {start, finish} \<and>
        list_all (\<lambda>row. metadata_is ''transfer_id'' (xh_transfer_id x) row \<and>
          metadata_is ''block_set_id'' (xh_block_set_id x) row) [start, finish] \<and>
        py_eq (dget start ''start_span_id'') (dget finish ''end_span_id'') \<and>
        list_all2 (\<lambda>P e. filter P (filter (record_type_is ''edge'') rows) = [e])
          (required_edges x (nh_start_event_id n) (nh_done_event_id n)) [e1, e2, e3] \<and>
        map (\<lambda>e. dget e ''edge_id'') [e1, e2, e3] = map PStr (nh_edge_ids n) \<and>
        {edge \<in> set rows. record_type_is ''edge'' edge \<and> eq_str (dget edge ''trace_id'') (xh_trace_id x) \<and>
           eq_str (dget edge ''evidence_source'') KV_RECOVERY_H2D_EVIDENCE} = {e1, e3})"

lemma timed_at: "timed row \<Longrightarrow> \<exists>t. dget row ''timestamp_ns'' = PInt t \<and> time_of row = t \<and> 0 \<le> t \<and> t \<le> UINT64_MAX"
  by (auto simp: timed_def time_of_def is_uint_def int_val_def split: pyval.splits)

lemma communication_pair_exact:
  assumes "communication_pair x evs = Inr (start, finish)"
  shows "start \<in> set evs \<and> finish \<in> set evs \<and> \<not> communication_drifted x start \<and> \<not> communication_drifted x finish \<and>
    eq_str (dget start ''event_name'') ''communication_started'' \<and> eq_str (dget finish ''event_name'') ''communication_done'' \<and>
    metadata_is ''transfer_id'' (xh_transfer_id x) start \<and> metadata_is ''transfer_id'' (xh_transfer_id x) finish \<and>
    py_eq (dget start ''start_span_id'') (dget finish ''end_span_id'') \<and>
    {row \<in> set evs. communication_row x row} = {start, finish}"
proof -
  let ?c = "filter (metadata_is ''transfer_id'' (xh_transfer_id x)) evs"
  from assms have s: "filter (\<lambda>row. eq_str (dget row ''event_name'') ''communication_started'') ?c = [start]"
    and d: "filter (\<lambda>row. eq_str (dget row ''event_name'') ''communication_done'') ?c = [finish]"
    and all: "\<forall>row \<in> set evs. communication_row x row \<longrightarrow> metadata_is ''transfer_id'' (xh_transfer_id x) row"
    and ok: "\<not> communication_drifted x start" "\<not> communication_drifted x finish"
      "py_eq (dget start ''start_span_id'') (dget finish ''end_span_id'')"
    by (auto simp: communication_pair_def accept_simps Let_def list_all_iff split: list.splits)
  have ms: "row \<in> set evs \<and> metadata_is ''transfer_id'' (xh_transfer_id x) row \<and>
      eq_str (dget row ''event_name'') ''communication_started'' \<longleftrightarrow> row = start" for row
    using arg_cong [OF s, of set] by auto
  have md: "row \<in> set evs \<and> metadata_is ''transfer_id'' (xh_transfer_id x) row \<and>
      eq_str (dget row ''event_name'') ''communication_done'' \<longleftrightarrow> row = finish" for row
    using arg_cong [OF d, of set] by auto
  have "communication_row x row \<longleftrightarrow> eq_str (dget row ''trace_id'') (xh_trace_id x) \<and>
      (eq_str (dget row ''event_name'') ''communication_started'' \<or> eq_str (dget row ''event_name'') ''communication_done'')" for row
    by (cases "dget row ''event_name''") (auto simp: communication_row_def eq_str_def)
  then have "{row \<in> set evs. communication_row x row} = {start, finish}"
    using ms md all ok by (auto simp: communication_drifted_def)
  with ms [of start] md [of finish] ok show ?thesis by blast
qed

lemma endpoints_exact:
  assumes "endpoints x evs = Inr (preempted, admission)"
  shows "preempted \<in> set evs \<and> dget preempted ''event_id'' = PStr (xh_preempted_event_id x) \<and>
    eq_str (dget preempted ''event_name'') ''preempted'' \<and>
    admission \<in> set evs \<and> dget admission ''event_id'' = PStr (xh_admission_started_event_id x) \<and>
    eq_str (dget admission ''event_name'') ''admission_started'' \<and> \<not> endpoint_drifted x preempted admission"
  using assms by (auto simp: endpoints_def accept_simps split: option.splits dest!: event_row_some)

lemma time_at: "timed a \<Longrightarrow> dget a ''timestamp_ns'' = PInt (time_of a) \<and> 0 \<le> time_of a \<and> time_of a \<le> UINT64_MAX"
  by (frule timed_at) auto

lemma uint_value: "is_uint v m \<Longrightarrow> n = int_val v \<Longrightarrow> v = PInt n"
  by (cases v) (simp_all add: is_uint_def int_val_def)

lemma causal_bytes_exact:
  assumes "causal_bytes preempted start finish admission = Inr n"
  shows "dget preempted ''timestamp_ns'' = PInt (time_of preempted) \<and> dget start ''timestamp_ns'' = PInt (time_of start) \<and>
    dget finish ''timestamp_ns'' = PInt (time_of finish) \<and> dget admission ''timestamp_ns'' = PInt (time_of admission) \<and>
    0 \<le> time_of preempted \<and> time_of preempted \<le> time_of start \<and> time_of start < time_of finish \<and>
    time_of finish \<le> time_of admission \<and> time_of admission \<le> UINT64_MAX \<and>
    metadata_field ''bytes_moved'' finish = PInt n \<and> 1 \<le> n"
proof -
  from assms have t: "timed start \<and> timed finish \<and> timed preempted \<and> timed admission \<and>
    time_of start < time_of finish \<and> time_of preempted \<le> time_of start \<and> time_of finish \<le> time_of admission"
    and b: "is_uint (metadata_field ''bytes_moved'' finish) UINT64_MAX \<and> 1 \<le> int_val (metadata_field ''bytes_moved'' finish) \<and>
      n = int_val (metadata_field ''bytes_moved'' finish)"
    unfolding causal_bytes_def Let_def need_Inr by blast+
  from b uint_value have "metadata_field ''bytes_moved'' finish = PInt n" by blast
  with b t time_at [of start] time_at [of finish] time_at [of preempted] time_at [of admission]
  show ?thesis by blast
qed

lemma filter_single: "filter P xs = [e] \<Longrightarrow> e \<in> set xs \<and> P e"
  by (drule arg_cong [of _ _ set]) auto

lemma two_edges: "length (filter P edges) = 2 \<Longrightarrow> a \<in> set edges \<Longrightarrow> b \<in> set edges \<Longrightarrow> P a \<Longrightarrow> P b \<Longrightarrow> a \<noteq> b \<Longrightarrow>
    {e \<in> set edges. P e} = {a, b}"
  using two_members [of "filter P edges" a b] by simp

lemma three_of: "list_all2 R [P, Q, S] es \<Longrightarrow> \<exists>a b c. es = [a, b, c] \<and> R P a \<and> R Q b \<and> R S c"
  by (auto simp: list_all2_Cons1)

lemma edge_roster_parts:
  assumes "edge_roster x s d edges = Inr ids"
  shows "edge_ids_of (required_edges x s d) edges = Inr ids \<and>
    length (filter (\<lambda>edge. eq_str (dget edge ''trace_id'') (xh_trace_id x) \<and>
      eq_str (dget edge ''evidence_source'') KV_RECOVERY_H2D_EVIDENCE) edges) = 2"
  using assms unfolding edge_roster_def Let_def by (simp only: bind_Inr need_Inr sum.inject) blast

lemma edge_roster_exact:
  assumes "edge_roster x s d edges = Inr ids" "xh_preempted_event_id x \<noteq> d"
  shows "\<exists>e1 e2 e3. list_all2 (\<lambda>P e. filter P edges = [e]) (required_edges x s d) [e1, e2, e3] \<and>
    map (\<lambda>e. dget e ''edge_id'') [e1, e2, e3] = map PStr ids \<and>
    {edge \<in> set edges. eq_str (dget edge ''trace_id'') (xh_trace_id x) \<and>
       eq_str (dget edge ''evidence_source'') KV_RECOVERY_H2D_EVIDENCE} = {e1, e3}"
proof -
  note i = edge_roster_parts [OF assms(1), THEN conjunct1] and n = edge_roster_parts [OF assms(1), THEN conjunct2]
  from edge_ids_of_some [OF i] obtain es where e: "list_all2 (\<lambda>P e. filter P edges = [e]) (required_edges x s d) es"
    and es: "map PStr ids = map (\<lambda>e. dget e ''edge_id'') es" by blast
  from three_of [OF e [unfolded required_edges_def]] obtain e1 e2 e3 where es3: "es = [e1, e2, e3]"
    and f: "filter (edge_is (xh_trace_id x) (xh_preempted_event_id x) s ''data_dependency'' KV_RECOVERY_H2D_EVIDENCE) edges = [e1]"
      "filter (edge_is (xh_trace_id x) d (xh_admission_started_event_id x) ''data_dependency'' KV_RECOVERY_H2D_EVIDENCE) edges = [e3]"
    by blast
  note p = filter_single [OF f(1)] filter_single [OF f(2)]
  have "e1 \<noteq> e3" using p assms(2) by (auto simp: edge_is_def eq_str_def)
  from two_edges [OF n _ _ _ _ this] p have "{edge \<in> set edges. eq_str (dget edge ''trace_id'') (xh_trace_id x) \<and>
       eq_str (dget edge ''evidence_source'') KV_RECOVERY_H2D_EVIDENCE} = {e1, e3}" by (simp add: edge_is_def)
  with e es show ?thesis unfolding es3 by (intro exI [of _ e1] exI [of _ e2] exI [of _ e3] conjI) simp_all
qed

text \<open>
  C11. A normalized restore is exact. The normalizer returns only for evidence reported complete and
  without a loss interval in which event ids are unique, the expected preemption and admission and
  exactly one communication pair of the trace exist with the expected identity and epochs, their
  times are in causal order with a positive duration, the three edges of the restore each occur
  once, and the two data-dependency edges are the only ones of their evidence in the trace; the
  duration, bytes and ids it returns are those of these records.
\<close>
theorem normalized_restore_is_exact:
  assumes "normalize_h2d_recovery rows x ev_complete = Inr n"
  shows "ev_complete \<and> \<not> list_ex (record_type_is ''loss_interval'') rows \<and>
    distinct (map (\<lambda>row. dget row ''event_id'') (filter (record_type_is ''event'') rows)) \<and> exact_restore rows x n"
proof -
  from assms obtain evs preempted admission start finish bytes ids where
    c: "ev_complete" "\<not> list_ex (record_type_is ''loss_interval'') rows"
    and e: "base_events rows = Inr evs" and p: "endpoints x evs = Inr (preempted, admission)"
    and k: "communication_pair x evs = Inr (start, finish)" and b: "causal_bytes preempted start finish admission = Inr bytes"
    and r: "edge_roster x (str_of (dget start ''event_id'')) (str_of (dget finish ''event_id''))
      (filter (record_type_is ''edge'') rows) = Inr ids"
    and n: "n = \<lparr>nh_start_event_id = str_of (dget start ''event_id''), nh_done_event_id = str_of (dget finish ''event_id''),
      nh_duration_ns = time_of finish - time_of start, nh_bytes_moved = bytes, nh_edge_ids = ids\<rparr>"
    by (auto simp: normalize_h2d_recovery_def accept_simps Let_def)
  from e have evs: "evs = filter (record_type_is ''event'') rows" and u: "distinct (map (\<lambda>row. dget row ''event_id'') evs)"
    and s: "\<forall>row \<in> set evs. is_string (dget row ''event_id'')"
    by (auto simp: base_events_def accept_simps Let_def list_all_iff)
  note K = communication_pair_exact [OF k] and P = endpoints_exact [OF p]
  have i: "dget row ''event_id'' = PStr (str_of (dget row ''event_id''))" if "row \<in> set evs" for row
    using s that by (auto simp: is_string_def str_of_def split: pyval.splits)
  have "xh_preempted_event_id x \<noteq> str_of (dget finish ''event_id'')"
  proof
    assume "xh_preempted_event_id x = str_of (dget finish ''event_id'')"
    then have "preempted = finish"
      using P K i [of finish] u by (auto simp: distinct_map dest: inj_onD)
    then show False using P K by (auto simp: eq_str_def)
  qed
  from edge_roster_exact [OF r this] obtain e1 e2 e3 where E:
    "list_all2 (\<lambda>P e. filter P (filter (record_type_is ''edge'') rows) = [e])
       (required_edges x (nh_start_event_id n) (nh_done_event_id n)) [e1, e2, e3]"
    "map (\<lambda>e. dget e ''edge_id'') [e1, e2, e3] = map PStr (nh_edge_ids n)"
    "{edge \<in> set rows. record_type_is ''edge'' edge \<and> eq_str (dget edge ''trace_id'') (xh_trace_id x) \<and>
       eq_str (dget edge ''evidence_source'') KV_RECOVERY_H2D_EVIDENCE} = {e1, e3}"
    unfolding n by auto
  from causal_bytes_exact [OF b] obtain tp ts td ta where T:
    "dget preempted ''timestamp_ns'' = PInt tp" "dget start ''timestamp_ns'' = PInt ts"
    "dget finish ''timestamp_ns'' = PInt td" "dget admission ''timestamp_ns'' = PInt ta"
    "time_of start = ts" "time_of finish = td" "0 \<le> tp" "tp \<le> ts" "ts < td" "td \<le> ta" "ta \<le> UINT64_MAX"
    "metadata_field ''bytes_moved'' finish = PInt bytes" "1 \<le> bytes" by blast
  have A: "event_at x rows (xh_preempted_event_id x) ''preempted'' (xh_recovery_epoch x - 1) tp preempted"
    "event_at x rows (xh_admission_started_event_id x) ''admission_started'' (xh_recovery_epoch x) ta admission"
    using P T by (auto simp: event_at_def endpoint_drifted_def evs)
  have B: "event_at x rows (nh_start_event_id n) ''communication_started'' (xh_recovery_epoch x) ts start"
    "event_at x rows (nh_done_event_id n) ''communication_done'' (xh_recovery_epoch x) td finish"
    using K T i [of start] i [of finish] by (auto simp: event_at_def communication_drifted_def evs n)
  have C: "list_all (\<lambda>row. metadata_is ''transfer_id'' (xh_transfer_id x) row \<and>
      metadata_is ''block_set_id'' (xh_block_set_id x) row) [start, finish]"
    "{row \<in> set rows. record_type_is ''event'' row \<and> communication_row x row} = {start, finish}"
    "py_eq (dget start ''start_span_id'') (dget finish ''end_span_id'')"
    using K by (auto simp: communication_drifted_def evs)
  have "exact_restore rows x n"
    unfolding exact_restore_def
    by (intro exI conjI) (rule A B C E T(7-11) | simp add: n T(5,6,12,13))+
  with c u evs show ?thesis by simp
qed

theorem normalized_restore_is_exact_witness:
  "exact_restore (sample_base_rows []) sample_expected_h2d sample_normalized_h2d"
  using normalized_restore_is_exact [OF sample_restore_normalized] by blast

section \<open>One episode\<close>

lemma partition_by:
  assumes "distinct ks" "\<forall>x \<in> set xs. f x \<in> set ks"
  shows "mset (concat (map (\<lambda>k. filter (\<lambda>x. f x = k) xs) ks)) = mset xs"
  using assms
proof (induction ks arbitrary: xs)
  case (Cons k ks)
  let ?ys = "filter (\<lambda>x. f x \<noteq> k) xs"
  have "filter (\<lambda>x. f x = j) xs = filter (\<lambda>x. f x = j) ?ys" if "j \<in> set ks" for j
    using that Cons.prems(1) by (auto intro: filter_cong)
  then have "concat (map (\<lambda>k. filter (\<lambda>x. f x = k) xs) ks) = concat (map (\<lambda>k. filter (\<lambda>x. f x = k) ?ys) ks)"
    by (simp cong: map_cong)
  moreover have "\<forall>x \<in> set ?ys. f x \<in> set ks" using Cons.prems(2) by auto
  ultimately have "mset (concat (map (\<lambda>k. filter (\<lambda>x. f x = k) xs) ks)) = mset ?ys"
    using Cons.IH [of ?ys] Cons.prems(1) by simp
  then show ?case by (simp add: multiset_partition [of "mset xs" "\<lambda>x. f x = k", symmetric])
qed (cases xs, auto)

lemma sort_rows_mset: "sort_rows k rows = Inr rows' \<Longrightarrow> mset rows' = mset rows"
  by (auto simp: sort_rows_def split: if_splits)

lemma stage_rows_stage: "row \<in> set (stage_rows s rows) \<Longrightarrow> dget row ''stage'' = PStr s"
  by (simp add: stage_rows_def eq_str_def)

lemma single_map: "length xs = 1 \<Longrightarrow> (\<And>x. x \<in> set xs \<Longrightarrow> f x = y) \<Longrightarrow> map f xs = [y]"
  by (cases xs) auto

lemma stage_filter: "stage_rows s rows = filter (\<lambda>row. dget row ''stage'' = PStr s) rows"
  by (simp add: stage_rows_def eq_str_def)

lemma str_in_iff: "str_in v ss \<longleftrightarrow> v \<in> PStr ` set ss"
  by (cases v) auto

lemma recovery_chain_stages:
  assumes "recovery_chain x ms = Inr (chain, requeues)"
  shows "map (\<lambda>row. dget row ''stage'') chain = map PStr ([''preempt'', ''restore_start'', ''restore_done'', ''scheduler_wakeup''] @
      replicate (length requeues) ''requeue'' @ [''admission'', ''first_prefill_or_decode'']) \<and>
    mset chain = mset ms \<and> map (\<lambda>row. dget row ''requeue_reason'') requeues = map PStr (xe_requeue_reasons x) \<and>
    numbered ''occurrence'' requeues \<and> take (length requeues) (drop 4 chain) = requeues"
proof -
  from assms have u: "\<forall>s \<in> set UNIQUE_STAGES. length (stage_rows s ms) = 1"
    and k: "\<forall>row \<in> set ms. dget row ''stage'' \<in> PStr ` set (UNIQUE_STAGES @ [''requeue''])"
    and r: "sort_rows ''occurrence'' (stage_rows ''requeue'' ms) = Inr requeues"
    and n: "numbered ''occurrence'' requeues" "map (\<lambda>row. dget row ''requeue_reason'') requeues = map PStr (xe_requeue_reasons x)"
    and c: "chain = concat (map (\<lambda>stage. stage_rows stage ms) (take 4 UNIQUE_STAGES)) @ requeues @
           concat (map (\<lambda>stage. stage_rows stage ms) (drop 4 UNIQUE_STAGES))"
    by (simp_all only: recovery_chain_def need_Inr bind_Inr list_all_iff str_in_iff sum.inject prod.inject)
       blast+
  have one: "map (\<lambda>row. dget row ''stage'') (stage_rows s ms) = [PStr s]" if "s \<in> set UNIQUE_STAGES" for s
    using u that by (intro single_map) (auto dest: stage_rows_stage)
  have m: "mset requeues = mset (stage_rows ''requeue'' ms)" by (rule sort_rows_mset [OF r])
  have q: "map (\<lambda>row. dget row ''stage'') requeues = map PStr (replicate (length requeues) ''requeue'')"
    using mset_eq_setD [OF m] by (auto intro!: replicate_eqI dest: stage_rows_stage)
  have s: "distinct (map PStr (UNIQUE_STAGES @ [''requeue'']))" by (simp add: UNIQUE_STAGES_def)
  have "mset (concat (map (\<lambda>k. filter (\<lambda>row. dget row ''stage'' = k) ms) (map PStr (UNIQUE_STAGES @ [''requeue''])))) = mset ms"
    using k by (intro partition_by [OF s]) simp
  then have "mset chain = mset ms"
    unfolding c by (simp add: UNIQUE_STAGES_def m stage_filter ac_simps)
  moreover have "map (\<lambda>row. dget row ''stage'') chain = map PStr ([''preempt'', ''restore_start'', ''restore_done'', ''scheduler_wakeup''] @
      replicate (length requeues) ''requeue'' @ [''admission'', ''first_prefill_or_decode''])"
    unfolding c using q one by (simp add: UNIQUE_STAGES_def)
  moreover have "take (length requeues) (drop 4 chain) = requeues"
    unfolding c using u by (auto simp: UNIQUE_STAGES_def length_Suc_conv)
  ultimately show ?thesis using n by blast
qed

lemma chain_linked_some:
  assumes "chain_linked p t chain = Inr ()"
  shows "map (\<lambda>row. dget row ''from_profile_event_id'') chain =
      butlast (p # map (\<lambda>row. dget row ''record_id'') chain) \<and>
    (\<forall>row \<in> set chain. timed row \<and> t \<le> time_of row) \<and> sorted (map time_of chain)"
  using assms
proof (induction chain arbitrary: p t)
  case (Cons row chain)
  then have c: "chain_linked (dget row ''record_id'') (time_of row) chain = Inr ()"
    and p: "dget row ''from_profile_event_id'' = p" and t: "timed row" "t \<le> time_of row"
    by (simp_all add: need_Inr)
  have "\<forall>row' \<in> set chain. t \<le> time_of row'" using Cons.IH [OF c] t(2) by (meson order_trans)
  with Cons.IH [OF c] p t show ?case by (simp only: list.map list.set butlast.simps sorted_simps) auto
qed simp

text \<open>A chain of milestones: the stages in order, each naming its predecessor, the times never going back.\<close>

definition exact_chain :: "expected_episode \<Rightarrow> nat \<Rightarrow> string list \<Rightarrow> pydict list \<Rightarrow> bool" where
  "exact_chain x n ids chain \<longleftrightarrow>
     map (\<lambda>row. dget row ''stage'') chain = map PStr ([''preempt'', ''restore_start'', ''restore_done'', ''scheduler_wakeup''] @
       replicate n ''requeue'' @ [''admission'', ''first_prefill_or_decode'']) \<and>
     map (\<lambda>row. dget row ''record_id'') chain = map PStr ids \<and> distinct ids \<and>
     map (\<lambda>row. dget row ''from_profile_event_id'') chain = PNone # map PStr (butlast ids) \<and>
     list_all timed chain \<and> sorted (map time_of chain) \<and>
     map (\<lambda>row. dget row ''requeue_reason'') (take n (drop 4 chain)) = map PStr (xe_requeue_reasons x) \<and>
     eq_str (dget (hd chain) ''base_event_id'') (xh_preempted_event_id (xe_h2d x)) \<and>
     eq_str (dget (chain ! (length chain - 2)) ''base_event_id'') (xe_resumed_event_id x) \<and>
     eq_str (dget (last chain) ''base_event_id'') (xe_first_compute_base_event_id x)"

lemma profile_data_parts:
  assumes "profile_data rows = Inr data"
  shows "data = filter (\<lambda>row. str_in (dget row ''record_type'') CATEGORIES) rows \<and>
    (\<forall>row \<in> set data. is_string (dget row ''record_id'')) \<and> distinct (map (\<lambda>row. dget row ''record_id'') data)"
  using assms by (auto simp: profile_data_def need_Inr Let_def list_all_iff)

lemma is_string_val: "is_string v \<Longrightarrow> v = PStr (str_of v)"
  by (auto simp: is_string_def str_of_def split: pyval.splits)

lemma normalize_episode_parts:
  assumes "normalize_kv_recovery_episode base_rows profile_rows x ev_complete = Inr r"
  shows "\<exists>data chain requeues. normalize_h2d_recovery base_rows (xe_h2d x) ev_complete = Inr (ne_h2d r) \<and>
    profile_data profile_rows = Inr data \<and> recovery_chain x (filter (is_milestone x) data) = Inr (chain, requeues) \<and>
    chain_linked PNone 0 chain = Inr () \<and> associations_ok x (ne_h2d r) chain requeues = Inr () \<and>
    transfer_ok x (ne_h2d r) data chain = Inr () \<and> blocks_ok x data = Inr () \<and>
    ne_profile_event_ids r = map (\<lambda>row. str_of (dget row ''record_id'')) chain \<and> ne_requeue_count r = length requeues"
  using assms
  by (auto simp: normalize_kv_recovery_episode_def need_Inr bind_Inr simp del: chain_linked.simps)

text \<open>
  C7. A normalized episode is exact. The normalizer returns only if the restore inside it is
  normalized and the recovery events of the expected run, request, lifecycle and epoch are, all of
  them and each once, a chain: preempt, restore start, restore done, wakeup, the requeues with
  exactly the expected reasons, admission, first compute. Each names the record id of its
  predecessor, no time goes back, and the ids and the requeue count returned are those of the chain,
  which has six stages more than requeues; the chain starts at the expected preemption event and
  ends at the expected resumed and first compute events.
\<close>
theorem normalized_episode_is_exact:
  assumes "normalize_kv_recovery_episode base_rows profile_rows x ev_complete = Inr r"
  shows "normalize_h2d_recovery base_rows (xe_h2d x) ev_complete = Inr (ne_h2d r) \<and>
    (\<exists>chain. mset chain = mset (filter (\<lambda>row. str_in (dget row ''record_type'') CATEGORIES \<and> is_milestone x row) profile_rows) \<and>
       exact_chain x (ne_requeue_count r) (ne_profile_event_ids r) chain) \<and>
    length (ne_profile_event_ids r) = 6 + ne_requeue_count r \<and> ne_requeue_count r = length (xe_requeue_reasons x)"
proof -
  from normalize_episode_parts [OF assms] obtain data chain requeues where
    h: "normalize_h2d_recovery base_rows (xe_h2d x) ev_complete = Inr (ne_h2d r)" and d: "profile_data profile_rows = Inr data"
    and c: "recovery_chain x (filter (is_milestone x) data) = Inr (chain, requeues)" and l: "chain_linked PNone 0 chain = Inr ()"
    and a: "associations_ok x (ne_h2d r) chain requeues = Inr ()"
    and r: "ne_profile_event_ids r = map (\<lambda>row. str_of (dget row ''record_id'')) chain" "ne_requeue_count r = length requeues" by blast
  note S = recovery_chain_stages [OF c] and D = profile_data_parts [OF d] and L = chain_linked_some [OF l]
  have m: "mset chain = mset (filter (\<lambda>row. str_in (dget row ''record_type'') CATEGORIES \<and> is_milestone x row) profile_rows)"
    using S D by (simp add: conj_commute del: append.simps)
  have mc: "mset chain = mset (filter (is_milestone x) data)" using S by blast
  have sub: "set chain \<subseteq> set data" using mset_eq_setD [OF mc] by auto
  have "dget row ''record_id'' = PStr (str_of (dget row ''record_id''))" if "row \<in> set chain" for row
    using D sub that by (blast intro: is_string_val)
  then have ids: "map (\<lambda>row. dget row ''record_id'') chain = map PStr (ne_profile_event_ids r)"
    unfolding r map_map comp_def by (rule map_cong [OF refl])
  have n: "length chain = 6 + length requeues" using arg_cong [OF S [THEN conjunct1], of length] by simp
  have "mset (map (\<lambda>row. dget row ''record_id'') chain) = mset (map (\<lambda>row. dget row ''record_id'') (filter (is_milestone x) data))"
    by (simp only: mset_map mc)
  then have "distinct (map (\<lambda>row. dget row ''record_id'') chain)"
    using distinct_map_filter [OF D [THEN conjunct2, THEN conjunct2]] mset_eq_imp_distinct_iff by blast
  then have dist: "distinct (ne_profile_event_ids r)" unfolding ids by (simp add: distinct_map)
  have from_ids: "map (\<lambda>row. dget row ''from_profile_event_id'') chain = PNone # map PStr (butlast (ne_profile_event_ids r))"
  proof -
    have "ne_profile_event_ids r \<noteq> []" using n by (simp add: r flip: length_greater_0_conv)
    then show ?thesis using L [THEN conjunct1] unfolding ids by (simp add: map_butlast)
  qed
  have base: "eq_str (dget (chain ! 0) ''base_event_id'') (xh_preempted_event_id (xe_h2d x))"
    "eq_str (dget (chain ! (length chain - 2)) ''base_event_id'') (xe_resumed_event_id x)"
    "eq_str (dget (chain ! (length chain - 1)) ''base_event_id'') (xe_first_compute_base_event_id x)"
    using a by (simp_all only: associations_ok_def Let_def need_Inr)
  have ne: "chain \<noteq> []" using n by auto
  from S have "take (length requeues) (drop 4 chain) = requeues" by blast
  then have q: "map (\<lambda>row. dget row ''requeue_reason'') (take (length requeues) (drop 4 chain)) = map PStr (xe_requeue_reasons x)"
    using S by (simp only:)
  have "exact_chain x (ne_requeue_count r) (ne_profile_event_ids r) chain"
    unfolding exact_chain_def hd_conv_nth [OF ne] last_conv_nth [OF ne]
    unfolding r(2) using S q dist ids from_ids base L [THEN conjunct2] unfolding list_all_iff by blast
  moreover have "length requeues = length (xe_requeue_reasons x)" using S map_eq_imp_length_eq by blast
  ultimately show ?thesis using h m n by (intro conjI exI [of _ chain]) (simp_all add: r)
qed

theorem normalized_episode_is_exact_witness:
  "make_expected_episode sample_expected_episode = Inr sample_expected_episode \<and>
   (\<exists>b p chain. mset chain = mset (filter (\<lambda>row. str_in (dget row ''record_type'') CATEGORIES \<and>
        is_milestone sample_expected_episode row) (sample_profile_rows p)) \<and>
      normalize_h2d_recovery (sample_base_rows b) sample_expected_h2d True = Inr sample_normalized_h2d \<and>
      exact_chain sample_expected_episode 1 [''k1'', ''k2'', ''k3'', ''k4'', ''k5'', ''k6'', ''k7''] chain)"
proof -
  from sample_episode_normalized obtain b p where
    "normalize_kv_recovery_episode (sample_base_rows b) (sample_profile_rows p) sample_expected_episode True =
     Inr \<lparr>ne_h2d = sample_normalized_h2d,
       ne_profile_event_ids = [''k1'', ''k2'', ''k3'', ''k4'', ''k5'', ''k6'', ''k7''], ne_requeue_count = 1\<rparr>" by blast
  from normalized_episode_is_exact [OF this] show ?thesis
    using sample_expectation sample_restore_normalized [of b]
    by (simp only: normalized_episode.simps sample_expected_episode_def expected_episode.simps) blast
qed

end
