(* ===== verification/Recovery_Roundtrip.thy ===== *)
theory Recovery_Roundtrip
  imports Normalizer_Properties
begin

text \<open>
  The adapters and the normalizer agree: the records of one restore, as the bridge, the worker and
  the scheduler adapter build them, are the evidence the normalizer accepts.
\<close>

section \<open>The fields of built records\<close>

lemma event_fields:
  "dget (event_record d u c n t) ''record_type'' = PStr ''event''"
  "dget (event_record d u c n t) ''event_id'' = PStr (id_of u (CHR ''e'') n)"
  "dget (event_record d u c n t) ''trace_id'' = PStr (ed_trace_id d)"
  "dget (event_record d u c n t) ''lifecycle_id'' = PStr (ed_lifecycle_id d)"
  "dget (event_record d u c n t) ''event_name'' = PStr (ed_event_name d)"
  "dget (event_record d u c n t) ''timestamp_ns'' = PInt t"
  "dget (event_record d u c n t) ''preemption_epoch'' = opt_int (ed_preemption_epoch d)"
  "dget (event_record d u c n t) ''start_span_id'' = opt_str (ed_start_span_id d)"
  "dget (event_record d u c n t) ''end_span_id'' = opt_str (ed_end_span_id d)"
  "dget (event_record d u c n t) ''metadata'' = PDict (metadata_of (ed_metadata d))"
  by (simp_all add: event_record_def dget_def)

lemma communication_fields:
  "metadata_of (ed_metadata (communication_draft a name t s e m)) = m"
  "ed_trace_id (communication_draft a name t s e m) = ci_trace_id (tx_identity (at_context a))"
  "ed_lifecycle_id (communication_draft a name t s e m) = ci_engine_lifecycle_id (tx_identity (at_context a))"
  "ed_event_name (communication_draft a name t s e m) = name"
  "ed_start_span_id (communication_draft a name t s e m) = s" "ed_end_span_id (communication_draft a name t s e m) = e"
  "ed_timestamp_ns (communication_draft a name t s e m) = Some t"
  "ed_preemption_epoch (communication_draft a name t s e m) =
     Some (case ci_recovery_epoch (tx_identity (at_context a)) of None \<Rightarrow> 0 | Some k \<Rightarrow> k)"
  by (simp_all add: communication_draft_def Let_def metadata_of_def)

lemma communication_metadata_fields:
  "dget (communication_metadata a @ m) ''operation'' = PStr ''h2d_restore''"
  "dget (communication_metadata a @ m) ''transfer_id'' = PStr (at_transfer_id a)"
  "dget (communication_metadata a @ m) ''block_set_id'' = PStr (tx_block_set_id (at_context a))"
  "dget (communication_metadata a @ m) ''communication_mapping'' = PStr KV_RECOVERY_COMMUNICATION_MODE"
  "dget (communication_metadata a @ [(''bytes_moved'', v)]) ''bytes_moved'' = v"
  by (simp_all add: communication_metadata_def dget_def)

lemma edge_fields:
  assumes "build_edge_record d u n mode = Inr (r, ref)"
  shows "dget r ''record_type'' = PStr ''edge''" "dget r ''edge_id'' = PStr (rr_record_id ref)"
    "dget r ''trace_id'' = PStr (gd_trace_id d)" "dget r ''from_event_id'' = PStr (gd_from_event_id d)"
    "dget r ''to_event_id'' = PStr (gd_to_event_id d)" "dget r ''edge_kind'' = PStr (gd_edge_kind d)"
    "dget r ''evidence_source'' = PStr (gd_evidence_source d)"
  using built_edge(11,12) [OF assms] by (simp_all add: dget_def)

section \<open>Selecting from a shard in any order\<close>

lemma filter_of_shard:
  assumes "mset rows = mset (ks @ others)" "\<forall>row \<in> set others. \<not> P row"
  shows "mset (filter P rows) = mset (filter P ks)"
proof -
  have "filter P others = []" using assms(2) by simp
  then have "mset (filter P (ks @ others)) = mset (filter P ks)" by (simp only: filter_append append_Nil2)
  then show ?thesis by (simp only: mset_filter assms(1))
qed

lemma single_of_shard:
  assumes "mset rows = mset (ks @ others)" "\<forall>row \<in> set others. \<not> P row" "filter P ks = [r]"
  shows "filter P rows = [r]"
  using filter_of_shard [OF assms(1,2)] unfolding assms(3) by (simp only: mset_single_iff mset.simps)

lemma count_of_shard:
  assumes "mset rows = mset (ks @ others)" "\<forall>row \<in> set others. \<not> P row"
  shows "length (filter P rows) = length (filter P ks)"
  using filter_of_shard [OF assms] by (rule mset_eq_length)

lemma event_row_unique:
  assumes "distinct (map (\<lambda>row. dget row ''event_id'') evs)" "r \<in> set evs" "dget r ''event_id'' = PStr i"
  shows "event_row evs i = Some r"
  using assms unfolding event_row_def by (induction evs) (auto simp: eq_str_def rev_image_eqI)


text \<open>An event record of the restore, a communication record, and an edge record.\<close>

definition is_event :: "expected_h2d \<Rightarrow> string \<Rightarrow> string \<Rightarrow> int \<Rightarrow> int \<Rightarrow> pydict \<Rightarrow> bool" where
  "is_event x i name epoch t row \<longleftrightarrow> dget row ''record_type'' = PStr ''event'' \<and> dget row ''event_id'' = PStr i \<and>
     dget row ''event_name'' = PStr name \<and> dget row ''trace_id'' = PStr (xh_trace_id x) \<and>
     dget row ''lifecycle_id'' = PStr (xh_engine_lifecycle_id x) \<and> dget row ''preemption_epoch'' = PInt epoch \<and>
     dget row ''timestamp_ns'' = PInt t"

definition is_restore_event :: "expected_h2d \<Rightarrow> string \<Rightarrow> string \<Rightarrow> int \<Rightarrow> pydict \<Rightarrow> bool" where
  "is_restore_event x i name t row \<longleftrightarrow> is_event x i name (xh_recovery_epoch x) t row \<and>
     metadata_is ''transfer_id'' (xh_transfer_id x) row \<and> metadata_is ''block_set_id'' (xh_block_set_id x) row \<and>
     metadata_is ''operation'' ''h2d_restore'' row \<and>
     metadata_is ''communication_mapping'' KV_RECOVERY_COMMUNICATION_MODE row"

definition is_edge :: "expected_h2d \<Rightarrow> string \<Rightarrow> string \<Rightarrow> string \<Rightarrow> string \<Rightarrow> string \<Rightarrow> pydict \<Rightarrow> bool" where
  "is_edge x i from_id to_id kind source row \<longleftrightarrow> dget row ''record_type'' = PStr ''edge'' \<and> dget row ''edge_id'' = PStr i \<and>
     edge_is (xh_trace_id x) from_id to_id kind source row"

text \<open>
  A record of the shard that is not part of the restore: no loss, no event of the transfer, no
  communication of the trace, no data dependency of the trace and no edge inside the restore.
\<close>

definition unrelated :: "expected_h2d \<Rightarrow> string \<Rightarrow> string \<Rightarrow> pydict \<Rightarrow> bool" where
  "unrelated x start_id done_id row \<longleftrightarrow> \<not> record_type_is ''loss_interval'' row \<and>
     (record_type_is ''event'' row \<longrightarrow> is_string (dget row ''event_id'') \<and> is_string (dget row ''event_name'') \<and>
        \<not> communication_row x row \<and> \<not> metadata_is ''transfer_id'' (xh_transfer_id x) row) \<and>
     (record_type_is ''edge'' row \<longrightarrow> is_string (dget row ''from_event_id'') \<and> is_string (dget row ''to_event_id'') \<and>
        \<not> (eq_str (dget row ''trace_id'') (xh_trace_id x) \<and> eq_str (dget row ''evidence_source'') KV_RECOVERY_H2D_EVIDENCE) \<and>
        \<not> relevant_edge [xh_preempted_event_id x, start_id, done_id, xh_admission_started_event_id x] start_id done_id row)"

lemmas shard_rows = is_event_def is_restore_event_def is_edge_def record_type_is_def eq_str_def

lemma shard_events:
  assumes "mset rows = mset ([p, s, f, q, g1, g2, g3] @ others)"
    and "distinct (map (\<lambda>row. dget row ''event_id'') (filter (record_type_is ''event'') rows))"
    and "\<forall>row \<in> set others. unrelated x a b row"
    and "is_event x i1 n1 k1 t1 p" "is_event x i2 n2 k2 t2 s" "is_event x i3 n3 k3 t3 f" "is_event x i4 n4 k4 t4 q"
    and "is_edge x j1 a1 b1 c1 d1 g1" "is_edge x j2 a2 b2 c2 d2 g2" "is_edge x j3 a3 b3 c3 d3 g3"
  shows "base_events rows = Inr (filter (record_type_is ''event'') rows)" "distinct [i1, i2, i3, i4]"
    "\<not> list_ex (record_type_is ''loss_interval'') rows" "set [p, s, f, q] \<subseteq> set (filter (record_type_is ''event'') rows)"
proof -
  have set: "set rows = {p, s, f, q, g1, g2, g3} \<union> set others"
    using mset_eq_setD [OF assms(1)] by auto
  show "base_events rows = Inr (filter (record_type_is ''event'') rows)"
    using assms(2-) by (auto simp: base_events_def need_def list_all_iff set is_string_def shard_rows unrelated_def)
  show "\<not> list_ex (record_type_is ''loss_interval'') rows" "set [p, s, f, q] \<subseteq> set (filter (record_type_is ''event'') rows)"
    using assms(3-) by (auto simp: list_ex_iff set shard_rows unrelated_def)
  have "mset (map (\<lambda>row. dget row ''event_id'') (filter (record_type_is ''event'') rows)) =
      mset (map (\<lambda>row. dget row ''event_id'') (filter (record_type_is ''event'') ([p, s, f, q, g1, g2, g3] @ others)))"
    by (simp only: mset_map mset_filter assms(1))
  moreover have "filter (record_type_is ''event'') ([p, s, f, q, g1, g2, g3] @ others) =
      [p, s, f, q] @ filter (record_type_is ''event'') others"
    using assms(4-) by (simp add: shard_rows)
  ultimately have "distinct (map (\<lambda>row. dget row ''event_id'') ([p, s, f, q] @ filter (record_type_is ''event'') others))"
    using mset_eq_imp_distinct_iff assms(2) by metis
  then show "distinct [i1, i2, i3, i4]" using assms(4-) by (simp add: shard_rows)
qed

lemma event_rowD:
  assumes "is_event x i name k t row"
  shows "record_type_is ''event'' row" "\<not> record_type_is ''edge'' row"
    "eq_str (dget row ''event_name'') m \<longleftrightarrow> name = m" "eq_str (dget row ''trace_id'') (xh_trace_id x)"
    "str_in (dget row ''event_name'') ms \<longleftrightarrow> name \<in> set ms" "\<not> unhashable (dget row ''event_name'')"
  using assms by (simp_all add: is_event_def record_type_is_def eq_str_def unhashable_def)

lemma edge_rowD:
  assumes "is_edge x i a b k e row"
  shows "record_type_is ''edge'' row" "\<not> record_type_is ''event'' row" "edge_is (xh_trace_id x) a b k e row"
    "dget row ''edge_id'' = PStr i" "dget row ''evidence_source'' = PStr e" "dget row ''from_event_id'' = PStr a" "dget row ''to_event_id'' = PStr b"
    "edge_is u a' b' k' e' row \<longleftrightarrow> u = xh_trace_id x \<and> a' = a \<and> b' = b \<and> k' = k \<and> e' = e"
    "eq_str (dget row ''trace_id'') (xh_trace_id x)" "eq_str (dget row ''evidence_source'') e' \<longleftrightarrow> e = e'"
  using assms by (auto simp: is_edge_def edge_is_def record_type_is_def eq_str_def)

lemma unrelatedD:
  assumes "unrelated x a b row"
  shows "record_type_is ''event'' row \<Longrightarrow> \<not> communication_row x row"
    "record_type_is ''event'' row \<Longrightarrow> \<not> metadata_is ''transfer_id'' (xh_transfer_id x) row"
    "record_type_is ''event'' row \<Longrightarrow> \<not> unhashable (dget row ''event_name'')"
  using assms by (auto simp: unrelated_def unhashable_def is_string_def split: pyval.splits)

lemma shard_pair:
  assumes m: "mset rows = mset ([p, s, f, q, g1, g2, g3] @ others)"
    and o: "\<forall>row \<in> set others. unrelated x a b row"
    and e: "is_event x i1 ''preempted'' k1 t1 p" "is_restore_event x i2 ''communication_started'' t2 s"
      "is_restore_event x i3 ''communication_done'' t3 f" "is_event x i4 ''admission_started'' k4 t4 q"
    and g: "is_edge x j1 a1 b1 c1 d1 g1" "is_edge x j2 a2 b2 c2 d2 g2" "is_edge x j3 a3 b3 c3 d3 g3"
    and plain: "\<not> metadata_is ''transfer_id'' (xh_transfer_id x) p" "\<not> metadata_is ''transfer_id'' (xh_transfer_id x) q"
    and span: "py_eq (dget s ''start_span_id'') (dget f ''end_span_id'')"
  shows "communication_pair x (filter (record_type_is ''event'') rows) = Inr (s, f)"
proof -
  let ?evs = "filter (record_type_is ''event'') rows"
  let ?t = "metadata_is ''transfer_id'' (xh_transfer_id x)"
  have set: "set rows = {p, s, f, q, g1, g2, g3} \<union> set others" using mset_eq_setD [OF m] by auto
  from e(2,3) have e': "is_event x i2 ''communication_started'' (xh_recovery_epoch x) t2 s"
    "is_event x i3 ''communication_done'' (xh_recovery_epoch x) t3 f"
    and sf: "?t s" "?t f" "metadata_is ''operation'' ''h2d_restore'' s" "metadata_is ''operation'' ''h2d_restore'' f"
    by (simp_all add: is_restore_event_def)
  note known = event_rowD [OF e(1)] event_rowD [OF e(4)] event_rowD [OF e'(1)] event_rowD [OF e'(2)]
    edge_rowD(2) [OF g(1)] edge_rowD(2) [OF g(2)] edge_rowD(2) [OF g(3)] plain sf
  have oe: "\<not> communication_row x row" "\<not> ?t row" "\<not> unhashable (dget row ''event_name'')"
    if "row \<in> set others" "record_type_is ''event'' row" for row
    using unrelatedD [of x a b row] o that by auto
  have hash: "\<not> list_ex (\<lambda>row. eq_str (dget row ''trace_id'') (xh_trace_id x) \<and> unhashable (dget row ''event_name'')) ?evs"
    using oe known by (auto simp: list_ex_iff set)
  have all: "list_all (\<lambda>row. metadata_is ''operation'' ''h2d_restore'' row \<and> ?t row) (filter (communication_row x) ?evs)"
    using oe known by (auto simp: list_all_iff set communication_row_def)
  have start: "filter (\<lambda>row. eq_str (dget row ''event_name'') ''communication_started'') (filter ?t ?evs) = [s]"
    unfolding filter_filter using oe by (intro single_of_shard [OF m]) (auto simp: known)
  have finish: "filter (\<lambda>row. eq_str (dget row ''event_name'') ''communication_done'') (filter ?t ?evs) = [f]"
    unfolding filter_filter using oe by (intro single_of_shard [OF m]) (auto simp: known)
  have drift: "\<not> communication_drifted x s" "\<not> communication_drifted x f"
    using e(2,3) by (simp_all add: communication_drifted_def is_restore_event_def is_event_def eq_str_def)
  show ?thesis unfolding communication_pair_def need_def Let_def start finish
    using hash all drift span by simp
qed

lemma shard_edges:
  assumes m: "mset rows = mset ([p, s, f, q, g1, g2, g3] @ others)"
    and o: "\<forall>row \<in> set others. unrelated x i2 i3 row"
    and e: "is_event x i1 n1 k1 t1 p" "is_event x i2 n2 k2 t2 s" "is_event x i3 n3 k3 t3 f" "is_event x i4 n4 k4 t4 q"
    and g: "is_edge x j1 i1 i2 ''data_dependency'' KV_RECOVERY_H2D_EVIDENCE g1"
      "is_edge x j2 i2 i3 ''program_order'' ''instrumented_execution_context'' g2"
      "is_edge x j3 i3 i4 ''data_dependency'' KV_RECOVERY_H2D_EVIDENCE g3"
    and i: "i1 = xh_preempted_event_id x" "i4 = xh_admission_started_event_id x" "distinct [i1, i2, i3, i4]"
  shows "edge_roster x i2 i3 (filter (record_type_is ''edge'') rows) = Inr [j1, j2, j3]"
proof -
  let ?edges = "filter (record_type_is ''edge'') rows"
  let ?rel = "relevant_edge [xh_preempted_event_id x, i2, i3, xh_admission_started_event_id x] i2 i3"
  have set: "set rows = {p, s, f, q, g1, g2, g3} \<union> set others" using mset_eq_setD [OF m] by auto
  note known = event_rowD(1,2) [OF e(1)] event_rowD(1,2) [OF e(2)] event_rowD(1,2) [OF e(3)] event_rowD(1,2) [OF e(4)]
    edge_rowD [OF g(1)] edge_rowD [OF g(2)] edge_rowD [OF g(3)]
  have o': "\<not> edge_is (xh_trace_id x) c d k KV_RECOVERY_H2D_EVIDENCE row"
    "\<not> edge_is (xh_trace_id x) i2 i3 k v row" "\<not> ?rel row"
    "\<not> unhashable (dget row ''from_event_id'')" "\<not> unhashable (dget row ''to_event_id'')"
    "\<not> (eq_str (dget row ''trace_id'') (xh_trace_id x) \<and> eq_str (dget row ''evidence_source'') KV_RECOVERY_H2D_EVIDENCE)"
    if "row \<in> set others" "record_type_is ''edge'' row" for row c d k v
  proof -
    have u: "unrelated x i2 i3 row" using o that(1) by blast
    show "\<not> (eq_str (dget row ''trace_id'') (xh_trace_id x) \<and> eq_str (dget row ''evidence_source'') KV_RECOVERY_H2D_EVIDENCE)"
      "\<not> ?rel row" using u that(2) by (simp_all add: unrelated_def)
    then show "\<not> edge_is (xh_trace_id x) c d k KV_RECOVERY_H2D_EVIDENCE row" "\<not> edge_is (xh_trace_id x) i2 i3 k v row"
      by (auto simp: edge_is_def relevant_edge_def eq_str_def)
    show "\<not> unhashable (dget row ''from_event_id'')" "\<not> unhashable (dget row ''to_event_id'')"
      using u that(2) by (auto simp: unrelated_def unhashable_def is_string_def split: pyval.splits)
  qed
  have ne: "KV_RECOVERY_H2D_EVIDENCE \<noteq> ''instrumented_execution_context''" by (simp add: KV_RECOVERY_H2D_EVIDENCE_def)
  have one: "filter (edge_is (xh_trace_id x) i1 i2 ''data_dependency'' KV_RECOVERY_H2D_EVIDENCE) ?edges = [g1]"
    "filter (edge_is (xh_trace_id x) i2 i3 ''program_order'' ''instrumented_execution_context'') ?edges = [g2]"
    "filter (edge_is (xh_trace_id x) i3 i4 ''data_dependency'' KV_RECOVERY_H2D_EVIDENCE) ?edges = [g3]"
    unfolding filter_filter using o' i(3) by (auto intro!: single_of_shard [OF m] simp: known)
  have hash: "\<not> list_ex (edge_unhashable [xh_preempted_event_id x, i2, i3, xh_admission_started_event_id x]) ?edges"
    using o'(4,5) by (auto simp: list_ex_iff set known edge_unhashable_def unhashable_def)
  have three: "length (filter ?rel ?edges) = 3"
    unfolding filter_filter using o'(3) i ne
    by (subst count_of_shard [OF m]) (auto simp: known relevant_edge_def [of _ _ _ g1] relevant_edge_def [of _ _ _ g2]
        relevant_edge_def [of _ _ _ g3] eq_str_def)
  have two: "length (filter (\<lambda>edge. eq_str (dget edge ''trace_id'') (xh_trace_id x) \<and>
      eq_str (dget edge ''evidence_source'') KV_RECOVERY_H2D_EVIDENCE) ?edges) = 2"
    unfolding filter_filter using o'(6) ne
    by (subst count_of_shard [OF m]) (auto simp: known eq_str_def [of "PStr _"])
  have ids: "edge_ids_of (required_edges x i2 i3) ?edges = Inr [j1, j2, j3]"
    using one by (simp add: required_edges_def i(1,2) [symmetric] need_def bind_def is_string_def str_of_def known)
  show ?thesis unfolding edge_roster_def ids using hash three two by (simp add: need_def bind_def)
qed

text \<open>A shard that holds the evidence of a restore in any order is accepted.\<close>

lemma shard_accepted:
  assumes m: "mset rows = mset ([p, s, f, q, g1, g2, g3] @ others)"
    and u: "distinct (map (\<lambda>row. dget row ''event_id'') (filter (record_type_is ''event'') rows))"
    and o: "\<forall>row \<in> set others. unrelated x i2 i3 row"
    and e: "is_event x (xh_preempted_event_id x) ''preempted'' (xh_recovery_epoch x - 1) tp p"
      "is_restore_event x i2 ''communication_started'' ts s" "is_restore_event x i3 ''communication_done'' td f"
      "is_event x (xh_admission_started_event_id x) ''admission_started'' (xh_recovery_epoch x) ta q"
    and g: "is_edge x j1 (xh_preempted_event_id x) i2 ''data_dependency'' KV_RECOVERY_H2D_EVIDENCE g1"
      "is_edge x j2 i2 i3 ''program_order'' ''instrumented_execution_context'' g2"
      "is_edge x j3 i3 (xh_admission_started_event_id x) ''data_dependency'' KV_RECOVERY_H2D_EVIDENCE g3"
    and plain: "\<not> metadata_is ''transfer_id'' (xh_transfer_id x) p" "\<not> metadata_is ''transfer_id'' (xh_transfer_id x) q"
    and span: "py_eq (dget s ''start_span_id'') (dget f ''end_span_id'')"
    and bytes: "metadata_field ''bytes_moved'' f = PInt n" "1 \<le> n" "n \<le> UINT64_MAX"
    and t: "0 \<le> tp" "tp \<le> ts" "ts < td" "td \<le> ta" "ta \<le> UINT64_MAX"
  shows "normalize_h2d_recovery rows x True = Inr \<lparr>nh_start_event_id = i2, nh_done_event_id = i3,
    nh_duration_ns = td - ts, nh_bytes_moved = n, nh_edge_ids = [j1, j2, j3]\<rparr>"
proof -
  let ?evs = "filter (record_type_is ''event'') rows"
  have e': "is_event x i2 ''communication_started'' (xh_recovery_epoch x) ts s"
    "is_event x i3 ''communication_done'' (xh_recovery_epoch x) td f"
    using e(2,3) by (simp_all add: is_restore_event_def)
  note E = shard_events [OF m u o e(1) e' e(4) g]
  from E(4) have mem: "p \<in> set ?evs" "q \<in> set ?evs" by auto
  have id: "dget p ''event_id'' = PStr (xh_preempted_event_id x)" "dget q ''event_id'' = PStr (xh_admission_started_event_id x)"
    "dget s ''event_id'' = PStr i2" "dget f ''event_id'' = PStr i3"
    using e(1,4) e' by (simp_all add: is_event_def)
  have "endpoints x ?evs = Inr (p, q)"
    using event_row_unique [OF u mem(1) id(1)] event_row_unique [OF u mem(2) id(2)] e(1,4)
    by (simp add: endpoints_def need_def endpoint_drifted_def is_event_def eq_str_def)
  moreover have "causal_bytes p s f q = Inr n"
    using e(1,4) e' t bytes
    by (simp add: causal_bytes_def need_def timed_def time_of_def is_event_def is_uint_def int_val_def)
  moreover have "time_of s = ts" "time_of f = td" using e' by (simp_all add: time_of_def is_event_def int_val_def)
  ultimately show ?thesis
    using E(1,3) shard_pair [OF m o e g plain span] shard_edges [OF m o e(1) e' e(4) g refl refl E(2)] id
    by (simp add: normalize_h2d_recovery_def need_def bind_def str_of_def)
qed

section \<open>What the adapters record is accepted\<close>

text \<open>The expectation an experiment states for a restore: the identity, the epoch and the two endpoints.\<close>

definition restore_expectation :: "request_identity \<Rightarrow> int \<Rightarrow> attempt \<Rightarrow> string \<Rightarrow> string \<Rightarrow> expected_h2d" where
  "restore_expectation i k a preempted admission =
     \<lparr>xh_trace_id = ri_trace_id i, xh_engine_lifecycle_id = ri_engine_lifecycle_id i, xh_recovery_epoch = k,
      xh_transfer_id = at_transfer_id a, xh_block_set_id = tx_block_set_id (at_context a),
      xh_preempted_event_id = preempted, xh_admission_started_event_id = admission\<rparr>"

lemma built_engine_event:
  assumes "build_event_record (engine_draft i c name t k s e m) u d n t0 mode = Inr (r, ref)"
    and "xh_trace_id x = ri_trace_id i" "xh_engine_lifecycle_id x = ri_engine_lifecycle_id i"
  shows "is_event x (rr_record_id ref) name k t r" "dget r ''metadata'' = PDict (metadata_of m)" "0 \<le> t" "t \<le> UINT64_MAX"
proof -
  note b = built_event [OF assms(1)]
  from b(6,7) assms(2,3) show "is_event x (rr_record_id ref) name k t r" "dget r ''metadata'' = PDict (metadata_of m)"
    by (simp_all add: is_event_def event_fields engine_draft_def draft_timestamp_def)
  from accepted_draft(2,3) [OF b(5)] show "0 \<le> t" "t \<le> UINT64_MAX"
    by (simp_all add: engine_draft_def draft_timestamp_def)
qed

lemma built_communication:
  assumes "build_event_record (communication_draft a name t s e (communication_metadata a @ m)) u d n t0 mode = Inr (r, ref)"
    and "xh_trace_id x = ci_trace_id (tx_identity (at_context a))"
      "xh_engine_lifecycle_id x = ci_engine_lifecycle_id (tx_identity (at_context a))"
      "ci_recovery_epoch (tx_identity (at_context a)) = Some (xh_recovery_epoch x)"
      "xh_transfer_id x = at_transfer_id a" "xh_block_set_id x = tx_block_set_id (at_context a)"
  shows "is_restore_event x (rr_record_id ref) name t r" "dget r ''start_span_id'' = opt_str s" "dget r ''end_span_id'' = opt_str e"
    "dget r ''metadata'' = PDict (communication_metadata a @ m)" "0 \<le> t" "t \<le> UINT64_MAX"
proof -
  note b = built_event [OF assms(1)]
  have t: "draft_timestamp (communication_draft a name t s e (communication_metadata a @ m)) t0 = t"
    by (simp add: draft_timestamp_def communication_fields)
  note b' = b(6) [unfolded t]
  show "is_restore_event x (rr_record_id ref) name t r" "dget r ''start_span_id'' = opt_str s" "dget r ''end_span_id'' = opt_str e"
    "dget r ''metadata'' = PDict (communication_metadata a @ m)"
    using b(7) assms(2-)
    by (simp_all add: b' is_restore_event_def is_event_def event_fields communication_fields communication_metadata_fields
        metadata_is_def eq_str_def)
  from accepted_draft(2,3) [OF b(5)] show "0 \<le> t" "t \<le> UINT64_MAX" by (simp_all only: t)
qed

lemma built_done_bytes:
  assumes "build_event_record (communication_draft a ''communication_done'' t s e
    (communication_metadata a @ [(''bytes_moved'', PInt bytes)])) u d n t0 mode = Inr (r, ref)"
  shows "1 \<le> bytes" "bytes \<le> UINT64_MAX"
proof -
  have "is_communication (communication_draft a ''communication_done'' t s e (communication_metadata a @ [(''bytes_moved'', PInt bytes)]))"
    by (simp add: is_communication_def communication_fields)
  from accepted_draft(18) [OF built_event(5) [OF assms] this] show "1 \<le> bytes" "bytes \<le> UINT64_MAX"
    by (simp_all add: validate_kv_recovery_communication_metadata_def communication_fields communication_metadata_fields
        required_metadata_uint_def metadata_uint_def accept_simps require_uint_def Let_def split: if_splits)
qed

lemma built_edge_row:
  assumes "build_edge_record d u n mode = Inr (r, ref)" "xh_trace_id x = gd_trace_id d"
  shows "is_edge x (rr_record_id ref) (gd_from_event_id d) (gd_to_event_id d) (gd_edge_kind d) (gd_evidence_source d) r"
  using edge_fields [OF assms(1)] assms(2) by (simp add: is_edge_def edge_is_def eq_str_def)

text \<open>
  C6. The adapters and the normalizer agree on a restore. Take the preemption and admission events
  of the bridge, the two communication events of the worker, and the three edges the worker and the
  scheduler adapter record between them, as accepted by the record builders, in causal order, in a
  shard of any order whose other records do not concern the restore: the normalizer accepts the
  shard for the matching expectation and returns the time between the communication events, the
  bytes and the ids of the records.
\<close>
theorem restore_evidence_is_accepted:
  assumes same: "ci_trace_id (tx_identity (at_context a)) = ri_trace_id i"
      "ci_engine_lifecycle_id (tx_identity (at_context a)) = ri_engine_lifecycle_id i"
      "ci_recovery_epoch (tx_identity (at_context a)) = Some k"
    and preempted: "build_event_record (engine_draft i ''engine_core'' ''preempted'' tp (k - 1) None (Some active)
        (Some (tokens_metadata computed chunks))) u1 c1 n1 t1 mode = Inr (p, rp)"
    and started: "build_event_record (communication_draft a ''communication_started'' ts (Some span) None
        (communication_metadata a)) u2 c2 n2 t2 mode = Inr (s, rs)"
    and finished: "build_event_record (communication_draft a ''communication_done'' td None (Some span)
        (communication_metadata a @ [(''bytes_moved'', PInt bytes)])) u3 c3 n3 t3 mode = Inr (f, rf)"
    and admission: "build_event_record (engine_draft i ''engine_core'' ''admission_started'' ta k (Some waiting) (Some queue)
        None) u4 c4 n4 t4 mode = Inr (q, rq)"
    and edges: "build_edge_record \<lparr>gd_trace_id = ri_trace_id i, gd_from_event_id = rr_record_id rp, gd_to_event_id = rr_record_id rs,
        gd_edge_kind = ''data_dependency'', gd_evidence_source = KV_RECOVERY_H2D_EVIDENCE\<rparr> u5 n5 mode = Inr (g1, e1)"
      "build_edge_record (program_order (ri_trace_id i) (rr_record_id rs) (rr_record_id rf)) u6 n6 mode = Inr (g2, e2)"
      "build_edge_record \<lparr>gd_trace_id = ri_trace_id i, gd_from_event_id = rr_record_id rf, gd_to_event_id = rr_record_id rq,
        gd_edge_kind = ''data_dependency'', gd_evidence_source = KV_RECOVERY_H2D_EVIDENCE\<rparr> u7 n7 mode = Inr (g3, e3)"
    and order: "tp \<le> ts" "ts < td" "td \<le> ta"
    and shard: "mset rows = mset ([p, s, f, q, g1, g2, g3] @ others)"
      "distinct (map (\<lambda>row. dget row ''event_id'') (filter (record_type_is ''event'') rows))"
      "list_all (unrelated (restore_expectation i k a (rr_record_id rp) (rr_record_id rq)) (rr_record_id rs) (rr_record_id rf)) others"
  shows "normalize_h2d_recovery rows (restore_expectation i k a (rr_record_id rp) (rr_record_id rq)) True =
    Inr \<lparr>nh_start_event_id = rr_record_id rs, nh_done_event_id = rr_record_id rf, nh_duration_ns = td - ts,
         nh_bytes_moved = bytes, nh_edge_ids = [rr_record_id e1, rr_record_id e2, rr_record_id e3]\<rparr>"
proof -
  let ?x = "restore_expectation i k a (rr_record_id rp) (rr_record_id rq)"
  have x: "xh_trace_id ?x = ri_trace_id i" "xh_engine_lifecycle_id ?x = ri_engine_lifecycle_id i" "xh_recovery_epoch ?x = k"
    "xh_transfer_id ?x = at_transfer_id a" "xh_block_set_id ?x = tx_block_set_id (at_context a)"
    "xh_preempted_event_id ?x = rr_record_id rp" "xh_admission_started_event_id ?x = rr_record_id rq"
    by (simp_all add: restore_expectation_def)
  note P = built_engine_event [OF preempted x(1,2)] and Q = built_engine_event [OF admission x(1,2)]
  have c: "xh_trace_id ?x = ci_trace_id (tx_identity (at_context a))"
    "xh_engine_lifecycle_id ?x = ci_engine_lifecycle_id (tx_identity (at_context a))"
    "ci_recovery_epoch (tx_identity (at_context a)) = Some (xh_recovery_epoch ?x)" using x same by simp_all
  note S = built_communication [where m = "[]", unfolded append_Nil2, OF started c x(4,5)]
    and F = built_communication [OF finished c x(4,5)] and B = built_done_bytes [OF finished]
  note G1 = built_edge_row [OF edges(1)] and G2 = built_edge_row [OF edges(2)] and G3 = built_edge_row [OF edges(3)]
  have g: "is_edge ?x (rr_record_id e1) (rr_record_id rp) (rr_record_id rs) ''data_dependency'' KV_RECOVERY_H2D_EVIDENCE g1"
    "is_edge ?x (rr_record_id e2) (rr_record_id rs) (rr_record_id rf) ''program_order'' ''instrumented_execution_context'' g2"
    "is_edge ?x (rr_record_id e3) (rr_record_id rf) (rr_record_id rq) ''data_dependency'' KV_RECOVERY_H2D_EVIDENCE g3"
    using G1 [of ?x] G2 [of ?x] G3 [of ?x] x(1) by (simp_all add: program_order_def)
  have plain: "\<not> metadata_is ''transfer_id'' (xh_transfer_id ?x) p" "\<not> metadata_is ''transfer_id'' (xh_transfer_id ?x) q"
    using P(2) Q(2) by (simp_all add: metadata_is_def metadata_of_def tokens_metadata_def dget_def eq_str_def)
  have span: "py_eq (dget s ''start_span_id'') (dget f ''end_span_id'')" using S(2) F(3) by (simp add: py_eq_def)
  have bytes: "metadata_field ''bytes_moved'' f = PInt bytes"
    using F(4) by (simp add: metadata_field_def communication_metadata_fields)
  have o: "\<forall>row \<in> set others. unrelated ?x (rr_record_id rs) (rr_record_id rf) row" using shard(3) by (simp add: list_all_iff)
  show ?thesis
    by (rule shard_accepted [OF shard(1,2) o _ S(1) F(1) _ _ g(2) _ plain span bytes B P(3) order Q(4)])
      (use P(1) Q(1) g(1,3) x in simp_all)
qed

section \<open>A sample\<close>

definition sample_request :: request_identity where
  "sample_request = \<lparr>ri_trace_id = sample_hex CHR ''d'', ri_engine_lifecycle_id = sample_hex CHR ''d'' @ '':e:0'',
     ri_runtime_request_id = ''r1'', ri_sample_index = 0\<rparr>"

definition sample_build :: "int \<Rightarrow> event_draft \<Rightarrow> (pydict \<times> record_ref) res" where
  "sample_build n d = build_event_record d (sample_hex CHR ''a'') (sample_hex CHR ''b'') n 0 KV_RECOVERY_COMMUNICATION_MODE"

definition sample_link :: "int \<Rightarrow> edge_draft \<Rightarrow> (pydict \<times> record_ref) res" where
  "sample_link n d = build_edge_record d (sample_hex CHR ''a'') n KV_RECOVERY_COMMUNICATION_MODE"

lemma sample_restore_built1:
  "accepted (sample_build 1 (engine_draft sample_request ''engine_core'' ''preempted'' 10 0 None
     (Some (sample_hex CHR ''a'' @ '':s:0'')) (Some (tokens_metadata 4 1))))"
  by code_simp

lemma sample_restore_built2:
  "accepted (sample_build 2 (communication_draft sample_attempt ''communication_started'' 20 (Some (sample_hex CHR ''a'' @ '':s:1'')) None
     (communication_metadata sample_attempt)))"
  by code_simp

lemma sample_restore_built3:
  "accepted (sample_build 3 (communication_draft sample_attempt ''communication_done'' 50 None (Some (sample_hex CHR ''a'' @ '':s:1''))
     (communication_metadata sample_attempt @ [(''bytes_moved'', PInt 64)])))"
  by code_simp

lemma sample_restore_built4:
  "accepted (sample_build 4 (engine_draft sample_request ''engine_core'' ''admission_started'' 60 1
     (Some (sample_hex CHR ''a'' @ '':s:3'')) (Some (sample_hex CHR ''a'' @ '':s:2'')) None))"
  by code_simp

lemma sample_restore_built5:
  "accepted (sample_link 5 \<lparr>gd_trace_id = ri_trace_id sample_request, gd_from_event_id = ev 1, gd_to_event_id = ev 2,
     gd_edge_kind = ''data_dependency'', gd_evidence_source = KV_RECOVERY_H2D_EVIDENCE\<rparr>)"
  by code_simp

lemma sample_restore_built6:
  "accepted (sample_link 6 (program_order (ri_trace_id sample_request) (ev 2) (ev 3)))"
  by code_simp

lemma sample_restore_built7:
  "accepted (sample_link 7 \<lparr>gd_trace_id = ri_trace_id sample_request, gd_from_event_id = ev 3, gd_to_event_id = ev 4,
     gd_edge_kind = ''data_dependency'', gd_evidence_source = KV_RECOVERY_H2D_EVIDENCE\<rparr>)"
  by code_simp


lemma ev_inject: "0 \<le> m \<Longrightarrow> 0 \<le> n \<Longrightarrow> ev m = ev n \<longleftrightarrow> m = n"
  using id_of_inject by (auto simp: ev_def)

lemma sample_event_id_of: "sample_build n d = Inr (r, ref) \<Longrightarrow> rr_record_id ref = ev n \<and> dget r ''event_id'' = PStr (ev n) \<and>
    record_type_is ''event'' r"
  using built_event(6,7) by (fastforce simp: sample_build_def ev_def event_fields record_type_is_def eq_str_def)

theorem restore_evidence_is_accepted_witness:
  "\<exists>rows n. normalize_h2d_recovery rows (restore_expectation sample_request 1 sample_attempt (ev 1) (ev 4)) True = Inr n \<and>
     nh_duration_ns n = 30 \<and> nh_bytes_moved n = 64"
proof -
  obtain p rp s rs f rf q rq where b:
    "sample_build 1 (engine_draft sample_request ''engine_core'' ''preempted'' 10 0 None
       (Some (sample_hex CHR ''a'' @ '':s:0'')) (Some (tokens_metadata 4 1))) = Inr (p, rp)"
    "sample_build 2 (communication_draft sample_attempt ''communication_started'' 20 (Some (sample_hex CHR ''a'' @ '':s:1'')) None
       (communication_metadata sample_attempt)) = Inr (s, rs)"
    "sample_build 3 (communication_draft sample_attempt ''communication_done'' 50 None (Some (sample_hex CHR ''a'' @ '':s:1''))
       (communication_metadata sample_attempt @ [(''bytes_moved'', PInt 64)])) = Inr (f, rf)"
    "sample_build 4 (engine_draft sample_request ''engine_core'' ''admission_started'' 60 1
       (Some (sample_hex CHR ''a'' @ '':s:3'')) (Some (sample_hex CHR ''a'' @ '':s:2'')) None) = Inr (q, rq)"
    using sample_restore_built1 sample_restore_built2 sample_restore_built3 sample_restore_built4
    by (elim acceptedE) (metis surj_pair)
  note i = sample_event_id_of [OF b(1)] sample_event_id_of [OF b(2)] sample_event_id_of [OF b(3)] sample_event_id_of [OF b(4)]
  obtain g1 e1 g2 e2 g3 e3 where g:
    "sample_link 5 \<lparr>gd_trace_id = ri_trace_id sample_request, gd_from_event_id = rr_record_id rp, gd_to_event_id = rr_record_id rs,
       gd_edge_kind = ''data_dependency'', gd_evidence_source = KV_RECOVERY_H2D_EVIDENCE\<rparr> = Inr (g1, e1)"
    "sample_link 6 (program_order (ri_trace_id sample_request) (rr_record_id rs) (rr_record_id rf)) = Inr (g2, e2)"
    "sample_link 7 \<lparr>gd_trace_id = ri_trace_id sample_request, gd_from_event_id = rr_record_id rf, gd_to_event_id = rr_record_id rq,
       gd_edge_kind = ''data_dependency'', gd_evidence_source = KV_RECOVERY_H2D_EVIDENCE\<rparr> = Inr (g3, e3)"
    using sample_restore_built5 sample_restore_built6 sample_restore_built7 i
    by (elim acceptedE) (metis surj_pair)
  have "dget r ''record_type'' = PStr ''edge''" if "r \<in> {g1, g2, g3}" for r
    using that edge_fields(1) g by (auto simp: sample_link_def)
  then have k: "\<not> record_type_is ''event'' g1" "\<not> record_type_is ''event'' g2" "\<not> record_type_is ''event'' g3"
    by (simp_all add: record_type_is_def eq_str_def)
  have d: "distinct (map (\<lambda>row. dget row ''event_id'') (filter (record_type_is ''event'') [p, s, f, q, g1, g2, g3]))"
    using i k by (simp add: ev_inject)
  have c: "ci_trace_id (tx_identity (at_context sample_attempt)) = ri_trace_id sample_request"
    "ci_engine_lifecycle_id (tx_identity (at_context sample_attempt)) = ri_engine_lifecycle_id sample_request"
    "ci_recovery_epoch (tx_identity (at_context sample_attempt)) = Some 1"
    by (simp_all add: sample_attempt_def sample_recovery_identity_def sample_request_def)
  have p: "build_event_record (engine_draft sample_request ''engine_core'' ''preempted'' 10 (1 - 1) None
       (Some (sample_hex CHR ''a'' @ '':s:0'')) (Some (tokens_metadata 4 1))) (sample_hex CHR ''a'') (sample_hex CHR ''b'') 1 0
       KV_RECOVERY_COMMUNICATION_MODE = Inr (p, rp)" using b(1) by (simp add: sample_build_def)
  have "normalize_h2d_recovery [p, s, f, q, g1, g2, g3] (restore_expectation sample_request 1 sample_attempt
      (rr_record_id rp) (rr_record_id rq)) True = Inr \<lparr>nh_start_event_id = rr_record_id rs, nh_done_event_id = rr_record_id rf,
      nh_duration_ns = 50 - 20, nh_bytes_moved = 64, nh_edge_ids = [rr_record_id e1, rr_record_id e2, rr_record_id e3]\<rparr>"
    by (rule restore_evidence_is_accepted [OF c p b(2-4) [unfolded sample_build_def] g [unfolded sample_link_def], where others = "[]"])
      (rule d | simp)+
  with i show ?thesis by (intro exI conjI) (simp_all only:, simp_all)
qed
end
