(* ===== verification/Runtime_Observers.thy ===== *)
theory Runtime_Observers
  imports Recovery_Roundtrip
begin

text \<open>
  The observers the runtime calls directly: the native event bus sink (\<open>native_event_bus.py\<close>) and the
  lifecycle observer (\<open>issue19_lifecycle.py\<close>). Both hand drafts to the hooks and keep bounded state
  of their own; whatever goes wrong on the way, they raise nothing.

  The hooks are a recorder over a state of their own; \<open>enabled\<close> is its property of that name. A clock
  reading is an argument, \<open>None\<close> when the clock raises. The attributes of host events that are only
  copied into metadata are Python values.
\<close>

section \<open>Native events\<close>

text \<open>What the three host event types have in common, and what each adds.\<close>

record host_event =
  hv_request_id :: pyval
  hv_session_id :: pyval
  hv_kv_blocks :: pyval
  hv_ts_monotonic_ns :: int

datatype native_event =
  Request_finished host_event (fin_prompt_tokens: pyval) (fin_output_tokens: pyval) (fin_sequence_tokens: pyval)
    (fin_kv_reclaim_deferred: pyval) (fin_finished_reason: pyval)
| Request_preempted host_event (pre_num_preemptions: pyval) (pre_kv_reclaim_deferred: pyval)
| Request_kv_reclaimed host_event (rec_path: pyval)
| Other_event

definition session_present :: "host_event \<Rightarrow> pyval" where
  "session_present v = PBool (hv_session_id v \<noteq> PNone)"

text \<open>The name, the host event and the metadata; \<open>None\<close> for an event that is not observed.\<close>

fun native_fields :: "native_event \<Rightarrow> (string \<times> host_event \<times> pydict) option" where
  "native_fields (Request_finished v p o' s d r) = Some (''request_finished'', v,
     [(''runtime_request_id'', hv_request_id v), (''session_present'', session_present v), (''prompt_tokens'', p),
      (''output_tokens'', o'), (''sequence_tokens'', s), (''kv_blocks'', hv_kv_blocks v), (''kv_reclaim_deferred'', d),
      (''finished_reason'', r)])"
| "native_fields (Request_preempted v n d) = Some (''request_preempted'', v,
     [(''runtime_request_id'', hv_request_id v), (''session_present'', session_present v), (''num_preemptions'', n),
      (''kv_blocks'', hv_kv_blocks v), (''kv_reclaim_deferred'', d)])"
| "native_fields (Request_kv_reclaimed v path) =
     (if str_in path [''immediate'', ''deferred''] then Some (''request_kv_reclaimed'', v,
        [(''runtime_request_id'', hv_request_id v), (''session_present'', session_present v),
         (''kv_blocks'', hv_kv_blocks v), (''reclaim_path'', path)])
      else None)"
| "native_fields Other_event = None"

text \<open>A draft of the engine's only sample outside any phase.\<close>

definition observed_draft :: "string \<Rightarrow> string \<Rightarrow> string \<Rightarrow> int \<Rightarrow> pydict \<Rightarrow> event_draft" where
  "observed_draft trace component name timestamp_ns metadata =
     \<lparr>ed_trace_id = trace, ed_lifecycle_id = trace @ '':e:0'', ed_parent_lifecycle_id = Some (trace @ '':r''),
      ed_scope = ''engine_sample'', ed_component = component, ed_event_name = name,
      ed_timestamp_ns = Some timestamp_ns, ed_preemption_epoch = Some 0, ed_start_span_id = None,
      ed_end_span_id = None, ed_closing_span_ids = [], ed_sample_index = Some 0, ed_handoff_index = None,
      ed_chunk_index = None, ed_handoff_id = None, ed_metadata = Some metadata\<rparr>"

definition translate :: "string \<Rightarrow> native_event \<Rightarrow> (string \<times> string \<times> event_draft) option" where
  "translate run_id event =
     (case native_fields event of
        None \<Rightarrow> None
      | Some (name, v, metadata) \<Rightarrow>
          (case hv_request_id v of
             PStr (c # cs) \<Rightarrow> Some (name, c # cs, observed_draft (trace_of run_id (c # cs)) ''external_evidence''
               (name @ ''_observed'') (hv_ts_monotonic_ns v) metadata)
           | _ \<Rightarrow> None))"

record native_counts =
  nc_events :: nat
  nc_finished :: nat
  nc_preempted :: nat
  nc_reclaimed :: nat

definition no_events :: native_counts where
  "no_events = \<lparr>nc_events = 0, nc_finished = 0, nc_preempted = 0, nc_reclaimed = 0\<rparr>"

definition count_native :: "string \<Rightarrow> native_counts \<Rightarrow> native_counts" where
  "count_native name n =
     (let n1 = n\<lparr>nc_events := nc_events n + 1\<rparr> in
      if name = ''request_finished'' then n1\<lparr>nc_finished := nc_finished n1 + 1\<rparr>
      else if name = ''request_preempted'' then n1\<lparr>nc_preempted := nc_preempted n1 + 1\<rparr>
      else n1\<lparr>nc_reclaimed := nc_reclaimed n1 + 1\<rparr>)"

text \<open>\<open>emit\<close>. What the evidence emitter returns or raises is dropped.\<close>

definition emit_native ::
  "'h recorder \<Rightarrow> ('h \<Rightarrow> bool) \<Rightarrow> (string \<Rightarrow> string \<Rightarrow> 'h \<Rightarrow> bool res \<times> 'h) option \<Rightarrow> string \<Rightarrow> native_event \<Rightarrow>
   native_counts \<times> 'h \<Rightarrow> native_counts \<times> 'h" where
  "emit_native R enabled emitter run_id event = (\<lambda>(n, h).
     case translate run_id event of
       None \<Rightarrow> (n, h)
     | Some (name, request_id, draft) \<Rightarrow>
         (let h1 = (if enabled h then snd (rc_event R draft h) else h)
          in (count_native name n,
              case emitter of None \<Rightarrow> h1 | Some f \<Rightarrow> snd (f name request_id h1))))"

definition native_snapshot :: "native_counts \<times> 'h \<Rightarrow> nat \<times> nat \<times> nat \<times> nat" where
  "native_snapshot = (\<lambda>(n, h). (nc_events n, nc_finished n, nc_preempted n, nc_reclaimed n))"

section \<open>The lifecycle observer\<close>

definition OBSERVED_TERMINAL_CAUSES :: "string list" where
  "OBSERVED_TERMINAL_CAUSES =
     [''complete'', ''client_disconnect'', ''client_timeout'', ''explicit_cancel'', ''engine_failure'', ''error'']"

definition RESOURCE_EVENTS :: "(string \<times> string) list" where
  "RESOURCE_EVENTS =
     [(''acquire'', ''resource_acquired''), (''transfer_pending'', ''resource_transfer_pending''),
      (''release'', ''resource_released''), (''policy_retain'', ''resource_policy_retained''),
      (''invalidate'', ''resource_invalidated'')]"

record resource_observation =
  ro_runtime_request_id :: string
  ro_resource_type :: string
  ro_resource_id :: string
  ro_transition :: string
  ro_worker_generation :: string
  ro_resource_units :: int
  ro_timestamp_ns :: int

record observer =
  ob_run_id :: string
  ob_capacity :: nat
  ob_active :: "string list"
  ob_aborts :: "(string \<times> nat) list"
  ob_resources :: "resource_observation list"

definition make_observer :: "string \<Rightarrow> nat \<Rightarrow> observer" where
  "make_observer run_id capacity =
     \<lparr>ob_run_id = run_id, ob_capacity = capacity, ob_active = [], ob_aborts = [], ob_resources = []\<rparr>"

text \<open>A state of the observer: its own, the bridge's and the hooks'.\<close>

type_synonym 'h observed = "observer \<times> bridge \<times> 'h"

text \<open>The set of active requests is a list without duplicates.\<close>

definition observe_started :: "'h recorder \<Rightarrow> int option \<Rightarrow> string \<Rightarrow> 'h observed \<Rightarrow> 'h observed" where
  "observe_started R now rid = (\<lambda>(ob, b, h).
     case now of
       None \<Rightarrow> (ob, b, h)
     | Some t \<Rightarrow>
         (let (r, b1, h1) = register_runtime_request R (ob_run_id ob) rid t b h
          in (case r of
                Inr (Some _) \<Rightarrow> if length (ob_active ob) < ob_capacity ob then ob\<lparr>ob_active := List.insert rid (ob_active ob)\<rparr> else ob
              | _ \<Rightarrow> ob, b1, h1)))"

definition abort_attempt :: "string \<Rightarrow> 'h observed \<Rightarrow> 'h observed" where
  "abort_attempt rid = (\<lambda>(ob, b, h).
     (case map_of (ob_aborts ob) rid of
        Some n \<Rightarrow> ob\<lparr>ob_aborts := AList.update rid (n + 1) (ob_aborts ob)\<rparr>
      | None \<Rightarrow> if length (ob_aborts ob) < ob_capacity ob then ob\<lparr>ob_aborts := AList.update rid 1 (ob_aborts ob)\<rparr> else ob,
      b, h))"

definition observe_terminal :: "'h recorder \<Rightarrow> int option \<Rightarrow> string \<Rightarrow> string \<Rightarrow> int \<Rightarrow> 'h observed \<Rightarrow> 'h observed" where
  "observe_terminal R now rid cause generated = (\<lambda>(ob, b, h).
     if cause \<notin> set OBSERVED_TERMINAL_CAUSES then (ob, b, h)
     else (let (b1, h1) = (case now of None \<Rightarrow> (b, h) | Some t \<Rightarrow> snd (emit_runtime_terminal R rid cause t generated b h))
           in (ob\<lparr>ob_active := remove1 rid (ob_active ob)\<rparr>, b1, h1)))"

text \<open>One reading of the clock for each request; \<open>None\<close> when iterating over the ids raises.\<close>

fun observe_failures :: "'h recorder \<Rightarrow> (string \<times> int option) list \<Rightarrow> 'h observed \<Rightarrow> 'h observed" where
  "observe_failures R [] st = st"
| "observe_failures R ((rid, now) # rest) st =
     observe_failures R rest (observe_terminal R now rid ''engine_failure'' 0 st)"

definition engine_failure :: "'h recorder \<Rightarrow> (string \<times> int option) list option \<Rightarrow> 'h observed \<Rightarrow> 'h observed" where
  "engine_failure R requests st = (case requests of None \<Rightarrow> st
     | Some rs \<Rightarrow> observe_failures R (take (ob_capacity (fst st)) rs) st)"

definition py_opt_int :: "int option \<Rightarrow> string" where
  "py_opt_int v = (case v of None \<Rightarrow> ''None'' | Some i \<Rightarrow> py_str_int i)"

definition generation_of :: "string \<Rightarrow> int option \<Rightarrow> string" where
  "generation_of worker_name worker_pid = worker_name @ '':'' @ py_opt_int worker_pid"

definition exit_draft :: "string \<Rightarrow> string \<Rightarrow> int option \<Rightarrow> int \<Rightarrow> event_draft" where
  "exit_draft run_id generation exit_code timestamp_ns =
     (let trace = trace_of run_id generation in
      \<lparr>ed_trace_id = trace, ed_lifecycle_id = trace @ '':r'', ed_parent_lifecycle_id = None,
       ed_scope = ''root_request'', ed_component = ''frontend'', ed_event_name = ''error'',
       ed_timestamp_ns = Some timestamp_ns, ed_preemption_epoch = None, ed_start_span_id = None,
       ed_end_span_id = None, ed_closing_span_ids = [], ed_sample_index = None, ed_handoff_index = None,
       ed_chunk_index = None, ed_handoff_id = None,
       ed_metadata = Some [(''terminal_cause'', PStr ''engine_failure''), (''worker_generation'', PStr generation),
         (''worker_exit_code'', opt_int exit_code)]\<rparr>)"

definition worker_generation_exit ::
  "'h recorder \<Rightarrow> int option \<Rightarrow> string \<Rightarrow> int option \<Rightarrow> int option \<Rightarrow> 'h observed \<Rightarrow> 'h observed" where
  "worker_generation_exit R now worker_name worker_pid exit_code = (\<lambda>(ob, b, h).
     case now of
       None \<Rightarrow> (ob, b, h)
     | Some t \<Rightarrow> (ob, b, snd (rc_event R (exit_draft (ob_run_id ob) (generation_of worker_name worker_pid) exit_code t) h)))"

definition resource_draft :: "string \<Rightarrow> resource_observation \<Rightarrow> event_draft" where
  "resource_draft run_id o' = observed_draft (trace_of run_id (ro_runtime_request_id o')) ''engine_core''
     (the (map_of RESOURCE_EVENTS (ro_transition o'))) (ro_timestamp_ns o')
     [(''runtime_request_id'', PStr (ro_runtime_request_id o')), (''resource_type'', PStr (ro_resource_type o')),
      (''resource_id'', PStr (ro_resource_id o')), (''resource_transition'', PStr (ro_transition o')),
      (''resource_units'', PInt (ro_resource_units o')), (''worker_generation'', PStr (ro_worker_generation o'))]"

definition resource_transition ::
  "'h recorder \<Rightarrow> int option \<Rightarrow> string \<Rightarrow> string \<Rightarrow> string \<Rightarrow> string \<Rightarrow> string \<Rightarrow> pyval \<Rightarrow> 'h observed \<Rightarrow> 'h observed" where
  "resource_transition R now rid resource_type resource_id transition generation resource_units = (\<lambda>(ob, b, h).
     if transition \<notin> fst ` set RESOURCE_EVENTS \<or> \<not> (case as_strict_int resource_units of None \<Rightarrow> False | Some n \<Rightarrow> 1 \<le> n)
     then (ob, b, h)
     else (case now of
         None \<Rightarrow> (ob, b, h)
       | Some t \<Rightarrow>
           if length (ob_resources ob) \<ge> ob_capacity ob then (ob, b, h)
           else (let o' = \<lparr>ro_runtime_request_id = rid, ro_resource_type = resource_type, ro_resource_id = resource_id,
                           ro_transition = transition, ro_worker_generation = generation,
                           ro_resource_units = the (as_strict_int resource_units), ro_timestamp_ns = t\<rparr>;
                     (emitted, h1) = rc_event R (resource_draft (ob_run_id ob) o') h
                 in (if emitted = None then ob else ob\<lparr>ob_resources := ob_resources ob @ [o']\<rparr>, b, h1))))"

text \<open>The snapshot: the active requests and the abort counts sorted, and the number of observations.\<close>

definition observer_snapshot :: "observer \<Rightarrow> string list \<times> (string \<times> nat) list \<times> nat" where
  "observer_snapshot ob = (sort (ob_active ob), sort_key fst (ob_aborts ob), length (ob_resources ob))"

section \<open>Sequences of calls\<close>

datatype observer_call =
  Started "int option" string
| Abort string
| Finish "int option" string string int
| Failure "(string \<times> int option) list option"
| Worker_exit "int option" string "int option" "int option"
| Resource "int option" string string string string string pyval

fun observe :: "'h recorder \<Rightarrow> observer_call \<Rightarrow> 'h observed \<Rightarrow> 'h observed" where
  "observe R (Started now rid) = observe_started R now rid"
| "observe R (Abort rid) = abort_attempt rid"
| "observe R (Finish now rid cause n) = observe_terminal R now rid cause n"
| "observe R (Failure rs) = engine_failure R rs"
| "observe R (Worker_exit now w p c) = worker_generation_exit R now w p c"
| "observe R (Resource now rid t i x g u) = resource_transition R now rid t i x g u"

definition observe_all :: "'h recorder \<Rightarrow> observer_call list \<Rightarrow> 'h observed \<Rightarrow> 'h observed" where
  "observe_all R cs st = fold (observe R) cs st"

end
