(* ===== verification/Observer_Properties.thy ===== *)
theory Observer_Properties
  imports Runtime_Observers
begin

text \<open>
  What the hooks do with the drafts of the observers, and what the observers remember of them.
\<close>

section \<open>Which drafts are accepted\<close>

definition known_mode :: "string \<Rightarrow> bool" where
  "known_mode mode \<longleftrightarrow> mode \<in> {''none'', KV_RECOVERY_COMMUNICATION_MODE}"

definition short_text :: "string \<Rightarrow> bool" where
  "short_text s \<longleftrightarrow> printable_ascii s \<and> length s \<le> 128"

definition counted :: "pyval \<Rightarrow> bool" where
  "counted v \<longleftrightarrow> is_uint v UINT64_MAX"

lemma counted_required [accept_simps]:
  "required_metadata_uint m k = None \<longleftrightarrow> counted (dget m k)"
  by (cases "dget m k") (auto simp: required_metadata_uint_def counted_def is_uint_def require_uint_def accept_simps)

lemma trace_of_hex: "is_hex 32 (trace_of run_id rid)"
  by (simp add: trace_of_def text_simps)

lemma hex_length: "is_hex n s \<Longrightarrow> length s = n"
  by (simp add: is_hex_def)

lemma py_str_zero: "py_str_int 0 = ''0''"
  by code_simp

lemma observed_fields:
  "ed_trace_id (observed_draft tr c name t m) = tr" "ed_scope (observed_draft tr c name t m) = ''engine_sample''"
  "ed_component (observed_draft tr c name t m) = c" "ed_event_name (observed_draft tr c name t m) = name"
  "ed_preemption_epoch (observed_draft tr c name t m) = Some 0" "ed_sample_index (observed_draft tr c name t m) = Some 0"
  "ed_handoff_index (observed_draft tr c name t m) = None" "ed_chunk_index (observed_draft tr c name t m) = None"
  "ed_metadata (observed_draft tr c name t m) = Some m"
  by (simp_all add: observed_draft_def)

text \<open>The draft of a native event passes the validator exactly when its metadata does.\<close>

lemma native_draft_valid:
  assumes "is_hex 32 trace" "name \<in> {''request_finished_observed'', ''request_preempted_observed'', ''request_kv_reclaimed_observed''}"
  shows "validate_event_draft (observed_draft trace ''external_evidence'' name t m) u t mode = None \<longleftrightarrow>
    known_mode mode \<and> 0 \<le> t \<and> t \<le> UINT64_MAX \<and> validate_metadata (Some m) = None \<and>
    validate_native_metadata (observed_draft trace ''external_evidence'' name t m) m = None"
proof -
  let ?d = "observed_draft trace ''external_evidence'' name t m"
  have vocabulary: "''engine_sample'' \<in> set SCOPES" "''external_evidence'' \<in> set COMPONENTS" "name \<in> set EVENT_NAMES"
    "map_of COMPONENT_BY_SCOPE_EVENT (''engine_sample'', name) = Some ''external_evidence''"
    "\<not> prefix ''communication_'' name" "\<not> prefix ''resource_'' name"
    "name \<notin> set [''output_batch_ready'', ''output_ready'', ''serialization_started'', ''cleanup_started'', ''cleanup_done'',
       ''scheduled'', ''resumed'', ''prefill_done'', ''preempted'', ''generation_done'', ''received'', ''unsupported_mode'']"
    "name \<notin> set CHUNK_EVENTS" "name \<notin> set ABNORMAL_TERMINALS" "name \<notin> set SPAN_START_EVENTS" "name \<notin> set SPAN_END_EVENTS"
    using assms(2) by (elim insertE emptyE; simp; code_simp)+
  have "validate_lifecycle_identity ?d = None" "validate_span_fields ?d u = None" "validate_handoff_and_chunk ?d = None"
    "validate_optional_uint ''preemption_epoch'' (Some 0) UINT32_MAX = None"
    "validate_resource_metadata ?d m = None" "validate_received_metadata ?d m = None" "validate_phase_metadata ?d m = None"
    using vocabulary hex_length [OF assms(1)]
    by (simp_all add: observed_draft_def validate_lifecycle_identity_def validate_span_fields_def validate_handoff_and_chunk_def
        validate_optional_uint_def validate_resource_metadata_def validate_received_metadata_def validate_phase_metadata_def
        check_span_id_def require_uint_def UINT32_MAX_def id_of_def py_str_zero Let_def accept_simps)
  then show ?thesis
    using vocabulary(1-5) assms(1)
    by (auto simp: validate_event_draft_def validate_event_metadata_def observed_fields is_communication_def known_mode_def
        metadata_of_def require_hex32_def require_uint_def validate_optional_uint_def UINT32_MAX_def accept_simps)
qed

section \<open>Metadata of native events\<close>

lemma printable_json: "printable_ascii s \<Longrightarrow> length (json_str s) \<le> 2 * length s + 2"
proof (induction s)
  case (Cons c s)
  then have "length (json_escape c) \<le> 2"
    by (auto simp: json_escape_def printable_ascii_def is_printable_char_def code_def)
  with Cons show ?case by (simp add: json_str_def printable_ascii_def)
qed (simp add: json_str_def)

lemma bound_short: "short_text s \<Longrightarrow> value_bound (PStr s) 258"
  using printable_json [of s] by (simp add: short_text_def value_bound_def)

lemma bound_counted: "counted v \<Longrightarrow> value_bound v 20"
  by (cases v) (auto simp: counted_def is_uint_def value_bound_def length_py_str_int)

lemma bound_bool: "is_bool v \<Longrightarrow> value_bound v 5"
  by (cases v) (auto simp: value_bound_def)

lemma metadata_fits:
  assumes "list_all2 (\<lambda>kv b. plain (fst kv) \<and> value_bound (snd kv) b) m bs" "m \<noteq> []"
    and "(\<Sum>kv\<leftarrow>m. length (fst kv)) + sum_list bs + 4 * length m + 1 \<le> MAX_METADATA_BYTES"
  shows "length (json_dumps (PDict m)) \<le> MAX_METADATA_BYTES"
  using record_length [OF assms(1)] length_dumps_dict [OF assms(2)] assms(3) by linarith

lemma metadata_valid:
  "validate_metadata (Some m) = None \<longleftrightarrow>
     list_all (\<lambda>kv. check_metadata_item kv = None) m \<and> length (json_dumps (PDict m)) \<le> MAX_METADATA_BYTES"
  by (auto simp: validate_metadata_def accept_simps list_all_iff)

lemma item_simps:
  "check_metadata_item (k, PStr s) = None \<longleftrightarrow> metadata_key k \<and> k \<notin> set FORBIDDEN_METADATA_KEYS \<and> short_text s"
  "check_metadata_item (k, PBool b) = None \<longleftrightarrow> metadata_key k \<and> k \<notin> set FORBIDDEN_METADATA_KEYS"
  "counted v \<Longrightarrow> check_metadata_item (k, v) = None \<longleftrightarrow> metadata_key k \<and> k \<notin> set FORBIDDEN_METADATA_KEYS"
  by (auto simp: check_metadata_item_def accept_simps short_text_def)
     (cases v, auto simp: counted_def is_uint_def require_uint_def accept_simps)+

definition native_keys :: "string list" where
  "native_keys = [''runtime_request_id'', ''session_present'', ''prompt_tokens'', ''output_tokens'', ''sequence_tokens'',
     ''kv_blocks'', ''kv_reclaim_deferred'', ''finished_reason'', ''num_preemptions'', ''reclaim_path'']"

lemma native_keys_ok: "list_all (\<lambda>k. metadata_key k \<and> k \<notin> set FORBIDDEN_METADATA_KEYS \<and> plain k) native_keys"
  by code_simp

text \<open>When the fields of a native event can be recorded.\<close>

fun native_ok :: "native_event \<Rightarrow> bool" where
  "native_ok (Request_finished v p o' s d r) \<longleftrightarrow> counted p \<and> counted o' \<and> counted s \<and> counted (hv_kv_blocks v) \<and>
     int_val s = int_val p + int_val o' \<and> is_bool d \<and> (case r of PStr reason \<Rightarrow> reason \<noteq> [] \<and> short_text reason | _ \<Rightarrow> False)"
| "native_ok (Request_preempted v n d) \<longleftrightarrow> counted n \<and> counted (hv_kv_blocks v) \<and> is_bool d"
| "native_ok (Request_kv_reclaimed v path) \<longleftrightarrow> counted (hv_kv_blocks v)"
| "native_ok Other_event \<longleftrightarrow> False"

lemma counted_uint: "counted (dget m k) \<Longrightarrow> metadata_uint m k = int_val (dget m k)"
  by (cases "dget m k") (auto simp: counted_def is_uint_def metadata_uint_def int_val_def)

lemma finished_valid:
  assumes "hv_request_id v = PStr rid" "rid \<noteq> []"
    and m: "native_fields (Request_finished v p o' s d r) = Some (name, v', m)"
  shows "validate_metadata (Some m) = None \<and>
      validate_native_metadata (observed_draft trace c ''request_finished_observed'' t m) m = None \<longleftrightarrow>
    short_text rid \<and> native_ok (Request_finished v p o' s d r)" (is "?valid \<longleftrightarrow> ?ok")
proof
  have keys: "list_all (\<lambda>k. metadata_key k \<and> k \<notin> set FORBIDDEN_METADATA_KEYS \<and> plain k) native_keys" by (rule native_keys_ok)
  from m have M: "m = [(''runtime_request_id'', PStr rid), (''session_present'', session_present v), (''prompt_tokens'', p),
      (''output_tokens'', o'), (''sequence_tokens'', s), (''kv_blocks'', hv_kv_blocks v), (''kv_reclaim_deferred'', d),
      (''finished_reason'', r)]" using assms(1) by auto
  have get: "dget m ''runtime_request_id'' = PStr rid" "dget m ''session_present'' = session_present v" "dget m ''prompt_tokens'' = p"
    "dget m ''output_tokens'' = o'" "dget m ''sequence_tokens'' = s" "dget m ''kv_blocks'' = hv_kv_blocks v"
    "dget m ''kv_reclaim_deferred'' = d" "dget m ''finished_reason'' = r"
    by (simp_all add: M dget_def)
  have ks: "map_of NATIVE_EVENT_KEYS ''request_finished_observed'' = Some (map fst m)"
    by (simp add: M NATIVE_EVENT_KEYS_def)
  have uints: "native_uint_keys (map fst m) = [''prompt_tokens'', ''output_tokens'', ''sequence_tokens'', ''kv_blocks'']"
    by (simp add: M native_uint_keys_def)
  show ?ok if v: ?valid
  proof -
    from v have n: "counted p" "counted o'" "counted s" "counted (hv_kv_blocks v)" "is_bool d" "nonempty_str r"
      "metadata_uint m ''sequence_tokens'' = metadata_uint m ''prompt_tokens'' + metadata_uint m ''output_tokens''"
      by (auto simp: validate_native_metadata_def observed_fields ks uints get accept_simps) (auto simp: M)
    from v have "check_metadata_item (''runtime_request_id'', PStr rid) = None" "check_metadata_item (''finished_reason'', r) = None"
      by (auto simp: metadata_valid M)
    with n show ?thesis using get counted_uint [of m] by (cases r) (auto simp: item_simps)
  qed
  show ?valid if ok: ?ok
  proof -
    from ok obtain reason where r: "r = PStr reason" "reason \<noteq> []" "short_text reason" by (cases r) auto
    have "length (json_dumps (PDict m)) \<le> MAX_METADATA_BYTES"
      unfolding M using ok keys r assms(1)
      by (intro metadata_fits [where bs = "[258, 5, 20, 20, 20, 20, 5, 258]"])
        (simp_all add: bound_short bound_counted bound_bool session_present_def native_keys_def MAX_METADATA_BYTES_def)
    then have "validate_metadata (Some m) = None"
      using ok keys r by (cases d) (simp_all add: metadata_valid M session_present_def item_simps native_keys_def)
    then show ?thesis
      using ok r assms(2) counted_uint [of m]
      by (auto simp: validate_native_metadata_def observed_fields ks uints get accept_simps keys_are_def session_present_def)
  qed
qed

lemma preempted_valid:
  assumes "hv_request_id v = PStr rid" "rid \<noteq> []"
    and m: "native_fields (Request_preempted v n d) = Some (name, v', m)"
  shows "validate_metadata (Some m) = None \<and>
      validate_native_metadata (observed_draft trace c ''request_preempted_observed'' t m) m = None \<longleftrightarrow>
    short_text rid \<and> native_ok (Request_preempted v n d)" (is "?valid \<longleftrightarrow> ?ok")
proof -
  have keys: "list_all (\<lambda>k. metadata_key k \<and> k \<notin> set FORBIDDEN_METADATA_KEYS \<and> plain k) native_keys" by (rule native_keys_ok)
  from m have M: "m = [(''runtime_request_id'', PStr rid), (''session_present'', session_present v), (''num_preemptions'', n),
      (''kv_blocks'', hv_kv_blocks v), (''kv_reclaim_deferred'', d)]" using assms(1) by auto
  have get: "dget m ''runtime_request_id'' = PStr rid" "dget m ''session_present'' = session_present v"
    "dget m ''num_preemptions'' = n" "dget m ''kv_blocks'' = hv_kv_blocks v" "dget m ''kv_reclaim_deferred'' = d"
    by (simp_all add: M dget_def)
  have ks: "map_of NATIVE_EVENT_KEYS ''request_preempted_observed'' = Some (map fst m)"
    by (simp add: M NATIVE_EVENT_KEYS_def)
  have uints: "native_uint_keys (map fst m) = [''num_preemptions'', ''kv_blocks'']"
    by (simp add: M native_uint_keys_def)
  have native: "validate_native_metadata (observed_draft trace c ''request_preempted_observed'' t m) m = None \<longleftrightarrow>
      counted n \<and> counted (hv_kv_blocks v) \<and> is_bool d"
    using assms(2)
    by (auto simp: validate_native_metadata_def observed_fields ks uints get accept_simps keys_are_def session_present_def)
      (auto simp: M)
  have "validate_metadata (Some m) = None \<longleftrightarrow> short_text rid" if ok: "counted n" "counted (hv_kv_blocks v)" "is_bool d"
  proof -
    have "length (json_dumps (PDict m)) \<le> MAX_METADATA_BYTES" if "short_text rid"
      unfolding M using that ok keys
      by (intro metadata_fits [where bs = "[258, 5, 20, 20, 5]"])
        (simp_all add: bound_short bound_counted bound_bool session_present_def native_keys_def MAX_METADATA_BYTES_def)
    then show ?thesis
      using ok keys by (cases d) (auto simp: metadata_valid M session_present_def item_simps native_keys_def)
  qed
  with native show ?thesis by auto
qed

lemma reclaimed_valid:
  assumes "hv_request_id v = PStr rid" "rid \<noteq> []"
    and m: "native_fields (Request_kv_reclaimed v path) = Some (name, v', m)"
  shows "validate_metadata (Some m) = None \<and>
      validate_native_metadata (observed_draft trace c ''request_kv_reclaimed_observed'' t m) m = None \<longleftrightarrow>
    short_text rid \<and> native_ok (Request_kv_reclaimed v path)"
proof -
  have keys: "list_all (\<lambda>k. metadata_key k \<and> k \<notin> set FORBIDDEN_METADATA_KEYS \<and> plain k) native_keys" by (rule native_keys_ok)
  from m have M: "m = [(''runtime_request_id'', PStr rid), (''session_present'', session_present v),
      (''kv_blocks'', hv_kv_blocks v), (''reclaim_path'', path)]" and path: "str_in path [''immediate'', ''deferred'']"
    using assms(1) by (auto split: if_splits)
  then obtain q where q: "path = PStr q" "q \<in> {''immediate'', ''deferred''}" by (cases path) auto
  then have short: "short_text q" by (auto simp: short_text_def printable_ascii_def is_printable_char_def code_def)
  have get: "dget m ''runtime_request_id'' = PStr rid" "dget m ''session_present'' = session_present v"
    "dget m ''kv_blocks'' = hv_kv_blocks v" "dget m ''reclaim_path'' = path"
    by (simp_all add: M dget_def)
  have ks: "map_of NATIVE_EVENT_KEYS ''request_kv_reclaimed_observed'' = Some (map fst m)"
    by (simp add: M NATIVE_EVENT_KEYS_def)
  have uints: "native_uint_keys (map fst m) = [''kv_blocks'']"
    by (simp add: M native_uint_keys_def)
  have native: "validate_native_metadata (observed_draft trace c ''request_kv_reclaimed_observed'' t m) m = None \<longleftrightarrow>
      counted (hv_kv_blocks v)"
    using assms(2) path
    by (auto simp: validate_native_metadata_def observed_fields ks uints get accept_simps keys_are_def session_present_def)
      (auto simp: M)
  have "validate_metadata (Some m) = None \<longleftrightarrow> short_text rid" if ok: "counted (hv_kv_blocks v)"
  proof -
    have "length (json_dumps (PDict m)) \<le> MAX_METADATA_BYTES" if "short_text rid"
      unfolding M using that ok keys short q
      by (intro metadata_fits [where bs = "[258, 5, 20, 258]"])
        (simp_all add: bound_short bound_counted bound_bool session_present_def native_keys_def MAX_METADATA_BYTES_def)
    then show ?thesis
      using ok keys short by (auto simp: metadata_valid M session_present_def item_simps native_keys_def q)
  qed
  with native show ?thesis by auto
qed

text \<open>
  C37. A native event is recorded exactly when its fields are well formed. Whatever the host puts into
  an event, its draft is accepted by the record builder if and only if the request id is printable
  and at most 128 bytes, every count is a uint64 and no Boolean, the flags are Booleans, the finish
  reason is a non-empty such text and the token counts add up; the metadata size limit never decides.
\<close>
theorem native_event_accepted:
  assumes "translate run_id event = Some (name, rid, d)"
  shows "(\<exists>r. build_event_record d u c n t mode = Inr r) \<longleftrightarrow>
    is_hex 32 u \<and> is_hex 32 c \<and> 0 \<le> n \<and> n \<le> UINT64_MAX \<and> known_mode mode \<and>
    (\<exists>ts. ed_timestamp_ns d = Some ts \<and> 0 \<le> ts \<and> ts \<le> UINT64_MAX) \<and> short_text rid \<and> native_ok event"
proof -
  from assms obtain v m where f: "native_fields event = Some (name, v, m)" and rid: "hv_request_id v = PStr rid" "rid \<noteq> []"
    and d: "d = observed_draft (trace_of run_id rid) ''external_evidence'' (name @ ''_observed'') (hv_ts_monotonic_ns v) m"
    by (auto simp: translate_def split: option.splits pyval.splits list.splits)
  have fields: "validate_metadata (Some m) = None \<and> validate_native_metadata d m = None \<longleftrightarrow> short_text rid \<and> native_ok event \<and>
      name @ ''_observed'' \<in> {''request_finished_observed'', ''request_preempted_observed'', ''request_kv_reclaimed_observed''}"
  proof (cases event)
    case (Request_finished v' p o' s e r)
    then have "v' = v" "name = ''request_finished''" using f by auto
    with finished_valid [OF rid f [unfolded Request_finished \<open>v' = v\<close>]] Request_finished show ?thesis by (simp add: d)
  next
    case (Request_preempted v' k e)
    then have "v' = v" "name = ''request_preempted''" using f by auto
    with preempted_valid [OF rid f [unfolded Request_preempted \<open>v' = v\<close>]] Request_preempted show ?thesis by (simp add: d)
  next
    case (Request_kv_reclaimed v' path)
    then have "v' = v" "name = ''request_kv_reclaimed''" using f by (auto split: if_splits)
    with reclaimed_valid [OF rid f [unfolded Request_kv_reclaimed \<open>v' = v\<close>]] Request_kv_reclaimed show ?thesis by (simp add: d)
  qed (use f in simp)
  have name: "name @ ''_observed'' \<in> {''request_finished_observed'', ''request_preempted_observed'', ''request_kv_reclaimed_observed''}"
    using f by (cases event) (auto split: if_splits)
  have ts: "draft_timestamp d t = hv_ts_monotonic_ns v" "ed_timestamp_ns d = Some (hv_ts_monotonic_ns v)"
    by (simp_all add: d draft_timestamp_def observed_draft_def)
  have "(\<exists>r. build_event_record d u c n t mode = Inr r) \<longleftrightarrow> is_hex 32 u \<and> is_hex 32 c \<and> 0 \<le> n \<and> n \<le> UINT64_MAX \<and>
      validate_event_draft d u (hv_ts_monotonic_ns v) mode = None"
    by (auto simp: build_event_record_def Let_def accept_simps ts(1) require_hex32_def require_uint_def)
  moreover have "validate_event_draft d u (hv_ts_monotonic_ns v) mode = None \<longleftrightarrow> known_mode mode \<and> 0 \<le> hv_ts_monotonic_ns v \<and>
      hv_ts_monotonic_ns v \<le> UINT64_MAX \<and> validate_metadata (Some m) = None \<and> validate_native_metadata d m = None"
    unfolding d by (rule native_draft_valid [OF trace_of_hex name])
  ultimately show ?thesis using fields name by (simp add: ts(2))
qed

section \<open>The exit of a worker generation\<close>

lemma exit_fields:
  "ed_trace_id (exit_draft run_id g exit_code ts) = trace_of run_id g" "ed_scope (exit_draft run_id g exit_code ts) = ''root_request''"
  "ed_component (exit_draft run_id g exit_code ts) = ''frontend''" "ed_event_name (exit_draft run_id g exit_code ts) = ''error''"
  "ed_lifecycle_id (exit_draft run_id g exit_code ts) = trace_of run_id g @ '':r''" "ed_parent_lifecycle_id (exit_draft run_id g exit_code ts) = None"
  "ed_preemption_epoch (exit_draft run_id g exit_code ts) = None" "ed_sample_index (exit_draft run_id g exit_code ts) = None"
  "ed_handoff_id (exit_draft run_id g exit_code ts) = None" "ed_handoff_index (exit_draft run_id g exit_code ts) = None" "ed_chunk_index (exit_draft run_id g exit_code ts) = None"
  "ed_start_span_id (exit_draft run_id g exit_code ts) = None" "ed_end_span_id (exit_draft run_id g exit_code ts) = None"
  "ed_closing_span_ids (exit_draft run_id g exit_code ts) = []" "ed_timestamp_ns (exit_draft run_id g exit_code ts) = Some ts"
  "ed_metadata (exit_draft run_id g exit_code ts) = Some [(''terminal_cause'', PStr ''engine_failure''), (''worker_generation'', PStr g),
     (''worker_exit_code'', opt_int exit_code)]"
  by (simp_all add: exit_draft_def Let_def)

definition exit_code_ok :: "int option \<Rightarrow> bool" where
  "exit_code_ok exit_code = (case exit_code of None \<Rightarrow> True | Some i \<Rightarrow> 0 \<le> i \<and> i \<le> UINT64_MAX)"

lemma exit_metadata_valid:
  "validate_metadata (Some [(''terminal_cause'', PStr ''engine_failure''), (''worker_generation'', PStr g),
     (''worker_exit_code'', opt_int exit_code)]) = None \<longleftrightarrow> short_text g \<and> exit_code_ok exit_code" (is "validate_metadata (Some ?m) = None \<longleftrightarrow> _")
proof -
  have keys: "list_all (\<lambda>k. metadata_key k \<and> k \<notin> set FORBIDDEN_METADATA_KEYS \<and> plain k)
      [''terminal_cause'', ''worker_generation'', ''worker_exit_code'']" by code_simp
  have cause: "short_text ''engine_failure''" by code_simp
  have exit_code: "check_metadata_item (''worker_exit_code'', opt_int exit_code) = None \<longleftrightarrow> exit_code_ok exit_code"
    using keys by (cases exit_code) (auto simp: check_metadata_item_def exit_code_ok_def accept_simps require_uint_def)
  have "length (json_dumps (PDict ?m)) \<le> MAX_METADATA_BYTES" if "short_text g" "exit_code_ok exit_code"
  proof -
    have "value_bound (opt_int exit_code) 20"
      using that(2) by (cases exit_code) (auto simp: exit_code_ok_def value_bound_def length_py_str_int)
    then show ?thesis using that(1) cause keys
      by (intro metadata_fits [where bs = "[258, 258, 20]"]) (simp_all add: bound_short MAX_METADATA_BYTES_def)
  qed
  then show ?thesis using keys cause by (auto simp: metadata_valid item_simps exit_code)
qed

lemma exit_draft_valid:
  "validate_event_draft (exit_draft run_id g exit_code ts) u ts mode = None \<longleftrightarrow>
    known_mode mode \<and> 0 \<le> ts \<and> ts \<le> UINT64_MAX \<and> short_text g \<and> exit_code_ok exit_code"
proof -
  let ?d = "exit_draft run_id g exit_code ts"
  have vocabulary: "''root_request'' \<in> set SCOPES" "''frontend'' \<in> set COMPONENTS" "''error'' \<in> set EVENT_NAMES"
    "map_of COMPONENT_BY_SCOPE_EVENT (''root_request'', ''error'') = Some ''frontend''"
    "\<not> prefix ''communication_'' ''error''" "\<not> prefix ''resource_'' ''error''" "''error'' \<notin> set CHUNK_EVENTS"
    "''error'' \<in> set ABNORMAL_TERMINALS" "map_of NATIVE_EVENT_KEYS ''error'' = None"
    by code_simp+
  have "validate_lifecycle_identity ?d = None" "validate_span_fields ?d u = None" "validate_handoff_and_chunk ?d = None"
    "validate_event_metadata ?d (metadata_of (ed_metadata ?d)) = None"
    using vocabulary hex_length [OF trace_of_hex [of run_id g]]
    by (simp_all add: exit_fields validate_lifecycle_identity_def validate_span_fields_def validate_handoff_and_chunk_def
        validate_event_metadata_def validate_resource_metadata_def validate_native_metadata_def validate_received_metadata_def
        validate_phase_metadata_def check_span_id_def Let_def accept_simps)
  then show ?thesis
    using vocabulary(1-5) trace_of_hex [of run_id g] exit_metadata_valid [of g exit_code]
    by (auto simp: validate_event_draft_def exit_fields is_communication_def known_mode_def require_hex32_def require_uint_def
        validate_optional_uint_def accept_simps)
qed

text \<open>
  C27. The exit of a worker is recorded exactly when its exit exit_code is absent or not negative. The
  boundary event the observer emits is accepted by the record builder if and only if worker name and
  pid give a printable text of at most 128 bytes and the exit exit_code is \<open>None\<close> or a uint64: a worker
  killed by a signal, whose exit exit_code is the negated signal number, leaves no boundary.
\<close>
theorem worker_exit_accepted:
  "(\<exists>r. build_event_record (exit_draft run_id (generation_of worker_name worker_pid) exit_code ts) u c n t mode = Inr r) \<longleftrightarrow>
    is_hex 32 u \<and> is_hex 32 c \<and> 0 \<le> n \<and> n \<le> UINT64_MAX \<and> known_mode mode \<and> 0 \<le> ts \<and> ts \<le> UINT64_MAX \<and>
    short_text (generation_of worker_name worker_pid) \<and> exit_code_ok exit_code"
proof -
  have "draft_timestamp (exit_draft run_id (generation_of worker_name worker_pid) exit_code ts) t = ts"
    by (simp add: draft_timestamp_def exit_fields)
  then show ?thesis
    by (auto simp: build_event_record_def Let_def accept_simps require_hex32_def require_uint_def exit_draft_valid)
qed

section \<open>What the observer keeps\<close>

text \<open>The requests started and not finished, and the abort attempts of a request, of a sequence of calls.\<close>

fun live_after :: "nat \<Rightarrow> observer_call \<Rightarrow> string set \<Rightarrow> string set" where
  "live_after capacity (Started now rid) live = insert rid live"
| "live_after capacity (Finish now rid cause n) live = (if cause \<in> set OBSERVED_TERMINAL_CAUSES then live - {rid} else live)"
| "live_after capacity (Failure (Some rs)) live = live - fst ` set (take capacity rs)"
| "live_after capacity _ live = live"

fun abort_of :: "observer_call \<Rightarrow> string option" where
  "abort_of (Abort rid) = Some rid"
| "abort_of _ = None"

definition aborts_in :: "observer_call list \<Rightarrow> string \<Rightarrow> nat" where
  "aborts_in cs rid = length (filter (\<lambda>c. abort_of c = Some rid) cs)"

definition actives_ok :: "observer_call list \<Rightarrow> observer \<Rightarrow> bool" where
  "actives_ok cs ob \<longleftrightarrow> distinct (ob_active ob) \<and> length (ob_active ob) \<le> ob_capacity ob \<and>
     set (ob_active ob) \<subseteq> fold (live_after (ob_capacity ob)) cs {}"

text \<open>An association list counts what a function says, up to the keys that found it full.\<close>

fun tally :: "bool \<Rightarrow> nat option \<Rightarrow> nat \<Rightarrow> bool" where
  "tally full None i = (i = 0 \<or> full)"
| "tally full (Some n) i = (0 < n \<and> n = i)"

definition tallies :: "nat \<Rightarrow> (string \<times> nat) list \<Rightarrow> (string \<Rightarrow> nat) \<Rightarrow> bool" where
  "tallies capacity m f \<longleftrightarrow> distinct (map fst m) \<and> length m \<le> capacity \<and>
     (\<forall>k. tally (length m = capacity) (map_of m k) (f k))"

lemma aborts_in_snoc: "aborts_in (cs @ [c]) rid = aborts_in cs rid + (if abort_of c = Some rid then 1 else 0)"
  by (simp add: aborts_in_def)

subsection \<open>What each call does to the observer's own state\<close>

lemma started_keeps:
  "fst (observe_started R now rid (ob, b, h)) = ob \<or>
   length (ob_active ob) < ob_capacity ob \<and>
   fst (observe_started R now rid (ob, b, h)) = ob\<lparr>ob_active := List.insert rid (ob_active ob)\<rparr>"
  by (auto simp: observe_started_def Let_def split: option.splits prod.splits sum.splits)

lemma started_resources: "ob_resources (fst (observe_started R now rid (ob, b, h))) = ob_resources ob"
  using started_keeps [of R now rid ob b h] by auto

lemma terminal_keeps:
  "fst (observe_terminal R now rid cause n (ob, b, h)) =
     (if cause \<in> set OBSERVED_TERMINAL_CAUSES then ob\<lparr>ob_active := remove1 rid (ob_active ob)\<rparr> else ob)"
  by (auto simp: observe_terminal_def Let_def split: prod.splits option.splits)

lemma failures_keep:
  "fst (observe_failures R rs (ob, b, h)) = ob\<lparr>ob_active := fold remove1 (map fst rs) (ob_active ob)\<rparr>"
proof (induction rs arbitrary: ob b h)
  case (Cons r rs)
  obtain rid now where r: "r = (rid, now)" by (cases r)
  obtain ob1 b1 h1 where st: "observe_terminal R now rid ''engine_failure'' 0 (ob, b, h) = (ob1, b1, h1)" by (metis prod_cases3)
  have "ob1 = ob\<lparr>ob_active := remove1 rid (ob_active ob)\<rparr>"
    using terminal_keeps [of R now rid "''engine_failure''" 0 ob b h] by (simp add: st OBSERVED_TERMINAL_CAUSES_def)
  then show ?case by (simp add: r st Cons.IH)
qed simp

lemma exit_keeps: "fst (worker_generation_exit R now w p c (ob, b, h)) = ob"
  by (simp add: worker_generation_exit_def split: option.splits)

lemma recorded_or_not:
  assumes "(let (emitted, h1) = rc_event R d h in (if emitted = None then ob else ob\<lparr>ob_resources := ob_resources ob @ [o']\<rparr>, b, h1)) = (ob', b', h')"
  shows "ob' = ob \<or> ob' = ob\<lparr>ob_resources := ob_resources ob @ [o']\<rparr> \<and> (\<exists>ref. rc_event R d h = (Some ref, h'))"
  using assms by (cases "rc_event R d h") (auto split: if_splits)

lemma resource_keeps:
  assumes "resource_transition R now rid t i x g u (ob, b, h) = (ob', b', h')"
  shows "ob' = ob \<or> length (ob_resources ob) < ob_capacity ob \<and>
    (\<exists>o' ref. ob' = ob\<lparr>ob_resources := ob_resources ob @ [o']\<rparr> \<and> rc_event R (resource_draft (ob_run_id ob) o') h = (Some ref, h'))"
proof (cases "ob' = ob")
  case False
  then obtain n t0 where n: "as_strict_int u = Some n" and t0: "now = Some t0" and room: "length (ob_resources ob) < ob_capacity ob"
    using assms by (auto simp: resource_transition_def split: if_splits option.splits)
  let ?o = "\<lparr>ro_runtime_request_id = rid, ro_resource_type = t, ro_resource_id = i, ro_transition = x,
    ro_worker_generation = g, ro_resource_units = n, ro_timestamp_ns = t0\<rparr>"
  from assms False have "(let (emitted, h1) = rc_event R (resource_draft (ob_run_id ob) ?o) h
      in (if emitted = None then ob else ob\<lparr>ob_resources := ob_resources ob @ [?o]\<rparr>, b, h1)) = (ob', b', h')"
    unfolding resource_transition_def Let_def n t0 option.sel by (simp split: if_splits)
  with recorded_or_not [of R "resource_draft (ob_run_id ob) ?o" h ob ?o b ob' b' h'] False room show ?thesis by blast
qed simp

lemma abort_keeps:
  "fst (abort_attempt rid (ob, b, h)) = (case map_of (ob_aborts ob) rid of
     Some n \<Rightarrow> ob\<lparr>ob_aborts := AList.update rid (n + 1) (ob_aborts ob)\<rparr>
   | None \<Rightarrow> if length (ob_aborts ob) < ob_capacity ob then ob\<lparr>ob_aborts := AList.update rid 1 (ob_aborts ob)\<rparr> else ob)"
  by (simp add: abort_attempt_def)

lemma remove_all:
  "distinct xs \<Longrightarrow> distinct (fold remove1 rs xs)"
  "distinct xs \<Longrightarrow> set (fold remove1 rs xs) = set xs - set rs"
  "length (fold remove1 rs xs) \<le> length xs"
proof (induction rs arbitrary: xs)
  case (Cons r rs)
  { case 2 then show ?case by (simp add: Cons.IH(2)) blast }
  { case 3 show ?case using Cons.IH(3) [of "remove1 r xs"] length_remove1 [of r xs] by (simp split: if_splits) }
qed simp_all

lemma failure_keeps:
  "fst (engine_failure R rs (ob, b, h)) = ob\<lparr>ob_active := fold remove1
     (case rs of None \<Rightarrow> [] | Some l \<Rightarrow> map fst (take (ob_capacity ob) l)) (ob_active ob)\<rparr>"
  by (cases rs) (simp_all add: engine_failure_def failures_keep)

lemma observe_keeps:
  "ob_capacity (fst (observe R c (ob, b, h))) = ob_capacity ob" (is ?capacity)
  "ob_run_id (fst (observe R c (ob, b, h))) = ob_run_id ob" (is ?run)
  "abort_of c = None \<Longrightarrow> ob_aborts (fst (observe R c (ob, b, h))) = ob_aborts ob" (is "_ \<Longrightarrow> ?aborts")
proof -
  have "?capacity \<and> ?run \<and> (abort_of c = None \<longrightarrow> ?aborts)"
  proof (cases c)
    case (Started now rid)
    then show ?thesis using started_keeps [of R now rid ob b h] by auto
  next
    case (Resource now rid t i x g u)
    obtain ob' b' h' where st: "resource_transition R now rid t i x g u (ob, b, h) = (ob', b', h')" by (metis prod_cases3)
    then show ?thesis using resource_keeps [OF st] by (auto simp: Resource)
  qed (auto simp: abort_keeps terminal_keeps failure_keeps exit_keeps split: option.split)
  then show ?capacity ?run "abort_of c = None \<Longrightarrow> ?aborts" by blast+
qed

subsection \<open>The invariant\<close>

lemma observe_actives:
  assumes "actives_ok cs ob"
  shows "actives_ok (cs @ [c]) (fst (observe R c (ob, b, h)))"
proof (cases c)
  case (Started now rid)
  with assms started_keeps [of R now rid ob b h] show ?thesis
    by (auto simp: actives_ok_def List.insert_def split: if_splits)
next
  case (Failure rs)
  then show ?thesis
    using assms by (cases rs) (auto simp: actives_ok_def failure_keeps remove_all(1,2) intro: order_trans [OF remove_all(3)])
next
  case (Abort rid)
  with assms show ?thesis by (auto simp: actives_ok_def abort_keeps split: option.splits)
next
  case (Resource now rid t i x g u)
  obtain ob' b' h' where st: "resource_transition R now rid t i x g u (ob, b, h) = (ob', b', h')" by (metis prod_cases3)
  with assms resource_keeps [OF st] show ?thesis by (auto simp: Resource actives_ok_def)
qed (use assms in \<open>auto simp: actives_ok_def terminal_keeps exit_keeps length_remove1\<close>)

lemma length_updated:
  "length (AList.update k v m) = (if k \<in> fst ` set m then length m else length m + 1)"
proof -
  have "length (AList.update k v m) = length (map fst (AList.update k v m))" by (simp only: length_map)
  then show ?thesis by (simp add: update_keys del: length_map) auto
qed

lemma tallies_full: "tallies c m f \<Longrightarrow> map_of m k = None \<Longrightarrow> length m = c \<Longrightarrow> tallies c m (f(k := n))"
  by (simp add: tallies_def)

lemma tally_room: "tally full v i \<Longrightarrow> \<not> full \<Longrightarrow> tally b v i"
  by (cases v) simp_all

lemma tallies_new:
  assumes "tallies c m f" "map_of m k = None" "length m < c"
  shows "tallies c (AList.update k 1 m) (f(k := f k + 1))"
proof -
  have entry: "tally b (map_of m r) (f r)" for r b
    using assms(1,3) by (auto simp: tallies_def intro: tally_room)
  have "length (AList.update k 1 m) = length m + 1"
    using assms(2) by (simp add: length_updated map_of_eq_None_iff)
  moreover have "f k = 0" using entry [of False k] by (simp add: assms(2))
  ultimately show ?thesis
    using assms(1,3) entry by (simp add: tallies_def update_conv' distinct_update)
qed

lemma tallies_old:
  assumes "tallies c m f" "map_of m k = Some n"
  shows "tallies c (AList.update k (n + 1) m) (f(k := f k + 1))"
proof -
  have entry: "tally (length m = c) (map_of m r) (f r)" for r using assms(1) by (simp add: tallies_def)
  then have "n = f k" using entry [of k] unfolding assms(2) by simp
  moreover have "length (AList.update k (n + 1) m) = length m"
    using map_of_SomeD [OF assms(2)] by (force simp: length_updated)
  ultimately show ?thesis
    using assms(1) entry by (simp add: tallies_def update_conv' distinct_update)
qed

lemma observe_aborts:
  assumes "tallies (ob_capacity ob) (ob_aborts ob) (aborts_in cs)"
  shows "tallies (ob_capacity ob) (ob_aborts (fst (observe R c (ob, b, h)))) (aborts_in (cs @ [c]))"
proof (cases "\<exists>rid. c = Abort rid")
  case True
  then obtain rid where c: "c = Abort rid" by blast
  then have "aborts_in (cs @ [c]) = (aborts_in cs)(rid := aborts_in cs rid + 1)" by (auto simp: aborts_in_snoc)
  moreover have "\<not> length (ob_aborts ob) < ob_capacity ob \<Longrightarrow> length (ob_aborts ob) = ob_capacity ob"
    using assms by (simp add: tallies_def)
  ultimately show ?thesis
    using assms by (auto simp: c abort_keeps split: option.split simp del: One_nat_def map_of_eq_Some_iff
        intro: tallies_new tallies_full tallies_old [simplified])
next
  case False
  then have "abort_of c = None" by (cases c) auto
  then show ?thesis using assms by (simp add: observe_keeps aborts_in_snoc cong: option.case_cong) (simp add: tallies_def aborts_in_snoc)
qed

text \<open>Every resource observation kept is in the trace, as the event drafted for it.\<close>

definition resources_ok :: "observer \<Rightarrow> trace_entry list \<Rightarrow> bool" where
  "resources_ok ob tr \<longleftrightarrow> length (ob_resources ob) \<le> ob_capacity ob \<and>
     (\<forall>o' \<in> set (ob_resources ob). \<exists>i. T_event (resource_draft (ob_run_id ob) o') i \<in> set tr)"

definition grows :: "'h \<times> trace_entry list \<Rightarrow> 'h \<times> trace_entry list \<Rightarrow> bool" where
  "grows g g' \<longleftrightarrow> set (snd g) \<subseteq> set (snd g')"

interpretation growing: recorder_frame "traced_recorder R" grows
proof unfold_locales
  fix h :: "'a \<times> trace_entry list" and d :: event_draft
  show "grows h (snd (rc_event (traced_recorder R) d h))"
    by (cases h) (auto simp: grows_def traced_recorder_def split: prod.splits option.splits)
qed (auto simp: grows_def traced_recorder_def split: prod.splits option.splits)

lemma terminal_grows: "grows h (snd (snd (observe_terminal (traced_recorder R) now rid cause n (ob, b, h))))"
proof (cases now)
  case (Some t)
  with growing.terminal_ext [of h R rid cause t n b] growing.ext_refl [of h] show ?thesis
    by (simp add: observe_terminal_def split_beta)
qed (simp add: observe_terminal_def growing.ext_refl)

lemma failures_grow: "grows h (snd (snd (observe_failures (traced_recorder R) rs (ob, b, h))))"
proof (induction rs arbitrary: ob b h)
  case (Cons r rs)
  obtain rid now where r: "r = (rid, now)" by (cases r)
  obtain ob1 b1 h1 where st: "observe_terminal (traced_recorder R) now rid ''engine_failure'' 0 (ob, b, h) = (ob1, b1, h1)"
    by (metis prod_cases3)
  then have "grows h h1" using terminal_grows [of h R now rid "''engine_failure''" 0 ob b] by simp
  then show ?case using growing.ext_trans [OF _ Cons.IH [of h1 ob1 b1]] by (simp add: r st)
qed (simp add: growing.ext_refl)

lemma observe_grows: "grows h (snd (snd (observe (traced_recorder R) c (ob, b, h))))"
proof (cases c)
  case (Started now rid)
  show ?thesis
  proof (cases now)
    case (Some t)
    with growing.register_ext [of h R "ob_run_id ob" rid t b] show ?thesis by (simp add: Started observe_started_def split_beta)
  qed (simp add: Started observe_started_def growing.ext_refl)
next
  case (Failure rs)
  then show ?thesis by (cases rs) (simp_all add: engine_failure_def failures_grow growing.ext_refl)
next
  case (Worker_exit now w p e)
  then show ?thesis
    by (cases now) (simp_all add: worker_generation_exit_def growing.ext_refl growing.ext_event)
next
  case (Resource now rid t i x g u)
  then show ?thesis
    by (simp add: resource_transition_def Let_def split_beta growing.ext_refl growing.ext_event split: option.split)
qed (simp_all add: abort_attempt_def growing.ext_refl terminal_grows)

lemma observe_resources:
  assumes "resources_ok ob (snd h)"
  shows "(case observe (traced_recorder R) c (ob, b, h) of (ob', b', h') \<Rightarrow> resources_ok ob' (snd h'))"
proof -
  obtain ob' b' h' where st: "observe (traced_recorder R) c (ob, b, h) = (ob', b', h')" by (metis prod_cases3)
  have g: "set (snd h) \<subseteq> set (snd h')" using observe_grows [of h R c ob b] by (simp add: st grows_def)
  show ?thesis
  proof (cases "ob_resources ob' = ob_resources ob")
    case True
    with assms g observe_keeps [where R = "traced_recorder R" and c = c and ob = ob and b = b and h = h] show ?thesis
      unfolding st by (simp add: resources_ok_def st) blast
  next
    case False
    have "fst (observe (traced_recorder R) c (ob, b, h)) = ob'" by (simp add: st)
    with False obtain now rid t i x gn u where c: "c = Resource now rid t i x gn u"
      using started_resources [where R = "traced_recorder R" and ob = ob and b = b and h = h]
      by (cases c) (auto simp: abort_keeps terminal_keeps failure_keeps exit_keeps split: option.splits if_splits)
    with st resource_keeps [of "traced_recorder R" now rid t i x gn u ob b h ob' b' h'] False
    obtain o' ref where "length (ob_resources ob) < ob_capacity ob" and ob': "ob' = ob\<lparr>ob_resources := ob_resources ob @ [o']\<rparr>"
      and "rc_event (traced_recorder R) (resource_draft (ob_run_id ob) o') h = (Some ref, h')" by auto
    then have "length (ob_resources ob') \<le> ob_capacity ob" "\<exists>i. T_event (resource_draft (ob_run_id ob) o') i \<in> set (snd h')"
      by (auto simp: traced_recorder_def split: prod.splits)
    with assms g show ?thesis unfolding st by (auto simp: resources_ok_def ob')
  qed
qed

definition observer_ok :: "nat \<Rightarrow> string \<Rightarrow> observer_call list \<Rightarrow> observer \<Rightarrow> trace_entry list \<Rightarrow> bool" where
  "observer_ok capacity run_id cs ob tr \<longleftrightarrow> ob_capacity ob = capacity \<and> ob_run_id ob = run_id \<and> actives_ok cs ob \<and>
     tallies capacity (ob_aborts ob) (aborts_in cs) \<and> resources_ok ob tr"

lemma observer_invariant:
  "(case observe_all (traced_recorder R) cs (make_observer run_id capacity, b, h, []) of (ob, b', h') \<Rightarrow>
     observer_ok capacity run_id cs ob (snd h'))"
proof (induction cs rule: rev_induct)
  case Nil
  have "tallies capacity [] (aborts_in [])" by (simp add: tallies_def aborts_in_def)
  then show ?case by (simp add: observe_all_def observer_ok_def make_observer_def actives_ok_def resources_ok_def)
next
  case (snoc c cs)
  obtain ob b1 h1 where before: "observe_all (traced_recorder R) cs (make_observer run_id capacity, b, h, []) = (ob, b1, h1)"
    by (metis prod_cases3)
  obtain ob' b2 h2 where step: "observe (traced_recorder R) c (ob, b1, h1) = (ob', b2, h2)" by (metis prod_cases3)
  from snoc have ok: "observer_ok capacity run_id cs ob (snd h1)" by (simp add: before)
  then show ?case
    using observe_keeps [where R = "traced_recorder R" and c = c and ob = ob and b = b1 and h = h1]
      observe_actives [of cs ob c "traced_recorder R" b1 h1] observe_aborts [of ob cs "traced_recorder R" c b1 h1]
      observe_resources [of ob h1 R c b1]
    by (simp add: observer_ok_def observe_all_def before [unfolded observe_all_def] step)
qed

text \<open>
  C19. What the observer keeps is bounded and true. After any sequence of calls over any recorder, the
  active requests are a duplicate-free list of at most \<open>capacity\<close> requests that were started and
  neither finished nor failed since; every request has the number of its abort attempts, except the
  ones first seen when the table was full; and there are at most \<open>capacity\<close> resource observations,
  each of them recorded in the trace by the very event drafted for it.
\<close>
theorem observer_state_is_true:
  "(case observe_all (traced_recorder R) cs (make_observer run_id capacity, b, h, []) of (ob, b', h', tr) \<Rightarrow>
     distinct (ob_active ob) \<and> length (ob_active ob) \<le> capacity \<and>
     set (ob_active ob) \<subseteq> fold (live_after capacity) cs {} \<and>
     tallies capacity (ob_aborts ob) (aborts_in cs) \<and>
     length (ob_resources ob) \<le> capacity \<and>
     list_all (\<lambda>o'. \<exists>i. T_event (resource_draft run_id o') i \<in> set tr) (ob_resources ob))"
  using observer_invariant [where R = R and cs = cs and run_id = run_id and capacity = capacity and b = b and h = h]
  by (auto simp: observer_ok_def actives_ok_def resources_ok_def list_all_iff split: prod.splits)

definition observed_finish :: native_event where
  "observed_finish = Request_finished
     \<lparr>hv_request_id = PStr ''r1'', hv_session_id = PNone, hv_kv_blocks = PInt 3, hv_ts_monotonic_ns = 5\<rparr>
     (PInt 2) (PInt 4) (PInt 6) (PBool False) (PStr ''stop'')"

lemma native_event_accepted_witness:
  "\<exists>name rid d. translate ''run'' observed_finish = Some (name, rid, d) \<and>
    (\<exists>r. build_event_record d (replicate 32 CHR ''a'') (replicate 32 CHR ''b'') 1 7 ''none'' = Inr r)"
proof -
  obtain name rid d where t: "translate ''run'' observed_finish = Some (name, rid, d)"
    by (simp add: translate_def observed_finish_def)
  moreover have "ed_timestamp_ns d = Some 5" "rid = ''r1''"
    using t by (auto simp: translate_def observed_finish_def observed_draft_def)
  moreover have "native_ok observed_finish" "short_text ''r1''" "is_hex 32 (replicate 32 CHR ''a'')" "is_hex 32 (replicate 32 CHR ''b'')"
    "known_mode ''none''" by code_simp+
  ultimately show ?thesis using native_event_accepted [OF t] by (simp add: UINT64_MAX_def) 
qed

end
