(* ===== verification/Python_Float.thy ===== *)
theory Python_Float
  imports Complex_Main Profiler_Prelude "HOL-Library.Log_Nat"
begin

text \<open>
  Python's floats, as IEEE 754 binary64: a finite value is a rational, and an arithmetic operation
  is the exact one followed by rounding to nearest, ties to even, with 53 significant bits, least
  exponent -1074, and overflow to infinity. The sign of zero is left out: no comparison sees it and
  nothing in the code divides by zero. A decimal literal is the rounding of its value, an \<open>int\<close>
  compares with a \<open>float\<close> exactly, and \<open>sum\<close> adds from left to right, as in the Pythons the repository
  is tested with (3.10 and 3.11; later ones compensate).
\<close>

section \<open>Rounding\<close>

text \<open>The exponent of a positive rational: the greatest power of two that does not exceed it.\<close>

definition exponent :: "rat \<Rightarrow> int" where
  "exponent x = (let (a, b) = quotient_of x; k = bitlen a - bitlen b
     in if 2 powi k \<le> x then k else k - 1)"

definition least_digit :: "rat \<Rightarrow> rat" where
  "least_digit x = 2 powi (max (- 1074) (exponent x - 52))"

text \<open>Round to the nearest integer, a tie to the even one.\<close>

definition half_even :: "rat \<Rightarrow> int" where
  "half_even x = (let f = \<lfloor>x\<rfloor>; r = x - of_int f
     in if r < 1 / 2 \<or> r = 1 / 2 \<and> even f then f else f + 1)"

definition round_pos :: "rat \<Rightarrow> rat" where
  "round_pos x = of_int (half_even (x / least_digit x)) * least_digit x"

definition rnd :: "rat \<Rightarrow> rat" where
  "rnd x = (if x = 0 then 0 else if 0 < x then round_pos x else - round_pos (- x))"

section \<open>Values and operations\<close>

datatype pyfloat = Fin rat | Inf bool | NaN

definition too_large :: "rat \<Rightarrow> bool" where
  "too_large x \<longleftrightarrow> 2 ^ 1024 \<le> \<bar>x\<bar>"

text \<open>The float nearest to a rational; \<open>Inf True\<close> is minus infinity.\<close>

definition nearest :: "rat \<Rightarrow> pyfloat" where
  "nearest x = (let y = rnd x in if too_large y then Inf (x < 0) else Fin y)"

fun fneg :: "pyfloat \<Rightarrow> pyfloat" where
  "fneg (Fin x) = Fin (- x)"
| "fneg (Inf s) = Inf (\<not> s)"
| "fneg NaN = NaN"

fun fabs :: "pyfloat \<Rightarrow> pyfloat" where
  "fabs (Fin x) = Fin \<bar>x\<bar>"
| "fabs (Inf s) = Inf False"
| "fabs NaN = NaN"

fun fadd :: "pyfloat \<Rightarrow> pyfloat \<Rightarrow> pyfloat" where
  "fadd (Fin x) (Fin y) = nearest (x + y)"
| "fadd (Inf s) (Inf t) = (if s = t then Inf s else NaN)"
| "fadd (Inf s) (Fin y) = Inf s"
| "fadd (Fin x) (Inf t) = Inf t"
| "fadd NaN y = NaN"
| "fadd x NaN = NaN"

definition fsub :: "pyfloat \<Rightarrow> pyfloat \<Rightarrow> pyfloat" where
  "fsub x y = fadd x (fneg y)"

fun fmul :: "pyfloat \<Rightarrow> pyfloat \<Rightarrow> pyfloat" where
  "fmul (Fin x) (Fin y) = nearest (x * y)"
| "fmul (Inf s) (Inf t) = Inf (s \<noteq> t)"
| "fmul (Inf s) (Fin y) = (if y = 0 then NaN else Inf (s \<noteq> (y < 0)))"
| "fmul (Fin x) (Inf t) = (if x = 0 then NaN else Inf ((x < 0) \<noteq> t))"
| "fmul NaN y = NaN"
| "fmul x NaN = NaN"

text \<open>Division by a divisor that is not zero.\<close>

fun fdiv :: "pyfloat \<Rightarrow> pyfloat \<Rightarrow> pyfloat" where
  "fdiv (Fin x) (Fin y) = nearest (x / y)"
| "fdiv (Inf s) (Inf t) = NaN"
| "fdiv (Inf s) (Fin y) = Inf (s \<noteq> (y < 0))"
| "fdiv (Fin x) (Inf t) = Fin 0"
| "fdiv NaN y = NaN"
| "fdiv x NaN = NaN"

text \<open>Comparisons; an integer compares as the finite value it is, rounded or not.\<close>

fun fless :: "pyfloat \<Rightarrow> pyfloat \<Rightarrow> bool" where
  "fless (Fin x) (Fin y) = (x < y)"
| "fless (Inf s) (Inf t) = (s \<and> \<not> t)"
| "fless (Inf s) (Fin y) = s"
| "fless (Fin x) (Inf t) = (\<not> t)"
| "fless NaN y = False"
| "fless x NaN = False"

fun feq :: "pyfloat \<Rightarrow> pyfloat \<Rightarrow> bool" where
  "feq NaN y = False"
| "feq x y = (x = y)"

definition fle :: "pyfloat \<Rightarrow> pyfloat \<Rightarrow> bool" where
  "fle x y \<longleftrightarrow> fless x y \<or> feq x y"

fun is_finite :: "pyfloat \<Rightarrow> bool" where
  "is_finite (Fin x) = True"
| "is_finite _ = False"

text \<open>\<open>max(0.0, x)\<close>: the first argument stays unless the second is greater.\<close>

definition fmax :: "pyfloat \<Rightarrow> pyfloat \<Rightarrow> pyfloat" where
  "fmax x y = (if fless x y then y else x)"

definition fmin :: "pyfloat \<Rightarrow> pyfloat \<Rightarrow> pyfloat" where
  "fmin x y = (if fless y x then y else x)"

definition fsum :: "pyfloat list \<Rightarrow> pyfloat" where
  "fsum xs = foldl fadd (Fin 0) xs"

text \<open>\<open>float(i)\<close> and \<open>i / j\<close> of integers round once; both raise when the result is too large.\<close>

definition float_of_rat :: "rat \<Rightarrow> pyfloat res" where
  "float_of_rat x = (if too_large (rnd x) then Inl (OverflowError ''int too large to convert to float'') else Inr (Fin (rnd x)))"

definition lit :: "rat \<Rightarrow> pyfloat" where
  "lit x = Fin (rnd x)"

text \<open>\<open>round(x, 9)\<close>: the nearest multiple of the ninth decimal place, then the float nearest to that.\<close>

fun fround9 :: "pyfloat \<Rightarrow> pyfloat" where
  "fround9 (Fin x) = nearest (of_int (half_even (x * 10 ^ 9)) / 10 ^ 9)"
| "fround9 x = x"

text \<open>\<open>math.isclose(a, b, abs_tol=1e-9)\<close>, with its default relative tolerance of 1e-9.\<close>

definition tolerance :: pyfloat where "tolerance = lit (1 / 10 ^ 9)"

text \<open>\<open>x > y + 1e-9\<close>\<close>

definition exceeds :: "pyfloat \<Rightarrow> pyfloat \<Rightarrow> bool" where
  "exceeds x y \<longleftrightarrow> fless (fadd y tolerance) x"

definition fclose :: "pyfloat \<Rightarrow> pyfloat \<Rightarrow> bool" where
  "fclose a b = (if feq a b then True
     else if \<not> is_finite a \<or> \<not> is_finite b then False
     else (let diff = fabs (fsub b a)
       in fle diff (fabs (fmul tolerance b)) \<or> fle diff (fabs (fmul tolerance a)) \<or> fle diff tolerance))"

text \<open>
  \<open>sorted\<close>: a stable insertion of each item after those it is not less than. On values without \<open>NaN\<close>
  this is what any stable sort gives.
\<close>

fun insert_by :: "('a \<Rightarrow> 'a \<Rightarrow> bool) \<Rightarrow> 'a \<Rightarrow> 'a list \<Rightarrow> 'a list" where
  "insert_by lt x [] = [x]"
| "insert_by lt x (y # ys) = (if lt y x then y # insert_by lt x ys else x # y # ys)"

definition sorted_by :: "('a \<Rightarrow> 'a \<Rightarrow> bool) \<Rightarrow> 'a list \<Rightarrow> 'a list" where
  "sorted_by lt xs = foldr (insert_by lt) xs []"

text \<open>\<open>statistics.median\<close>: the middle value, or half the sum of the two middle ones.\<close>

definition fmedian :: "pyfloat list \<Rightarrow> pyfloat" where
  "fmedian xs = (let ys = sorted_by fless xs; n = length xs; i = n div 2
     in if odd n then ys ! i else fdiv (fadd (ys ! (i - 1)) (ys ! i)) (Fin 2))"

section \<open>Rounding is monotone and stays where it has been\<close>

lemma two_powi [simp]: "0 < (2 :: rat) powi n" "(2 :: rat) powi n \<noteq> 0"
  by simp_all

lemma exponent_bounds:
  assumes "0 < x"
  shows "2 powi exponent x \<le> x" "x < 2 powi (exponent x + 1)"
proof -
  obtain a b where q: "quotient_of x = (a, b)" by (cases "quotient_of x")
  have b: "0 < b" and x: "x = of_int a / of_int b"
    using quotient_of_denom_pos [OF q] quotient_of_div [OF q] by simp_all
  have a: "0 < a" using assms b x by (simp add: zero_less_divide_iff)
  have pow: "(2 :: rat) powi (bitlen n - 1) \<le> of_int n \<and> of_int n < (2 :: rat) powi bitlen n" if "0 < n" for n
  proof -
    have "1 \<le> bitlen n" using that by (metis bitlen_eq_zero_iff bitlen_nonneg int_one_le_iff_zero_less less_le not_le)
    then have "(2 :: rat) powi (bitlen n - 1) = of_int (2 ^ nat (bitlen n - 1))" "(2 :: rat) powi bitlen n = of_int (2 ^ nat (bitlen n))"
      by (simp_all add: power_int_def)
    then show ?thesis using bitlen_bounds [OF that] by (simp only: of_int_le_iff of_int_less_iff)
  qed
  let ?k = "bitlen a - bitlen b"
  have "x < 2 powi bitlen a / 2 powi (bitlen b - 1)"
    unfolding x using pow [OF a] pow [OF b] b by (intro frac_less) (simp_all add: a less_imp_le)
  then have upper: "x < 2 powi (?k + 1)" by (simp add: power_int_diff [symmetric] algebra_simps)
  have "2 powi (bitlen a - 1) / 2 powi bitlen b \<le> x"
    unfolding x using pow [OF a] pow [OF b] b by (intro frac_le) (simp_all add: a less_imp_le)
  then have lower: "2 powi (?k - 1) \<le> x" by (simp add: power_int_diff [symmetric] algebra_simps)
  from upper lower show "2 powi exponent x \<le> x" "x < 2 powi (exponent x + 1)"
    by (auto simp: exponent_def q Let_def)
qed

lemma exponent_mono: "0 < x \<Longrightarrow> x \<le> y \<Longrightarrow> exponent x \<le> exponent y"
proof (rule ccontr)
  assume "0 < x" "x \<le> y" "\<not> exponent x \<le> exponent y"
  then have "(2 :: rat) powi (exponent y + 1) \<le> 2 powi exponent x" by (intro power_int_increasing) auto
  with exponent_bounds [of x] exponent_bounds [of y] \<open>0 < x\<close> \<open>x \<le> y\<close> show False by simp
qed

lemma least_digit_pos [simp]: "0 < least_digit x" "least_digit x \<noteq> 0"
  by (simp_all add: least_digit_def)

lemma half_even_mono: "x \<le> y \<Longrightarrow> half_even x \<le> half_even y"
proof -
  assume "x \<le> y"
  then have f: "\<lfloor>x\<rfloor> \<le> \<lfloor>y\<rfloor>" by (rule floor_mono)
  show ?thesis
  proof (cases "\<lfloor>x\<rfloor> = \<lfloor>y\<rfloor>")
    case True
    with \<open>x \<le> y\<close> show ?thesis by (auto simp: half_even_def Let_def)
  next
    case False
    with f show ?thesis by (auto simp: half_even_def Let_def)
  qed
qed

lemma half_even_int [simp]: "half_even (of_int i) = i"
  by (simp add: half_even_def)

text \<open>A multiple of the least digit is rounded to itself.\<close>

lemma round_multiple: "x / least_digit x = of_int i \<Longrightarrow> round_pos x = x"
  unfolding round_pos_def by (metis half_even_int least_digit_pos(2) nonzero_divide_eq_eq)

lemma powi_multiple:
  assumes "m \<le> n"
  shows "\<exists>i. (2 :: rat) powi n = of_int i * 2 powi m"
proof -
  have "(2 :: rat) powi n = 2 powi (n - m) * 2 powi m" by (simp add: power_int_add [symmetric])
  moreover have "(2 :: rat) powi (n - m) = of_int (2 ^ nat (n - m))" using assms by (simp add: power_int_def)
  ultimately show ?thesis by metis
qed

lemma round_pos_bound:
  assumes "0 < x" "x \<le> of_int i * least_digit x"
  shows "round_pos x \<le> of_int i * least_digit x"
proof -
  have "x / least_digit x \<le> of_int i" using assms(2) by (simp add: field_simps)
  from half_even_mono [OF this] show ?thesis by (simp add: round_pos_def)
qed

lemma round_pos_lower:
  assumes "of_int i * least_digit x \<le> x"
  shows "of_int i * least_digit x \<le> round_pos x"
proof -
  have "of_int i \<le> x / least_digit x" using assms by (simp add: field_simps)
  from half_even_mono [OF this] show ?thesis by (simp add: round_pos_def)
qed

lemma round_pos_nonneg: "0 < x \<Longrightarrow> 0 \<le> round_pos x"
  using round_pos_lower [of 0 x] by simp

lemma round_pos_mono:
  assumes "0 < x" "x \<le> y"
  shows "round_pos x \<le> round_pos y"
proof (cases "least_digit x = least_digit y")
  case True
  have "x / least_digit y \<le> y / least_digit y" using assms(2) by (simp add: field_simps)
  from half_even_mono [OF this] show ?thesis by (simp add: round_pos_def True)
next
  case False
  have e: "exponent x \<le> exponent y" using assms by (rule exponent_mono)
  let ?p = "\<lambda>x. max (- 1074) (exponent x - 52)"
  from False have "?p x \<noteq> ?p y" unfolding least_digit_def by metis
  with e have less: "exponent x < exponent y" "?p x \<le> exponent y" "?p y \<le> exponent y" by (auto simp: max_def split: if_splits)
  obtain i j where i: "(2 :: rat) powi exponent y = of_int i * least_digit x" and j: "(2 :: rat) powi exponent y = of_int j * least_digit y"
    using powi_multiple [OF less(2)] powi_multiple [OF less(3)] unfolding least_digit_def by blast
  have "x \<le> 2 powi (exponent x + 1)" using exponent_bounds(2) [OF assms(1)] by simp
  also have "\<dots> \<le> 2 powi exponent y" using less(1) by (intro power_int_increasing) auto
  finally have "round_pos x \<le> 2 powi exponent y" using round_pos_bound [OF assms(1)] i by metis
  also have "\<dots> \<le> round_pos y"
    using round_pos_lower [of j y] exponent_bounds(1) [of y] assms j by simp
  finally show ?thesis .
qed

lemma round_pos_idem:
  assumes "0 < x"
  shows "rnd (round_pos x) = round_pos x"
proof (cases "round_pos x = 0")
  case False
  let ?y = "round_pos x" and ?p = "\<lambda>x. max (- 1074) (exponent x - 52)"
  have y: "0 < ?y" using round_pos_nonneg [OF assms] False by simp
  have "?p x \<le> exponent x + 1 \<or> exponent x < - 1075" by auto
  have "\<exists>i. ?y = of_int i * least_digit ?y"
  proof (cases "exponent ?y \<le> exponent x")
    case True
    then have "?p ?y \<le> ?p x" by auto
    from powi_multiple [OF this] obtain i where "least_digit x = of_int i * least_digit ?y" unfolding least_digit_def by blast
    then have "?y = of_int (half_even (x / least_digit x) * i) * least_digit ?y" by (simp add: round_pos_def)
    then show ?thesis by blast
  next
    case False
    show ?thesis
    proof (cases "- 1074 \<le> exponent x + 1")
      case True
      then have "?p x \<le> exponent x + 1" by simp
      from powi_multiple [OF this] obtain i where "(2 :: rat) powi (exponent x + 1) = of_int i * least_digit x"
        unfolding least_digit_def by blast
      with round_pos_bound [OF assms, of i] exponent_bounds(2) [OF assms] have "?y \<le> 2 powi (exponent x + 1)" by simp
      moreover have "(2 :: rat) powi (exponent x + 1) \<le> 2 powi exponent ?y" using False by (intro power_int_increasing) auto
      ultimately have "?y = 2 powi exponent ?y" using exponent_bounds(1) [OF y] by simp
      moreover have "?p ?y \<le> exponent ?y" using True False by simp
      from powi_multiple [OF this] obtain i where "(2 :: rat) powi exponent ?y = of_int i * least_digit ?y"
        unfolding least_digit_def by blast
      ultimately show ?thesis by metis
    next
      case tiny: False
      then have p: "least_digit x = 2 powi (- 1074)" by (simp add: least_digit_def)
      have "x < 2 powi (exponent x + 1)" using exponent_bounds(2) [OF assms] .
      also have "\<dots> \<le> 2 powi (- 1074)" using tiny by (intro power_int_increasing) auto
      finally have "?y \<le> 2 powi (- 1074)" using round_pos_bound [OF assms, of 1] p by simp
      then have "exponent ?y \<le> - 1074"
        using power_int_strict_increasing [of "- 1074" "exponent ?y" "2 :: rat"] order_trans [OF exponent_bounds(1) [OF y]]
        by (metis leD not_le one_less_numeral_iff semiring_norm(76))
      then have "least_digit ?y = 2 powi (- 1074)" by (simp add: least_digit_def)
      then show ?thesis using p by (metis round_pos_def)
    qed
  qed
  then have "\<exists>i. ?y / least_digit ?y = of_int i" by (metis least_digit_pos(2) nonzero_mult_div_cancel_right)
  then have "round_pos ?y = ?y" by (metis round_multiple)
  with y show ?thesis by (simp add: rnd_def)
qed (simp add: rnd_def)

lemma rnd_neg [simp]: "rnd (- x) = - rnd x"
  by (simp add: rnd_def)

lemma rnd_zero [simp]: "rnd 0 = 0"
  by (simp add: rnd_def)

lemma rnd_nonneg: "0 \<le> x \<Longrightarrow> 0 \<le> rnd x"
  by (simp add: rnd_def round_pos_nonneg)

lemma rnd_idem [simp]: "rnd (rnd x) = rnd x"
proof (cases "0 \<le> x")
  case True
  then show ?thesis using round_pos_idem [of x] by (cases "x = 0") (simp_all add: rnd_def [of x])
next
  case False
  then show ?thesis using round_pos_idem [of "- x"] by (simp add: rnd_def [of x])
qed

lemma rnd_mono: "x \<le> y \<Longrightarrow> rnd x \<le> rnd y"
proof -
  have pos: "rnd x \<le> rnd y" if "0 \<le> x" "x \<le> y" for x y
    using that rnd_nonneg [of y] by (cases "x = 0") (auto simp: rnd_def intro: round_pos_mono)
  assume "x \<le> y"
  consider "0 \<le> x" | "y \<le> 0" | "x < 0" "0 < y" by linarith
  then show ?thesis
  proof cases
    case 2
    then show ?thesis using pos [of "- y" "- x"] \<open>x \<le> y\<close> by simp
  next
    case 3
    then show ?thesis using rnd_nonneg [of y] rnd_nonneg [of "- x"] by simp
  qed (use pos \<open>x \<le> y\<close> in blast)
qed

section \<open>Evaluation\<close>

text \<open>Integers of 53 bits are floats; nothing below them is too large.\<close>

lemma exponent_le_52:
  assumes "0 < x" "x < 9007199254740992"
  shows "exponent x \<le> 52"
proof (rule ccontr)
  assume "\<not> exponent x \<le> 52"
  then have "(2 :: rat) powi 53 \<le> 2 powi exponent x" by (intro power_int_increasing) auto
  with exponent_bounds(1) [OF assms(1)] assms(2) show False by (simp add: power_int_def)
qed

lemma rnd_int:
  assumes "\<bar>i\<bar> < 9007199254740992"
  shows "rnd (of_int i) = of_int i"
proof -
  have pos: "round_pos (of_int i) = of_int i" if i: "0 < i" "i < 9007199254740992" for i :: int
  proof -
    have "exponent (of_int i) \<le> 52" using i by (intro exponent_le_52) (simp_all flip: of_int_less_numeral_iff)
    then have "max (- 1074) (exponent (of_int i) - 52) \<le> 0" by simp
    from powi_multiple [OF this] obtain j where "1 = of_int j * least_digit (of_int i)" by (auto simp: least_digit_def)
    then have "of_int i / least_digit (of_int i) = of_int (i * j)" by (simp add: field_simps)
    then show ?thesis by (rule round_multiple)
  qed
  show ?thesis
  proof (cases "0 \<le> i")
    case True
    then show ?thesis using pos [of i] assms by (auto simp: rnd_def)
  next
    case False
    then show ?thesis using pos [of "- i"] assms by (simp add: rnd_def)
  qed
qed

lemma rnd_code [code]:
  "rnd x = (case quotient_of x of (a, b) \<Rightarrow>
     if b = 1 \<and> \<bar>a\<bar> < 9007199254740992 then x else if 0 < x then round_pos x else - round_pos (- x))"
proof (cases "quotient_of x")
  case (Pair a b)
  have "x = of_int a" if "b = 1" using quotient_of_div [OF Pair] that by simp
  moreover have "a = 0 \<and> b = 1" if "x = 0" using Pair that by simp
  ultimately show ?thesis using rnd_int [of a] by (auto simp: Pair rnd_def)
qed

lemma too_large_code [code]: "too_large x \<longleftrightarrow> (if \<bar>x\<bar> < 9007199254740992 then False else 2 ^ 1024 \<le> \<bar>x\<bar>)"
proof -
  have "(9007199254740992 :: rat) \<le> 2 ^ 1024" by simp
  then show ?thesis by (auto simp: too_large_def)
qed

text \<open>The quotient of two integers, to the nearest and to even.\<close>

definition even_div :: "int \<Rightarrow> int \<Rightarrow> int" where
  "even_div a b = (let f = a div b; r = 2 * (a mod b) in if r < b \<or> r = b \<and> even f then f else f + 1)"

lemma half_even_div:
  assumes "0 < b"
  shows "half_even (of_int a / of_int b) = even_div a b"
proof -
  have f: "\<lfloor>(of_int a / of_int b :: rat)\<rfloor> = a div b" by (rule floor_divide_of_int_eq)
  have "of_int a / of_int b - of_int (a div b) = (of_int (a mod b) / of_int b :: rat)"
    using assms by (simp add: field_simps flip: of_int_mult of_int_add)
  moreover have "(of_int (a mod b) / of_int b < (1 / 2 :: rat)) = (2 * (a mod b) < b)"
    using assms by (simp add: field_simps flip: of_int_mult) (metis (no_types) of_int_less_iff of_int_mult of_int_numeral mult.commute)
  moreover have "(of_int (a mod b) / of_int b = (1 / 2 :: rat)) = (2 * (a mod b) = b)"
    using assms by (simp add: field_simps flip: of_int_mult) (metis (no_types) of_int_eq_iff of_int_mult of_int_numeral mult.commute)
  ultimately show ?thesis unfolding half_even_def even_div_def Let_def f by simp
qed

lemma exponent_code [code]:
  "exponent x = (case quotient_of x of (a, b) \<Rightarrow> let k = bitlen a - bitlen b in
     if (if 0 \<le> k then b * 2 ^ nat k \<le> a else b \<le> a * 2 ^ nat (- k)) then k else k - 1)"
proof (cases "quotient_of x")
  case (Pair a b)
  have b: "0 < b" and x: "x = of_int a / of_int b"
    using quotient_of_denom_pos [OF Pair] quotient_of_div [OF Pair] by simp_all
  have "(2 powi k \<le> x) = (if 0 \<le> k then b * 2 ^ nat k \<le> a else b \<le> a * 2 ^ nat (- k))" for k
  proof (cases "0 \<le> k")
    case True
    have "((2 :: rat) ^ nat k \<le> of_int a / of_int b) = (of_int (b * 2 ^ nat k) \<le> (of_int a :: rat))"
      using b by (simp add: field_simps)
    then show ?thesis using True by (simp only: x power_int_def of_int_le_iff if_True)
  next
    case False
    have "((1 :: rat) / 2 ^ nat (- k) \<le> of_int a / of_int b) = (of_int b \<le> (of_int (a * 2 ^ nat (- k)) :: rat))"
      using b by (simp add: field_simps)
    then have "((1 :: rat) / 2 ^ nat (- k) \<le> of_int a / of_int b) = (b \<le> a * 2 ^ nat (- k))"
      by (simp only: of_int_le_iff)
    then show ?thesis using False by (simp add: x power_int_def inverse_eq_divide power_one_over)
  qed
  then show ?thesis by (simp add: exponent_def Pair Let_def)
qed

lemma round_pos_code [code]:
  "round_pos x = (case quotient_of x of (a, b) \<Rightarrow> let p = max (- 1074) (exponent x - 52) in
     if 0 \<le> p then of_int (even_div a (b * 2 ^ nat p) * 2 ^ nat p)
     else of_int (even_div (a * 2 ^ nat (- p)) b) / of_int (2 ^ nat (- p)))"
proof (cases "quotient_of x")
  case (Pair a b)
  have b: "0 < b" and x: "x = of_int a / of_int b"
    using quotient_of_denom_pos [OF Pair] quotient_of_div [OF Pair] by simp_all
  define p where "p = max (- 1074) (exponent x - 52)"
  have unfold: "round_pos x = of_int (half_even (x / 2 powi p)) * 2 powi p" by (simp add: round_pos_def least_digit_def p_def)
  have "round_pos x = (if 0 \<le> p then of_int (even_div a (b * 2 ^ nat p) * 2 ^ nat p)
     else of_int (even_div (a * 2 ^ nat (- p)) b) / of_int (2 ^ nat (- p)))"
  proof (cases "0 \<le> p")
    case True
    then have pow: "(2 :: rat) powi p = of_int (2 ^ nat p)" by (simp add: power_int_def)
    have "x / 2 powi p = of_int a / of_int (b * 2 ^ nat p)" unfolding pow x by simp
    then have "half_even (x / 2 powi p) = even_div a (b * 2 ^ nat p)" using half_even_div [of "b * 2 ^ nat p" a] b by simp
    then show ?thesis unfolding unfold pow using True by simp
  next
    case False
    then have pow: "(2 :: rat) powi p = 1 / of_int (2 ^ nat (- p))"
      by (simp add: power_int_def inverse_eq_divide power_one_over)
    have "x / 2 powi p = of_int (a * 2 ^ nat (- p)) / of_int b" unfolding pow x by simp
    then have "half_even (x / 2 powi p) = even_div (a * 2 ^ nat (- p)) b" by (simp only: half_even_div [OF b])
    then show ?thesis unfolding unfold pow using False by simp
  qed
  then show ?thesis unfolding Pair Let_def p_def prod.case .
qed

lemma half_even_code [code]: "half_even x = (case quotient_of x of (a, b) \<Rightarrow> even_div a b)"
  using half_even_div quotient_of_denom_pos quotient_of_div by (cases "quotient_of x") (metis case_prod_conv)

lemma tolerance_code [code]: "tolerance = Fin (4835703278458517 / 4835703278458516698824704)"
  unfolding tolerance_def lit_def by code_simp

lemma exceeds_code [code]:
  "exceeds x y = (case (x, y) of (Fin a, Fin b) \<Rightarrow> if 0 \<le> a \<and> a \<le> b \<and> rnd a = a then False else fless (fadd y tolerance) x
     | _ \<Rightarrow> fless (fadd y tolerance) x)"
proof -
  have "\<not> fless (fadd (Fin b) tolerance) (Fin a)" if "0 \<le> a" "a \<le> b" "rnd a = a" for a b
  proof -
    let ?s = "b + rnd (1 / 10 ^ 9)"
    have tol: "0 \<le> rnd (1 / 10 ^ 9)" by (intro rnd_nonneg) simp
    then have "a \<le> rnd ?s" using rnd_mono [of a ?s] that by simp
    show ?thesis
    proof (cases "too_large (rnd ?s)")
      case True
      then show ?thesis using that tol by (simp add: tolerance_def lit_def nearest_def Let_def)
    qed (use \<open>a \<le> rnd ?s\<close> in \<open>simp add: tolerance_def lit_def nearest_def Let_def\<close>)
  qed
  then show ?thesis by (auto simp: exceeds_def split: pyfloat.split)
qed

lemma rnd_one [simp]: "rnd 1 = 1"
  by code_simp

end
