(* ===== verification/Json_Value.thy ===== *)
theory Json_Value
  imports Python_Float
begin

text \<open>
  What \<open>json.loads\<close> gives: objects are association lists with distinct keys, numbers are integers of
  any size or floats. The tests the offline evaluators make on such values, with Python's
  exceptions: hashing a list or an object raises \<open>TypeError\<close>, and so does testing its membership in
  a set; \<open>math.isfinite\<close> of an integer too large for a float raises \<open>OverflowError\<close>.
\<close>

section \<open>Values\<close>

datatype jval =
    JNull
  | JBool bool
  | JInt int
  | JFloat pyfloat
  | JStr string
  | JList "jval list"
  | JObj "(string \<times> jval) list"

type_synonym jobj = "(string \<times> jval) list"

text \<open>\<open>value.get(key)\<close>; where the key is known to be there, also \<open>value[key]\<close>.\<close>

definition jget :: "jobj \<Rightarrow> string \<Rightarrow> jval" where
  "jget d k = (case map_of d k of None \<Rightarrow> JNull | Some v \<Rightarrow> v)"

fun jobj_of :: "jval \<Rightarrow> jobj" where
  "jobj_of (JObj d) = d"
| "jobj_of _ = []"

fun jlist_of :: "jval \<Rightarrow> jval list" where
  "jlist_of (JList l) = l"
| "jlist_of _ = []"

fun jstr_of :: "jval \<Rightarrow> string" where
  "jstr_of (JStr s) = s"
| "jstr_of _ = []"

fun jint_of :: "jval \<Rightarrow> int" where
  "jint_of (JInt i) = i"
| "jint_of _ = 0"

fun is_jobj :: "jval \<Rightarrow> bool" where
  "is_jobj (JObj _) = True"
| "is_jobj _ = False"

fun is_jlist :: "jval \<Rightarrow> bool" where
  "is_jlist (JList _) = True"
| "is_jlist _ = False"

fun is_jbool :: "jval \<Rightarrow> bool" where
  "is_jbool (JBool _) = True"
| "is_jbool _ = False"

text \<open>\<open>isinstance(value, int)\<close>, with and without the booleans.\<close>

fun is_jint :: "jval \<Rightarrow> bool" where
  "is_jint (JInt _) = True"
| "is_jint (JBool _) = True"
| "is_jint _ = False"

fun strict_int :: "jval \<Rightarrow> bool" where
  "strict_int (JInt _) = True"
| "strict_int _ = False"

definition int_from :: "int \<Rightarrow> jval \<Rightarrow> bool" where
  "int_from lo v \<longleftrightarrow> strict_int v \<and> lo \<le> jint_of v"

fun hashable :: "jval \<Rightarrow> bool" where
  "hashable (JList _) = False"
| "hashable (JObj _) = False"
| "hashable _ = True"

section \<open>Numbers\<close>

text \<open>The value a number compares by: an integer compares exactly.\<close>

fun jnum :: "jval \<Rightarrow> pyfloat" where
  "jnum (JInt i) = Fin (of_int i)"
| "jnum (JFloat x) = x"
| "jnum _ = NaN"

text \<open>\<open>float(value)\<close> of a number.\<close>

fun to_float :: "jval \<Rightarrow> pyfloat res" where
  "to_float (JInt i) = float_of_rat (of_int i)"
| "to_float v = Inr (jnum v)"

text \<open>\<open>_finite_number\<close>\<close>

fun finite_number :: "jval \<Rightarrow> bool res" where
  "finite_number (JInt i) = map_sum id (\<lambda>_. True) (float_of_rat (of_int i))"
| "finite_number (JFloat x) = Inr (is_finite x)"
| "finite_number _ = Inr False"

section \<open>Text\<close>

text \<open>The number of code points of a UTF-8 text, and \<open>_bounded_text\<close>.\<close>

definition code_point :: "char \<Rightarrow> int" where
  "code_point c = of_char c"

definition continuation :: "char \<Rightarrow> bool" where
  "continuation c \<longleftrightarrow> 128 \<le> code_point c \<and> code_point c < 192"

lemma continuation_code [code]: "continuation (Char b0 b1 b2 b3 b4 b5 b6 b7) \<longleftrightarrow> b7 \<and> \<not> b6"
  by (cases b0; cases b1; cases b2; cases b3; cases b4; cases b5; cases b6; cases b7)
    (simp_all add: continuation_def code_point_def of_char_def)

definition py_len :: "string \<Rightarrow> int" where
  "py_len s = int (length (filter (Not \<circ> continuation) s))"

fun bounded_text :: "int \<Rightarrow> jval \<Rightarrow> bool" where
  "bounded_text limit (JStr s) = (s \<noteq> [] \<and> py_len s \<le> limit \<and> CHR 0x00 \<notin> set s)"
| "bounded_text limit _ = False"

text \<open>
  \<open>str.lower()\<close> as far as an ASCII text can be found in its result: the Kelvin sign and the dotted
  capital I are the only other code points whose lower case has an ASCII character.
\<close>

definition lower_char :: "char \<Rightarrow> char" where
  "lower_char c = (if 65 \<le> code_point c \<and> code_point c \<le> 90 then char_of (code_point c + 32) else c)"

lemma lower_char_code [code]:
  "lower_char (Char b0 b1 b2 b3 b4 b5 b6 b7) =
     (if \<not> b7 \<and> b6 \<and> \<not> b5 \<and> (b0 \<or> b1 \<or> b2 \<or> b3 \<or> b4) \<and> \<not> (b4 \<and> b3 \<and> (b2 \<or> b1 \<and> b0))
      then Char b0 b1 b2 b3 b4 True b6 b7 else Char b0 b1 b2 b3 b4 b5 b6 b7)"
  by (cases b0; cases b1; cases b2; cases b3; cases b4; cases b5; cases b6; cases b7)
    (simp_all add: lower_char_def code_point_def of_char_def char_of_def)

definition kelvin :: string where "kelvin = [CHR 0xE2, CHR 0x84, CHR 0xAA]"

definition dotted_I :: string where "dotted_I = [CHR 0xC4, CHR 0xB0]"

fun py_lower :: "string \<Rightarrow> string" where
  "py_lower (a # b # c # s) =
     (if [a, b, c] = kelvin then CHR ''k'' # py_lower s
      else if [a, b] = dotted_I then CHR ''i'' # CHR 0xCC # CHR 0x87 # py_lower (c # s)
      else lower_char a # py_lower (b # c # s))"
| "py_lower [a, b] = (if [a, b] = dotted_I then [CHR ''i'', CHR 0xCC, CHR 0x87] else [lower_char a, lower_char b])"
| "py_lower s = map lower_char s"

definition contains :: "string \<Rightarrow> string \<Rightarrow> bool" where
  "contains t s \<longleftrightarrow> list_ex (prefix t) (suffixes s)"

section \<open>Checks that may raise\<close>

text \<open>\<open>if value not in S: raise\<close> and \<open>if value in S: raise\<close>, for a set of texts.\<close>

definition unless_in :: "jval \<Rightarrow> string list \<Rightarrow> string \<Rightarrow> pyerr option" where
  "unless_in v S msg = (if \<not> hashable v then Some (TypeError ''unhashable type'')
     else fails (v \<notin> JStr ` set S) (ValueError msg))"

text \<open>\<open>if not _finite_number(value) or P: raise\<close>\<close>

definition unless_finite :: "jval \<Rightarrow> bool \<Rightarrow> string \<Rightarrow> pyerr option" where
  "unless_finite v P msg = (case finite_number v of Inl e \<Rightarrow> Some e
     | Inr ok \<Rightarrow> fails (\<not> ok \<or> P) (ValueError msg))"

text \<open>\<open>_exact_keys\<close>: unknown keys first, then missing ones.\<close>

definition exact_keys :: "jobj \<Rightarrow> string list \<Rightarrow> string list \<Rightarrow> pyerr option" where
  "exact_keys d allowed optional = first_error
     [fails (\<not> set (map fst d) \<subseteq> set allowed) (ValueError ''contains unknown keys''),
      fails (\<not> set allowed - set optional \<subseteq> set (map fst d)) (ValueError ''is missing keys'')]"

text \<open>A loop whose body may raise and otherwise carries a state on.\<close>

fun each :: "('a \<Rightarrow> 's \<Rightarrow> 's res) \<Rightarrow> 'a list \<Rightarrow> 's \<Rightarrow> 's res" where
  "each f [] s = Inr s"
| "each f (x # xs) s = (case f x s of Inl e \<Rightarrow> Inl e | Inr s1 \<Rightarrow> each f xs s1)"

lemma each_append: "each f (xs @ ys) s = (case each f xs s of Inl e \<Rightarrow> Inl e | Inr s1 \<Rightarrow> each f ys s1)"
  by (induction xs arbitrary: s) (auto split: sum.splits)

lemma unless_in_None [accept_simps]: "unless_in v S msg = None \<longleftrightarrow> (\<exists>s \<in> set S. v = JStr s)"
  by (cases v) (auto simp: unless_in_def fails_def)

lemma unless_finite_None [accept_simps]: "unless_finite v P msg = None \<longleftrightarrow> finite_number v = Inr True \<and> \<not> P"
  by (auto simp: unless_finite_def fails_def split: sum.splits)

lemma exact_keys_None [accept_simps]:
  "exact_keys d allowed optional = None \<longleftrightarrow>
     set (map fst d) \<subseteq> set allowed \<and> set allowed - set optional \<subseteq> set (map fst d)"
  by (auto simp: exact_keys_def first_error_None fails_None)

end
