(* ===== verification/Case_Validation.thy ===== *)
theory Case_Validation
  imports Json_Value Runtime_Protocol "HOL-Library.Product_Lexorder"
begin

text \<open>
  The diagnosis bundles of the blind attribution (\<open>blind_attribution.py\<close>): the closed schema a bundle
  has to meet before it is scored. Every check is in the order of the source; the messages are
  without the path they point at. \<open>limit\<close> is the number of stack frames the interpreter leaves to the
  recursive search for cycles.
\<close>

section \<open>Vocabulary\<close>

definition CASE_SCHEMA :: string where "CASE_SCHEMA = ''request-lifecycle-blind-case/v1''"

definition VIEW_NAMES :: "string list" where
  "VIEW_NAMES = [''aggregate_metrics'', ''flat_stage_timers'', ''raw_normalized_events'',
     ''lifecycle_spans_without_causal_ranking'', ''full_lifecycle_dag'']"

definition TOP_LEVEL_KEYS :: "string list" where "TOP_LEVEL_KEYS = [''schema'', ''case_id'', ''pairs'']"

definition PAIR_KEYS :: "string list" where
  "PAIR_KEYS = [''pair_id'', ''order'', ''matching'', ''baseline'', ''treatment'']"

definition MATCHING_KEYS :: "string list" where
  "MATCHING_KEYS = [''workload_id'', ''request_order_id'', ''prompt_tokens'', ''output_tokens'', ''concurrency'',
     ''batch_shape'']"

definition OBSERVATION_KEYS :: "string list" where
  "OBSERVATION_KEYS = [''run_id'', ''configuration_id'', ''clock_model_id'', ''metrics'', ''evidence_status'',
     ''normalized_events'', ''lifecycle_spans'', ''lifecycle_edges'', ''traceloom_links'']"

definition NORMALIZED_EVENT_KEYS :: "string list" where
  "NORMALIZED_EVENT_KEYS = [''event_id'', ''trace_id'', ''engine_lifecycle_id'', ''recovery_epoch'', ''request_id'',
     ''scope'', ''component'', ''event_name'', ''timestamp_ns'', ''clock_domain'', ''evidence_source'',
     ''support_state'', ''batch_id'', ''step_id'']"

definition METRIC_KEYS :: "string list" where
  "METRIC_KEYS = [''ttft_ms'', ''tpot_ms'', ''latency_ms'', ''throughput_rps'', ''error_count'']"

definition EVIDENCE_KEYS :: "string list" where
  "EVIDENCE_KEYS = [''identity_complete'', ''event_loss_count'', ''clock_ambiguous'', ''configuration_matched'']"

definition SPAN_KEYS :: "string list" where
  "SPAN_KEYS = [''span_id'', ''start_event_id'', ''end_event_id'', ''candidate_id'', ''trace_id'',
     ''engine_lifecycle_id'', ''recovery_epoch'', ''request_id'', ''owner'', ''clock_domain'', ''evidence_source'',
     ''support_state'', ''start_ns'', ''end_ns'', ''accounted_duration_ms'', ''batch_id'', ''step_id'']"

definition EDGE_KEYS :: "string list" where
  "EDGE_KEYS = [''source_span_id'', ''target_span_id'', ''kind'']"

definition LINK_KEYS :: "string list" where
  "LINK_KEYS = [''span_id'', ''trace_id'', ''engine_lifecycle_id'', ''recovery_epoch'', ''request_id'', ''batch_id'',
     ''step_id'', ''tree_id'', ''node_id'', ''occurrence_idx'', ''anchor_id'', ''event_id'', ''runtime_relation_id'',
     ''runtime_call_id'', ''device_work_id'', ''sync_action_id'', ''graph_event_id'', ''graph_envelope_id'',
     ''link_kind'', ''owner'', ''clock_domain'', ''evidence_source'', ''support_state'', ''reason'']"

definition OPTIONAL_LINK_KEYS :: "string list" where
  "OPTIONAL_LINK_KEYS = [''batch_id'', ''step_id'', ''tree_id'', ''node_id'', ''occurrence_idx'', ''anchor_id'',
     ''event_id'', ''runtime_relation_id'', ''runtime_call_id'', ''device_work_id'', ''sync_action_id'',
     ''graph_event_id'', ''graph_envelope_id'', ''reason'']"

definition LINK_KINDS :: "string list" where
  "LINK_KINDS = [''request_handoff'', ''batch_membership'', ''execution_support'', ''resource_owner'']"

definition LIFECYCLE_EDGE_KINDS :: "string list" where
  "LIFECYCLE_EDGE_KINDS = [''request_handoff'', ''batch_membership'', ''execution_support'', ''resource_owner'', ''precedes'']"

definition SUPPORTED_STATES :: "string list" where
  "SUPPORTED_STATES = [''supported_exact'', ''supported_deterministic'']"

definition FORBIDDEN_KEYS :: "string list" where
  "FORBIDDEN_KEYS = [''oracle'', ''ground_truth'', ''fault_name'', ''fault_manifest'', ''injected_pressure'',
     ''intervention_assignment'', ''salt'', ''answer'']"

definition FORBIDDEN_CASE_TOKENS :: "string list" where
  "FORBIDDEN_CASE_TOKENS = [''fault'', ''oracle'', ''token'', ''queue'', ''prefill'', ''decode'']"

definition ABSTENTION_CANDIDATE :: string where
  "ABSTENTION_CANDIDATE = ''insufficient_evidence_or_multi_cause''"

section \<open>Keys that name an answer\<close>

fun reject_forbidden_keys :: "jval \<Rightarrow> pyerr option" where
  "reject_forbidden_keys (JObj d) = first_error (map (\<lambda>(k, v). first_error
     [fails (py_lower k \<in> set FORBIDDEN_KEYS) (ValueError ''is answer-bearing and forbidden''),
      reject_forbidden_keys v]) d)"
| "reject_forbidden_keys (JList l) = first_error (map reject_forbidden_keys l)"
| "reject_forbidden_keys _ = None"

section \<open>Fields of a record\<close>

definition text_fields :: "int \<Rightarrow> jobj \<Rightarrow> string list \<Rightarrow> pyerr option" where
  "text_fields limit d ks =
     first_error (map (\<lambda>k. fails (\<not> bounded_text limit (jget d k)) (ValueError ''must be bounded'')) ks)"

definition optional_text_fields :: "int \<Rightarrow> jobj \<Rightarrow> string list \<Rightarrow> pyerr option" where
  "optional_text_fields limit d ks = first_error (map (\<lambda>k.
     fails (k \<in> fst ` set d \<and> \<not> bounded_text limit (jget d k)) (ValueError ''must be bounded'')) ks)"

definition same_fields :: "jobj \<Rightarrow> jobj \<Rightarrow> string list \<Rightarrow> bool" where
  "same_fields d e ks \<longleftrightarrow> list_all (\<lambda>k. jget d k = jget e k) ks"

section \<open>The conditions two arms share\<close>

definition validate_matching :: "jval \<Rightarrow> pyerr option" where
  "validate_matching v =
     (if \<not> is_jobj v then Some (ValueError ''must be an object'')
      else (let d = jobj_of v; shape = jget d ''batch_shape'' in first_error
        [exact_keys d MATCHING_KEYS [],
         text_fields 128 d [''workload_id'', ''request_order_id''],
         first_error (map (\<lambda>k. fails (\<not> int_from 1 (jget d k)) (ValueError ''must be a positive integer''))
           [''prompt_tokens'', ''output_tokens'', ''concurrency'']),
         fails (\<not> is_jlist shape \<or> jlist_of shape = [] \<or> 16 < length (jlist_of shape) \<or>
             list_ex (\<lambda>i. \<not> int_from 1 i) (jlist_of shape))
           (ValueError ''must contain 1-16 positive integers'')]))"

section \<open>Events and spans\<close>

type_synonym records = "(string \<times> jobj) list"

definition check_normalized_event :: "records \<Rightarrow> jval \<Rightarrow> pyerr option" where
  "check_normalized_event seen v =
     (if \<not> is_jobj v then Some (ValueError ''must be an object'')
      else (let event = jobj_of v in first_error
        [exact_keys event NORMALIZED_EVENT_KEYS [''batch_id'', ''step_id''],
         fails (\<not> bounded_text 96 (jget event ''event_id'') \<or> jstr_of (jget event ''event_id'') \<in> fst ` set seen)
           (ValueError ''event_id must be bounded and unique''),
         text_fields 128 event
           [''trace_id'', ''engine_lifecycle_id'', ''request_id'', ''clock_domain'', ''evidence_source'', ''support_state''],
         optional_text_fields 128 event [''batch_id'', ''step_id''],
         unless_in (jget event ''scope'') SCOPES ''scope is not a runtime scope'',
         unless_in (jget event ''component'') COMPONENTS ''component is not a runtime component'',
         unless_in (jget event ''event_name'') EVENT_NAMES ''event_name is not a runtime event'',
         fails (map_of COMPONENT_BY_SCOPE_EVENT (jstr_of (jget event ''scope''), jstr_of (jget event ''event_name'')) \<noteq>
             Some (jstr_of (jget event ''component''))) (ValueError ''component/event/scope ownership mismatch''),
         fails (\<not> int_from 0 (jget event ''recovery_epoch'')) (ValueError ''recovery_epoch must be non-negative integer''),
         fails (\<not> int_from 0 (jget event ''timestamp_ns'')) (ValueError ''timestamp_ns must be non-negative integer'')]))"

definition add_record :: "(records \<Rightarrow> jval \<Rightarrow> pyerr option) \<Rightarrow> string \<Rightarrow> jval \<Rightarrow> records \<Rightarrow> records res" where
  "add_record check key v seen =
     checked (check seen v) (seen @ [(jstr_of (jget (jobj_of v) key), jobj_of v)])"

definition event_of :: "records \<Rightarrow> jval \<Rightarrow> jobj option" where
  "event_of events v = map_of (map (\<lambda>(k, d). (JStr k, d)) events) v"

definition IDENTITY_FIELDS :: "string list" where
  "IDENTITY_FIELDS = [''trace_id'', ''engine_lifecycle_id'', ''recovery_epoch'', ''request_id'', ''clock_domain'',
     ''batch_id'', ''step_id'']"

text \<open>\<open>(end - start) / 1_000_000\<close>, and the accounted time against it.\<close>

definition check_accounted :: "jobj \<Rightarrow> pyerr option" where
  "check_accounted sp =
     (let accounted = jget sp ''accounted_duration_ms'' in
      case float_of_rat (of_int (jint_of (jget sp ''end_ns'') - jint_of (jget sp ''start_ns'')) / 1000000) of
        Inl e \<Rightarrow> Some e
      | Inr duration \<Rightarrow> unless_finite accounted
          (fless (jnum accounted) (Fin 0) \<or> exceeds (jnum accounted) duration)
          ''accounted_duration_ms exceeds its interval'')"

definition check_lifecycle_span :: "records \<Rightarrow> string list \<Rightarrow> records \<Rightarrow> jval \<Rightarrow> pyerr option" where
  "check_lifecycle_span events candidates seen v =
     (if \<not> is_jobj v then Some (ValueError ''must be an object'')
      else (let sp = jobj_of v;
                start_id = jget sp ''start_event_id''; end_id = jget sp ''end_event_id'';
                start_event = the (event_of events start_id); end_event = the (event_of events end_id);
                start = jget sp ''start_ns''; finish = jget sp ''end_ns'' in first_error
        [exact_keys sp SPAN_KEYS [''batch_id'', ''step_id''],
         fails (\<not> bounded_text 96 (jget sp ''span_id'') \<or> jstr_of (jget sp ''span_id'') \<in> fst ` set seen)
           (ValueError ''span_id must be bounded and unique''),
         fails (\<not> hashable start_id \<or> \<not> hashable end_id) (TypeError ''unhashable type''),
         fails (event_of events start_id = None \<or> event_of events end_id = None)
           (ValueError ''references an unknown normalized event''),
         unless_in (jget sp ''candidate_id'') candidates ''candidate_id is not a measurable candidate'',
         fails (jget sp ''candidate_id'' = JStr ABSTENTION_CANDIDATE)
           (ValueError ''candidate_id is not a measurable candidate''),
         text_fields 128 sp
           [''trace_id'', ''engine_lifecycle_id'', ''request_id'', ''owner'', ''clock_domain'', ''evidence_source'', ''support_state''],
         optional_text_fields 128 sp [''batch_id'', ''step_id''],
         fails (\<not> int_from 0 (jget sp ''recovery_epoch'')) (ValueError ''recovery_epoch must be non-negative integer''),
         fails (\<not> strict_int start \<or> \<not> strict_int finish \<or> jint_of finish < jint_of start) (ValueError ''has invalid interval''),
         check_accounted sp,
         fails (\<not> (same_fields start_event sp IDENTITY_FIELDS \<and> same_fields end_event sp IDENTITY_FIELDS))
           (ValueError ''identity does not match its boundary events''),
         fails (jget start_event ''timestamp_ns'' \<noteq> start \<or> jget end_event ''timestamp_ns'' \<noteq> finish)
           (ValueError ''timestamps do not match its boundary events'')]))"

section \<open>Edges\<close>

type_synonym edge_identity = "string \<times> string \<times> string"

definition REQUEST_IDENTITY :: "string list" where
  "REQUEST_IDENTITY = [''trace_id'', ''engine_lifecycle_id'', ''recovery_epoch'', ''request_id'']"

definition edge_identity :: "jobj \<Rightarrow> edge_identity" where
  "edge_identity edge = (jstr_of (jget edge ''source_span_id''), jstr_of (jget edge ''target_span_id''), jstr_of (jget edge ''kind''))"

definition check_lifecycle_edge :: "records \<Rightarrow> edge_identity list \<Rightarrow> jval \<Rightarrow> pyerr option" where
  "check_lifecycle_edge spans seen v =
     (if \<not> is_jobj v then Some (ValueError ''must be an object'')
      else (let edge = jobj_of v; (s, t, kind) = edge_identity edge;
                source = the (map_of spans s); target = the (map_of spans t) in first_error
        [exact_keys edge EDGE_KEYS [],
         unless_in (jget edge ''source_span_id'') (map fst spans) ''references an unknown span'',
         unless_in (jget edge ''target_span_id'') (map fst spans) ''references an unknown span'',
         unless_in (jget edge ''kind'') LIFECYCLE_EDGE_KINDS ''kind is unsupported'',
         fails (edge_identity edge \<in> set seen) (ValueError ''duplicates an existing edge''),
         fails (\<not> same_fields source target REQUEST_IDENTITY) (ValueError ''crosses request/lifecycle identity''),
         fails (kind = ''precedes'' \<and> jint_of (jget target ''start_ns'') < jint_of (jget source ''end_ns''))
           (ValueError ''violates temporal precedence'')]))"

definition add_edge :: "records \<Rightarrow> jval \<Rightarrow> edge_identity list \<Rightarrow> edge_identity list res" where
  "add_edge spans v seen = checked (check_lifecycle_edge spans seen v) (seen @ [edge_identity (jobj_of v)])"

section \<open>Cycles\<close>

definition successors :: "edge_identity list \<Rightarrow> string \<Rightarrow> string list" where
  "successors edges x = map (\<lambda>(s, t, k). t) (filter (\<lambda>(s, t, k). s = x) edges)"

text \<open>
  The depth-first search. Its state is the set of spans being visited, newest first, and the set of
  those already visited; each level of the recursion takes one stack frame. The source starts it from
  the members of a set, in the order the set iterates them: the list \<open>span_ids\<close> stands for that order.
\<close>

fun visit :: "nat \<Rightarrow> (string \<Rightarrow> string list) \<Rightarrow> string \<Rightarrow> string list \<times> string list \<Rightarrow> (string list \<times> string list) res" where
  "visit 0 succs x s = Inl (RecursionError ''maximum recursion depth exceeded'')"
| "visit (Suc n) succs x (visiting, visited) =
     (if x \<in> set visiting then Inl (ValueError ''lifecycle_edges contain a cycle'')
      else if x \<in> set visited then Inr (visiting, visited)
      else (case each (visit n succs) (succs x) (x # visiting, visited) of
              Inl e \<Rightarrow> Inl e
            | Inr (visiting', visited') \<Rightarrow> Inr (remove1 x visiting', x # visited')))"

definition validate_acyclic_edges :: "nat \<Rightarrow> edge_identity list \<Rightarrow> string list \<Rightarrow> pyerr option" where
  "validate_acyclic_edges limit edges span_ids =
     (case each (visit limit (successors edges)) span_ids ([], []) of Inl e \<Rightarrow> Some e | Inr _ \<Rightarrow> None)"

section \<open>Overlapping spans\<close>

definition overlap_key :: "jobj \<Rightarrow> jval list" where
  "overlap_key sp = map (jget sp) [''trace_id'', ''engine_lifecycle_id'', ''request_id'', ''recovery_epoch'', ''clock_domain'']"

text \<open>The total length of the union of sorted intervals, the current one held open.\<close>

fun union_from :: "int \<Rightarrow> int \<Rightarrow> (int \<times> int) list \<Rightarrow> int" where
  "union_from current_start current_end [] = current_end - current_start"
| "union_from current_start current_end ((start, finish) # rest) =
     (if start \<le> current_end then union_from current_start (max current_end finish) rest
      else (current_end - current_start) + union_from start finish rest)"

definition union_ns :: "(int \<times> int) list \<Rightarrow> int" where
  "union_ns intervals = (case sort intervals of [] \<Rightarrow> 0 | (start, finish) # rest \<Rightarrow> union_from start finish rest)"

definition interval_of :: "jobj \<Rightarrow> int \<times> int" where
  "interval_of sp = (jint_of (jget sp ''start_ns''), jint_of (jget sp ''end_ns''))"

definition accounted_of :: "jobj \<Rightarrow> pyfloat" where
  "accounted_of sp = (case to_float (jget sp ''accounted_duration_ms'') of Inr x \<Rightarrow> x | Inl _ \<Rightarrow> NaN)"

definition check_group :: "jobj list \<Rightarrow> pyerr option" where
  "check_group members =
     (case float_of_rat (of_int (union_ns (map interval_of members)) / 1000000) of
        Inl e \<Rightarrow> Some e
      | Inr union_ms \<Rightarrow> fails (exceeds (fsum (map accounted_of members)) union_ms)
          (ValueError ''lifecycle_spans double-charge overlapping evidence''))"

definition members_of :: "jobj list \<Rightarrow> jval list \<Rightarrow> jobj list" where
  "members_of spans k = filter (\<lambda>s. overlap_key s = k) spans"

definition validate_overlap_accounting :: "jobj list \<Rightarrow> pyerr option" where
  "validate_overlap_accounting spans = first_error (map check_group (map (members_of spans)
     (remdups (map overlap_key spans))))"

section \<open>Links\<close>

definition is_device :: "jobj \<Rightarrow> bool" where
  "is_device sp \<longleftrightarrow> contains ''device'' (py_lower (jstr_of (jget sp ''clock_domain'')))"

definition supported :: "jobj \<Rightarrow> bool" where
  "supported d \<longleftrightarrow> jget d ''support_state'' \<in> JStr ` set SUPPORTED_STATES"

definition LINK_IDENTITY :: "string list" where
  "LINK_IDENTITY = [''span_id'', ''link_kind'', ''tree_id'', ''node_id'', ''occurrence_idx'', ''anchor_id'', ''event_id'',
     ''runtime_relation_id'', ''runtime_call_id'', ''device_work_id'', ''sync_action_id'', ''graph_event_id'',
     ''graph_envelope_id'']"

definition TRACE_IDENTITY_KEYS :: "string list" where
  "TRACE_IDENTITY_KEYS = [''tree_id'', ''event_id'', ''runtime_relation_id'', ''runtime_call_id'', ''device_work_id'',
     ''sync_action_id'', ''graph_event_id'', ''graph_envelope_id'']"

definition link_identity :: "jobj \<Rightarrow> jval list" where
  "link_identity link = map (jget link) LINK_IDENTITY"

definition check_traceloom_link :: "records \<Rightarrow> jval list list \<Rightarrow> jval \<Rightarrow> pyerr option" where
  "check_traceloom_link spans seen v =
     (if \<not> is_jobj v then Some (ValueError ''must be an object'')
      else (let link = jobj_of v; span_id = jget link ''span_id''; sp = the (event_of spans span_id) in first_error
        [exact_keys link LINK_KEYS OPTIONAL_LINK_KEYS,
         unless_in (jget link ''link_kind'') LINK_KINDS ''link_kind is unsupported'',
         fails (jget link ''evidence_source'' \<noteq> JStr ''traceloom_sqlite'') (ValueError ''evidence_source must be traceloom_sqlite''),
         fails (\<not> hashable span_id) (TypeError ''unhashable type''),
         fails (event_of spans span_id = None) (ValueError ''references an unknown span''),
         text_fields 128 link
           [''trace_id'', ''engine_lifecycle_id'', ''request_id'', ''owner'', ''clock_domain'', ''evidence_source'', ''support_state''],
         fails (\<not> int_from 0 (jget link ''recovery_epoch'')) (ValueError ''recovery_epoch must be non-negative integer''),
         optional_text_fields 256 link
           [''batch_id'', ''step_id'', ''tree_id'', ''node_id'', ''anchor_id'', ''event_id'', ''runtime_relation_id'',
            ''runtime_call_id'', ''device_work_id'', ''sync_action_id'', ''graph_event_id'', ''graph_envelope_id'', ''reason''],
         fails (''occurrence_idx'' \<in> fst ` set link \<and> \<not> int_from 0 (jget link ''occurrence_idx''))
           (ValueError ''occurrence_idx must be non-negative integer''),
         fails (\<not> same_fields link sp
             [''trace_id'', ''engine_lifecycle_id'', ''recovery_epoch'', ''request_id'', ''owner'', ''clock_domain'', ''batch_id'', ''step_id''])
           (ValueError ''identity does not match its lifecycle span''),
         fails (link_identity link \<in> set seen) (ValueError ''duplicates an existing link''),
         fails (\<not> supported link \<and> \<not> bounded_text 256 (jget link ''reason''))
           (ValueError ''reason is required for residual evidence''),
         fails (supported link \<and> list_all (\<lambda>k. jget link k = JNull) TRACE_IDENTITY_KEYS)
           (ValueError ''lacks an applicable TraceLoom identity''),
         fails (supported link \<and> is_device sp \<and>
             list_ex (\<lambda>k. jget link k = JNull) [''tree_id'', ''node_id'', ''occurrence_idx'', ''anchor_id''])
           (ValueError ''lacks the required device drill-down chain''),
         fails (supported link \<and> is_device sp \<and> list_ex (\<lambda>k. jget sp k = JNull) [''batch_id'', ''step_id''])
           (ValueError ''device evidence lacks batch/step identity'')]))"

definition add_link :: "records \<Rightarrow> jval \<Rightarrow> jval list list \<Rightarrow> jval list list res" where
  "add_link spans v seen = checked (check_traceloom_link spans seen v) (seen @ [link_identity (jobj_of v)])"

definition device_spans_linked :: "jobj list \<Rightarrow> jobj list \<Rightarrow> pyerr option" where
  "device_spans_linked spans links = fails
     (list_ex (\<lambda>sp. is_device sp \<and>
        \<not> list_ex (\<lambda>link. supported link \<and> jget link ''span_id'' = jget sp ''span_id'') links) spans)
     (ValueError ''has a device-backed span without an explicit TraceLoom drill-down link'')"

section \<open>An observation\<close>

definition validate_metrics :: "jval \<Rightarrow> pyerr option" where
  "validate_metrics v =
     (if \<not> is_jobj v then Some (ValueError ''metrics must be an object'')
      else first_error
        [exact_keys (jobj_of v) METRIC_KEYS [],
         first_error (map (\<lambda>(k, m). unless_finite m (fless (jnum m) (Fin 0)) ''must be non-negative'') (jobj_of v)),
         fails (\<not> is_jint (jget (jobj_of v) ''error_count'')) (ValueError ''error_count must be an integer'')])"

definition validate_status :: "jval \<Rightarrow> pyerr option" where
  "validate_status v =
     (if \<not> is_jobj v then Some (ValueError ''evidence_status must be an object'')
      else first_error
        [exact_keys (jobj_of v) EVIDENCE_KEYS [],
         first_error (map (\<lambda>k. fails (\<not> is_jbool (jget (jobj_of v) k)) (ValueError ''must be boolean''))
           [''identity_complete'', ''clock_ambiguous'', ''configuration_matched'']),
         fails (\<not> int_from 0 (jget (jobj_of v) ''event_loss_count'')) (ValueError ''event_loss_count must be non-negative integer'')])"

definition EVIDENCE_LISTS :: "string list" where
  "EVIDENCE_LISTS = [''normalized_events'', ''lifecycle_spans'', ''lifecycle_edges'', ''traceloom_links'']"

definition error_of :: "'a res \<Rightarrow> pyerr option" where
  "error_of r = (case r of Inl e \<Rightarrow> Some e | Inr _ \<Rightarrow> None)"

definition validate_evidence :: "nat \<Rightarrow> string list \<Rightarrow> jobj \<Rightarrow> pyerr option" where
  "validate_evidence limit candidates d =
     (let items = (\<lambda>k. jlist_of (jget d k)) in
      case each (add_record check_normalized_event ''event_id'') (items ''normalized_events'') [] of
        Inl e \<Rightarrow> Some e
      | Inr events \<Rightarrow>
          (case each (add_record (check_lifecycle_span events candidates) ''span_id'') (items ''lifecycle_spans'') [] of
             Inl e \<Rightarrow> Some e
           | Inr spans \<Rightarrow>
               (case each (add_edge spans) (items ''lifecycle_edges'') [] of
                  Inl e \<Rightarrow> Some e
                | Inr edges \<Rightarrow> first_error
                    [validate_acyclic_edges limit edges (map fst spans),
                     validate_overlap_accounting (map snd spans),
                     error_of (each (add_link spans) (items ''traceloom_links'') []),
                     device_spans_linked (map snd spans) (map jobj_of (items ''traceloom_links''))])))"

text \<open>The state is the set of run ids seen so far.\<close>

definition validate_observation :: "nat \<Rightarrow> string list \<Rightarrow> jval \<Rightarrow> string list \<Rightarrow> string list res" where
  "validate_observation limit candidates v run_ids =
     (if \<not> is_jobj v then Inl (ValueError ''must be an object'')
      else (let d = jobj_of v; items = (\<lambda>k. jlist_of (jget d k)) in checked (first_error
        [exact_keys d OBSERVATION_KEYS [],
         fails (\<not> bounded_text 64 (jget d ''run_id'') \<or> jstr_of (jget d ''run_id'') \<in> set run_ids)
           (ValueError ''run_id must be bounded and unique''),
         text_fields 128 d [''configuration_id'', ''clock_model_id''],
         validate_metrics (jget d ''metrics''),
         validate_status (jget d ''evidence_status''),
         fails (\<not> list_all (\<lambda>k. is_jlist (jget d k)) EVIDENCE_LISTS)
           (ValueError ''events, spans, edges, and links must be lists''),
         fails (items ''normalized_events'' = [] \<or> items ''lifecycle_spans'' = [])
           (ValueError ''must contain normalized events and lifecycle spans''),
         fails (list_ex (\<lambda>k. DATA_CAPACITY_RECORDS < int (length (items k))) EVIDENCE_LISTS)
           (ValueError ''exceeds repository record capacity''),
         validate_evidence limit candidates d])
        (jstr_of (jget d ''run_id'') # run_ids)))"

section \<open>A bundle\<close>

definition ORDERS :: "string list" where "ORDERS = [''AB'', ''BA'']"

text \<open>The state is the set of pair ids and the set of run ids.\<close>

definition validate_pair :: "nat \<Rightarrow> string list \<Rightarrow> jval \<Rightarrow> string list \<times> string list \<Rightarrow> (string list \<times> string list) res" where
  "validate_pair limit candidates v = (\<lambda>(pair_ids, run_ids).
     if \<not> is_jobj v then Inl (ValueError ''must be an object'')
     else (let pair = jobj_of v; pair_id = jget pair ''pair_id'';
               baseline = jobj_of (jget pair ''baseline''); treatment = jobj_of (jget pair ''treatment'') in
       case first_error
         [exact_keys pair PAIR_KEYS [],
          fails (\<not> bounded_text 64 pair_id \<or> jstr_of pair_id \<in> set pair_ids) (ValueError ''pair_id must be bounded and unique''),
          unless_in (jget pair ''order'') ORDERS ''order must be AB or BA'',
          validate_matching (jget pair ''matching'')] of
         Some e \<Rightarrow> Inl e
       | None \<Rightarrow>
           (case validate_observation limit candidates (jget pair ''baseline'') run_ids of
              Inl e \<Rightarrow> Inl e
            | Inr run_ids1 \<Rightarrow>
                (case validate_observation limit candidates (jget pair ''treatment'') run_ids1 of
                   Inl e \<Rightarrow> Inl e
                 | Inr run_ids2 \<Rightarrow> checked (first_error
                     [fails (jget baseline ''configuration_id'' \<noteq> jget treatment ''configuration_id'')
                        (ValueError ''has unmatched configuration_id''),
                      fails (jget baseline ''clock_model_id'' \<noteq> jget treatment ''clock_model_id'')
                        (ValueError ''has unmatched clock_model_id'')])
                     (jstr_of pair_id # pair_ids, run_ids2)))))"

definition orders_of :: "jval list \<Rightarrow> jval list" where
  "orders_of pairs = map (\<lambda>p. jget (jobj_of p) ''order'') (filter is_jobj pairs)"

fun alternate :: "jval list \<Rightarrow> bool" where
  "alternate (x # y # rest) = (x \<noteq> y \<and> alternate (y # rest))"
| "alternate _ = True"

definition validate_case_bundle :: "nat \<Rightarrow> string list \<Rightarrow> jobj \<Rightarrow> pyerr option" where
  "validate_case_bundle limit candidate_ids bundle =
     (let case_id = jget bundle ''case_id''; pairs = jget bundle ''pairs'' in first_error
       [fails (candidate_ids = [] \<or> list_ex (\<lambda>c. \<not> bounded_text 128 (JStr c)) candidate_ids)
          (ValueError ''candidate vocabulary is invalid''),
        fails (\<not> distinct candidate_ids) (ValueError ''candidate vocabulary ids must be unique''),
        reject_forbidden_keys (JObj bundle),
        exact_keys bundle TOP_LEVEL_KEYS [],
        fails (jget bundle ''schema'' \<noteq> JStr CASE_SCHEMA) (ValueError ''unexpected schema''),
        fails (\<not> bounded_text 64 case_id) (ValueError ''case_id must be a non-empty string of at most 64 characters''),
        fails (list_ex (\<lambda>t. contains t (py_lower (jstr_of case_id))) FORBIDDEN_CASE_TOKENS)
          (ValueError ''case_id must be semantically neutral''),
        fails (\<not> is_jlist pairs \<or> length (jlist_of pairs) < 5 \<or> DATA_CAPACITY_RECORDS < int (length (jlist_of pairs)))
          (ValueError ''a pilot case must contain 5-4096 matched pairs''),
        first_error (map (\<lambda>v. unless_in v ORDERS ''matched pair order must alternate AB/BA'') (orders_of (jlist_of pairs))),
        fails (\<not> alternate (orders_of (jlist_of pairs))) (ValueError ''matched pair order must alternate AB/BA''),
        error_of (each (validate_pair limit candidate_ids) (jlist_of pairs) ([], []))])"

section \<open>Loading\<close>

text \<open>The payload is what \<open>json.loads\<close> gave for the file.\<close>

definition load_case_bundle :: "nat \<Rightarrow> string list \<Rightarrow> jval \<Rightarrow> jobj res" where
  "load_case_bundle limit candidate_ids payload =
     (if \<not> is_jobj payload then Inl (ValueError ''top-level JSON value must be an object'')
      else checked (validate_case_bundle limit candidate_ids (jobj_of payload)) (jobj_of payload))"

definition load_candidate_ids :: "jval \<Rightarrow> string list res" where
  "load_candidate_ids payload =
     (if \<not> is_jobj payload then Inl (ValueError ''top-level JSON value must be an object'')
      else (let candidates = jget (jobj_of payload) ''candidates'';
                ids = map (\<lambda>item. jget (jobj_of item) ''id'') (filter is_jobj (jlist_of candidates)) in checked (first_error
        [fails (jget (jobj_of payload) ''schema'' \<noteq> JStr ''request-lifecycle-blind-candidates/v1'')
           (ValueError ''unsupported candidate vocabulary schema''),
         fails (\<not> is_jlist candidates \<or> jlist_of candidates = []) (ValueError ''candidate vocabulary must be a non-empty list''),
         fails (length ids \<noteq> length (jlist_of candidates) \<or> list_ex (\<lambda>i. \<not> bounded_text 128 i) ids)
           (ValueError ''candidate vocabulary contains an invalid id''),
         fails (\<not> distinct (map jstr_of ids)) (ValueError ''candidate vocabulary ids must be unique'')])
        (map jstr_of ids)))"

end
