(* ===== verification/Case_Evidence.thy ===== *)
theory Case_Evidence
  imports Case_Validation
begin

text \<open>
  What the checks of a bundle decide: the search for cycles accepts exactly the acyclic edge sets, the
  sweep over sorted intervals computes the size of their union, and an accepted observation is one
  whose spans, edges and links refer to what is there.
\<close>

section \<open>The search for cycles\<close>

definition edge_rel :: "edge_identity list \<Rightarrow> (string \<times> string) set" where
  "edge_rel edges = {(s, t). \<exists>k. (s, t, k) \<in> set edges}"

lemma successors_rel: "set (successors edges x) = edge_rel edges `` {x}"
  by (force simp: successors_def edge_rel_def)

lemma trancl_closed: "(x, y) \<in> E\<^sup>+ \<Longrightarrow> E `` V \<subseteq> V \<Longrightarrow> x \<in> V \<Longrightarrow> y \<in> V"
  by (induction rule: trancl_induct) auto

text \<open>
  What holds between two visits: the visited spans are closed under edges and on no cycle, none of
  them is being visited, and all spans being visited lead to the one visited next.
\<close>

definition search_ok :: "(string \<times> string) set \<Rightarrow> string list \<Rightarrow> string list \<Rightarrow> bool" where
  "search_ok E P V \<longleftrightarrow> distinct P \<and> set P \<inter> set V = {} \<and> E `` set V \<subseteq> set V \<and> (\<forall>v \<in> set V. (v, v) \<notin> E\<^sup>+)"

definition leads :: "(string \<times> string) set \<Rightarrow> string list \<Rightarrow> string \<Rightarrow> bool" where
  "leads E P x \<longleftrightarrow> (\<forall>p \<in> set P. (p, x) \<in> E\<^sup>+)"

text \<open>What a search from \<open>xs\<close> gives: it marks them, or finds a cycle, or runs out of frames.\<close>

definition search_result ::
  "(string \<times> string) set \<Rightarrow> string set \<Rightarrow> nat \<Rightarrow> string list \<Rightarrow> string list \<Rightarrow> string set \<Rightarrow> (string list \<times> string list) res \<Rightarrow> bool" where
  "search_result E N n P V X r \<longleftrightarrow> (case r of
     Inr (P', V') \<Rightarrow> P' = P \<and> set V \<subseteq> set V' \<and> X \<subseteq> set V' \<and> search_ok E P V'
   | Inl e \<Rightarrow> (case e of ValueError _ \<Rightarrow> \<not> acyclic E | RecursionError _ \<Rightarrow> length P + n \<le> card N | _ \<Rightarrow> False))"

lemma each_search:
  assumes step: "\<And>x V. x \<in> set xs \<Longrightarrow> search_ok E P V \<Longrightarrow> search_result E N n P V {x} (f x (P, V))"
  shows "search_ok E P V \<Longrightarrow> search_result E N n P V (set xs) (each f xs (P, V))"
  using step
proof (induction xs arbitrary: V)
  case (Cons x xs)
  from Cons.prems have here: "search_result E N n P V {x} (f x (P, V))" by simp
  show ?case
  proof (cases "f x (P, V)")
    case (Inl e)
    with here show ?thesis by (cases e) (simp_all add: search_result_def)
  next
    case (Inr s)
    with here obtain V' where V': "s = (P, V')" "set V \<subseteq> set V'" "x \<in> set V'" "search_ok E P V'"
      by (cases s) (auto simp: search_result_def)
    with Cons have "search_result E N n P V' (set xs) (each f xs (P, V'))" by simp
    with Inr V' show ?thesis
      by (auto simp: search_result_def split: sum.splits pyerr.splits prod.splits)
  qed
qed (simp add: search_result_def)

lemma mark_visited:
  assumes "search_ok E (x # P) V" "E `` {x} \<subseteq> set V"
  shows "search_ok E P (x # V)"
proof -
  have x: "x \<notin> set V" and closed: "E `` set V \<subseteq> set V" using assms by (auto simp: search_ok_def)
  have "(x, x) \<notin> E\<^sup>+"
  proof
    assume "(x, x) \<in> E\<^sup>+"
    then obtain y where "(x, y) \<in> E" "(y, x) \<in> E\<^sup>*" by (meson tranclD)
    then have "y \<in> set V" using assms(2) by auto
    with \<open>(y, x) \<in> E\<^sup>*\<close> closed trancl_closed [of y x E "set V"] x show False by (auto simp: rtrancl_eq_or_trancl)
  qed
  with assms show ?thesis by (auto simp: search_ok_def)
qed

lemma visit_search:
  assumes "finite N" "E = {(s, t). t \<in> set (succs s)}" "E \<subseteq> N \<times> N"
  shows "search_ok E P V \<Longrightarrow> leads E P x \<Longrightarrow> x \<in> N \<Longrightarrow> set P \<subseteq> N \<Longrightarrow>
    search_result E N n P V {x} (visit n succs x (P, V))"
proof (induction n arbitrary: P V x)
  case 0
  then have "card (set P) \<le> card N" using assms(1) by (intro card_mono)
  with 0 show ?case by (simp add: search_result_def search_ok_def distinct_card)
next
  case (Suc n)
  show ?case
  proof (cases "x \<in> set P \<or> x \<in> set V")
    case True
    then show ?thesis
      using Suc.prems by (auto simp: search_result_def leads_def acyclic_def)
  next
    case False
    have "search_result E N n (x # P) V (set (succs x)) (each (visit n succs) (succs x) (x # P, V))"
    proof (rule each_search)
      fix y V' assume y: "y \<in> set (succs x)" and ok: "search_ok E (x # P) V'"
      then have xy: "(x, y) \<in> E" by (simp add: assms(2))
      then have "leads E (x # P) y" using Suc.prems(2) by (auto simp: leads_def intro: trancl_into_trancl)
      with xy ok Suc.prems show "search_result E N n (x # P) V' {y} (visit n succs y (x # P, V'))"
        using assms(3) by (intro Suc.IH) auto
    next
      show "search_ok E (x # P) V" using Suc.prems(1) False by (auto simp: search_ok_def)
    qed
    moreover have "E `` {x} = set (succs x)" by (auto simp: assms(2))
    ultimately show ?thesis
      using False mark_visited [of E x P]
      by (auto simp: search_result_def split: sum.splits pyerr.splits prod.splits)
  qed
qed

lemma edge_check:
  assumes "list_all (\<lambda>(s, t, k). s \<in> set ids \<and> t \<in> set ids) edges"
  shows "(validate_acyclic_edges limit edges ids = None \<longrightarrow> acyclic (edge_rel edges)) \<and>
    (\<forall>m. validate_acyclic_edges limit edges ids = Some (ValueError m) \<longrightarrow> \<not> acyclic (edge_rel edges)) \<and>
    (length ids < limit \<longrightarrow> (validate_acyclic_edges limit edges ids = None \<longleftrightarrow> acyclic (edge_rel edges)) \<and>
       (\<forall>m. validate_acyclic_edges limit edges ids \<noteq> Some (RecursionError m)))"
proof -
  let ?E = "edge_rel edges" and ?r = "each (visit limit (successors edges)) ids ([], [])"
  have E: "?E = {(s, t). t \<in> set (successors edges s)}" by (auto simp: successors_rel)
  have N: "?E \<subseteq> set ids \<times> set ids" using assms by (auto simp: edge_rel_def list_all_iff)
  have r: "search_result ?E (set ids) limit [] [] (set ids) ?r"
  proof (rule each_search)
    fix x V assume "x \<in> set ids" "search_ok ?E [] V"
    then show "search_result ?E (set ids) limit [] V {x} (visit limit (successors edges) x ([], V))"
      using visit_search [OF _ E N] by (simp add: leads_def)
  qed (simp add: search_ok_def)
  have "acyclic ?E" if "?r = Inr (P, V)" for P V
  proof (rule acyclicI, rule allI, rule notI)
    fix x assume cycle: "(x, x) \<in> ?E\<^sup>+"
    then have "x \<in> set ids" using N by (metis mem_Sigma_iff subsetD tranclD)
    with r that cycle show False by (auto simp: search_result_def search_ok_def)
  qed
  moreover have "card (set ids) \<le> length ids" by (rule card_length)
  ultimately show ?thesis
    using r by (cases ?r) (auto simp: validate_acyclic_edges_def search_result_def split: pyerr.splits)
qed

text \<open>
  C16. The recursive edge check is acyclicity. Whenever the edges join known spans: an edge set that
  passes has no cycle, one that is refused has one, and with more stack frames than there are spans
  the check passes exactly the acyclic edge sets, so that it then raises nothing but the refusal.
\<close>
theorem edge_check_is_acyclicity:
  assumes "list_all (\<lambda>(s, t, k). s \<in> set ids \<and> t \<in> set ids) edges"
  shows "(validate_acyclic_edges limit edges ids = None \<longrightarrow> acyclic (edge_rel edges)) \<and>
    (\<forall>m. validate_acyclic_edges limit edges ids = Some (ValueError m) \<longrightarrow> \<not> acyclic (edge_rel edges)) \<and>
    (length ids < limit \<longrightarrow> (validate_acyclic_edges limit edges ids = None \<longleftrightarrow> acyclic (edge_rel edges)) \<and>
       (\<forall>m. validate_acyclic_edges limit edges ids \<noteq> Some (RecursionError m)))"
  using edge_check [OF assms] by blast

text \<open>The edges of spans in a row.\<close>

fun chain_edges :: "string list \<Rightarrow> edge_identity list" where
  "chain_edges (x # y # xs) = (x, y, ''precedes'') # chain_edges (y # xs)"
| "chain_edges _ = []"

lemma edge_check_is_acyclicity_witness:
  "validate_acyclic_edges 4 (chain_edges [''a'', ''b'', ''c'']) [''a'', ''b'', ''c''] = None \<and>
   acyclic (edge_rel (chain_edges [''a'', ''b'', ''c'']))"
proof -
  have "validate_acyclic_edges 4 (chain_edges [''a'', ''b'', ''c'']) [''a'', ''b'', ''c''] = None" by code_simp
  with edge_check_is_acyclicity [of "[''a'', ''b'', ''c'']" "chain_edges [''a'', ''b'', ''c'']" 4] show ?thesis by simp
qed

lemma chain_sources: "(s, t, k) \<in> set (chain_edges zs) \<Longrightarrow> s \<in> set zs"
  by (induction zs rule: chain_edges.induct) auto

lemma chain_targets: "(s, t, k) \<in> set (chain_edges zs) \<Longrightarrow> t \<in> set zs"
  by (induction zs rule: chain_edges.induct) auto

lemma chain_successors:
  "distinct zs \<Longrightarrow> Suc i < length zs \<Longrightarrow> successors (chain_edges zs) (zs ! i) = [zs ! Suc i]"
proof (induction zs arbitrary: i rule: chain_edges.induct)
  case (1 x y xs)
  have none: "filter (\<lambda>(s, t, k). s = x) (chain_edges (y # xs)) = []"
    using 1(2) chain_sources [of _ _ _ "y # xs"] by (fastforce simp: filter_empty_conv)
  show ?case
  proof (cases i)
    case 0
    with none show ?thesis by (simp add: successors_def)
  next
    case (Suc j)
    then have "(y # xs) ! j \<noteq> x" using 1(2,3) by (metis Suc_less_eq distinct.simps(2) length_Cons nth_mem Suc_lessD)
    with 1 Suc show ?thesis by (simp add: successors_def)
  qed
qed simp_all

lemma visit_chain:
  assumes "distinct zs" "\<And>i. Suc i < length zs \<Longrightarrow> succs (zs ! i) = [zs ! Suc i]"
  shows "n < length zs - i \<Longrightarrow> set P \<subseteq> set (take i zs) \<Longrightarrow>
    visit n succs (zs ! i) (P, []) = Inl (RecursionError ''maximum recursion depth exceeded'')"
proof (induction n arbitrary: i P)
  case (Suc n)
  then have i: "Suc i < length zs" by simp
  then have "zs ! i \<notin> set (take i zs)"
    using assms(1) by (auto simp: in_set_conv_nth distinct_conv_nth)
  then have "zs ! i \<notin> set P" using Suc.prems by blast
  moreover have "set (zs ! i # P) \<subseteq> set (take (Suc i) zs)"
    using Suc.prems i by (auto simp: take_Suc_conv_app_nth)
  then have "visit n succs (zs ! Suc i) (zs ! i # P, []) = Inl (RecursionError ''maximum recursion depth exceeded'')"
    using Suc.prems by (intro Suc.IH) auto
  ultimately show ?case using assms(2) [OF i] by simp
qed simp

lemma chain_last: "distinct zs \<Longrightarrow> zs \<noteq> [] \<Longrightarrow> successors (chain_edges zs) (last zs) = []"
proof (induction zs rule: chain_edges.induct)
  case (1 x y xs)
  then have "last (y # xs) \<noteq> x" using last_in_set by fastforce
  with 1 show ?case by (simp add: successors_def)
qed (simp_all add: successors_def)

lemma visit_leaf:
  assumes "x \<notin> set V" "succs x = []"
  shows "visit (Suc n) succs x ([], V) = Inr ([], x # V)"
  using assms by simp

lemma visit_above:
  assumes "x \<notin> set V" "succs x = [y]" "y \<in> set V" "y \<noteq> x"
  shows "visit (Suc (Suc n)) succs x ([], V) = Inr ([], x # V)"
  using assms by simp

lemma visit_backwards:
  assumes "distinct zs" "zs \<noteq> []" "\<And>i. Suc i < length zs \<Longrightarrow> succs (zs ! i) = [zs ! Suc i]" "succs (last zs) = []"
  shows "m \<le> length zs \<Longrightarrow>
    each (visit (Suc (Suc n)) succs) (rev (drop m zs)) ([], []) = Inr ([], drop m zs)"
proof (induction "length zs - m" arbitrary: m)
  case (Suc d)
  then have m: "m < length zs" by simp
  have here: "drop m zs = zs ! m # drop (Suc m) zs" using m by (rule Cons_nth_drop_Suc [symmetric])
  have fresh: "zs ! m \<notin> set (drop (Suc m) zs)"
    using assms(1) unfolding distinct_conv_nth by (auto simp: in_set_conv_nth)
  have "visit (Suc (Suc n)) succs (zs ! m) ([], drop (Suc m) zs) = Inr ([], zs ! m # drop (Suc m) zs)"
  proof (cases "Suc m < length zs")
    case True
    then have "zs ! Suc m \<in> set (drop (Suc m) zs)" using Cons_nth_drop_Suc [OF True] by (metis list.set_intros(1))
    with fresh show ?thesis
      using visit_above [of "zs ! m" "drop (Suc m) zs" succs "zs ! Suc m", OF fresh assms(3) [OF True]] by metis
  next
    case False
    then have "length zs - 1 = m" using m by simp
    then have "last zs = zs ! m" using last_conv_nth [OF assms(2)] by simp
    with visit_leaf [of "zs ! m" _ succs "Suc n", OF fresh] assms(4) show ?thesis by (simp del: visit.simps)
  qed
  moreover have "each (visit (Suc (Suc n)) succs) (rev (drop (Suc m) zs)) ([], []) = Inr ([], drop (Suc m) zs)"
    using Suc.hyps(1) [of "Suc m"] Suc.hyps(2) m by (simp del: visit.simps each.simps)
  ultimately show ?case unfolding here rev.simps each_append by (simp only: each.simps sum.case)
qed simp

lemma chain_acyclic: "distinct zs \<Longrightarrow> acyclic (edge_rel (chain_edges zs))"
proof (induction zs rule: chain_edges.induct)
  case (1 x y xs)
  have rel: "edge_rel (chain_edges (x # y # xs)) = insert (x, y) (edge_rel (chain_edges (y # xs)))"
    by (auto simp: edge_rel_def)
  have "t \<in> set (y # xs)" if "(s, t) \<in> edge_rel (chain_edges (y # xs))" for s t
    using that chain_targets unfolding edge_rel_def by blast
  then have "(y, x) \<notin> (edge_rel (chain_edges (y # xs)))\<^sup>*"
    using 1(2) by (metis distinct.simps(2) list.set_intros(1) rtranclE)
  with 1 show ?case unfolding rel acyclic_insert by simp
qed (simp_all add: edge_rel_def acyclic_def)

text \<open>
  C26. Whether a long chain of spans is accepted depends on where the search starts. Spans in a row, each
  preceding the next, have no cycle. If the search begins at one from which more spans are left in the
  row than there are stack frames, the check raises \<open>RecursionError\<close>; if it goes through the same
  spans from the last to the first, two frames are enough and it accepts. The source takes the order
  from the iteration of a set.
\<close>
theorem deep_chain_overflows:
  assumes "distinct xs" "k + limit < length xs"
  shows "validate_acyclic_edges limit (chain_edges xs) (xs ! k # rest) =
      Some (RecursionError ''maximum recursion depth exceeded'') \<and>
    acyclic (edge_rel (chain_edges xs)) \<and>
    (2 \<le> limit \<longrightarrow> validate_acyclic_edges limit (chain_edges xs) (rev xs) = None)"
proof (intro conjI impI)
  have ne: "xs \<noteq> []" using assms(2) by auto
  have "visit limit (successors (chain_edges xs)) (xs ! k) ([], []) =
      Inl (RecursionError ''maximum recursion depth exceeded'')"
    using visit_chain [OF assms(1) chain_successors [OF assms(1)], of limit k "[]"] assms(2) by simp
  then show "validate_acyclic_edges limit (chain_edges xs) (xs ! k # rest) =
      Some (RecursionError ''maximum recursion depth exceeded'')"
    by (simp add: validate_acyclic_edges_def)
  show "validate_acyclic_edges limit (chain_edges xs) (rev xs) = None" if two: "2 \<le> limit"
  proof -
    obtain n where "limit = Suc (Suc n)" using le_Suc_ex [OF two] by (auto simp: numeral_2_eq_2)
    with visit_backwards [OF assms(1) ne chain_successors [OF assms(1)] chain_last [OF assms(1) ne], of 0 n]
    show ?thesis by (simp add: validate_acyclic_edges_def del: visit.simps)
  qed
qed (rule chain_acyclic [OF assms(1)])

lemma deep_chain_overflows_witness:
  "validate_acyclic_edges 2 (chain_edges [''a'', ''b'', ''c'', ''d'']) [''b'', ''d'', ''a'', ''c''] =
      Some (RecursionError ''maximum recursion depth exceeded'') \<and>
   validate_acyclic_edges 2 (chain_edges [''a'', ''b'', ''c'', ''d'']) [''d'', ''c'', ''b'', ''a''] = None"
  using deep_chain_overflows [of "[''a'', ''b'', ''c'', ''d'']" 1 2 "[''d'', ''a'', ''c'']"] by simp

section \<open>Overlapping spans\<close>

text \<open>The instants of an interval, and of a list of them.\<close>

definition instants :: "int \<times> int \<Rightarrow> int set" where
  "instants iv = {fst iv..<snd iv}"

definition covered :: "(int \<times> int) list \<Rightarrow> int set" where
  "covered ivs = (\<Union>iv \<in> set ivs. instants iv)"

lemma finite_covered [simp]: "finite (covered ivs)"
  by (simp add: covered_def instants_def)

lemma union_from_card:
  "sorted_wrt (\<lambda>a b. fst a \<le> fst b) ivs \<Longrightarrow> \<forall>iv \<in> set ivs. s \<le> fst iv \<and> fst iv \<le> snd iv \<Longrightarrow> s \<le> f \<Longrightarrow>
    union_from s f ivs = int (card ({s..<f} \<union> covered ivs))"
proof (induction s f ivs rule: union_from.induct)
  case (1 s f)
  then show ?case by (simp add: covered_def)
next
  case (2 s f s' f' rest)
  have le: "s \<le> s'" "s' \<le> f'" and later: "\<forall>iv \<in> set rest. s' \<le> fst iv"
    using 2(3,4) by auto
  have cover: "covered ((s', f') # rest) = {s'..<f'} \<union> covered rest" by (simp add: covered_def instants_def)
  show ?case
  proof (cases "s' \<le> f")
    case True
    have "{s..<f} \<union> covered ((s', f') # rest) = {s..<max f f'} \<union> covered rest"
      using True le unfolding cover by auto
    moreover have "s \<le> max f f'" using 2(5) by simp
    ultimately show ?thesis
      using 2(1) [OF True] 2(3,4) True by simp
  next
    case False
    have "{s..<f} \<inter> ({s'..<f'} \<union> covered rest) = {}"
      using False later by (fastforce simp: covered_def instants_def)
    then have "card ({s..<f} \<union> ({s'..<f'} \<union> covered rest)) = nat (f - s) + card ({s'..<f'} \<union> covered rest)"
      by (simp add: card_Un_disjoint)
    moreover have "union_from s' f' rest = int (card ({s'..<f'} \<union> covered rest))"
      using 2(2) [OF False] later le 2(3,4) by simp
    ultimately show ?thesis using False 2(5) by (simp add: cover)
  qed
qed

lemma union_sweep:
  assumes "list_all (\<lambda>iv. fst iv \<le> snd iv) ivs"
  shows "union_ns ivs = int (card (\<Union>iv \<in> set ivs. {fst iv..<snd iv}))"
proof (cases "sort ivs")
  case (Cons iv rest)
  obtain s f where iv: "iv = (s, f)" by (cases iv)
  have ordered: "sorted ((s, f) # rest)" using sorted_sort [of ivs] unfolding Cons iv .
  have members: "set ivs = insert (s, f) (set rest)" using set_sort [of "\<lambda>x. x" ivs] unfolding Cons iv by simp
  have le: "s \<le> f" "\<forall>iv \<in> set rest. s \<le> fst iv \<and> fst iv \<le> snd iv"
    using assms ordered unfolding list_all_iff members by (auto simp: less_eq_prod_def)
  have "sorted_wrt (\<lambda>a b. fst a \<le> fst b) rest"
  proof (rule sorted_wrt_mono_rel [rotated])
    show "sorted_wrt (\<le>) rest" using ordered by simp
  qed (auto simp: less_eq_prod_def)
  then have "union_ns ivs = int (card ({s..<f} \<union> covered rest))"
    using union_from_card [OF _ le(2,1)] by (simp add: union_ns_def Cons iv)
  then show ?thesis by (simp add: members covered_def instants_def)
qed (use set_sort [of "\<lambda>x. x" ivs] in \<open>simp add: union_ns_def\<close>)

text \<open>
  C25. The sweep measures the union. For intervals that do not end before they start, in any order, what
  the sort and the sweep add up is the number of nanoseconds covered by at least one of them.
\<close>
theorem union_sweep_is_measure:
  assumes "list_all (\<lambda>iv. fst iv \<le> snd iv) ivs"
  shows "union_ns ivs = int (card (\<Union>iv \<in> set ivs. {fst iv..<snd iv}))"
  using union_sweep [OF assms] .

lemma union_sweep_is_measure_witness:
  "union_ns [(5, 9), (0, 3), (2, 6)] = 9 \<and> card (\<Union>iv \<in> set [(5, 9), (0, 3), (2, 6 :: int)]. {fst iv..<snd iv}) = 9"
proof -
  have "union_ns [(5, 9), (0, 3), (2, 6)] = 9" by code_simp
  with union_sweep_is_measure [of "[(5, 9), (0, 3), (2, 6)]"] show ?thesis by simp
qed

section \<open>Accepted observations\<close>

text \<open>A loop that checks each item against those before it, and adds it.\<close>

lemma each_add:
  assumes "each (\<lambda>v s. checked (chk s v) (s @ [g v])) vs s = Inr s'"
  shows "s' = s @ map g vs \<and> (\<forall>i < length vs. chk (s @ map g (take i vs)) (vs ! i) = None)"
  using assms
proof (induction vs arbitrary: s)
  case (Cons v vs)
  then have here: "chk s v = None" and rest: "each (\<lambda>v s. checked (chk s v) (s @ [g v])) vs (s @ [g v]) = Inr s'"
    by (auto simp: checked_def split: sum.splits option.splits)
  from Cons.IH [OF rest] here show ?case
    by (auto simp: nth_Cons split: nat.splits)
qed simp

lemma each_member: "each f xs s = Inr s' \<Longrightarrow> x \<in> set xs \<Longrightarrow> \<exists>s1 s2. f x s1 = Inr s2"
  by (induction xs arbitrary: s) (auto split: sum.splits)

lemma error_of_None [simp]: "error_of r = None \<longleftrightarrow> (\<exists>s. r = Inr s)"
  by (cases r) (simp_all add: error_of_def)

lemma added_distinct:
  assumes "\<And>i. i < length vs \<Longrightarrow> h (vs ! i) \<notin> set (map h (take i vs))"
  shows "distinct (map h vs)"
proof -
  have "h (vs ! i) \<noteq> h (vs ! j)" if "i < j" "j < length vs" for i j
  proof -
    have "vs ! i \<in> set (take j vs)" using that by (metis in_set_conv_nth length_take min.absorb4 nth_take)
    with assms [OF that(2)] show ?thesis unfolding set_map by (metis imageI)
  qed
  then show ?thesis by (auto simp: distinct_conv_nth) (metis linorder_neqE_nat)
qed

definition span_id_of :: "jobj \<Rightarrow> string" where "span_id_of sp = jstr_of (jget sp ''span_id'')"

abbreviation items :: "jobj \<Rightarrow> string \<Rightarrow> jval list" where "items d k \<equiv> jlist_of (jget d k)"

definition records_of :: "string \<Rightarrow> jval list \<Rightarrow> records" where
  "records_of key vs = map (\<lambda>v. (jstr_of (jget (jobj_of v) key), jobj_of v)) vs"

lemma records_added:
  assumes "each (add_record chk key) vs [] = Inr recs"
  shows "recs = records_of key vs \<and> (\<forall>i < length vs. chk (records_of key (take i vs)) (vs ! i) = None)"
  using each_add [of chk "\<lambda>v. (jstr_of (jget (jobj_of v) key), jobj_of v)" vs "[]" recs] assms
  by (simp add: add_record_def [abs_def] records_of_def)

lemma edges_added:
  assumes "each (add_edge spans) vs [] = Inr es"
  shows "es = map (edge_identity \<circ> jobj_of) vs \<and> (\<forall>v \<in> set vs. \<exists>seen. check_lifecycle_edge spans seen v = None)"
  using each_add [of "check_lifecycle_edge spans" "edge_identity \<circ> jobj_of" vs "[]" es] assms
  by (auto simp: add_edge_def [abs_def] in_set_conv_nth) blast

lemma accepted_edge_ends:
  assumes "check_lifecycle_edge spans seen v = None" "edge_identity (jobj_of v) = (s, t, k)"
  shows "s \<in> fst ` set spans" "t \<in> fst ` set spans" "k \<in> set LIFECYCLE_EDGE_KINDS"
    "same_fields (the (map_of spans s)) (the (map_of spans t)) REQUEST_IDENTITY"
    "k = ''precedes'' \<longrightarrow> jint_of (jget (the (map_of spans s)) ''end_ns'') \<le> jint_of (jget (the (map_of spans t)) ''start_ns'')"
  using assms
  by (auto simp: check_lifecycle_edge_def Let_def accept_simps edge_identity_def split: if_splits intro: rev_image_eqI)

lemma accepted_span:
  assumes "check_lifecycle_span events candidates seen v = None"
  shows "is_jobj v" "span_id_of (jobj_of v) \<notin> fst ` set seen" "jget (jobj_of v) ''span_id'' = JStr (span_id_of (jobj_of v))"
    "jget (jobj_of v) ''candidate_id'' \<in> JStr ` set candidates" "jget (jobj_of v) ''candidate_id'' \<noteq> JStr ABSTENTION_CANDIDATE"
    "fst (interval_of (jobj_of v)) \<le> snd (interval_of (jobj_of v))"
proof -
  note parts = assms [unfolded check_lifecycle_span_def Let_def if_split [of "\<lambda>x. x = None"] first_error_None list.set ball_simps fails_None not_not]
  show obj: "is_jobj v" using parts by blast
  from parts have ids: "bounded_text 96 (jget (jobj_of v) ''span_id'')" "jstr_of (jget (jobj_of v) ''span_id'') \<notin> fst ` set seen"
    and candidate: "unless_in (jget (jobj_of v) ''candidate_id'') candidates ''candidate_id is not a measurable candidate'' = None"
      "jget (jobj_of v) ''candidate_id'' \<noteq> JStr ABSTENTION_CANDIDATE"
    and interval: "\<not> jint_of (jget (jobj_of v) ''end_ns'') < jint_of (jget (jobj_of v) ''start_ns'')"
    by blast+
  show "span_id_of (jobj_of v) \<notin> fst ` set seen" using ids(2) by (simp add: span_id_of_def)
  show "jget (jobj_of v) ''span_id'' = JStr (span_id_of (jobj_of v))"
    using ids(1) unfolding span_id_of_def by (cases "jget (jobj_of v) ''span_id''") simp_all
  show "jget (jobj_of v) ''candidate_id'' \<in> JStr ` set candidates" using candidate(1) by (auto simp: unless_in_None)
  show "jget (jobj_of v) ''candidate_id'' \<noteq> JStr ABSTENTION_CANDIDATE" by (rule candidate(2))
  show "fst (interval_of (jobj_of v)) \<le> snd (interval_of (jobj_of v))" using interval by (simp add: interval_of_def)
qed

text \<open>What holds of the arms of an accepted bundle.\<close>

definition objects :: "jobj \<Rightarrow> string \<Rightarrow> jobj list" where
  "objects d k = map jobj_of (items d k)"

definition span_named :: "jobj \<Rightarrow> string \<Rightarrow> jobj" where
  "span_named d s = the (map_of (map (\<lambda>sp. (span_id_of sp, sp)) (objects d ''lifecycle_spans'')) s)"

definition edge_ok :: "jobj \<Rightarrow> edge_identity \<Rightarrow> bool" where
  "edge_ok d = (\<lambda>(s, t, k). {s, t} \<subseteq> set (map span_id_of (objects d ''lifecycle_spans'')) \<and> k \<in> set LIFECYCLE_EDGE_KINDS \<and>
     same_fields (span_named d s) (span_named d t) REQUEST_IDENTITY \<and>
     (k \<noteq> ''precedes'' \<or> snd (interval_of (span_named d s)) \<le> fst (interval_of (span_named d t))))"

definition group_ok :: "jobj list \<Rightarrow> bool" where
  "group_ok members \<longleftrightarrow> \<not> exceeds (fsum (map accounted_of members))
     (Fin (rnd (of_nat (card (\<Union>sp \<in> set members. {fst (interval_of sp)..<snd (interval_of sp)})) / 1000000)))"

definition consistent_arm :: "string list \<Rightarrow> jobj \<Rightarrow> bool" where
  "consistent_arm candidates d \<longleftrightarrow>
     distinct (map span_id_of (objects d ''lifecycle_spans'')) \<and>
     list_all (\<lambda>sp. jget sp ''candidate_id'' \<in> JStr ` (set candidates - {ABSTENTION_CANDIDATE})) (objects d ''lifecycle_spans'') \<and>
     list_all (edge_ok d) (map edge_identity (objects d ''lifecycle_edges'')) \<and>
     acyclic (edge_rel (map edge_identity (objects d ''lifecycle_edges''))) \<and>
     list_all (\<lambda>sp. group_ok (filter (\<lambda>s. overlap_key s = overlap_key sp) (objects d ''lifecycle_spans''))) (objects d ''lifecycle_spans'')"

lemma group_accepted:
  assumes "check_group members = None" "\<forall>sp \<in> set members. fst (interval_of sp) \<le> snd (interval_of sp)"
  shows "group_ok members"
proof -
  have measure: "union_ns (map interval_of members) = int (card (\<Union>sp \<in> set members. {fst (interval_of sp)..<snd (interval_of sp)}))"
    using union_sweep [of "map interval_of members"] assms(2) by (simp add: list_all_iff)
  show ?thesis
    using assms(1) by (auto simp: check_group_def group_ok_def measure float_of_rat_def accept_simps split: if_splits)
qed

lemma overlap_accepted:
  "validate_overlap_accounting spans = None \<Longrightarrow> sp \<in> set spans \<Longrightarrow> check_group (filter (\<lambda>s. overlap_key s = overlap_key sp) spans) = None"
  by (auto simp: validate_overlap_accounting_def members_of_def accept_simps)

lemma evidence_accepted:
  assumes "validate_evidence limit candidates d = None"
  shows "consistent_arm candidates d"
proof -
  let ?spans = "records_of ''span_id'' (items d ''lifecycle_spans'')"
  let ?spans_of = "\<lambda>events. each (add_record (check_lifecycle_span events candidates) ''span_id'') (items d ''lifecycle_spans'') []"
  obtain events where events: "each (add_record check_normalized_event ''event_id'') (items d ''normalized_events'') [] = Inr events"
    using assms by (cases "each (add_record check_normalized_event ''event_id'') (items d ''normalized_events'') []")
      (simp_all add: validate_evidence_def Let_def)
  obtain spans where spans: "?spans_of events = Inr spans"
    using assms by (cases "?spans_of events") (simp_all add: validate_evidence_def Let_def events)
  obtain es where es: "each (add_edge spans) (items d ''lifecycle_edges'') [] = Inr es"
    using assms by (cases "each (add_edge spans) (items d ''lifecycle_edges'') []") (simp_all add: validate_evidence_def Let_def events spans)
  have acyclic: "validate_acyclic_edges limit es (map fst spans) = None" and overlap: "validate_overlap_accounting (map snd spans) = None"
    using assms by (simp_all add: validate_evidence_def Let_def events spans es first_error_None)
  have sp: "spans = ?spans" and
    checked: "\<And>i. i < length (items d ''lifecycle_spans'') \<Longrightarrow> check_lifecycle_span events candidates
      (records_of ''span_id'' (take i (items d ''lifecycle_spans''))) (items d ''lifecycle_spans'' ! i) = None"
    using records_added [OF spans] by auto
  have ids: "map fst ?spans = map span_id_of (objects d ''lifecycle_spans'')" "map snd ?spans = objects d ''lifecycle_spans''"
    by (simp_all add: records_of_def objects_def span_id_of_def)
  have each: "\<exists>seen. check_lifecycle_span events candidates seen v = None" if "v \<in> set (items d ''lifecycle_spans'')" for v
    using that checked by (metis in_set_conv_nth)
  have "distinct (map (span_id_of \<circ> jobj_of) (items d ''lifecycle_spans''))"
  proof (rule added_distinct)
    fix i assume "i < length (items d ''lifecycle_spans'')"
    from accepted_span(2) [OF checked [OF this]]
    show "(span_id_of \<circ> jobj_of) (items d ''lifecycle_spans'' ! i) \<notin> set (map (span_id_of \<circ> jobj_of) (take i (items d ''lifecycle_spans'')))"
      by (auto simp: records_of_def span_id_of_def image_image)
  qed
  then have "distinct (map span_id_of (objects d ''lifecycle_spans''))" by (simp add: objects_def)
  moreover have "list_all (\<lambda>sp. jget sp ''candidate_id'' \<in> JStr ` (set candidates - {ABSTENTION_CANDIDATE})) (objects d ''lifecycle_spans'')"
    unfolding list_all_iff objects_def set_map
  proof (clarify, goal_cases)
    case (1 _ v)
    from each [OF 1] obtain seen where "check_lifecycle_span events candidates seen v = None" by blast
    from accepted_span(4,5) [OF this] show ?case by blast
  qed
  moreover have edges: "list_all (edge_ok d) (map edge_identity (objects d ''lifecycle_edges''))"
  proof -
    have named: "the (map_of ?spans s) = span_named d s" for s
      by (simp add: span_named_def records_of_def objects_def span_id_of_def comp_def)
    have "edge_ok d (edge_identity (jobj_of v))" if "v \<in> set (items d ''lifecycle_edges'')" for v
    proof -
      obtain s t k where e: "edge_identity (jobj_of v) = (s, t, k)" by (metis prod_cases3)
      from that edges_added [OF es] obtain seen where "check_lifecycle_edge ?spans seen v = None" by (auto simp: sp)
      note ends = accepted_edge_ends [OF this e, unfolded named]
      have "fst ` set ?spans = set (map span_id_of (objects d ''lifecycle_spans''))" using ids(1) by (metis set_map)
      with ends show ?thesis unfolding edge_ok_def e prod.case interval_of_def fst_conv snd_conv by blast
    qed
    then show ?thesis by (simp add: list_all_iff objects_def)
  qed
  moreover have "es = map edge_identity (objects d ''lifecycle_edges'')" using edges_added [OF es] by (simp add: objects_def)
  then have "acyclic (edge_rel (map edge_identity (objects d ''lifecycle_edges'')))"
  proof -
    assume es_eq: "es = map edge_identity (objects d ''lifecycle_edges'')"
    have "list_all (\<lambda>(s, t, k). s \<in> set (map fst spans) \<and> t \<in> set (map fst spans)) es"
      unfolding list_all_iff
    proof (clarify, goal_cases)
      case (1 s t k)
      then have "edge_ok d (s, t, k)" using edges unfolding es_eq list_all_iff by blast
      then show ?case unfolding sp ids edge_ok_def prod.case by blast
    qed
    from edge_check [OF this, of limit] acyclic show ?thesis unfolding es_eq by blast
  qed
  moreover have "list_all (\<lambda>sp. group_ok (filter (\<lambda>s. overlap_key s = overlap_key sp) (objects d ''lifecycle_spans''))) (objects d ''lifecycle_spans'')"
    unfolding list_all_iff
  proof
    fix x assume "x \<in> set (objects d ''lifecycle_spans'')"
    with overlap have "check_group (filter (\<lambda>s. overlap_key s = overlap_key x) (objects d ''lifecycle_spans'')) = None"
      unfolding sp ids(2) by (rule overlap_accepted)
    moreover have "fst (interval_of y) \<le> snd (interval_of y)" if "y \<in> set (objects d ''lifecycle_spans'')" for y
    proof -
      from that obtain v where "v \<in> set (items d ''lifecycle_spans'')" "y = jobj_of v" unfolding objects_def set_map by blast
      with each accepted_span(6) show ?thesis by blast
    qed
    ultimately show "group_ok (filter (\<lambda>s. overlap_key s = overlap_key x) (objects d ''lifecycle_spans''))"
      by (intro group_accepted) auto
  qed
  ultimately show ?thesis by (simp add: consistent_arm_def)
qed

end
