(* ===== verification/Case_Scoring.thy ===== *)
theory Case_Scoring
  imports Case_Evidence "HOL-Library.AList"
begin

text \<open>
  The scorer of the blind attribution (\<open>blind_attribution.py\<close>): matched differences for each candidate,
  the evidence behind them, the bootstrap, and the reasons to abstain. \<open>draws\<close> holds the indices the
  seeded random generator gives, one list for each resample. \<open>db\<close> stands for the TraceLoom databases:
  \<open>None\<close> where a run has none, otherwise the rows the adapter's SQL resolves links to, \<open>None\<close> when it
  raises its own error.
\<close>

section \<open>Constants\<close>

definition RESULT_SCHEMA :: string where "RESULT_SCHEMA = ''request-lifecycle-blind-result/v1''"
definition BOOTSTRAP_SEED :: int where "BOOTSTRAP_SEED = 2026082701"
definition BOOTSTRAP_RESAMPLES :: int where "BOOTSTRAP_RESAMPLES = 10000"
definition MIN_ABSOLUTE_FLOOR_MS :: pyfloat where "MIN_ABSOLUTE_FLOOR_MS = Fin 5"
definition MIN_DOMINANCE_SHARE :: pyfloat where "MIN_DOMINANCE_SHARE = lit (60 / 100)"
definition MAX_RESIDUAL_SHARE :: pyfloat where "MAX_RESIDUAL_SHARE = lit (40 / 100)"

section \<open>Order statistics\<close>

text \<open>\<open>ordered[max(0, math.ceil(quantile * len(ordered)) - 1)]\<close>, of a list that is not empty.\<close>

definition rank_index :: "rat \<Rightarrow> nat \<Rightarrow> nat" where
  "rank_index quantile n = (case fmul (lit quantile) (Fin (of_nat n)) of Fin x \<Rightarrow> nat (\<lceil>x\<rceil> - 1) | _ \<Rightarrow> 0)"

definition nearest_rank :: "pyfloat list \<Rightarrow> rat \<Rightarrow> pyfloat" where
  "nearest_rank ordered quantile = ordered ! rank_index quantile (length ordered)"

definition iqr :: "pyfloat list \<Rightarrow> pyfloat" where
  "iqr values = (let ordered = sorted_by fless values
     in fsub (nearest_rank ordered (75 / 100)) (nearest_rank ordered (25 / 100)))"

definition percentile_interval :: "pyfloat list \<Rightarrow> pyfloat \<times> pyfloat" where
  "percentile_interval values = (let ordered = sorted_by fless values
     in (nearest_rank ordered (25 / 1000), nearest_rank ordered (975 / 1000)))"

text \<open>The floor from five null pairs: the nearest-rank p95 of the absolute differences, at least 5 ms.\<close>

definition calibrate_noise_floor :: "jval list \<Rightarrow> (pyfloat \<times> pyfloat) res" where
  "calibrate_noise_floor deltas =
     (if length deltas \<noteq> 5 then Inl (ValueError ''formal calibration requires exactly five matched null pairs'')
      else case each (\<lambda>v acc. case unless_finite v False ''calibration deltas must be finite numbers'' of Some e \<Rightarrow> Inl e
             | None \<Rightarrow> map_sum id (\<lambda>x. acc @ [fabs x]) (to_float v)) deltas [] of
        Inl e \<Rightarrow> Inl e
      | Inr values \<Rightarrow> (let p95 = sorted_by fless values ! rank_index (95 / 100) (length values)
          in Inr (p95, fmax MIN_ABSOLUTE_FLOOR_MS p95)))"

section \<open>Totals of an arm\<close>

definition dict_get :: "(string \<times> 'a) list \<Rightarrow> string \<Rightarrow> 'a \<Rightarrow> 'a" where
  "dict_get m k v = (case map_of m k of None \<Rightarrow> v | Some x \<Rightarrow> x)"

definition candidate_of :: "jobj \<Rightarrow> string" where
  "candidate_of sp = jstr_of (jget sp ''candidate_id'')"

definition candidate_totals :: "jobj list \<Rightarrow> (string \<times> pyfloat) list" where
  "candidate_totals spans = foldl (\<lambda>m sp. AList.update (candidate_of sp)
     (fadd (dict_get m (candidate_of sp) (Fin 0)) (accounted_of sp)) m) [] spans"

definition stage_totals :: "jobj list \<Rightarrow> (string \<times> pyfloat) list" where
  "stage_totals spans = map (\<lambda>(k, v). (k, fround9 v)) (sort_key fst (candidate_totals spans))"

definition arm :: "jobj \<Rightarrow> string \<Rightarrow> jobj" where
  "arm pair k = jobj_of (jget pair k)"

section \<open>The five views\<close>

definition view_arm :: "string \<Rightarrow> jobj \<Rightarrow> jobj" where
  "view_arm view_name d =
     (let base = map (\<lambda>k. (k, jget d k)) [''run_id'', ''configuration_id'', ''clock_model_id'', ''evidence_status''];
          metrics = [(''metrics'', jget d ''metrics'')]; spans = [(''spans'', jget d ''lifecycle_spans'')] in
      base @
      (if view_name = ''aggregate_metrics'' then metrics
       else if view_name = ''flat_stage_timers'' then
         [(''stage_timers_ms'', JObj (map (\<lambda>(k, v). (k, JFloat v)) (stage_totals (objects d ''lifecycle_spans''))))]
       else if view_name = ''raw_normalized_events'' then metrics @ [(''events'', jget d ''normalized_events'')]
       else if view_name = ''lifecycle_spans_without_causal_ranking'' then metrics @ spans
       else metrics @ spans @ [(''edges'', jget d ''lifecycle_edges''), (''traceloom_links'', jget d ''traceloom_links'')]))"

definition view_pair :: "string \<Rightarrow> jobj \<Rightarrow> jobj" where
  "view_pair view_name pair =
     [(''pair_id'', jget pair ''pair_id''), (''order'', jget pair ''order''), (''matching'', jget pair ''matching''),
      (''baseline'', JObj (view_arm view_name (arm pair ''baseline''))),
      (''treatment'', JObj (view_arm view_name (arm pair ''treatment'')))]"

definition render_comparison_views :: "jobj \<Rightarrow> (string \<times> jobj) list" where
  "render_comparison_views bundle = map (\<lambda>v. (v,
     [(''schema'', JStr ''request-lifecycle-blind-view/v1''), (''case_id'', jget bundle ''case_id''), (''view'', JStr v),
      (''pairs'', JList (map (\<lambda>p. JObj (view_pair v p)) (objects bundle ''pairs'')))])) VIEW_NAMES"

section \<open>Evidence of an observation\<close>

type_synonym databases = "string \<Rightarrow> (jobj list \<Rightarrow> jobj list option) option"

fun truthy :: "jval \<Rightarrow> bool" where
  "truthy JNull = False"
| "truthy (JBool b) = b"
| "truthy (JInt i) = (i \<noteq> 0)"
| "truthy (JFloat x) = (x \<noteq> Fin 0)"
| "truthy (JStr s) = (s \<noteq> [])"
| "truthy (JList l) = (l \<noteq> [])"
| "truthy (JObj d) = (d \<noteq> [])"

text \<open>Two numbers are equal when their values are, other values when they are the same.\<close>

fun eq_num :: "jval \<Rightarrow> pyfloat" where
  "eq_num (JBool b) = Fin (if b then 1 else 0)"
| "eq_num v = jnum v"

definition loose_eq :: "jval \<Rightarrow> jval \<Rightarrow> bool" where
  "loose_eq v w = (if eq_num v \<noteq> NaN \<and> eq_num w \<noteq> NaN then feq (eq_num v) (eq_num w) else v = w)"

definition over_thousand :: "jval \<Rightarrow> pyfloat res" where
  "over_thousand v = (case v of JInt i \<Rightarrow> float_of_rat (of_int i / 1000) | _ \<Rightarrow> Inr (fdiv (jnum v) (Fin 1000)))"

definition device_cost :: "jobj \<Rightarrow> jval \<Rightarrow> string list res" where
  "device_cost sp total_us =
     (let mismatch = Inr [''traceloom_device_cost_mismatch''] in
      case finite_number total_us of
        Inl e \<Rightarrow> Inl e
      | Inr False \<Rightarrow> mismatch
      | Inr True \<Rightarrow>
          if fless (jnum total_us) (Fin 0) then mismatch
          else case over_thousand total_us of
            Inl e \<Rightarrow> Inl e
          | Inr ms \<Rightarrow> if exceeds (jnum (jget sp ''accounted_duration_ms'')) ms then mismatch else Inr [])"

definition verify_row :: "jobj list \<Rightarrow> jobj \<Rightarrow> string list \<Rightarrow> string list res" where
  "verify_row spans row reasons =
     (let r1 = reasons @ (if truthy (jget row ''source_lineage'') then [] else [''traceloom_resolution_failure'']) in
      case find (\<lambda>sp. jget sp ''span_id'' = jget row ''span_id'') spans of
        None \<Rightarrow> Inl (KeyError ''span_id'')
      | Some sp \<Rightarrow>
          if \<not> is_device sp then Inr r1
          else (let occurrence = jget row ''tree_occurrence''; o' = jobj_of occurrence in
            if \<not> is_jobj occurrence then Inr (r1 @ [''traceloom_device_occurrence_missing''])
            else map_sum id (\<lambda>cost. r1 @
                   (if loose_eq (jget o' ''start_ns'') (jget sp ''start_ns'') \<and> loose_eq (jget o' ''end_ns'') (jget sp ''end_ns'')
                    then [] else [''traceloom_device_occurrence_mismatch'']) @ cost)
                 (device_cost sp (jget o' ''total_us''))))"

definition verify_traceloom_evidence :: "databases \<Rightarrow> jobj \<Rightarrow> string list res" where
  "verify_traceloom_evidence db d =
     (let links = objects d ''traceloom_links'' in
      if links = [] then Inr []
      else case db (jstr_of (jget d ''run_id'')) of
        None \<Rightarrow> Inr [''traceloom_evidence_not_verified'']
      | Some resolve \<Rightarrow>
          (case resolve links of
             None \<Rightarrow> Inr [''traceloom_resolution_failure'']
           | Some rows \<Rightarrow>
               if length rows \<noteq> length links \<or> list_ex (\<lambda>r. \<not> truthy (jget r ''resolved'')) rows
               then Inr [''unsupported_or_ambiguous_traceloom_link'']
               else each (verify_row (objects d ''lifecycle_spans'')) rows []))"

definition status_reasons :: "jobj \<Rightarrow> string list" where
  "status_reasons d =
     (let status = jobj_of (jget d ''evidence_status'') in
      (if truthy (jget status ''identity_complete'') then [] else [''incomplete_identity'']) @
      (if truthy (jget status ''event_loss_count'') then [''event_loss''] else []) @
      (if truthy (jget status ''clock_ambiguous'') then [''clock_ambiguity''] else []) @
      (if truthy (jget status ''configuration_matched'') then [] else [''unmatched_configuration'']) @
      (if list_all supported (objects d ''lifecycle_spans'') then [] else [''unsupported_lifecycle_span'']) @
      (if list_all supported (objects d ''normalized_events'') then [] else [''unsupported_normalized_event'']) @
      (if list_all supported (objects d ''traceloom_links'') then [] else [''unsupported_or_ambiguous_traceloom_link'']))"

record packet =
  pk_span_ids :: "string list"
  pk_owners :: "string list"
  pk_edge_kinds :: "string list"
  pk_link_count :: nat

definition empty_packet :: packet where
  "empty_packet = \<lparr>pk_span_ids = [], pk_owners = [], pk_edge_kinds = [], pk_link_count = 0\<rparr>"

text \<open>The kinds of the edges at a span, and the number of its supported links.\<close>

definition incident_kinds :: "jobj \<Rightarrow> jval \<Rightarrow> string list" where
  "incident_kinds d span_id = remdups (map (\<lambda>e. jstr_of (jget e ''kind''))
     (filter (\<lambda>e. jget e ''source_span_id'' = span_id \<or> jget e ''target_span_id'' = span_id) (objects d ''lifecycle_edges'')))"

definition supported_links :: "jobj \<Rightarrow> jval \<Rightarrow> nat" where
  "supported_links d span_id =
     length (filter (\<lambda>l. supported l \<and> jget l ''span_id'' = span_id) (objects d ''traceloom_links''))"

definition causally_linked :: "jobj \<Rightarrow> jval \<Rightarrow> bool" where
  "causally_linked d span_id \<longleftrightarrow> (\<exists>k \<in> set (incident_kinds d span_id). k \<noteq> ''precedes'') \<or> supported_links d span_id \<noteq> 0"

definition add_span :: "jobj \<Rightarrow> jobj \<Rightarrow> packet \<Rightarrow> packet" where
  "add_span d sp p =
     \<lparr>pk_span_ids = List.insert (jstr_of (jget d ''run_id'') @ CHR 0x00 # jstr_of (jget sp ''span_id'')) (pk_span_ids p),
      pk_owners = List.insert (jstr_of (jget sp ''owner'')) (pk_owners p),
      pk_edge_kinds = fold List.insert (incident_kinds d (jget sp ''span_id'')) (pk_edge_kinds p),
      pk_link_count = pk_link_count p + supported_links d (jget sp ''span_id'')\<rparr>"

definition collect_span ::
  "jobj \<Rightarrow> jobj \<Rightarrow> (string \<times> packet) list \<times> string list \<Rightarrow> ((string \<times> packet) list \<times> string list) res" where
  "collect_span d sp = (\<lambda>(evidence, reasons).
     case map_of evidence (candidate_of sp) of
       None \<Rightarrow> Inl (KeyError (candidate_of sp))
     | Some p \<Rightarrow> Inr (AList.update (candidate_of sp) (add_span d sp p) evidence,
         reasons @ (if causally_linked d (jget sp ''span_id'') then [] else [''unlinked_lifecycle_span''])))"

definition collect_candidate_evidence ::
  "jobj \<Rightarrow> (string \<times> packet) list \<times> string list \<Rightarrow> ((string \<times> packet) list \<times> string list) res" where
  "collect_candidate_evidence d = each (collect_span d) (objects d ''lifecycle_spans'')"

section \<open>The pairs\<close>

record tally_state =
  ts_evidence :: "(string \<times> packet) list"
  ts_reasons :: "string list"
  ts_loss :: int
  ts_deltas :: "(string \<times> pyfloat list) list"

definition score_arm :: "databases \<Rightarrow> jobj \<Rightarrow> tally_state \<Rightarrow> tally_state res" where
  "score_arm db d st =
     (case verify_traceloom_evidence db d of
        Inl e \<Rightarrow> Inl e
      | Inr verified \<Rightarrow>
          map_sum id (\<lambda>(evidence, reasons). st\<lparr>ts_evidence := evidence, ts_reasons := reasons,
              ts_loss := ts_loss st + jint_of (jget (jobj_of (jget d ''evidence_status'')) ''event_loss_count'')\<rparr>)
            (collect_candidate_evidence d (ts_evidence st, ts_reasons st @ status_reasons d @ verified)))"

definition pair_delta :: "jobj \<Rightarrow> string \<Rightarrow> pyfloat" where
  "pair_delta pair candidate =
     fsub (dict_get (candidate_totals (objects (arm pair ''treatment'') ''lifecycle_spans'')) candidate (Fin 0))
          (dict_get (candidate_totals (objects (arm pair ''baseline'') ''lifecycle_spans'')) candidate (Fin 0))"

definition score_pair :: "databases \<Rightarrow> jobj \<Rightarrow> tally_state \<Rightarrow> tally_state res" where
  "score_pair db pair st =
     (case score_arm db (arm pair ''baseline'') st of
        Inl e \<Rightarrow> Inl e
      | Inr st1 \<Rightarrow> map_sum id (\<lambda>st2. st2\<lparr>ts_deltas := map (\<lambda>(c, ds). (c, ds @ [pair_delta pair c])) (ts_deltas st2)\<rparr>)
          (score_arm db (arm pair ''treatment'') st1))"

section \<open>Ranking and bootstrap\<close>

text \<open>The sort key \<open>(-median, id)\<close>.\<close>

definition ranks_before :: "(string \<Rightarrow> pyfloat) \<Rightarrow> string \<Rightarrow> string \<Rightarrow> bool" where
  "ranks_before med a b \<longleftrightarrow> (if feq (med a) (med b) then a < b else fless (fneg (med a)) (fneg (med b)))"

definition ranked_candidates :: "(string \<Rightarrow> pyfloat) \<Rightarrow> string list \<Rightarrow> string list" where
  "ranked_candidates med candidates = filter (\<lambda>c. fless (Fin 0) (med c)) (sorted_by (ranks_before med) candidates)"

definition positive_total :: "(string \<Rightarrow> pyfloat) \<Rightarrow> string list \<Rightarrow> pyfloat" where
  "positive_total med candidates = fsum (map (\<lambda>c. fmax (Fin 0) (med c)) candidates)"

definition dominance_of :: "(string \<Rightarrow> pyfloat) \<Rightarrow> string list \<Rightarrow> pyfloat \<Rightarrow> pyfloat" where
  "dominance_of med ranked mass = (case ranked of [] \<Rightarrow> Fin 0
     | best # _ \<Rightarrow> if mass = Fin 0 then Fin 0 else fdiv (fmax (Fin 0) (med best)) mass)"

definition residual_of :: "pyfloat \<Rightarrow> pyfloat \<Rightarrow> pyfloat" where
  "residual_of dominance mass = (if mass = Fin 0 then Fin 1 else fsub (Fin 1) dominance)"

definition resampled :: "nat list list \<Rightarrow> pyfloat list \<Rightarrow> pyfloat list" where
  "resampled draws ds = map (\<lambda>idx. fmedian (map ((!) ds) idx)) draws"

text \<open>\<open>min(candidates, key=...)\<close>: the first of the least.\<close>

fun first_least :: "('a \<Rightarrow> 'a \<Rightarrow> bool) \<Rightarrow> 'a list \<Rightarrow> 'a" where
  "first_least lt (x # y # xs) = first_least lt ((if lt y x then y else x) # xs)"
| "first_least lt xs = hd xs"

definition winner :: "(string \<Rightarrow> pyfloat list) \<Rightarrow> string list \<Rightarrow> nat list \<Rightarrow> string option" where
  "winner deltas candidates idx =
     (let med = (\<lambda>c. fmedian (map ((!) (deltas c)) idx)); w = first_least (ranks_before med) candidates
      in if fless (Fin 0) (med w) then Some w else None)"

definition top1_count :: "(string \<Rightarrow> pyfloat list) \<Rightarrow> string list \<Rightarrow> nat list list \<Rightarrow> string \<Rightarrow> nat" where
  "top1_count deltas candidates draws c = length (filter (\<lambda>idx. winner deltas candidates idx = Some c) draws)"

section \<open>The result\<close>

record candidate_score =
  cs_candidate_id :: string
  cs_paired_deltas_ms :: "pyfloat list"
  cs_median_delta_ms :: pyfloat
  cs_iqr_delta_ms :: pyfloat
  cs_bootstrap_ci95_ms :: "pyfloat \<times> pyfloat"
  cs_positive_delta_share :: pyfloat
  cs_top1_selection_frequency :: pyfloat
  cs_span_count :: nat
  cs_owners :: "string list"
  cs_edge_kinds :: "string list"
  cs_traceloom_link_count :: nat

record attribution_result =
  ar_case_id :: jval
  ar_top1 :: "string option"
  ar_top3 :: "string list"
  ar_candidates :: "candidate_score list"
  ar_dominance_score :: pyfloat
  ar_confidence_score :: pyfloat
  ar_unexplained_residual_share :: pyfloat
  ar_insufficient_evidence_floor_ms :: pyfloat
  ar_abstain_reasons :: "string list"
  ar_input_complete :: bool
  ar_input_event_loss_count :: int

definition abstained :: "attribution_result \<Rightarrow> bool" where
  "abstained r \<longleftrightarrow> ar_abstain_reasons r \<noteq> []"

definition score_candidate ::
  "tally_state \<Rightarrow> string list \<Rightarrow> nat list list \<Rightarrow> (string \<Rightarrow> pyfloat) \<Rightarrow> pyfloat \<Rightarrow> string \<Rightarrow> candidate_score" where
  "score_candidate st candidates draws med mass c =
     (let deltas = (\<lambda>c. dict_get (ts_deltas st) c []); p = dict_get (ts_evidence st) c empty_packet in
      \<lparr>cs_candidate_id = c, cs_paired_deltas_ms = deltas c, cs_median_delta_ms = med c, cs_iqr_delta_ms = iqr (deltas c),
       cs_bootstrap_ci95_ms = percentile_interval (resampled draws (deltas c)),
       cs_positive_delta_share = fdiv (med c) mass,
       cs_top1_selection_frequency = nearest (of_nat (top1_count deltas candidates draws c) / of_int BOOTSTRAP_RESAMPLES),
       cs_span_count = length (pk_span_ids p), cs_owners = sort (pk_owners p), cs_edge_kinds = sort (pk_edge_kinds p),
       cs_traceloom_link_count = pk_link_count p\<rparr>)"

definition decision_reasons :: "jval \<Rightarrow> pyfloat \<Rightarrow> pyfloat \<Rightarrow> pyfloat \<Rightarrow> candidate_score list \<Rightarrow> string list" where
  "decision_reasons floor_ms mass dominance residual scores =
     (if fless mass (jnum floor_ms) then [''below_insufficient_evidence_floor''] else []) @
     (if scores = [] then [''no_positive_candidate_delta''] else []) @
     (if fless dominance MIN_DOMINANCE_SHARE then [''no_single_root_cause''] else []) @
     (if fless (fadd MAX_RESIDUAL_SHARE (lit (1 / 10 ^ 12))) residual then [''excess_unexplained_residual''] else []) @
     (case scores of [] \<Rightarrow> []
      | s # _ \<Rightarrow> if fle (fst (cs_bootstrap_ci95_ms s)) (Fin 0) \<and> fle (Fin 0) (snd (cs_bootstrap_ci95_ms s))
                 then [''top_candidate_bootstrap_ci_crosses_zero''] else [])"

definition float_val :: "jval \<Rightarrow> pyfloat" where
  "float_val v = (case to_float v of Inr x \<Rightarrow> x | Inl _ \<Rightarrow> NaN)"

definition conclude :: "jobj \<Rightarrow> string list \<Rightarrow> jval \<Rightarrow> nat list list \<Rightarrow> tally_state \<Rightarrow> attribution_result" where
  "conclude bundle candidates floor_ms draws st =
     (let med = (\<lambda>c. fmedian (dict_get (ts_deltas st) c []));
          mass = positive_total med candidates;
          ranked = ranked_candidates med candidates;
          dominance = dominance_of med ranked mass;
          residual = residual_of dominance mass;
          scores = map (score_candidate st candidates draws med mass) ranked;
          reasons = ts_reasons st @ decision_reasons floor_ms mass dominance residual scores
      in \<lparr>ar_case_id = jget bundle ''case_id'',
          ar_top1 = (if reasons \<noteq> [] then None else case ranked of [] \<Rightarrow> None | best # _ \<Rightarrow> Some best),
          ar_top3 = take 3 ranked, ar_candidates = scores, ar_dominance_score = dominance,
          ar_confidence_score = fmin dominance (case scores of [] \<Rightarrow> Fin 0 | s # _ \<Rightarrow> cs_top1_selection_frequency s),
          ar_unexplained_residual_share = residual, ar_insufficient_evidence_floor_ms = float_val floor_ms,
          ar_abstain_reasons = sort (remdups reasons), ar_input_complete = (ts_reasons st = []),
          ar_input_event_loss_count = ts_loss st\<rparr>)"

definition measurable :: "string list \<Rightarrow> string list" where
  "measurable candidate_ids = filter (\<lambda>c. c \<noteq> ABSTENTION_CANDIDATE) candidate_ids"

definition start_tally :: "string list \<Rightarrow> tally_state" where
  "start_tally candidates = \<lparr>ts_evidence = map (\<lambda>c. (c, empty_packet)) candidates, ts_reasons = [], ts_loss = 0,
     ts_deltas = map (\<lambda>c. (c, [])) candidates\<rparr>"

definition score_validated_case ::
  "jobj \<Rightarrow> string list \<Rightarrow> jval \<Rightarrow> databases \<Rightarrow> nat list list \<Rightarrow> attribution_result res" where
  "score_validated_case bundle candidate_ids floor_ms db draws =
     (let candidates = measurable candidate_ids in
      case each (score_pair db) (objects bundle ''pairs'') (start_tally candidates) of
        Inl e \<Rightarrow> Inl e
      | Inr st \<Rightarrow> checked (first_error
          [fails (candidates = []) (ValueError ''at least one matched pair is required''),
           fails (objects bundle ''pairs'' = []) (ValueError ''no median for empty data'')])
          (conclude bundle candidates floor_ms draws st))"

definition validate_scorer_inputs :: "string list \<Rightarrow> jval \<Rightarrow> int \<Rightarrow> int \<Rightarrow> pyerr option" where
  "validate_scorer_inputs candidate_ids floor_ms bootstrap_seed bootstrap_resamples = first_error
     [fails (candidate_ids = [] \<or> list_ex (\<lambda>c. \<not> bounded_text 128 (JStr c)) candidate_ids \<or> \<not> distinct candidate_ids \<or>
         ABSTENTION_CANDIDATE \<notin> set candidate_ids \<or> length candidate_ids = 1)
       (ValueError ''candidate_ids must be a unique bounded vocabulary''),
      unless_finite floor_ms (fless (jnum floor_ms) (Fin 0)) ''insufficient_evidence_floor_ms must be finite and non-negative'',
      fails (bootstrap_seed \<noteq> BOOTSTRAP_SEED) (ValueError ''bootstrap_seed is fixed''),
      fails (bootstrap_resamples \<noteq> BOOTSTRAP_RESAMPLES) (ValueError ''bootstrap_resamples is fixed'')]"

definition score_case ::
  "nat \<Rightarrow> jobj \<Rightarrow> string list \<Rightarrow> jval \<Rightarrow> databases \<Rightarrow> int \<Rightarrow> int \<Rightarrow> nat list list \<Rightarrow> attribution_result res" where
  "score_case limit bundle candidate_ids floor_ms db bootstrap_seed bootstrap_resamples draws =
     (case first_error [validate_scorer_inputs candidate_ids floor_ms bootstrap_seed bootstrap_resamples,
             validate_case_bundle limit candidate_ids bundle] of
        Some e \<Rightarrow> Inl e
      | None \<Rightarrow> score_validated_case bundle candidate_ids floor_ms db draws)"

end
