(* ===== verification/Case_Samples.thy ===== *)
theory Case_Samples
  imports Case_Scoring
begin

text \<open>
  A sample bundle: five pairs of runs of two spans each, of which only the first grows in the treatment.
\<close>

definition sample_ids :: "string list" where
  "sample_ids = [''c1'', ''c2'', ABSTENTION_CANDIDATE]"

definition sample_event :: "string \<Rightarrow> int \<Rightarrow> jval" where
  "sample_event event_id t = JObj
     [(''event_id'', JStr event_id), (''trace_id'', JStr ''t''), (''engine_lifecycle_id'', JStr ''l''), (''recovery_epoch'', JInt 0),
      (''request_id'', JStr ''r''), (''scope'', JStr (fst (fst (hd COMPONENT_BY_SCOPE_EVENT)))),
      (''component'', JStr (snd (hd COMPONENT_BY_SCOPE_EVENT))), (''event_name'', JStr (snd (fst (hd COMPONENT_BY_SCOPE_EVENT)))),
      (''timestamp_ns'', JInt t), (''clock_domain'', JStr ''host''), (''evidence_source'', JStr ''log''),
      (''support_state'', JStr ''supported_exact'')]"

definition sample_case_span :: "string \<Rightarrow> string \<Rightarrow> string \<Rightarrow> string \<Rightarrow> int \<Rightarrow> int \<Rightarrow> jval" where
  "sample_case_span span_id a b candidate start finish = JObj
     [(''span_id'', JStr span_id), (''start_event_id'', JStr a), (''end_event_id'', JStr b), (''candidate_id'', JStr candidate),
      (''trace_id'', JStr ''t''), (''engine_lifecycle_id'', JStr ''l''), (''recovery_epoch'', JInt 0), (''request_id'', JStr ''r''),
      (''owner'', JStr ''o''), (''clock_domain'', JStr ''host''), (''evidence_source'', JStr ''log''),
      (''support_state'', JStr ''supported_exact''), (''start_ns'', JInt start), (''end_ns'', JInt finish),
      (''accounted_duration_ms'', JInt ((finish - start) div 1000000))]"

definition sample_arm :: "string \<Rightarrow> int \<Rightarrow> jval" where
  "sample_arm run t = JObj
     [(''run_id'', JStr run), (''configuration_id'', JStr ''cfg''), (''clock_model_id'', JStr ''clk''),
      (''metrics'', JObj [(''ttft_ms'', JInt 1), (''tpot_ms'', JInt 1), (''latency_ms'', JInt 1), (''throughput_rps'', JInt 1),
         (''error_count'', JInt 0)]),
      (''evidence_status'', JObj [(''identity_complete'', JBool True), (''event_loss_count'', JInt 0),
         (''clock_ambiguous'', JBool False), (''configuration_matched'', JBool True)]),
      (''normalized_events'', JList [sample_event ''e0'' 0, sample_event ''e1'' t, sample_event ''e2'' (t + 1000000)]),
      (''lifecycle_spans'', JList [sample_case_span ''s1'' ''e0'' ''e1'' ''c1'' 0 t, sample_case_span ''s2'' ''e1'' ''e2'' ''c2'' t (t + 1000000)]),
      (''lifecycle_edges'', JList [JObj [(''source_span_id'', JStr ''s1''), (''target_span_id'', JStr ''s2''),
         (''kind'', JStr ''request_handoff'')]]),
      (''traceloom_links'', JList [])]"

definition sample_pair :: "char \<Rightarrow> string \<Rightarrow> jval" where
  "sample_pair n order = JObj
     [(''pair_id'', JStr [n]), (''order'', JStr order),
      (''matching'', JObj [(''workload_id'', JStr ''w''), (''request_order_id'', JStr ''o''), (''prompt_tokens'', JInt 1),
         (''output_tokens'', JInt 1), (''concurrency'', JInt 1), (''batch_shape'', JList [JInt 1])]),
      (''baseline'', sample_arm (n # ''b'') 1000000), (''treatment'', sample_arm (n # ''t'') 9000000)]"

definition sample_bundle :: jobj where
  "sample_bundle = [(''schema'', JStr CASE_SCHEMA), (''case_id'', JStr ''case-1''), (''pairs'', JList
     [sample_pair CHR ''1'' ''AB'', sample_pair CHR ''2'' ''BA'', sample_pair CHR ''3'' ''AB'', sample_pair CHR ''4'' ''BA'',
      sample_pair CHR ''5'' ''AB''])]"

text \<open>What the run is called does not matter to its evidence.\<close>

lemma sample_evidence:
  "validate_evidence 4 sample_ids (jobj_of (sample_arm run 1000000)) = None"
  "validate_evidence 4 sample_ids (jobj_of (sample_arm run 9000000)) = None"
  by code_simp+

lemma sample_observation:
  assumes "bounded_text 64 (JStr run)" "run \<notin> set runs" "t = 1000000 \<or> t = 9000000"
  shows "validate_observation 4 sample_ids (sample_arm run t) runs = Inr (run # runs)"
proof -
  let ?d = "jobj_of (sample_arm run t)"
  have "sample_arm run t = JObj ?d" "is_jobj (sample_arm run t)" "jget ?d ''run_id'' = JStr run"
    by (simp_all add: sample_arm_def jget_def)
  moreover have "exact_keys ?d OBSERVATION_KEYS [] = None" "text_fields 128 ?d [''configuration_id'', ''clock_model_id''] = None"
    "validate_metrics (jget ?d ''metrics'') = None" "validate_status (jget ?d ''evidence_status'') = None"
    "list_all (\<lambda>k. is_jlist (jget ?d k)) EVIDENCE_LISTS"
    "jlist_of (jget ?d ''normalized_events'') \<noteq> []" "jlist_of (jget ?d ''lifecycle_spans'') \<noteq> []"
    "\<not> list_ex (\<lambda>k. DATA_CAPACITY_RECORDS < int (length (jlist_of (jget ?d k)))) EVIDENCE_LISTS"
    by code_simp+
  ultimately show ?thesis
    using assms sample_evidence [of run]
    by (auto simp: validate_observation_def Let_def checked_Inr first_error_None fails_None)
qed

lemma sample_pair_accepted:
  assumes "n \<notin> hd ` set pair_ids" "bounded_text 64 (JStr [n])" "bounded_text 64 (JStr [n, CHR ''b''])"
    "bounded_text 64 (JStr [n, CHR ''t''])" "n \<notin> hd ` set runs" "order \<in> set ORDERS"
  shows "validate_pair 4 sample_ids (sample_pair n order) (pair_ids, runs) =
    Inr ([n] # pair_ids, [n, CHR ''t''] # [n, CHR ''b''] # runs)"
proof -
  let ?d = "jobj_of (sample_pair n order)"
  have arms: "jget ?d ''baseline'' = sample_arm [n, CHR ''b''] 1000000" "jget ?d ''treatment'' = sample_arm [n, CHR ''t''] 9000000"
    "is_jobj (sample_pair n order)" "jget ?d ''pair_id'' = JStr [n]" "jget ?d ''order'' = JStr order"
    by (simp_all add: sample_pair_def jget_def)
  have fresh: "[n] \<notin> set pair_ids" "[n, CHR ''b''] \<notin> set runs" "[n, CHR ''t''] \<notin> set ([n, CHR ''b''] # runs)"
    using assms(1,5) by (auto simp: image_iff)
  have runs: "validate_observation 4 sample_ids (sample_arm [n, CHR ''b''] 1000000) runs = Inr ([n, CHR ''b''] # runs)"
    "validate_observation 4 sample_ids (sample_arm [n, CHR ''t''] 9000000) ([n, CHR ''b''] # runs) = Inr ([n, CHR ''t''] # [n, CHR ''b''] # runs)"
    using sample_observation assms(3,4) fresh by blast+
  have "exact_keys ?d PAIR_KEYS [] = None" "validate_matching (jget ?d ''matching'') = None"
    by code_simp+
  moreover have "jget (jobj_of (sample_arm r t)) ''configuration_id'' = JStr ''cfg''" "jget (jobj_of (sample_arm r t)) ''clock_model_id'' = JStr ''clk''" for r t
    by (simp_all add: sample_arm_def jget_def)
  ultimately show ?thesis
    using assms(2,6) fresh(1) by (simp add: validate_pair_def Let_def arms runs fails_def unless_in_def checked_def)
qed

lemma sample_neutral: "reject_forbidden_keys (sample_pair n order) = None"
  by code_simp

lemma sample_bundle_accepted: "validate_case_bundle 4 sample_ids sample_bundle = None"
proof -
  have pairs: "jget sample_bundle ''pairs'' = JList
     [sample_pair CHR ''1'' ''AB'', sample_pair CHR ''2'' ''BA'', sample_pair CHR ''3'' ''AB'', sample_pair CHR ''4'' ''BA'',
      sample_pair CHR ''5'' ''AB'']" by (simp add: sample_bundle_def jget_def)
  have orders: "orders_of (jlist_of (jget sample_bundle ''pairs'')) = [JStr ''AB'', JStr ''BA'', JStr ''AB'', JStr ''BA'', JStr ''AB'']"
    unfolding pairs jlist_of.simps by code_simp
  have neutral: "reject_forbidden_keys (JObj sample_bundle) = None"
    unfolding sample_bundle_def reject_forbidden_keys.simps list.map prod.case sample_neutral first_error_None by code_simp
  have "error_of (each (validate_pair 4 sample_ids) (jlist_of (jget sample_bundle ''pairs'')) ([], [])) = None"
    by (simp add: pairs error_of_def sample_pair_accepted ORDERS_def py_len_def)
  moreover have "jget sample_bundle ''schema'' = JStr CASE_SCHEMA" "jget sample_bundle ''case_id'' = JStr ''case-1''"
    by (simp_all add: sample_bundle_def jget_def)
  moreover have "distinct sample_ids" "\<not> list_ex (\<lambda>c. \<not> bounded_text 128 (JStr c)) sample_ids" "sample_ids \<noteq> []"
    "exact_keys sample_bundle TOP_LEVEL_KEYS [] = None" "bounded_text 64 (JStr ''case-1'')"
    "\<not> list_ex (\<lambda>t. contains t (py_lower ''case-1'')) FORBIDDEN_CASE_TOKENS"
    "first_error (map (\<lambda>v. unless_in v ORDERS ''matched pair order must alternate AB/BA'') [JStr ''AB'', JStr ''BA'', JStr ''AB'', JStr ''BA'', JStr ''AB'']) = None"
    by code_simp+
  moreover have "\<not> (\<not> is_jlist (jget sample_bundle ''pairs'') \<or> length (jlist_of (jget sample_bundle ''pairs'')) < 5 \<or>
      DATA_CAPACITY_RECORDS < int (length (jlist_of (jget sample_bundle ''pairs''))))"
    unfolding pairs by (simp add: DATA_CAPACITY_RECORDS_def)
  ultimately show ?thesis
    using neutral by (simp add: validate_case_bundle_def Let_def orders fails_def
        del: error_of_None reject_forbidden_keys.simps py_lower.simps bounded_text.simps)
qed

lemma sample_scored:
  "case score_validated_case sample_bundle sample_ids (JInt 5) (\<lambda>_. None) [[0, 1, 2, 3, 4]] of
     Inr r \<Rightarrow> ar_top1 r = Some ''c1'' | Inl _ \<Rightarrow> False"
  by code_simp

end
