(* ===== verification/Case_Decisions.thy ===== *)
theory Case_Decisions
  imports Case_Samples
begin

text \<open>
  What a scored case rests on: the shares are shares, a named cause is the greatest median difference
  with complete and linked evidence behind every arm, and scoring an accepted bundle returns.
\<close>

lemma map_sum_InrD: "map_sum id f x = Inr y \<Longrightarrow> \<exists>z. x = Inr z \<and> y = f z"
  by (cases x) auto

section \<open>Floats\<close>

text \<open>Every result of an operation is a value rounding leaves alone.\<close>

fun rep :: "pyfloat \<Rightarrow> bool" where
  "rep (Fin x) = (rnd x = x)"
| "rep _ = True"

lemma rep_nearest [simp]: "rep (nearest x)"
  by (simp add: nearest_def Let_def)

lemma rep_fadd [simp]: "rep x \<Longrightarrow> rep y \<Longrightarrow> rep (fadd x y)"
  by (cases "(x, y)" rule: fadd.cases) simp_all

lemma rep_fneg [simp]: "rep (fneg x) = rep x"
  by (cases x) simp_all

lemma rep_fsub [simp]: "rep x \<Longrightarrow> rep y \<Longrightarrow> rep (fsub x y)"
  by (simp add: fsub_def)

lemma rep_fdiv [simp]: "rep (fdiv x y)"
  by (cases "(x, y)" rule: fdiv.cases) simp_all

text \<open>The order of the values that are not \<open>NaN\<close>.\<close>

fun val :: "pyfloat \<Rightarrow> int \<times> rat" where
  "val (Fin x) = (0, x)"
| "val (Inf s) = ((if s then - 1 else 1), 0)"
| "val NaN = (2, 0)"

lemma fless_val: "x \<noteq> NaN \<Longrightarrow> y \<noteq> NaN \<Longrightarrow> fless x y \<longleftrightarrow> val x < val y"
  by (cases "(x, y)" rule: fless.cases) auto

lemma feq_val: "x \<noteq> NaN \<Longrightarrow> y \<noteq> NaN \<Longrightarrow> feq x y \<longleftrightarrow> val x = val y"
  by (cases x; cases y) auto

lemma fle_val: "x \<noteq> NaN \<Longrightarrow> y \<noteq> NaN \<Longrightarrow> fle x y \<longleftrightarrow> val x \<le> val y"
  by (auto simp: fle_def fless_val feq_val)

lemma val_fneg: "x \<noteq> NaN \<Longrightarrow> y \<noteq> NaN \<Longrightarrow> val (fneg x) < val (fneg y) \<longleftrightarrow> val y < val x"
  by (cases x; cases y) auto

section \<open>Sorting\<close>

lemma set_insert_by [simp]: "set (insert_by lt x xs) = insert x (set xs)"
  by (induction xs) auto

lemma set_sorted_by [simp]: "set (sorted_by lt xs) = set xs"
  unfolding sorted_by_def by (induction xs) auto

lemma length_insert_by [simp]: "length (insert_by lt x xs) = Suc (length xs)"
  by (induction xs) auto

lemma length_sorted_by [simp]: "length (sorted_by lt xs) = length xs"
  unfolding sorted_by_def by (induction xs) auto

lemma sorted_insert_by:
  assumes "sorted (map f xs)" "\<And>y. y \<in> set xs \<Longrightarrow> lt y x \<longleftrightarrow> f y < (f x :: 'b :: linorder)"
  shows "sorted (map f (insert_by lt x xs))"
  using assms
proof (induction xs)
  case (Cons y ys)
  then show ?case by (cases "lt y x") auto
qed simp

lemma sorted_sorted_by:
  assumes "\<And>x y. x \<in> set xs \<Longrightarrow> y \<in> set xs \<Longrightarrow> lt x y \<longleftrightarrow> f x < (f y :: 'b :: linorder)"
  shows "sorted (map f (sorted_by lt xs))"
  using assms
proof (induction xs)
  case (Cons x xs)
  have "sorted_by lt (x # xs) = insert_by lt x (sorted_by lt xs)" by (simp add: sorted_by_def)
  then show ?case using Cons sorted_insert_by [of f "sorted_by lt xs" lt x] by simp
qed (simp add: sorted_by_def)

lemma rep_fmedian:
  assumes "xs \<noteq> []" "\<forall>x \<in> set xs. rep x"
  shows "rep (fmedian xs)"
proof -
  have "sorted_by fless xs ! i \<in> set xs" if "i < length xs" for i
    using that by (metis length_sorted_by nth_mem set_sorted_by)
  with assms show ?thesis by (simp add: fmedian_def Let_def)
qed

section \<open>Sums and shares\<close>

lemma fmax_zero: "\<exists>x. fmax (Fin 0) m = Fin x \<and> 0 \<le> x \<or> fmax (Fin 0) m = Inf False"
  by (cases m) (auto simp: fmax_def)

lemma nearest_Fin: "nearest x = Fin y \<Longrightarrow> y = rnd x"
  by (auto simp: nearest_def Let_def split: if_splits)

lemma sum_bounds:
  assumes "foldl fadd (Fin a) xs = Fin t" "0 \<le> a" "rnd a = a"
    "\<forall>x \<in> set xs. rep x \<and> (\<exists>r. x = Fin r \<and> 0 \<le> r \<or> x = Inf False)"
  shows "a \<le> t \<and> (\<forall>x \<in> set xs. \<exists>r. x = Fin r \<and> 0 \<le> r \<and> r \<le> t)"
  using assms
proof (induction xs arbitrary: a)
  case (Cons x xs)
  have infinite: "foldl fadd (Inf False) ys \<noteq> Fin t" if "set ys \<subseteq> set xs" for ys
    using that
  proof (induction ys)
    case (Cons y ys)
    then obtain r where "y = Fin r \<or> y = Inf False" using Cons.prems \<open>\<forall>x \<in> set (x # xs). _ x\<close> by fastforce
    with Cons show ?case by auto
  qed simp
  from Cons.prems consider r where "x = Fin r" "0 \<le> r" "rnd r = r" | "x = Inf False" by fastforce
  then show ?case
  proof cases
    case 1
    define b where "b = rnd (a + r)"
    have "fadd (Fin a) x = Fin b"
    proof (rule ccontr)
      assume "fadd (Fin a) x \<noteq> Fin b"
      then have "fadd (Fin a) x = Inf False"
        using 1 Cons.prems(2) by (auto simp: nearest_def Let_def b_def split: if_splits)
      with Cons.prems(1) infinite [of xs] show False by simp
    qed
    moreover have "a \<le> b" "r \<le> b"
      using rnd_mono [of a "a + r"] rnd_mono [of r "a + r"] 1 Cons.prems(2,3) by (simp_all add: b_def)
    moreover have "rnd b = b" by (simp add: b_def)
    ultimately have "b \<le> t \<and> (\<forall>x \<in> set xs. \<exists>r. x = Fin r \<and> 0 \<le> r \<and> r \<le> t)"
      using Cons.IH [of b] Cons.prems by auto
    then show ?thesis using 1 \<open>a \<le> b\<close> \<open>r \<le> b\<close> by auto
  next
    case 2
    with Cons.prems(1) infinite [of xs] show ?thesis by simp
  qed
qed simp

lemma positive_total_bounds:
  assumes "positive_total med cs = Fin t" "\<forall>c \<in> set cs. rep (med c)"
  shows "0 \<le> t \<and> (\<forall>c \<in> set cs. \<exists>r. fmax (Fin 0) (med c) = Fin r \<and> 0 \<le> r \<and> r \<le> t)"
proof -
  have "rep (fmax (Fin 0) (med c)) \<and> (\<exists>r. fmax (Fin 0) (med c) = Fin r \<and> 0 \<le> r \<or> fmax (Fin 0) (med c) = Inf False)"
    if "c \<in> set cs" for c
    using that assms(2) fmax_zero [of "med c"] by (auto simp: fmax_def)
  then show ?thesis
    using sum_bounds [OF assms(1) [unfolded positive_total_def fsum_def]] by auto
qed

definition share :: "pyfloat \<Rightarrow> bool" where
  "share x \<longleftrightarrow> (\<exists>r. x = Fin r \<and> 0 \<le> r \<and> r \<le> 1)"

lemma nearest_share: "0 \<le> x \<Longrightarrow> x \<le> 1 \<Longrightarrow> share (nearest x)"
proof -
  assume "0 \<le> x" "x \<le> 1"
  then have "0 \<le> rnd x" "rnd x \<le> 1" using rnd_mono [of x 1] by (simp_all add: rnd_nonneg)
  moreover have "(1 :: rat) < 2 ^ 1024" by simp
  ultimately have "\<not> too_large (rnd x)" unfolding too_large_def by linarith
  with \<open>0 \<le> rnd x\<close> \<open>rnd x \<le> 1\<close> show ?thesis by (simp add: share_def nearest_def Let_def)
qed

lemma share_quotient:
  assumes "fmax (Fin 0) m = Fin r" "0 \<le> r" "r \<le> t" "t \<noteq> 0"
  shows "share (fdiv (fmax (Fin 0) m) (Fin t))"
  using assms nearest_share [of "r / t"] by simp

lemma share_rest: "share d \<Longrightarrow> share (fsub (Fin 1) d)"
  unfolding share_def [of d] using nearest_share by (auto simp: fsub_def)

section \<open>What scoring a list of pairs does\<close>

definition median_delta :: "jobj \<Rightarrow> string \<Rightarrow> pyfloat" where
  "median_delta bundle c = fmedian (map (\<lambda>p. pair_delta p c) (objects bundle ''pairs''))"

definition arms_of :: "jobj \<Rightarrow> jobj list" where
  "arms_of bundle = concat (map (\<lambda>p. [arm p ''baseline'', arm p ''treatment'']) (objects bundle ''pairs''))"

text \<open>Evidence without a reason to abstain.\<close>

definition resolved_links :: "databases \<Rightarrow> jobj \<Rightarrow> bool" where
  "resolved_links db d \<longleftrightarrow> objects d ''traceloom_links'' = [] \<or>
     (\<exists>resolve rows. db (jstr_of (jget d ''run_id'')) = Some resolve \<and> resolve (objects d ''traceloom_links'') = Some rows \<and>
        length rows = length (objects d ''traceloom_links'') \<and>
        list_all (\<lambda>r. truthy (jget r ''resolved'') \<and> truthy (jget r ''source_lineage'')) rows)"

definition clean_arm :: "databases \<Rightarrow> jobj \<Rightarrow> bool" where
  "clean_arm db d \<longleftrightarrow>
     (let status = jobj_of (jget d ''evidence_status'') in
      truthy (jget status ''identity_complete'') \<and> \<not> truthy (jget status ''event_loss_count'') \<and>
      \<not> truthy (jget status ''clock_ambiguous'') \<and> truthy (jget status ''configuration_matched'')) \<and>
     list_all supported (objects d ''lifecycle_spans'') \<and> list_all supported (objects d ''normalized_events'') \<and>
     list_all supported (objects d ''traceloom_links'') \<and>
     list_all (\<lambda>sp. causally_linked d (jget sp ''span_id'')) (objects d ''lifecycle_spans'') \<and> resolved_links db d"

lemma status_clean:
  "status_reasons d = [] \<longleftrightarrow>
     (let status = jobj_of (jget d ''evidence_status'') in
      truthy (jget status ''identity_complete'') \<and> \<not> truthy (jget status ''event_loss_count'') \<and>
      \<not> truthy (jget status ''clock_ambiguous'') \<and> truthy (jget status ''configuration_matched'')) \<and>
     list_all supported (objects d ''lifecycle_spans'') \<and> list_all supported (objects d ''normalized_events'') \<and>
     list_all supported (objects d ''traceloom_links'')"
  by (simp add: status_reasons_def Let_def)

lemma verify_row_grows:
  assumes "verify_row spans row rs = Inr rs'"
  shows "\<exists>u. rs' = rs @ u \<and> (u = [] \<longrightarrow> truthy (jget row ''source_lineage''))"
proof (cases "truthy (jget row ''source_lineage'')")
  case True
  with assms show ?thesis
    by (auto simp: verify_row_def Let_def split: option.splits if_splits dest: map_sum_InrD)
next
  case False
  with assms show ?thesis
    by (auto simp: verify_row_def Let_def split: option.splits if_splits dest: map_sum_InrD)
qed

lemma verify_rows:
  "each (verify_row spans) rows rs = Inr [] \<Longrightarrow> rs = [] \<and> list_all (\<lambda>r. truthy (jget r ''source_lineage'')) rows"
proof (induction rows arbitrary: rs)
  case (Cons r rows)
  then obtain rs1 where r: "verify_row spans r rs = Inr rs1" and rest: "each (verify_row spans) rows rs1 = Inr []"
    by (auto split: sum.splits)
  from Cons.IH [OF rest] verify_row_grows [OF r] show ?case by auto
qed simp

lemma verified_clean: "verify_traceloom_evidence db d = Inr [] \<Longrightarrow> resolved_links db d"
  by (auto simp: verify_traceloom_evidence_def resolved_links_def Let_def list_all_iff list_ex_iff
      dest!: verify_rows split: option.splits if_splits)

lemma collect_grows:
  "each (collect_span d) spans (ev, rs) = Inr (ev', rs') \<Longrightarrow>
   \<exists>u. rs' = rs @ u \<and> (u = [] \<longrightarrow> list_all (\<lambda>sp. causally_linked d (jget sp ''span_id'')) spans)"
proof (induction spans arbitrary: ev rs)
  case (Cons sp spans)
  then obtain ev1 rs1 where sp: "collect_span d sp (ev, rs) = Inr (ev1, rs1)" and rest: "each (collect_span d) spans (ev1, rs1) = Inr (ev', rs')"
    by (auto split: sum.splits)
  from Cons.IH [OF rest] sp show ?case by (auto simp: collect_span_def split: option.splits if_splits)
qed simp

lemma score_arm_grows:
  assumes "score_arm db d st = Inr st'"
  shows "ts_deltas st' = ts_deltas st \<and> (\<exists>u. ts_reasons st' = ts_reasons st @ u \<and> (u = [] \<longrightarrow> clean_arm db d)) \<and>
    ts_loss st' = ts_loss st + jint_of (jget (jobj_of (jget d ''evidence_status'')) ''event_loss_count'')"
proof -
  obtain v ev rs where v: "verify_traceloom_evidence db d = Inr v"
    and c: "each (collect_span d) (objects d ''lifecycle_spans'') (ts_evidence st, ts_reasons st @ status_reasons d @ v) = Inr (ev, rs)"
    and st': "st' = st\<lparr>ts_evidence := ev, ts_reasons := rs, ts_loss := ts_loss st + jint_of (jget (jobj_of (jget d ''evidence_status'')) ''event_loss_count'')\<rparr>"
    using assms by (auto simp: score_arm_def collect_candidate_evidence_def split: sum.splits dest!: map_sum_InrD)
  from collect_grows [OF c] obtain u where "rs = ts_reasons st @ (status_reasons d @ v @ u)"
    "u = [] \<longrightarrow> list_all (\<lambda>sp. causally_linked d (jget sp ''span_id'')) (objects d ''lifecycle_spans'')" by auto
  with v verified_clean [of db d] status_clean [of d] show ?thesis unfolding st' by (auto simp: clean_arm_def)
qed

lemma score_pairs_grow:
  "each (score_pair db) ps st = Inr st' \<Longrightarrow>
    ts_deltas st' = map (\<lambda>(c, ds). (c, ds @ map (\<lambda>p. pair_delta p c) ps)) (ts_deltas st) \<and>
    (ts_reasons st' = [] \<longrightarrow> ts_reasons st = [] \<and> list_all (\<lambda>p. clean_arm db (arm p ''baseline'') \<and> clean_arm db (arm p ''treatment'')) ps)"
proof (induction ps arbitrary: st)
  case Nil
  then show ?case by (simp add: map_idI split_beta)
next
  case (Cons p ps)
  then obtain st1 where p: "score_pair db p st = Inr st1" and rest: "each (score_pair db) ps st1 = Inr st'"
    by (auto split: sum.splits)
  from p obtain sa sb where a: "score_arm db (arm p ''baseline'') st = Inr sa" and b: "score_arm db (arm p ''treatment'') sa = Inr sb"
    and st1: "st1 = sb\<lparr>ts_deltas := map (\<lambda>(c, ds). (c, ds @ [pair_delta p c])) (ts_deltas sb)\<rparr>"
    by (auto simp: score_pair_def split: sum.splits dest!: map_sum_InrD)
  have deltas: "ts_deltas st1 = map (\<lambda>(c, ds). (c, ds @ [pair_delta p c])) (ts_deltas st)"
    using score_arm_grows [OF a] score_arm_grows [OF b] by (simp add: st1)
  have clean: "ts_reasons st1 = [] \<longrightarrow> ts_reasons st = [] \<and> clean_arm db (arm p ''baseline'') \<and> clean_arm db (arm p ''treatment'')"
    using score_arm_grows [OF a] score_arm_grows [OF b] by (auto simp: st1)
  from Cons.IH [OF rest] show ?case using clean by (auto simp: deltas split_beta)
qed

section \<open>The ranking\<close>

lemma lex_less: "((x :: 'a :: linorder), (a :: 'b :: linorder)) < (y, b) \<longleftrightarrow> (if x = y then a < b else x < y)"
  by (auto simp: less_prod_simp)

lemma ranks_before_val:
  assumes "med a \<noteq> NaN" "med b \<noteq> NaN"
  shows "ranks_before med a b \<longleftrightarrow> (val (fneg (med a)), a) < (val (fneg (med b)), b)"
proof -
  have n: "fneg (med a) \<noteq> NaN" "fneg (med b) \<noteq> NaN" using assms by (cases "med a"; cases "med b"; simp)+
  have eq: "feq (med a) (med b) \<longleftrightarrow> val (fneg (med a)) = val (fneg (med b))"
    using assms by (cases "med a"; cases "med b") auto
  show ?thesis
    unfolding lex_less by (simp add: ranks_before_def eq fless_val [OF n])
qed

lemma best_is_greatest:
  assumes "ranked_candidates med cs = c # rest" "\<forall>d \<in> set cs. med d \<noteq> NaN"
  shows "c \<in> set cs \<and> fless (Fin 0) (med c) \<and> (\<forall>d \<in> set cs. fle (med d) (med c))"
proof -
  let ?f = "\<lambda>a. (val (fneg (med a)), a)" and ?s = "sorted_by (ranks_before med) cs"
  have ordered: "sorted (map ?f ?s)"
    using assms(2) by (intro sorted_sorted_by ranks_before_val) auto
  have "set (c # rest) \<subseteq> set ?s" unfolding assms(1) [symmetric] ranked_candidates_def by auto
  then have c: "c \<in> set cs" by simp
  have pos: "fless (Fin 0) (med c)" using assms(1) filter_set [of _ ?s] unfolding ranked_candidates_def
    by (metis (no_types, lifting) list.set_intros(1) mem_Collect_eq set_filter)
  have "fle (med d) (med c)" if d: "d \<in> set cs" for d
  proof (cases "fless (Fin 0) (med d)")
    case True
    have "sorted (map ?f (c # rest))"
      using sorted_filter [OF ordered] assms(1) unfolding ranked_candidates_def by metis
    moreover have "d \<in> set (c # rest)"
      using True d assms(1) unfolding ranked_candidates_def by (metis (no_types, lifting) mem_Collect_eq set_filter set_sorted_by)
    ultimately have "?f c \<le> ?f d" by auto
    then have "\<not> val (fneg (med d)) < val (fneg (med c))" by auto
    then show ?thesis using assms(2) c d val_fneg [of "med d" "med c"] by (simp add: fle_val not_less)
  next
    case False
    then show ?thesis using pos assms(2) c d by (auto simp: fle_val fless_val)
  qed
  with c pos show ?thesis by blast
qed

section \<open>The properties\<close>

definition scored :: "jobj \<Rightarrow> string list \<Rightarrow> databases \<Rightarrow> tally_state \<Rightarrow> bool" where
  "scored bundle cs db st \<longleftrightarrow>
     ts_deltas st = map (\<lambda>c. (c, map (\<lambda>p. pair_delta p c) (objects bundle ''pairs''))) cs \<and>
     (ts_reasons st = [] \<longrightarrow> list_all (clean_arm db) (arms_of bundle))"

lemma scored_case:
  assumes "score_validated_case bundle ids floor_ms db draws = Inr r"
  shows "objects bundle ''pairs'' \<noteq> [] \<and> (\<exists>st. scored bundle (measurable ids) db st \<and> r = conclude bundle (measurable ids) floor_ms draws st)"
proof -
  obtain st where st: "each (score_pair db) (objects bundle ''pairs'') (start_tally (measurable ids)) = Inr st"
    and r: "r = conclude bundle (measurable ids) floor_ms draws st" "objects bundle ''pairs'' \<noteq> []"
    using assms by (auto simp: score_validated_case_def Let_def checked_Inr first_error_None fails_None split: sum.splits)
  from score_pairs_grow [OF st] have "scored bundle (measurable ids) db st"
    by (auto simp: scored_def start_tally_def arms_of_def list_all_iff comp_def)
  with r show ?thesis by blast
qed

lemma map_of_tabulate: "map_of (map (\<lambda>c. (c, g c)) cs) c = (if c \<in> set cs then Some (g c) else None)"
  by (induction cs) auto

lemma scored_deltas:
  assumes "scored bundle cs db st" "c \<in> set cs"
  shows "dict_get (ts_deltas st) c [] = map (\<lambda>p. pair_delta p c) (objects bundle ''pairs'')"
proof -
  from assms(1) have "map_of (ts_deltas st) c = Some (map (\<lambda>p. pair_delta p c) (objects bundle ''pairs''))"
    unfolding scored_def using assms(2) by (simp only: map_of_tabulate if_True)
  then show ?thesis by (simp add: dict_get_def)
qed

lemma rep_dict_get:
  assumes "\<forall>(k, x) \<in> set m. rep x" "rep v"
  shows "rep (dict_get m k v)"
proof (cases "map_of m k")
  case (Some x)
  then have "(k, x) \<in> set m" by (rule map_of_SomeD)
  with assms(1) Some show ?thesis by (auto simp: dict_get_def)
qed (simp add: dict_get_def assms(2))

lemma rep_totals:
  assumes "list_all (\<lambda>sp. rep (accounted_of sp)) spans"
  shows "\<forall>(k, x) \<in> set (candidate_totals spans). rep x"
proof -
  have "\<forall>(k, x) \<in> set (foldl (\<lambda>m sp. AList.update (candidate_of sp)
      (fadd (dict_get m (candidate_of sp) (Fin 0)) (accounted_of sp)) m) m spans). rep x"
    if "\<forall>(k, x) \<in> set m. rep x" for m
    using that assms
  proof (induction spans arbitrary: m)
    case (Cons sp spans)
    have "set (AList.update k v m) \<subseteq> insert (k, v) (set m)" for k and v :: pyfloat
      by (induction m) auto
    moreover have "rep (fadd (dict_get m (candidate_of sp) (Fin 0)) (accounted_of sp))"
      using Cons.prems rep_dict_get [of m "Fin 0"] by simp
    ultimately have "\<forall>(k, x) \<in> set (AList.update (candidate_of sp)
        (fadd (dict_get m (candidate_of sp) (Fin 0)) (accounted_of sp)) m). rep x"
      using Cons.prems(1) by blast
    with Cons show ?case by simp
  qed simp
  from this [of "[]"] show ?thesis unfolding candidate_totals_def by simp
qed

text \<open>The accounted durations are floats, as every number of a parsed document that has a fraction is.\<close>

definition float_durations :: "jobj \<Rightarrow> bool" where
  "float_durations d \<longleftrightarrow> list_all (\<lambda>sp. rep (accounted_of sp)) (objects d ''lifecycle_spans'')"

lemma rep_median_delta:
  assumes "list_all float_durations (arms_of bundle)" "objects bundle ''pairs'' \<noteq> []"
  shows "rep (median_delta bundle c)"
proof -
  have "rep (pair_delta p c)" if "p \<in> set (objects bundle ''pairs'')" for p
    using that assms(1) unfolding pair_delta_def
    by (intro rep_fsub rep_dict_get rep_totals) (auto simp: arms_of_def float_durations_def list_all_iff)
  with assms(2) show ?thesis unfolding median_delta_def by (intro rep_fmedian) auto
qed

lemma medians_of:
  assumes "scored bundle cs db st"
  shows "c \<in> set cs \<Longrightarrow> fmedian (dict_get (ts_deltas st) c []) = median_delta bundle c"
  using scored_deltas [OF assms] by (simp add: median_delta_def)

lemma sorted_by_cong:
  assumes "\<And>x y. x \<in> set xs \<Longrightarrow> y \<in> set xs \<Longrightarrow> lt x y = lt' x y"
  shows "sorted_by lt xs = sorted_by lt' xs"
  using assms
proof (induction xs)
  case (Cons x xs)
  have "insert_by lt x ys = insert_by lt' x ys" if "set ys \<subseteq> set xs" for ys
    using that Cons.prems by (induction ys) auto
  moreover have "sorted_by lt (x # xs) = insert_by lt x (sorted_by lt xs)" "sorted_by lt' (x # xs) = insert_by lt' x (sorted_by lt' xs)"
    by (simp_all add: sorted_by_def)
  ultimately show ?case using Cons by simp
qed (simp add: sorted_by_def)

lemma ranked_cong:
  assumes "\<And>c. c \<in> set cs \<Longrightarrow> med c = med' c"
  shows "ranked_candidates med cs = ranked_candidates med' cs" "positive_total med cs = positive_total med' cs"
proof -
  have "sorted_by (ranks_before med) cs = sorted_by (ranks_before med') cs"
    by (rule sorted_by_cong) (simp add: ranks_before_def assms)
  then show "ranked_candidates med cs = ranked_candidates med' cs"
    unfolding ranked_candidates_def using assms by (auto intro: filter_cong)
  show "positive_total med cs = positive_total med' cs"
    unfolding positive_total_def using assms by (metis (no_types, lifting) map_cong)
qed

lemma conclude_fields:
  fixes b :: jobj and cs floor_ms draws st
  defines "med \<equiv> \<lambda>c. fmedian (dict_get (ts_deltas st) c [])"
  defines "mass \<equiv> positive_total med cs" and "ranked \<equiv> ranked_candidates med cs"
  defines "r \<equiv> conclude b cs floor_ms draws st"
  shows "ar_dominance_score r = dominance_of med ranked mass"
    "ar_unexplained_residual_share r = residual_of (dominance_of med ranked mass) mass"
    "ar_candidates r = map (score_candidate st cs draws med mass) ranked"
    "ar_confidence_score r = fmin (dominance_of med ranked mass)
       (case ranked of [] \<Rightarrow> Fin 0 | s # _ \<Rightarrow> nearest (of_nat (top1_count (\<lambda>c. dict_get (ts_deltas st) c []) cs draws s) / of_int BOOTSTRAP_RESAMPLES))"
  by (simp_all add: r_def conclude_def Let_def med_def mass_def ranked_def score_candidate_def split: list.split)

text \<open>The sample of these theorems.\<close>

lemma sample_floats: "list_all float_durations (arms_of sample_bundle)"
  by code_simp

lemma sample_mass: "is_finite (positive_total (median_delta sample_bundle) (measurable sample_ids))"
  by code_simp

lemma sample_medians: "list_all (\<lambda>d. median_delta sample_bundle d \<noteq> NaN) (measurable sample_ids)"
  by code_simp

text \<open>
  C17. Shares are shares. Whatever the spans of the pairs account for, as long as the positive medians
  add up to a finite number: the dominance, the unexplained residual, the confidence and the share of
  every ranked candidate are floats between zero and one, rounding included, and the confidence does
  not exceed the dominance.
\<close>
theorem score_shares_are_bounded:
  assumes "score_validated_case bundle ids floor_ms db draws = Inr r"
    "list_all float_durations (arms_of bundle)"
    "is_finite (positive_total (median_delta bundle) (measurable ids))" "int (length draws) \<le> BOOTSTRAP_RESAMPLES"
  shows "share (ar_dominance_score r) \<and> share (ar_unexplained_residual_share r) \<and> share (ar_confidence_score r) \<and>
    fle (ar_confidence_score r) (ar_dominance_score r) \<and>
    list_all (\<lambda>s. share (cs_positive_delta_share s) \<and> share (cs_top1_selection_frequency s)) (ar_candidates r)"
proof -
  let ?cs = "measurable ids"
  obtain st where st: "scored bundle ?cs db st" and r: "r = conclude bundle ?cs floor_ms draws st"
    using scored_case [OF assms(1)] by blast
  have pairs: "objects bundle ''pairs'' \<noteq> []" using scored_case [OF assms(1)] by blast
  let ?med = "\<lambda>c. fmedian (dict_get (ts_deltas st) c [])"
  let ?ranked = "ranked_candidates ?med ?cs" and ?mass = "positive_total ?med ?cs"
  note fields = conclude_fields [of "bundle" ?cs floor_ms draws st, folded r]
  have med: "?med c = median_delta bundle c" if "c \<in> set ?cs" for c using medians_of [OF st that] .
  obtain t where t: "?mass = Fin t"
    using assms(3) ranked_cong(2) [of ?cs ?med "median_delta bundle"] med by (metis is_finite.elims(2))
  have rep: "\<forall>c \<in> set ?cs. rep (?med c)" using med rep_median_delta [OF assms(2) pairs] by simp
  note bounds = positive_total_bounds [OF t rep]
  have ranked: "c \<in> set ?cs \<and> fmax (Fin 0) (?med c) = ?med c" if "c \<in> set ?ranked" for c
    using that by (auto simp: ranked_candidates_def fmax_def)
  have nonzero: "t \<noteq> 0" if c: "c \<in> set ?ranked" for c
  proof -
    have "fless (Fin 0) (?med c)" using c by (simp add: ranked_candidates_def)
    moreover obtain x where "?med c = Fin x" "x \<le> t" using bounds ranked [OF c] by metis
    ultimately show ?thesis by simp
  qed
  have quotient: "share (fdiv (?med c) (Fin t))" if "c \<in> set ?ranked" for c
    using bounds ranked [OF that] share_quotient [of "?med c" _ t] nonzero [OF that] by (metis (no_types, lifting))
  have frequency: "share (nearest (of_nat (top1_count deltas cs draws c) / of_int BOOTSTRAP_RESAMPLES))" for deltas cs c
  proof (rule nearest_share)
    have "int (top1_count deltas cs draws c) \<le> BOOTSTRAP_RESAMPLES"
      using assms(4) length_filter_le [of _ draws] unfolding top1_count_def by (meson of_nat_le_iff order_trans)
    then show "of_nat (top1_count deltas cs draws c) / of_int BOOTSTRAP_RESAMPLES \<le> (1 :: rat)"
      by (simp add: BOOTSTRAP_RESAMPLES_def)
  qed (simp add: BOOTSTRAP_RESAMPLES_def)
  have zero: "share (Fin 0)" "share (Fin 1)" by (simp_all add: share_def)
  have dominance: "share (ar_dominance_score r)"
    unfolding fields(1) dominance_of_def t using quotient ranked nonzero zero by (cases ?ranked) auto
  then have residual: "share (ar_unexplained_residual_share r)"
    unfolding fields(2) residual_of_def t using share_rest zero fields(1) t by auto
  have "share (case ?ranked of [] \<Rightarrow> Fin 0 | s # _ \<Rightarrow> nearest (of_nat (top1_count (\<lambda>c. dict_get (ts_deltas st) c []) ?cs draws s) / of_int BOOTSTRAP_RESAMPLES))"
    using frequency zero by (cases ?ranked) auto
  moreover have "fle (fmin a b) a \<and> share (fmin a b)" if "share a" "share b" for a b
    using that by (auto simp: share_def fmin_def fle_def)
  ultimately have "share (ar_confidence_score r) \<and> fle (ar_confidence_score r) (ar_dominance_score r)"
    using dominance unfolding fields(1,4) by blast
  moreover have "list_all (\<lambda>s. share (cs_positive_delta_share s) \<and> share (cs_top1_selection_frequency s)) (ar_candidates r)"
    unfolding fields(3) t using quotient frequency by (simp add: list_all_iff score_candidate_def Let_def)
  ultimately show ?thesis using dominance residual by blast
qed

lemma score_shares_are_bounded_witness:
  "\<exists>r. score_validated_case sample_bundle sample_ids (JInt 5) (\<lambda>_. None) [[0, 1, 2, 3, 4]] = Inr r \<and>
     share (ar_dominance_score r) \<and> ar_top1 r = Some ''c1''"
proof -
  obtain r where r: "score_validated_case sample_bundle sample_ids (JInt 5) (\<lambda>_. None) [[0, 1, 2, 3, 4]] = Inr r"
    "ar_top1 r = Some ''c1''" using sample_scored by (auto split: sum.splits)
  have "int (length [[0, 1, 2, 3, 4 :: nat]]) \<le> BOOTSTRAP_RESAMPLES" by (simp add: BOOTSTRAP_RESAMPLES_def)
  with score_shares_are_bounded [OF r(1) sample_floats sample_mass] r show ?thesis by blast
qed

text \<open>
  C3. A named cause rests on evidence. When the scorer names a cause instead of abstaining: it is a
  measurable candidate whose median difference is positive and, no median being \<open>NaN\<close>, the greatest of
  all; its share reaches 0.6, the positive medians reach the floor, and its bootstrap interval leaves
  zero out; and in both arms of every pair the identity was complete, no event was lost, the clock
  was unambiguous, the configuration matched, every span, event and link was supported, every span
  was linked, and every link was resolved with its lineage.
\<close>
theorem named_cause_rests_on_evidence:
  assumes "score_validated_case bundle ids floor_ms db draws = Inr r" "ar_top1 r = Some c"
    "list_all (\<lambda>d. median_delta bundle d \<noteq> NaN) (measurable ids)"
  shows "c \<in> set ids \<and> c \<noteq> ABSTENTION_CANDIDATE \<and> fless (Fin 0) (median_delta bundle c) \<and>
    list_all (\<lambda>d. fle (median_delta bundle d) (median_delta bundle c)) (measurable ids) \<and>
    \<not> fless (ar_dominance_score r) MIN_DOMINANCE_SHARE \<and>
    \<not> fless (positive_total (median_delta bundle) (measurable ids)) (jnum floor_ms) \<and>
    (\<exists>s rest. ar_candidates r = s # rest \<and> cs_candidate_id s = c \<and>
       \<not> (fle (fst (cs_bootstrap_ci95_ms s)) (Fin 0) \<and> fle (Fin 0) (snd (cs_bootstrap_ci95_ms s)))) \<and>
    list_all (clean_arm db) (arms_of bundle)"
proof -
  let ?cs = "measurable ids"
  obtain st where st: "scored bundle ?cs db st" and r: "r = conclude bundle ?cs floor_ms draws st"
    using scored_case [OF assms(1)] by blast
  let ?med = "\<lambda>c. fmedian (dict_get (ts_deltas st) c [])"
  let ?ranked = "ranked_candidates ?med ?cs" and ?mass = "positive_total ?med ?cs"
  note fields = conclude_fields [of "bundle" ?cs floor_ms draws st, folded r]
  have med: "?med d = median_delta bundle d" if "d \<in> set ?cs" for d using medians_of [OF st that] .
  have none: "ts_reasons st = []" "decision_reasons floor_ms ?mass (ar_dominance_score r) (ar_unexplained_residual_share r) (ar_candidates r) = []"
    and top: "\<exists>rest. ?ranked = c # rest"
    using assms(2) unfolding fields(1-3) by (auto simp: r conclude_def Let_def split: if_splits list.splits)
  then obtain rest where ranked: "?ranked = c # rest" by blast
  have "c \<in> set ?cs \<and> fless (Fin 0) (?med c) \<and> (\<forall>d \<in> set ?cs. fle (?med d) (?med c))"
    using assms(3) med by (intro best_is_greatest [OF ranked]) (simp add: list_all_iff)
  then have "c \<in> set ids" "c \<noteq> ABSTENTION_CANDIDATE" "fless (Fin 0) (median_delta bundle c)"
    "list_all (\<lambda>d. fle (median_delta bundle d) (median_delta bundle c)) ?cs"
    using med by (auto simp: measurable_def list_all_iff)
  moreover have "\<not> fless (ar_dominance_score r) MIN_DOMINANCE_SHARE" "\<not> fless ?mass (jnum floor_ms)"
    using none(2) by (auto simp: decision_reasons_def split: if_splits)
  moreover have "?mass = positive_total (median_delta bundle) ?cs" by (rule ranked_cong(2)) (rule med)
  moreover have "\<exists>s rest. ar_candidates r = s # rest \<and> cs_candidate_id s = c \<and>
      \<not> (fle (fst (cs_bootstrap_ci95_ms s)) (Fin 0) \<and> fle (Fin 0) (snd (cs_bootstrap_ci95_ms s)))"
    using none(2) unfolding fields(3) ranked by (auto simp: decision_reasons_def score_candidate_def Let_def split: if_splits)
  moreover have "list_all (clean_arm db) (arms_of bundle)" using st none(1) by (simp add: scored_def)
  ultimately show ?thesis by simp
qed

lemma named_cause_rests_on_evidence_witness:
  "\<exists>r. score_validated_case sample_bundle sample_ids (JInt 5) (\<lambda>_. None) [[0, 1, 2, 3, 4]] = Inr r \<and>
     ar_top1 r = Some ''c1'' \<and> fless (Fin 0) (median_delta sample_bundle ''c1'')"
proof -
  obtain r where r: "score_validated_case sample_bundle sample_ids (JInt 5) (\<lambda>_. None) [[0, 1, 2, 3, 4]] = Inr r"
    "ar_top1 r = Some ''c1''" using sample_scored by (auto split: sum.splits)
  with named_cause_rests_on_evidence [OF r sample_medians] show ?thesis by blast
qed

end
