(* ===== verification/Case_Acceptance.thy ===== *)
theory Case_Acceptance
  imports Case_Decisions
begin

text \<open>
  What an accepted bundle gives the scorer: arms that are consistent in themselves, runs that are told
  apart, orders that alternate; and that scoring it returns a result.
\<close>

section \<open>Accepted pairs\<close>

definition run_of :: "jobj \<Rightarrow> string" where "run_of d = jstr_of (jget d ''run_id'')"

definition pair_arms :: "jval \<Rightarrow> jobj list" where
  "pair_arms v = [arm (jobj_of v) ''baseline'', arm (jobj_of v) ''treatment'']"

lemma observation_accepted:
  assumes "validate_observation limit ids v runs = Inr runs'"
  shows "runs' = run_of (jobj_of v) # runs \<and> run_of (jobj_of v) \<notin> set runs \<and> consistent_arm ids (jobj_of v)"
proof -
  note parts = assms [unfolded validate_observation_def Let_def if_split [of "\<lambda>x. x = Inr runs'"] checked_Inr
      first_error_None list.set ball_simps fails_None]
  from parts have "runs' = run_of (jobj_of v) # runs" unfolding run_of_def by blast
  moreover from parts have "run_of (jobj_of v) \<notin> set runs" "validate_evidence limit ids (jobj_of v) = None"
    unfolding run_of_def by blast+
  ultimately show ?thesis using evidence_accepted by blast
qed

lemma pair_accepted:
  assumes "validate_pair limit ids v (pair_ids, runs) = Inr s'"
  shows "is_jobj v \<and> snd s' = rev (map run_of (pair_arms v)) @ runs \<and>
    (distinct runs \<longrightarrow> distinct (snd s')) \<and> list_all (consistent_arm ids) (pair_arms v)"
proof -
  note parts = assms [unfolded validate_pair_def Let_def prod.case if_split [of "\<lambda>x. x = Inr s'"]]
  from parts obtain runs1 runs2 where
    arms: "validate_observation limit ids (jget (jobj_of v) ''baseline'') runs = Inr runs1"
      "validate_observation limit ids (jget (jobj_of v) ''treatment'') runs1 = Inr runs2"
    and s': "snd s' = runs2" and obj: "is_jobj v"
    by (auto simp: checked_def split: option.splits sum.splits)
  from arms [THEN observation_accepted] s' obj show ?thesis by (auto simp: pair_arms_def arm_def)
qed

lemma pairs_accepted:
  assumes "each (validate_pair limit ids) vs s = Inr s'" "distinct (snd s)"
  shows "list_all is_jobj vs \<and> list_all (consistent_arm ids) (concat (map pair_arms vs)) \<and>
    distinct (rev (map run_of (concat (map pair_arms vs))) @ snd s)"
  using assms
proof (induction vs arbitrary: s)
  case (Cons v vs)
  obtain s1 where s1: "validate_pair limit ids v (fst s, snd s) = Inr s1" "each (validate_pair limit ids) vs s1 = Inr s'"
    using Cons.prems(1) by (auto split: sum.splits)
  note p = pair_accepted [OF s1(1)]
  from p Cons.prems(2) have s1_distinct: "distinct (snd s1)" by blast
  then have "distinct (rev (map run_of (pair_arms v)) @ snd s)" using p by metis
  with Cons.IH [OF s1(2) s1_distinct] p show ?case by auto
qed simp

lemma bundle_accepted:
  assumes "validate_case_bundle limit ids b = None"
  shows "5 \<le> length (objects b ''pairs'') \<and> alternate (map (\<lambda>p. jget p ''order'') (objects b ''pairs'')) \<and>
    distinct (map run_of (arms_of b)) \<and> list_all (consistent_arm ids) (arms_of b)"
proof -
  from assms obtain s where
    pairs: "each (validate_pair limit ids) (items b ''pairs'') ([], []) = Inr s" and
    n: "\<not> length (items b ''pairs'') < 5" and alt: "alternate (orders_of (items b ''pairs''))"
    unfolding validate_case_bundle_def Let_def first_error_None list.set ball_simps fails_None error_of_None by blast
  from pairs_accepted [OF pairs] have
    ok: "list_all is_jobj (items b ''pairs'')" "list_all (consistent_arm ids) (concat (map pair_arms (items b ''pairs'')))"
      "distinct (map run_of (concat (map pair_arms (items b ''pairs''))))" by auto
  have "concat (map pair_arms (items b ''pairs'')) = arms_of b"
    by (simp add: pair_arms_def [abs_def] arms_of_def objects_def comp_def)
  moreover have "orders_of (items b ''pairs'') = map (\<lambda>p. jget p ''order'') (objects b ''pairs'')"
    using ok(1) by (simp add: orders_of_def objects_def list_all_iff comp_def)
  ultimately show ?thesis using ok n alt by (simp add: objects_def)
qed

section \<open>Scoring returns\<close>

lemma collect_returns:
  assumes "list_all (\<lambda>sp. candidate_of sp \<in> fst ` set (fst s)) sps"
  shows "\<exists>s'. each (collect_span d) sps s = Inr s' \<and> fst ` set (fst s') = fst ` set (fst s)"
  using assms
proof (induction sps arbitrary: s)
  case (Cons sp sps)
  obtain evidence reasons where s: "s = (evidence, reasons)" by (cases s)
  obtain p where p: "map_of evidence (candidate_of sp) = Some p" using Cons.prems by (auto simp: s dest: weak_map_of_SomeI)
  let ?s1 = "(AList.update (candidate_of sp) (add_span d sp p) evidence,
      reasons @ (if causally_linked d (jget sp ''span_id'') then [] else [''unlinked_lifecycle_span'']))"
  have keys: "fst ` set (fst ?s1) = fst ` set (fst s)"
    using Cons.prems by (simp add: s dom_update insert_absorb)
  have "collect_span d sp s = Inr ?s1" by (simp add: s collect_span_def p)
  with Cons.IH [of ?s1] Cons.prems keys show ?case by simp
qed simp

lemma score_arm_returns:
  assumes "list_all (\<lambda>sp. candidate_of sp \<in> fst ` set (ts_evidence st)) (objects d ''lifecycle_spans'')"
    "verify_traceloom_evidence db d = Inr rs"
  shows "\<exists>st'. score_arm db d st = Inr st' \<and> fst ` set (ts_evidence st') = fst ` set (ts_evidence st)"
proof -
  from collect_returns [of "(ts_evidence st, ts_reasons st @ status_reasons d @ rs)" "objects d ''lifecycle_spans''" d] assms(1)
  obtain evidence reasons where
    "each (collect_span d) (objects d ''lifecycle_spans'') (ts_evidence st, ts_reasons st @ status_reasons d @ rs) = Inr (evidence, reasons)"
    "fst ` set evidence = fst ` set (ts_evidence st)" by auto
  then show ?thesis by (simp add: score_arm_def collect_candidate_evidence_def assms(2))
qed

lemma score_pairs_return:
  assumes "list_all (\<lambda>p. list_all (\<lambda>d. list_all (\<lambda>sp. candidate_of sp \<in> cs) (objects d ''lifecycle_spans'') \<and>
      (\<exists>rs. verify_traceloom_evidence db d = Inr rs)) [arm p ''baseline'', arm p ''treatment'']) ps"
    "fst ` set (ts_evidence st) = cs"
  shows "\<exists>st'. each (score_pair db) ps st = Inr st'"
  using assms
proof (induction ps arbitrary: st)
  case (Cons p ps)
  obtain st1 where st1: "score_arm db (arm p ''baseline'') st = Inr st1" "fst ` set (ts_evidence st1) = cs"
    using score_arm_returns [of st "arm p ''baseline''" db] Cons.prems by auto
  obtain st2 where st2: "score_arm db (arm p ''treatment'') st1 = Inr st2" "fst ` set (ts_evidence st2) = cs"
    using score_arm_returns [of st1 "arm p ''treatment''" db] Cons.prems st1 by auto
  let ?st3 = "st2\<lparr>ts_deltas := map (\<lambda>(c, ds). (c, ds @ [pair_delta p c])) (ts_deltas st2)\<rparr>"
  have "score_pair db p st = Inr ?st3" by (simp add: score_pair_def st1 st2)
  with Cons.IH [of ?st3] Cons.prems st2(2) show ?case by simp
qed simp

text \<open>
  C14. An accepted bundle is consistent, and its score is defined. When validation accepts a bundle it
  has at least five pairs whose orders alternate, no run occurs twice, and every arm is consistent: its
  span ids are distinct, its spans are charged to measurable candidates, its edges connect spans of
  the arm with one request identity, respect time where they claim it and form no cycle, and the
  charges on overlapping spans stay within the time they cover. And if a candidate is measurable and
  the databases verify every arm without raising, scoring the bundle returns a result.
\<close>
theorem accepted_bundle_scores:
  assumes "validate_case_bundle limit ids b = None"
  shows "5 \<le> length (objects b ''pairs'') \<and> alternate (map (\<lambda>p. jget p ''order'') (objects b ''pairs'')) \<and>
    distinct (map run_of (arms_of b)) \<and> list_all (consistent_arm ids) (arms_of b) \<and>
    (measurable ids \<noteq> [] \<and> list_all (\<lambda>d. \<exists>rs. verify_traceloom_evidence db d = Inr rs) (arms_of b) \<longrightarrow>
       (\<exists>r. score_validated_case b ids floor_ms db draws = Inr r))"
proof -
  note ok = bundle_accepted [OF assms]
  have "\<exists>r. score_validated_case b ids floor_ms db draws = Inr r"
    if some: "measurable ids \<noteq> []" and verified: "list_all (\<lambda>d. \<exists>rs. verify_traceloom_evidence db d = Inr rs) (arms_of b)"
  proof -
    have arms: "list_all (\<lambda>sp. candidate_of sp \<in> set (measurable ids)) (objects d ''lifecycle_spans'')" if "d \<in> set (arms_of b)" for d
    proof -
      from that ok have "consistent_arm ids d" unfolding list_all_iff by blast
      then show ?thesis by (auto simp: consistent_arm_def list_all_iff candidate_of_def measurable_def)
    qed
    have "\<exists>st. each (score_pair db) (objects b ''pairs'') (start_tally (measurable ids)) = Inr st"
    proof (rule score_pairs_return)
      show "fst ` set (ts_evidence (start_tally (measurable ids))) = set (measurable ids)"
        by (simp add: start_tally_def image_image)
      show "list_all (\<lambda>p. list_all (\<lambda>d. list_all (\<lambda>sp. candidate_of sp \<in> set (measurable ids)) (objects d ''lifecycle_spans'') \<and>
          (\<exists>rs. verify_traceloom_evidence db d = Inr rs)) [arm p ''baseline'', arm p ''treatment'']) (objects b ''pairs'')"
        using arms verified unfolding list_all_iff arms_of_def by fastforce
    qed
    moreover have "objects b ''pairs'' \<noteq> []" using ok by auto
    ultimately show ?thesis using some by (auto simp: score_validated_case_def Let_def checked_Inr first_error_None fails_None)
  qed
  with ok show ?thesis by blast
qed

lemma accepted_bundle_scores_witness:
  "list_all (consistent_arm sample_ids) (arms_of sample_bundle) \<and>
   (\<exists>r. score_validated_case sample_bundle sample_ids (JInt 5) (\<lambda>_. None) [] = Inr r)"
proof -
  have "list_all (\<lambda>d. \<exists>rs. verify_traceloom_evidence (\<lambda>_. None) d = Inr rs) (arms_of sample_bundle)"
    by (simp add: verify_traceloom_evidence_def Let_def list_all_iff)
  moreover have "measurable sample_ids \<noteq> []" by code_simp
  ultimately show ?thesis using accepted_bundle_scores [OF sample_bundle_accepted, of "\<lambda>_. None" "JInt 5" "[]"] by blast
qed

end
