(* ===== verification/Case_Results.thy ===== *)
theory Case_Results
  imports Case_Decisions
begin

text \<open>
  Recording a result (\<open>blind_attribution.py\<close>): the payload of a scored case, its validation, and the
  file that is created once and never overwritten. \<open>parse\<close> stands for \<open>datetime.fromisoformat\<close>, whose
  accepted formats differ between the Pythons the repository supports: the instant and whether it
  has a timezone, or \<open>None\<close> where it raises. \<open>broken\<close> is an error of the operating system while
  writing. Creating the parent directory is not modelled, nor is the text of the file: it holds
  the payload, or \<open>None\<close> as long as it is incomplete.
\<close>

section \<open>The payload\<close>

definition score_payload :: "candidate_score \<Rightarrow> jval" where
  "score_payload s = JObj
     [(''candidate_id'', JStr (cs_candidate_id s)), (''paired_deltas_ms'', JList (map JFloat (cs_paired_deltas_ms s))),
      (''median_delta_ms'', JFloat (cs_median_delta_ms s)), (''iqr_delta_ms'', JFloat (cs_iqr_delta_ms s)),
      (''bootstrap_ci95_ms'', JList [JFloat (fst (cs_bootstrap_ci95_ms s)), JFloat (snd (cs_bootstrap_ci95_ms s))]),
      (''positive_delta_share'', JFloat (cs_positive_delta_share s)),
      (''top1_selection_frequency'', JFloat (cs_top1_selection_frequency s)), (''span_count'', JInt (int (cs_span_count s))),
      (''owners'', JList (map JStr (cs_owners s))), (''edge_kinds'', JList (map JStr (cs_edge_kinds s))),
      (''traceloom_link_count'', JInt (int (cs_traceloom_link_count s)))]"

definition opt_text :: "string option \<Rightarrow> jval" where
  "opt_text v = (case v of None \<Rightarrow> JNull | Some s \<Rightarrow> JStr s)"

definition counterfactual_of :: "attribution_result \<Rightarrow> jval" where
  "counterfactual_of r = (case ar_top1 r of None \<Rightarrow> JNull
     | Some c \<Rightarrow> JObj [(''candidate_id'', JStr c), (''constraint'', JStr ''change_only_predicted_mechanism'')])"

text \<open>\<open>started\<close>, \<open>ended\<close> and \<open>elapsed\<close> are what the clocks give.\<close>

definition result_payload :: "attribution_result \<Rightarrow> string \<Rightarrow> string \<Rightarrow> pyfloat \<Rightarrow> jobj" where
  "result_payload r started ended elapsed =
     [(''schema'', JStr RESULT_SCHEMA), (''case_id'', ar_case_id r), (''m0_status'', JStr ''NOT_M0_PROVEN''),
      (''top1'', opt_text (ar_top1 r)), (''top3'', JList (map JStr (ar_top3 r))),
      (''candidates'', JList (map score_payload (ar_candidates r))), (''dominance_score'', JFloat (ar_dominance_score r)),
      (''confidence_score'', JFloat (ar_confidence_score r)),
      (''unexplained_residual_share'', JFloat (ar_unexplained_residual_share r)),
      (''insufficient_evidence_floor_ms'', JFloat (ar_insufficient_evidence_floor_ms r)),
      (''bootstrap_seed'', JInt BOOTSTRAP_SEED), (''bootstrap_resamples'', JInt BOOTSTRAP_RESAMPLES),
      (''abstained'', JBool (abstained r)), (''abstain_reasons'', JList (map JStr (ar_abstain_reasons r))),
      (''proposed_counterfactual'', counterfactual_of r), (''input_complete'', JBool (ar_input_complete r)),
      (''input_event_loss_count'', JInt (ar_input_event_loss_count r)), (''method'', JStr ''full_lifecycle_dag''),
      (''started_at'', JStr started), (''ended_at'', JStr ended), (''time_to_localize_ms'', JFloat elapsed),
      (''automated_wall_clock_ms'', JFloat elapsed)]"

definition timed_score_case ::
  "nat \<Rightarrow> jobj \<Rightarrow> string \<Rightarrow> string list \<Rightarrow> jval \<Rightarrow> databases \<Rightarrow> int \<Rightarrow> int \<Rightarrow> nat list list \<Rightarrow>
   string \<Rightarrow> string \<Rightarrow> pyfloat \<Rightarrow> jobj res" where
  "timed_score_case limit bundle method candidate_ids floor_ms db seed resamples draws started ended elapsed =
     (if method \<noteq> ''full_lifecycle_dag'' then Inl (ValueError ''the automated DAG scorer may only label full_lifecycle_dag'')
      else map_sum id (\<lambda>r. result_payload r started ended elapsed)
        (score_case limit bundle candidate_ids floor_ms db seed resamples draws))"

section \<open>Numbers of a payload\<close>

text \<open>Integers subtract exactly and halve with one rounding; otherwise both are floats.\<close>

fun num_sub :: "jval \<Rightarrow> jval \<Rightarrow> jval res" where
  "num_sub (JInt a) (JInt b) = Inr (JInt (a - b))"
| "num_sub v w = (case (to_float v, to_float w) of (Inr x, Inr y) \<Rightarrow> Inr (JFloat (fsub x y)) | (Inl e, _) \<Rightarrow> Inl e | (_, Inl e) \<Rightarrow> Inl e)"

fun num_middle :: "jval \<Rightarrow> jval \<Rightarrow> pyfloat res" where
  "num_middle (JInt a) (JInt b) = float_of_rat (of_int (a + b) / 2)"
| "num_middle v w = (case (to_float v, to_float w) of (Inr x, Inr y) \<Rightarrow> Inr (fdiv (fadd x y) (Fin 2)) | (Inl e, _) \<Rightarrow> Inl e | (_, Inl e) \<Rightarrow> Inl e)"

definition num_sorted :: "jval list \<Rightarrow> jval list" where
  "num_sorted vs = sorted_by (\<lambda>v w. fless (jnum v) (jnum w)) vs"

definition num_median :: "jval list \<Rightarrow> pyfloat res" where
  "num_median vs = (let ys = num_sorted vs; n = length vs; i = n div 2
     in if odd n then to_float (ys ! i) else num_middle (ys ! (i - 1)) (ys ! i))"

definition num_iqr :: "jval list \<Rightarrow> pyfloat res" where
  "num_iqr vs = (let ys = num_sorted vs; n = length vs
     in case num_sub (ys ! rank_index (75 / 100) n) (ys ! rank_index (25 / 100) n) of Inl e \<Rightarrow> Inl e | Inr v \<Rightarrow> to_float v)"

definition unless_close :: "jval \<Rightarrow> pyfloat res \<Rightarrow> string \<Rightarrow> pyerr option" where
  "unless_close v r msg = (case to_float v of Inl e \<Rightarrow> Some e
     | Inr x \<Rightarrow> (case r of Inl e \<Rightarrow> Some e | Inr y \<Rightarrow> fails (\<not> fclose x y) (ValueError msg)))"

fun all_finite :: "jval list \<Rightarrow> bool res" where
  "all_finite [] = Inr True"
| "all_finite (v # vs) = (case finite_number v of Inl e \<Rightarrow> Inl e | Inr ok \<Rightarrow> if ok then all_finite vs else Inr False)"

definition unless_numbers :: "jval \<Rightarrow> bool \<Rightarrow> bool \<Rightarrow> string \<Rightarrow> pyerr option" where
  "unless_numbers v wrong_length P msg =
     (if \<not> is_jlist v \<or> wrong_length then Some (ValueError msg)
      else case all_finite (jlist_of v) of Inl e \<Rightarrow> Some e | Inr ok \<Rightarrow> fails (\<not> ok \<or> P) (ValueError msg))"

text \<open>\<open>0 <= value <= 1\<close>\<close>

definition unit_number :: "jval \<Rightarrow> bool" where
  "unit_number v \<longleftrightarrow> fle (Fin 0) (jnum v) \<and> fle (jnum v) (Fin 1)"

definition text_list :: "jval \<Rightarrow> bool" where
  "text_list v \<longleftrightarrow> is_jlist v \<and> list_all (bounded_text 128) (jlist_of v)"

definition texts :: "jval \<Rightarrow> string list" where
  "texts v = map jstr_of (jlist_of v)"

section \<open>A candidate\<close>

definition SCORE_KEYS :: "string list" where
  "SCORE_KEYS = [''candidate_id'', ''paired_deltas_ms'', ''median_delta_ms'', ''iqr_delta_ms'', ''bootstrap_ci95_ms'',
     ''positive_delta_share'', ''top1_selection_frequency'', ''span_count'', ''owners'', ''edge_kinds'', ''traceloom_link_count'']"

definition check_candidate_score :: "string list \<Rightarrow> jval \<Rightarrow> pyerr option" where
  "check_candidate_score allowed v =
     (if \<not> is_jobj v then Some (ValueError ''must be an object'')
      else (let s = jobj_of v; deltas = jget s ''paired_deltas_ms''; interval = jget s ''bootstrap_ci95_ms'';
                median = jget s ''median_delta_ms''; spread = jget s ''iqr_delta_ms'' in first_error
         [exact_keys s SCORE_KEYS [],
          fails (\<not> bounded_text 128 (jget s ''candidate_id'') \<or> jstr_of (jget s ''candidate_id'') \<notin> set allowed)
            (ValueError ''candidate_id is outside the vocabulary''),
          unless_numbers deltas (length (jlist_of deltas) < 5) False ''paired_deltas_ms is invalid'',
          unless_numbers interval (length (jlist_of interval) \<noteq> 2)
            (fless (jnum (jlist_of interval ! 1)) (jnum (jlist_of interval ! 0))) ''bootstrap_ci95_ms is invalid'',
          unless_finite median False ''must be finite'', unless_finite spread False ''must be finite'',
          fails (fle (jnum median) (Fin 0)) (ValueError ''median_delta_ms must be positive''),
          fails (fless (jnum spread) (Fin 0)) (ValueError ''iqr_delta_ms must be non-negative''),
          unless_close median (num_median (jlist_of deltas)) ''median_delta_ms does not match deltas'',
          unless_close spread (num_iqr (jlist_of deltas)) ''iqr_delta_ms does not match deltas'',
          unless_finite (jget s ''positive_delta_share'') (\<not> unit_number (jget s ''positive_delta_share'')) ''must be in [0, 1]'',
          unless_finite (jget s ''top1_selection_frequency'') (\<not> unit_number (jget s ''top1_selection_frequency'')) ''must be in [0, 1]'',
          fails (\<not> int_from 0 (jget s ''span_count'')) (ValueError ''must be non-negative integer''),
          fails (\<not> int_from 0 (jget s ''traceloom_link_count'')) (ValueError ''must be non-negative integer''),
          fails (jint_of (jget s ''span_count'') = 0) (ValueError ''span_count must be positive''),
          fails (\<not> text_list (jget s ''owners'')) (ValueError ''is invalid''),
          fails (\<not> distinct (texts (jget s ''owners''))) (ValueError ''contains duplicates''),
          fails (\<not> text_list (jget s ''edge_kinds'')) (ValueError ''is invalid''),
          fails (\<not> distinct (texts (jget s ''edge_kinds''))) (ValueError ''contains duplicates''),
          fails (jlist_of (jget s ''owners'') = []) (ValueError ''owners must not be empty''),
          fails (\<not> set (texts (jget s ''edge_kinds'')) \<subseteq> set LIFECYCLE_EDGE_KINDS) (ValueError ''edge_kinds is unsupported''),
          fails (set (texts (jget s ''edge_kinds'')) \<subseteq> {''precedes''} \<and> jint_of (jget s ''traceloom_link_count'') = 0)
            (ValueError ''lacks causal or ownership evidence'')]))"

section \<open>A result\<close>

definition RESULT_KEYS :: "string list" where
  "RESULT_KEYS = [''schema'', ''case_id'', ''method'', ''m0_status'', ''top1'', ''top3'', ''candidates'', ''dominance_score'',
     ''confidence_score'', ''unexplained_residual_share'', ''insufficient_evidence_floor_ms'', ''bootstrap_seed'',
     ''bootstrap_resamples'', ''abstained'', ''abstain_reasons'', ''proposed_counterfactual'', ''input_complete'',
     ''input_event_loss_count'', ''started_at'', ''ended_at'', ''time_to_localize_ms'', ''automated_wall_clock_ms'']"

text \<open>\<open>isinstance(value, bool) and value\<close>\<close>

definition is_true :: "jval \<Rightarrow> bool" where "is_true v \<longleftrightarrow> v = JBool True"

definition check_identity :: "string list \<Rightarrow> jobj \<Rightarrow> pyerr option" where
  "check_identity candidate_ids p = first_error
     [exact_keys p RESULT_KEYS [],
      fails (jget p ''schema'' \<noteq> JStr RESULT_SCHEMA) (ValueError ''unexpected method result schema''),
      fails (\<not> bounded_text 64 (jget p ''case_id'')) (ValueError ''case_id must be bounded''),
      fails (jget p ''method'' \<notin> JStr ` set VIEW_NAMES) (ValueError ''method result names an unknown comparison method''),
      fails (jget p ''m0_status'' \<noteq> JStr ''NOT_M0_PROVEN'') (ValueError ''development result must remain NOT_M0_PROVEN''),
      fails (candidate_ids = [] \<or> list_ex (\<lambda>c. \<not> bounded_text 128 (JStr c)) candidate_ids)
        (ValueError ''method result candidate vocabulary is invalid''),
      fails (\<not> distinct candidate_ids) (ValueError ''method result candidate vocabulary is duplicated'')]"

definition allowed_candidate :: "string list \<Rightarrow> jval \<Rightarrow> bool" where
  "allowed_candidate candidate_ids v \<longleftrightarrow> bounded_text 128 v \<and> jstr_of v \<in> set (measurable candidate_ids)"

definition score_ids :: "jobj \<Rightarrow> string list" where
  "score_ids p = map candidate_of (objects p ''candidates'')"

definition check_ranking :: "string list \<Rightarrow> jobj \<Rightarrow> pyerr option" where
  "check_ranking candidate_ids p =
     (let top1 = jget p ''top1''; top3 = jget p ''top3'' in first_error
       [fails (top1 \<noteq> JNull \<and> \<not> allowed_candidate candidate_ids top1) (ValueError ''top1 is outside the candidate vocabulary''),
        fails (\<not> is_jlist top3 \<or> 3 < length (jlist_of top3) \<or> list_ex (\<lambda>c. \<not> allowed_candidate candidate_ids c) (jlist_of top3) \<or>
            \<not> distinct (texts top3)) (ValueError ''top3 is invalid''),
        fails (\<not> is_jlist (jget p ''candidates'')) (ValueError ''candidates must be a list''),
        first_error (map (check_candidate_score (measurable candidate_ids)) (items p ''candidates'')),
        fails (\<not> distinct (score_ids p)) (ValueError ''candidates contains duplicate ids''),
        fails (take 3 (score_ids p) \<noteq> texts top3) (ValueError ''top3 must match ranked candidates''),
        fails (1 < length (remdups (map (\<lambda>s. length (items s ''paired_deltas_ms'')) (objects p ''candidates''))))
          (ValueError ''candidates must use the same matched-pair count''),
        fails (\<not> is_jbool (jget p ''abstained'')) (ValueError ''abstained must be boolean''),
        fails (is_true (jget p ''abstained'') \<and> top1 \<noteq> JNull) (ValueError ''an abstained result cannot publish a top1 decision''),
        fails (\<not> is_true (jget p ''abstained'') \<and> \<not> bounded_text 128 top1) (ValueError ''a non-abstained result requires top1''),
        fails (\<not> is_true (jget p ''abstained'') \<and> (score_ids p = [] \<or> top1 \<noteq> JStr (hd (score_ids p))))
          (ValueError ''top1 must match the first candidate'')])"

text \<open>The shares are numbers between zero and one, so that converting them is exact.\<close>

definition check_shares :: "jobj \<Rightarrow> pyerr option" where
  "check_shares p =
     (let dominance = jnum (jget p ''dominance_score''); residual = jnum (jget p ''unexplained_residual_share'');
          shares = map (\<lambda>s. jnum (jget s ''positive_delta_share'')) (objects p ''candidates'');
          floor_ms = jget p ''insufficient_evidence_floor_ms'' in first_error
       [first_error (map (\<lambda>k. unless_finite (jget p k) (\<not> unit_number (jget p k)) ''must be in [0, 1]'')
          [''dominance_score'', ''confidence_score'', ''unexplained_residual_share'']),
        fails (\<not> fclose (fadd dominance residual) (Fin 1)) (ValueError ''dominance and residual shares must sum to one''),
        fails (fless (fadd dominance (lit (1 / 10 ^ 12))) (jnum (jget p ''confidence_score'')))
          (ValueError ''confidence cannot exceed dominance''),
        fails (shares \<noteq> [] \<and> \<not> fclose (fsum shares) (Fin 1)) (ValueError ''candidate shares must sum to one''),
        fails (shares \<noteq> [] \<and> \<not> fclose (hd shares) dominance) (ValueError ''dominance must equal the top candidate share''),
        fails (shares = [] \<and> (dominance \<noteq> Fin 0 \<or> residual \<noteq> Fin 1)) (ValueError ''without candidates must have zero dominance''),
        unless_finite floor_ms (fless (jnum floor_ms) (Fin 0)) ''insufficient_evidence_floor_ms must be non-negative'',
        fails (\<not> loose_eq (jget p ''bootstrap_seed'') (JInt BOOTSTRAP_SEED)) (ValueError ''bootstrap_seed changed''),
        fails (\<not> loose_eq (jget p ''bootstrap_resamples'') (JInt BOOTSTRAP_RESAMPLES)) (ValueError ''bootstrap_resamples changed'')])"

text \<open>
  The exact keys of what need not be an object: the characters of a text and the items of a list
  count as its keys, and indexing them by a key then raises.
\<close>

definition COUNTERFACTUAL_KEYS :: "string list" where "COUNTERFACTUAL_KEYS = [''candidate_id'', ''constraint'']"

fun is_jstr :: "jval \<Rightarrow> bool" where
  "is_jstr (JStr _) = True"
| "is_jstr _ = False"

text \<open>The message lists the unknown keys sorted, which raises for items that do not compare.\<close>

fun is_number :: "jval \<Rightarrow> bool" where
  "is_number (JFloat _) = True"
| "is_number v = is_jint v"

definition sortable :: "jval list \<Rightarrow> bool" where
  "sortable l \<longleftrightarrow> length (remdups l) \<le> 1 \<or> list_all is_jstr l \<or> list_all is_number l"

fun keys_of_any :: "jval \<Rightarrow> pyerr option" where
  "keys_of_any (JObj d) = exact_keys d COUNTERFACTUAL_KEYS []"
| "keys_of_any (JStr s) = Some (ValueError (if s = [] then ''is missing keys'' else ''contains unknown keys''))"
| "keys_of_any (JList l) = first_error
     [fails (list_ex (\<lambda>v. \<not> hashable v) l) (TypeError ''unhashable type''),
      fails (\<not> sortable (filter (\<lambda>v. v \<notin> JStr ` set COUNTERFACTUAL_KEYS) l)) (TypeError ''items do not compare''),
      fails (\<not> set l \<subseteq> JStr ` set COUNTERFACTUAL_KEYS) (ValueError ''contains unknown keys''),
      fails (\<not> JStr ` set COUNTERFACTUAL_KEYS \<subseteq> set l) (ValueError ''is missing keys''),
      Some (TypeError ''list indices must be integers or slices'')]"
| "keys_of_any _ = Some (TypeError ''object is not iterable'')"

definition check_decision :: "jobj \<Rightarrow> pyerr option" where
  "check_decision p =
     (let reasons = jget p ''abstain_reasons''; counterfactual = jget p ''proposed_counterfactual''; c = jobj_of counterfactual;
          abstain = is_true (jget p ''abstained'') in first_error
       [fails (\<not> text_list reasons) (ValueError ''abstain_reasons is invalid''),
        fails (\<not> distinct (texts reasons)) (ValueError ''abstain_reasons contains duplicates''),
        fails (abstain \<noteq> (jlist_of reasons \<noteq> [])) (ValueError ''abstention and reasons must be mutually consistent''),
        (if counterfactual = JNull then None else first_error
          [keys_of_any counterfactual,
           fails (jget c ''candidate_id'' \<noteq> jget p ''top1'' \<or> jget c ''constraint'' \<noteq> JStr ''change_only_predicted_mechanism'')
             (ValueError ''counterfactual is inconsistent'')]),
        fails (abstain \<and> counterfactual \<noteq> JNull) (ValueError ''an abstained result cannot propose a counterfactual''),
        fails (\<not> abstain \<and> counterfactual = JNull) (ValueError ''a non-abstained result requires a rank-one counterfactual''),
        fails (\<not> is_jbool (jget p ''input_complete'')) (ValueError ''input_complete must be boolean''),
        fails (\<not> int_from 0 (jget p ''input_event_loss_count''))
          (ValueError ''input_event_loss_count must be a non-negative integer''),
        fails (jint_of (jget p ''input_event_loss_count'') \<noteq> 0 \<and> is_true (jget p ''input_complete''))
          (ValueError ''a lossy method result cannot claim complete input'')])"

record instant =
  utc :: int
  aware :: bool

definition check_times :: "(string \<Rightarrow> instant option) \<Rightarrow> jobj \<Rightarrow> pyerr option" where
  "check_times parse p =
     (let started = parse (jstr_of (jget p ''started_at'')); ended = parse (jstr_of (jget p ''ended_at'')) in first_error
       [text_fields 128 p [''started_at'', ''ended_at''],
        first_error (map (\<lambda>k. unless_finite (jget p k) (fless (jnum (jget p k)) (Fin 0)) ''must be non-negative'')
          [''time_to_localize_ms'', ''automated_wall_clock_ms'']),
        fails (started = None \<or> ended = None) (ValueError ''method result timestamps must be ISO-8601''),
        fails (\<not> aware (the started) \<or> \<not> aware (the ended) \<or> utc (the ended) < utc (the started))
          (ValueError ''method result timestamps are unordered or lack timezone'')])"

definition check_method_result :: "(string \<Rightarrow> instant option) \<Rightarrow> string list \<Rightarrow> jobj \<Rightarrow> pyerr option" where
  "check_method_result parse candidate_ids p = first_error
     [check_identity candidate_ids p, check_ranking candidate_ids p, check_shares p, check_decision p, check_times parse p]"

section \<open>The file\<close>

type_synonym files = "string \<Rightarrow> jval option option"

fun json_finite :: "jval \<Rightarrow> bool" where
  "json_finite (JFloat x) = is_finite x"
| "json_finite (JList l) = list_all json_finite l"
| "json_finite (JObj d) = list_all (\<lambda>(k, v). json_finite v) d"
| "json_finite _ = True"

text \<open>Created exclusively; removed when writing it raises.\<close>

definition write_locked_result :: "bool \<Rightarrow> string \<Rightarrow> jval \<Rightarrow> files \<Rightarrow> files \<times> pyerr option" where
  "write_locked_result broken path payload files =
     (if files path \<noteq> None then (files, Some (FileExistsError path))
      else let created = files(path \<mapsto> None) in
        if \<not> json_finite payload then (created(path := None), Some (ValueError ''Out of range float values are not JSON compliant''))
        else if broken then (created(path := None), Some (OSError path))
        else (created(path \<mapsto> Some payload), None))"

definition write_locked_method_result ::
  "(string \<Rightarrow> instant option) \<Rightarrow> bool \<Rightarrow> string \<Rightarrow> jobj \<Rightarrow> string list \<Rightarrow> files \<Rightarrow> files \<times> pyerr option" where
  "write_locked_method_result parse broken path payload candidate_ids files =
     (case check_method_result parse candidate_ids payload of
        Some e \<Rightarrow> (files, Some e)
      | None \<Rightarrow> write_locked_result broken path (JObj payload) files)"

section \<open>What a recorded result says\<close>

definition evidenced :: "jobj \<Rightarrow> bool" where
  "evidenced s \<longleftrightarrow> (\<exists>k \<in> set (texts (jget s ''edge_kinds'')). k \<noteq> ''precedes'') \<or> jint_of (jget s ''traceloom_link_count'') \<noteq> 0"

definition decision_ok :: "jobj \<Rightarrow> bool" where
  "decision_ok p \<longleftrightarrow>
     (if is_true (jget p ''abstained'')
      then jget p ''top1'' = JNull \<and> items p ''abstain_reasons'' \<noteq> [] \<and> jget p ''proposed_counterfactual'' = JNull
      else items p ''abstain_reasons'' = [] \<and> (\<exists>c rest. score_ids p = c # rest \<and> jget p ''top1'' = JStr c) \<and>
        jget (jobj_of (jget p ''proposed_counterfactual'')) ''candidate_id'' = jget p ''top1'')"

definition ranking_ok :: "string list \<Rightarrow> jobj \<Rightarrow> bool" where
  "ranking_ok ids p \<longleftrightarrow> distinct (score_ids p) \<and> set (score_ids p) \<subseteq> set (measurable ids) \<and>
     texts (jget p ''top3'') = take 3 (score_ids p) \<and> list_all evidenced (objects p ''candidates'')"

definition shares_ok :: "jobj \<Rightarrow> bool" where
  "shares_ok p \<longleftrightarrow> unit_number (jget p ''dominance_score'') \<and> unit_number (jget p ''confidence_score'') \<and>
     unit_number (jget p ''unexplained_residual_share'') \<and>
     fclose (fadd (jnum (jget p ''dominance_score'')) (jnum (jget p ''unexplained_residual_share''))) (Fin 1) \<and>
     \<not> fless (fadd (jnum (jget p ''dominance_score'')) (lit (1 / 10 ^ 12))) (jnum (jget p ''confidence_score''))"

definition provenance_ok :: "(string \<Rightarrow> instant option) \<Rightarrow> jobj \<Rightarrow> bool" where
  "provenance_ok parse p \<longleftrightarrow> \<not> (is_true (jget p ''input_complete'') \<and> jint_of (jget p ''input_event_loss_count'') \<noteq> 0) \<and>
     (\<exists>s e. parse (jstr_of (jget p ''started_at'')) = Some s \<and> parse (jstr_of (jget p ''ended_at'')) = Some e \<and>
        aware s \<and> aware e \<and> utc s \<le> utc e)"

lemmas checks_passed = first_error_None fails_None list.set ball_simps not_not de_Morgan_conj de_Morgan_disj

lemma candidate_accepted:
  assumes "check_candidate_score allowed v = None"
  shows "candidate_of (jobj_of v) \<in> set allowed \<and> evidenced (jobj_of v)"
proof -
  note parts = assms [unfolded check_candidate_score_def Let_def if_split [of "\<lambda>x. x = None"] checks_passed]
  from parts have "jstr_of (jget (jobj_of v) ''candidate_id'') \<in> set allowed" by blast
  moreover from parts have "\<not> set (texts (jget (jobj_of v) ''edge_kinds'')) \<subseteq> {''precedes''} \<or>
    jint_of (jget (jobj_of v) ''traceloom_link_count'') \<noteq> 0" by blast
  ultimately show ?thesis by (auto simp: candidate_of_def evidenced_def)
qed

lemma ranking_accepted:
  assumes "check_ranking ids p = None"
  shows "ranking_ok ids p"
proof -
  note parts = assms [unfolded check_ranking_def Let_def checks_passed set_map]
  have each: "check_candidate_score (measurable ids) v = None" if "v \<in> set (items p ''candidates'')" for v
    using parts that by blast
  have "set (score_ids p) \<subseteq> set (measurable ids) \<and> list_all evidenced (objects p ''candidates'')"
    using each [THEN candidate_accepted] by (auto simp: score_ids_def objects_def list_all_iff)
  moreover from parts have "distinct (score_ids p)" "take 3 (score_ids p) = texts (jget p ''top3'')" by blast+
  ultimately show ?thesis by (simp add: ranking_ok_def)
qed

lemma decision_accepted:
  assumes "check_ranking ids p = None" "check_decision p = None"
  shows "decision_ok p"
proof -
  note ranks = assms(1) [unfolded check_ranking_def Let_def checks_passed]
  note parts = assms(2) [unfolded check_decision_def Let_def if_split [of "\<lambda>x. x = None"] checks_passed]
  show ?thesis
  proof (cases "is_true (jget p ''abstained'')")
    case True
    with ranks have "jget p ''top1'' = JNull" by blast
    moreover from True parts have "items p ''abstain_reasons'' \<noteq> []" "jget p ''proposed_counterfactual'' = JNull" by blast+
    ultimately show ?thesis using True by (simp add: decision_ok_def)
  next
    case False
    with ranks have "score_ids p \<noteq> []" "jget p ''top1'' = JStr (hd (score_ids p))" by blast+
    moreover from False parts have "items p ''abstain_reasons'' = []"
      "jget (jobj_of (jget p ''proposed_counterfactual'')) ''candidate_id'' = jget p ''top1''" by blast+
    ultimately show ?thesis using False by (cases "score_ids p") (simp_all add: decision_ok_def)
  qed
qed

lemma shares_accepted:
  assumes "check_shares p = None"
  shows "shares_ok p"
proof -
  note parts = assms [unfolded check_shares_def Let_def checks_passed set_map unless_finite_None]
  from parts show ?thesis unfolding shares_ok_def by blast
qed

lemma provenance_accepted:
  assumes "check_decision p = None" "check_times parse p = None"
  shows "provenance_ok parse p"
proof -
  note parts = assms(1) [unfolded check_decision_def Let_def checks_passed]
  note times = assms(2) [unfolded check_times_def Let_def checks_passed]
  from times obtain s e where parsed: "parse (jstr_of (jget p ''started_at'')) = Some s" "parse (jstr_of (jget p ''ended_at'')) = Some e"
    by blast
  with times have "aware s" "aware e" "utc s \<le> utc e" by auto
  with parsed parts show ?thesis unfolding provenance_ok_def by blast
qed

text \<open>
  C15. A result is recorded once, and only when it is consistent. Recording either fails and leaves the
  files as they were, or finds no file at the path and creates one that holds the payload, all
  others untouched; and then the payload is consistent: it abstains with reasons, without a cause and
  a counterfactual, or names the first of its candidates and proposes its counterfactual; the top three
  are the first three of distinct measurable candidates, each with causal or link evidence; the
  shares are between zero and one and add up; a complete input lost nothing; and it ended no earlier
  than it started.
\<close>
theorem results_are_recorded_once:
  "case write_locked_method_result parse broken path p ids files of
     (files', Some e) \<Rightarrow> files' = files
   | (files', None) \<Rightarrow> files path = None \<and> files' = files(path \<mapsto> Some (JObj p)) \<and> decision_ok p \<and> ranking_ok ids p \<and>
       shares_ok p \<and> provenance_ok parse p"
proof (cases "check_method_result parse ids p")
  case None
  then have "check_ranking ids p = None" "check_shares p = None" "check_decision p = None" "check_times parse p = None"
    unfolding check_method_result_def checks_passed by blast+
  with None show ?thesis
    by (auto simp: write_locked_method_result_def write_locked_result_def Let_def
        decision_accepted ranking_accepted shares_accepted provenance_accepted)
qed (simp add: write_locked_method_result_def)

text \<open>
  C24. A result with a candidate that no link and no edge other than \<open>precedes\<close> supports cannot be
  recorded: whatever else it says, abstaining for that very reason included, the writer refuses it.
\<close>
theorem unlinked_results_are_refused:
  assumes "s \<in> set (ar_candidates r)" "set (cs_edge_kinds s) \<subseteq> {''precedes''}" "cs_traceloom_link_count s = 0"
  shows "\<exists>e. write_locked_method_result parse broken path (result_payload r started ended elapsed) ids files = (files, Some e)"
proof -
  let ?p = "result_payload r started ended elapsed"
  have candidates: "objects ?p ''candidates'' = map (jobj_of \<circ> score_payload) (ar_candidates r)"
    by (simp add: objects_def result_payload_def jget_def)
  have "\<not> evidenced (jobj_of (score_payload s))"
    using assms(2,3) by (auto simp: evidenced_def score_payload_def jget_def texts_def)
  then have "\<not> ranking_ok ids ?p" using assms(1) by (auto simp: ranking_ok_def candidates list_all_iff)
  then have "check_method_result parse ids ?p \<noteq> None" using ranking_accepted unfolding check_method_result_def checks_passed by blast
  then show ?thesis by (auto simp: write_locked_method_result_def)
qed

definition sample_unlinked :: candidate_score where
  "sample_unlinked = \<lparr>cs_candidate_id = ''c1'', cs_paired_deltas_ms = [Fin 8, Fin 8, Fin 8, Fin 8, Fin 8],
     cs_median_delta_ms = Fin 8, cs_iqr_delta_ms = Fin 0, cs_bootstrap_ci95_ms = (Fin 8, Fin 8),
     cs_positive_delta_share = Fin 1, cs_top1_selection_frequency = Fin 1, cs_span_count = 10, cs_owners = [''o''],
     cs_edge_kinds = [''precedes''], cs_traceloom_link_count = 0\<rparr>"

definition sample_abstained :: "string list \<Rightarrow> candidate_score list \<Rightarrow> attribution_result" where
  "sample_abstained reasons scores = \<lparr>ar_case_id = JStr ''case-1'', ar_top1 = None, ar_top3 = map cs_candidate_id scores,
     ar_candidates = scores, ar_dominance_score = (if scores = [] then Fin 0 else Fin 1),
     ar_confidence_score = (if scores = [] then Fin 0 else Fin 1),
     ar_unexplained_residual_share = (if scores = [] then Fin 1 else Fin 0), ar_insufficient_evidence_floor_ms = Fin 5,
     ar_abstain_reasons = reasons, ar_input_complete = False, ar_input_event_loss_count = 0\<rparr>"

lemma unlinked_results_are_refused_witness:
  "\<exists>e. write_locked_method_result (\<lambda>_. Some \<lparr>utc = 0, aware = True\<rparr>) False ''result.json''
     (result_payload (sample_abstained [''unlinked_lifecycle_span''] [sample_unlinked]) ''t0'' ''t1'' (Fin 1)) sample_ids (\<lambda>_. None) =
     (\<lambda>_. None, Some e)"
  by (rule unlinked_results_are_refused [of sample_unlinked]) (simp_all add: sample_abstained_def sample_unlinked_def)

text \<open>A result without candidates is recorded, and so is one whose candidate has an edge that counts.\<close>

lemma abstained_results_are_recorded:
  "snd (write_locked_method_result (\<lambda>_. Some \<lparr>utc = 0, aware = True\<rparr>) False ''result.json''
     (result_payload (sample_abstained [''no_positive_candidate_delta''] []) ''t0'' ''t1'' (Fin 1)) sample_ids (\<lambda>_. None)) = None"
  "snd (write_locked_method_result (\<lambda>_. Some \<lparr>utc = 0, aware = True\<rparr>) False ''result.json''
     (result_payload (sample_abstained [''event_loss''] [sample_unlinked\<lparr>cs_edge_kinds := [''precedes'', ''request_handoff'']\<rparr>])
       ''t0'' ''t1'' (Fin 1)) sample_ids (\<lambda>_. None)) = None"
  by code_simp+

end
