(* ===== verification/Spec2Isabelle.thy ===== *)
theory Spec2Isabelle
  imports Exporter_Capacity Observer_Factory Observer_Properties Case_Acceptance Case_Results
begin

text \<open>
  Verification library of the vLLM request lifecycle profiler
  (\<open>src/vllm_request_lifecycle_profiler\<close>). The profiler hangs on an inference engine: producers hand
  event, edge and KV-recovery records to a bounded exporter, which checks them against a frozen wire
  protocol, queues them, and writes them from one thread to an append-only JSONL shard per process;
  at close the shard is sealed with a summary and published under its formal name.

  Theories, in import order.

  \<^item> \<open>Profiler_Prelude\<close>: Python values and errors, decimal and hexadecimal text, validators that stop
    at the first failing check, reachability and the \<open>invariant\<close> locale.
  \<^item> \<open>Sha256\<close>, \<open>Canonical_Json\<close>: \<open>hashlib.sha256\<close> and \<open>json.dumps(sort_keys, compact)\<close> as the source
    uses them, executable; the framing of lines.
  \<^item> \<open>Runtime_Protocol\<close>: \<open>runtime_protocol.py\<close>, the whole file: vocabulary, drafts, every validator,
    the five builders. \<open>Record_Bounds\<close>: what an accepted record satisfies (size, identity, privacy,
    spans, counts), proved by bounding every field.
  \<^item> \<open>Profile_Protocol\<close>: \<open>kv_recovery_profile_protocol.py\<close>, the whole file, with its properties.
  \<^item> \<open>Exporter_State\<close>: \<open>JsonlTraceSink\<close>'s state and producer critical sections (\<open>runtime_hooks.py\<close>).
    The counters of the base shard and of the profile shard are the same record \<open>chan\<close>.
  \<^item> \<open>Exporter_Writer\<close>: the writer thread as a program counter (\<open>wphase\<close>) over the shared sink, one step
    per point where the lock is free or the file system was touched, \<open>close\<close>, fork detachment and
    initialization. What the operating system and the clocks answer is the argument \<open>env\<close> of a step.
    Some steps hold more than one critical section: a reserved control is charged, written and given
    back in one (\<open>Exporter_Capacity\<close> treats what may run in between), publication and the claim that
    follows it are one each. \<open>detach_after_fork_child\<close> is no action of the system of one process: it
    makes the child's copy of the sink, which \<open>close_claim_is_final\<close> follows.
  \<^item> \<open>Exporter_Accounting\<close>: the counters against the pending records, operation by operation.
  \<^item> \<open>Exporter_System\<close>, \<open>Exporter_Invariants\<close>: the transition system of producers, closers and writer,
    and the conservation invariant, an interpretation of \<open>invariant\<close>.
  \<^item> \<open>Exporter_Shards\<close>: what is on disk at each point of the writer, interpreted for all runs and for
    runs in which the writer meets no deadline.
  \<^item> \<open>Exporter_Properties\<close>: concrete runs, batches, termination of the writer, and the properties.
    \<open>Exporter_Capacity\<close>: the bounds of the queue, also while the writer holds a reserved control record.
  \<^item> \<open>Lifecycle_Hooks\<close>: \<open>RuntimeTraceConfig\<close>, \<open>NullTraceSink\<close> and \<open>RuntimeLifecycleHooks\<close>
    (\<open>runtime_hooks.py\<close>): the choice of the sink, fail-open emission, the forked child.
  \<^item> \<open>Lifecycle_Bridge\<close>: \<open>RuntimeBaseLifecycleBridge\<close> (\<open>kv_recovery_runtime.py\<close>) over a record of the
    three hook operations it calls. \<open>Bridge_Contract\<close> reads its operations through weakest preconditions
    under the locale \<open>recorder_contract\<close>, \<open>Bridge_Ops\<close> proves each operation causal in it,
    \<open>Bridge_Properties\<close> interprets it on the facade and holds the bridge's properties.
  \<^item> \<open>Profile_Ledger\<close>: \<open>BoundedKVRecoveryProfileLedger\<close>, and its refinement of a journal of outcomes.
  \<^item> \<open>Worker_Adapter\<close>, \<open>Worker_Properties\<close>: \<open>KVRecoveryWorkerEvidenceAdapter\<close>; its receipts, waits and
    transfer rows.
  \<^item> \<open>Scheduler_Adapter\<close>: \<open>KVRecoverySchedulerAdapter\<close>. \<open>Bridge_Frame\<close> proves in the locale
    \<open>recorder_frame\<close> that the bridge keeps whatever its recorder keeps, with the ledger, the trace of
    the services and the log of recordings as interpretations, and follows a request from its admission
    to an abnormal end; \<open>Scheduler_Properties\<close> has the transition system of the callbacks
    and the chains of recovery rows; \<open>Scheduler_Failsafe\<close> which callbacks can raise, in a locale of
    services that do not.
  \<^item> \<open>Recovery_Normalizer\<close>: the offline normalizers of \<open>kv_recovery_runtime.py\<close>, with a complete sample
    in \<open>Recovery_Samples\<close>. \<open>Normalizer_Properties\<close>: what an accepted restore and episode consist of.
    \<open>Recovery_Roundtrip\<close>: the records the adapters build for a restore are accepted.
  \<^item> \<open>Runtime_Observers\<close>: \<open>native_event_bus.py\<close> and \<open>issue19_lifecycle.py\<close> over the bridge and a recorder
    of the hooks. \<open>Observer_Properties\<close>: which of their events the record builder takes, and the state
    the lifecycle observer keeps.
  \<^item> \<open>Observer_Factory\<close>: \<open>KVRecoveryObserverFactoryAdapter\<close>, for whom it makes observers and how it
    closes them.
  \<^item> \<open>Python_Float\<close>, \<open>Json_Value\<close>: binary64 with its rounding, executable, and what \<open>json.loads\<close> gives,
    for the offline evaluators.
  \<^item> \<open>Case_Validation\<close>, \<open>Case_Scoring\<close>, \<open>Case_Results\<close>: \<open>blind_attribution.py\<close>, the whole file: the closed
    schema of a case bundle, the five views, the scorer, and the result that is written once.
    \<open>Case_Evidence\<close>: the search for cycles is acyclicity, the sweep over intervals the measure of their
    union, and what an accepted arm satisfies. \<open>Case_Decisions\<close>, \<open>Case_Acceptance\<close>: what a score and a named
    cause rest on. \<open>Case_Samples\<close>: the bundle the theorems are applied to.

  Bounds. The only loops without a structural measure are the write loop (terminates because every
  accepted count is positive) and the writer thread, for which \<open>writer_work\<close> bounds the steps left
  after close is requested. Integers are Python's; sequence numbers are checked against 2^64 - 1 where
  the source does. The recursive search for cycles runs on \<open>limit\<close> stack frames, which are enough
  when there are more of them than spans.

  Parameters. The objects of the runtime's evidence ABI (vLLM's, loaded by name) are records of the
  attributes the adapters read, their constructors are the parameters \<open>abi\<close> and \<open>mk_receipt\<close>; clocks
  and operating system answers are arguments. So are the indices the seeded generator of the bootstrap
  draws, the TraceLoom databases, and \<open>datetime.fromisoformat\<close>. Where the source iterates a set, as the
  search for cycles does, the model takes a list, which stands for the order of the iteration.

  Not modelled. File descriptors, permissions and paths are reduced to what the formal and the
  incomplete name denote; the test-only writer gate; \<open>atexit\<close>; log handlers; the constructor's checks of the communication mode and
  the provenance, which refuse a sink before it exists; floats in the records of the normalizers. Reading and printing the text of JSON files in the
  evaluators. Experiment drivers, plugin glue, benchmarks and paper scripts are I/O around the library.
\<close>

end
